(* ===== verification/Prelude.thy ===== *)
theory Prelude
  imports Complex_Main "HOL-Library.Multiset"
begin

section \<open>Prelude: errors, results, tables and JavaScript containers\<close>

text \<open>
  What every component shares: the HTTP exceptions the services throw (\<open>error\<close>), the
  result of a fallible call (\<open>error + 'a\<close>, with \<open>Inl\<close> for a throw), sequencing
  (\<open>bindE\<close>, \<open>foldE\<close>, the source's \<open>await\<close> in a row or in a loop), rows of a table found and
  saved by key, the insertion-ordered \<open>Map\<close> of JavaScript, the stable
  \<open>Array.prototype.sort\<close>, and the JSON values of the \<open>jsonb\<close> columns.
  The components' lemmas are collected in \<open>table_simps\<close> (rows found and saved) and
  \<open>sum_simps\<close> (sums over rows).
\<close>

named_theorems table_simps
named_theorems sum_simps

subsection \<open>Identifiers, time and errors\<close>

text \<open>
  A \<open>uuid\<close> column is only ever compared for equality: identifiers are natural numbers and
  the database's generator is a counter. Instants are milliseconds since the epoch.
\<close>

type_synonym id = nat
type_synonym instant = int

text \<open>
  The exceptions of \<open>@nestjs/common\<close> the services throw, plus a plain \<open>Error\<close>. Messages
  are kept without their interpolated values and accents; \<open>StockConflict\<close> and \<open>LinesConflict\<close> are the
  \<open>ConflictException\<close>s that carry machine-readable \<open>details\<close>.
\<close>

datatype error =
    BadRequest string
  | Unauthorized string
  | Forbidden string
  | NotFound string
  | Conflict string
  | StockConflict int
  | LinesConflict "(id \<times> int) list"
  | Unprocessable string
  | BadGateway string
  | ServiceUnavailable string
  | InternalError string

fun is_conflict :: "error \<Rightarrow> bool" where
  "is_conflict (Conflict _) = True"
| "is_conflict (StockConflict _) = True"
| "is_conflict (LinesConflict _) = True"
| "is_conflict _ = False"

subsection \<open>Sequencing fallible steps\<close>

definition bindE :: "error + 'a \<Rightarrow> ('a \<Rightarrow> error + 'b) \<Rightarrow> error + 'b" where
  "bindE m k = (case m of Inl e \<Rightarrow> Inl e | Inr x \<Rightarrow> k x)"

definition guardE :: "bool \<Rightarrow> error \<Rightarrow> error + unit" where
  "guardE b e = (if b then Inr () else Inl e)"

fun foldE :: "('x \<Rightarrow> 's \<Rightarrow> error + 's) \<Rightarrow> 'x list \<Rightarrow> 's \<Rightarrow> error + 's" where
  "foldE f [] s = Inr s"
| "foldE f (x # xs) s = bindE (f x s) (foldE f xs)"

definition from_option :: "error \<Rightarrow> 'a option \<Rightarrow> error + 'a" where
  "from_option e x = (case x of None \<Rightarrow> Inl e | Some v \<Rightarrow> Inr v)"

lemma bindE_Inl [simp]: "bindE (Inl e) k = Inl e"
  by (simp add: bindE_def)

lemma bindE_Inr [simp]: "bindE (Inr x) k = k x"
  by (simp add: bindE_def)

lemma bindE_eq_Inr: "bindE m k = Inr y \<longleftrightarrow> (\<exists>x. m = Inr x \<and> k x = Inr y)"
  by (cases m) auto

lemma bindE_eq_Inl: "bindE m k = Inl e \<longleftrightarrow> m = Inl e \<or> (\<exists>x. m = Inr x \<and> k x = Inl e)"
  by (cases m) auto

lemma bindE_InrE:
  assumes "bindE m k = Inr y"
  obtains x where "m = Inr x" and "k x = Inr y"
  using assms by (auto simp: bindE_eq_Inr)

lemma guardE_True [simp]: "guardE True e = Inr ()"
  by (simp add: guardE_def)

lemma guardE_False [simp]: "guardE False e = Inl e"
  by (simp add: guardE_def)

lemma guardE_eq_Inr [simp]: "guardE b e = Inr u \<longleftrightarrow> b"
  by (cases b) (auto simp: guardE_def)

lemma guardE_eq_Inl [simp]: "guardE b e = Inl e' \<longleftrightarrow> \<not> b \<and> e' = e"
  by (auto simp: guardE_def)

lemma from_option_eq_Inr [simp]: "from_option e x = Inr v \<longleftrightarrow> x = Some v"
  by (cases x) (auto simp: from_option_def)

lemma from_option_eq_Inl [simp]: "from_option e x = Inl e' \<longleftrightarrow> x = None \<and> e' = e"
  by (cases x) (auto simp: from_option_def)

lemma from_option_simps [simp]:
  "from_option e None = Inl e" "from_option e (Some v) = Inr v"
  by (simp_all add: from_option_def)

lemma foldE_invariant:
  assumes "foldE f xs s = Inr s'" and "I s"
    and "\<And>x s s'. x \<in> set xs \<Longrightarrow> I s \<Longrightarrow> f x s = Inr s' \<Longrightarrow> I s'"
  shows "I s'"
  using assms
proof (induction xs arbitrary: s)
  case Nil
  then show ?case by simp
next
  case (Cons x xs)
  from Cons.prems(1) obtain s1 where s1: "f x s = Inr s1" "foldE f xs s1 = Inr s'"
    by (auto simp: bindE_eq_Inr)
  have "I s1" using Cons.prems(2,3) s1(1) by auto
  then show ?case using Cons.IH s1(2) Cons.prems(3) by auto
qed

lemma foldE_append: "foldE f (xs @ ys) s = bindE (foldE f xs s) (foldE f ys)"
  by (induction xs arbitrary: s) (auto simp: bindE_def split: sum.splits)

subsection \<open>Rows found and saved by key\<close>

text \<open>
  \<open>repository.save(row)\<close> of a loaded row rewrites the row with its key; saving a new row
  appends it. \<open>repository.find({where})\<close> is a filter over the rows.
\<close>

definition save_by :: "('r \<Rightarrow> 'k) \<Rightarrow> 'r \<Rightarrow> 'r list \<Rightarrow> 'r list" where
  "save_by key r rows = map (\<lambda>x. if key x = key r then r else x) rows"

lemma save_by_keys [table_simps]: "map key (save_by key r rows) = map key rows"
  by (induction rows) (auto simp: save_by_def)

lemma save_by_Nil [simp]: "save_by key r [] = []"
  by (simp add: save_by_def)

lemma save_by_Cons:
  "save_by key r (x # rows) = (if key x = key r then r else x) # save_by key r rows"
  by (simp add: save_by_def)

lemma length_save_by [table_simps]: "length (save_by key r rows) = length rows"
  by (simp add: save_by_def)

lemma save_by_absent: "key r \<notin> key ` set rows \<Longrightarrow> save_by key r rows = rows"
  by (induction rows) (auto simp: save_by_Cons)

lemma set_save_by:
  assumes "key r \<in> key ` set rows"
  shows "set (save_by key r rows) = insert r {x \<in> set rows. key x \<noteq> key r}"
  using assms by (auto simp: save_by_def image_iff)

lemma find_save_by:
  "List.find (\<lambda>x. key x = k) (save_by key r rows) =
     (if k = key r then (case List.find (\<lambda>x. key x = k) rows of None \<Rightarrow> None | Some _ \<Rightarrow> Some r)
      else List.find (\<lambda>x. key x = k) rows)"
  by (induction rows) (auto simp: save_by_Cons)

lemma find_key_Some:
  assumes "List.find (\<lambda>x. key x = k) rows = Some r"
  shows "r \<in> set rows" and "key r = k"
  using assms by (auto simp: find_Some_iff)

lemma find_key_None:
  "List.find (\<lambda>x. key x = k) rows = None \<longleftrightarrow> k \<notin> key ` set rows"
  by (auto simp: find_None_iff)

lemma find_distinct_key:
  assumes "distinct (map key rows)" and "r \<in> set rows"
  shows "List.find (\<lambda>x. key x = key r) rows = Some r"
  using assms by (induction rows) auto

lemma find_append:
  "List.find P (xs @ ys) = (case List.find P xs of None \<Rightarrow> List.find P ys | Some x \<Rightarrow> Some x)"
  by (induction xs) auto

subsection \<open>Sums over rows\<close>

definition sum_where :: "('r \<Rightarrow> bool) \<Rightarrow> ('r \<Rightarrow> int) \<Rightarrow> 'r list \<Rightarrow> int" where
  "sum_where p f rows = sum_list (map f (filter p rows))"

lemma sum_where_Nil [simp]: "sum_where p f [] = 0"
  by (simp add: sum_where_def)

lemma sum_where_Cons [simp]:
  "sum_where p f (x # xs) = (if p x then f x else 0) + sum_where p f xs"
  by (simp add: sum_where_def)

lemma sum_where_append [sum_simps]:
  "sum_where p f (xs @ ys) = sum_where p f xs + sum_where p f ys"
  by (simp add: sum_where_def)

lemma sum_where_nonneg:
  "(\<And>x. x \<in> set xs \<Longrightarrow> p x \<Longrightarrow> 0 \<le> f x) \<Longrightarrow> 0 \<le> sum_where p f xs"
  by (induction xs) auto

lemma sum_where_member_le:
  assumes "x \<in> set xs" "p x" "\<And>y. y \<in> set xs \<Longrightarrow> p y \<Longrightarrow> 0 \<le> f y"
  shows "f x \<le> sum_where p f xs"
  using assms
proof (induction xs)
  case Nil
  then show ?case by simp
next
  case (Cons y ys)
  have nn: "0 \<le> sum_where p f ys"
    using Cons.prems(3) by (intro sum_where_nonneg) auto
  show ?case
  proof (cases "x = y")
    case True
    then show ?thesis using Cons.prems nn by auto
  next
    case False
    then have "f x \<le> sum_where p f ys"
      using Cons by auto
    moreover have "p y \<Longrightarrow> 0 \<le> f y" using Cons.prems(3) by simp
    ultimately show ?thesis by auto
  qed
qed

lemma sum_where_cong:
  "(\<And>x. x \<in> set xs \<Longrightarrow> p x = q x) \<Longrightarrow> (\<And>x. x \<in> set xs \<Longrightarrow> p x \<Longrightarrow> f x = g x) \<Longrightarrow>
   sum_where p f xs = sum_where q g xs"
  by (induction xs) auto

lemma sum_where_False: "(\<And>x. x \<in> set xs \<Longrightarrow> \<not> p x) \<Longrightarrow> sum_where p f xs = 0"
  by (induction xs) auto

lemma sum_where_mset:
  "mset xs = mset ys \<Longrightarrow> sum_where p f xs = sum_where p f ys"
  unfolding sum_where_def
  by (metis mset_filter mset_map sum_mset_sum_list)

lemma sum_where_map [sum_simps]:
  "sum_where p f (map g xs) = sum_where (\<lambda>x. p (g x)) (\<lambda>x. f (g x)) xs"
  by (induction xs) auto

lemma sum_where_filter [sum_simps]:
  "sum_where p f (filter q xs) = sum_where (\<lambda>x. q x \<and> p x) f xs"
  by (induction xs) auto

lemma sum_where_add: "sum_where p (\<lambda>x. f x + g x) xs = sum_where p f xs + sum_where p g xs"
  by (induction xs) auto

text \<open>Saving a row changes a sum by that row's own contribution.\<close>

lemma sum_where_save_by:
  assumes "distinct (map key rows)" and "old \<in> set rows" and "key old = key r"
  shows "sum_where p f (save_by key r rows) =
    sum_where p f rows - (if p old then f old else 0) + (if p r then f r else 0)"
  using assms
proof (induction rows)
  case Nil
  then show ?case by simp
next
  case (Cons x rows)
  show ?case
  proof (cases "x = old")
    case True
    with Cons.prems have "key r \<notin> key ` set rows" by auto
    then have "save_by key r rows = rows" by (rule save_by_absent)
    with True Cons.prems(3) show ?thesis by (simp add: save_by_Cons)
  next
    case False
    with Cons.prems have in_rows: "old \<in> set rows" and d: "distinct (map key rows)" by auto
    have "key x \<noteq> key r" using Cons.prems in_rows by (metis distinct.simps(2) image_eqI list.set_map list.simps(9))
    then show ?thesis using Cons.IH [OF d in_rows Cons.prems(3)] by (simp add: save_by_Cons)
  qed
qed

subsection \<open>The insertion-ordered Map of JavaScript\<close>

text \<open>
  A \<open>Map\<close> keeps its keys in the order they were first set: an association list where
  \<open>set\<close> replaces in place or appends.
\<close>

fun jm_get :: "'k \<Rightarrow> ('k \<times> 'v) list \<Rightarrow> 'v option" where
  "jm_get k [] = None"
| "jm_get k ((k', v) # m) = (if k = k' then Some v else jm_get k m)"

fun jm_set :: "'k \<Rightarrow> 'v \<Rightarrow> ('k \<times> 'v) list \<Rightarrow> ('k \<times> 'v) list" where
  "jm_set k v [] = [(k, v)]"
| "jm_set k v ((k', v') # m) = (if k = k' then (k, v) # m else (k', v') # jm_set k v m)"

lemma jm_get_set [table_simps]: "jm_get k' (jm_set k v m) = (if k' = k then Some v else jm_get k' m)"
  by (induction k v m rule: jm_set.induct) auto

lemma jm_set_keys: "set (map fst (jm_set k v m)) = insert k (set (map fst m))"
  by (induction k v m rule: jm_set.induct) auto

lemma jm_set_distinct: "distinct (map fst m) \<Longrightarrow> distinct (map fst (jm_set k v m))"
proof (induction k v m rule: jm_set.induct)
  case (1 k v)
  then show ?case by simp
next
  case (2 k v k' v' m)
  have "fst ` set (jm_set k v m) = insert k (fst ` set m)"
    using jm_set_keys [of k v m] by (metis list.set_map)
  with 2 show ?case by auto
qed

lemma jm_set_new: "k \<notin> fst ` set m \<Longrightarrow> jm_set k v m = m @ [(k, v)]"
  by (induction k v m rule: jm_set.induct) auto

lemma jm_get_None: "jm_get k m = None \<longleftrightarrow> k \<notin> fst ` set m"
  by (induction k m rule: jm_get.induct) auto

lemma jm_get_Some_in: "jm_get k m = Some v \<Longrightarrow> (k, v) \<in> set m"
  by (induction k m rule: jm_get.induct) (auto split: if_splits)

lemma jm_get_in: "distinct (map fst m) \<Longrightarrow> (k, v) \<in> set m \<Longrightarrow> jm_get k m = Some v"
  by (induction k m rule: jm_get.induct) (auto simp: image_iff)

text \<open>Accumulating a number per key, the way the services merge quantities.\<close>

definition jm_add :: "'k \<Rightarrow> int \<Rightarrow> ('k \<times> int) list \<Rightarrow> ('k \<times> int) list" where
  "jm_add k n m = jm_set k (case jm_get k m of None \<Rightarrow> n | Some v \<Rightarrow> v + n) m"

lemma jm_add_total:
  "distinct (map fst m) \<Longrightarrow>
   sum_where (\<lambda>(k', v). k' = q) snd (jm_add k n m) =
   sum_where (\<lambda>(k', v). k' = q) snd m + (if k = q then n else 0)"
proof (induction m)
  case Nil
  then show ?case by (simp add: jm_add_def)
next
  case (Cons a m)
  obtain k' v where a: "a = (k', v)" by force
  show ?case
  proof (cases "k = k'")
    case True
    then show ?thesis by (simp add: a jm_add_def)
  next
    case False
    then have "jm_add k n (a # m) = a # jm_add k n m"
      by (simp add: a jm_add_def)
    with Cons show ?thesis by simp
  qed
qed

lemma jm_add_distinct: "distinct (map fst m) \<Longrightarrow> distinct (map fst (jm_add k n m))"
  by (simp add: jm_add_def jm_set_distinct)

lemma jm_add_keys: "fst ` set (jm_add k n m) = insert k (fst ` set m)"
  using jm_set_keys [of k _ m] by (metis jm_add_def list.set_map)

text \<open>\<open>[...new Set(xs)]\<close>: the first occurrence of each element, in order.\<close>

definition js_set :: "'a list \<Rightarrow> 'a list" where
  "js_set xs = rev (remdups (rev xs))"

lemma set_js_set [simp]: "set (js_set xs) = set xs"
  by (simp add: js_set_def)

lemma distinct_js_set [simp]: "distinct (js_set xs)"
  by (simp add: js_set_def)

lemma js_set_eq_Nil [simp]: "js_set xs = [] \<longleftrightarrow> xs = []"
  by (simp add: js_set_def)

subsection \<open>Invariants of step relations\<close>

locale stepwise =
  fixes step :: "'s \<Rightarrow> 's \<Rightarrow> bool" and inv :: "'s \<Rightarrow> bool"
  assumes keeps: "inv s \<Longrightarrow> step s s' \<Longrightarrow> inv s'"
begin

lemma run: "step\<^sup>*\<^sup>* s s' \<Longrightarrow> inv s \<Longrightarrow> inv s'"
  by (induction rule: rtranclp_induct) (auto intro: keeps)

end

subsection \<open>Stable sorting with a comparator\<close>

text \<open>\<open>Array.prototype.sort(cmp)\<close> is stable and orders by \<open>cmp a b \<le> 0\<close>.\<close>

fun insert_cmp :: "('a \<Rightarrow> 'a \<Rightarrow> int) \<Rightarrow> 'a \<Rightarrow> 'a list \<Rightarrow> 'a list" where
  "insert_cmp cmp x [] = [x]"
| "insert_cmp cmp x (y # ys) = (if cmp x y \<le> 0 then x # y # ys else y # insert_cmp cmp x ys)"

definition js_sort :: "('a \<Rightarrow> 'a \<Rightarrow> int) \<Rightarrow> 'a list \<Rightarrow> 'a list" where
  "js_sort cmp xs = foldr (insert_cmp cmp) xs []"

lemma mset_insert_cmp: "mset (insert_cmp cmp x ys) = add_mset x (mset ys)"
  by (induction ys) auto

lemma mset_js_sort [simp]: "mset (js_sort cmp xs) = mset xs"
  by (induction xs) (auto simp: js_sort_def mset_insert_cmp)

lemma set_js_sort [simp]: "set (js_sort cmp xs) = set xs"
  by (metis mset_js_sort set_mset_mset)

lemma distinct_js_sort [simp]: "distinct (map f (js_sort cmp xs)) = distinct (map f xs)"
  by (metis mset_js_sort mset_map mset_eq_imp_distinct_iff)

lemma sum_where_js_sort [sum_simps]: "sum_where p f (js_sort cmp xs) = sum_where p f xs"
  by (rule sum_where_mset) simp

lemma sorted_insert_cmp:
  assumes "sorted_wrt (\<lambda>a b. cmp a b \<le> 0) ys"
    and total: "\<And>a b. cmp a b \<le> 0 \<or> cmp b a \<le> 0"
    and trans: "\<And>a b c. cmp a b \<le> 0 \<Longrightarrow> cmp b c \<le> 0 \<Longrightarrow> cmp a c \<le> 0"
  shows "sorted_wrt (\<lambda>a b. cmp a b \<le> 0) (insert_cmp cmp x ys)"
  using assms(1)
proof (induction ys)
  case Nil
  then show ?case by simp
next
  case (Cons y ys)
  show ?case
  proof (cases "cmp x y \<le> 0")
    case True
    then show ?thesis using Cons.prems trans by auto
  next
    case False
    then have "cmp y x \<le> 0" using total by blast
    moreover have "set (insert_cmp cmp x ys) = insert x (set ys)"
      by (metis mset_insert_cmp set_mset_add_mset_insert set_mset_mset)
    ultimately show ?thesis using Cons False by auto
  qed
qed

lemma sorted_js_sort:
  assumes "\<And>a b. cmp a b \<le> 0 \<or> cmp b a \<le> 0"
    and "\<And>a b c. cmp a b \<le> 0 \<Longrightarrow> cmp b c \<le> 0 \<Longrightarrow> cmp a c \<le> 0"
  shows "sorted_wrt (\<lambda>a b. cmp a b \<le> 0) (js_sort cmp xs)"
  by (induction xs) (simp_all add: js_sort_def sorted_insert_cmp assms)

subsection \<open>JSON values\<close>

datatype json =
    JNull
  | JBool bool
  | JNum rat
  | JStr string
  | JArr "json list"
  | JObj "(string \<times> json) list"

text \<open>\<open>obj.key\<close>: \<open>None\<close> is \<open>undefined\<close>.\<close>

fun json_field :: "string \<Rightarrow> json \<Rightarrow> json option" where
  "json_field k (JObj fs) = jm_get k fs"
| "json_field k _ = None"

end
