(* ===== verification/Js_Number.thy ===== *)
theory Js_Number
  imports Prelude "HOL-Library.Log_Nat"
begin

section \<open>JavaScript numbers: binary64 arithmetic, \<open>Math.round\<close> and \<open>toFixed(2)\<close>\<close>

text \<open>
  The services compute money with JavaScript's \<open>number\<close>: IEEE-754 binary64, where every
  operation is the exact result rounded to the nearest representable number, ties to even.
  A finite \<open>number\<close> is modelled by its exact rational value, and \<open>rnd64\<close> is the rounding,
  with the exponent range at the small end; \<open>rnd64\<close> has no upper exponent bound (no
  amount here comes near \<open>2^1024\<close>), \<open>NaN\<close> and the infinities do not arise from the
  finite inputs of the code, and \<open>-0\<close> is not told apart from \<open>0\<close>.

  A \<open>decimal(12,2)\<close> column travels as a string such as \<open>12.50\<close>; it is modelled by its
  number of hundredths (\<open>1250\<close>), so \<open>Number(column)\<close> is \<open>dec_num\<close> and
  \<open>x.toFixed(2)\<close>, the string, is the integer \<open>to_fixed2 x\<close>.

  The locale \<open>binary_rounding\<close> states what the money computations rely on of the
  rounding; it is interpreted on \<open>rnd64\<close> at the end of the theory, and its lemmas say
  that the computations of the services on whole cents are exact.
\<close>

type_synonym num64 = rat
type_synonym cents = int

subsection \<open>Rounding to binary64\<close>

definition pow2 :: "int \<Rightarrow> rat" where
  "pow2 e = (if 0 \<le> e then 2 ^ nat e else 1 / 2 ^ nat (- e))"

text \<open>The exponent of a positive rational: the \<open>k\<close> with \<open>2^k \<le> x < 2^(k+1)\<close>.\<close>

definition ilog2 :: "rat \<Rightarrow> int" where
  "ilog2 x = (let (p, q) = quotient_of x; k = bitlen p - bitlen q
              in if pow2 k \<le> x then k else k - 1)"

definition round_even :: "rat \<Rightarrow> int" where
  "round_even r = (let f = \<lfloor>r\<rfloor>; d = r - of_int f in
     if d < 1/2 then f else if 1/2 < d then f + 1 else if even f then f else f + 1)"

definition rnd64 :: "rat \<Rightarrow> num64" where
  "rnd64 x = (if x = 0 then 0
     else let q = pow2 (max (ilog2 \<bar>x\<bar> - 52) (- 1074)) in of_int (round_even (x / q)) * q)"

subsection \<open>The operations the code uses\<close>

definition js_add :: "num64 \<Rightarrow> num64 \<Rightarrow> num64" where
  "js_add x y = rnd64 (x + y)"

definition js_sub :: "num64 \<Rightarrow> num64 \<Rightarrow> num64" where
  "js_sub x y = rnd64 (x - y)"

definition js_mul :: "num64 \<Rightarrow> num64 \<Rightarrow> num64" where
  "js_mul x y = rnd64 (x * y)"

definition js_div :: "num64 \<Rightarrow> num64 \<Rightarrow> num64" where
  "js_div x y = rnd64 (x / y)"

text \<open>\<open>Math.round\<close>: the closest integer, ties towards plus infinity, computed exactly.\<close>

definition math_round :: "num64 \<Rightarrow> int" where
  "math_round x = \<lfloor>x + 1/2\<rfloor>"

text \<open>
  \<open>x.toFixed(2)\<close>: the integer \<open>n\<close> with \<open>n/100\<close> closest to the exact value of \<open>x\<close>, the
  larger one of two; a negative number is formatted by its absolute value.
\<close>

definition to_fixed2 :: "num64 \<Rightarrow> cents" where
  "to_fixed2 x = (if x < 0 then - \<lfloor>- x * 100 + 1/2\<rfloor> else \<lfloor>x * 100 + 1/2\<rfloor>)"

definition dec_num :: "cents \<Rightarrow> num64" where
  "dec_num c = rnd64 (of_int c / 100)"

subsection \<open>Facts about the rounding\<close>

lemma pow2_pos [simp]: "0 < pow2 e"
  by (simp add: pow2_def)

lemma pow2_nonzero [simp]: "pow2 e \<noteq> 0"
  using pow2_pos [of e] by linarith

lemma pow2_add: "pow2 (a + b) = pow2 a * pow2 b"
proof -
  have p: "pow2 e = 2 powi e" for e
    unfolding pow2_def power_int_def by (simp add: inverse_eq_divide power_one_over)
  show ?thesis unfolding p by (rule power_int_add) simp
qed

lemma pow2_nat: "pow2 (int n) = 2 ^ n"
  by (simp add: pow2_def)

lemma pow2_mono: "a \<le> b \<Longrightarrow> pow2 a \<le> pow2 b"
proof -
  assume "a \<le> b"
  then obtain n where b: "b = a + int n" using zle_iff_zadd by blast
  have "(1::rat) \<le> 2 ^ n" by simp
  then have "pow2 a * 1 \<le> pow2 a * 2 ^ n"
    by (intro mult_left_mono) (auto simp: less_imp_le)
  then show ?thesis by (simp add: b pow2_add pow2_nat)
qed

lemma ilog2_lower:
  assumes "0 < x"
  shows "pow2 (ilog2 x) \<le> x"
proof -
  obtain p q where pq: "quotient_of x = (p, q)" by force
  from pq have q: "0 < q" by (rule quotient_of_denom_pos)
  have x: "x = of_int p / of_int q" using pq by (rule quotient_of_div)
  with assms q have p: "0 < p" by (simp add: zero_less_divide_iff)
  let ?k = "bitlen p - bitlen q"
  have pb: "2 ^ nat (bitlen p - 1) \<le> p" using bitlen_bounds [OF p] by simp
  have qb: "q < 2 ^ nat (bitlen q)" using bitlen_bounds [OF q] by simp
  have np: "1 \<le> bitlen p" using p bitlen_eq_zero_iff [of p] bitlen_nonneg [of p] by linarith
  have nq: "0 \<le> bitlen q" by (rule bitlen_nonneg)
  have "pow2 (bitlen p - 1) \<le> of_int p"
  proof -
    have "pow2 (bitlen p - 1) = of_int (2 ^ nat (bitlen p - 1))" using np by (simp add: pow2_def)
    also have "\<dots> \<le> of_int p" using pb by (subst of_int_le_iff) simp
    finally show ?thesis .
  qed
  moreover have "of_int q \<le> pow2 (bitlen q)"
  proof -
    have "(of_int q :: rat) \<le> of_int (2 ^ nat (bitlen q))" using qb by (subst of_int_le_iff) simp
    then show ?thesis using nq by (simp add: pow2_def)
  qed
  moreover have "pow2 (?k - 1) * pow2 (bitlen q) = pow2 (bitlen p - 1)"
    by (simp add: pow2_add [symmetric])
  ultimately have "pow2 (?k - 1) * of_int q \<le> of_int p"
    by (metis (no_types, opaque_lifting) less_imp_le mult_left_mono order_trans pow2_pos)
  then have "pow2 (?k - 1) \<le> x"
    using q x by (simp add: pos_le_divide_eq)
  then show ?thesis by (auto simp: ilog2_def pq Let_def)
qed

lemma ilog2_upper:
  assumes "0 < x"
  shows "x < pow2 (ilog2 x + 1)"
proof -
  obtain p q where pq: "quotient_of x = (p, q)" by force
  from pq have q: "0 < q" by (rule quotient_of_denom_pos)
  have x: "x = of_int p / of_int q" using pq by (rule quotient_of_div)
  with assms q have p: "0 < p" by (simp add: zero_less_divide_iff)
  let ?k = "bitlen p - bitlen q"
  have pb: "p < 2 ^ nat (bitlen p)" using bitlen_bounds [OF p] by simp
  have qb: "2 ^ nat (bitlen q - 1) \<le> q" using bitlen_bounds [OF q] by simp
  have nq: "1 \<le> bitlen q" using q bitlen_eq_zero_iff [of q] bitlen_nonneg [of q] by linarith
  have "(of_int p :: rat) < of_int (2 ^ nat (bitlen p))" using pb by (subst of_int_less_iff) simp
  then have "of_int p < pow2 (bitlen p)" by (simp add: pow2_def bitlen_nonneg)
  also have "pow2 (bitlen p) = pow2 (?k + 1) * pow2 (bitlen q - 1)"
    by (simp add: pow2_add [symmetric])
  also have "\<dots> \<le> pow2 (?k + 1) * of_int q"
  proof -
    have "pow2 (bitlen q - 1) = of_int (2 ^ nat (bitlen q - 1))" using nq by (simp add: pow2_def)
    also have "\<dots> \<le> of_int q" using qb by (subst of_int_le_iff) simp
    finally show ?thesis by (intro mult_left_mono) (auto simp: less_imp_le)
  qed
  finally have "x < pow2 (?k + 1)" using q x by (simp add: pos_divide_less_eq)
  then show ?thesis by (auto simp: ilog2_def pq Let_def)
qed

lemma round_even_error: "\<bar>of_int (round_even r) - r\<bar> \<le> 1/2"
proof -
  have "of_int \<lfloor>r\<rfloor> \<le> r" "r < of_int \<lfloor>r\<rfloor> + 1" by linarith+
  then show ?thesis by (auto simp: round_even_def Let_def)
qed

lemma round_even_int [simp]: "round_even (of_int n) = n"
  by (simp add: round_even_def)

lemma round_even_minus: "round_even (- r) = - round_even r"
proof (cases "r = of_int \<lfloor>r\<rfloor>")
  case True
  then have "- r = of_int (- \<lfloor>r\<rfloor>)" by simp
  with True show ?thesis by (metis round_even_int)
next
  case False
  define f where "f = \<lfloor>r\<rfloor>"
  have b: "of_int f < r" "r < of_int f + 1"
    using False by (auto simp: f_def order_less_le) linarith+
  have m: "\<lfloor>- r\<rfloor> = - f - 1"
    using b by (intro floor_unique) auto
  show ?thesis
    using b by (auto simp: round_even_def Let_def m f_def [symmetric])
qed

lemma rnd64_zero [simp]: "rnd64 0 = 0"
  by (simp add: rnd64_def)

lemma rnd64_minus: "rnd64 (- x) = - rnd64 x"
  by (simp add: rnd64_def Let_def round_even_minus)

text \<open>Integers below \<open>2^53\<close> are represented exactly, so counting in cents does not round.\<close>

lemma rnd64_int:
  assumes "\<bar>n\<bar> < 2 ^ 53"
  shows "rnd64 (of_int n) = of_int n"
proof (cases "n = 0")
  case True
  then show ?thesis by simp
next
  case False
  let ?x = "\<bar>of_int n\<bar> :: rat"
  define e where "e = max (ilog2 ?x - 52) (- 1074)"
  have x0: "0 < ?x" using False by simp
  have xn: "?x = of_int \<bar>n\<bar>" by simp
  have "of_int \<bar>n\<bar> < (of_int (2 ^ 53) :: rat)" using assms by (subst of_int_less_iff)
  then have "?x < pow2 53" by (simp add: pow2_def)
  then have "pow2 (ilog2 ?x) < pow2 53" using ilog2_lower [OF x0] by linarith
  then have "ilog2 ?x \<le> 52" using pow2_mono [of 53 "ilog2 ?x"] by linarith
  then have e: "e \<le> 0" by (simp add: e_def)
  have "of_int n / pow2 e = of_int (n * 2 ^ nat (- e))"
    using e by (cases "e = 0") (simp_all add: pow2_def)
  then have "round_even (of_int n / pow2 e) = n * 2 ^ nat (- e)" by (simp only: round_even_int)
  moreover have "of_int (n * 2 ^ nat (- e)) * pow2 e = of_int n"
    using e by (cases "e = 0") (simp_all add: pow2_def)
  ultimately show ?thesis using False by (simp add: rnd64_def e_def [symmetric] Let_def)
qed

lemma rnd64_error:
  "\<bar>rnd64 x - x\<bar> \<le> max (\<bar>x\<bar> / 2 ^ 53) (1 / 2 ^ 1075)"
proof (cases "x = 0")
  case True
  then show ?thesis by simp
next
  case False
  define e where "e = max (ilog2 \<bar>x\<bar> - 52) (- 1074)"
  define q where "q = pow2 e"
  have q: "0 < q" by (simp add: q_def)
  have eq: "rnd64 x - x = (of_int (round_even (x / q)) - x / q) * q"
    using False q by (simp add: rnd64_def Let_def e_def [symmetric] q_def [symmetric] algebra_simps)
  have "\<bar>rnd64 x - x\<bar> \<le> 1/2 * q"
    unfolding eq abs_mult using q round_even_error [of "x / q"]
    by (intro mult_mono) auto
  also have "1/2 * q \<le> max (\<bar>x\<bar> / 2 ^ 53) (1 / 2 ^ 1075)"
  proof (cases "e = - 1074")
    case True
    then have "q = 1 / 2 ^ 1074" by (simp add: q_def pow2_def)
    then have "1/2 * q = 1 / 2 ^ Suc 1074" by simp
    then show ?thesis by (simp only: Suc_numeral) simp
  next
    case F: False
    then have "e = ilog2 \<bar>x\<bar> - 52" by (auto simp: e_def)
    then have "pow2 (ilog2 \<bar>x\<bar>) = q * pow2 52" by (simp add: q_def pow2_add [symmetric])
    moreover have "pow2 (ilog2 \<bar>x\<bar>) \<le> \<bar>x\<bar>" using False by (intro ilog2_lower) simp
    ultimately have "q * 2 ^ 52 \<le> \<bar>x\<bar>" by (simp add: pow2_def)
    then have "1/2 * q \<le> \<bar>x\<bar> / 2 ^ 53" by (simp add: field_simps)
    then show ?thesis by simp
  qed
  finally show ?thesis .
qed

subsection \<open>What the money computations rely on\<close>

lemma math_round_near:
  assumes "\<bar>x - of_int n\<bar> < 1/2"
  shows "math_round x = n"
proof -
  from assms have "of_int n \<le> x + 1/2" "x + 1/2 < of_int n + 1" by (simp_all add: abs_if split: if_splits)
  then show ?thesis unfolding math_round_def by (rule floor_unique)
qed

lemma to_fixed2_near:
  assumes "\<bar>x * 100 - of_int n\<bar> < 1/2"
  shows "to_fixed2 x = n"
proof (cases "x < 0")
  case True
  from assms have "of_int (- n) \<le> - x * 100 + 1/2" "- x * 100 + 1/2 < of_int (- n) + 1"
    by (simp_all add: abs_if split: if_splits)
  then have "\<lfloor>- x * 100 + 1/2\<rfloor> = - n" by (rule floor_unique)
  with True show ?thesis by (simp add: to_fixed2_def)
next
  case False
  from assms have "of_int n \<le> x * 100 + 1/2" "x * 100 + 1/2 < of_int n + 1"
    by (simp_all add: abs_if split: if_splits)
  then have "\<lfloor>x * 100 + 1/2\<rfloor> = n" by (rule floor_unique)
  with False show ?thesis by (simp add: to_fixed2_def)
qed

locale binary_rounding =
  fixes rnd :: "rat \<Rightarrow> rat"
  assumes rnd_near: "\<bar>rnd x - x\<bar> \<le> max (\<bar>x\<bar> / 2 ^ 53) (1 / 2 ^ 1075)"
    and rnd_whole: "\<bar>n\<bar> < 2 ^ 53 \<Longrightarrow> rnd (of_int n) = of_int n"
begin

lemma rnd_within:
  assumes "\<bar>x\<bar> \<le> B" and "1 \<le> B"
  shows "\<bar>rnd x - x\<bar> \<le> B / 2 ^ 53"
proof -
  have "(1::rat) / 2 ^ 1075 \<le> 1 / 2 ^ 53"
    by (intro divide_left_mono power_increasing) auto
  also have "\<dots> \<le> B / 2 ^ 53" using assms(2) by (intro divide_right_mono) auto
  finally have "1 / 2 ^ 1075 \<le> B / 2 ^ 53" .
  moreover have "\<bar>x\<bar> / 2 ^ 53 \<le> B / 2 ^ 53" using assms(1) by (intro divide_right_mono) auto
  ultimately show ?thesis using rnd_near [of x] by linarith
qed

text \<open>
  A whole number of cents read as a number, times an integer, stays close to the exact
  product. The bound is the range of a \<open>decimal(12,2)\<close> column.
\<close>

lemma of_int_bound:
  assumes "\<bar>n\<bar> < 10 ^ 12"
  shows "\<bar>of_int n\<bar> < (10 ^ 12 :: rat)"
proof -
  have "of_int \<bar>n\<bar> < (of_int (10 ^ 12) :: rat)" using assms by (subst of_int_less_iff)
  then show ?thesis by simp
qed

lemma scaled_cents_near:
  assumes "\<bar>c * q\<bar> < 10 ^ 12"
  shows "\<bar>rnd (of_int c / 100) * of_int q - of_int (c * q) / 100\<bar> \<le> 10 ^ 12 / 2 ^ 53"
proof (cases "c = 0 \<or> q = 0")
  case True
  then show ?thesis using rnd_whole [of 0] by auto
next
  case False
  let ?B = "max 1 (\<bar>of_int c\<bar> / 100) :: rat"
  have e: "\<bar>rnd (of_int c / 100) - of_int c / 100\<bar> \<le> ?B / 2 ^ 53"
    by (rule rnd_within) auto
  have "\<bar>of_int (c * q)\<bar> < (10 ^ 12 :: rat)" using assms by (rule of_int_bound)
  then have cq: "\<bar>of_int c\<bar> * \<bar>of_int q\<bar> < (10 ^ 12 :: rat)" by (simp add: abs_mult)
  have "1 * \<bar>q\<bar> \<le> \<bar>c\<bar> * \<bar>q\<bar>" using False by (intro mult_right_mono) auto
  then have "\<bar>q\<bar> < 10 ^ 12" using assms by (simp add: abs_mult)
  then have "\<bar>of_int q\<bar> < (10 ^ 12 :: rat)" by (rule of_int_bound)
  with cq have B: "?B * \<bar>of_int q\<bar> \<le> 10 ^ 12"
    by (auto simp: max_def)
  have "\<bar>rnd (of_int c / 100) * of_int q - of_int (c * q) / 100\<bar>
      = \<bar>(rnd (of_int c / 100) - of_int c / 100) * of_int q\<bar>"
    by (simp add: algebra_simps)
  also have "\<dots> = \<bar>rnd (of_int c / 100) - of_int c / 100\<bar> * \<bar>of_int q\<bar>"
    by (rule abs_mult)
  also have "\<dots> \<le> ?B / 2 ^ 53 * \<bar>of_int q\<bar>"
    by (rule mult_right_mono [OF e]) simp
  also have "\<dots> = ?B * \<bar>of_int q\<bar> / 2 ^ 53" by simp
  also have "\<dots> \<le> 10 ^ 12 / 2 ^ 53" using B by (intro divide_right_mono) auto
  finally show ?thesis .
qed

text \<open>\<open>Math.round(price * quantity * 100)\<close> is the exact line in cents.\<close>

lemma line_cents:
  assumes "\<bar>c * q\<bar> < 10 ^ 12"
  shows "math_round (rnd (rnd (rnd (of_int c / 100) * of_int q) * 100)) = c * q"
proof -
  define a where "a = rnd (of_int c / 100) * of_int q"
  define b where "b = rnd a"
  have n: "\<bar>of_int (c * q)\<bar> < (10 ^ 12 :: rat)" using assms by (rule of_int_bound)
  have a: "\<bar>a - of_int (c * q) / 100\<bar> \<le> 10 ^ 12 / 2 ^ 53"
    unfolding a_def by (rule scaled_cents_near [OF assms])
  have "\<bar>a\<bar> \<le> 2 * 10 ^ 10" using a n by (simp add: abs_if split: if_splits)
  then have b: "\<bar>b - a\<bar> \<le> 2 * 10 ^ 10 / 2 ^ 53" unfolding b_def by (rule rnd_within) simp
  have "\<bar>b * 100\<bar> \<le> 4 * 10 ^ 12" using a b n by (simp add: abs_if split: if_splits)
  then have r: "\<bar>rnd (b * 100) - b * 100\<bar> \<le> 4 * 10 ^ 12 / 2 ^ 53" by (rule rnd_within) simp
  have "\<bar>rnd (b * 100) - of_int (c * q)\<bar> < 1/2"
    using a b r by (simp add: abs_if split: if_splits)
  then show ?thesis unfolding b_def a_def by (rule math_round_near)
qed

text \<open>\<open>Math.round(Number(decimal) * 100)\<close> recovers the decimal's cents.\<close>

lemma number_cents:
  assumes "\<bar>c\<bar> < 10 ^ 12"
  shows "math_round (rnd (rnd (of_int c / 100) * 100)) = c"
proof -
  define b where "b = rnd (of_int c / 100)"
  have n: "\<bar>of_int c\<bar> < (10 ^ 12 :: rat)" using assms by (rule of_int_bound)
  have "\<bar>of_int c / 100\<bar> \<le> (10 ^ 10 :: rat)" using n by simp
  then have b: "\<bar>b - of_int c / 100\<bar> \<le> 10 ^ 10 / 2 ^ 53" unfolding b_def by (rule rnd_within) simp
  have "\<bar>b * 100\<bar> \<le> 2 * 10 ^ 12" using b n by (simp add: abs_if split: if_splits)
  then have r: "\<bar>rnd (b * 100) - b * 100\<bar> \<le> 2 * 10 ^ 12 / 2 ^ 53" by (rule rnd_within) simp
  have "\<bar>rnd (b * 100) - of_int c\<bar> < 1/2"
    using b r by (simp add: abs_if split: if_splits)
  then show ?thesis unfolding b_def by (rule math_round_near)
qed

text \<open>\<open>(cents / 100).toFixed(2)\<close> writes the cents back.\<close>

lemma fixed_cents:
  assumes "\<bar>c\<bar> < 10 ^ 12"
  shows "to_fixed2 (rnd (of_int c / 100)) = c"
proof -
  have n: "\<bar>of_int c\<bar> < (10 ^ 12 :: rat)" using assms by (rule of_int_bound)
  have "\<bar>of_int c / 100\<bar> \<le> (10 ^ 10 :: rat)" using n by simp
  then have "\<bar>rnd (of_int c / 100) - of_int c / 100\<bar> \<le> 10 ^ 10 / 2 ^ 53"
    by (rule rnd_within) simp
  then have "\<bar>rnd (of_int c / 100) * 100 - of_int c\<bar> < 1/2"
    by (simp add: abs_if split: if_splits)
  then show ?thesis by (rule to_fixed2_near)
qed

text \<open>Adding two amounts as numbers and writing the sum loses no cent.\<close>

lemma fixed_sum:
  assumes "\<bar>s\<bar> < 10 ^ 12" and "\<bar>f\<bar> < 10 ^ 12"
  shows "to_fixed2 (rnd (rnd (of_int s / 100) + rnd (of_int f / 100))) = s + f"
proof -
  have ns: "\<bar>of_int s\<bar> < (10 ^ 12 :: rat)" and nf: "\<bar>of_int f\<bar> < (10 ^ 12 :: rat)"
    using assms by (auto intro: of_int_bound)
  define a b where "a = rnd (of_int s / 100)" and "b = rnd (of_int f / 100)"
  have "\<bar>of_int s / 100\<bar> \<le> (10 ^ 10 :: rat)" using ns by simp
  then have a: "\<bar>a - of_int s / 100\<bar> \<le> 10 ^ 10 / 2 ^ 53" unfolding a_def by (rule rnd_within) simp
  have "\<bar>of_int f / 100\<bar> \<le> (10 ^ 10 :: rat)" using nf by simp
  then have b: "\<bar>b - of_int f / 100\<bar> \<le> 10 ^ 10 / 2 ^ 53" unfolding b_def by (rule rnd_within) simp
  have "\<bar>a + b\<bar> \<le> 4 * 10 ^ 10" using a b ns nf by (simp add: abs_if split: if_splits)
  then have r: "\<bar>rnd (a + b) - (a + b)\<bar> \<le> 4 * 10 ^ 10 / 2 ^ 53" by (rule rnd_within) simp
  have "\<bar>rnd (a + b) * 100 - of_int (s + f)\<bar> < 1/2"
    using a b r by (simp add: abs_if split: if_splits)
  then show ?thesis unfolding a_def b_def by (rule to_fixed2_near)
qed

end

interpretation js: binary_rounding rnd64
  by unfold_locales (rule rnd64_error, rule rnd64_int)

text \<open>The same facts about the operations the code calls.\<close>

lemma js_line_cents:
  "\<bar>c * q\<bar> < 10 ^ 12 \<Longrightarrow>
   math_round (js_mul (js_mul (dec_num c) (of_int q)) 100) = c * q"
  unfolding js_mul_def dec_num_def by (rule js.line_cents)

lemma js_number_cents:
  "\<bar>c\<bar> < 10 ^ 12 \<Longrightarrow> math_round (js_mul (dec_num c) 100) = c"
  unfolding js_mul_def dec_num_def by (rule js.number_cents)

lemma js_div_100: "js_div (of_int c) 100 = dec_num c"
  by (simp add: js_div_def dec_num_def)

lemma js_fixed_cents: "\<bar>c\<bar> < 10 ^ 12 \<Longrightarrow> to_fixed2 (dec_num c) = c"
  unfolding dec_num_def by (rule js.fixed_cents)

lemma js_fixed_sum:
  "\<bar>s\<bar> < 10 ^ 12 \<Longrightarrow> \<bar>f\<bar> < 10 ^ 12 \<Longrightarrow> to_fixed2 (js_add (dec_num s) (dec_num f)) = s + f"
  unfolding js_add_def dec_num_def by (rule js.fixed_sum)

lemmas js_money = js_line_cents js_number_cents js_div_100 js_fixed_cents js_fixed_sum

end
