(* ===== verification/Entities.thy ===== *)
theory Entities
  imports Js_Number
begin

section \<open>The entities: enums and rows of the tables\<close>

text \<open>
  The TypeORM entities the services read and write, one \<open>record\<close> per entity and one
  \<open>datatype\<close> per enum, with the source's columns and values. Nullable columns are options;
  \<open>decimal(12,2)\<close> columns are \<open>cents\<close>; \<open>jsonb\<close> columns are \<open>json\<close>. Columns that no
  modelled operation reads or writes (\<open>updated_at\<close>, display texts of a product) are left
  out. Field names carry the entity's prefix.
\<close>

subsection \<open>Users and clients\<close>

datatype role = SUPER_ADMIN | ADMIN | STAFF

record user =
  u_id :: id
  u_role :: role

definition is_system_admin :: "role \<Rightarrow> bool" where
  "is_system_admin r \<longleftrightarrow> r = SUPER_ADMIN \<or> r = ADMIN"

record client =
  cl_id :: id
  cl_active :: bool
  cl_default_municipality :: "id option"

subsection \<open>Storages, coverage and stock\<close>

record location =
  loc_id :: id
  loc_name :: string
  loc_active :: bool
  loc_deleted :: bool

datatype coverage_type = CoverProvince | CoverMunicipality

record coverage =
  cov_location :: id
  cov_type :: coverage_type
  cov_province :: id
  cov_municipality :: "id option"

record municipality =
  mun_id :: id
  mun_province :: id
  mun_name :: string

record pickup_address =
  pa_id :: id
  pa_location :: id
  pa_label :: "string option"
  pa_address :: string
  pa_hours :: "string option"

record product =
  p_id :: id
  p_name :: string
  p_base_price :: cents
  p_discount :: cents
  p_active :: bool
  p_deleted :: bool
  p_category :: id
  p_sku :: string
  p_slug :: string
  p_description :: "string option"
  p_image :: "string option"
  p_format :: "string option"
  p_expiry :: "string option"
  p_measure :: string
  p_featured :: bool
  p_sort :: int
  p_created :: instant

text \<open>A department when \<open>cat_parent\<close> is null, a category of one otherwise.\<close>

record category =
  cat_id :: id
  cat_parent :: "id option"
  cat_name :: string
  cat_slug :: string
  cat_description :: "string option"
  cat_img_desktop :: "string option"
  cat_img_mobile :: "string option"
  cat_featured :: bool
  cat_sort :: int
  cat_active :: bool
  cat_created :: instant
  cat_deleted :: bool

text \<open>One inventory row per (location, product): the table's unique index.\<close>

record inv_row =
  inv_location :: id
  inv_product :: id
  inv_quantity :: int
  inv_reserved :: int

datatype reservation_status = Reserved | Confirmed | Cancelled | Expired

record reservation =
  r_id :: id
  r_order :: id
  r_location :: id
  r_product :: id
  r_quantity :: int
  r_status :: reservation_status
  r_created :: instant

datatype operation_type = OpIn | OpOut | OpTransfer

text \<open>
  A stock movement with its lines (the rows of \<open>inventory_operation_items\<close> that carry its
  id; they are only ever written with it and never change).
\<close>

record operation =
  op_id :: id
  op_type :: operation_type
  op_location :: id
  op_target :: "id option"
  op_order :: "id option"
  op_note :: "string option"
  op_created_by :: id
  op_items :: "(id \<times> int) list"

subsection \<open>Orders\<close>

datatype order_status = PENDING | CONFIRMED | PROCESSING | SHIPPED | DELIVERED | CANCELLED

datatype cancellation_reason = PAYMENT_NOT_RECEIVED | PAID_AFTER_EXPIRY_OUT_OF_STOCK

datatype fulfillment_type = DELIVERY | PICKUP

datatype payment_status = PayPending | PayPaid | PayFailed | PayRefunded

record order =
  o_id :: id
  o_number :: "string option"
  o_seq :: nat
  o_client :: id
  o_status :: order_status
  o_payment :: payment_status
  o_tracking :: "string option"
  o_payment_ref :: "string option"
  o_subtotal :: cents
  o_delivery_fee :: cents
  o_total :: cents
  o_fulfillment :: fulfillment_type
  o_option_id :: "id option"
  o_option_label :: "string option"
  o_pickup_location :: "id option"
  o_promise_days :: "int option"
  o_promised_at :: "instant option"
  o_pickup_address :: "id option"
  o_pickup_snapshot :: "json option"
  o_municipality :: "id option"
  o_address :: "json option"
  o_contact :: "json option"
  o_notes :: "string option"
  o_cancellation :: "cancellation_reason option"
  o_reinstated_at :: "instant option"
  o_reinstated_by :: "id option"
  o_paid_at :: "instant option"
  o_delivered_at :: "instant option"
  o_delivered_by :: "id option"
  o_picked_up_by :: "json option"
  o_created_at :: instant
  o_deleted :: bool

record order_item =
  it_id :: id
  it_order :: id
  it_product :: id
  it_name :: string
  it_list_price :: "cents option"
  it_discount :: "cents option"
  it_unit_price :: cents
  it_quantity :: int
  it_line_total :: cents

record client_address =
  ad_id :: id
  ad_client :: id
  ad_label :: "string option"
  ad_street :: string
  ad_between :: "string option"
  ad_reference :: "string option"
  ad_municipality :: id
  ad_recipient :: "string option"
  ad_id_card :: "string option"
  ad_phone :: "string option"
  ad_default :: bool
  ad_created :: instant
  ad_deleted :: bool

record cart_item =
  ci_client :: id
  ci_product :: id
  ci_quantity :: int

subsection \<open>The order's history\<close>

datatype event_actor = ActorAdmin id | ActorClient id | ActorSystem

datatype event_kind =
    EvCreated | EvStatusChanged | EvPaymentStatusChanged | EvPaymentAttempt | EvProofSubmitted
  | EvReinstated | EvExpired | EvPaymentAttemptRemoved | EvItemsChanged | EvTotalChanged
  | EvDelivered | EvRefundRequested | EvRefundCompleted | EvRefundRejected

record order_event =
  ev_order :: id
  ev_kind :: event_kind
  ev_actor :: event_actor
  ev_field :: "string option"
  ev_previous :: "string option"
  ev_next :: "string option"
  ev_reason :: "string option"
  ev_meta :: "(string \<times> json) list option"
  ev_at :: instant

subsection \<open>Payment attempts and refunds\<close>

record payment_method =
  mt_id :: id
  mt_code :: string
  mt_label :: string
  mt_sort :: int
  mt_enabled :: bool
  mt_custom :: bool
  mt_instructions :: "json option"
  mt_deleted :: bool

datatype charge_status =
    ChPending | ChRequiresAction | ChProcessing | ChSucceeded | ChFailed | ChExpired | ChCancelled

record charge =
  ch_id :: id
  ch_order :: id
  ch_provider :: string
  ch_reference :: string
  ch_idempotency_key :: string
  ch_status :: charge_status
  ch_amount :: string
  ch_currency :: string
  ch_fee_amount :: "string option"
  ch_settlement_amount :: "string option"
  ch_action_payload :: "json option"
  ch_redirect_url :: "string option"
  ch_error_message :: "string option"
  ch_last_payload :: "json option"
  ch_customer_reference :: "string option"
  ch_receipt_url :: "string option"
  ch_expires_at :: "instant option"
  ch_completed_at :: "instant option"
  ch_created_at :: instant

datatype refund_status = RefundRequested | RefundCompleted | RefundRejected

datatype refund_method = RefundManual | RefundGateway

datatype refund_origin = OriginAdmin | OriginSystem

record refund =
  rf_id :: id
  rf_order :: id
  rf_amount :: cents
  rf_currency :: string
  rf_status :: refund_status
  rf_method :: refund_method
  rf_origin :: refund_origin
  rf_reason :: string
  rf_destination :: "string option"
  rf_provider_ref :: "string option"
  rf_notes :: "string option"
  rf_requested_by :: "id option"
  rf_requested_at :: instant
  rf_completed_by :: "id option"
  rf_completed_at :: "instant option"
  rf_rejected_by :: "id option"
  rf_rejected_at :: "instant option"
  rf_rejection_reason :: "string option"

subsection \<open>The values the enums are stored as\<close>

fun status_str :: "order_status \<Rightarrow> string" where
  "status_str PENDING = ''pending''"
| "status_str CONFIRMED = ''confirmed''"
| "status_str PROCESSING = ''processing''"
| "status_str SHIPPED = ''shipped''"
| "status_str DELIVERED = ''delivered''"
| "status_str CANCELLED = ''cancelled''"

fun payment_str :: "payment_status \<Rightarrow> string" where
  "payment_str PayPending = ''pending''"
| "payment_str PayPaid = ''paid''"
| "payment_str PayFailed = ''failed''"
| "payment_str PayRefunded = ''refunded''"

fun cancellation_str :: "cancellation_reason \<Rightarrow> string" where
  "cancellation_str PAYMENT_NOT_RECEIVED = ''payment_not_received''"
| "cancellation_str PAID_AFTER_EXPIRY_OUT_OF_STOCK = ''paid_after_expiry_out_of_stock''"

text \<open>The stored value identifies the state.\<close>

lemma status_str_inject [simp]: "status_str a = status_str b \<longleftrightarrow> a = b"
  by (cases a; cases b) simp_all

lemma payment_str_inject [simp]: "payment_str a = payment_str b \<longleftrightarrow> a = b"
  by (cases a; cases b) simp_all

end
