(* ===== verification/Permissions.thy ===== *)
theory Permissions
  imports Entities
begin

section \<open>Permissions: the catalogue, managed roles and the gate of every route\<close>

text \<open>
  \<open>src/permissions/permissions.service.ts\<close> with its four tables, and the two guards every
  backoffice request crosses (\<open>permissions/guards/permission.guard.ts\<close> and
  \<open>common/guards/roles.guard.ts\<close>). A permission is a (mdl, action) pair; a managed role
  grants permissions and is assigned to users; SUPER_ADMIN and ADMIN bypass everything.
  \<open>LOWER\<close> of the database is the parameter \<open>lower\<close>.
\<close>

subsection \<open>The tables\<close>

record permission =
  pm_id :: id
  pm_module :: string
  pm_action :: string
  pm_active :: bool

record managed_role =
  mr_id :: id
  mr_name :: string
  mr_description :: "string option"
  mr_system_key :: "string option"
  mr_system :: bool
  mr_active :: bool
  mr_created_by :: "id option"
  mr_deleted :: bool

record user_role =
  ur_user :: id
  ur_role :: id
  ur_assigned_by :: "id option"

record access =
  a_users :: "user list"
  a_permissions :: "permission list"
  a_roles :: "managed_role list"
  a_grants :: "(id \<times> id) list"
  a_user_roles :: "user_role list"
  a_next :: nat

subsection \<open>The catalogue\<close>

definition CRUD :: "string list" where
  "CRUD = [''list'', ''read'', ''create'', ''update'', ''delete'']"

definition ACCIONES_DE_LECTURA :: "string list" where
  "ACCIONES_DE_LECTURA = [''list'', ''read'']"

definition MODULOS_DE_APOYO :: "(string \<times> string list) list" where
  "MODULOS_DE_APOYO = [
     (''products'', [''categories'', ''departments'']),
     (''categories'', [''departments'']),
     (''inventory'', [''categories'', ''departments'', ''stock-locations'']),
     (''cms-banners'', [''products'', ''categories'', ''departments'']),
     (''cms-home'', [''products'', ''departments'', ''cms-banners'']),
     (''payments'', [''orders'', ''clients''])]"

definition MODULE_ACTIONS :: "(string \<times> string list) list" where
  "MODULE_ACTIONS = [
     (''products'', CRUD), (''categories'', CRUD), (''departments'', CRUD),
     (''stock-locations'', CRUD @ [''view-all'']),
     (''nomenclators'', CRUD), (''delivery-options'', CRUD), (''clients'', CRUD),
     (''cms-pages'', CRUD @ [''publish'']),
     (''cms-banners'', CRUD), (''cms-services'', CRUD), (''cms-staff'', CRUD),
     (''contact'', CRUD @ [''reply'']),
     (''orders'', [''list'', ''read'', ''create'', ''update-status'', ''update-status-direct'',
        ''update-payment-status'']),
     (''refunds'', [''list'', ''read'', ''request'', ''complete'', ''reject'']),
     (''inventory'', [''list'', ''read'', ''aggregate'', ''history'', ''create-operation'']),
     (''cms-settings'', [''read'', ''update'']),
     (''cms-home'', [''read'', ''update'', ''publish'']),
     (''fulfillment-settings'', [''read'', ''update'']),
     (''payments'', [''list'']),
     (''dashboard'', [''view'']),
     (''uploads'', [''create''])]"

text \<open>\<open>isSystemAdmin(role: string | null)\<close>.\<close>

definition system_admin :: "role option \<Rightarrow> bool" where
  "system_admin r = (case r of None \<Rightarrow> False | Some x \<Rightarrow> is_system_admin x)"

record base_role =
  br_key :: string
  br_name :: string
  br_description :: string
  br_grants :: "(string \<times> string list) list"

definition ajustalos :: string where
  "ajustalos = ''Aj'' @ [CHR 0xFA] @ ''stalos o ret'' @ [CHR 0xED] @ ''ralos seg'' @ [CHR 0xFA] @
     ''n lo que necesite tu equipo.''"

definition BASE_ROLES :: "base_role list" where
  "BASE_ROLES = [
     \<lparr>br_key = ''GROCER'', br_name = ''Jefe de almac'' @ [CHR 0xE9] @ ''n'',
      br_description = ''Permisos iniciales del rol Jefe de almac'' @ [CHR 0xE9] @ ''n. '' @ ajustalos,
      br_grants = [(''products'', [''list'', ''read'']), (''categories'', [''list'', ''read'']),
        (''departments'', [''list'', ''read'']), (''stock-locations'', [''list'', ''read'']),
        (''inventory'', [''list'', ''read'', ''history'', ''create-operation''])]\<rparr>,
     \<lparr>br_key = ''KARDIST'', br_name = ''Kardista'',
      br_description = ''Permisos iniciales del rol Kardista. '' @ ajustalos,
      br_grants = [(''categories'', [''list'', ''read'']), (''departments'', [''list'', ''read'']),
        (''inventory'', [''read'', ''aggregate'', ''history'']), (''uploads'', [''create''])]\<rparr>,
     \<lparr>br_key = ''WEB_MANAGER'', br_name = ''Responsable de la web'',
      br_description = ''Prepara, revisa y publica la portada, los textos legales y los avisos de la tienda. Ajusta sus permisos seg'' @ [CHR 0xFA] @ ''n lo que necesite tu equipo.'',
      br_grants = [(''cms-home'', [''read'', ''update'', ''publish'']), (''cms-banners'', CRUD),
        (''cms-pages'', CRUD @ [''publish'']), (''uploads'', [''create'']),
        (''products'', [''list'', ''read'']), (''categories'', [''list'', ''read'']),
        (''departments'', [''list'', ''read''])]\<rparr>]"

subsection \<open>The name of a role, cleaned\<close>

text \<open>\<open>nombre.trim().replace(/\s+/g, ' ')\<close> over the Latin-1 white space.\<close>

definition is_space :: "char \<Rightarrow> bool" where
  "is_space c \<longleftrightarrow> (let n = of_char c :: nat in n = 32 \<or> (9 \<le> n \<and> n \<le> 13) \<or> n = 160)"

definition js_trim :: "string \<Rightarrow> string" where
  "js_trim s = rev (dropWhile is_space (rev (dropWhile is_space s)))"

function collapse :: "string \<Rightarrow> string" where
  "collapse [] = []"
| "collapse (c # cs) =
     (if is_space c then CHR '' '' # collapse (dropWhile is_space cs) else c # collapse cs)"
  by pat_completeness auto
termination
  by (relation "measure length") (auto simp: le_imp_less_Suc length_dropWhile_le)

definition nombreDeRolNormalizado :: "string \<Rightarrow> string" where
  "nombreDeRolNormalizado nombre = collapse (js_trim nombre)"

subsection \<open>Reading the tables\<close>

text \<open>A soft-deleted role loads as a null relation.\<close>

definition live_role :: "access \<Rightarrow> id \<Rightarrow> managed_role option" where
  "live_role a rid = List.find (\<lambda>r. mr_id r = rid \<and> \<not> mr_deleted r) (a_roles a)"

definition permission_by_id :: "access \<Rightarrow> id \<Rightarrow> permission option" where
  "permission_by_id a pid = List.find (\<lambda>p. pm_id p = pid) (a_permissions a)"

definition assigned_roles :: "access \<Rightarrow> id \<Rightarrow> id list" where
  "assigned_roles a uid = map ur_role (filter (\<lambda>ur. ur_user ur = uid) (a_user_roles a))"

definition role_is_active :: "access \<Rightarrow> id \<Rightarrow> bool" where
  "role_is_active a rid = (case live_role a rid of None \<Rightarrow> False | Some r \<Rightarrow> mr_active r)"

definition getActiveRoleIdsForUser :: "access \<Rightarrow> id \<Rightarrow> id list" where
  "getActiveRoleIdsForUser a uid = filter (role_is_active a) (assigned_roles a uid)"

definition hasPermission :: "access \<Rightarrow> id \<Rightarrow> role \<Rightarrow> string \<Rightarrow> string \<Rightarrow> bool" where
  "hasPermission a uid role mdl action =
     (if is_system_admin role then True
      else case List.find (\<lambda>p. pm_module p = mdl \<and> pm_action p = action \<and> pm_active p) (a_permissions a) of
        None \<Rightarrow> False
      | Some perm \<Rightarrow>
          (let role_ids = getActiveRoleIdsForUser a uid in
           if role_ids = [] then False
           else 0 < length (filter (\<lambda>(r, p). r \<in> set role_ids \<and> p = pm_id perm) (a_grants a))))"

definition getUserIdsWithModuleGrant :: "access \<Rightarrow> string \<Rightarrow> id list" where
  "getUserIdsWithModuleGrant a mdl =
     (let perms = filter (\<lambda>p. pm_module p = mdl \<and> pm_active p) (a_permissions a) in
      if perms = [] then [] else
      let grants = filter (\<lambda>(r, p). p \<in> pm_id ` set perms) (a_grants a) in
      if grants = [] then [] else
      let assignments = filter (\<lambda>ur. ur_role ur \<in> fst ` set grants) (a_user_roles a) in
      js_set (map ur_user (filter (\<lambda>ur. role_is_active a (ur_role ur)) assignments)))"

definition getUserRoles :: "access \<Rightarrow> id \<Rightarrow> managed_role list" where
  "getUserRoles a uid =
     filter mr_active (List.map_filter (live_role a) (assigned_roles a uid))"

definition getUserRoleIds :: "access \<Rightarrow> id \<Rightarrow> id list" where
  "getUserRoleIds a uid = map mr_id (getUserRoles a uid)"

definition add_action :: "permission \<Rightarrow> (string \<times> string list) list \<Rightarrow> (string \<times> string list) list" where
  "add_action perm m =
     (case jm_get (pm_module perm) m of
        None \<Rightarrow> jm_set (pm_module perm) [pm_action perm] m
      | Some actions \<Rightarrow>
          (if pm_action perm \<in> set actions then m
           else jm_set (pm_module perm) (actions @ [pm_action perm]) m))"

definition getUserPermissions ::
  "access \<Rightarrow> id \<Rightarrow> (id \<times> role option \<times> string list) \<times> (string \<times> string list) list" where
  "getUserPermissions a uid =
     (let role = map_option u_role (List.find (\<lambda>u. u_id u = uid) (a_users a)) in
      if system_admin role then ((uid, role, []), MODULE_ACTIONS)
      else
        let roles = getUserRoles a uid;
            rps = filter (\<lambda>(r, p). r \<in> mr_id ` set roles) (a_grants a);
            perms = filter pm_active (List.map_filter (\<lambda>(r, p). permission_by_id a p) rps)
        in ((uid, role, map mr_name roles), fold add_action perms []))"

definition getRolesByUserIds :: "access \<Rightarrow> id list \<Rightarrow> (id \<times> (id \<times> string) list) list" where
  "getRolesByUserIds a uids =
     fold (\<lambda>ur m. (case live_role a (ur_role ur) of
              None \<Rightarrow> m
            | Some r \<Rightarrow> (if mr_active r
                then jm_set (ur_user ur)
                  ((case jm_get (ur_user ur) m of None \<Rightarrow> [] | Some rs \<Rightarrow> rs) @ [(mr_id r, mr_name r)]) m
                else m)))
       (filter (\<lambda>ur. ur_user ur \<in> set uids) (a_user_roles a)) []"

definition getRoleSummariesByIds :: "access \<Rightarrow> id list \<Rightarrow> (id \<times> string) list" where
  "getRoleSummariesByIds a ids =
     map (\<lambda>r. (mr_id r, mr_name r))
       (filter (\<lambda>r. mr_id r \<in> set ids \<and> mr_active r \<and> \<not> mr_deleted r) (a_roles a))"

definition assertActiveRoles :: "access \<Rightarrow> id list \<Rightarrow> error + unit" where
  "assertActiveRoles a ids =
     (let unique = js_set ids in
      if unique = [] then Inr ()
      else guardE (length (filter (\<lambda>r. mr_id r \<in> set unique \<and> mr_active r \<and> \<not> mr_deleted r) (a_roles a))
                     = length unique)
             (NotFound ''One or more roles were not found''))"

subsection \<open>Writing roles and grants\<close>

text \<open>The composite keys make \<open>save\<close> of an existing pair an update.\<close>

definition save_user_role :: "user_role \<Rightarrow> access \<Rightarrow> access" where
  "save_user_role ur a = a\<lparr>a_user_roles :=
     (if (ur_user ur, ur_role ur) \<in> (\<lambda>x. (ur_user x, ur_role x)) ` set (a_user_roles a)
      then save_by (\<lambda>x. (ur_user x, ur_role x)) ur (a_user_roles a)
      else a_user_roles a @ [ur])\<rparr>"

definition assignRolesLenient :: "id \<Rightarrow> id list \<Rightarrow> access \<Rightarrow> access" where
  "assignRolesLenient uid ids a =
     fold save_user_role
       (map (\<lambda>r. \<lparr>ur_user = uid, ur_role = mr_id r, ur_assigned_by = None\<rparr>)
          (filter (\<lambda>r. mr_id r \<in> set ids \<and> mr_active r \<and> \<not> mr_deleted r) (a_roles a))) a"

definition getRole :: "access \<Rightarrow> id \<Rightarrow> error + managed_role" where
  "getRole a rid = from_option (NotFound ''Role not found'') (live_role a rid)"

definition nombreYaUsado :: "(string \<Rightarrow> string) \<Rightarrow> access \<Rightarrow> string \<Rightarrow> id option \<Rightarrow> bool" where
  "nombreYaUsado lower a nombre excepto =
     (\<exists>r \<in> set (a_roles a). lower (mr_name r) = lower nombre \<and>
        (case excepto of None \<Rightarrow> True | Some e \<Rightarrow> mr_id r \<noteq> e))"

definition conLecturasImplicadas :: "access \<Rightarrow> permission list \<Rightarrow> id list" where
  "conLecturasImplicadas a pedidos =
     (let que_trabajan = map pm_module (filter (\<lambda>p. pm_action p \<notin> set ACCIONES_DE_LECTURA) pedidos);
          de_apoyo = concat (map (\<lambda>m. (case jm_get m MODULOS_DE_APOYO of None \<Rightarrow> [] | Some ms \<Rightarrow> ms))
                       (js_set (map pm_module pedidos)));
          necesitan = js_set (que_trabajan @ de_apoyo)
      in if necesitan = [] then map pm_id pedidos
         else let faltantes = filter (\<lambda>p. pm_module p \<in> set necesitan
                    \<and> pm_action p \<in> set ACCIONES_DE_LECTURA \<and> pm_active p) (a_permissions a)
              in js_set (map pm_id pedidos @ map pm_id faltantes))"

definition setRolePermissions :: "id \<Rightarrow> id list \<Rightarrow> access \<Rightarrow> error + access" where
  "setRolePermissions rid pids a =
     bindE (getRole a rid) (\<lambda>role.
     bindE (guardE (\<not> mr_system role) (Conflict ''System roles cannot be modified'')) (\<lambda>_.
     let unique = js_set pids in
     bindE (guardE (unique \<noteq> []) (BadRequest ''Un rol tiene que dar acceso al menos a un modulo'')) (\<lambda>_.
     let pedidos = filter (\<lambda>p. pm_id p \<in> set unique) (a_permissions a) in
     bindE (guardE (length pedidos = length unique) (NotFound ''One or more permissions were not found'')) (\<lambda>_.
     let con_lecturas = conLecturasImplicadas a pedidos in
     Inr (a\<lparr>a_grants := filter (\<lambda>(r, p). r \<noteq> rid) (a_grants a) @ map (\<lambda>p. (rid, p)) con_lecturas\<rparr>)))))"

text \<open>\<open>createRole\<close> is not in a transaction: when the grants fail it deletes the role itself.\<close>

definition createRole ::
  "(string \<Rightarrow> string) \<Rightarrow> string \<Rightarrow> string option \<Rightarrow> id list \<Rightarrow> id option \<Rightarrow> access \<Rightarrow> (error + managed_role) \<times> access" where
  "createRole lower nombre descripcion pids created_by a =
     (let name = nombreDeRolNormalizado nombre in
      if nombreYaUsado lower a name None then (Inl (Conflict ''Role already exists''), a)
      else let role = \<lparr>mr_id = a_next a, mr_name = name, mr_description = descripcion,
                 mr_system_key = None, mr_system = False, mr_active = True,
                 mr_created_by = created_by, mr_deleted = False\<rparr>;
               a1 = a\<lparr>a_roles := a_roles a @ [role], a_next := Suc (a_next a)\<rparr>
           in if pids = [] then (Inr role, a1)
              else case setRolePermissions (mr_id role) pids a1 of
                Inr a2 \<Rightarrow> (Inr role, a2)
              | Inl err \<Rightarrow> (Inl err, a1\<lparr>a_roles := filter (\<lambda>r. mr_id r \<noteq> mr_id role) (a_roles a1)\<rparr>))"

record role_changes =
  rc_name :: "string option"
  rc_description :: "string option"
  rc_active :: "bool option"

definition save_role :: "managed_role \<Rightarrow> access \<Rightarrow> access" where
  "save_role r a = a\<lparr>a_roles := save_by mr_id r (a_roles a)\<rparr>"

definition updateRole ::
  "(string \<Rightarrow> string) \<Rightarrow> id \<Rightarrow> role_changes \<Rightarrow> access \<Rightarrow> error + managed_role \<times> access" where
  "updateRole lower rid cambios a =
     bindE (getRole a rid) (\<lambda>role.
     bindE (guardE (\<not> mr_system role) (Conflict ''System roles cannot be modified'')) (\<lambda>_.
     let name = map_option nombreDeRolNormalizado (rc_name cambios) in
     bindE (guardE (case name of None \<Rightarrow> True | Some n \<Rightarrow> \<not> nombreYaUsado lower a n (Some rid))
              (Conflict ''Role already exists'')) (\<lambda>_.
     let role' = role\<lparr>
           mr_name := (case name of None \<Rightarrow> mr_name role | Some n \<Rightarrow> n),
           mr_description := (case rc_description cambios of None \<Rightarrow> mr_description role | d \<Rightarrow> d),
           mr_active := (case rc_active cambios of None \<Rightarrow> mr_active role | Some b \<Rightarrow> b)\<rparr>
     in Inr (role', save_role role' a))))"

definition deleteRole :: "id \<Rightarrow> access \<Rightarrow> error + access" where
  "deleteRole rid a =
     bindE (getRole a rid) (\<lambda>role.
     bindE (guardE (\<not> mr_system role) (Conflict ''System roles cannot be deleted'')) (\<lambda>_.
     let a1 = a\<lparr>a_user_roles := filter (\<lambda>ur. ur_role ur \<noteq> rid) (a_user_roles a)\<rparr>
     in Inr (save_role (role\<lparr>mr_deleted := True\<rparr>) a1)))"

definition setUserRoles :: "id \<Rightarrow> id list \<Rightarrow> id option \<Rightarrow> access \<Rightarrow> error + access" where
  "setUserRoles uid ids by_user a =
     (let unique = js_set ids in
      bindE (guardE (unique = [] \<or>
               length (filter (\<lambda>r. mr_id r \<in> set unique \<and> \<not> mr_deleted r) (a_roles a)) = length unique)
             (NotFound ''One or more roles were not found'')) (\<lambda>_.
      Inr (a\<lparr>a_user_roles := filter (\<lambda>ur. ur_user ur \<noteq> uid) (a_user_roles a) @
             map (\<lambda>rid. \<lparr>ur_user = uid, ur_role = rid, ur_assigned_by = by_user\<rparr>) unique\<rparr>)))"

subsection \<open>Seeding\<close>

definition have_permission :: "access \<Rightarrow> string \<Rightarrow> string \<Rightarrow> bool" where
  "have_permission a mdl action = (\<exists>p \<in> set (a_permissions a). pm_module p = mdl \<and> pm_action p = action)"

definition seed_permission :: "string \<times> string \<Rightarrow> access \<Rightarrow> access" where
  "seed_permission ma a = a\<lparr>a_permissions := a_permissions a @
       [\<lparr>pm_id = a_next a, pm_module = fst ma, pm_action = snd ma, pm_active = True\<rparr>],
     a_next := Suc (a_next a)\<rparr>"

definition catalog_pairs :: "(string \<times> string) list" where
  "catalog_pairs = concat (map (\<lambda>(mdl, actions). map (Pair mdl) actions) MODULE_ACTIONS)"

definition seedPermissions :: "access \<Rightarrow> access" where
  "seedPermissions a =
     fold seed_permission (filter (\<lambda>(m, ac). \<not> have_permission a m ac) catalog_pairs) a"

definition seed_base_role :: "base_role \<Rightarrow> access \<Rightarrow> access" where
  "seed_base_role base a =
     (if \<exists>r \<in> set (a_roles a). mr_system_key r = Some (br_key base) then a
      else let rid = a_next a;
               a1 = a\<lparr>a_roles := a_roles a @ [\<lparr>mr_id = rid, mr_name = br_name base,
                        mr_description = Some (br_description base), mr_system_key = Some (br_key base),
                        mr_system = False, mr_active = True, mr_created_by = None, mr_deleted = False\<rparr>],
                      a_next := Suc rid\<rparr>;
               wanted = concat (map (\<lambda>(m, actions). map (Pair m) actions) (br_grants base));
               grants = filter (\<lambda>p. (pm_module p, pm_action p) \<in> set wanted) (a_permissions a1)
           in a1\<lparr>a_grants := a_grants a1 @ map (\<lambda>p. (rid, pm_id p)) grants\<rparr>)"

definition onModuleInit :: "access \<Rightarrow> access" where
  "onModuleInit a = fold seed_base_role BASE_ROLES (seedPermissions a)"

subsection \<open>The guards\<close>

text \<open>
  A route's decorators, on the handler and on its class: \<open>getAllAndOverride\<close> takes the first
  one that is defined.
\<close>

record route =
  rt_public :: "bool option \<times> bool option"
  rt_roles :: "role list option \<times> role list option"
  rt_permission :: "(string \<times> string) option \<times> (string \<times> string) option"
  rt_any_authenticated :: "bool option \<times> bool option"

fun override :: "'a option \<times> 'a option \<Rightarrow> 'a option" where
  "override (Some x, _) = Some x"
| "override (None, y) = y"

definition roles_guard :: "route \<Rightarrow> user option \<Rightarrow> error + unit" where
  "roles_guard rt req =
     (case override (rt_roles rt) of
        None \<Rightarrow> Inr ()
      | Some required \<Rightarrow>
          if required = [] then Inr ()
          else guardE (case req of None \<Rightarrow> False | Some u \<Rightarrow> u_role u \<in> set required)
                 (Forbidden ''Insufficient role''))"

definition permission_guard :: "access \<Rightarrow> route \<Rightarrow> user option \<Rightarrow> error + unit" where
  "permission_guard a rt req =
     (if override (rt_public rt) = Some True then Inr ()
      else case req of
        None \<Rightarrow> Inl (Forbidden ''Authentication required'')
      | Some u \<Rightarrow>
          if is_system_admin (u_role u) then Inr ()
          else case override (rt_permission rt) of
            Some (mdl, action) \<Rightarrow>
              guardE (hasPermission a (u_id u) (u_role u) mdl action) (Forbidden ''Permission denied'')
          | None \<Rightarrow>
              (case override (rt_roles rt) of
                 Some (r # rs) \<Rightarrow> Inr ()
               | _ \<Rightarrow> guardE (override (rt_any_authenticated rt) = Some True) (Forbidden ''Permission denied'')))"

text \<open>The chain of \<open>app.module.ts\<close>, after the authentication guard.\<close>

definition guards :: "access \<Rightarrow> route \<Rightarrow> user option \<Rightarrow> error + unit" where
  "guards a rt req = bindE (roles_guard rt req) (\<lambda>_. permission_guard a rt req)"


subsection \<open>Well-formed tables\<close>

text \<open>The primary keys and the unique index on (module, action).\<close>

definition access_ok :: "access \<Rightarrow> bool" where
  "access_ok a \<longleftrightarrow> distinct (map pm_id (a_permissions a))
     \<and> distinct (map (\<lambda>p. (pm_module p, pm_action p)) (a_permissions a))
     \<and> distinct (map mr_id (a_roles a))
     \<and> (\<forall>p \<in> set (a_permissions a). pm_id p < a_next a)
     \<and> (\<forall>r \<in> set (a_roles a). mr_id r < a_next a)
     \<and> (\<forall>(r, p) \<in> set (a_grants a). r < a_next a)"

text \<open>A user's role gives a permission: assigned, live, active, and granted an active permission.\<close>

definition granted :: "access \<Rightarrow> id \<Rightarrow> string \<Rightarrow> string \<Rightarrow> bool" where
  "granted a uid mdl action \<longleftrightarrow>
     (\<exists>ur \<in> set (a_user_roles a). ur_user ur = uid \<and>
       (\<exists>r \<in> set (a_roles a). mr_id r = ur_role ur \<and> mr_active r \<and> \<not> mr_deleted r \<and>
         (\<exists>p \<in> set (a_permissions a). pm_module p = mdl \<and> pm_action p = action \<and> pm_active p \<and>
           (mr_id r, pm_id p) \<in> set (a_grants a))))"

lemma live_role_Some:
  assumes "access_ok a"
  shows "live_role a rid = Some r \<longleftrightarrow> r \<in> set (a_roles a) \<and> mr_id r = rid \<and> \<not> mr_deleted r"
proof
  assume "live_role a rid = Some r"
  then show "r \<in> set (a_roles a) \<and> mr_id r = rid \<and> \<not> mr_deleted r"
    by (auto simp: live_role_def find_Some_iff)
next
  assume r: "r \<in> set (a_roles a) \<and> mr_id r = rid \<and> \<not> mr_deleted r"
  then obtain x where x: "live_role a rid = Some x"
    by (cases "live_role a rid") (auto simp: live_role_def find_None_iff)
  then have "x \<in> set (a_roles a)" "mr_id x = rid" by (auto simp: live_role_def find_Some_iff)
  moreover have "inj_on mr_id (set (a_roles a))" using assms by (simp add: access_ok_def distinct_map)
  ultimately show "live_role a rid = Some r" using r x by (metis inj_onD)
qed

lemma role_is_active_iff:
  assumes "access_ok a"
  shows "role_is_active a rid \<longleftrightarrow> (\<exists>r \<in> set (a_roles a). mr_id r = rid \<and> mr_active r \<and> \<not> mr_deleted r)"
proof (cases "live_role a rid")
  case None
  then have "\<not> role_is_active a rid" by (simp add: role_is_active_def)
  with None show ?thesis by (auto simp: live_role_def find_None_iff)
next
  case (Some r)
  have "(\<exists>x \<in> set (a_roles a). mr_id x = rid \<and> mr_active x \<and> \<not> mr_deleted x) \<longleftrightarrow>
      (\<exists>x. live_role a rid = Some x \<and> mr_active x)"
    unfolding live_role_Some [OF assms] by blast
  with Some show ?thesis by (simp add: role_is_active_def)
qed

lemma permission_by_id_Some:
  assumes "access_ok a"
  shows "permission_by_id a pid = Some p \<longleftrightarrow> p \<in> set (a_permissions a) \<and> pm_id p = pid"
  using assms find_distinct_key [of pm_id "a_permissions a" p]
  by (auto simp: permission_by_id_def access_ok_def dest: find_key_Some)

lemma active_role_ids:
  "set (getActiveRoleIdsForUser a uid) =
     {rid. role_is_active a rid \<and> (\<exists>ur \<in> set (a_user_roles a). ur_user ur = uid \<and> ur_role ur = rid)}"
  by (auto simp: getActiveRoleIdsForUser_def assigned_roles_def)

lemma granted_alt:
  assumes "access_ok a"
  shows "granted a uid mdl action \<longleftrightarrow> (\<exists>(rid, pid) \<in> set (a_grants a).
    rid \<in> set (getActiveRoleIdsForUser a uid) \<and>
    (\<exists>p \<in> set (a_permissions a). pm_id p = pid \<and> pm_module p = mdl \<and> pm_action p = action \<and> pm_active p))"
  unfolding granted_def active_role_ids role_is_active_iff [OF assms] by fastforce

text \<open>The check is exactly the grant through an assigned role.\<close>

lemma hasPermission_granted:
  assumes "access_ok a" and "\<not> is_system_admin role"
  shows "hasPermission a uid role mdl action \<longleftrightarrow> granted a uid mdl action"
proof -
  let ?is = "\<lambda>p. pm_module p = mdl \<and> pm_action p = action \<and> pm_active p"
  have uniq: "p = q" if "p \<in> set (a_permissions a)" "q \<in> set (a_permissions a)" "?is p" "?is q" for p q
  proof -
    have "inj_on (\<lambda>p. (pm_module p, pm_action p)) (set (a_permissions a))"
      using assms(1) by (simp add: access_ok_def distinct_map)
    with that show ?thesis by (auto dest!: inj_onD)
  qed
  show ?thesis
  proof (cases "List.find ?is (a_permissions a)")
    case None
    then have "\<not> hasPermission a uid role mdl action" using assms(2) by (simp add: hasPermission_def)
    with None show ?thesis by (auto simp: granted_def find_None_iff)
  next
    case (Some perm)
    then have perm: "perm \<in> set (a_permissions a)" "?is perm" by (auto simp: find_Some_iff)
    have "hasPermission a uid role mdl action \<longleftrightarrow>
        (\<exists>rid \<in> set (getActiveRoleIdsForUser a uid). (rid, pm_id perm) \<in> set (a_grants a))"
      using assms(2) by (auto simp: hasPermission_def Some Let_def filter_empty_conv)
    also have "\<dots> \<longleftrightarrow> granted a uid mdl action"
      using perm uniq [OF _ perm(1) _ perm(2)] unfolding granted_alt [OF assms(1)] by fastforce
    finally show ?thesis .
  qed
qed

subsection \<open>The map the panel reads\<close>

definition listed :: "(string \<times> string list) list \<Rightarrow> string \<Rightarrow> string \<Rightarrow> bool" where
  "listed m mdl action \<longleftrightarrow> (\<exists>actions. jm_get mdl m = Some actions \<and> action \<in> set actions)"

lemma listed_add_action:
  "listed (add_action p m) mdl action \<longleftrightarrow>
     listed m mdl action \<or> (pm_module p = mdl \<and> pm_action p = action)"
  by (auto simp: listed_def add_action_def jm_get_set split: option.splits)

lemma listed_fold:
  "listed (fold add_action ps m) mdl action \<longleftrightarrow>
     listed m mdl action \<or> (\<exists>p \<in> set ps. pm_module p = mdl \<and> pm_action p = action)"
  by (induction ps arbitrary: m) (auto simp: listed_add_action)

lemma set_map_filter: "set (List.map_filter f xs) = {y. \<exists>x \<in> set xs. f x = Some y}"
  by (induction xs) (auto simp: List.map_filter_def split: option.splits)

lemma user_role_ids:
  assumes "access_ok a"
  shows "mr_id ` set (getUserRoles a uid) = set (getActiveRoleIdsForUser a uid)"
proof -
  have "set (getUserRoles a uid) =
      {r. mr_active r \<and> (\<exists>ur \<in> set (a_user_roles a). ur_user ur = uid \<and> live_role a (ur_role ur) = Some r)}"
    by (auto simp: getUserRoles_def set_map_filter assigned_roles_def)
  then have "rid \<in> mr_id ` set (getUserRoles a uid) \<longleftrightarrow> rid \<in> set (getActiveRoleIdsForUser a uid)" for rid
    unfolding active_role_ids role_is_active_iff [OF assms] live_role_Some [OF assms]
    by (auto simp: image_iff) metis+
  then show ?thesis by blast
qed

lemma userPermissions_granted:
  assumes "access_ok a" and "\<not> system_admin (map_option u_role (List.find (\<lambda>u. u_id u = uid) (a_users a)))"
  shows "listed (snd (getUserPermissions a uid)) mdl action \<longleftrightarrow> granted a uid mdl action"
proof -
  let ?rps = "filter (\<lambda>(r, p). r \<in> mr_id ` set (getUserRoles a uid)) (a_grants a)"
  have "listed (snd (getUserPermissions a uid)) mdl action \<longleftrightarrow>
      (\<exists>(r, pid) \<in> set ?rps. \<exists>p. permission_by_id a pid = Some p \<and> pm_active p
         \<and> pm_module p = mdl \<and> pm_action p = action)"
  proof -
    let ?ps = "filter pm_active (List.map_filter (\<lambda>(r, p). permission_by_id a p) ?rps)"
    have "snd (getUserPermissions a uid) = fold add_action ?ps []"
      using assms(2) by (simp add: getUserPermissions_def Let_def)
    then have "listed (snd (getUserPermissions a uid)) mdl action \<longleftrightarrow>
        (\<exists>p \<in> set ?ps. pm_module p = mdl \<and> pm_action p = action)"
      by (simp only: listed_fold) (simp add: listed_def)
    also have "\<dots> \<longleftrightarrow> (\<exists>(r, pid) \<in> set ?rps. \<exists>p. permission_by_id a pid = Some p \<and> pm_active p
         \<and> pm_module p = mdl \<and> pm_action p = action)"
      by (auto simp: set_map_filter)
    finally show ?thesis .
  qed
  also have "\<dots> \<longleftrightarrow> granted a uid mdl action"
    unfolding permission_by_id_Some [OF assms(1)] user_role_ids [OF assms(1)] granted_alt [OF assms(1)]
    by fastforce
  finally show ?thesis .
qed

end
