(* ===== verification/Permissions_Laws.thy ===== *)
theory Permissions_Laws
  imports Permissions
begin

section \<open>Permissions: what the checks, the guards and the writes guarantee\<close>

text \<open>
  The panel's map and the server's check agree; no route is reachable by forgetting to
  decorate it; a role's grants are the ones asked for plus the reads they need and nothing
  else; a failed creation leaves nothing behind; a deleted role gives nothing; seeding twice
  is seeding once; the cleaned name of a role is already clean.
\<close>

subsection \<open>The check and the map\<close>

text \<open>For a user who is not a system admin, the permission check of the server
  (\<open>hasPermission\<close>) answers yes exactly for the actions the panel is sent
  (\<open>getUserPermissions\<close>), and both say yes exactly when an assigned, active, not deleted
  role grants an active permission: what the interface shows is what the server allows.\<close>

theorem permissions_agree:
  assumes "access_ok a" and "List.find (\<lambda>u. u_id u = uid) (a_users a) = Some u"
    and "\<not> is_system_admin (u_role u)"
  shows "(hasPermission a uid (u_role u) mdl action \<longleftrightarrow> listed (snd (getUserPermissions a uid)) mdl action)
    \<and> (hasPermission a uid (u_role u) mdl action \<longleftrightarrow> granted a uid mdl action)"
  using assms hasPermission_granted [of a "u_role u"] userPermissions_granted [of a uid]
  by (simp_all add: system_admin_def)

subsection \<open>The guards\<close>

text \<open>Default deny. A user who is not a system admin gets past the role and permission
  guards of a route that is not public only when a role of theirs grants the very permission
  the route requires, or the route names no permission and lists the user's own role, or it is
  open to any authenticated user; nobody gets past without a user.\<close>

theorem guards_default_deny:
  assumes "access_ok a" and "guards a rt req = Inr ()" and "override (rt_public rt) \<noteq> Some True"
  shows "\<exists>u. req = Some u \<and>
    (is_system_admin (u_role u)
     \<or> (\<exists>mdl action. override (rt_permission rt) = Some (mdl, action) \<and> granted a (u_id u) mdl action)
     \<or> (override (rt_permission rt) = None \<and> (\<exists>rs. override (rt_roles rt) = Some rs \<and> u_role u \<in> set rs))
     \<or> (override (rt_permission rt) = None \<and> override (rt_any_authenticated rt) = Some True))"
proof -
  from assms(2) have rg: "roles_guard rt req = Inr ()" and pg: "permission_guard a rt req = Inr ()"
    by (auto simp: guards_def bindE_eq_Inr)
  from pg assms(3) obtain u where u: "req = Some u"
    by (cases req) (auto simp: permission_guard_def)
  have listed_role: "u_role u \<in> set rs" if "override (rt_roles rt) = Some rs" "rs \<noteq> []" for rs
    using rg that by (simp add: roles_guard_def u)
  show ?thesis
    using pg assms(3) listed_role
    by (auto simp: permission_guard_def u hasPermission_granted [OF assms(1)]
        split: if_splits option.splits list.splits prod.splits)
qed

subsection \<open>The grants of a role\<close>

lemma setRolePermissions_Inr:
  "setRolePermissions rid pids a = Inr a' \<longleftrightarrow>
     (\<exists>role. live_role a rid = Some role \<and> \<not> mr_system role) \<and> pids \<noteq> [] \<and>
     (let pedidos = filter (\<lambda>p. pm_id p \<in> set pids) (a_permissions a) in
      length pedidos = length (js_set pids) \<and>
      a' = a\<lparr>a_grants := filter (\<lambda>(r, p). r \<noteq> rid) (a_grants a)
               @ map (Pair rid) (conLecturasImplicadas a pedidos)\<rparr>)"
  by (auto simp: setRolePermissions_def bindE_eq_Inr getRole_def Let_def)

text \<open>A read the granted permissions bring along.\<close>

definition implied_read :: "permission list \<Rightarrow> permission \<Rightarrow> bool" where
  "implied_read pedidos p \<longleftrightarrow> pm_action p \<in> set ACCIONES_DE_LECTURA \<and> pm_active p \<and>
     (\<exists>q \<in> set pedidos. (pm_module q = pm_module p \<and> pm_action q \<notin> set ACCIONES_DE_LECTURA)
        \<or> (\<exists>ms. jm_get (pm_module q) MODULOS_DE_APOYO = Some ms \<and> pm_module p \<in> set ms))"

lemma set_conLecturas:
  "set (conLecturasImplicadas a pedidos) =
     pm_id ` set pedidos \<union> pm_id ` {p \<in> set (a_permissions a). implied_read pedidos p}"
proof -
  define needed where "needed = map pm_module (filter (\<lambda>p. pm_action p \<notin> set ACCIONES_DE_LECTURA) pedidos) @
    concat (map (\<lambda>m. (case jm_get m MODULOS_DE_APOYO of None \<Rightarrow> [] | Some ms \<Rightarrow> ms)) (js_set (map pm_module pedidos)))"
  have mem: "m \<in> set needed \<longleftrightarrow> (\<exists>q \<in> set pedidos. (pm_module q = m \<and> pm_action q \<notin> set ACCIONES_DE_LECTURA)
      \<or> (\<exists>ms. jm_get (pm_module q) MODULOS_DE_APOYO = Some ms \<and> m \<in> set ms))" for m
    unfolding needed_def by (auto split: option.splits) force+
  have eq: "conLecturasImplicadas a pedidos = (if js_set needed = [] then map pm_id pedidos
      else js_set (map pm_id pedidos @ map pm_id (filter (\<lambda>p. pm_module p \<in> set (js_set needed)
        \<and> pm_action p \<in> set ACCIONES_DE_LECTURA \<and> pm_active p) (a_permissions a))))"
    by (simp add: conLecturasImplicadas_def Let_def needed_def)
  have "implied_read pedidos p \<longleftrightarrow>
      pm_action p \<in> set ACCIONES_DE_LECTURA \<and> pm_active p \<and> pm_module p \<in> set needed" for p
    by (simp add: implied_read_def mem)
  then show ?thesis unfolding eq by auto
qed

lemma requested_found:
  assumes "access_ok a" and "length (filter (\<lambda>p. pm_id p \<in> set pids) (a_permissions a)) = length (js_set pids)"
  shows "pm_id ` set (filter (\<lambda>p. pm_id p \<in> set pids) (a_permissions a)) = set pids"
proof -
  let ?f = "map pm_id (filter (\<lambda>p. pm_id p \<in> set pids) (a_permissions a))"
  have "distinct ?f" using assms(1) by (simp add: access_ok_def distinct_map_filter)
  then have "card (set ?f) = card (set pids)"
    using assms(2) distinct_card [of ?f] distinct_card [of "js_set pids"] by simp
  moreover have "set ?f \<subseteq> set pids" by auto
  ultimately have "set ?f = set pids" by (simp add: card_subset_eq)
  then show ?thesis by simp
qed

text \<open>Setting the permissions of a role gives it every permission asked for and, beyond
  those, only active list or read permissions of a module it works on or that such a module
  leans on; it never gives a write nobody asked for, always gives the reads of a module it
  works on, and leaves the grants of every other role as they were.\<close>

theorem role_grants_least:
  assumes "access_ok a" and "setRolePermissions rid pids a = Inr a'"
  shows "(\<forall>pid \<in> set pids. (rid, pid) \<in> set (a_grants a')) \<and>
    (\<forall>p \<in> set (a_permissions a). (rid, pm_id p) \<in> set (a_grants a') \<longrightarrow>
      pm_id p \<in> set pids \<or> (pm_active p \<and> pm_action p \<in> {''list'', ''read''})) \<and>
    (\<forall>p \<in> set (a_permissions a). \<forall>q \<in> set (a_permissions a). pm_id q \<in> set pids \<longrightarrow>
      pm_action q \<notin> {''list'', ''read''} \<longrightarrow> pm_module p = pm_module q \<longrightarrow>
      pm_action p \<in> {''list'', ''read''} \<longrightarrow> pm_active p \<longrightarrow> (rid, pm_id p) \<in> set (a_grants a')) \<and>
    (\<forall>r p. r \<noteq> rid \<longrightarrow> ((r, p) \<in> set (a_grants a') \<longleftrightarrow> (r, p) \<in> set (a_grants a)))"
proof (intro conjI)
  define pedidos where "pedidos = filter (\<lambda>p. pm_id p \<in> set pids) (a_permissions a)"
  from assms(2) have len: "length pedidos = length (js_set pids)"
    and a': "a' = a\<lparr>a_grants := filter (\<lambda>(r, p). r \<noteq> rid) (a_grants a)
               @ map (Pair rid) (conLecturasImplicadas a pedidos)\<rparr>"
    by (auto simp: setRolePermissions_Inr Let_def pedidos_def)
  have req: "pm_id ` set pedidos = set pids"
    using requested_found [OF assms(1)] len by (simp add: pedidos_def)
  have g: "(rid, p) \<in> set (a_grants a') \<longleftrightarrow> p \<in> set pids \<or>
      (\<exists>x \<in> set (a_permissions a). pm_id x = p \<and> implied_read pedidos x)" for p
    using set_conLecturas [of a pedidos] req by (auto simp: a')
  have inj: "inj_on pm_id (set (a_permissions a))" using assms(1) by (simp add: access_ok_def distinct_map)
  have reads: "set ACCIONES_DE_LECTURA = {''list'', ''read''}" by (simp add: ACCIONES_DE_LECTURA_def)
  show "\<forall>pid \<in> set pids. (rid, pid) \<in> set (a_grants a')" using g by blast
  show "\<forall>p \<in> set (a_permissions a). (rid, pm_id p) \<in> set (a_grants a') \<longrightarrow>
      pm_id p \<in> set pids \<or> (pm_active p \<and> pm_action p \<in> {''list'', ''read''})"
    using g inj unfolding implied_read_def reads by (metis inj_onD)
  show "\<forall>p \<in> set (a_permissions a). \<forall>q \<in> set (a_permissions a). pm_id q \<in> set pids \<longrightarrow>
      pm_action q \<notin> {''list'', ''read''} \<longrightarrow> pm_module p = pm_module q \<longrightarrow>
      pm_action p \<in> {''list'', ''read''} \<longrightarrow> pm_active p \<longrightarrow> (rid, pm_id p) \<in> set (a_grants a')"
  proof (intro ballI impI)
    fix p q
    assume pq: "p \<in> set (a_permissions a)" "q \<in> set (a_permissions a)" "pm_id q \<in> set pids"
      "pm_action q \<notin> {''list'', ''read''}" "pm_module p = pm_module q"
      "pm_action p \<in> {''list'', ''read''}" "pm_active p"
    then have "q \<in> set pedidos" by (simp add: pedidos_def)
    then have "implied_read pedidos p" using pq unfolding implied_read_def reads by metis
    then show "(rid, pm_id p) \<in> set (a_grants a')" using g pq(1) by blast
  qed
  show "\<forall>r p. r \<noteq> rid \<longrightarrow> ((r, p) \<in> set (a_grants a') \<longleftrightarrow> (r, p) \<in> set (a_grants a))"
    by (auto simp: a')
qed

subsection \<open>Creating and deleting roles\<close>

text \<open>Creating a role that fails, at the name or at its permissions, leaves the roles and
  the grants exactly as they were, although nothing runs in a transaction: no orphan role
  without access to anything is left behind.\<close>

theorem createRole_failure_leaves_nothing:
  assumes "access_ok a" and "createRole lower nombre descripcion pids created_by a = (Inl e, a')"
  shows "a_roles a' = a_roles a \<and> a_grants a' = a_grants a \<and> a_user_roles a' = a_user_roles a"
proof -
  have fresh: "filter (\<lambda>r. mr_id r \<noteq> a_next a) (a_roles a) = a_roles a"
    using assms(1) by (auto simp: access_ok_def intro!: filter_True)
  show ?thesis
    using assms(2) fresh
    by (auto simp: createRole_def Let_def split: if_splits sum.splits)
qed

text \<open>Once a role is deleted no user has any access through it: the roles that count for a
  user are the ones that counted before, minus the deleted one.\<close>

theorem deleteRole_revokes:
  assumes "access_ok a" and "deleteRole rid a = Inr a'"
  shows "set (getActiveRoleIdsForUser a' uid) = set (getActiveRoleIdsForUser a uid) - {rid}"
proof -
  from assms(2) obtain role where role: "live_role a rid = Some role"
    and a': "a' = save_role (role\<lparr>mr_deleted := True\<rparr>)
      (a\<lparr>a_user_roles := filter (\<lambda>ur. ur_role ur \<noteq> rid) (a_user_roles a)\<rparr>)"
    by (auto simp: deleteRole_def bindE_eq_Inr getRole_def Let_def)
  have mr: "mr_id role = rid" using role by (auto simp: live_role_def find_Some_iff)
  have "live_role a' x = live_role a x" if "x \<noteq> rid" for x
  proof -
    have "List.find (\<lambda>r. mr_id r = x \<and> \<not> mr_deleted r) (save_by mr_id (role\<lparr>mr_deleted := True\<rparr>) rs) =
        List.find (\<lambda>r. mr_id r = x \<and> \<not> mr_deleted r) rs" for rs
      using that mr by (induction rs) (auto simp: save_by_Cons)
    then show ?thesis by (simp add: a' save_role_def live_role_def)
  qed
  then have "role_is_active a' x = role_is_active a x" if "x \<noteq> rid" for x
    using that by (simp add: role_is_active_def)
  moreover have "a_user_roles a' = filter (\<lambda>ur. ur_role ur \<noteq> rid) (a_user_roles a)"
    by (simp add: a' save_role_def)
  ultimately show ?thesis unfolding active_role_ids by auto
qed

subsection \<open>Seeding\<close>

lemma seed_permissions_pairs:
  "(\<lambda>p. (pm_module p, pm_action p)) ` set (a_permissions (fold seed_permission ps a)) =
     (\<lambda>p. (pm_module p, pm_action p)) ` set (a_permissions a) \<union> set ps"
  "a_roles (fold seed_permission ps a) = a_roles a" "a_grants (fold seed_permission ps a) = a_grants a"
  by (induction ps arbitrary: a) (auto simp: seed_permission_def)

lemma have_permission_pair:
  "have_permission a m ac \<longleftrightarrow> (m, ac) \<in> (\<lambda>p. (pm_module p, pm_action p)) ` set (a_permissions a)"
  by (auto simp: have_permission_def image_iff)

lemma seedPermissions_catalog:
  assumes "(m, ac) \<in> set catalog_pairs"
  shows "have_permission (seedPermissions a) m ac"
  using assms unfolding have_permission_pair seedPermissions_def seed_permissions_pairs(1)
  by (auto simp: have_permission_pair)

lemma seedPermissions_idle:
  assumes "\<forall>(m, ac) \<in> set catalog_pairs. have_permission a m ac"
  shows "seedPermissions a = a"
proof -
  have "filter (\<lambda>(m, ac). \<not> have_permission a m ac) catalog_pairs = []"
    using assms by (auto simp: filter_empty_conv)
  then show ?thesis by (simp add: seedPermissions_def)
qed

lemma seed_base_role_frame:
  "a_permissions (seed_base_role b a) = a_permissions a"
  "Some (br_key b) \<in> mr_system_key ` set (a_roles (seed_base_role b a))"
  "mr_system_key ` set (a_roles a) \<subseteq> mr_system_key ` set (a_roles (seed_base_role b a))"
  by (force simp: seed_base_role_def Let_def)+

lemma seed_base_role_idle: "Some (br_key b) \<in> mr_system_key ` set (a_roles a) \<Longrightarrow> seed_base_role b a = a"
  by (force simp: seed_base_role_def)

lemma fold_seed_roles:
  "a_permissions (fold seed_base_role bs a) = a_permissions a"
  "mr_system_key ` set (a_roles a) \<subseteq> mr_system_key ` set (a_roles (fold seed_base_role bs a))"
  "b \<in> set bs \<Longrightarrow> Some (br_key b) \<in> mr_system_key ` set (a_roles (fold seed_base_role bs a))"
proof (induction bs arbitrary: a)
  case Nil
  { case 1 show ?case by simp next case 2 show ?case by simp next case 3 then show ?case by simp }
next
  case (Cons x bs)
  { case 1 show ?case using Cons.IH(1) by (simp add: seed_base_role_frame(1))
  next case 2 show ?case using Cons.IH(2) [of "seed_base_role x a"] seed_base_role_frame(3) [of a x] by auto
  next case 3 then show ?case
      using Cons.IH(3) Cons.IH(2) [of "seed_base_role x a"] seed_base_role_frame(2) [of x a] by auto }
qed

lemma fold_seed_roles_idle:
  "\<forall>b \<in> set bs. Some (br_key b) \<in> mr_system_key ` set (a_roles a) \<Longrightarrow> fold seed_base_role bs a = a"
  by (induction bs) (auto simp: seed_base_role_idle)

text \<open>Every start of the application seeds the catalogue and the base roles, and seeding
  again changes nothing: after a start every catalogue permission exists, and a base role that
  was edited, renamed or deleted since is neither reasserted nor resurrected.\<close>

theorem onModuleInit_idempotent:
  "onModuleInit (onModuleInit a) = onModuleInit a \<and>
   (\<forall>(m, ac) \<in> set catalog_pairs. have_permission (onModuleInit a) m ac)"
proof -
  define b where "b = onModuleInit a"
  have perms: "a_permissions b = a_permissions (seedPermissions a)"
    by (simp add: b_def onModuleInit_def fold_seed_roles(1))
  have cat: "\<forall>(m, ac) \<in> set catalog_pairs. have_permission b m ac"
    using seedPermissions_catalog [of _ _ a] by (auto simp: have_permission_def perms)
  have "\<forall>r \<in> set BASE_ROLES. Some (br_key r) \<in> mr_system_key ` set (a_roles b)"
    by (simp add: b_def onModuleInit_def fold_seed_roles(3))
  then have "onModuleInit b = b"
    unfolding onModuleInit_def seedPermissions_idle [OF cat] by (rule fold_seed_roles_idle)
  with cat show ?thesis by (simp add: b_def)
qed

subsection \<open>Names\<close>

text \<open>No white space but single spaces, none at either end.\<close>

fun clean :: "string \<Rightarrow> bool" where
  "clean [] = True"
| "clean [c] = (\<not> is_space c)"
| "clean (c # d # cs) = ((if is_space c then c = CHR '' '' \<and> \<not> is_space d else True) \<and> clean (d # cs))"


definition clean_name :: "string \<Rightarrow> bool" where
  "clean_name s \<longleftrightarrow> (s = [] \<or> \<not> is_space (hd s)) \<and> clean s"

lemma is_space_blank [simp]: "is_space CHR '' ''"
  by (simp add: is_space_def)

lemma hd_collapse: "xs \<noteq> [] \<Longrightarrow> collapse xs \<noteq> [] \<and> (is_space (hd (collapse xs)) \<longleftrightarrow> is_space (hd xs))"
  by (cases xs) auto

lemma last_dropWhile:
  assumes "cs \<noteq> []" and "\<not> is_space (last cs)"
  shows "dropWhile is_space cs \<noteq> [] \<and> last (dropWhile is_space cs) = last cs"
  using assms by (induction cs) (auto split: if_splits)

lemma clean_collapse:
  assumes "xs \<noteq> []" and "\<not> is_space (last xs)"
  shows "clean (collapse xs)"
  using assms
proof (induction xs rule: collapse.induct)
  case 1
  then show ?case by simp
next
  case (2 c cs)
  show ?case
  proof (cases "cs = []")
    case True
    then show ?thesis using "2.prems" by simp
  next
    case False
    then have last: "\<not> is_space (last cs)" using "2.prems" by simp
    show ?thesis
    proof (cases "is_space c")
      case True
      let ?d = "dropWhile is_space cs"
      have d: "?d \<noteq> []" "\<not> is_space (last ?d)" using last_dropWhile [OF False last] last by auto
      have "\<not> is_space (hd ?d)" using d(1) by (rule hd_dropWhile)
      then obtain e es where "collapse ?d = e # es" "\<not> is_space e"
        using hd_collapse [OF d(1)] by (cases "collapse ?d") auto
      then show ?thesis using "2.IH"(1) [OF True d] True by simp
    next
      case c: False
      obtain e es where "collapse cs = e # es" using hd_collapse [OF False] by (cases "collapse cs") auto
      then show ?thesis using "2.IH"(2) [OF c False last] c by simp
    qed
  qed
qed

lemma collapse_clean: "clean s \<Longrightarrow> collapse s = s"
  by (induction s rule: clean.induct) auto

lemma clean_last: "clean s \<Longrightarrow> s \<noteq> [] \<Longrightarrow> \<not> is_space (last s)"
  by (induction s rule: clean.induct) auto

lemma trim_ends:
  assumes "js_trim s \<noteq> []"
  shows "\<not> is_space (hd (js_trim s)) \<and> \<not> is_space (last (js_trim s))"
proof -
  let ?t = "dropWhile is_space s"
  let ?u = "dropWhile is_space (rev ?t)"
  have u: "js_trim s = rev ?u" by (simp add: js_trim_def)
  then have ne: "?u \<noteq> []" using assms by simp
  then have l: "\<not> is_space (last (js_trim s))" unfolding u by (simp add: last_rev hd_dropWhile)
  have t: "?t \<noteq> []" using ne by (metis dropWhile.simps(1) rev.simps(1))
  then have "\<not> is_space (last (rev ?t))" by (simp add: last_rev hd_dropWhile)
  then have "last ?u = last (rev ?t)" using last_dropWhile [of "rev ?t"] t by simp
  then have "hd (js_trim s) = hd ?t" unfolding u using ne t by (simp add: hd_rev last_rev)
  then show ?thesis using l hd_dropWhile [OF t] by simp
qed

lemma trim_clean: "clean_name s \<Longrightarrow> js_trim s = s"
proof (cases "s = []")
  case False
  assume "clean_name s"
  then have "\<not> is_space (hd s)" "\<not> is_space (last s)"
    using False clean_last by (auto simp: clean_name_def)
  moreover have "dropWhile is_space xs = xs" if "xs \<noteq> []" "\<not> is_space (hd xs)" for xs
    using that by (cases xs) auto
  ultimately have "dropWhile is_space s = s" "dropWhile is_space (rev s) = rev s"
    using False by (simp_all add: hd_rev)
  then show ?thesis by (simp add: js_trim_def)
qed (simp add: js_trim_def)

text \<open>The cleaned name of a role has no white space at its ends and only single spaces
  inside, and cleaning it again changes nothing, so the duplicate check compares names that
  differ in more than their spacing.\<close>

theorem nombreDeRolNormalizado_clean:
  "clean_name (nombreDeRolNormalizado s) \<and>
   nombreDeRolNormalizado (nombreDeRolNormalizado s) = nombreDeRolNormalizado s"
proof -
  have c: "clean_name (nombreDeRolNormalizado s)"
  proof (cases "js_trim s = []")
    case True
    then show ?thesis by (simp add: clean_name_def nombreDeRolNormalizado_def)
  next
    case False
    show ?thesis
      using clean_collapse [OF False] hd_collapse [OF False] trim_ends [OF False]
      by (simp add: clean_name_def nombreDeRolNormalizado_def)
  qed
  then have "nombreDeRolNormalizado (nombreDeRolNormalizado s) = collapse (nombreDeRolNormalizado s)"
    by (simp add: nombreDeRolNormalizado_def [of "nombreDeRolNormalizado s"] trim_clean)
  also have "\<dots> = nombreDeRolNormalizado s"
    using c by (simp add: clean_name_def collapse_clean)
  finally show ?thesis using c by simp
qed

subsection \<open>A worked example\<close>

text \<open>
  Some rows of the catalogue, a custom role and a deleted one, an ADMIN (1) and a STAFF member
  (2) who holds the custom role, which may publish the home page.
\<close>

definition sample_access :: access where
  "sample_access = \<lparr>
     a_users = [\<lparr>u_id = 1, u_role = ADMIN\<rparr>, \<lparr>u_id = 2, u_role = STAFF\<rparr>],
     a_permissions = map (\<lambda>(i, m, ac). \<lparr>pm_id = i, pm_module = m, pm_action = ac, pm_active = True\<rparr>)
       [(10, ''cms-home'', ''read''), (11, ''cms-home'', ''update''), (12, ''cms-home'', ''publish''),
        (13, ''products'', ''list''), (14, ''products'', ''update''), (15, ''categories'', ''list''),
        (16, ''cms-banners'', ''list'')],
     a_roles = [
       \<lparr>mr_id = 20, mr_name = ''Portada'', mr_description = None, mr_system_key = None, mr_system = False,
         mr_active = True, mr_created_by = Some 1, mr_deleted = False\<rparr>,
       \<lparr>mr_id = 21, mr_name = ''Viejo'', mr_description = None, mr_system_key = None, mr_system = False,
         mr_active = True, mr_created_by = Some 1, mr_deleted = True\<rparr>],
     a_grants = [(20, 12)],
     a_user_roles = [\<lparr>ur_user = 2, ur_role = 20, ur_assigned_by = Some 1\<rparr>],
     a_next = 30\<rparr>"

definition publish_route :: route where
  "publish_route = \<lparr>rt_public = (None, None), rt_roles = (None, None),
     rt_permission = (Some (''cms-home'', ''publish''), None), rt_any_authenticated = (None, None)\<rparr>"

theorem permissions_agree_witness:
  "hasPermission sample_access 2 STAFF ''cms-home'' ''publish'' \<and>
   listed (snd (getUserPermissions sample_access 2)) ''cms-home'' ''publish''"
proof -
  have "access_ok sample_access" by code_simp
  moreover have "List.find (\<lambda>u. u_id u = 2) (a_users sample_access) = Some \<lparr>u_id = 2, u_role = STAFF\<rparr>"
    by code_simp
  moreover have "hasPermission sample_access 2 STAFF ''cms-home'' ''publish''" by code_simp
  ultimately show ?thesis
    using permissions_agree [of sample_access 2 "\<lparr>u_id = 2, u_role = STAFF\<rparr>" "''cms-home''" "''publish''"]
    by (simp add: is_system_admin_def)
qed

theorem guards_default_deny_witness:
  "\<exists>mdl action. override (rt_permission publish_route) = Some (mdl, action) \<and> granted sample_access 2 mdl action"
proof -
  have "access_ok sample_access" by code_simp
  moreover have "guards sample_access publish_route (Some \<lparr>u_id = 2, u_role = STAFF\<rparr>) = Inr ()" by code_simp
  moreover have "override (rt_public publish_route) \<noteq> Some True" by code_simp
  ultimately show ?thesis
    using guards_default_deny [of sample_access publish_route "Some \<lparr>u_id = 2, u_role = STAFF\<rparr>"]
    by (simp add: publish_route_def is_system_admin_def)
qed

theorem role_grants_least_witness:
  "\<exists>a'. setRolePermissions 20 [11] sample_access = Inr a' \<and> (20, 11) \<in> set (a_grants a')
     \<and> (20, 10) \<in> set (a_grants a')"
proof -
  have ok: "access_ok sample_access" by code_simp
  have "\<not> isl (setRolePermissions 20 [11] sample_access)" by code_simp
  then obtain a' where a': "setRolePermissions 20 [11] sample_access = Inr a'"
    by (cases "setRolePermissions 20 [11] sample_access") auto
  have "(20, 11) \<in> set (a_grants a')"
    using role_grants_least [OF ok a'] by (meson list.set_intros(1))
  moreover have "(20, 10) \<in> set (case setRolePermissions 20 [11] sample_access of Inr a' \<Rightarrow> a_grants a' | Inl _ \<Rightarrow> [])"
    by code_simp
  ultimately show ?thesis using a' by simp
qed

theorem createRole_failure_leaves_nothing_witness:
  "a_roles (snd (createRole id ''  Compras '' None [99] (Some 1) sample_access)) = a_roles sample_access"
proof -
  have ok: "access_ok sample_access" by code_simp
  have "isl (fst (createRole id ''  Compras '' None [99] (Some 1) sample_access))" by code_simp
  then obtain e where "fst (createRole id ''  Compras '' None [99] (Some 1) sample_access) = Inl e"
    by (auto simp: isl_def)
  then have "createRole id ''  Compras '' None [99] (Some 1) sample_access =
      (Inl e, snd (createRole id ''  Compras '' None [99] (Some 1) sample_access))"
    by (metis prod.collapse)
  from createRole_failure_leaves_nothing [OF ok this] show ?thesis by simp
qed

theorem deleteRole_revokes_witness:
  "\<exists>a'. deleteRole 20 sample_access = Inr a' \<and> set (getActiveRoleIdsForUser a' 2) = {}"
proof -
  have ok: "access_ok sample_access" by code_simp
  have "\<not> isl (deleteRole 20 sample_access)" by code_simp
  then obtain a' where a': "deleteRole 20 sample_access = Inr a'"
    by (cases "deleteRole 20 sample_access") auto
  have "getActiveRoleIdsForUser sample_access 2 = [20]" by code_simp
  then show ?thesis using deleteRole_revokes [OF ok a', of 2] a' by simp
qed

theorem onModuleInit_idempotent_witness:
  "have_permission (onModuleInit sample_access) ''orders'' ''update-status''"
proof -
  have "(''orders'', ''update-status'') \<in> set catalog_pairs" by code_simp
  with onModuleInit_idempotent [of sample_access] show ?thesis by blast
qed

text \<open>The reads a role brings along are not closed: a role that edits the home page gets the
  product list (a support of the home page) but not the category list the product screen needs,
  although a role granted that same product list directly would get it. Saving the role again
  with the permissions it has changes it.\<close>

theorem support_reads_not_closed:
  "case setRolePermissions 20 [11] sample_access of
     Inl _ \<Rightarrow> False
   | Inr a' \<Rightarrow> (20, 13) \<in> set (a_grants a') \<and> (20, 15) \<notin> set (a_grants a') \<and>
       (case setRolePermissions 20 (map snd (filter (\<lambda>(r, p). r = 20) (a_grants a'))) a' of
          Inl _ \<Rightarrow> False
        | Inr a'' \<Rightarrow> (20, 15) \<in> set (a_grants a''))"
  by code_simp

end
