(* ===== verification/Inventory.thy ===== *)
theory Inventory
  imports Entities
begin

section \<open>Inventory: holding, committing and releasing stock\<close>

text \<open>
  \<open>src/inventory/inventory.service.ts\<close>, the part orders call: \<open>reserve\<close>,
  \<open>confirmReservations\<close>, \<open>releaseReservations\<close>, \<open>releaseProductUnits\<close>,
  \<open>confirmProductReservations\<close>, and the helpers \<open>addStock\<close>, \<open>removeStock\<close>,
  \<open>recordOrderMovement\<close> and \<open>rehomeReservations\<close>. The state is the four tables they
  write; every operation takes and returns it, and a thrown exception is \<open>Inl\<close> (the
  caller's transaction then keeps the old state). \<open>now\<close> is the clock read by the column
  defaults.

  The definitions come first, then the \<open>books\<close>: what the tables agree on.
\<close>

record stock =
  s_rows :: "inv_row list"
  s_resv :: "reservation list"
  s_ops :: "operation list"
  s_next :: nat

subsection \<open>Rows\<close>

definition inv_key :: "inv_row \<Rightarrow> id \<times> id" where
  "inv_key r = (inv_location r, inv_product r)"

definition row_at :: "id \<Rightarrow> id \<Rightarrow> stock \<Rightarrow> inv_row option" where
  "row_at l p st = List.find (\<lambda>r. inv_key r = (l, p)) (s_rows st)"

definition save_row :: "inv_row \<Rightarrow> stock \<Rightarrow> stock" where
  "save_row r st = st\<lparr>s_rows := save_by inv_key r (s_rows st)\<rparr>"

text \<open>\<open>repo.save(repo.create({locationId, productId, quantity}))\<close>: \<open>reservedQuantity\<close> defaults to 0.\<close>

definition create_row :: "id \<Rightarrow> id \<Rightarrow> int \<Rightarrow> stock \<Rightarrow> stock" where
  "create_row l p n st = st\<lparr>s_rows := s_rows st @
     [\<lparr>inv_location = l, inv_product = p, inv_quantity = n, inv_reserved = 0\<rparr>]\<rparr>"

definition save_resv :: "reservation \<Rightarrow> stock \<Rightarrow> stock" where
  "save_resv r st = st\<lparr>s_resv := save_by r_id r (s_resv st)\<rparr>"

definition create_resv ::
  "id \<Rightarrow> id \<Rightarrow> id \<Rightarrow> int \<Rightarrow> reservation_status \<Rightarrow> instant \<Rightarrow> stock \<Rightarrow> stock" where
  "create_resv oid l p n status now st = st\<lparr>
     s_resv := s_resv st @ [\<lparr>r_id = s_next st, r_order = oid, r_location = l, r_product = p,
       r_quantity = n, r_status = status, r_created = now\<rparr>],
     s_next := Suc (s_next st)\<rparr>"

definition available :: "inv_row \<Rightarrow> int" where
  "available r = inv_quantity r - inv_reserved r"

subsection \<open>reserve\<close>

definition active_location_ids :: "location list \<Rightarrow> id list option \<Rightarrow> id list" where
  "active_location_ids locs allowed =
     map loc_id (filter (\<lambda>l. loc_active l \<and> \<not> loc_deleted l \<and>
       (case allowed of None \<Rightarrow> True | Some ids \<Rightarrow> loc_id l \<in> set ids)) locs)"

text \<open>The comparator: the preferred storage first, then the larger availability.\<close>

definition reserve_cmp :: "id option \<Rightarrow> inv_row \<Rightarrow> inv_row \<Rightarrow> int" where
  "reserve_cmp preferred a b =
     (let by_available = available b - available a in
      case preferred of None \<Rightarrow> by_available
      | Some l \<Rightarrow>
          (let a_preferred = (inv_location a = l); b_preferred = (inv_location b = l) in
           if a_preferred \<noteq> b_preferred then (if a_preferred then -1 else 1) else by_available))"

definition reserve_rows ::
  "location list \<Rightarrow> id \<Rightarrow> id list option \<Rightarrow> id option \<Rightarrow> stock \<Rightarrow> inv_row list" where
  "reserve_rows locs p allowed preferred st =
     (let active = active_location_ids locs allowed in
      js_sort (reserve_cmp preferred)
        (filter (\<lambda>r. inv_product r = p \<and> inv_location r \<in> set active) (s_rows st)))"

fun reserve_loop ::
  "id \<Rightarrow> id \<Rightarrow> instant \<Rightarrow> inv_row list \<Rightarrow> int \<Rightarrow> stock \<Rightarrow> stock" where
  "reserve_loop oid p now [] remaining st = st"
| "reserve_loop oid p now (row # rows) remaining st =
     (if remaining \<le> 0 then st
      else if available row \<le> 0 then reserve_loop oid p now rows remaining st
      else let taken = min (available row) remaining;
               st1 = save_row (row\<lparr>inv_reserved := inv_reserved row + taken\<rparr>) st;
               st2 = create_resv oid (inv_location row) p taken Reserved now st1
           in reserve_loop oid p now rows (remaining - taken) st2)"

definition reserve ::
  "location list \<Rightarrow> id list option \<Rightarrow> id option \<Rightarrow> instant \<Rightarrow> id \<Rightarrow> id \<Rightarrow> int \<Rightarrow> stock \<Rightarrow> error + stock" where
  "reserve locs allowed preferred now oid p quantity st =
     (let rows = reserve_rows locs p allowed preferred st;
          total_available = sum_list (map available rows)
      in if total_available < quantity then Inl (StockConflict total_available)
         else Inr (reserve_loop oid p now rows quantity st))"

subsection \<open>Settling the reservations of an order\<close>

definition settle_one ::
  "reservation_status \<Rightarrow> (inv_row \<Rightarrow> int \<Rightarrow> inv_row) \<Rightarrow> reservation \<Rightarrow> stock \<Rightarrow> stock" where
  "settle_one final upd r st =
     (let st1 = (case row_at (r_location r) (r_product r) st of
                   Some row \<Rightarrow> save_row (upd row (r_quantity r)) st
                 | None \<Rightarrow> st)
      in save_resv (r\<lparr>r_status := final\<rparr>) st1)"

definition with_status :: "id \<Rightarrow> reservation_status \<Rightarrow> stock \<Rightarrow> reservation list" where
  "with_status oid status st =
     filter (\<lambda>r. r_order r = oid \<and> r_status r = status) (s_resv st)"

definition settle_reservations ::
  "id \<Rightarrow> reservation_status \<Rightarrow> (inv_row \<Rightarrow> int \<Rightarrow> inv_row) \<Rightarrow> stock \<Rightarrow> stock" where
  "settle_reservations oid final upd st =
     fold (settle_one final upd) (with_status oid Reserved st) st"

subsection \<open>The movement ledger\<close>

text \<open>Quantities grouped by storage, merged per product, in the order first seen.\<close>

fun group_movement :: "reservation list \<Rightarrow> (id \<times> (id \<times> int) list) list \<Rightarrow> (id \<times> (id \<times> int) list) list" where
  "group_movement [] m = m"
| "group_movement (r # rs) m =
     (let items = (case jm_get (r_location r) m of None \<Rightarrow> [] | Some i \<Rightarrow> i)
      in group_movement rs (jm_set (r_location r) (jm_add (r_product r) (r_quantity r) items) m))"

definition append_operation ::
  "operation_type \<Rightarrow> id \<Rightarrow> id option \<Rightarrow> id option \<Rightarrow> string option \<Rightarrow> id \<Rightarrow> (id \<times> int) list \<Rightarrow> stock \<Rightarrow> stock" where
  "append_operation ty l target oid note uid items st = st\<lparr>
     s_ops := s_ops st @ [\<lparr>op_id = s_next st, op_type = ty, op_location = l, op_target = target,
       op_order = oid, op_note = note, op_created_by = uid, op_items = items\<rparr>],
     s_next := Suc (s_next st)\<rparr>"

definition record_order_movement ::
  "operation_type \<Rightarrow> id \<Rightarrow> id \<Rightarrow> reservation list \<Rightarrow> stock \<Rightarrow> stock" where
  "record_order_movement ty oid uid rs st =
     fold (\<lambda>(l, items). append_operation ty l None (Some oid) None uid items)
       (group_movement rs []) st"

subsection \<open>confirmReservations, releaseReservations\<close>

definition commit_row :: "inv_row \<Rightarrow> int \<Rightarrow> inv_row" where
  "commit_row row n = row\<lparr>inv_quantity := inv_quantity row - n, inv_reserved := inv_reserved row - n\<rparr>"

definition unhold_row :: "inv_row \<Rightarrow> int \<Rightarrow> inv_row" where
  "unhold_row row n = row\<lparr>inv_reserved := inv_reserved row - n\<rparr>"

definition confirm_reservations :: "id \<Rightarrow> id \<Rightarrow> stock \<Rightarrow> stock" where
  "confirm_reservations oid uid st =
     (let to_confirm = with_status oid Reserved st;
          st1 = settle_reservations oid Confirmed commit_row st
      in record_order_movement OpOut oid uid to_confirm st1)"

text \<open>A confirmed allocation goes back on its shelf.\<close>

definition put_back :: "id \<Rightarrow> id \<Rightarrow> int \<Rightarrow> stock \<Rightarrow> stock" where
  "put_back l p n st =
     (case row_at l p st of
        Some row \<Rightarrow> save_row (row\<lparr>inv_quantity := inv_quantity row + n\<rparr>) st
      | None \<Rightarrow> create_row l p n st)"

definition restock_one :: "reservation_status \<Rightarrow> reservation \<Rightarrow> stock \<Rightarrow> stock" where
  "restock_one final r st =
     save_resv (r\<lparr>r_status := final\<rparr>) (put_back (r_location r) (r_product r) (r_quantity r) st)"

definition release_reservations ::
  "id \<Rightarrow> id option \<Rightarrow> reservation_status \<Rightarrow> stock \<Rightarrow> error + stock" where
  "release_reservations oid uid final st =
     (let st1 = settle_reservations oid final unhold_row st;
          confirmed = with_status oid Confirmed st1;
          st2 = fold (restock_one final) confirmed st1
      in if confirmed = [] then Inr st2
         else case uid of
           None \<Rightarrow> Inl (InternalError ''releaseReservations: userId required'')
         | Some u \<Rightarrow> Inr (record_order_movement OpIn oid u confirmed st2))"

subsection \<open>Editing one line: releaseProductUnits, confirmProductReservations\<close>

definition product_with_status :: "id \<Rightarrow> id \<Rightarrow> reservation_status \<Rightarrow> stock \<Rightarrow> reservation list" where
  "product_with_status oid p status st =
     filter (\<lambda>r. r_order r = oid \<and> r_product r = p \<and> r_status r = status) (s_resv st)"

text \<open>The two ways of giving back \<open>taken\<close> units: dropping the hold, or restocking.\<close>

definition give_back :: "reservation_status \<Rightarrow> reservation \<Rightarrow> int \<Rightarrow> stock \<Rightarrow> stock" where
  "give_back status r taken st =
     (if status = Reserved
      then (case row_at (r_location r) (r_product r) st of
              Some row \<Rightarrow> save_row (unhold_row row taken) st
            | None \<Rightarrow> st)
      else put_back (r_location r) (r_product r) taken st)"

text \<open>A reservation released in part is split in two rows.\<close>

definition shrink_resv :: "instant \<Rightarrow> reservation \<Rightarrow> int \<Rightarrow> stock \<Rightarrow> stock" where
  "shrink_resv now r taken st =
     (if taken = r_quantity r then save_resv (r\<lparr>r_status := Cancelled\<rparr>) st
      else create_resv (r_order r) (r_location r) (r_product r) taken Cancelled now
             (save_resv (r\<lparr>r_quantity := r_quantity r - taken\<rparr>) st))"

fun release_units_loop ::
  "instant \<Rightarrow> reservation_status \<Rightarrow> reservation list \<Rightarrow> int \<Rightarrow> stock \<Rightarrow> int \<times> reservation list \<times> stock" where
  "release_units_loop now status [] remaining st = (remaining, [], st)"
| "release_units_loop now status (r # rs) remaining st =
     (if remaining \<le> 0 then (remaining, [], st)
      else let taken = min (r_quantity r) remaining;
               st1 = shrink_resv now r taken (give_back status r taken st);
               (remaining', restocked, st2) = release_units_loop now status rs (remaining - taken) st1
           in (remaining',
               (if status = Confirmed then r\<lparr>r_quantity := taken\<rparr> # restocked else restocked),
               st2))"

definition release_units_phase ::
  "instant \<Rightarrow> id \<Rightarrow> id \<Rightarrow> id option \<Rightarrow> reservation_status \<Rightarrow> int \<times> stock \<Rightarrow> error + int \<times> stock" where
  "release_units_phase now oid p uid status = (\<lambda>(remaining, st).
     if remaining \<le> 0 then Inr (remaining, st)
     else let rows = sort_key r_created (product_with_status oid p status st);
              (remaining', restocked, st1) = release_units_loop now status rows remaining st
          in if restocked = [] then Inr (remaining', st1)
             else case uid of
               None \<Rightarrow> Inl (InternalError ''releaseProductUnits: userId required'')
             | Some u \<Rightarrow> Inr (remaining', record_order_movement OpIn oid u restocked st1))"

definition release_product_units ::
  "instant \<Rightarrow> id \<Rightarrow> id \<Rightarrow> int \<Rightarrow> id option \<Rightarrow> stock \<Rightarrow> error + stock" where
  "release_product_units now oid p quantity uid st =
     (if quantity \<le> 0 then Inr st
      else bindE (release_units_phase now oid p uid Reserved (quantity, st)) (\<lambda>s1.
           bindE (release_units_phase now oid p uid Confirmed s1) (\<lambda>(_, st2). Inr st2)))"

definition confirm_product_reservations :: "id \<Rightarrow> id \<Rightarrow> id \<Rightarrow> stock \<Rightarrow> stock" where
  "confirm_product_reservations oid p uid st =
     (let to_confirm = product_with_status oid p Reserved st
      in if to_confirm = [] then st
         else record_order_movement OpOut oid uid to_confirm
                (fold (settle_one Confirmed commit_row) to_confirm st))"

subsection \<open>Manual movements\<close>

definition add_stock :: "id \<Rightarrow> id \<Rightarrow> int \<Rightarrow> stock \<Rightarrow> stock" where
  "add_stock l p n st = put_back l p n st"

definition remove_stock :: "id \<Rightarrow> id \<Rightarrow> int \<Rightarrow> stock \<Rightarrow> error + stock" where
  "remove_stock l p n st =
     (let current = (case row_at l p st of None \<Rightarrow> 0 | Some row \<Rightarrow> available row)
      in if current < n then Inl (BadRequest ''Insufficient stock'')
         else case row_at l p st of
           None \<Rightarrow> Inl (InternalError ''null row'')
         | Some row \<Rightarrow> Inr (save_row (row\<lparr>inv_quantity := inv_quantity row - n\<rparr>) st))"

definition merge_items :: "(id \<times> int) list \<Rightarrow> (id \<times> int) list" where
  "merge_items items = fold (\<lambda>(p, n). jm_add p n) items []"

text \<open>
  \<open>rehomeReservations\<close>: the holds of pickup orders of the counter that just received
  stock, oldest order first, move home while the counter can hold them.
\<close>

definition misplaced :: "order list \<Rightarrow> id \<Rightarrow> id list \<Rightarrow> stock \<Rightarrow> reservation list" where
  "misplaced orders target products st =
     (let order_of = (\<lambda>r. List.find (\<lambda>ord. o_id ord = r_order r) orders);
          rows = filter (\<lambda>r. r_status r = Reserved \<and> r_product r \<in> set products
                    \<and> r_location r \<noteq> target
                    \<and> (case order_of r of None \<Rightarrow> False
                       | Some ord \<Rightarrow> o_fulfillment ord = PICKUP \<and> o_pickup_location ord = Some target))
                  (s_resv st);
          ordered_at = (\<lambda>r. case order_of r of None \<Rightarrow> 0 | Some ord \<Rightarrow> o_created_at ord)
      in js_sort (\<lambda>a b. if ordered_at a = ordered_at b then r_created a - r_created b
                         else ordered_at a - ordered_at b) rows)"

definition rehome_one :: "id \<Rightarrow> reservation \<Rightarrow> stock \<Rightarrow> stock" where
  "rehome_one target r st =
     (case row_at target (r_product r) st of
        None \<Rightarrow> st
      | Some t \<Rightarrow>
          if available t < r_quantity r then st
          else let source = row_at (r_location r) (r_product r) st;
                   st1 = save_row (t\<lparr>inv_reserved := inv_reserved t + r_quantity r\<rparr>) st;
                   st2 = (case source of
                            None \<Rightarrow> st1
                          | Some s \<Rightarrow> save_row (s\<lparr>inv_reserved :=
                              max 0 (inv_reserved s - r_quantity r)\<rparr>) st1)
               in save_resv (r\<lparr>r_location := target\<rparr>) st2)"

definition rehome_reservations :: "order list \<Rightarrow> id \<Rightarrow> id list \<Rightarrow> stock \<Rightarrow> stock" where
  "rehome_reservations orders target products st =
     fold (rehome_one target) (misplaced orders target products st) st"

end
