(* ===== verification/Inventory_Books.thy ===== *)
theory Inventory_Books
  imports Inventory
begin

section \<open>The books of the inventory: what the tables agree on\<close>

text \<open>
  The numbers the tables are read for, per (location, product): physical units
  (\<open>quantity_at\<close>), units the rows say are held (\<open>reserved_at\<close>), units the reservations
  hold (\<open>held_at\<close>) and the balance of the movement ledger (\<open>ledger_at\<close>); and per order
  and product, the units in each reservation status (\<open>order_units\<close>).

  \<open>books\<close> is the invariant: the index on (location, product) and the primary keys are
  unique, no reservation is empty, and at every (location, product) the rows hold exactly
  what the live reservations hold and never more than there is.

  First the effect of each primitive write on these numbers, then of each operation.
\<close>

subsection \<open>The numbers\<close>

definition quantity_at :: "id \<Rightarrow> id \<Rightarrow> stock \<Rightarrow> int" where
  "quantity_at l p st = sum_where (\<lambda>r. inv_key r = (l, p)) inv_quantity (s_rows st)"

definition reserved_at :: "id \<Rightarrow> id \<Rightarrow> stock \<Rightarrow> int" where
  "reserved_at l p st = sum_where (\<lambda>r. inv_key r = (l, p)) inv_reserved (s_rows st)"

definition held_at :: "id \<Rightarrow> id \<Rightarrow> stock \<Rightarrow> int" where
  "held_at l p st =
     sum_where (\<lambda>r. r_location r = l \<and> r_product r = p \<and> r_status r = Reserved) r_quantity (s_resv st)"

definition order_units :: "id \<Rightarrow> id \<Rightarrow> reservation_status \<Rightarrow> stock \<Rightarrow> int" where
  "order_units oid p status st =
     sum_where (\<lambda>r. r_order r = oid \<and> r_product r = p \<and> r_status r = status) r_quantity (s_resv st)"

text \<open>What one ledger entry does to the physical stock of a product at a storage.\<close>

definition items_of :: "id \<Rightarrow> (id \<times> int) list \<Rightarrow> int" where
  "items_of p items = sum_where (\<lambda>(q, _). q = p) snd items"

fun op_delta :: "id \<Rightarrow> id \<Rightarrow> operation \<Rightarrow> int" where
  "op_delta l p oper =
     (let n = items_of p (op_items oper) in
      case op_type oper of
        OpIn \<Rightarrow> (if op_location oper = l then n else 0)
      | OpOut \<Rightarrow> (if op_location oper = l then - n else 0)
      | OpTransfer \<Rightarrow> (if op_location oper = l then - n else 0) + (if op_target oper = Some l then n else 0))"

definition ledger_at :: "id \<Rightarrow> id \<Rightarrow> stock \<Rightarrow> int" where
  "ledger_at l p st = sum_list (map (op_delta l p) (s_ops st))"

definition tidy :: "stock \<Rightarrow> bool" where
  "tidy st \<longleftrightarrow> distinct (map inv_key (s_rows st)) \<and> distinct (map r_id (s_resv st))
     \<and> (\<forall>r \<in> set (s_resv st). r_id r < s_next st \<and> 0 < r_quantity r)"

definition books :: "stock \<Rightarrow> bool" where
  "books st \<longleftrightarrow> tidy st \<and>
     (\<forall>l p. reserved_at l p st = held_at l p st \<and> held_at l p st \<le> quantity_at l p st)"

subsection \<open>Lookups\<close>

lemma row_at_key:
  assumes "row_at l p st = Some row"
  shows "row \<in> set (s_rows st)" and "inv_key row = (l, p)"
    and "inv_location row = l" and "inv_product row = p"
  using find_key_Some [OF assms [unfolded row_at_def]] by (auto simp: inv_key_def)

lemma row_at_None: "row_at l p st = None \<longleftrightarrow> (l, p) \<notin> inv_key ` set (s_rows st)"
  by (simp add: row_at_def find_key_None)

lemma row_at_member:
  assumes "tidy st" and "row \<in> set (s_rows st)"
  shows "row_at (inv_location row) (inv_product row) st = Some row"
  using find_distinct_key [of inv_key "s_rows st" row] assms
  by (simp add: row_at_def tidy_def inv_key_def)

lemma sum_at_row:
  assumes "tidy st"
  shows "sum_where (\<lambda>r. inv_key r = (l, p)) f (s_rows st) =
    (case row_at l p st of None \<Rightarrow> 0 | Some row \<Rightarrow> f row)"
proof -
  have "distinct (map inv_key rows) \<Longrightarrow> sum_where (\<lambda>r. inv_key r = k) f rows =
      (case List.find (\<lambda>r. inv_key r = k) rows of None \<Rightarrow> 0 | Some row \<Rightarrow> f row)" for rows k
  proof (induction rows)
    case (Cons r rows)
    then have "inv_key r = k \<Longrightarrow> sum_where (\<lambda>r. inv_key r = k) f rows = 0"
      by (intro sum_where_False) (auto simp: image_iff)
    with Cons show ?case by auto
  qed simp
  with assms show ?thesis by (simp add: tidy_def row_at_def)
qed

lemma quantity_at_row: "tidy st \<Longrightarrow> quantity_at l p st = (case row_at l p st of None \<Rightarrow> 0 | Some row \<Rightarrow> inv_quantity row)"
  and reserved_at_row: "tidy st \<Longrightarrow> reserved_at l p st = (case row_at l p st of None \<Rightarrow> 0 | Some row \<Rightarrow> inv_reserved row)"
  by (simp_all add: quantity_at_def reserved_at_def sum_at_row)

lemma held_nonneg: "tidy st \<Longrightarrow> 0 \<le> held_at l p st"
  unfolding held_at_def by (rule sum_where_nonneg) (auto simp: tidy_def order_less_imp_le)

lemma order_units_nonneg: "tidy st \<Longrightarrow> 0 \<le> order_units oid p status st"
  unfolding order_units_def by (rule sum_where_nonneg) (auto simp: tidy_def order_less_imp_le)

text \<open>A live reservation has its row: the books say the row holds at least as much.\<close>

lemma books_row_exists:
  assumes "books st" and "r \<in> set (s_resv st)" and "r_status r = Reserved"
  shows "row_at (r_location r) (r_product r) st \<noteq> None"
proof
  assume none: "row_at (r_location r) (r_product r) st = None"
  have t: "tidy st" using assms(1) by (simp add: books_def)
  have "r_quantity r \<le> held_at (r_location r) (r_product r) st"
    unfolding held_at_def using assms t
    by (intro sum_where_member_le) (auto simp: tidy_def order_less_imp_le)
  moreover have "held_at (r_location r) (r_product r) st = reserved_at (r_location r) (r_product r) st"
    using assms(1) by (simp add: books_def)
  moreover have "reserved_at (r_location r) (r_product r) st = 0"
    using t none by (simp add: reserved_at_row)
  moreover have "0 < r_quantity r" using t assms(2) by (simp add: tidy_def)
  ultimately show False by linarith
qed

lemma books_row_bounds:
  assumes "books st" and "row \<in> set (s_rows st)"
  shows "0 \<le> inv_reserved row" and "inv_reserved row \<le> inv_quantity row"
proof -
  have t: "tidy st" using assms(1) by (simp add: books_def)
  from row_at_member [OF t assms(2)]
  have "reserved_at (inv_location row) (inv_product row) st = inv_reserved row"
    and "quantity_at (inv_location row) (inv_product row) st = inv_quantity row"
    using t by (simp_all add: reserved_at_row quantity_at_row)
  then show "0 \<le> inv_reserved row" and "inv_reserved row \<le> inv_quantity row"
    using assms(1) held_nonneg [OF t] by (metis books_def)+
qed

subsection \<open>The effect of each write\<close>

lemmas stock_numbers = quantity_at_def reserved_at_def held_at_def order_units_def ledger_at_def

lemma save_row_frame [simp]:
  "s_resv (save_row r st) = s_resv st" "s_ops (save_row r st) = s_ops st"
  "s_next (save_row r st) = s_next st"
  by (simp_all add: save_row_def)

lemma save_resv_frame [simp]:
  "s_rows (save_resv r st) = s_rows st" "s_ops (save_resv r st) = s_ops st"
  "s_next (save_resv r st) = s_next st"
  by (simp_all add: save_resv_def)

lemma create_resv_frame [simp]:
  "s_rows (create_resv oid l p n status now st) = s_rows st"
  "s_ops (create_resv oid l p n status now st) = s_ops st"
  by (simp_all add: create_resv_def)

lemma create_row_frame [simp]:
  "s_resv (create_row l p n st) = s_resv st" "s_ops (create_row l p n st) = s_ops st"
  "s_next (create_row l p n st) = s_next st"
  by (simp_all add: create_row_def)

lemma append_operation_frame [simp]:
  "s_rows (append_operation ty l tg oid nt u items st) = s_rows st"
  "s_resv (append_operation ty l tg oid nt u items st) = s_resv st"
  by (simp_all add: append_operation_def)

lemma numbers_cong:
  "s_resv st' = s_resv st \<Longrightarrow> held_at l p st' = held_at l p st"
  "s_resv st' = s_resv st \<Longrightarrow> order_units oid p status st' = order_units oid p status st"
  "s_rows st' = s_rows st \<Longrightarrow> quantity_at l p st' = quantity_at l p st"
  "s_rows st' = s_rows st \<Longrightarrow> reserved_at l p st' = reserved_at l p st"
  "s_rows st' = s_rows st \<Longrightarrow> row_at l p st' = row_at l p st"
  "s_ops st' = s_ops st \<Longrightarrow> ledger_at l p st' = ledger_at l p st"
  by (simp_all add: stock_numbers row_at_def)

lemma save_row_numbers [simp]:
  "held_at l p (save_row r st) = held_at l p st"
  "order_units oid p status (save_row r st) = order_units oid p status st"
  "ledger_at l p (save_row r st) = ledger_at l p st"
  by (rule numbers_cong; simp)+

lemma save_resv_numbers [simp]:
  "quantity_at l p (save_resv r st) = quantity_at l p st"
  "reserved_at l p (save_resv r st) = reserved_at l p st"
  "row_at l p (save_resv r st) = row_at l p st"
  "ledger_at l p (save_resv r st) = ledger_at l p st"
  by (rule numbers_cong; simp)+

lemma create_resv_numbers [simp]:
  "quantity_at l p (create_resv oid l' p' n status now st) = quantity_at l p st"
  "reserved_at l p (create_resv oid l' p' n status now st) = reserved_at l p st"
  "row_at l p (create_resv oid l' p' n status now st) = row_at l p st"
  "ledger_at l p (create_resv oid l' p' n status now st) = ledger_at l p st"
  by (rule numbers_cong; simp)+

lemma create_row_numbers [simp]:
  "held_at l p (create_row l' p' n st) = held_at l p st"
  "order_units oid p status (create_row l' p' n st) = order_units oid p status st"
  "ledger_at l p (create_row l' p' n st) = ledger_at l p st"
  by (rule numbers_cong; simp)+

lemma append_operation_numbers [simp]:
  "held_at l p (append_operation ty l' tg oid nt u items st) = held_at l p st"
  "order_units oid' p status (append_operation ty l' tg oid nt u items st) = order_units oid' p status st"
  "quantity_at l p (append_operation ty l' tg oid nt u items st) = quantity_at l p st"
  "reserved_at l p (append_operation ty l' tg oid nt u items st) = reserved_at l p st"
  "row_at l p (append_operation ty l' tg oid nt u items st) = row_at l p st"
  by (rule numbers_cong; simp)+

lemma save_row_at:
  assumes "tidy st" and "row_at l p st = Some old" and "inv_key new = (l, p)"
  shows "quantity_at l' p' (save_row new st) =
      quantity_at l' p' st + (if (l', p') = (l, p) then inv_quantity new - inv_quantity old else 0)"
    and "reserved_at l' p' (save_row new st) =
      reserved_at l' p' st + (if (l', p') = (l, p) then inv_reserved new - inv_reserved old else 0)"
    and "tidy (save_row new st)"
    and "row_at l' p' (save_row new st) = (if (l', p') = (l, p) then Some new else row_at l' p' st)"
proof -
  have d: "distinct (map inv_key (s_rows st))" using assms(1) by (simp add: tidy_def)
  note old = row_at_key [OF assms(2)]
  have k: "inv_key old = inv_key new" using old(2) assms(3) by simp
  show "quantity_at l' p' (save_row new st) =
      quantity_at l' p' st + (if (l', p') = (l, p) then inv_quantity new - inv_quantity old else 0)"
    unfolding quantity_at_def save_row_def
    using sum_where_save_by [OF d old(1) k, of "\<lambda>r. inv_key r = (l', p')" inv_quantity]
    by (auto simp: old(2) assms(3))
  show "reserved_at l' p' (save_row new st) =
      reserved_at l' p' st + (if (l', p') = (l, p) then inv_reserved new - inv_reserved old else 0)"
    unfolding reserved_at_def save_row_def
    using sum_where_save_by [OF d old(1) k, of "\<lambda>r. inv_key r = (l', p')" inv_reserved]
    by (auto simp: old(2) assms(3))
  show "tidy (save_row new st)"
    using assms(1) by (simp add: tidy_def save_row_def save_by_keys)
  show "row_at l' p' (save_row new st) = (if (l', p') = (l, p) then Some new else row_at l' p' st)"
    using assms(2,3) by (auto simp: row_at_def save_row_def find_save_by)
qed

lemma create_row_at:
  assumes "tidy st" and "row_at l p st = None"
  shows "quantity_at l' p' (create_row l p n st) = quantity_at l' p' st + (if (l', p') = (l, p) then n else 0)"
    and "reserved_at l' p' (create_row l p n st) = reserved_at l' p' st"
    and "tidy (create_row l p n st)"
    and "row_at l' p' (create_row l p n st) =
      (if (l', p') = (l, p) then Some \<lparr>inv_location = l, inv_product = p, inv_quantity = n, inv_reserved = 0\<rparr>
       else row_at l' p' st)"
proof -
  have none: "List.find (\<lambda>r. inv_key r = (l, p)) (s_rows st) = None"
    using assms(2) by (simp add: row_at_def)
  have new: "(l, p) \<notin> inv_key ` set (s_rows st)" using assms(2) by (simp add: row_at_None)
  show "quantity_at l' p' (create_row l p n st) = quantity_at l' p' st + (if (l', p') = (l, p) then n else 0)"
    by (auto simp: quantity_at_def create_row_def sum_simps inv_key_def)
  show "reserved_at l' p' (create_row l p n st) = reserved_at l' p' st"
    by (auto simp: reserved_at_def create_row_def sum_simps inv_key_def)
  show "tidy (create_row l p n st)"
    using assms(1) new by (auto simp: tidy_def create_row_def inv_key_def)
  show "row_at l' p' (create_row l p n st) =
      (if (l', p') = (l, p) then Some \<lparr>inv_location = l, inv_product = p, inv_quantity = n, inv_reserved = 0\<rparr>
       else row_at l' p' st)"
    using none by (simp add: row_at_def create_row_def find_append inv_key_def split: option.split)
qed

lemma create_resv_at:
  assumes "tidy st" and "0 < n"
  shows "held_at l' p' (create_resv oid l p n status now st) =
      held_at l' p' st + (if (l', p') = (l, p) \<and> status = Reserved then n else 0)"
    and "order_units oid' p' status' (create_resv oid l p n status now st) =
      order_units oid' p' status' st + (if (oid', p', status') = (oid, p, status) then n else 0)"
    and "tidy (create_resv oid l p n status now st)"
  using assms by (auto simp: held_at_def order_units_def create_resv_def sum_simps tidy_def)

text \<open>Rewriting a reservation with its own id.\<close>

lemma save_resv_at:
  assumes "tidy st" and "old \<in> set (s_resv st)" and "r_id new = r_id old" and "0 < r_quantity new"
  shows "held_at l p (save_resv new st) = held_at l p st
      - (if r_location old = l \<and> r_product old = p \<and> r_status old = Reserved then r_quantity old else 0)
      + (if r_location new = l \<and> r_product new = p \<and> r_status new = Reserved then r_quantity new else 0)"
    and "order_units oid p status (save_resv new st) = order_units oid p status st
      - (if r_order old = oid \<and> r_product old = p \<and> r_status old = status then r_quantity old else 0)
      + (if r_order new = oid \<and> r_product new = p \<and> r_status new = status then r_quantity new else 0)"
    and "tidy (save_resv new st)"
proof -
  have d: "distinct (map r_id (s_resv st))" using assms(1) by (simp add: tidy_def)
  have k: "r_id old = r_id new" using assms(3) by simp
  show "held_at l p (save_resv new st) = held_at l p st
      - (if r_location old = l \<and> r_product old = p \<and> r_status old = Reserved then r_quantity old else 0)
      + (if r_location new = l \<and> r_product new = p \<and> r_status new = Reserved then r_quantity new else 0)"
    unfolding held_at_def save_resv_def by (simp add: sum_where_save_by [OF d assms(2) k])
  show "order_units oid p status (save_resv new st) = order_units oid p status st
      - (if r_order old = oid \<and> r_product old = p \<and> r_status old = status then r_quantity old else 0)
      + (if r_order new = oid \<and> r_product new = p \<and> r_status new = status then r_quantity new else 0)"
    unfolding order_units_def save_resv_def by (simp add: sum_where_save_by [OF d assms(2) k])
  have "r_id new \<in> r_id ` set (s_resv st)" using assms(2) k by (metis image_eqI)
  then show "tidy (save_resv new st)"
    using assms by (auto simp: tidy_def save_resv_def save_by_keys set_save_by)
qed

lemma append_operation_at:
  "ledger_at l p (append_operation ty l' tg oid nt u items st) = ledger_at l p st +
     op_delta l p \<lparr>op_id = s_next st, op_type = ty, op_location = l', op_target = tg, op_order = oid,
       op_note = nt, op_created_by = u, op_items = items\<rparr>"
  "tidy st \<Longrightarrow> tidy (append_operation ty l' tg oid nt u items st)"
  by (auto simp: ledger_at_def append_operation_def tidy_def intro: less_SucI)

end
