(* ===== verification/Inventory_Effects.thy ===== *)
theory Inventory_Effects
  imports Inventory_Books
begin

section \<open>The effect of each inventory operation on the books\<close>

text \<open>
  For every operation of \<open>Inventory\<close>: what it does to the physical quantities, to the held
  units, to the units of each order and to the ledger, and that it keeps the books.
  \<open>same_hold\<close> is what holding and releasing have in common: the rows move exactly as the
  reservations do.
\<close>

definition same_hold :: "stock \<Rightarrow> stock \<Rightarrow> bool" where
  "same_hold st st' \<longleftrightarrow> (\<forall>l p. reserved_at l p st' - held_at l p st' = reserved_at l p st - held_at l p st)"

lemma same_hold_refl [simp]: "same_hold st st"
  by (simp add: same_hold_def)

lemma same_hold_trans: "same_hold a b \<Longrightarrow> same_hold b c \<Longrightarrow> same_hold a c"
  by (simp add: same_hold_def)

lemma booksI:
  assumes "books st" and "tidy st'" and "same_hold st st'"
    and "\<And>l p. held_at l p st' \<le> quantity_at l p st'"
  shows "books st'"
proof -
  have "reserved_at l p st' = held_at l p st'" for l p
    using assms(1,3) by (auto simp: books_def same_hold_def dest: spec [of _ l])
  with assms(2,4) show ?thesis by (simp add: books_def)
qed

lemma books_tidy: "books st \<Longrightarrow> tidy st"
  by (simp add: books_def)

lemma books_numbers: "books st \<Longrightarrow> reserved_at l p st = held_at l p st"
  "books st \<Longrightarrow> held_at l p st \<le> quantity_at l p st"
  by (simp_all add: books_def)

subsection \<open>reserve\<close>

text \<open>One turn of the loop: the row and the new reservation move together.\<close>

lemma reserve_step:
  assumes "tidy st" and "row_at l p st = Some row" and "0 < n"
    and st'_def: "st' = create_resv oid l p n Reserved now (save_row (row\<lparr>inv_reserved := inv_reserved row + n\<rparr>) st)"
  shows "tidy st'" and "same_hold st st'" and "quantity_at l' p' st' = quantity_at l' p' st"
    and "reserved_at l' p' st' = reserved_at l' p' st + (if (l', p') = (l, p) then n else 0)"
    and "order_units oid' p' status st' =
      order_units oid' p' status st + (if (oid', p', status) = (oid, p, Reserved) then n else 0)"
    and "row_at l' p' st' = (if (l', p') = (l, p) then Some (row\<lparr>inv_reserved := inv_reserved row + n\<rparr>)
           else row_at l' p' st)"
    and "ledger_at l' p' st' = ledger_at l' p' st"
proof -
  let ?row = "row\<lparr>inv_reserved := inv_reserved row + n\<rparr>"
  have k: "inv_key ?row = (l, p)" using row_at_key [OF assms(2)] by (simp add: inv_key_def)
  note s = save_row_at [OF assms(1,2) k]
  note c = create_resv_at [OF s(3) assms(3)]
  show "tidy st'" unfolding st'_def by (rule c(3))
  show "same_hold st st'" by (auto simp: same_hold_def st'_def s(2) c(1))
  show "quantity_at l' p' st' = quantity_at l' p' st" by (simp add: st'_def s(1))
  show "reserved_at l' p' st' = reserved_at l' p' st + (if (l', p') = (l, p) then n else 0)"
    by (simp add: st'_def s(2))
  show "order_units oid' p' status st' =
      order_units oid' p' status st + (if (oid', p', status) = (oid, p, Reserved) then n else 0)"
    by (simp add: st'_def c(2))
  show "row_at l' p' st' = (if (l', p') = (l, p) then Some ?row else row_at l' p' st)"
    by (simp add: st'_def s(4))
  show "ledger_at l' p' st' = ledger_at l' p' st" by (simp add: st'_def)
qed

definition loaded_rows :: "id \<Rightarrow> inv_row list \<Rightarrow> stock \<Rightarrow> bool" where
  "loaded_rows p rows st \<longleftrightarrow> distinct (map inv_key rows) \<and>
     (\<forall>row \<in> set rows. inv_product row = p \<and> row_at (inv_location row) p st = Some row)"

lemma loaded_rows_ConsD:
  assumes "loaded_rows p (row # rows) st"
  shows "row_at (inv_location row) p st = Some row" and "loaded_rows p rows st"
    and "\<And>r. r \<in> set rows \<Longrightarrow> inv_location r \<noteq> inv_location row"
proof -
  from assms show "row_at (inv_location row) p st = Some row" "loaded_rows p rows st"
    by (auto simp: loaded_rows_def)
  fix r assume r: "r \<in> set rows"
  then have "inv_key r \<noteq> inv_key row" using assms by (auto simp: loaded_rows_def image_iff)
  then show "inv_location r \<noteq> inv_location row"
    using assms r by (auto simp: loaded_rows_def inv_key_def)
qed

lemma reserve_loop_effect:
  assumes "tidy st" and "loaded_rows p rows st"
    and st'_def: "st' = reserve_loop oid p now rows remaining st"
  shows "tidy st' \<and> same_hold st st'
    \<and> (\<forall>l q. quantity_at l q st' = quantity_at l q st \<and> ledger_at l q st' = ledger_at l q st)
    \<and> (\<forall>l q. reserved_at l q st \<le> quantity_at l q st \<longrightarrow> reserved_at l q st' \<le> quantity_at l q st)
    \<and> (\<forall>oid' q status. order_units oid' q status st' = order_units oid' q status st +
         (if (oid', q, status) = (oid, p, Reserved)
          then min (max 0 remaining) (sum_list (map (\<lambda>r. max 0 (available r)) rows)) else 0))"
  unfolding st'_def using assms(1,2)
proof (induction oid p now rows remaining st rule: reserve_loop.induct)
  case (1 oid p now remaining st)
  then show ?case by simp
next
  case (2 oid p now row rows remaining st)
  note row = loaded_rows_ConsD [OF "2.prems"(2)]
  have nn: "0 \<le> sum_list (map (\<lambda>r. max 0 (available r)) rows)"
    by (induction rows) auto
  consider (stop) "remaining \<le> 0" | (skip) "0 < remaining" "available row \<le> 0"
    | (take) "0 < remaining" "0 < available row" by linarith
  then show ?case
  proof cases
    case stop
    then show ?thesis using "2.prems"(1) nn by (auto simp: max_def min_def)
  next
    case skip
    have eq: "reserve_loop oid p now (row # rows) remaining st = reserve_loop oid p now rows remaining st"
      and avail: "max 0 (available row) = 0"
      using skip by simp_all
    show ?thesis
      unfolding eq using "2.IH"(1) [OF _ skip(2) "2.prems"(1) row(2)] skip(1) by (simp add: avail)
  next
    case take
    define n where "n = min (available row) remaining"
    define st1 where "st1 = create_resv oid (inv_location row) p n Reserved now
       (save_row (row\<lparr>inv_reserved := inv_reserved row + n\<rparr>) st)"
    have n: "0 < n" using take by (simp add: n_def)
    note e = reserve_step [OF "2.prems"(1) row(1) n st1_def]
    have l: "loaded_rows p rows st1"
      using row(2,3) by (auto simp: loaded_rows_def e(6))
    have IH: "tidy (reserve_loop oid p now rows (remaining - n) st1) \<and> same_hold st1 (reserve_loop oid p now rows (remaining - n) st1)
      \<and> (\<forall>l q. quantity_at l q (reserve_loop oid p now rows (remaining - n) st1) = quantity_at l q st1 \<and> ledger_at l q (reserve_loop oid p now rows (remaining - n) st1) = ledger_at l q st1)
      \<and> (\<forall>l q. reserved_at l q st1 \<le> quantity_at l q st1 \<longrightarrow> reserved_at l q (reserve_loop oid p now rows (remaining - n) st1) \<le> quantity_at l q st1)
      \<and> (\<forall>oid' q status. order_units oid' q status (reserve_loop oid p now rows (remaining - n) st1) = order_units oid' q status st1 +
         (if (oid', q, status) = (oid, p, Reserved)
          then min (max 0 (remaining - n)) (sum_list (map (\<lambda>r. max 0 (available r)) rows)) else 0))"
      using "2.IH"(2) [OF _ _ refl refl refl] take e(1) l unfolding n_def st1_def by simp
    have eq: "reserve_loop oid p now (row # rows) remaining st = reserve_loop oid p now rows (remaining - n) st1"
      using take by (simp add: Let_def n_def st1_def)
    have fits: "reserved_at l q st1 \<le> quantity_at l q st1" if "reserved_at l q st \<le> quantity_at l q st" for l q
      using that row(1) "2.prems"(1) by (auto simp: e(3,4) n_def available_def reserved_at_row quantity_at_row)
    have amount: "n + min (max 0 (remaining - n)) s = min (max 0 remaining) (max 0 (available row) + s)" if "0 \<le> s" for s
      using take that by (auto simp: n_def)
    show ?thesis
      unfolding eq using IH fits e(2,3,5,7) same_hold_trans [OF e(2)] amount [OF nn]
      by (simp add: add.assoc)
  qed
qed

lemma loaded_reserve_rows:
  assumes "tidy st"
  shows "loaded_rows p (reserve_rows locs p allowed preferred st) st"
proof -
  have d: "distinct (map inv_key (s_rows st))" using assms by (simp add: tidy_def)
  have "distinct (map inv_key (filter P (s_rows st)))" for P
    using d by (simp add: distinct_map_filter)
  then show ?thesis
    using row_at_member [OF assms]
    by (auto simp: loaded_rows_def reserve_rows_def Let_def)
qed

lemma reserve_succeeds:
  "reserve locs allowed preferred now oid p n st = Inr st' \<longleftrightarrow>
     n \<le> sum_list (map available (reserve_rows locs p allowed preferred st)) \<and>
     st' = reserve_loop oid p now (reserve_rows locs p allowed preferred st) n st"
  by (auto simp: reserve_def Let_def)

text \<open>The whole of \<open>reserve\<close> on good books: exactly \<open>n\<close> more units held for the order, nothing else moves.\<close>

lemma reserve_effect:
  assumes "books st" and "reserve locs allowed preferred now oid p n st = Inr st'"
  shows "books st'" and "quantity_at l q st' = quantity_at l q st" and "ledger_at l q st' = ledger_at l q st"
    and "order_units oid' q status st' =
      order_units oid' q status st + (if (oid', q, status) = (oid, p, Reserved) then max 0 n else 0)"
proof -
  let ?rows = "reserve_rows locs p allowed preferred st"
  have t: "tidy st" using assms(1) by (rule books_tidy)
  from assms(2) have n: "n \<le> sum_list (map available ?rows)"
    and st': "st' = reserve_loop oid p now ?rows n st" by (simp_all add: reserve_succeeds)
  note l = loaded_reserve_rows [OF t, of p locs allowed preferred]
  note e = reserve_loop_effect [OF t l st']
  have same: "map (\<lambda>r. max 0 (available r)) ?rows = map available ?rows"
    using l books_row_bounds [OF assms(1)]
    by (auto simp: loaded_rows_def available_def dest!: row_at_key(1) bspec)
  have amount: "min (max 0 n) (sum_list (map (\<lambda>r. max 0 (available r)) ?rows)) = max 0 n"
  proof -
    have "sum_list (map (\<lambda>r. max 0 (available r)) ?rows) = sum_list (map available ?rows)"
      using same by (rule arg_cong)
    moreover have "0 \<le> sum_list (map (\<lambda>r. max 0 (available r)) ?rows)"
      by (rule sum_list_nonneg) auto
    ultimately show ?thesis using n by linarith
  qed
  show "books st'"
  proof (rule booksI [OF assms(1)])
    fix l q
    have "reserved_at l q st' \<le> quantity_at l q st" and "quantity_at l q st' = quantity_at l q st"
      and "reserved_at l q st' - held_at l q st' = reserved_at l q st - held_at l q st"
      using e books_numbers [OF assms(1), of l q] by (auto simp: same_hold_def)
    then show "held_at l q st' \<le> quantity_at l q st'"
      using books_numbers [OF assms(1), of l q] by simp
  qed (use e in auto)
  show "quantity_at l q st' = quantity_at l q st" "ledger_at l q st' = ledger_at l q st" using e by simp_all
  show "order_units oid' q status st' =
      order_units oid' q status st + (if (oid', q, status) = (oid, p, Reserved) then max 0 n else 0)"
    using e unfolding amount by simp
qed

subsection \<open>Settling and restocking\<close>

definition units_at :: "id \<Rightarrow> id \<Rightarrow> reservation list \<Rightarrow> int" where
  "units_at l p rs = sum_where (\<lambda>r. r_location r = l \<and> r_product r = p) r_quantity rs"

lemma units_at_simps [simp]:
  "units_at l p [] = 0"
  "units_at l p (r # rs) = (if r_location r = l \<and> r_product r = p then r_quantity r else 0) + units_at l p rs"
  by (simp_all add: units_at_def)

definition mark :: "(reservation \<Rightarrow> bool) \<Rightarrow> reservation_status \<Rightarrow> reservation list \<Rightarrow> reservation list" where
  "mark P final rs = map (\<lambda>x. if P x then x\<lparr>r_status := final\<rparr> else x) rs"

lemma mark_ids [simp]: "map r_id (mark P final rs) = map r_id rs"
  by (simp add: mark_def)

lemma mark_again: "mark Q final (mark P final rs) = mark (\<lambda>x. P x \<or> Q x) final rs"
  if "\<And>x. Q (x\<lparr>r_status := final\<rparr>) \<longleftrightarrow> Q x"
  using that by (simp add: mark_def)

lemma save_by_mark:
  assumes "distinct (map r_id rs)" and "r \<in> set rs"
  shows "save_by r_id (r\<lparr>r_status := final\<rparr>) rs = mark (\<lambda>x. r_id x = r_id r) final rs"
proof -
  have "x = r" if "x \<in> set rs" "r_id x = r_id r" for x
    using assms that by (meson distinct_map inj_onD)
  then show ?thesis by (auto simp: save_by_def mark_def)
qed

text \<open>How an order's step changes the row it acts on.\<close>

definition row_change :: "int \<Rightarrow> (inv_row \<Rightarrow> int \<Rightarrow> inv_row) \<Rightarrow> bool" where
  "row_change a upd \<longleftrightarrow> (\<forall>row n. inv_key (upd row n) = inv_key row
     \<and> inv_quantity (upd row n) = inv_quantity row + a * n
     \<and> inv_reserved (upd row n) = inv_reserved row - n)"

lemma row_change_commit: "row_change (- 1) commit_row"
  by (simp add: row_change_def commit_row_def inv_key_def)

lemma row_change_unhold: "row_change 0 unhold_row"
  by (simp add: row_change_def unhold_row_def inv_key_def)

lemma settle_one_effect:
  assumes "tidy st" and "r \<in> set (s_resv st)" and "row_at (r_location r) (r_product r) st \<noteq> None"
    and "row_change a upd" and st': "st' = settle_one final upd r st"
  shows "tidy st'"
    and "quantity_at l p st' = quantity_at l p st + a * units_at l p [r]"
    and "reserved_at l p st' = reserved_at l p st - units_at l p [r]"
    and "s_resv st' = mark (\<lambda>x. r_id x = r_id r) final (s_resv st)"
    and "s_ops st' = s_ops st" and "s_next st' = s_next st"
    and "row_at l p st' = None \<longleftrightarrow> row_at l p st = None"
proof -
  from assms(3) obtain row where row: "row_at (r_location r) (r_product r) st = Some row" by auto
  let ?row = "upd row (r_quantity r)"
  have k: "inv_key ?row = (r_location r, r_product r)"
    using assms(4) row_at_key(2) [OF row] by (simp add: row_change_def)
  note s = save_row_at [OF assms(1) row k]
  have st'_eq: "st' = save_resv (r\<lparr>r_status := final\<rparr>) (save_row ?row st)"
    by (simp add: st' settle_one_def row)
  have m: "r \<in> set (s_resv (save_row ?row st))" using assms(2) by simp
  have q: "0 < r_quantity (r\<lparr>r_status := final\<rparr>)" using assms(1,2) by (simp add: tidy_def)
  show "tidy st'" unfolding st'_eq by (rule save_resv_at(3) [OF s(3) m _ q]) simp
  show "quantity_at l p st' = quantity_at l p st + a * units_at l p [r]"
    and "reserved_at l p st' = reserved_at l p st - units_at l p [r]"
    using assms(4) by (auto simp: st'_eq s(1,2) row_change_def)
  show "s_resv st' = mark (\<lambda>x. r_id x = r_id r) final (s_resv st)"
    using save_by_mark [of "s_resv st" r final] assms(1,2) by (simp add: st'_eq save_resv_def tidy_def)
  show "s_ops st' = s_ops st" "s_next st' = s_next st" by (simp_all add: st'_eq)
  show "row_at l p st' = None \<longleftrightarrow> row_at l p st = None"
    using row by (auto simp: st'_eq s(4))
qed

lemma mark_keeps: "x \<in> set rs \<Longrightarrow> \<not> P x \<Longrightarrow> x \<in> set (mark P final rs)"
  by (force simp: mark_def)

lemma fold_settle_effect:
  assumes "tidy st" and "distinct (map r_id rs)" and "row_change a upd"
    and "\<forall>r \<in> set rs. r \<in> set (s_resv st) \<and> row_at (r_location r) (r_product r) st \<noteq> None"
    and st': "st' = fold (settle_one final upd) rs st"
  shows "tidy st' \<and> (\<forall>l p. quantity_at l p st' = quantity_at l p st + a * units_at l p rs)
    \<and> (\<forall>l p. reserved_at l p st' = reserved_at l p st - units_at l p rs)
    \<and> s_resv st' = mark (\<lambda>x. r_id x \<in> r_id ` set rs) final (s_resv st)
    \<and> s_ops st' = s_ops st \<and> s_next st' = s_next st
    \<and> (\<forall>l p. row_at l p st' = None \<longleftrightarrow> row_at l p st = None)"
  unfolding st' using assms(1,2,4)
proof (induction rs arbitrary: st)
  case Nil
  then show ?case by (simp add: mark_def)
next
  case (Cons r rs)
  define st1 where "st1 = settle_one final upd r st"
  have r: "r \<in> set (s_resv st)" "row_at (r_location r) (r_product r) st \<noteq> None" using Cons.prems(3) by auto
  note e = settle_one_effect [OF Cons.prems(1) r assms(3) st1_def]
  have "tidy (fold (settle_one final upd) rs st1)
    \<and> (\<forall>l p. quantity_at l p (fold (settle_one final upd) rs st1) = quantity_at l p st1 + a * units_at l p rs)
    \<and> (\<forall>l p. reserved_at l p (fold (settle_one final upd) rs st1) = reserved_at l p st1 - units_at l p rs)
    \<and> s_resv (fold (settle_one final upd) rs st1) = mark (\<lambda>x. r_id x \<in> r_id ` set rs) final (s_resv st1)
    \<and> s_ops (fold (settle_one final upd) rs st1) = s_ops st1 \<and> s_next (fold (settle_one final upd) rs st1) = s_next st1
    \<and> (\<forall>l p. row_at l p (fold (settle_one final upd) rs st1) = None \<longleftrightarrow> row_at l p st1 = None)"
  proof (rule Cons.IH [OF e(1)])
    show "distinct (map r_id rs)" using Cons.prems(2) by simp
    show "\<forall>x \<in> set rs. x \<in> set (s_resv st1) \<and> row_at (r_location x) (r_product x) st1 \<noteq> None"
    proof
      fix x assume x: "x \<in> set rs"
      then have "x \<in> set (s_resv st)" "row_at (r_location x) (r_product x) st \<noteq> None" "r_id x \<noteq> r_id r"
        using Cons.prems(2,3) by (auto simp: image_iff)
      then show "x \<in> set (s_resv st1) \<and> row_at (r_location x) (r_product x) st1 \<noteq> None"
        by (simp add: e(4,7) mark_keeps)
    qed
  qed
  then show ?case
    using e by (simp add: st1_def [symmetric] mark_again algebra_simps)
qed

text \<open>The same on the reservations selected by a predicate.\<close>

lemma ids_of_filter:
  assumes "distinct (map r_id rs)" and "x \<in> set rs"
  shows "r_id x \<in> r_id ` set (filter P rs) \<longleftrightarrow> P x"
  using assms by (auto simp: distinct_map dest: inj_onD)

lemma mark_filter_ids:
  assumes "distinct (map r_id rs)"
  shows "mark (\<lambda>x. r_id x \<in> r_id ` set (filter P rs)) final rs = mark P final rs"
  unfolding mark_def using ids_of_filter [OF assms, of _ P] by (intro map_cong) auto

lemma settle_filter_effect:
  assumes "tidy st" and "row_change a upd"
    and "\<forall>r \<in> set (s_resv st). P r \<longrightarrow> row_at (r_location r) (r_product r) st \<noteq> None"
    and st': "st' = fold (settle_one final upd) (filter P (s_resv st)) st"
  shows "tidy st'"
    and "quantity_at l p st' = quantity_at l p st + a * units_at l p (filter P (s_resv st))"
    and "reserved_at l p st' = reserved_at l p st - units_at l p (filter P (s_resv st))"
    and "s_resv st' = mark P final (s_resv st)"
    and "s_ops st' = s_ops st"
    and "row_at l p st' = None \<longleftrightarrow> row_at l p st = None"
proof -
  have d: "distinct (map r_id (s_resv st))" using assms(1) by (simp add: tidy_def)
  then have df: "distinct (map r_id (filter P (s_resv st)))" by (simp add: distinct_map_filter)
  have "\<forall>r \<in> set (filter P (s_resv st)).
      r \<in> set (s_resv st) \<and> row_at (r_location r) (r_product r) st \<noteq> None"
    using assms(3) by auto
  note e = fold_settle_effect [OF assms(1) df assms(2) this st']
  show "tidy st'"
    "quantity_at l p st' = quantity_at l p st + a * units_at l p (filter P (s_resv st))"
    "reserved_at l p st' = reserved_at l p st - units_at l p (filter P (s_resv st))"
    "s_ops st' = s_ops st" "row_at l p st' = None \<longleftrightarrow> row_at l p st = None"
    using e by simp_all
  show "s_resv st' = mark P final (s_resv st)" using e mark_filter_ids [OF d, of P final] by simp
qed

subsection \<open>Putting units back\<close>

lemma put_back_effect:
  assumes "tidy st" and st': "st' = put_back l p n st"
  shows "tidy st'"
    and "quantity_at l' p' st' = quantity_at l' p' st + (if (l', p') = (l, p) then n else 0)"
    and "reserved_at l' p' st' = reserved_at l' p' st"
    and "s_resv st' = s_resv st" and "s_ops st' = s_ops st" and "s_next st' = s_next st"
    and "row_at l' p' st' = None \<Longrightarrow> row_at l' p' st = None"
proof -
  have "tidy st' \<and> quantity_at l' p' st' = quantity_at l' p' st + (if (l', p') = (l, p) then n else 0)
    \<and> reserved_at l' p' st' = reserved_at l' p' st \<and> s_resv st' = s_resv st \<and> s_ops st' = s_ops st
    \<and> s_next st' = s_next st \<and> (row_at l' p' st' = None \<longrightarrow> row_at l' p' st = None)"
  proof (cases "row_at l p st")
    case None
    then show ?thesis
      using create_row_at [OF assms(1) None] by (auto simp: st' put_back_def None split: if_splits)
  next
    case (Some row)
    have k: "inv_key (row\<lparr>inv_quantity := inv_quantity row + n\<rparr>) = (l, p)"
      using row_at_key(2) [OF Some] by (simp add: inv_key_def)
    show ?thesis
      using save_row_at [OF assms(1) Some k] by (auto simp: st' put_back_def Some split: if_splits)
  qed
  then show "tidy st'"
    "quantity_at l' p' st' = quantity_at l' p' st + (if (l', p') = (l, p) then n else 0)"
    "reserved_at l' p' st' = reserved_at l' p' st"
    "s_resv st' = s_resv st" "s_ops st' = s_ops st" "s_next st' = s_next st"
    "row_at l' p' st' = None \<Longrightarrow> row_at l' p' st = None"
    by simp_all
qed

lemma restock_one_effect:
  assumes "tidy st" and "r \<in> set (s_resv st)" and st': "st' = restock_one final r st"
  shows "tidy st'"
    and "quantity_at l p st' = quantity_at l p st + units_at l p [r]"
    and "reserved_at l p st' = reserved_at l p st"
    and "s_resv st' = mark (\<lambda>x. r_id x = r_id r) final (s_resv st)"
    and "s_ops st' = s_ops st" and "s_next st' = s_next st"
proof -
  define st1 where "st1 = put_back (r_location r) (r_product r) (r_quantity r) st"
  note e = put_back_effect [OF assms(1) st1_def]
  have st'_eq: "st' = save_resv (r\<lparr>r_status := final\<rparr>) st1"
    by (simp add: st' restock_one_def st1_def)
  have m: "r \<in> set (s_resv st1)" using assms(2) by (simp add: e(4))
  have q: "0 < r_quantity (r\<lparr>r_status := final\<rparr>)" using assms(1,2) by (simp add: tidy_def)
  show "tidy st'" unfolding st'_eq by (rule save_resv_at(3) [OF e(1) m _ q]) simp
  show "quantity_at l p st' = quantity_at l p st + units_at l p [r]"
    "reserved_at l p st' = reserved_at l p st" "s_ops st' = s_ops st" "s_next st' = s_next st"
    by (auto simp: st'_eq e)
  show "s_resv st' = mark (\<lambda>x. r_id x = r_id r) final (s_resv st)"
    using save_by_mark [of "s_resv st" r final] assms(1,2) by (simp add: st'_eq save_resv_def tidy_def e(4))
qed

lemma fold_restock_effect:
  assumes "tidy st" and "distinct (map r_id rs)" and "set rs \<subseteq> set (s_resv st)"
    and st': "st' = fold (restock_one final) rs st"
  shows "tidy st' \<and> (\<forall>l p. quantity_at l p st' = quantity_at l p st + units_at l p rs)
    \<and> (\<forall>l p. reserved_at l p st' = reserved_at l p st)
    \<and> s_resv st' = mark (\<lambda>x. r_id x \<in> r_id ` set rs) final (s_resv st)
    \<and> s_ops st' = s_ops st \<and> s_next st' = s_next st"
  unfolding st' using assms(1-3)
proof (induction rs arbitrary: st)
  case Nil
  then show ?case by (simp add: mark_def)
next
  case (Cons r rs)
  define st1 where "st1 = restock_one final r st"
  have r: "r \<in> set (s_resv st)" using Cons.prems(3) by auto
  note e = restock_one_effect [OF Cons.prems(1) r st1_def]
  have sub: "set rs \<subseteq> set (s_resv st1)"
  proof
    fix x assume "x \<in> set rs"
    then have "x \<in> set (s_resv st)" "r_id x \<noteq> r_id r"
      using Cons.prems(2,3) by (auto simp: image_iff)
    then show "x \<in> set (s_resv st1)" by (simp add: e(4) mark_keeps)
  qed
  have d: "distinct (map r_id rs)" using Cons.prems(2) by simp
  from Cons.IH [OF e(1) d sub] show ?case
    using e by (simp add: st1_def [symmetric] mark_again algebra_simps)
qed

lemma restock_filter_effect:
  assumes "tidy st" and st': "st' = fold (restock_one final) (filter P (s_resv st)) st"
  shows "tidy st'"
    and "quantity_at l p st' = quantity_at l p st + units_at l p (filter P (s_resv st))"
    and "reserved_at l p st' = reserved_at l p st"
    and "s_resv st' = mark P final (s_resv st)"
    and "s_ops st' = s_ops st"
proof -
  have d: "distinct (map r_id (s_resv st))" using assms(1) by (simp add: tidy_def)
  then have df: "distinct (map r_id (filter P (s_resv st)))" by (simp add: distinct_map_filter)
  note e = fold_restock_effect [OF assms(1) df _ st']
  show "tidy st'"
    "quantity_at l p st' = quantity_at l p st + units_at l p (filter P (s_resv st))"
    "reserved_at l p st' = reserved_at l p st" "s_ops st' = s_ops st"
    using e by simp_all
  show "s_resv st' = mark P final (s_resv st)" using e mark_filter_ids [OF d, of P final] by simp
qed

subsection \<open>The ledger of an order's movement\<close>

definition movement_total :: "id \<Rightarrow> id \<Rightarrow> (id \<times> (id \<times> int) list) list \<Rightarrow> int" where
  "movement_total l p m = sum_where (\<lambda>(l', _). l' = l) (\<lambda>(_, items). items_of p items) m"

lemma sum_where_jm_set:
  assumes "distinct (map fst m)"
  shows "sum_where (\<lambda>(k', _). k' = q) f (jm_set k v m) = sum_where (\<lambda>(k', _). k' = q) f m +
    (if k = q then f (k, v) - (case jm_get k m of None \<Rightarrow> 0 | Some v0 \<Rightarrow> f (k, v0)) else 0)"
  using assms
proof (induction k v m rule: jm_set.induct)
  case (1 k v)
  then show ?case by simp
next
  case (2 k v k' v' m)
  show ?case
  proof (cases "k = k'")
    case True
    then show ?thesis by simp
  next
    case False
    with 2 show ?thesis by simp
  qed
qed

lemma items_of_Nil [simp]: "items_of p [] = 0"
  by (simp add: items_of_def)

lemma items_of_jm_add:
  assumes "distinct (map fst items)"
  shows "items_of p (jm_add q n items) = items_of p items + (if q = p then n else 0)"
  using jm_add_total [OF assms, of p q n] by (simp add: items_of_def)

lemma group_movement_total:
  assumes "distinct (map fst m)" and "\<forall>(l, items) \<in> set m. distinct (map fst items)"
  shows "movement_total l p (group_movement rs m) = movement_total l p m + units_at l p rs"
  using assms
proof (induction rs m rule: group_movement.induct)
  case (1 m)
  then show ?case by simp
next
  case (2 r rs m)
  define items where "items = (case jm_get (r_location r) m of None \<Rightarrow> [] | Some i \<Rightarrow> i)"
  define m' where "m' = jm_set (r_location r) (jm_add (r_product r) (r_quantity r) items) m"
  have di: "distinct (map fst items)"
    using "2.prems"(2) by (auto simp: items_def split: option.splits dest!: jm_get_Some_in)
  have "set (jm_set k v m) \<subseteq> insert (k, v) (set m)" for k v
    by (induction k v m rule: jm_set.induct) auto
  then have "\<forall>(l, i) \<in> set m'. distinct (map fst i)"
    using "2.prems"(2) jm_add_distinct [OF di] unfolding m'_def by fastforce
  then have IH: "movement_total l p (group_movement rs m') = movement_total l p m' + units_at l p rs"
    using "2.IH" [OF items_def, folded m'_def] jm_set_distinct [OF "2.prems"(1)]
    by (simp add: m'_def)
  have "movement_total l p m' = movement_total l p m +
      (if r_location r = l \<and> r_product r = p then r_quantity r else 0)"
    unfolding movement_total_def m'_def sum_where_jm_set [OF "2.prems"(1)]
    by (simp add: items_of_jm_add [OF di]) (auto simp: items_def split: option.splits)
  with IH show ?case by (simp add: items_def m'_def Let_def)
qed

definition op_sign :: "operation_type \<Rightarrow> int" where
  "op_sign ty = (case ty of OpIn \<Rightarrow> 1 | OpOut \<Rightarrow> - 1 | OpTransfer \<Rightarrow> - 1)"

lemma record_order_movement_effect:
  assumes "tidy st" and st': "st' = record_order_movement ty oid u rs st"
  shows "tidy st'" and "s_rows st' = s_rows st" and "s_resv st' = s_resv st"
    and "ledger_at l p st' = ledger_at l p st + op_sign ty * units_at l p rs"
proof -
  let ?app = "\<lambda>(l, items). append_operation ty l None (Some oid) None u items"
  have fold: "tidy (fold ?app g s) \<and> s_rows (fold ?app g s) = s_rows s \<and> s_resv (fold ?app g s) = s_resv s
      \<and> ledger_at l p (fold ?app g s) = ledger_at l p s + op_sign ty * movement_total l p g"
    if "tidy s" for g s
    using that
  proof (induction g arbitrary: s)
    case Nil
    then show ?case by (simp add: movement_total_def)
  next
    case (Cons a g)
    obtain l' items where a: "a = (l', items)" by force
    show ?case
      using Cons.IH [OF append_operation_at(2) [OF Cons.prems]]
      by (cases ty) (simp_all add: a append_operation_at(1) movement_total_def op_sign_def algebra_simps)
  qed
  have tot: "movement_total l p (group_movement rs []) = units_at l p rs"
    using group_movement_total [of "[]" l p rs] by (simp add: movement_total_def)
  show "tidy st'" "s_rows st' = s_rows st" "s_resv st' = s_resv st"
    and "ledger_at l p st' = ledger_at l p st + op_sign ty * units_at l p rs"
    using fold [OF assms(1), of "group_movement rs []"]
    unfolding st' record_order_movement_def tot by simp_all
qed

subsection \<open>confirmReservations and releaseReservations\<close>

lemma filter_mark:
  assumes "\<And>x. x \<in> set rs \<Longrightarrow> P x \<Longrightarrow> \<not> Q x \<and> \<not> Q (x\<lparr>r_status := final\<rparr>)"
  shows "filter Q (mark P final rs) = filter Q rs"
  using assms by (induction rs) (auto simp: mark_def)

lemma held_at_mark:
  assumes "s_resv st' = mark P final (s_resv st)" and "final \<noteq> Reserved"
    and "\<And>r. r \<in> set (s_resv st) \<Longrightarrow> P r \<Longrightarrow> r_status r = Reserved"
  shows "held_at l p st' = held_at l p st - units_at l p (filter P (s_resv st))"
proof -
  have "sum_where (\<lambda>r. r_location r = l \<and> r_product r = p \<and> r_status r = Reserved) r_quantity (mark P final rs)
    = sum_where (\<lambda>r. r_location r = l \<and> r_product r = p \<and> r_status r = Reserved) r_quantity rs
      - sum_where (\<lambda>r. r_location r = l \<and> r_product r = p) r_quantity (filter P rs)"
    if "\<And>r. r \<in> set rs \<Longrightarrow> P r \<Longrightarrow> r_status r = Reserved" for rs
    using that assms(2) by (induction rs) (auto simp: mark_def)
  then show ?thesis using assms(1,3) by (simp add: held_at_def units_at_def)
qed

lemma held_at_mark_idle:
  assumes "s_resv st' = mark P final (s_resv st)" and "final \<noteq> Reserved"
    and "\<And>r. r \<in> set (s_resv st) \<Longrightarrow> P r \<Longrightarrow> r_status r \<noteq> Reserved"
  shows "held_at l p st' = held_at l p st"
  unfolding held_at_def assms(1) mark_def sum_where_map
  using assms(2,3) by (intro sum_where_cong) auto

text \<open>An order's units after all its reservations in one status move to another.\<close>

lemma order_units_mark:
  assumes "s_resv st' = mark (\<lambda>r. r_order r = oid \<and> r_status r = from) final (s_resv st)"
    and "from \<noteq> final"
  shows "order_units oid' p status st' =
    (if oid' \<noteq> oid then order_units oid' p status st
     else if status = from then 0
     else if status = final then order_units oid p final st + order_units oid p from st
     else order_units oid p status st)"
proof -
  have "sum_where (\<lambda>r. r_order r = oid' \<and> r_product r = p \<and> r_status r = status) r_quantity
      (mark (\<lambda>r. r_order r = oid \<and> r_status r = from) final rs) =
    (if oid' \<noteq> oid then sum_where (\<lambda>r. r_order r = oid' \<and> r_product r = p \<and> r_status r = status) r_quantity rs
     else if status = from then 0
     else if status = final
       then sum_where (\<lambda>r. r_order r = oid \<and> r_product r = p \<and> r_status r = final) r_quantity rs
          + sum_where (\<lambda>r. r_order r = oid \<and> r_product r = p \<and> r_status r = from) r_quantity rs
     else sum_where (\<lambda>r. r_order r = oid \<and> r_product r = p \<and> r_status r = status) r_quantity rs)" for rs
    using assms(2) by (induction rs) (auto simp: mark_def)
  then show ?thesis by (simp add: order_units_def assms(1))
qed

lemma order_units_mark_product:
  assumes "s_resv st' = mark (\<lambda>r. r_order r = oid \<and> r_product r = p \<and> r_status r = from) final (s_resv st)"
    and "from \<noteq> final"
  shows "order_units oid' q status st' =
    (if (oid', q) \<noteq> (oid, p) then order_units oid' q status st
     else if status = from then 0
     else if status = final then order_units oid p final st + order_units oid p from st
     else order_units oid p status st)"
proof -
  let ?sum = "\<lambda>oid q status. sum_where (\<lambda>r. r_order r = oid \<and> r_product r = q \<and> r_status r = status) r_quantity"
  have "?sum oid' q status (mark (\<lambda>r. r_order r = oid \<and> r_product r = p \<and> r_status r = from) final rs) =
    (if (oid', q) \<noteq> (oid, p) then ?sum oid' q status rs
     else if status = from then 0
     else if status = final then ?sum oid p final rs + ?sum oid p from rs
     else ?sum oid p status rs)" for rs
    using assms(2) by (induction rs) (auto simp: mark_def)
  then show ?thesis by (simp add: order_units_def assms(1))
qed

lemma units_at_nonneg: "tidy st \<Longrightarrow> 0 \<le> units_at l p (filter P (s_resv st))"
  unfolding units_at_def by (rule sum_where_nonneg) (auto simp: tidy_def order_less_imp_le)

text \<open>The units an order holds at one place are part of what is held there.\<close>

lemma units_le_held:
  assumes "tidy st" and "\<And>r. r \<in> set (s_resv st) \<Longrightarrow> P r \<Longrightarrow> r_status r = Reserved"
  shows "units_at l p (filter P (s_resv st)) \<le> held_at l p st"
proof -
  have "sum_where (\<lambda>r. r_location r = l \<and> r_product r = p) r_quantity (filter P rs)
      \<le> sum_where (\<lambda>r. r_location r = l \<and> r_product r = p \<and> r_status r = Reserved) r_quantity rs"
    if "\<And>r. r \<in> set rs \<Longrightarrow> 0 \<le> r_quantity r" "\<And>r. r \<in> set rs \<Longrightarrow> P r \<Longrightarrow> r_status r = Reserved" for rs
    using that
  proof (induction rs)
    case (Cons r rs)
    have r: "0 \<le> r_quantity r" "P r \<Longrightarrow> r_status r = Reserved" using Cons.prems by auto
    have "sum_where (\<lambda>r. r_location r = l \<and> r_product r = p) r_quantity (filter P rs)
      \<le> sum_where (\<lambda>r. r_location r = l \<and> r_product r = p \<and> r_status r = Reserved) r_quantity rs"
      using Cons by auto
    with r show ?case by auto
  qed simp
  then show ?thesis
    using assms unfolding units_at_def held_at_def tidy_def by (meson order_less_imp_le)
qed

text \<open>Committing a set of live reservations and recording the shipment.\<close>

lemma commit_where_effect:
  assumes "books st" and only: "\<And>r. P r \<Longrightarrow> r_status r = Reserved"
    and st': "st' = record_order_movement OpOut oid u (filter P (s_resv st))
      (fold (settle_one Confirmed commit_row) (filter P (s_resv st)) st)"
  shows "books st'"
    and "quantity_at l p st' = quantity_at l p st - units_at l p (filter P (s_resv st))"
    and "held_at l p st' = held_at l p st - units_at l p (filter P (s_resv st))"
    and "ledger_at l p st' - ledger_at l p st = quantity_at l p st' - quantity_at l p st"
    and "s_resv st' = mark P Confirmed (s_resv st)"
proof -
  have t: "tidy st" using assms(1) by (rule books_tidy)
  define st1 where "st1 = fold (settle_one Confirmed commit_row) (filter P (s_resv st)) st"
  have rows: "\<forall>r \<in> set (s_resv st). P r \<longrightarrow> row_at (r_location r) (r_product r) st \<noteq> None"
    using books_row_exists [OF assms(1)] only by auto
  note e = settle_filter_effect [OF t row_change_commit rows st1_def]
  have h: "held_at l p st1 = held_at l p st - units_at l p (filter P (s_resv st))" for l p
    by (intro held_at_mark [OF e(4)]) (auto simp: only)
  note m = record_order_movement_effect [OF e(1) st' [folded st1_def]]
  have nums: "quantity_at l p st' = quantity_at l p st1" "reserved_at l p st' = reserved_at l p st1"
    "held_at l p st' = held_at l p st1" for l p
    by (rule numbers_cong(3) [OF m(2)], rule numbers_cong(4) [OF m(2)], rule numbers_cong(1) [OF m(3)])
  show q: "quantity_at l p st' = quantity_at l p st - units_at l p (filter P (s_resv st))" for l p
    by (simp add: nums e(2))
  show hh: "held_at l p st' = held_at l p st - units_at l p (filter P (s_resv st))" for l p
    by (simp add: nums h)
  show "ledger_at l p st' - ledger_at l p st = quantity_at l p st' - quantity_at l p st"
    using m(4) [of l p] numbers_cong(6) [OF e(5)] by (simp add: q op_sign_def)
  show "s_resv st' = mark P Confirmed (s_resv st)" by (simp add: m(3) e(4))
  show "books st'"
  proof (rule booksI [OF assms(1) m(1)])
    show "same_hold st st'" by (simp add: same_hold_def nums e(3) h)
    show "held_at l p st' \<le> quantity_at l p st'" for l p
      using books_numbers(2) [OF assms(1)] by (simp add: q hh)
  qed
qed

lemma confirm_effect:
  assumes "books st" and st': "st' = confirm_reservations oid u st"
  shows "books st'"
    and "quantity_at l p st' = quantity_at l p st - units_at l p (with_status oid Reserved st)"
    and "held_at l p st' = held_at l p st - units_at l p (with_status oid Reserved st)"
    and "ledger_at l p st' - ledger_at l p st = quantity_at l p st' - quantity_at l p st"
    and "s_resv st' = mark (\<lambda>r. r_order r = oid \<and> r_status r = Reserved) Confirmed (s_resv st)"
proof -
  let ?P = "\<lambda>r. r_order r = oid \<and> r_status r = Reserved"
  have "st' = record_order_movement OpOut oid u (filter ?P (s_resv st))
      (fold (settle_one Confirmed commit_row) (filter ?P (s_resv st)) st)"
    by (simp add: st' confirm_reservations_def Let_def with_status_def settle_reservations_def)
  note e = commit_where_effect [OF assms(1) _ this]
  show "books st'"
    "quantity_at l p st' = quantity_at l p st - units_at l p (with_status oid Reserved st)"
    "held_at l p st' = held_at l p st - units_at l p (with_status oid Reserved st)"
    "ledger_at l p st' - ledger_at l p st = quantity_at l p st' - quantity_at l p st"
    "s_resv st' = mark ?P Confirmed (s_resv st)"
    using e by (simp_all add: with_status_def)
qed

lemma release_effect:
  assumes "books st" and "release_reservations oid uid final st = Inr st'"
    and "final \<noteq> Reserved" and "final \<noteq> Confirmed"
  shows "books st'"
    and "quantity_at l p st' = quantity_at l p st + units_at l p (with_status oid Confirmed st)"
    and "held_at l p st' = held_at l p st - units_at l p (with_status oid Reserved st)"
    and "ledger_at l p st' - ledger_at l p st = quantity_at l p st' - quantity_at l p st"
    and "s_resv st' = mark (\<lambda>r. r_order r = oid \<and> r_status r = Confirmed) final
           (mark (\<lambda>r. r_order r = oid \<and> r_status r = Reserved) final (s_resv st))"
proof -
  let ?P = "\<lambda>s r. r_order r = oid \<and> r_status r = s"
  have t: "tidy st" using assms(1) by (rule books_tidy)
  define st1 where "st1 = fold (settle_one final unhold_row) (filter (?P Reserved) (s_resv st)) st"
  define st2 where "st2 = fold (restock_one final) (filter (?P Confirmed) (s_resv st1)) st1"
  have rows: "\<forall>r \<in> set (s_resv st). ?P Reserved r \<longrightarrow> row_at (r_location r) (r_product r) st \<noteq> None"
    using books_row_exists [OF assms(1)] by auto
  note e1 = settle_filter_effect [OF t row_change_unhold rows st1_def]
  note e2 = restock_filter_effect [OF e1(1) st2_def]
  have conf: "filter (?P Confirmed) (s_resv st1) = filter (?P Confirmed) (s_resv st)"
    unfolding e1(4) by (rule filter_mark) (use assms(4) in auto)
  have cases: "st' = (if filter (?P Confirmed) (s_resv st) = [] then st2
      else record_order_movement OpIn oid (the uid) (filter (?P Confirmed) (s_resv st)) st2)"
    using assms(2)
    unfolding release_reservations_def Let_def with_status_def settle_reservations_def
      st1_def [symmetric] st2_def [symmetric] conf
    by (cases uid) (simp_all add: st2_def conf split: if_splits)
  have m: "tidy st' \<and> s_rows st' = s_rows st2 \<and> s_resv st' = s_resv st2 \<and>
      (\<forall>l p. ledger_at l p st' = ledger_at l p st2 + units_at l p (filter (?P Confirmed) (s_resv st)))"
    using record_order_movement_effect [OF e2(1) refl] e2(1)
    unfolding cases by (simp add: op_sign_def)
  have nums: "quantity_at l p st' = quantity_at l p st2" "reserved_at l p st' = reserved_at l p st2"
    "held_at l p st' = held_at l p st2" for l p
    using m numbers_cong(3) [of st' st2] numbers_cong(4) [of st' st2] numbers_cong(1) [of st' st2]
    by blast+
  have h1: "held_at l p st1 = held_at l p st - units_at l p (with_status oid Reserved st)" for l p
    unfolding with_status_def using assms(3) by (intro held_at_mark [OF e1(4)]) auto
  have h2: "held_at l p st2 = held_at l p st1" for l p
    using assms(3) by (intro held_at_mark_idle [OF e2(4)]) auto
  show q: "quantity_at l p st' = quantity_at l p st + units_at l p (with_status oid Confirmed st)" for l p
    by (simp add: nums e1(2) e2(2) conf with_status_def)
  show hh: "held_at l p st' = held_at l p st - units_at l p (with_status oid Reserved st)" for l p
    by (simp add: nums h1 h2)
  show "ledger_at l p st' - ledger_at l p st = quantity_at l p st' - quantity_at l p st"
    using m numbers_cong(6) [OF e1(5)] numbers_cong(6) [OF e2(5)] by (simp add: q with_status_def)
  show "s_resv st' = mark (?P Confirmed) final (mark (?P Reserved) final (s_resv st))"
    using m by (simp add: e1(4) e2(4))
  show "books st'"
  proof (rule booksI [OF assms(1)])
    show "tidy st'" using m by simp
    show "same_hold st st'" by (simp add: same_hold_def nums e1(3) e2(3) h1 h2 with_status_def)
    show "held_at l p st' \<le> quantity_at l p st'" for l p
      using books_numbers(2) [OF assms(1), of l p] units_at_nonneg [OF t]
      unfolding q hh with_status_def by (smt (verit))
  qed
qed

lemma release_succeeds:
  assumes "with_status oid Confirmed st = [] \<or> uid \<noteq> None" and "books st" and "final \<noteq> Confirmed"
  shows "\<exists>st'. release_reservations oid uid final st = Inr st'"
proof -
  let ?P = "\<lambda>s r. r_order r = oid \<and> r_status r = s"
  define st1 where "st1 = fold (settle_one final unhold_row) (filter (?P Reserved) (s_resv st)) st"
  have rows: "\<forall>r \<in> set (s_resv st). ?P Reserved r \<longrightarrow> row_at (r_location r) (r_product r) st \<noteq> None"
    using books_row_exists [OF assms(2)] by auto
  note e1 = settle_filter_effect [OF books_tidy [OF assms(2)] row_change_unhold rows st1_def]
  have "filter (?P Confirmed) (s_resv st1) = filter (?P Confirmed) (s_resv st)"
    unfolding e1(4) by (rule filter_mark) (use assms(3) in auto)
  then show ?thesis
    using assms(1)
    by (cases uid) (simp_all add: release_reservations_def Let_def with_status_def
        settle_reservations_def st1_def [symmetric])
qed

end
