(* ===== verification/Inventory_Units.thy ===== *)
theory Inventory_Units
  imports Inventory_Effects
begin

section \<open>Editing one line of an order, and the movements by hand\<close>

text \<open>
  The effects of \<open>releaseProductUnits\<close>, \<open>confirmProductReservations\<close>, \<open>addStock\<close>,
  \<open>removeStock\<close> and \<open>rehomeReservations\<close> on the numbers of the books: what each gives
  back, ships, adds, takes or moves, and that the books stay good.
\<close>

subsection \<open>Giving back part of a reservation\<close>

lemma give_back_effect:
  assumes "tidy st" and "status = Reserved \<Longrightarrow> row_at (r_location r) (r_product r) st \<noteq> None"
    and "status = Reserved \<or> status = Confirmed" and st': "st' = give_back status r n st"
  shows "tidy st'"
    and "quantity_at l q st' = quantity_at l q st +
      (if status = Confirmed \<and> (l, q) = (r_location r, r_product r) then n else 0)"
    and "reserved_at l q st' = reserved_at l q st -
      (if status = Reserved \<and> (l, q) = (r_location r, r_product r) then n else 0)"
    and "s_resv st' = s_resv st" and "s_ops st' = s_ops st" and "s_next st' = s_next st"
    and "row_at l q st' = None \<Longrightarrow> row_at l q st = None"
proof -
  have "tidy st' \<and> quantity_at l q st' = quantity_at l q st +
      (if status = Confirmed \<and> (l, q) = (r_location r, r_product r) then n else 0)
    \<and> reserved_at l q st' = reserved_at l q st -
      (if status = Reserved \<and> (l, q) = (r_location r, r_product r) then n else 0)
    \<and> s_resv st' = s_resv st \<and> s_ops st' = s_ops st \<and> s_next st' = s_next st
    \<and> (row_at l q st' = None \<longrightarrow> row_at l q st = None)"
  proof (cases "status = Reserved")
    case True
    with assms(2) obtain row where row: "row_at (r_location r) (r_product r) st = Some row" by auto
    have st'_eq: "st' = save_row (unhold_row row n) st" by (simp add: st' give_back_def True row)
    have k: "inv_key (unhold_row row n) = (r_location r, r_product r)"
      using row_at_key(2) [OF row] by (simp add: unhold_row_def inv_key_def)
    show ?thesis
      using save_row_at [OF assms(1) row k] row unfolding st'_eq
      by (simp add: True unhold_row_def)
  next
    case False
    with assms(3) have c: "status = Confirmed" by simp
    have st'_eq: "st' = put_back (r_location r) (r_product r) n st"
      by (simp add: st' give_back_def c)
    show ?thesis using put_back_effect [OF assms(1) st'_eq] by (simp add: c)
  qed
  then show "tidy st'"
    "quantity_at l q st' = quantity_at l q st +
      (if status = Confirmed \<and> (l, q) = (r_location r, r_product r) then n else 0)"
    "reserved_at l q st' = reserved_at l q st -
      (if status = Reserved \<and> (l, q) = (r_location r, r_product r) then n else 0)"
    "s_resv st' = s_resv st" "s_ops st' = s_ops st" "s_next st' = s_next st"
    "row_at l q st' = None \<Longrightarrow> row_at l q st = None"
    by simp_all
qed

text \<open>The split leaves the total of the order's units as it was, \<open>n\<close> of them now cancelled.\<close>

lemma shrink_resv_effect:
  assumes "tidy st" and "r \<in> set (s_resv st)" and "0 < n" and "n \<le> r_quantity r"
    and "r_status r \<noteq> Cancelled" and st': "st' = shrink_resv now r n st"
  shows "tidy st'"
    and "held_at l q st' = held_at l q st -
      (if r_status r = Reserved \<and> (l, q) = (r_location r, r_product r) then n else 0)"
    and "order_units oid q status st' = order_units oid q status st +
      (if (oid, q) = (r_order r, r_product r)
       then (if status = Cancelled then n else if status = r_status r then - n else 0) else 0)"
    and "s_rows st' = s_rows st" and "s_ops st' = s_ops st"
    and "x \<in> set (s_resv st) \<Longrightarrow> r_id x \<noteq> r_id r \<Longrightarrow> x \<in> set (s_resv st')"
proof -
  have "tidy st' \<and> held_at l q st' = held_at l q st -
      (if r_status r = Reserved \<and> (l, q) = (r_location r, r_product r) then n else 0)
    \<and> order_units oid q status st' = order_units oid q status st +
      (if (oid, q) = (r_order r, r_product r)
       then (if status = Cancelled then n else if status = r_status r then - n else 0) else 0)"
  proof (cases "n = r_quantity r")
    case True
    have q: "0 < r_quantity (r\<lparr>r_status := Cancelled\<rparr>)" using assms(3,4) by simp
    have st'_eq: "st' = save_resv (r\<lparr>r_status := Cancelled\<rparr>) st" by (simp add: st' shrink_resv_def True)
    show ?thesis
      using save_resv_at [OF assms(1,2) _ q] assms(5) unfolding st'_eq by (simp add: True)
  next
    case False
    let ?r = "r\<lparr>r_quantity := r_quantity r - n\<rparr>"
    have q: "0 < r_quantity ?r" using assms(4) False by simp
    have st'_eq: "st' = create_resv (r_order r) (r_location r) (r_product r) n Cancelled now (save_resv ?r st)"
      by (simp add: st' shrink_resv_def False)
    note s = save_resv_at [OF assms(1,2) _ q]
    have t: "tidy (save_resv ?r st)" by (rule s(3)) simp
    show ?thesis
      using create_resv_at [OF t assms(3)] s assms(5) unfolding st'_eq by simp
  qed
  then show "tidy st'"
    "held_at l q st' = held_at l q st -
      (if r_status r = Reserved \<and> (l, q) = (r_location r, r_product r) then n else 0)"
    "order_units oid q status st' = order_units oid q status st +
      (if (oid, q) = (r_order r, r_product r)
       then (if status = Cancelled then n else if status = r_status r then - n else 0) else 0)"
    by blast+
  show "s_rows st' = s_rows st" "s_ops st' = s_ops st"
    by (simp_all add: st' shrink_resv_def)
  show "x \<in> set (s_resv st')" if "x \<in> set (s_resv st)" "r_id x \<noteq> r_id r"
    using that by (force simp: st' shrink_resv_def save_resv_def create_resv_def save_by_def)
qed


subsection \<open>releaseProductUnits\<close>

text \<open>What the loop may be called with: live reservations of one order and product, each once.\<close>

definition loop_ready :: "id \<Rightarrow> id \<Rightarrow> reservation_status \<Rightarrow> reservation list \<Rightarrow> stock \<Rightarrow> bool" where
  "loop_ready oid p status rs st \<longleftrightarrow> tidy st \<and> distinct (map r_id rs) \<and>
     (\<forall>r \<in> set rs. r \<in> set (s_resv st) \<and> r_order r = oid \<and> r_product r = p \<and> r_status r = status
        \<and> (status = Reserved \<longrightarrow> row_at (r_location r) (r_product r) st \<noteq> None))"

definition total_units :: "reservation list \<Rightarrow> int" where
  "total_units rs = sum_list (map r_quantity rs)"

lemma total_units_simps [simp]:
  "total_units [] = 0" "total_units (r # rs) = r_quantity r + total_units rs"
  by (simp_all add: total_units_def)

lemma loop_ready_total: "loop_ready oid p status rs st \<Longrightarrow> 0 \<le> total_units rs"
  unfolding total_units_def by (rule sum_list_nonneg) (auto simp: loop_ready_def tidy_def order_less_imp_le)

definition loop_result ::
  "id \<Rightarrow> id \<Rightarrow> reservation_status \<Rightarrow> int \<Rightarrow> reservation list \<Rightarrow> stock \<Rightarrow> stock \<Rightarrow> bool" where
  "loop_result oid p status n given st st' \<longleftrightarrow> tidy st' \<and> same_hold st st'
     \<and> (\<forall>l q. quantity_at l q st' = quantity_at l q st + (if status = Confirmed then units_at l q given else 0))
     \<and> (\<forall>l q. held_at l q st' \<le> held_at l q st)
     \<and> (\<forall>oid' q s. order_units oid' q s st' = order_units oid' q s st +
          (if (oid', q) = (oid, p) then (if s = Cancelled then n else if s = status then - n else 0) else 0))
     \<and> s_ops st' = s_ops st
     \<and> (\<forall>l q. row_at l q st' = None \<longrightarrow> row_at l q st = None)
     \<and> (status = Reserved \<longrightarrow> given = [])
     \<and> (\<forall>l q. 0 \<le> units_at l q given)"

lemma loop_result_refl: "tidy st \<Longrightarrow> loop_result oid p status 0 [] st st"
  by (simp add: loop_result_def)

lemma loop_step:
  assumes "loop_ready oid p status (r # rs) st" and "0 < n" and "n \<le> r_quantity r"
    and "status = Reserved \<or> status = Confirmed"
    and st1: "st1 = shrink_resv now r n (give_back status r n st)"
  shows "loop_result oid p status n (if status = Confirmed then [r\<lparr>r_quantity := n\<rparr>] else []) st st1"
    and "loop_ready oid p status rs st1"
proof -
  define st0 where "st0 = give_back status r n st"
  from assms(1) have t: "tidy st" and r: "r \<in> set (s_resv st)" "r_order r = oid" "r_product r = p"
      "r_status r = status" "status = Reserved \<Longrightarrow> row_at (r_location r) (r_product r) st \<noteq> None"
    and rs: "\<And>x. x \<in> set rs \<Longrightarrow> x \<in> set (s_resv st) \<and> r_id x \<noteq> r_id r \<and> r_order x = oid \<and> r_product x = p
      \<and> r_status x = status \<and> (status = Reserved \<longrightarrow> row_at (r_location x) (r_product x) st \<noteq> None)"
      "distinct (map r_id rs)"
    by (auto simp: loop_ready_def rev_image_eqI)
  note g = give_back_effect [OF t r(5) assms(4) st0_def]
  have m: "r \<in> set (s_resv st0)" using r(1) by (simp add: g(4))
  have nc: "r_status r \<noteq> Cancelled" using assms(4) r(4) by auto
  note s = shrink_resv_effect [OF g(1) m assms(2,3) nc st1 [folded st0_def]]
  have rows: "row_at l q st1 = row_at l q st0" "quantity_at l q st1 = quantity_at l q st0"
    "reserved_at l q st1 = reserved_at l q st0" for l q
    by (simp_all add: numbers_cong(3-5) [OF s(4)])
  have h0: "held_at l q st0 = held_at l q st" "order_units oid' q x st0 = order_units oid' q x st" for l q oid' x
    by (simp_all add: numbers_cong(1,2) [OF g(4)])
  show "loop_ready oid p status rs st1"
    unfolding loop_ready_def
    using s(1,6) rs g(4,7) rows(1) by metis
  show "loop_result oid p status n (if status = Confirmed then [r\<lparr>r_quantity := n\<rparr>] else []) st st1"
    unfolding loop_result_def same_hold_def
    using assms(2,4) g s rows h0 r by auto
qed

lemma loop_result_trans:
  assumes "loop_result oid p status n given st st1" and "loop_result oid p status m given' st1 st2"
  shows "loop_result oid p status (n + m) (given @ given') st st2"
proof -
  have u: "units_at l q (xs @ ys) = units_at l q xs + units_at l q ys" for l q xs ys
    by (simp add: units_at_def sum_simps)
  show ?thesis
    using assms unfolding loop_result_def u
    by (intro conjI allI) (simp_all, meson same_hold_trans, meson order_trans)
qed

lemma release_units_loop_effect:
  assumes "loop_ready oid p status rs st" and "status = Reserved \<or> status = Confirmed"
    and "release_units_loop now status rs n st = (n', given, st')"
  shows "loop_result oid p status (n - n') given st st' \<and>
    n' = n - min (max 0 n) (total_units rs)"
  using assms(1,3)
proof (induction rs arbitrary: n st n' given st')
  case Nil
  then show ?case using loop_result_refl by (auto simp: loop_ready_def)
next
  case (Cons r rs)
  have nn: "0 \<le> total_units (r # rs)" "0 < r_quantity r"
    using loop_ready_total [OF Cons.prems(1)] Cons.prems(1) by (auto simp: loop_ready_def tidy_def)
  show ?case
  proof (cases "n \<le> 0")
    case True
    then show ?thesis using Cons.prems loop_result_refl nn by (auto simp: loop_ready_def)
  next
    case False
    define k where "k = min (r_quantity r) n"
    define st1 where "st1 = shrink_resv now r k (give_back status r k st)"
    obtain n1 given1 st2 where rest: "release_units_loop now status rs (n - k) st1 = (n1, given1, st2)"
      by (cases "release_units_loop now status rs (n - k) st1") auto
    have res: "n' = n1" "st' = st2"
      "given = (if status = Confirmed then [r\<lparr>r_quantity := k\<rparr>] else []) @ given1"
      using Cons.prems(2) False rest by (auto simp: k_def [symmetric] st1_def [symmetric] Let_def split: if_splits)
    have k: "0 < k" "k \<le> r_quantity r" using False nn by (auto simp: k_def)
    note step = loop_step [OF Cons.prems(1) k assms(2) st1_def]
    have IH: "loop_result oid p status (n - k - n1) given1 st1 st2" "n1 = (n - k) - min (max 0 (n - k)) (total_units rs)"
      using Cons.IH [OF step(2) rest] by auto
    have "0 \<le> total_units rs" using loop_ready_total [OF step(2)] .
    then have "n1 = n - min (max 0 n) (total_units (r # rs))"
      using IH(2) False by (auto simp: k_def min_def max_def)
    moreover have "loop_result oid p status (n - n1) given st st2"
      using loop_result_trans [OF step(1) IH(1)] by (simp add: res(3))
    ultimately show ?thesis by (simp add: res)
  qed
qed


lemma loop_ready_rows:
  assumes "books st" and "rs = sort_key f (product_with_status oid p status st)"
  shows "loop_ready oid p status rs st"
proof -
  have t: "tidy st" using assms(1) by (rule books_tidy)
  then have "distinct (map r_id (product_with_status oid p status st))"
    by (simp add: product_with_status_def tidy_def distinct_map_filter)
  then have "distinct (map r_id rs)"
    unfolding assms(2) by (metis mset_eq_imp_distinct_iff mset_map mset_sort)
  moreover have "set rs = set (product_with_status oid p status st)"
    unfolding assms(2) by simp
  ultimately show ?thesis
    using t books_row_exists [OF assms(1)] by (auto simp: loop_ready_def product_with_status_def)
qed

lemma total_units_rows:
  "total_units (sort_key f (product_with_status oid p status st)) = order_units oid p status st"
proof -
  have "total_units rs = sum_where (\<lambda>_. True) r_quantity rs" for rs
    by (induction rs) simp_all
  then have "total_units (sort_key f rs) = total_units rs" for rs
    by (simp add: sum_where_mset [of "sort_key f rs" rs])
  then show ?thesis
    by (simp add: total_units_def order_units_def product_with_status_def sum_where_def)
qed

lemma books_loop_result:
  assumes "books st" and "loop_result oid p status n given st st'"
  shows "books st'"
proof (rule booksI [OF assms(1)])
  show "tidy st'" "same_hold st st'" using assms(2) by (simp_all add: loop_result_def)
  fix l q
  have "held_at l q st' \<le> held_at l q st" "held_at l q st \<le> quantity_at l q st"
    "quantity_at l q st \<le> quantity_at l q st'"
    using assms books_numbers(2) [OF assms(1)] by (auto simp: loop_result_def)
  then show "held_at l q st' \<le> quantity_at l q st'" by linarith
qed

text \<open>One phase: what it could give back it gave back, and the ledger says so.\<close>

lemma release_units_phase_effect:
  assumes "books st" and "release_units_phase now oid p uid status (n, st) = Inr (n', st')"
    and "status = Reserved \<or> status = Confirmed"
  shows "books st'" and "n' = n - min (max 0 n) (order_units oid p status st)"
    and "order_units oid' q s st' = order_units oid' q s st +
      (if (oid', q) = (oid, p) then (if s = Cancelled then n - n' else if s = status then - (n - n') else 0) else 0)"
    and "ledger_at l q st' - ledger_at l q st = quantity_at l q st' - quantity_at l q st"
    and "status = Reserved \<Longrightarrow> quantity_at l q st' = quantity_at l q st"
    and "quantity_at l q st \<le> quantity_at l q st'"
proof -
  define rs where "rs = sort_key r_created (product_with_status oid p status st)"
  note ready = loop_ready_rows [OF assms(1) rs_def]
  have tot: "total_units rs = order_units oid p status st" by (simp add: rs_def total_units_rows)
  have nn: "0 \<le> order_units oid p status st" using order_units_nonneg [OF books_tidy [OF assms(1)]] .
  have "\<exists>given st1. n' = n - min (max 0 n) (order_units oid p status st)
    \<and> loop_result oid p status (n - n') given st st1
    \<and> st' = (if given = [] then st1 else record_order_movement OpIn oid (the uid) given st1)"
  proof (cases "n \<le> 0")
    case True
    then have "n' = n" "st' = st" using assms(2) by (simp_all add: release_units_phase_def)
    then show ?thesis using True nn loop_result_refl [OF books_tidy [OF assms(1)]] by force
  next
    case False
    obtain m given st1 where l: "release_units_loop now status rs n st = (m, given, st1)"
      by (cases "release_units_loop now status rs n st") auto
    have eq: "n' = m" "st' = (if given = [] then st1 else record_order_movement OpIn oid (the uid) given st1)"
      using assms(2) False l
      by (simp_all add: release_units_phase_def rs_def [symmetric] split: if_splits option.splits)
    note e = release_units_loop_effect [OF ready assms(3) l]
    from e have "n' = n - min (max 0 n) (order_units oid p status st)" unfolding eq(1) tot by blast
    moreover from e have "loop_result oid p status (n - n') given st st1" unfolding eq(1) by blast
    ultimately show ?thesis using eq(2) by blast
  qed
  then obtain given st1 where n': "n' = n - min (max 0 n) (order_units oid p status st)"
    and lr: "loop_result oid p status (n - n') given st st1"
    and st': "st' = (if given = [] then st1 else record_order_movement OpIn oid (the uid) given st1)"
    by blast
  have m: "tidy st' \<and> s_rows st' = s_rows st1 \<and> s_resv st' = s_resv st1 \<and>
      (\<forall>l q. ledger_at l q st' = ledger_at l q st1 + units_at l q given)"
    using record_order_movement_effect [OF _ refl, of st1] lr
    unfolding st' by (simp add: op_sign_def loop_result_def)
  have nums: "quantity_at l q st' = quantity_at l q st1" "order_units oid' q s st' = order_units oid' q s st1" 
    "held_at l q st' = held_at l q st1" "reserved_at l q st' = reserved_at l q st1" for l q oid' s
    using m numbers_cong(1-4) [of st' st1] by blast+
  have led: "ledger_at l q st1 = ledger_at l q st" for l q
    using lr by (simp add: ledger_at_def loop_result_def)
  have u: "units_at l q given = 0" if "status = Reserved" for l q
    using lr that by (simp add: loop_result_def)
  show "n' = n - min (max 0 n) (order_units oid p status st)" by (fact n')
  show "order_units oid' q s st' = order_units oid' q s st +
      (if (oid', q) = (oid, p) then (if s = Cancelled then n - n' else if s = status then - (n - n') else 0) else 0)"
    using lr by (simp add: nums loop_result_def)
  show "ledger_at l q st' - ledger_at l q st = quantity_at l q st' - quantity_at l q st"
    using m lr led u assms(3) by (auto simp: nums loop_result_def)
  show "status = Reserved \<Longrightarrow> quantity_at l q st' = quantity_at l q st"
    using lr by (simp add: nums loop_result_def)
  show "quantity_at l q st \<le> quantity_at l q st'"
    using lr by (simp add: nums loop_result_def)
  have "books st1" by (rule books_loop_result [OF assms(1) lr])
  then show "books st'" using m by (simp add: books_def nums)
qed



text \<open>
  The whole operation: of the \<open>n\<close> units asked for, those still held go first and then those
  already shipped; never more than the order has, and the history keeps them as cancelled.
\<close>

definition held_part :: "id \<Rightarrow> id \<Rightarrow> int \<Rightarrow> stock \<Rightarrow> int" where
  "held_part oid p n st = min (max 0 n) (order_units oid p Reserved st)"

definition shipped_part :: "id \<Rightarrow> id \<Rightarrow> int \<Rightarrow> stock \<Rightarrow> int" where
  "shipped_part oid p n st = min (max 0 n - held_part oid p n st) (order_units oid p Confirmed st)"

lemma release_units_effect:
  assumes "books st" and "release_product_units now oid p n uid st = Inr st'"
  shows "books st'"
    and "order_units oid p Reserved st' = order_units oid p Reserved st - held_part oid p n st"
    and "order_units oid p Confirmed st' = order_units oid p Confirmed st - shipped_part oid p n st"
    and "order_units oid p Cancelled st' =
      order_units oid p Cancelled st + held_part oid p n st + shipped_part oid p n st"
    and "(oid', q) \<noteq> (oid, p) \<Longrightarrow> order_units oid' q s st' = order_units oid' q s st"
    and "ledger_at l q st' - ledger_at l q st = quantity_at l q st' - quantity_at l q st"
    and "quantity_at l q st \<le> quantity_at l q st'"
proof -
  have nn: "0 \<le> order_units oid p s st" for s using order_units_nonneg [OF books_tidy [OF assms(1)]] .
  have "books st'
    \<and> order_units oid p Reserved st' = order_units oid p Reserved st - held_part oid p n st
    \<and> order_units oid p Confirmed st' = order_units oid p Confirmed st - shipped_part oid p n st
    \<and> order_units oid p Cancelled st' =
        order_units oid p Cancelled st + held_part oid p n st + shipped_part oid p n st
    \<and> ((oid', q) \<noteq> (oid, p) \<longrightarrow> order_units oid' q s st' = order_units oid' q s st)
    \<and> ledger_at l q st' - ledger_at l q st = quantity_at l q st' - quantity_at l q st
    \<and> quantity_at l q st \<le> quantity_at l q st'"
  proof (cases "n \<le> 0")
    case True
    then have "st' = st" using assms(2) by (simp add: release_product_units_def)
    then show ?thesis using True assms(1) nn by (simp add: held_part_def shipped_part_def)
  next
    case False
    with assms(2) obtain m1 st1 m2 where
        p1: "release_units_phase now oid p uid Reserved (n, st) = Inr (m1, st1)"
      and p2: "release_units_phase now oid p uid Confirmed (m1, st1) = Inr (m2, st')"
      by (auto simp: release_product_units_def bindE_eq_Inr)
    note e1 = release_units_phase_effect [OF assms(1) p1]
    note e2 = release_units_phase_effect [OF e1(1) p2]
    have m1: "m1 = n - held_part oid p n st" using e1(2) by (simp add: held_part_def)
    moreover have "held_part oid p n st \<le> n" using False by (simp add: held_part_def)
    moreover have "order_units oid p Confirmed st1 = order_units oid p Confirmed st"
      by (subst e1(3)) simp_all
    ultimately have m2: "m1 - m2 = shipped_part oid p n st"
      using e2(2) False by (simp add: shipped_part_def)
    show ?thesis
      using e2 e1 m1 m2 by simp
  qed
  then show "books st'"
    "order_units oid p Reserved st' = order_units oid p Reserved st - held_part oid p n st"
    "order_units oid p Confirmed st' = order_units oid p Confirmed st - shipped_part oid p n st"
    "order_units oid p Cancelled st' =
        order_units oid p Cancelled st + held_part oid p n st + shipped_part oid p n st"
    "(oid', q) \<noteq> (oid, p) \<Longrightarrow> order_units oid' q s st' = order_units oid' q s st"
    "ledger_at l q st' - ledger_at l q st = quantity_at l q st' - quantity_at l q st"
    "quantity_at l q st \<le> quantity_at l q st'"
    by simp_all
qed

subsection \<open>confirmProductReservations\<close>

lemma record_nothing: "record_order_movement ty oid u [] st = st"
  by (simp add: record_order_movement_def)

lemma confirm_product_effect:
  assumes "books st" and st': "st' = confirm_product_reservations oid p u st"
  shows "books st'"
    and "order_units oid' q s st' =
      (if (oid', q) \<noteq> (oid, p) then order_units oid' q s st
       else if s = Reserved then 0
       else if s = Confirmed then order_units oid p Confirmed st + order_units oid p Reserved st
       else order_units oid p s st)"
    and "ledger_at l q st' - ledger_at l q st = quantity_at l q st' - quantity_at l q st"
proof -
  let ?P = "\<lambda>r. r_order r = oid \<and> r_product r = p \<and> r_status r = Reserved"
  have "st' = record_order_movement OpOut oid u (filter ?P (s_resv st))
      (fold (settle_one Confirmed commit_row) (filter ?P (s_resv st)) st)"
    by (simp add: st' confirm_product_reservations_def product_with_status_def Let_def record_nothing)
  note e = commit_where_effect [OF assms(1) _ this]
  show "books st'"
    "ledger_at l q st' - ledger_at l q st = quantity_at l q st' - quantity_at l q st"
    using e by simp_all
  show "order_units oid' q s st' =
      (if (oid', q) \<noteq> (oid, p) then order_units oid' q s st
       else if s = Reserved then 0
       else if s = Confirmed then order_units oid p Confirmed st + order_units oid p Reserved st
       else order_units oid p s st)"
    by (rule order_units_mark_product) (use e in simp_all)
qed


subsection \<open>addStock and removeStock\<close>

lemma add_stock_effect:
  assumes "books st" and "0 \<le> n" and st': "st' = add_stock l p n st"
  shows "books st'"
    and "quantity_at l' p' st' = quantity_at l' p' st + (if (l', p') = (l, p) then n else 0)"
    and "s_resv st' = s_resv st" and "s_ops st' = s_ops st"
proof -
  note e = put_back_effect [OF books_tidy [OF assms(1)] st' [unfolded add_stock_def]]
  have h: "held_at l p st' = held_at l p st" for l p by (rule numbers_cong(1) [OF e(4)])
  show "books st'"
  proof (rule booksI [OF assms(1) e(1)])
    show "same_hold st st'" by (simp add: same_hold_def e(3) h)
    show "held_at l' p' st' \<le> quantity_at l' p' st'" for l' p'
      using books_numbers(2) [OF assms(1), of l' p'] assms(2) unfolding e(2) h by (auto split: if_splits)
  qed
  show "quantity_at l' p' st' = quantity_at l' p' st + (if (l', p') = (l, p) then n else 0)"
    "s_resv st' = s_resv st" "s_ops st' = s_ops st" by (fact e(2) e(4) e(5))+
qed

lemma remove_stock_effect:
  assumes "books st" and "remove_stock l p n st = Inr st'"
  shows "books st'"
    and "quantity_at l' p' st' = quantity_at l' p' st - (if (l', p') = (l, p) then n else 0)"
    and "s_resv st' = s_resv st" and "s_ops st' = s_ops st"
    and "n \<le> quantity_at l p st - held_at l p st"
proof -
  have t: "tidy st" using assms(1) by (rule books_tidy)
  from assms(2) obtain row where row: "row_at l p st = Some row" and n: "n \<le> available row"
    and st': "st' = save_row (row\<lparr>inv_quantity := inv_quantity row - n\<rparr>) st"
    by (auto simp: remove_stock_def Let_def split: if_splits option.splits)
  have k: "inv_key (row\<lparr>inv_quantity := inv_quantity row - n\<rparr>) = (l, p)"
    using row_at_key(2) [OF row] by (simp add: inv_key_def)
  note s = save_row_at [OF t row k, folded st']
  have h: "held_at l p st' = held_at l p st" for l p by (simp add: st')
  have now: "quantity_at l p st - held_at l p st = available row"
    using t row books_numbers(1) [OF assms(1)]
    by (metis available_def option.simps(5) quantity_at_row reserved_at_row)
  with n show "n \<le> quantity_at l p st - held_at l p st" by simp
  show q: "quantity_at l' p' st' = quantity_at l' p' st - (if (l', p') = (l, p) then n else 0)" for l' p'
    by (simp add: s(1))
  show "books st'"
  proof (rule booksI [OF assms(1) s(3)])
    show "same_hold st st'" by (simp add: same_hold_def s(2) h)
    show "held_at l' p' st' \<le> quantity_at l' p' st'" for l' p'
      using books_numbers(2) [OF assms(1), of l' p'] n now by (auto simp: q h)
  qed
  show "s_resv st' = s_resv st" "s_ops st' = s_ops st" by (simp_all add: st')
qed

text \<open>A removal fails only for want of free units (the quantities asked for are positive).\<close>

lemma remove_stock_fails:
  assumes "books st" and "0 < n"
  shows "remove_stock l p n st = Inl e \<longleftrightarrow>
    quantity_at l p st - held_at l p st < n \<and> e = BadRequest ''Insufficient stock''"
proof -
  have t: "tidy st" using assms(1) by (rule books_tidy)
  have "quantity_at l p st - held_at l p st =
      (case row_at l p st of None \<Rightarrow> 0 | Some row \<Rightarrow> available row)"
    using t books_numbers(1) [OF assms(1), of l p, symmetric]
    by (simp add: quantity_at_row reserved_at_row available_def split: option.split)
  with assms(2) show ?thesis
    by (auto simp: remove_stock_def Let_def split: if_splits option.splits)
qed

subsection \<open>rehomeReservations\<close>

lemma rehome_one_effect:
  assumes "books st" and r: "r \<in> set (s_resv st)" "r_status r = Reserved" "r_location r \<noteq> target"
    and st': "st' = rehome_one target r st"
  shows "books st'" and "quantity_at l p st' = quantity_at l p st"
    and "order_units oid p s st' = order_units oid p s st" and "s_ops st' = s_ops st"
    and "x \<in> set (s_resv st) \<Longrightarrow> r_id x \<noteq> r_id r \<Longrightarrow> x \<in> set (s_resv st')"
    and "\<forall>x \<in> set (s_resv st'). r_location x \<noteq> target \<longrightarrow> x \<in> set (s_resv st)"
proof -
  have t: "tidy st" using assms(1) by (rule books_tidy)
  let ?p = "r_product r" and ?n = "r_quantity r"
  have "books st' \<and> quantity_at l p st' = quantity_at l p st \<and> order_units oid p s st' = order_units oid p s st
    \<and> s_ops st' = s_ops st \<and> (x \<in> set (s_resv st) \<longrightarrow> r_id x \<noteq> r_id r \<longrightarrow> x \<in> set (s_resv st'))
    \<and> (\<forall>x \<in> set (s_resv st'). r_location x \<noteq> target \<longrightarrow> x \<in> set (s_resv st))"
  proof (cases "\<exists>t. row_at target ?p st = Some t \<and> ?n \<le> available t")
    case False
    then have "st' = st" by (auto simp: st' rehome_one_def split: option.splits)
    then show ?thesis using assms(1) by simp
  next
    case True
    then obtain tr where tr: "row_at target ?p st = Some tr" and n: "?n \<le> available tr" by blast
    obtain sr where sr: "row_at (r_location r) ?p st = Some sr"
      using books_row_exists [OF assms(1) r(1,2)] by auto
    define st1 where "st1 = save_row (tr\<lparr>inv_reserved := inv_reserved tr + ?n\<rparr>) st"
    define st2 where "st2 = save_row (sr\<lparr>inv_reserved := max 0 (inv_reserved sr - ?n)\<rparr>) st1"
    have st'_eq: "st' = save_resv (r\<lparr>r_location := target\<rparr>) st2"
      using n by (simp add: st' rehome_one_def tr sr st1_def st2_def Let_def)
    have k1: "inv_key (tr\<lparr>inv_reserved := inv_reserved tr + ?n\<rparr>) = (target, ?p)"
      using row_at_key(2) [OF tr] by (simp add: inv_key_def)
    note s1 = save_row_at [OF t tr k1, folded st1_def]
    have sr1: "row_at (r_location r) ?p st1 = Some sr" using sr r(3) by (simp add: s1(4))
    have k2: "inv_key (sr\<lparr>inv_reserved := max 0 (inv_reserved sr - ?n)\<rparr>) = (r_location r, ?p)"
      using row_at_key(2) [OF sr] by (simp add: inv_key_def)
    note s2 = save_row_at [OF s1(3) sr1 k2, folded st2_def]
    have resv: "s_resv st2 = s_resv st" by (simp add: st1_def st2_def)
    have pos: "0 < r_quantity (r\<lparr>r_location := target\<rparr>)" using t r(1) by (simp add: tidy_def)
    have m: "r \<in> set (s_resv st2)" using r(1) by (simp add: resv)
    note s3 = save_resv_at [OF s2(3) m _ pos]
    have h2: "held_at l p st2 = held_at l p st" "order_units oid p s st2 = order_units oid p s st" for l p oid s
      by (simp_all add: numbers_cong(1,2) [OF resv])
    have "?n \<le> held_at (r_location r) ?p st"
      unfolding held_at_def using r t
      by (intro sum_where_member_le) (auto simp: tidy_def order_less_imp_le)
    then have ge: "?n \<le> inv_reserved sr"
      using books_numbers(1) [OF assms(1), of "r_location r" ?p, symmetric] t sr by (simp add: reserved_at_row)
    have q: "quantity_at l p st' = quantity_at l p st" for l p
      unfolding st'_eq by (simp add: s2(1) s1(1))
    have res: "reserved_at l p st' = reserved_at l p st + (if (l, p) = (target, ?p) then ?n else 0)
        - (if (l, p) = (r_location r, ?p) then ?n else 0)" for l p
      unfolding st'_eq using ge by (simp add: s2(2) s1(2) max_def)
    have held: "held_at l p st' = held_at l p st + (if (l, p) = (target, ?p) then ?n else 0)
        - (if (l, p) = (r_location r, ?p) then ?n else 0)" for l p
      unfolding st'_eq by (subst s3(1)) (use r in \<open>auto simp: h2\<close>)
    have fits: "held_at target ?p st + ?n \<le> quantity_at target ?p st"
      using n tr t books_numbers(1) [OF assms(1)]
      by (metis available_def le_diff_eq option.simps(5) quantity_at_row reserved_at_row add.commute)
    have "books st'"
    proof (rule booksI [OF assms(1)])
      show "tidy st'" unfolding st'_eq by (rule s3(3)) simp
      show "same_hold st st'" by (simp add: same_hold_def res held)
      show "held_at l p st' \<le> quantity_at l p st'" for l p
        using fits books_numbers(2) [OF assms(1), of l p] pos by (auto simp: q held)
    qed
    moreover have "order_units oid p s st' = order_units oid p s st"
      unfolding st'_eq by (subst s3(2)) (simp_all add: h2)
    moreover have "x \<in> set (s_resv st) \<longrightarrow> r_id x \<noteq> r_id r \<longrightarrow> x \<in> set (s_resv st')"
      by (force simp: st'_eq save_resv_def save_by_def resv)
    moreover have "\<forall>x \<in> set (s_resv st'). r_location x \<noteq> target \<longrightarrow> x \<in> set (s_resv st)"
      by (auto simp: st'_eq save_resv_def save_by_def resv)
    ultimately show ?thesis using q by (simp add: st'_eq st1_def st2_def)
  qed
  then show "books st'" "quantity_at l p st' = quantity_at l p st"
    "order_units oid p s st' = order_units oid p s st" "s_ops st' = s_ops st"
    "x \<in> set (s_resv st) \<Longrightarrow> r_id x \<noteq> r_id r \<Longrightarrow> x \<in> set (s_resv st')"
    "\<forall>x \<in> set (s_resv st'). r_location x \<noteq> target \<longrightarrow> x \<in> set (s_resv st)"
    by blast+
qed

lemma fold_rehome_effect:
  assumes "books st" and "distinct (map r_id rs)"
    and "\<forall>r \<in> set rs. r \<in> set (s_resv st) \<and> r_status r = Reserved \<and> r_location r \<noteq> target"
  shows "books (fold (rehome_one target) rs st)
    \<and> (\<forall>l p. quantity_at l p (fold (rehome_one target) rs st) = quantity_at l p st)
    \<and> (\<forall>oid p s. order_units oid p s (fold (rehome_one target) rs st) = order_units oid p s st)
    \<and> s_ops (fold (rehome_one target) rs st) = s_ops st"
  using assms
proof (induction rs arbitrary: st)
  case Nil
  then show ?case by simp
next
  case (Cons r rs)
  have r: "r \<in> set (s_resv st)" "r_status r = Reserved" "r_location r \<noteq> target" using Cons.prems(3) by auto
  note e = rehome_one_effect [OF Cons.prems(1) r refl]
  have rest: "\<forall>x \<in> set rs. x \<in> set (s_resv (rehome_one target r st)) \<and> r_status x = Reserved \<and> r_location x \<noteq> target"
    using Cons.prems(2,3) e(5) by (metis distinct.simps(2) image_eqI list.set_intros(2) list.set_map list.simps(9))
  show ?case using Cons.IH [OF e(1) _ rest] Cons.prems(2) e(2-4) by simp
qed

lemma rehome_effect:
  assumes "books st" and st': "st' = rehome_reservations orders target products st"
  shows "books st'" and "quantity_at l p st' = quantity_at l p st"
    and "order_units oid p s st' = order_units oid p s st" and "s_ops st' = s_ops st"
proof -
  have "distinct (map r_id (misplaced orders target products st))"
    using books_tidy [OF assms(1)]
    by (simp add: misplaced_def Let_def tidy_def distinct_map_filter)
  moreover have "\<forall>r \<in> set (misplaced orders target products st).
      r \<in> set (s_resv st) \<and> r_status r = Reserved \<and> r_location r \<noteq> target"
    by (auto simp: misplaced_def Let_def)
  ultimately have e: "books st' \<and> (\<forall>l p. quantity_at l p st' = quantity_at l p st)
    \<and> (\<forall>oid p s. order_units oid p s st' = order_units oid p s st) \<and> s_ops st' = s_ops st"
    unfolding st' rehome_reservations_def by (rule fold_rehome_effect [OF assms(1)])
  then show "books st'" "quantity_at l p st' = quantity_at l p st"
    "order_units oid p s st' = order_units oid p s st" "s_ops st' = s_ops st" by blast+
qed

end
