(* ===== verification/Stock_Locations.thy ===== *)
theory Stock_Locations
  imports Permissions
begin

section \<open>Stock locations: who may touch a storage, what it covers, where it hands over\<close>

text \<open>
  \<open>src/stock-locations/stock-locations.service.ts\<close>: the storages with their coverage,
  their assigned users (grocers) and their pickup points, and the two access checks the
  inventory and the orders call. \<open>geography\<close> holds the provinces and municipalities the
  service looks ids up in.
\<close>

record geography =
  g_provinces :: "(id \<times> string) list"
  g_municipalities :: "municipality list"

record storage =
  l_locations :: "location list"
  l_coverage :: "coverage list"
  l_grocers :: "(id \<times> id) list"
  l_pickups :: "pickup_address list"
  l_next :: nat

record coverage_item =
  cvi_type :: coverage_type
  cvi_province :: id
  cvi_municipality :: "id option"

record pickup_item =
  pki_label :: "string option"
  pki_address :: string
  pki_hours :: "string option"

record location_dto =
  ld_name :: "string option"
  ld_active :: "bool option"
  ld_coverage :: "coverage_item list option"
  ld_grocers :: "id list option"
  ld_pickups :: "pickup_item list option"

subsection \<open>Access to a storage\<close>

definition isManager :: "user \<Rightarrow> bool" where
  "isManager u \<longleftrightarrow> u_role u = SUPER_ADMIN \<or> u_role u = ADMIN"

definition canViewAll :: "access \<Rightarrow> user \<Rightarrow> bool" where
  "canViewAll a u = hasPermission a (u_id u) (u_role u) ''stock-locations'' ''view-all''"

definition assignedLocationIds :: "storage \<Rightarrow> id \<Rightarrow> id list" where
  "assignedLocationIds s uid = map fst (filter (\<lambda>(l, g). g = uid) (l_grocers s))"

definition assertGrocerAssigned :: "storage \<Rightarrow> user \<Rightarrow> id \<Rightarrow> error + unit" where
  "assertGrocerAssigned s u l =
     guardE ((l, u_id u) \<in> set (l_grocers s)) (Forbidden ''You are not assigned to this stock location'')"

definition getLocationOrThrow :: "storage \<Rightarrow> id \<Rightarrow> error + location" where
  "getLocationOrThrow s l = from_option (NotFound ''Stock location not found'')
     (List.find (\<lambda>x. loc_id x = l \<and> \<not> loc_deleted x) (l_locations s))"

definition assertCanManage :: "storage \<Rightarrow> user \<Rightarrow> id \<Rightarrow> error + location" where
  "assertCanManage s u l =
     bindE (getLocationOrThrow s l) (\<lambda>loc.
     bindE (if isManager u then Inr () else assertGrocerAssigned s u l) (\<lambda>_. Inr loc))"

definition assertCanView :: "access \<Rightarrow> storage \<Rightarrow> user \<Rightarrow> id \<Rightarrow> error + unit" where
  "assertCanView a s u l =
     (if isManager u then Inr ()
      else if canViewAll a u then Inr ()
      else assertGrocerAssigned s u l)"

definition getActiveLocationOrThrow :: "storage \<Rightarrow> id \<Rightarrow> error + location" where
  "getActiveLocationOrThrow s l =
     bindE (getLocationOrThrow s l) (\<lambda>loc.
     bindE (guardE (loc_active loc) (BadRequest ''Stock location is not active'')) (\<lambda>_. Inr loc))"

text \<open>The list of storages a user sees (the search text is not modelled).\<close>

definition findAll :: "access \<Rightarrow> storage \<Rightarrow> user \<Rightarrow> bool option \<Rightarrow> location list" where
  "findAll a s u active =
     (let visible = filter (\<lambda>l. \<not> loc_deleted l \<and>
            (case active of None \<Rightarrow> True | Some b \<Rightarrow> loc_active l = b)) (l_locations s) in
      if \<not> isManager u \<and> \<not> canViewAll a u
      then filter (\<lambda>l. loc_id l \<in> set (assignedLocationIds s (u_id u))) visible
      else visible)"

definition listAssignableUsers :: "access \<Rightarrow> (id \<Rightarrow> bool) \<Rightarrow> user list" where
  "listAssignableUsers a active =
     (let ids = getUserIdsWithModuleGrant a ''stock-locations'' in
      if ids = [] then []
      else filter (\<lambda>u. \<not> is_system_admin (u_role u))
             (filter (\<lambda>u. u_id u \<in> set ids \<and> active (u_id u)) (a_users a)))"

subsection \<open>Validating what a storage covers and who works in it\<close>

definition coverage_municipality :: "geography \<Rightarrow> coverage_item \<Rightarrow> error + id option" where
  "coverage_municipality g item =
     (if cvi_type item = CoverMunicipality
      then case cvi_municipality item of
          None \<Rightarrow> Inl (BadRequest ''municipalityId is required for municipality coverage'')
        | Some mid \<Rightarrow>
            (case List.find (\<lambda>m. mun_id m = mid) (g_municipalities g) of
               None \<Rightarrow> Inl (NotFound ''Municipality not found'')
             | Some m \<Rightarrow>
                 (if mun_province m \<noteq> cvi_province item
                  then Inl (BadRequest ''municipality does not belong to the given province'')
                  else Inr (Some mid)))
      else Inr None)"

definition coverage_key :: "coverage \<Rightarrow> id \<times> id option" where
  "coverage_key c = (cov_province c, cov_municipality c)"

definition validate_item :: "geography \<Rightarrow> id \<Rightarrow> coverage_item \<Rightarrow> coverage list \<Rightarrow> error + coverage list" where
  "validate_item g l item rows =
     bindE (guardE (cvi_province item \<in> fst ` set (g_provinces g)) (NotFound ''Province not found'')) (\<lambda>_.
     bindE (coverage_municipality g item) (\<lambda>mid.
     Inr (if (cvi_province item, mid) \<in> coverage_key ` set rows then rows
          else rows @ [\<lparr>cov_location = l, cov_type = cvi_type item, cov_province = cvi_province item,
                         cov_municipality = mid\<rparr>])))"

text \<open>The rows are written with the storage's id, which is filled in here.\<close>

definition validateCoverage :: "geography \<Rightarrow> id \<Rightarrow> coverage_item list \<Rightarrow> error + coverage list" where
  "validateCoverage g l items = foldE (validate_item g l) items []"

definition validateGrocerIds :: "access \<Rightarrow> id list \<Rightarrow> error + id list" where
  "validateGrocerIds a ids =
     (let unique = js_set ids in
      if unique = [] then Inr [] else
      let users = filter (\<lambda>u. u_id u \<in> set unique) (a_users a) in
      bindE (guardE (length users = length unique) (BadRequest ''One or more user ids do not exist'')) (\<lambda>_.
      bindE (guardE (List.find (\<lambda>u. is_system_admin (u_role u)) users = None)
               (BadRequest ''User is an admin and does not need storage assignments'')) (\<lambda>_.
      let permitted = getUserIdsWithModuleGrant a ''stock-locations'' in
      bindE (guardE (List.find (\<lambda>u. u_id u \<notin> set permitted) users = None)
               (BadRequest ''User has no stock-locations permission and cannot be assigned'')) (\<lambda>_.
      Inr unique))))"

subsection \<open>Pickup points\<close>

definition trimmed :: "string option \<Rightarrow> string option" where
  "trimmed x = (case x of None \<Rightarrow> None | Some v \<Rightarrow> (if js_trim v = [] then None else Some (js_trim v)))"

definition writePickupAddresses :: "id \<Rightarrow> pickup_item list \<Rightarrow> storage \<Rightarrow> storage" where
  "writePickupAddresses l items s =
     fold (\<lambda>item s. s\<lparr>l_pickups := l_pickups s @ [\<lparr>pa_id = l_next s, pa_location = l,
              pa_label = trimmed (pki_label item), pa_address = js_trim (pki_address item),
              pa_hours = trimmed (pki_hours item)\<rparr>], l_next := Suc (l_next s)\<rparr>) items s"

text \<open>\<open>new Map(existentes.map(...))\<close>: a later row with the same address replaces an earlier one.\<close>

definition por_direccion :: "pickup_address list \<Rightarrow> (string \<times> id) list" where
  "por_direccion rows = fold (\<lambda>r m. jm_set (js_trim (pa_address r)) (pa_id r) m) rows []"

definition reconcile_item ::
  "id \<Rightarrow> (string \<times> id) list \<Rightarrow> pickup_item \<Rightarrow> pickup_address list \<times> id list \<times> nat \<Rightarrow> pickup_address list \<times> id list \<times> nat" where
  "reconcile_item l by_address item = (\<lambda>(rows, kept, nxt).
     (case jm_get (js_trim (pki_address item)) by_address of
        Some rid \<Rightarrow>
          (map (\<lambda>r. if pa_id r = rid then r\<lparr>pa_label := trimmed (pki_label item),
                      pa_hours := trimmed (pki_hours item)\<rparr> else r) rows,
           kept @ [rid], nxt)
      | None \<Rightarrow>
          (rows @ [\<lparr>pa_id = nxt, pa_location = l, pa_label = trimmed (pki_label item),
                    pa_address = js_trim (pki_address item), pa_hours = trimmed (pki_hours item)\<rparr>],
           kept @ [nxt], Suc nxt)))"

definition reconcilePickupAddresses :: "id \<Rightarrow> pickup_item list \<Rightarrow> storage \<Rightarrow> storage" where
  "reconcilePickupAddresses l items s =
     (let existentes = filter (\<lambda>r. pa_location r = l) (l_pickups s);
          (rows, kept, nxt) = fold (reconcile_item l (por_direccion existentes)) items
                                (l_pickups s, [], l_next s)
      in s\<lparr>l_pickups := filter (\<lambda>r. pa_location r \<noteq> l \<or> pa_id r \<in> set kept) rows, l_next := nxt\<rparr>)"

subsection \<open>Creating, updating and removing a storage\<close>

definition create_location ::
  "access \<Rightarrow> geography \<Rightarrow> string \<Rightarrow> location_dto \<Rightarrow> storage \<Rightarrow> error + id \<times> storage" where
  "create_location a g name dto s =
     (let l = l_next s in
      bindE (validateCoverage g l (case ld_coverage dto of None \<Rightarrow> [] | Some c \<Rightarrow> c)) (\<lambda>cov.
      bindE (validateGrocerIds a (case ld_grocers dto of None \<Rightarrow> [] | Some ids \<Rightarrow> ids)) (\<lambda>grocers.
      let s1 = s\<lparr>l_locations := l_locations s @ [\<lparr>loc_id = l, loc_name = name,
                   loc_active = (case ld_active dto of None \<Rightarrow> True | Some b \<Rightarrow> b), loc_deleted = False\<rparr>],
                 l_coverage := l_coverage s @ cov,
                 l_grocers := l_grocers s @ map (Pair l) grocers,
                 l_next := Suc l\<rparr>
      in Inr (l, writePickupAddresses l (case ld_pickups dto of None \<Rightarrow> [] | Some ps \<Rightarrow> ps) s1))))"

definition update_location ::
  "access \<Rightarrow> geography \<Rightarrow> user \<Rightarrow> id \<Rightarrow> location_dto \<Rightarrow> storage \<Rightarrow> error + storage" where
  "update_location a g u l dto s =
     bindE (getLocationOrThrow s l) (\<lambda>loc.
     bindE (if isManager u then Inr () else assertGrocerAssigned s u l) (\<lambda>_.
     bindE (case ld_coverage dto of None \<Rightarrow> Inr None
              | Some items \<Rightarrow> bindE (validateCoverage g l items) (\<lambda>rows. Inr (Some rows))) (\<lambda>cov.
     bindE (case ld_grocers dto of None \<Rightarrow> Inr None
              | Some ids \<Rightarrow> (if isManager u
                   then bindE (validateGrocerIds a ids) (\<lambda>gs. Inr (Some gs)) else Inr None)) (\<lambda>grocers.
     let loc' = loc\<lparr>loc_name := (case ld_name dto of None \<Rightarrow> loc_name loc | Some n \<Rightarrow> n),
                    loc_active := (case ld_active dto of None \<Rightarrow> loc_active loc | Some b \<Rightarrow> b)\<rparr>;
         s1 = s\<lparr>l_locations := save_by loc_id loc' (l_locations s)\<rparr>;
         s2 = (case cov of None \<Rightarrow> s1
               | Some rows \<Rightarrow> s1\<lparr>l_coverage := filter (\<lambda>c. cov_location c \<noteq> l) (l_coverage s1) @ rows\<rparr>);
         s3 = (case grocers of None \<Rightarrow> s2
               | Some gs \<Rightarrow> s2\<lparr>l_grocers := filter (\<lambda>(x, y). x \<noteq> l) (l_grocers s2) @ map (Pair l) gs\<rparr>)
     in Inr (case ld_pickups dto of None \<Rightarrow> s3
             | Some items \<Rightarrow> reconcilePickupAddresses l items s3)))))"

definition remove_location :: "id \<Rightarrow> storage \<Rightarrow> error + storage" where
  "remove_location l s =
     bindE (getLocationOrThrow s l) (\<lambda>loc.
     Inr (s\<lparr>l_locations := save_by loc_id (loc\<lparr>loc_deleted := True\<rparr>) (l_locations s)\<rparr>))"

end
