(* ===== verification/Inventory_Operations.thy ===== *)
theory Inventory_Operations
  imports Inventory_Units Stock_Locations
begin

section \<open>Movements by hand, and the life of the stock\<close>

text \<open>
  \<open>createOperation\<close> of \<open>src/inventory/inventory.service.ts\<close> (entries, exits and transfers
  made by staff), and the step relation of everything that ever writes the stock tables. What
  every step keeps is proved once, in a locale, and read off for the model.
\<close>

subsection \<open>createOperation\<close>

record operation_dto =
  od_location :: id
  od_type :: operation_type
  od_target :: "id option"
  od_note :: "string option"
  od_order :: "id option"
  od_items :: "(id \<times> int) list"

definition assertProductsExist :: "product list \<Rightarrow> id list \<Rightarrow> error + unit" where
  "assertProductsExist products ids =
     (let unique = js_set ids in
      guardE (length (filter (\<lambda>p. p_id p \<in> set unique \<and> \<not> p_deleted p) products) = length unique)
        (BadRequest ''One or more products do not exist''))"

definition operation_target :: "storage \<Rightarrow> operation_dto \<Rightarrow> error + id option" where
  "operation_target s dto =
     (if od_type dto = OpTransfer
      then case od_target dto of
          None \<Rightarrow> Inl (BadRequest ''targetLocationId is required for a transfer'')
        | Some t \<Rightarrow>
            bindE (guardE (t \<noteq> od_location dto) (BadRequest ''Cannot transfer to the same storage'')) (\<lambda>_.
            bindE (getActiveLocationOrThrow s t) (\<lambda>_. Inr (Some t)))
      else Inr None)"

definition apply_item :: "operation_type \<Rightarrow> id \<Rightarrow> id option \<Rightarrow> id \<times> int \<Rightarrow> stock \<Rightarrow> error + stock" where
  "apply_item ty l target item st =
     (let p = fst item; n = snd item in
      case ty of
        OpIn \<Rightarrow> Inr (add_stock l p n st)
      | OpOut \<Rightarrow> remove_stock l p n st
      | OpTransfer \<Rightarrow> bindE (remove_stock l p n st) (\<lambda>st1. Inr (add_stock (the target) p n st1)))"

definition createOperation ::
  "storage \<Rightarrow> product list \<Rightarrow> order list \<Rightarrow> user \<Rightarrow> operation_dto \<Rightarrow> stock \<Rightarrow> error + stock" where
  "createOperation s products orders u dto st =
     bindE (assertCanManage s u (od_location dto)) (\<lambda>_.
     bindE (assertProductsExist products (map fst (od_items dto))) (\<lambda>_.
     let items = merge_items (od_items dto) in
     bindE (operation_target s dto) (\<lambda>target.
     bindE (foldE (apply_item (od_type dto) (od_location dto) target) items st) (\<lambda>st1.
     let st2 = (if od_type dto = OpTransfer
                then rehome_reservations orders (the target) (map fst items) st1 else st1)
     in Inr (append_operation (od_type dto) (od_location dto) target (od_order dto) (od_note dto)
               (u_id u) items st2)))))"

subsection \<open>What a movement does\<close>

lemma items_of_Cons [simp]: "items_of p (x # items) = (if fst x = p then snd x else 0) + items_of p items"
  by (cases x) (simp add: items_of_def)

lemma merge_items_keys: "distinct (map fst (merge_items items))"
  "fst ` set (merge_items items) = fst ` set items"
proof -
  have "distinct (map fst m) \<longrightarrow> distinct (map fst (fold (\<lambda>(p, n). jm_add p n) items m))" for m
    by (induction items arbitrary: m) (auto simp: jm_add_distinct)
  then show "distinct (map fst (merge_items items))" by (simp add: merge_items_def)
  have "fst ` set (fold (\<lambda>(p, n). jm_add p n) items m) = fst ` set m \<union> fst ` set items" for m
  proof (induction items arbitrary: m)
    case (Cons x items)
    then show ?case by (cases x) (simp only: fold_Cons comp_apply prod.case jm_add_keys, simp)
  qed simp
  then show "fst ` set (merge_items items) = fst ` set items" by (simp add: merge_items_def)
qed

text \<open>Merging keeps every product's total.\<close>

lemma merge_items_total: "items_of p (merge_items items) = items_of p items"
proof -
  have "distinct (map fst m) \<Longrightarrow>
      items_of p (fold (\<lambda>(p, n). jm_add p n) items m) = items_of p m + items_of p items" for m
  proof (induction items arbitrary: m)
    case (Cons x items)
    then show ?case
      by (cases x) (simp add: jm_add_distinct items_of_jm_add)
  qed simp
  from this [of "[]"] show ?thesis by (simp add: merge_items_def)
qed

lemma merge_items_pos:
  assumes "\<forall>x \<in> set items. 0 < snd x"
  shows "\<forall>x \<in> set (merge_items items). 0 < snd x"
proof -
  have "\<forall>x \<in> set (jm_add p n m). 0 < snd x" if "0 < n" "\<forall>x \<in> set m. 0 < snd x" for p n and m :: "(id \<times> int) list"
  proof -
    have "set (jm_set k v m) \<subseteq> insert (k, v) (set m)" for k and v :: int
      by (induction k v m rule: jm_set.induct) auto
    moreover have "0 < (case jm_get p m of None \<Rightarrow> n | Some v \<Rightarrow> v + n)"
      using that by (auto split: option.split dest!: jm_get_Some_in)
    ultimately show ?thesis using that unfolding jm_add_def by fastforce
  qed
  then have step: "\<forall>x \<in> set m. 0 < snd x \<Longrightarrow> 0 < snd y \<Longrightarrow> \<forall>x \<in> set (case y of (p, n) \<Rightarrow> jm_add p n m). 0 < snd x"
    for y and m :: "(id \<times> int) list" by (cases y) simp
  have "\<forall>x \<in> set m. 0 < snd x \<Longrightarrow> \<forall>x \<in> set items. 0 < snd x \<Longrightarrow>
      \<forall>x \<in> set (fold (\<lambda>(p, n). jm_add p n) items m). 0 < snd x" for items and m :: "(id \<times> int) list"
  proof (induction items arbitrary: m)
    case (Cons y items)
    show ?case using Cons.IH [of "case y of (p, n) \<Rightarrow> jm_add p n m"] step [OF Cons.prems(1), of y] Cons.prems(2)
      by (cases y) simp
  qed simp
  from this [of "[]", OF _ assms] have "\<forall>x \<in> set (fold (\<lambda>(p, n). jm_add p n) items []). 0 < snd x" by simp
  then show ?thesis by (simp add: merge_items_def)
qed

definition moved :: "operation_type \<Rightarrow> id \<Rightarrow> id option \<Rightarrow> id \<Rightarrow> id \<Rightarrow> int \<Rightarrow> int" where
  "moved ty l target l' p n = (case ty of
       OpIn \<Rightarrow> (if l' = l then n else 0)
     | OpOut \<Rightarrow> (if l' = l then - n else 0)
     | OpTransfer \<Rightarrow> (if l' = l then - n else 0) + (if target = Some l' then n else 0))"

lemma moved_add: "moved ty l target l' p (n + m) = moved ty l target l' p n + moved ty l target l' p m"
  by (cases ty) (auto simp: moved_def)

lemma apply_item_effect:
  assumes "books st" and "0 < snd item" and "ty = OpTransfer \<Longrightarrow> target \<noteq> None"
    and "apply_item ty l target item st = Inr st'"
  shows "books st' \<and> s_resv st' = s_resv st \<and> s_ops st' = s_ops st \<and>
    (\<forall>l' p. quantity_at l' p st' = quantity_at l' p st
       + moved ty l target l' p (if fst item = p then snd item else 0))"
proof (cases ty)
  case OpIn
  then have "st' = add_stock l (fst item) (snd item) st" using assms(4) by (simp add: apply_item_def)
  from add_stock_effect [OF assms(1) _ this] show ?thesis
    using assms(2) OpIn by (auto simp: moved_def)
next
  case OpOut
  then have "remove_stock l (fst item) (snd item) st = Inr st'" using assms(4) by (simp add: apply_item_def)
  from remove_stock_effect [OF assms(1) this] show ?thesis
    using OpOut by (auto simp: moved_def)
next
  case OpTransfer
  with assms(3,4) obtain t st1 where t: "target = Some t"
    and st1: "remove_stock l (fst item) (snd item) st = Inr st1"
    and st': "st' = add_stock t (fst item) (snd item) st1"
    by (auto simp: apply_item_def bindE_eq_Inr Let_def)
  note r = remove_stock_effect [OF assms(1) st1]
  note a = add_stock_effect [OF r(1) _ st']
  show ?thesis
    using r(2-4) a assms(2) OpTransfer t by (auto simp: moved_def)
qed

lemma apply_items_effect:
  assumes "foldE (apply_item ty l target) items st = Inr st'" and "books st"
    and "\<forall>x \<in> set items. 0 < snd x" and "ty = OpTransfer \<Longrightarrow> target \<noteq> None"
  shows "books st' \<and> s_resv st' = s_resv st \<and> s_ops st' = s_ops st \<and>
    (\<forall>l' p. quantity_at l' p st' = quantity_at l' p st + moved ty l target l' p (items_of p items))"
  using assms(1-3)
proof (induction items arbitrary: st)
  case Nil
  then show ?case by (auto simp: moved_def split: operation_type.split)
next
  case (Cons x items)
  from Cons.prems(1) obtain st1 where st1: "apply_item ty l target x st = Inr st1"
    and rest: "foldE (apply_item ty l target) items st1 = Inr st'" by (auto simp: bindE_eq_Inr)
  have x: "0 < snd x" using Cons.prems(3) by simp
  note e = apply_item_effect [OF Cons.prems(2) x assms(4) st1]
  have r: "\<forall>y \<in> set items. 0 < snd y" using Cons.prems(3) by simp
  have b1: "books st1" using e by blast
  from Cons.IH [OF rest b1 r] e show ?case by (simp add: moved_add)
qed

lemma op_delta_moved:
  "op_delta l' p \<lparr>op_id = i, op_type = ty, op_location = l, op_target = target, op_order = oid,
       op_note = note, op_created_by = u, op_items = items\<rparr> = moved ty l target l' p (items_of p items)"
  by (cases ty) (auto simp: moved_def)

lemma createOperation_effect:
  assumes "books st" and "createOperation s products orders u dto st = Inr st'"
    and pos: "\<forall>x \<in> set (od_items dto). 0 < snd x"
  shows "books st'"
    and "quantity_at l' p st' = quantity_at l' p st +
      moved (od_type dto) (od_location dto) (od_target dto) l' p (items_of p (od_items dto))"
    and "ledger_at l' p st' - ledger_at l' p st = quantity_at l' p st' - quantity_at l' p st"
    and "order_units oid p status st' = order_units oid p status st"
    and "assertCanManage s u (od_location dto) \<noteq> Inl e"
proof -
  from assms(2) obtain loc target st1 where ac: "assertCanManage s u (od_location dto) = Inr loc"
    and tg: "operation_target s dto = Inr target"
    and st1: "foldE (apply_item (od_type dto) (od_location dto) target) (merge_items (od_items dto)) st = Inr st1"
    and st': "st' = append_operation (od_type dto) (od_location dto) target (od_order dto) (od_note dto)
        (u_id u) (merge_items (od_items dto))
        (if od_type dto = OpTransfer
         then rehome_reservations orders (the target) (map fst (merge_items (od_items dto))) st1 else st1)"
    by (auto simp: createOperation_def bindE_eq_Inr Let_def)
  have target: "od_type dto = OpTransfer \<longrightarrow> target = od_target dto \<and> target \<noteq> None"
    using tg by (cases "od_target dto") (auto simp: operation_target_def bindE_eq_Inr, metis)
  have mv: "moved (od_type dto) (od_location dto) target l' p n = moved (od_type dto) (od_location dto) (od_target dto) l' p n" for l' p n
    using target by (cases "od_type dto") (simp_all add: moved_def)
  note e = apply_items_effect [OF st1 assms(1) merge_items_pos [OF pos]]
  define st2 where "st2 = (if od_type dto = OpTransfer
         then rehome_reservations orders (the target) (map fst (merge_items (od_items dto))) st1 else st1)"
  have e2: "books st2 \<and> (\<forall>l p. quantity_at l p st2 = quantity_at l p st1)
      \<and> (\<forall>oid p s. order_units oid p s st2 = order_units oid p s st1) \<and> s_ops st2 = s_ops st1"
  proof (cases "od_type dto = OpTransfer")
    case True
    then have st2: "st2 = rehome_reservations orders (the target) (map fst (merge_items (od_items dto))) st1"
      by (simp add: st2_def)
    have "books st1" using e target by blast
    from rehome_effect [OF this st2] show ?thesis by blast
  next
    case False
    then show ?thesis using e target by (simp add: st2_def)
  qed
  have e1: "books st1" "s_resv st1 = s_resv st" "s_ops st1 = s_ops st"
    "quantity_at l' p st1 = quantity_at l' p st + moved (od_type dto) (od_location dto) target l' p (items_of p (merge_items (od_items dto)))" for l' p
    using e target by blast+
  have l2: "ledger_at l' p st2 = ledger_at l' p st" for l' p
    using e2 e1(3) by (simp add: ledger_at_def)
  have t2: "tidy st2" using e2 books_tidy by blast
  show q: "quantity_at l' p st' = quantity_at l' p st +
      moved (od_type dto) (od_location dto) (od_target dto) l' p (items_of p (od_items dto))" for l' p
    unfolding st' st2_def [symmetric] using e2 e1(4) by (simp add: mv merge_items_total)
  have "ledger_at l' p st' = ledger_at l' p st +
      moved (od_type dto) (od_location dto) (od_target dto) l' p (items_of p (od_items dto))"
    unfolding st' st2_def [symmetric] append_operation_at(1) op_delta_moved l2 by (simp add: mv merge_items_total)
  then show "ledger_at l' p st' - ledger_at l' p st = quantity_at l' p st' - quantity_at l' p st"
    by (simp add: q)
  show "order_units oid p status st' = order_units oid p status st"
    unfolding st' st2_def [symmetric] using e2 e1(2) by (simp add: order_units_def)
  show "books st'"
    unfolding st' st2_def [symmetric] using conjunct1 [OF e2] append_operation_at(2) [OF t2]
    by (simp add: books_def)
  show "assertCanManage s u (od_location dto) \<noteq> Inl e" using ac by simp
qed

end
