(* ===== verification/Stock_Contract.thy ===== *)
theory Stock_Contract
  imports Inventory_Operations
begin

section \<open>What the inventory promises to the orders\<close>

text \<open>
  The contract the order, payment and expiry services rely on, as the locale
  \<open>stock_service\<close>: holding, committing and releasing the units of an order. The round trips
  follow from the contract alone; the interpretation \<open>stock\<close> discharges it for the model
  of the inventory service. Then the life of the stock tables as a step relation.
\<close>

subsection \<open>Units of an order at one storage\<close>

definition order_units_at :: "id \<Rightarrow> id \<Rightarrow> id \<Rightarrow> reservation_status \<Rightarrow> stock \<Rightarrow> int" where
  "order_units_at oid l p status st = units_at l p (with_status oid status st)"

lemma order_units_at_sum:
  "order_units_at oid l p status st =
     sum_where (\<lambda>r. r_order r = oid \<and> r_status r = status \<and> r_location r = l \<and> r_product r = p) r_quantity (s_resv st)"
  by (simp add: order_units_at_def with_status_def units_at_def sum_simps conj_ac)

lemma order_units_at_mark:
  assumes "s_resv st' = mark (\<lambda>r. r_order r = oid \<and> r_status r = from) final (s_resv st)"
    and "from \<noteq> final"
  shows "order_units_at oid' l p status st' =
    (if oid' \<noteq> oid then order_units_at oid' l p status st
     else if status = from then 0
     else if status = final then order_units_at oid l p final st + order_units_at oid l p from st
     else order_units_at oid l p status st)"
proof -
  let ?sum = "\<lambda>oid status. sum_where (\<lambda>r. r_order r = oid \<and> r_status r = status \<and> r_location r = l \<and> r_product r = p) r_quantity"
  have "?sum oid' status (mark (\<lambda>r. r_order r = oid \<and> r_status r = from) final rs) =
    (if oid' \<noteq> oid then ?sum oid' status rs
     else if status = from then 0
     else if status = final then ?sum oid final rs + ?sum oid from rs
     else ?sum oid status rs)" for rs
    using assms(2) by (induction rs) (auto simp: mark_def)
  then show ?thesis by (simp add: order_units_at_sum assms(1))
qed

lemma reserve_loop_others:
  "order_units_at oid' l q status (reserve_loop oid p now rows n st) = order_units_at oid' l q status st"
  if "oid' \<noteq> oid \<or> status \<noteq> Reserved"
  using that
proof (induction oid p now rows n st rule: reserve_loop.induct)
  case (1 oid p now remaining st)
  then show ?case by simp
next
  case (2 oid p now row rows remaining st)
  have step: "order_units_at oid' l q status (create_resv oid (inv_location row) p n Reserved now (save_row r st))
      = order_units_at oid' l q status st" for n r
    using "2.prems" by (auto simp: order_units_at_sum create_resv_def save_row_def sum_simps)
  show ?case
    using "2.IH" "2.prems" step by (auto simp: Let_def)
qed

subsection \<open>The contract\<close>

locale stock_service =
  fixes good :: "'s \<Rightarrow> bool"
    and units :: "id \<Rightarrow> id \<Rightarrow> reservation_status \<Rightarrow> 's \<Rightarrow> int"
    and placed :: "id \<Rightarrow> id \<Rightarrow> id \<Rightarrow> reservation_status \<Rightarrow> 's \<Rightarrow> int"
    and physical :: "id \<Rightarrow> id \<Rightarrow> 's \<Rightarrow> int"
    and ledger :: "id \<Rightarrow> id \<Rightarrow> 's \<Rightarrow> int"
    and hold :: "'c \<Rightarrow> id \<Rightarrow> id \<Rightarrow> int \<Rightarrow> 's \<Rightarrow> error + 's"
    and commit :: "id \<Rightarrow> id \<Rightarrow> 's \<Rightarrow> 's"
    and release :: "id \<Rightarrow> id option \<Rightarrow> reservation_status \<Rightarrow> 's \<Rightarrow> error + 's"
  assumes hold_good: "good s \<Longrightarrow> hold c oid p n s = Inr s' \<Longrightarrow> good s'"
    and hold_units: "good s \<Longrightarrow> hold c oid p n s = Inr s' \<Longrightarrow> units oid' q status s' =
      units oid' q status s + (if (oid', q, status) = (oid, p, Reserved) then max 0 n else 0)"
    and hold_placed: "good s \<Longrightarrow> hold c oid p n s = Inr s' \<Longrightarrow> status \<noteq> Reserved \<or> oid' \<noteq> oid \<Longrightarrow>
      placed oid' l q status s' = placed oid' l q status s"
    and hold_physical: "good s \<Longrightarrow> hold c oid p n s = Inr s' \<Longrightarrow> physical l q s' = physical l q s"
    and hold_ledger: "good s \<Longrightarrow> hold c oid p n s = Inr s' \<Longrightarrow> ledger l q s' = ledger l q s"
    and commit_good: "good s \<Longrightarrow> good (commit oid u s)"
    and commit_units: "good s \<Longrightarrow> units oid' q status (commit oid u s) =
      (if oid' \<noteq> oid then units oid' q status s
       else if status = Reserved then 0
       else if status = Confirmed then units oid q Confirmed s + units oid q Reserved s
       else units oid q status s)"
    and commit_placed: "good s \<Longrightarrow> placed oid' l q status (commit oid u s) =
      (if oid' \<noteq> oid then placed oid' l q status s
       else if status = Reserved then 0
       else if status = Confirmed then placed oid l q Confirmed s + placed oid l q Reserved s
       else placed oid l q status s)"
    and commit_physical: "good s \<Longrightarrow>
      physical l q (commit oid u s) = physical l q s - placed oid l q Reserved s"
    and commit_ledger: "good s \<Longrightarrow>
      ledger l q (commit oid u s) - ledger l q s = physical l q (commit oid u s) - physical l q s"
    and release_good: "good s \<Longrightarrow> final \<noteq> Reserved \<Longrightarrow> final \<noteq> Confirmed \<Longrightarrow>
      release oid uo final s = Inr s' \<Longrightarrow> good s'"
    and release_units: "good s \<Longrightarrow> final \<noteq> Reserved \<Longrightarrow> final \<noteq> Confirmed \<Longrightarrow>
      release oid uo final s = Inr s' \<Longrightarrow> units oid' q status s' =
      (if oid' \<noteq> oid then units oid' q status s
       else if status = Reserved \<or> status = Confirmed then 0
       else if status = final then units oid q final s + units oid q Reserved s + units oid q Confirmed s
       else units oid q status s)"
    and release_physical: "good s \<Longrightarrow> final \<noteq> Reserved \<Longrightarrow> final \<noteq> Confirmed \<Longrightarrow>
      release oid uo final s = Inr s' \<Longrightarrow> physical l q s' = physical l q s + placed oid l q Confirmed s"
    and release_ledger: "good s \<Longrightarrow> final \<noteq> Reserved \<Longrightarrow> final \<noteq> Confirmed \<Longrightarrow>
      release oid uo final s = Inr s' \<Longrightarrow> ledger l q s' - ledger l q s = physical l q s' - physical l q s"
    and release_works: "good s \<Longrightarrow> final \<noteq> Confirmed \<Longrightarrow> uo \<noteq> None \<Longrightarrow> \<exists>s'. release oid uo final s = Inr s'"
begin

text \<open>Holding a list of lines, one after the other.\<close>

lemma hold_all:
  assumes "foldE (\<lambda>(p, n). hold c oid p n) lines s = Inr s'" and "good s"
  shows "good s' \<and> (\<forall>oid' q status. units oid' q status s' = units oid' q status s +
        (if oid' = oid \<and> status = Reserved then sum_where (\<lambda>(p, _). p = q) (\<lambda>(_, n). max 0 n) lines else 0))
    \<and> (\<forall>l q. physical l q s' = physical l q s) \<and> (\<forall>l q. ledger l q s' = ledger l q s)
    \<and> (\<forall>l q. placed oid l q Confirmed s' = placed oid l q Confirmed s)"
  using assms
proof (induction lines arbitrary: s)
  case Nil
  then show ?case by simp
next
  case (Cons a lines)
  obtain p n where a: "a = (p, n)" by force
  from Cons.prems(1) obtain s1 where s1: "hold c oid p n s = Inr s1"
    and rest: "foldE (\<lambda>(p, n). hold c oid p n) lines s1 = Inr s'" by (auto simp: a bindE_eq_Inr)
  note h = hold_good [OF Cons.prems(2) s1] hold_units [OF Cons.prems(2) s1]
    hold_physical [OF Cons.prems(2) s1] hold_ledger [OF Cons.prems(2) s1] hold_placed [OF Cons.prems(2) s1]
  show ?case using Cons.IH [OF rest h(1)] h(2-5) by (auto simp: a)
qed

text \<open>Held and released: the goods never moved.\<close>

lemma hold_release:
  assumes "good s" and "foldE (\<lambda>(p, n). hold c oid p n) lines s = Inr s1"
    and "release oid uo final s1 = Inr s'" and "final \<noteq> Reserved" and "final \<noteq> Confirmed"
    and "\<forall>l q. placed oid l q Confirmed s = 0"
  shows "physical l q s' = physical l q s \<and> ledger l q s' = ledger l q s \<and>
    units oid q Reserved s' = 0 \<and> units oid q Confirmed s' = 0"
proof -
  note h = hold_all [OF assms(2,1)]
  have g: "good s1" using h by blast
  have "physical l q s' = physical l q s"
    using release_physical [OF g assms(4,5,3)] h assms(6) by simp
  moreover have "ledger l q s' = ledger l q s"
    using release_ledger [OF g assms(4,5,3), of l q] h calculation by simp
  ultimately show ?thesis using release_units [OF g assms(4,5,3)] by simp
qed

text \<open>Held, shipped and restocked: every unit is back on the shelf it left.\<close>

lemma hold_commit_release:
  assumes "good s" and "foldE (\<lambda>(p, n). hold c oid p n) lines s = Inr s1"
    and "release oid uo final (commit oid u s1) = Inr s'" and "final \<noteq> Reserved" and "final \<noteq> Confirmed"
    and "\<forall>l q. placed oid l q Confirmed s = 0"
  shows "physical l q s' = physical l q s \<and> ledger l q s' = ledger l q s \<and>
    units oid q Reserved s' = 0 \<and> units oid q Confirmed s' = 0"
proof -
  note h = hold_all [OF assms(2,1)]
  have g1: "good s1" using h by blast
  have g: "good (commit oid u s1)" by (rule commit_good [OF g1])
  have "physical l q s' = physical l q s"
    using release_physical [OF g assms(4,5,3)] h assms(6)
    by (simp add: commit_physical [OF g1] commit_placed [OF g1])
  moreover have "ledger l q s' = ledger l q s"
    using release_ledger [OF g assms(4,5,3), of l q] commit_ledger [OF g1, of l q oid u] h calculation by simp
  ultimately show ?thesis using release_units [OF g assms(4,5,3)] by simp
qed

end

text \<open>The context of one call to \<open>reserve\<close>: the storages, the allowed ones, the preferred one, now.\<close>

type_synonym reserve_context = "location list \<times> id list option \<times> id option \<times> instant"

fun reserve_in :: "reserve_context \<Rightarrow> id \<Rightarrow> id \<Rightarrow> int \<Rightarrow> stock \<Rightarrow> error + stock" where
  "reserve_in (locs, allowed, preferred, now) oid p n st = reserve locs allowed preferred now oid p n st"

lemma release_mark_units:
  assumes "s_resv st' = mark (\<lambda>r. r_order r = oid \<and> r_status r = Confirmed) final
      (mark (\<lambda>r. r_order r = oid \<and> r_status r = Reserved) final (s_resv st))"
    and "final \<noteq> Reserved" and "final \<noteq> Confirmed"
  shows "order_units oid' q status st' =
      (if oid' \<noteq> oid then order_units oid' q status st
       else if status = Reserved \<or> status = Confirmed then 0
       else if status = final then order_units oid q final st + order_units oid q Reserved st + order_units oid q Confirmed st
       else order_units oid q status st)"
proof -
  define mid where "mid = st\<lparr>s_resv := mark (\<lambda>r. r_order r = oid \<and> r_status r = Reserved) final (s_resv st)\<rparr>"
  have m1: "s_resv mid = mark (\<lambda>r. r_order r = oid \<and> r_status r = Reserved) final (s_resv st)"
    by (simp add: mid_def)
  have m2: "s_resv st' = mark (\<lambda>r. r_order r = oid \<and> r_status r = Confirmed) final (s_resv mid)"
    by (simp add: assms(1) m1)
  have f: "Confirmed \<noteq> final" "Reserved \<noteq> final" using assms(2,3) by auto
  show ?thesis
    unfolding order_units_mark [OF m2 f(1)] order_units_mark [OF m1 f(2)] using assms(2,3) by simp
qed

interpretation stock: stock_service books order_units order_units_at quantity_at ledger_at
  reserve_in confirm_reservations release_reservations
proof unfold_locales
  fix c oid p n s s'
  assume a: "books s" "reserve_in c oid p n s = Inr s'"
  obtain locs allowed preferred now where c: "c = (locs, allowed, preferred, now)" by (cases c) auto
  have r: "reserve locs allowed preferred now oid p n s = Inr s'" using a(2) by (simp add: c)
  note e = reserve_effect [OF a(1) r]
  show "books s'" "\<And>l q. quantity_at l q s' = quantity_at l q s" "\<And>l q. ledger_at l q s' = ledger_at l q s"
    "\<And>oid' q status. order_units oid' q status s' =
      order_units oid' q status s + (if (oid', q, status) = (oid, p, Reserved) then max 0 n else 0)"
    by (fact e)+
  show "order_units_at oid' l q status s' = order_units_at oid' l q status s"
    if "status \<noteq> Reserved \<or> oid' \<noteq> oid" for oid' l q status
    using r reserve_loop_others that by (auto simp: reserve_succeeds)
next
  fix s oid u
  assume b: "books s"
  note e = confirm_effect [OF b refl [of "confirm_reservations oid u s"]]
  show "books (confirm_reservations oid u s)"
    "\<And>l q. quantity_at l q (confirm_reservations oid u s) = quantity_at l q s - order_units_at oid l q Reserved s"
    "\<And>l q. ledger_at l q (confirm_reservations oid u s) - ledger_at l q s =
       quantity_at l q (confirm_reservations oid u s) - quantity_at l q s"
    using e by (simp_all add: order_units_at_def)
  show "order_units oid' q status (confirm_reservations oid u s) =
      (if oid' \<noteq> oid then order_units oid' q status s
       else if status = Reserved then 0
       else if status = Confirmed then order_units oid q Confirmed s + order_units oid q Reserved s
       else order_units oid q status s)" for oid' q status
    by (rule order_units_mark [OF e(5)]) simp
  show "order_units_at oid' l q status (confirm_reservations oid u s) =
      (if oid' \<noteq> oid then order_units_at oid' l q status s
       else if status = Reserved then 0
       else if status = Confirmed then order_units_at oid l q Confirmed s + order_units_at oid l q Reserved s
       else order_units_at oid l q status s)" for oid' l q status
    by (rule order_units_at_mark [OF e(5)]) simp
next
  fix s s' oid uo and final :: reservation_status
  assume a: "books s" "final \<noteq> Reserved" "final \<noteq> Confirmed" "release_reservations oid uo final s = Inr s'"
  note e = release_effect [OF a(1,4,2,3)]
  show "books s'" "\<And>l q. quantity_at l q s' = quantity_at l q s + order_units_at oid l q Confirmed s"
    "\<And>l q. ledger_at l q s' - ledger_at l q s = quantity_at l q s' - quantity_at l q s"
    using e by (simp_all add: order_units_at_def)
  show "order_units oid' q status s' =
      (if oid' \<noteq> oid then order_units oid' q status s
       else if status = Reserved \<or> status = Confirmed then 0
       else if status = final then order_units oid q final s + order_units oid q Reserved s + order_units oid q Confirmed s
       else order_units oid q status s)" for oid' q status
    by (rule release_mark_units [OF e(5) a(2,3)])
next
  fix s oid and uo :: "id option" and final :: reservation_status
  assume "books s" "final \<noteq> Confirmed" "uo \<noteq> None"
  then show "\<exists>s'. release_reservations oid uo final s = Inr s'" by (intro release_succeeds) auto
qed


subsection \<open>The life of the stock tables\<close>

text \<open>
  Every write to the stock tables, one constructor per public operation of the service. A
  release closes an order's reservations as cancelled or expired; movements by hand carry
  positive quantities (their DTO says so).
\<close>

inductive stock_step :: "stock \<Rightarrow> stock \<Rightarrow> bool" where
  Step_reserve: "reserve locs allowed preferred now oid p n st = Inr st' \<Longrightarrow> stock_step st st'"
| Step_confirm: "stock_step st (confirm_reservations oid u st)"
| Step_release: "release_reservations oid uo final st = Inr st' \<Longrightarrow> final = Cancelled \<or> final = Expired \<Longrightarrow>
    stock_step st st'"
| Step_release_units: "release_product_units now oid p n uo st = Inr st' \<Longrightarrow> stock_step st st'"
| Step_confirm_product: "stock_step st (confirm_product_reservations oid p u st)"
| Step_operation: "createOperation s products orders u dto st = Inr st' \<Longrightarrow>
    \<forall>x \<in> set (od_items dto). 0 < snd x \<Longrightarrow> stock_step st st'"

inductive_cases stock_stepE: "stock_step st st'"

lemma stock_step_keeps:
  assumes "stock_step st st'" and "books st"
  shows "books st' \<and> quantity_at l p st' - ledger_at l p st' = quantity_at l p st - ledger_at l p st"
  using assms(1)
proof cases
  case (Step_reserve locs allowed preferred now oid p n)
  then show ?thesis using reserve_effect [OF assms(2) Step_reserve] by simp
next
  case (Step_confirm oid u)
  note e = confirm_effect [OF assms(2) Step_confirm]
  show ?thesis using e(1) e(4) [of l p] by simp
next
  case (Step_release oid uo final)
  then have f: "final \<noteq> Reserved" "final \<noteq> Confirmed" by auto
  note e = release_effect [OF assms(2) Step_release(1) f]
  show ?thesis using e(1) e(4) [of l p] by simp
next
  case (Step_release_units now oid p' n uo)
  note e = release_units_effect [OF assms(2) Step_release_units]
  show ?thesis using e(1) e(6) [of l p] by simp
next
  case (Step_confirm_product oid p' u)
  note e = confirm_product_effect [OF assms(2) Step_confirm_product]
  show ?thesis using e(1) e(3) [of l p] by simp
next
  case (Step_operation s products orders u dto)
  note e = createOperation_effect [OF assms(2) Step_operation]
  show ?thesis using e(1) e(3) [of l p] by simp
qed

text \<open>The invariant of the tables, anchored at a first state.\<close>

definition accounted :: "stock \<Rightarrow> stock \<Rightarrow> bool" where
  "accounted st0 st \<longleftrightarrow> books st \<and>
     (\<forall>l p. quantity_at l p st - ledger_at l p st = quantity_at l p st0 - ledger_at l p st0)"

interpretation stock_life: stepwise stock_step "accounted st0" for st0
  by unfold_locales (use stock_step_keeps in \<open>auto simp: accounted_def\<close>)

subsection \<open>Properties\<close>

text \<open>C13: However the stock tables are written, in any order of reservations, confirmations,
  releases, line edits and movements by hand, at every storage and product the rows hold
  exactly what the live reservations hold and never more than there is, and the physical
  stock is the initial stock plus the balance of the movement ledger since then.\<close>

theorem stock_always_accounted:
  assumes "stock_step\<^sup>*\<^sup>* st0 st" and "books st0"
  shows "reserved_at l p st = held_at l p st \<and> 0 \<le> held_at l p st \<and> held_at l p st \<le> quantity_at l p st \<and>
    quantity_at l p st = quantity_at l p st0 + (ledger_at l p st - ledger_at l p st0)"
proof -
  have "accounted st0 st"
    by (rule stock_life.run [OF assms(1)]) (simp add: accounted_def assms(2))
  then have b: "books st" and q: "quantity_at l p st - ledger_at l p st = quantity_at l p st0 - ledger_at l p st0"
    by (simp_all add: accounted_def)
  show ?thesis
    using books_numbers [OF b] held_nonneg [OF books_tidy [OF b]] q by simp
qed

text \<open>The free units of a product across the active, allowed storages.\<close>

definition free_units :: "location list \<Rightarrow> id list option \<Rightarrow> id \<Rightarrow> stock \<Rightarrow> int" where
  "free_units locs allowed p st =
     sum_where (\<lambda>r. inv_product r = p \<and> inv_location r \<in> set (active_location_ids locs allowed))
       available (s_rows st)"

lemma free_units_rows: "sum_list (map available (reserve_rows locs p allowed preferred st)) = free_units locs allowed p st"
proof -
  have "sum_list (map available rs) = sum_where (\<lambda>_. True) available rs" for rs by (simp add: sum_where_def)
  then show ?thesis by (simp add: reserve_rows_def Let_def free_units_def sum_simps)
qed

lemma reserve_loop_elsewhere:
  "held_at l q (reserve_loop oid p now rows n st) = held_at l q st"
  if "\<forall>r \<in> set rows. inv_location r \<noteq> l"
  using that
proof (induction oid p now rows n st rule: reserve_loop.induct)
  case (1 oid p now remaining st)
  then show ?case by simp
next
  case (2 oid p now row rows remaining st)
  have step: "held_at l q (create_resv oid (inv_location row) p n Reserved now (save_row r st)) = held_at l q st" for n r
    using "2.prems" by (auto simp: held_at_def create_resv_def save_row_def sum_simps)
  show ?case using "2.IH" "2.prems" step by (auto simp: Let_def)
qed

text \<open>C14: \<open>reserve\<close> is all or nothing: it fails exactly when the active, allowed storages
  together have fewer free units than asked for, and the error carries how many there are;
  when it succeeds exactly the units asked for are held for the order, at active and allowed
  storages only, no unit moves, and no other order or product is touched.\<close>

theorem reserve_exact:
  assumes "books st"
  shows "case reserve locs allowed preferred now oid p n st of
      Inl e \<Rightarrow> free_units locs allowed p st < n \<and> e = StockConflict (free_units locs allowed p st)
    | Inr st' \<Rightarrow> n \<le> free_units locs allowed p st \<and> books st'
        \<and> (\<forall>l q. quantity_at l q st' = quantity_at l q st)
        \<and> (\<forall>l q. l \<notin> set (active_location_ids locs allowed) \<longrightarrow> held_at l q st' = held_at l q st)
        \<and> (\<forall>oid' q status. order_units oid' q status st' =
           order_units oid' q status st + (if (oid', q, status) = (oid, p, Reserved) then max 0 n else 0))"
proof (cases "reserve locs allowed preferred now oid p n st")
  case (Inl e)
  then show ?thesis by (auto simp: reserve_def Let_def free_units_rows split: if_splits)
next
  case (Inr st')
  have n: "n \<le> free_units locs allowed p st" using Inr by (simp add: reserve_succeeds free_units_rows)
  have "held_at l q st' = held_at l q st" if "l \<notin> set (active_location_ids locs allowed)" for l q
  proof -
    have "\<forall>r \<in> set (reserve_rows locs p allowed preferred st). inv_location r \<noteq> l"
      using that by (auto simp: reserve_rows_def Let_def)
    from reserve_loop_elsewhere [OF this] Inr show ?thesis by (simp add: reserve_succeeds)
  qed
  then show ?thesis using reserve_effect [OF assms Inr] Inr n by simp
qed

text \<open>An order whose lines were held and then released, cancelled or expired, leaves no
  trace in the stock: every shelf has what it had, the ledger its balance, and nothing of the
  order stays held or shipped.\<close>

theorem reserve_release_roundtrip:
  assumes "books st" and "\<forall>l q. order_units_at oid l q Confirmed st = 0"
    and "foldE (\<lambda>(p, n). reserve_in ctx oid p n) lines st = Inr st1"
    and "release_reservations oid uo final st1 = Inr st'" and "final = Cancelled \<or> final = Expired"
  shows "quantity_at l q st' = quantity_at l q st \<and> ledger_at l q st' = ledger_at l q st \<and>
    order_units oid q Reserved st' = 0 \<and> order_units oid q Confirmed st' = 0"
proof -
  have f: "final \<noteq> Reserved" "final \<noteq> Confirmed" using assms(5) by auto
  show ?thesis by (rule stock.hold_release [OF assms(1,3,4) f assms(2)])
qed

text \<open>C15: The same after the order was confirmed and its goods left the storage: the release
  puts every unit back on the shelf it came from, and the exit and the re-entry cancel out in
  the ledger.\<close>

theorem reserve_confirm_release_roundtrip:
  assumes "books st" and "\<forall>l q. order_units_at oid l q Confirmed st = 0"
    and "foldE (\<lambda>(p, n). reserve_in ctx oid p n) lines st = Inr st1"
    and "release_reservations oid uo final (confirm_reservations oid u st1) = Inr st'"
    and "final = Cancelled \<or> final = Expired"
  shows "quantity_at l q st' = quantity_at l q st \<and> ledger_at l q st' = ledger_at l q st \<and>
    order_units oid q Reserved st' = 0 \<and> order_units oid q Confirmed st' = 0"
proof -
  have f: "final \<noteq> Reserved" "final \<noteq> Confirmed" using assms(5) by auto
  show ?thesis by (rule stock.hold_commit_release [OF assms(1,3,4) f assms(2)])
qed

text \<open>Taking units of one product out of an order gives back the units still held before
  the units already shipped, exactly as many as asked for while the order has them, keeps the
  history of what was given back as cancelled units, and touches no other product or order.\<close>

theorem release_units_exact:
  assumes "books st" and "release_product_units now oid p n uo st = Inr st'" and "0 \<le> n"
    and "n \<le> order_units oid p Reserved st + order_units oid p Confirmed st"
  shows "order_units oid p Reserved st' + order_units oid p Confirmed st' =
      order_units oid p Reserved st + order_units oid p Confirmed st - n \<and>
    order_units oid p Cancelled st' = order_units oid p Cancelled st + n \<and>
    (order_units oid p Confirmed st' \<noteq> order_units oid p Confirmed st \<longrightarrow> order_units oid p Reserved st' = 0) \<and>
    (\<forall>oid' q s. (oid', q) \<noteq> (oid, p) \<longrightarrow> order_units oid' q s st' = order_units oid' q s st)"
proof -
  have "held_part oid p n st + shipped_part oid p n st = n"
    "shipped_part oid p n st \<noteq> 0 \<longrightarrow> held_part oid p n st = order_units oid p Reserved st"
    using assms(3,4) order_units_nonneg [OF books_tidy [OF assms(1)]]
    by (auto simp: held_part_def shipped_part_def min_def)
  then show ?thesis using release_units_effect(2-5) [OF assms(1,2)] by auto
qed

text \<open>C16: A movement by hand moves exactly the merged quantity of each product (in, out, or from
  the source to the destination), never a unit that is held for an order, never the units of
  any order, and only for a manager or someone assigned to the storage.\<close>

theorem createOperation_exact:
  assumes "books st" and "createOperation s products orders u dto st = Inr st'"
    and "\<forall>x \<in> set (od_items dto). 0 < snd x"
  shows "(\<forall>l p. quantity_at l p st' = quantity_at l p st +
      moved (od_type dto) (od_location dto) (od_target dto) l p (items_of p (od_items dto))) \<and>
    (\<forall>l p. held_at l p st' \<le> quantity_at l p st') \<and>
    (\<forall>oid p status. order_units oid p status st' = order_units oid p status st) \<and>
    (isManager u \<or> (od_location dto, u_id u) \<in> set (l_grocers s))"
proof -
  note e = createOperation_effect [OF assms]
  from assms(2) obtain loc where "assertCanManage s u (od_location dto) = Inr loc"
    by (auto simp: createOperation_def bindE_eq_Inr)
  then have "isManager u \<or> (od_location dto, u_id u) \<in> set (l_grocers s)"
    by (auto simp: assertCanManage_def assertGrocerAssigned_def bindE_eq_Inr split: if_splits)
  then show ?thesis using e(2,4) books_numbers(2) [OF e(1)] by blast
qed


subsection \<open>A worked example\<close>

text \<open>
  Two storages (1 and 2, assigned to user 4), product 7 in both, an order (50) that holds two
  units at storage 2.
\<close>

definition sample_locations :: "location list" where
  "sample_locations = [\<lparr>loc_id = 1, loc_name = ''Norte'', loc_active = True, loc_deleted = False\<rparr>,
     \<lparr>loc_id = 2, loc_name = ''Sur'', loc_active = True, loc_deleted = False\<rparr>]"

definition sample_stock :: stock where
  "sample_stock = \<lparr>
     s_rows = [\<lparr>inv_location = 1, inv_product = 7, inv_quantity = 10, inv_reserved = 0\<rparr>,
       \<lparr>inv_location = 2, inv_product = 7, inv_quantity = 5, inv_reserved = 2\<rparr>],
     s_resv = [\<lparr>r_id = 1, r_order = 50, r_location = 2, r_product = 7, r_quantity = 2,
       r_status = Reserved, r_created = 0\<rparr>],
     s_ops = [], s_next = 100\<rparr>"

definition sample_storage :: storage where
  "sample_storage = \<lparr>l_locations = sample_locations, l_coverage = [], l_grocers = [(1, 4), (2, 4)],
     l_pickups = [], l_next = 100\<rparr>"

definition sample_product :: product where
  "sample_product = \<lparr>p_id = 7, p_name = ''Arroz'', p_base_price = 1999, p_discount = 0,
     p_active = True, p_deleted = False, p_category = 92, p_sku = ''ARROZ'', p_slug = ''arroz'', p_description = None,
     p_image = None, p_format = None, p_expiry = None, p_measure = ''unidad'', p_featured = False, p_sort = 0, p_created = 0\<rparr>"

definition sample_transfer :: operation_dto where
  "sample_transfer = \<lparr>od_location = 1, od_type = OpTransfer, od_target = Some 2, od_note = None,
     od_order = None, od_items = [(7, 3), (7, 1)]\<rparr>"

lemma sample_books: "books sample_stock"
proof -
  have "tidy sample_stock" by code_simp
  moreover have "reserved_at l p sample_stock = held_at l p sample_stock \<and>
      held_at l p sample_stock \<le> quantity_at l p sample_stock" for l p
    by (auto simp: sample_stock_def stock_numbers inv_key_def)
  ultimately show ?thesis by (simp add: books_def)
qed

lemma sample_unshipped: "\<forall>l q. order_units_at 51 l q Confirmed sample_stock = 0"
  by (simp add: order_units_at_sum sample_stock_def)

theorem stock_always_accounted_witness:
  "stock_step sample_stock (confirm_reservations 50 4 sample_stock) \<and>
   quantity_at 2 7 (confirm_reservations 50 4 sample_stock) =
     quantity_at 2 7 sample_stock + (ledger_at 2 7 (confirm_reservations 50 4 sample_stock) - ledger_at 2 7 sample_stock)"
  using stock_always_accounted [OF r_into_rtranclp [of stock_step, OF Step_confirm] sample_books, of 2 7 50 4]
    Step_confirm [of sample_stock 50 4]
  by blast

theorem reserve_exact_witness:
  "\<exists>st'. reserve sample_locations None (Some 2) 0 51 7 4 sample_stock = Inr st' \<and>
     order_units 51 7 Reserved st' = order_units 51 7 Reserved sample_stock + 4"
proof -
  have "\<not> isl (reserve sample_locations None (Some 2) 0 51 7 4 sample_stock)" by code_simp
  then obtain st' where "reserve sample_locations None (Some 2) 0 51 7 4 sample_stock = Inr st'"
    by (cases "reserve sample_locations None (Some 2) 0 51 7 4 sample_stock") auto
  then show ?thesis
    using reserve_exact [OF sample_books, where locs = sample_locations and allowed = None
        and preferred = "Some 2" and now = 0 and oid = 51 and p = 7 and n = 4] by simp
qed

definition sample_context :: reserve_context where
  "sample_context = (sample_locations, None, None, 0)"

definition sample_held :: stock where
  "sample_held = (case foldE (\<lambda>(p, n). reserve_in sample_context 51 p n) [(7, 12)] sample_stock of
     Inr st \<Rightarrow> st | Inl _ \<Rightarrow> sample_stock)"

lemma sample_held_eq: "foldE (\<lambda>(p, n). reserve_in sample_context 51 p n) [(7, 12)] sample_stock = Inr sample_held"
proof -
  have "\<not> isl (foldE (\<lambda>(p, n). reserve_in sample_context 51 p n) [(7, 12)] sample_stock)" by code_simp
  then show ?thesis
    unfolding sample_held_def
    by (cases "foldE (\<lambda>(p, n). reserve_in sample_context 51 p n) [(7, 12)] sample_stock") simp_all
qed

theorem reserve_release_roundtrip_witness:
  "\<exists>st'. release_reservations 51 None Expired sample_held = Inr st' \<and>
     quantity_at 1 7 st' = quantity_at 1 7 sample_stock"
proof -
  have "\<not> isl (release_reservations 51 None Expired sample_held)" by code_simp
  then obtain st' where st': "release_reservations 51 None Expired sample_held = Inr st'"
    by (cases "release_reservations 51 None Expired sample_held") auto
  from reserve_release_roundtrip [OF sample_books sample_unshipped sample_held_eq st'] st'
  show ?thesis by blast
qed

theorem reserve_confirm_release_roundtrip_witness:
  "\<exists>st'. release_reservations 51 (Some 4) Cancelled (confirm_reservations 51 4 sample_held) = Inr st' \<and>
     quantity_at 1 7 st' = quantity_at 1 7 sample_stock \<and> ledger_at 1 7 st' = ledger_at 1 7 sample_stock"
proof -
  let ?r = "release_reservations 51 (Some 4) Cancelled (confirm_reservations 51 4 sample_held)"
  have "\<not> isl ?r" by code_simp
  then obtain st' where st': "?r = Inr st'" by (cases ?r) auto
  from reserve_confirm_release_roundtrip [OF sample_books sample_unshipped sample_held_eq st'] st'
  show ?thesis by blast
qed

theorem release_units_exact_witness:
  "\<exists>st'. release_product_units 9 50 7 1 None sample_stock = Inr st' \<and> order_units 50 7 Cancelled st' = 1"
proof -
  let ?r = "release_product_units 9 50 7 1 None sample_stock"
  have "\<not> isl ?r" by code_simp
  then obtain st' where st': "?r = Inr st'" by (cases ?r) auto
  have u: "order_units 50 7 Reserved sample_stock = 2" "order_units 50 7 Confirmed sample_stock = 0"
    "order_units 50 7 Cancelled sample_stock = 0" by code_simp+
  from release_units_exact [OF sample_books st'] u st' show ?thesis by simp
qed

theorem createOperation_exact_witness:
  "\<exists>st'. createOperation sample_storage [sample_product] [] \<lparr>u_id = 4, u_role = STAFF\<rparr> sample_transfer sample_stock = Inr st' \<and>
     quantity_at 2 7 st' = 9 \<and> quantity_at 1 7 st' = 6"
proof -
  let ?r = "createOperation sample_storage [sample_product] [] \<lparr>u_id = 4, u_role = STAFF\<rparr> sample_transfer sample_stock"
  have "\<not> isl ?r" by code_simp
  then obtain st' where st': "?r = Inr st'" by (cases ?r) auto
  have pos: "\<forall>x \<in> set (od_items sample_transfer). 0 < snd x" by code_simp
  have q: "quantity_at 2 7 sample_stock = 5" "quantity_at 1 7 sample_stock = 10" by code_simp+
  have m: "moved (od_type sample_transfer) (od_location sample_transfer) (od_target sample_transfer) 2 7
      (items_of 7 (od_items sample_transfer)) = 4"
    "moved (od_type sample_transfer) (od_location sample_transfer) (od_target sample_transfer) 1 7
      (items_of 7 (od_items sample_transfer)) = - 4" by code_simp+
  from createOperation_exact [OF sample_books st' pos] q m st' show ?thesis by simp
qed

end
