(* ===== verification/Business_Days.thy ===== *)
theory Business_Days
  imports Entities
begin

section \<open>Business days in Cuba, the delivery promise and the seal of a payment\<close>

text \<open>
  \<open>src/common/business-days.ts\<close> and \<open>src/orders/payment-sealing.ts\<close>, and the identity card of
  \<open>src/common/utils/cuban-id.ts\<close>, which reads the same calendar. A civil date is a
  (year, month, day) triple, the fields of the source's \<open>YYYY-MM-DD\<close> strings. What the
  source takes from the time zone database through \<open>Intl\<close> (the civil date in Havana of an
  instant and the offset of the zone) is the parameter \<open>havana\<close>.
\<close>

type_synonym date = "int \<times> int \<times> int"

record havana =
  hv_date :: "instant \<Rightarrow> date"
  hv_offset :: "instant \<Rightarrow> int"

subsection \<open>The calendar of Date.UTC\<close>

definition is_leap :: "int \<Rightarrow> bool" where
  "is_leap y \<longleftrightarrow> (y mod 4 = 0 \<and> y mod 100 \<noteq> 0) \<or> y mod 400 = 0"

definition month_length :: "int \<Rightarrow> int \<Rightarrow> int" where
  "month_length y m = (if m = 2 then (if is_leap y then 29 else 28)
     else if m = 4 \<or> m = 6 \<or> m = 9 \<or> m = 11 then 30 else 31)"

fun valid_date :: "date \<Rightarrow> bool" where
  "valid_date (y, m, d) \<longleftrightarrow> 1 \<le> m \<and> m \<le> 12 \<and> 1 \<le> d \<and> d \<le> month_length y m"

text \<open>Days since 1970-01-01; \<open>Date.UTC(y, m - 1, d)\<close> is this many days of milliseconds.\<close>

definition days_before_year :: "int \<Rightarrow> int" where
  "days_before_year y = 365 * y + (y - 1) div 4 - (y - 1) div 100 + (y - 1) div 400"

definition days_before_month :: "int \<Rightarrow> int \<Rightarrow> int" where
  "days_before_month y m =
     (if m = 1 then 0 else if m = 2 then 31
      else (if m = 3 then 59 else if m = 4 then 90 else if m = 5 then 120 else if m = 6 then 151
            else if m = 7 then 181 else if m = 8 then 212 else if m = 9 then 243 else if m = 10 then 273
            else if m = 11 then 304 else 334) + (if is_leap y then 1 else 0))"

fun utc_days :: "date \<Rightarrow> int" where
  "utc_days (y, m, d) = days_before_year y - days_before_year 1970 + days_before_month y m + (d - 1)"

text \<open>\<open>getUTCDay\<close>: 0 is Sunday; the epoch was a Thursday.\<close>

definition weekday :: "date \<Rightarrow> int" where
  "weekday f = (utc_days f + 4) mod 7"

text \<open>\<open>siguienteDia\<close>: \<open>new Date(Date.UTC(y, m - 1, d + 1))\<close>, which carries into month and year.\<close>

fun siguienteDia :: "date \<Rightarrow> date" where
  "siguienteDia (y, m, d) =
     (if d < month_length y m then (y, m, d + 1)
      else if m < 12 then (y, m + 1, 1) else (y + 1, 1, 1))"

subsection \<open>The holidays\<close>

definition FERIADOS_FIJOS :: "(int \<times> int) list" where
  "FERIADOS_FIJOS = [(1, 1), (1, 2), (5, 1), (7, 25), (7, 26), (7, 27), (10, 10), (12, 25), (12, 31)]"

text \<open>Easter Sunday, as (month, day).\<close>

definition domingoDePascua :: "int \<Rightarrow> int \<times> int" where
  "domingoDePascua anio =
     (let a = anio mod 19; b = anio div 100; c = anio mod 100; d = b div 4; e = b mod 4;
          f = (b + 8) div 25; g = (b - f + 1) div 3; h = (19 * a + b - d - g + 15) mod 30;
          i = c div 4; k = c mod 4; l = (32 + 2 * e + 2 * i - h - k) mod 7;
          m = (a + 11 * h + 22 * l) div 451;
          mes = (h + l - 7 * m + 114) div 31; dia = (h + l - 7 * m + 114) mod 31 + 1
      in (mes, dia))"

text \<open>\<open>Date.UTC(anio, mes - 1, dia - 2)\<close>: Good Friday, back into the month before if need be.\<close>

definition viernesSanto :: "int \<Rightarrow> date" where
  "viernesSanto anio =
     (let (mes, dia) = domingoDePascua anio in
      if 0 < dia - 2 then (anio, mes, dia - 2)
      else (anio, mes - 1, month_length anio (mes - 1) + (dia - 2)))"

definition feriadosCubanos :: "int \<Rightarrow> date list" where
  "feriadosCubanos anio = map (\<lambda>(m, d). (anio, m, d)) FERIADOS_FIJOS @ [viernesSanto anio]"

fun esHabil :: "date \<Rightarrow> bool" where
  "esHabil (y, m, d) = (weekday (y, m, d) \<noteq> 0 \<and> (y, m, d) \<notin> set (feriadosCubanos y))"

subsection \<open>The end of the term\<close>

text \<open>The loop: \<open>vueltas\<close> turns left, \<open>faltan\<close> business days still to count.\<close>

fun contar_habiles :: "nat \<Rightarrow> int \<Rightarrow> date \<Rightarrow> date" where
  "contar_habiles 0 faltan fecha = fecha"
| "contar_habiles (Suc vueltas) faltan fecha =
     (if faltan \<le> 0 then fecha
      else let f = siguienteDia fecha
           in contar_habiles vueltas (if esHabil f then faltan - 1 else faltan) f)"

definition day_ms :: int where
  "day_ms = 86400000"

definition finDelPlazo :: "havana \<Rightarrow> instant \<Rightarrow> int option \<Rightarrow> instant option" where
  "finDelPlazo hv desde dias =
     (case dias of None \<Rightarrow> None
      | Some n \<Rightarrow>
          if n \<le> 0 then None
          else let fecha = contar_habiles 400 n (hv_date hv desde);
                   medianoche = (utc_days fecha + 1) * day_ms;
                   desfase = hv_offset hv medianoche
               in Some (medianoche - desfase * 60 * 1000 - 1000))"

subsection \<open>Sealing and unsealing a payment\<close>

definition sellarCobro :: "havana \<Rightarrow> instant \<Rightarrow> order \<Rightarrow> order" where
  "sellarCobro hv cuando ord =
     (let o1 = (case o_paid_at ord of None \<Rightarrow> ord\<lparr>o_paid_at := Some cuando\<rparr> | Some _ \<Rightarrow> ord)
      in case o_promised_at o1 of
           None \<Rightarrow> o1\<lparr>o_promised_at := finDelPlazo hv (the (o_paid_at o1)) (o_promise_days o1)\<rparr>
         | Some _ \<Rightarrow> o1)"

definition deshacerCobro :: "order \<Rightarrow> order" where
  "deshacerCobro ord = ord\<lparr>o_paid_at := None, o_promised_at := None\<rparr>"

definition llegoATiempo :: "order \<Rightarrow> bool option" where
  "llegoATiempo ord =
     (case (o_promised_at ord, o_delivered_at ord) of
        (Some p, Some d) \<Rightarrow> Some (d \<le> p)
      | _ \<Rightarrow> None)"

subsection \<open>The identity card\<close>

definition is_digit :: "char \<Rightarrow> bool" where
  "is_digit c \<longleftrightarrow> (48 \<le> (of_char c :: nat) \<and> (of_char c :: nat) \<le> 57)"

definition digit_val :: "char \<Rightarrow> int" where
  "digit_val c = int (of_char c) - 48"

text \<open>The century digit.\<close>

definition siglo :: "int \<Rightarrow> int" where
  "siglo n = (if n \<le> 5 then 1900 else if n \<le> 8 then 2000 else 1800)"

definition two_digits :: "string \<Rightarrow> nat \<Rightarrow> int" where
  "two_digits s i = 10 * digit_val (s ! i) + digit_val (s ! (i + 1))"

text \<open>The argument is the value already trimmed; the comparison of the three components of
  \<open>Date.UTC\<close> is that the date exists.\<close>

definition isCubanIdCard :: "string \<Rightarrow> bool" where
  "isCubanIdCard ci =
     (if length ci \<noteq> 11 \<or> \<not> list_all is_digit ci then False
      else let anio = siglo (digit_val (ci ! 6)) + two_digits ci 0;
               mes = two_digits ci 2; dia = two_digits ci 4
           in if mes < 1 \<or> 12 < mes \<or> dia < 1 then False else valid_date (anio, mes, dia))"

subsection \<open>The calendar is the calendar\<close>

lemma div_pred:
  assumes "0 < (n::int)"
  shows "y div n - (y - 1) div n = (if y mod n = 0 then 1 else 0)"
proof (cases "y mod n = 0")
  case True
  have "y - 1 = n * (y div n - 1) + (n - 1)"
    using True mult_div_mod_eq [of n y] by (simp add: algebra_simps)
  then have "(y - 1) div n = y div n - 1"
    by (rule int_div_pos_eq) (use assms in simp_all)
  with True show ?thesis by simp
next
  case False
  have "0 \<le> y mod n" "y mod n < n" using assms by simp_all
  with False have r: "0 \<le> y mod n - 1" "y mod n - 1 < n" by simp_all
  have "y - 1 = n * (y div n) + (y mod n - 1)" using mult_div_mod_eq [of n y] by simp
  then have "(y - 1) div n = y div n" using r by (rule int_div_pos_eq)
  with False show ?thesis by simp
qed

lemma days_before_year_Suc:
  "days_before_year (y + 1) = days_before_year y + (if is_leap y then 366 else 365)"
proof -
  have four: "y div 4 - (y - 1) div 4 = (if y mod 4 = 0 then 1 else 0)"
    and hundred: "y div 100 - (y - 1) div 100 = (if y mod 100 = 0 then 1 else 0)"
    and fourhundred: "y div 400 - (y - 1) div 400 = (if y mod 400 = 0 then 1 else 0)"
    by (rule div_pred; simp)+
  have "(100::int) dvd 400" "(4::int) dvd 100" by simp_all
  then have "y mod 400 = 0 \<longrightarrow> y mod 100 = 0" "y mod 100 = 0 \<longrightarrow> y mod 4 = 0"
    unfolding mod_eq_0_iff_dvd by (meson dvd_trans)+
  moreover have "days_before_year (y + 1) - days_before_year y =
      365 + (y div 4 - (y - 1) div 4) - (y div 100 - (y - 1) div 100) + (y div 400 - (y - 1) div 400)"
    by (simp add: days_before_year_def)
  ultimately have "days_before_year (y + 1) - days_before_year y = (if is_leap y then 366 else 365)"
    unfolding four hundred fourhundred is_leap_def
    by (cases "y mod 4 = 0"; cases "y mod 100 = 0"; cases "y mod 400 = 0"; simp only: if_True if_False simp_thms)
  then show ?thesis by linarith
qed

lemma month_cases: "1 \<le> m \<Longrightarrow> m \<le> 12 \<Longrightarrow>
  m = 1 \<or> m = 2 \<or> m = 3 \<or> m = 4 \<or> m = 5 \<or> m = 6 \<or> m = 7 \<or> m = 8 \<or> m = 9 \<or> m = 10 \<or> m = 11 \<or> m = (12::int)"
  by presburger

lemma days_before_month_Suc:
  "1 \<le> m \<Longrightarrow> m < 12 \<Longrightarrow> days_before_month y (m + 1) = days_before_month y m + month_length y m"
  using month_cases [of m] by (auto simp: days_before_month_def month_length_def)

lemma siguienteDia_days:
  assumes "valid_date f"
  shows "utc_days (siguienteDia f) = utc_days f + 1" and "valid_date (siguienteDia f)"
proof -
  obtain y m d where f: "f = (y, m, d)" by (cases f) auto
  have ml: "1 \<le> month_length y m'" for m' by (simp add: month_length_def)
  show "valid_date (siguienteDia f)"
    using assms ml by (auto simp: f month_length_def)
  show "utc_days (siguienteDia f) = utc_days f + 1"
  proof (cases "d < month_length y m")
    case True
    then show ?thesis by (simp add: f)
  next
    case False
    with assms have d: "d = month_length y m" by (simp add: f)
    show ?thesis
    proof (cases "m < 12")
      case True
      then show ?thesis using assms days_before_month_Suc [of m y] by (simp add: f d)
    next
      case m: False
      then have "m = 12" using assms by (simp add: f)
      moreover have "days_before_month y' 1 = 0" for y' by (simp add: days_before_month_def)
      moreover have "days_before_month y 12 + month_length y 12 = (if is_leap y then 366 else 365)"
        by (simp add: days_before_month_def month_length_def)
      ultimately show ?thesis using d by (simp add: f days_before_year_Suc)
    qed
  qed
qed

lemma utc_days_epoch: "utc_days (1970, 1, 1) = 0" "utc_days (2026, 9, 19) = 20715"
  by code_simp+

lemma weekday_next: "valid_date f \<Longrightarrow> weekday (siguienteDia f) = (weekday f + 1) mod 7"
  by (simp add: weekday_def siguienteDia_days(1) mod_add_right_eq) presburger


subsection \<open>Never six days without a business day\<close>

definition festivo :: "date \<Rightarrow> bool" where
  "festivo f = (f \<in> set (feriadosCubanos (fst f)))"

lemma esHabil_festivo: "esHabil f \<longleftrightarrow> weekday f \<noteq> 0 \<and> \<not> festivo f"
  by (cases f) (simp add: festivo_def)

text \<open>Good Friday falls in March or April.\<close>

lemma viernesSanto_month: "fst (snd (viernesSanto anio)) = 3 \<or> fst (snd (viernesSanto anio)) = 4"
proof -
  define h where "h = (19 * (anio mod 19) + anio div 100 - anio div 100 div 4
     - (anio div 100 - (anio div 100 + 8) div 25 + 1) div 3 + 15) mod 30"
  define l where "l = (32 + 2 * (anio div 100 mod 4) + 2 * (anio mod 100 div 4) - h - anio mod 100 mod 4) mod 7"
  define m where "m = (anio mod 19 + 11 * h + 22 * l) div 451"
  define n where "n = h + l - 7 * m + 114"
  have P: "domingoDePascua anio = (n div 31, n mod 31 + 1)"
    unfolding domingoDePascua_def Let_def n_def m_def l_def h_def by (rule refl)
  have b: "0 \<le> h" "h < 30" "0 \<le> l" "l < 7" "0 \<le> anio mod 19" "anio mod 19 < 19"
    unfolding h_def l_def by (rule pos_mod_sign pos_mod_bound; simp)+
  define t where "t = anio mod 19 + 11 * h + 22 * l"
  have t: "0 \<le> t" "t < 902" using b by (simp_all add: t_def)
  have m: "m = (if t < 451 then 0 else 1)"
  proof (cases "t < 451")
    case False
    have "t = 451 * 1 + (t - 451)" by simp
    then have "t div 451 = 1" by (rule int_div_pos_eq) (use False t in simp_all)
    with False show ?thesis by (simp add: m_def t_def)
  qed (use t in \<open>simp add: m_def t_def\<close>)
  define a where "a = anio mod 19"
  have a: "0 \<le> a" "a < 19" and ta: "t = a + 11 * h + 22 * l" using b by (simp_all add: a_def t_def)
  have n: "114 \<le> n" "n \<le> 149" using b(1-4) a unfolding n_def m ta by (simp_all split: if_splits)
  show ?thesis
  proof (cases "n < 124")
    case True
    have eq: "n = 31 * 3 + (n - 93)" by simp
    have "n div 31 = 3" "n mod 31 = n - 93"
      by (rule int_div_pos_eq [OF eq], use True n in simp_all, rule int_mod_pos_eq [OF eq], use True n in simp_all)
    then show ?thesis using n by (simp add: viernesSanto_def P Let_def)
  next
    case False
    have eq: "n = 31 * 4 + (n - 124)" by simp
    have "n div 31 = 4" by (rule int_div_pos_eq [OF eq]) (use False n in simp_all)
    then show ?thesis by (simp add: viernesSanto_def P Let_def)
  qed
qed

lemma viernesSanto_year: "fst (viernesSanto anio) = anio"
  by (simp add: viernesSanto_def Let_def split: prod.split)

lemma festivo_cases:
  assumes "festivo (y, m, d)"
  shows "(m, d) \<in> set FERIADOS_FIJOS \<or> ((m = 3 \<or> m = 4) \<and> (y, m, d) = viernesSanto y)"
  using assms viernesSanto_month [of y]
  by (auto simp: festivo_def feriadosCubanos_def) (metis fst_conv snd_conv)+

lemma not_festivo:
  "m \<noteq> 3 \<Longrightarrow> m \<noteq> 4 \<Longrightarrow> (m, d) \<notin> set FERIADOS_FIJOS \<Longrightarrow> \<not> festivo (y, m, d)"
  using festivo_cases by blast

text \<open>Three holidays in a row start on July 25 or December 31.\<close>

lemma three_festivos:
  assumes "festivo f" "festivo (siguienteDia f)" "festivo (siguienteDia (siguienteDia f))"
  shows "snd f = (7, 25) \<or> snd f = (12, 31)"
proof -
  obtain y m d where f: "f = (y, m, d)" by (cases f) auto
  from festivo_cases [OF assms(1) [unfolded f]] show ?thesis
  proof
    assume "(m, d) \<in> set FERIADOS_FIJOS"
    then show ?thesis
      using assms(2,3) not_festivo
      by (auto simp: f FERIADOS_FIJOS_def month_length_def)
  next
    assume v: "(m = 3 \<or> m = 4) \<and> (y, m, d) = viernesSanto y"
    obtain y' m' d' where n: "siguienteDia f = (y', m', d')" by (cases "siguienteDia f") auto
    have ne: "siguienteDia f \<noteq> f" by (simp add: f)
    have same: "y' = y" using n conjunct1 [OF v] by (auto simp: f split: if_splits)
    have "(y', m', d') \<noteq> viernesSanto y'" using v ne n same f by metis
    then have fx: "(m', d') \<in> set FERIADOS_FIJOS"
      using festivo_cases [of y' m' d'] assms(2) n by auto
    moreover have "m' = 3 \<or> m' = 4 \<or> m' = 5" using n conjunct1 [OF v] by (auto simp: f split: if_splits)
    ultimately have "(m', d') = (5, 1)" by (auto simp: FERIADOS_FIJOS_def)
    then have "\<not> festivo (siguienteDia (siguienteDia f))"
      using n by (simp add: month_length_def not_festivo FERIADOS_FIJOS_def)
    then show ?thesis using assms(3) by blast
  qed
qed

lemma after_three:
  assumes "snd f = (7, 25) \<or> snd f = (12, 31)"
  shows "\<not> festivo (siguienteDia (siguienteDia (siguienteDia f))) \<and>
    \<not> festivo (siguienteDia (siguienteDia (siguienteDia (siguienteDia f))))"
proof -
  obtain y where "f = (y, 7, 25) \<or> f = (y, 12, 31)" using assms by (cases f) auto
  then show ?thesis
  proof
    assume f: "f = (y, 7, 25)"
    have "siguienteDia f = (y, 7, 26)" "siguienteDia (y, 7, 26) = (y, 7, 27)"
      "siguienteDia (y, 7, 27) = (y, 7, 28)" "siguienteDia (y, 7, 28) = (y, 7, 29)"
      by (simp_all add: f month_length_def)
    then show ?thesis by (simp only:) (simp add: not_festivo FERIADOS_FIJOS_def)
  next
    assume f: "f = (y, 12, 31)"
    have "siguienteDia f = (y + 1, 1, 1)" "siguienteDia (y + 1, 1, 1) = (y + 1, 1, 2)"
      "siguienteDia (y + 1, 1, 2) = (y + 1, 1, 3)" "siguienteDia (y + 1, 1, 3) = (y + 1, 1, 4)"
      by (simp_all add: f month_length_def)
    then show ?thesis by (simp only:) (simp add: not_festivo FERIADOS_FIJOS_def)
  qed
qed

lemma siguiente_inv:
  assumes "valid_date f" and "siguienteDia f = (y, m, Suc_d)" and "1 < Suc_d"
  shows "f = (y, m, Suc_d - 1)"
  using assms by (cases f) (auto split: if_splits)

lemma six_days:
  assumes "valid_date f"
  shows "\<exists>i \<in> {1..6}. esHabil ((siguienteDia ^^ i) f)"
proof (rule ccontr)
  define x where "x i = (siguienteDia ^^ i) f" for i
  assume "\<not> (\<exists>i \<in> {1..6}. esHabil ((siguienteDia ^^ i) f))"
  then have non: "weekday (x i) = 0 \<or> festivo (x i)" if "1 \<le> i" "i \<le> 6" for i
    using that by (auto simp: x_def esHabil_festivo)
  have valid: "valid_date (x i)" for i
    unfolding x_def by (induction i) (auto simp: assms siguienteDia_days(2))
  have nxt: "x (Suc i) = siguienteDia (x i)" for i by (simp add: x_def)
  have wd: "weekday (x (i + k)) = (weekday (x i) + int k) mod 7" for i k
  proof (induction k)
    case 0
    then show ?case by (simp add: weekday_def)
  next
    case (Suc k)
    then show ?case
      using weekday_next [OF valid [of "i + k"]] by (simp add: nxt mod_add_right_eq mod_add_left_eq ac_simps)
  qed
  have one: "weekday (x (i + k)) \<noteq> 0" if "weekday (x i) = 0" "0 < k" "k < 7" for i k
    using wd [of i k] that by simp
  have steps: "x 2 = siguienteDia (x 1)" "x 3 = siguienteDia (x 2)" "x 4 = siguienteDia (x 3)"
    "x 5 = siguienteDia (x 4)" "x 6 = siguienteDia (x 5)"
    using nxt [of 1] nxt [of 2] nxt [of 3] nxt [of 4] nxt [of 5] by (simp_all add: eval_nat_numeral)
  show False
  proof (cases "festivo (x 1) \<and> festivo (x 2) \<and> festivo (x 3)")
    case True
    then have "snd (x 1) = (7, 25) \<or> snd (x 1) = (12, 31)"
      using three_festivos [of "x 1"] by (simp add: steps)
    then have "\<not> festivo (x 4) \<and> \<not> festivo (x 5)"
      using after_three [of "x 1"] by (simp add: steps)
    then have "weekday (x 4) = 0" "weekday (x 5) = 0" using non [of 4] non [of 5] by auto
    then show False using one [of 4 1] by simp
  next
    case False
    then obtain i :: nat where "i = 1 \<or> i = 2 \<or> i = 3" and not: "\<not> festivo (x i)" by blast
    then have i: "1 \<le> i" "i \<le> 3" by auto
    then have "weekday (x i) = 0" using non [of i] not by auto
    then have nosun: "weekday (x j) \<noteq> 0" if "4 \<le> j" "j \<le> 6" for j
      using one [of i "j - i"] i that by simp
    have "festivo (x 4) \<and> festivo (x 5) \<and> festivo (x 6)"
      using non [of 4] non [of 5] non [of 6] nosun [of 4] nosun [of 5] nosun [of 6] by auto
    then have s4: "snd (x 4) = (7, 25) \<or> snd (x 4) = (12, 31)"
      using three_festivos [of "x 4"] by (simp add: steps)
    obtain y m d where x4: "x 4 = (y, m, d)" "d = 25 \<or> d = 31" "(m, d) = (7, 25) \<or> (m, d) = (12, 31)"
      using s4 by (cases "x 4") auto
    have x3: "x 3 = (y, m, d - 1)"
      using siguiente_inv [OF valid [of 3]] x4 steps(3) by auto
    have x2: "x 2 = (y, m, d - 2)"
      using siguiente_inv [OF valid [of 2]] x3 x4 steps(2) by auto
    have "\<not> festivo (x 3) \<and> \<not> festivo (x 2)"
      using x2 x3 x4 by (auto simp: not_festivo FERIADOS_FIJOS_def)
    then have "weekday (x 2) = 0" "weekday (x 3) = 0" using non [of 2] non [of 3] by auto
    then show False using one [of 2 1] by simp
  qed
qed


subsection \<open>The term counts its business days\<close>

text \<open>The days after \<open>f\<close>, up to the \<open>k\<close>-th.\<close>

definition dias_despues :: "nat \<Rightarrow> date \<Rightarrow> date list" where
  "dias_despues k f = map (\<lambda>i. (siguienteDia ^^ i) f) [1..<Suc k]"

lemma dias_despues_add:
  "dias_despues (j + k) f = dias_despues j f @ dias_despues k ((siguienteDia ^^ j) f)"
proof -
  have "[1..<Suc (j + k)] = [1..<Suc j] @ map (\<lambda>i. i + j) [1..<Suc k]"
    by (induction k) auto
  then show ?thesis by (simp add: dias_despues_def funpow_add comp_def)
qed

text \<open>The loop skips to the next business day.\<close>

lemma contar_skip:
  assumes "\<forall>i. 1 \<le> i \<and> i \<le> j \<longrightarrow> \<not> esHabil ((siguienteDia ^^ i) f)" and "esHabil ((siguienteDia ^^ Suc j) f)"
    and "Suc j \<le> v" and "0 < n"
  shows "contar_habiles v n f = contar_habiles (v - Suc j) (n - 1) ((siguienteDia ^^ Suc j) f)"
  using assms
proof (induction j arbitrary: f v)
  case 0
  then show ?case by (cases v) auto
next
  case (Suc j)
  from Suc.prems(3) obtain v' where v: "v = Suc v'" "Suc j \<le> v'" by (cases v) auto
  have "\<not> esHabil (siguienteDia f)" using Suc.prems(1) [rule_format, of 1] by simp
  then have stp: "contar_habiles v n f = contar_habiles v' n (siguienteDia f)"
    using Suc.prems(4) by (simp add: v(1) Let_def)
  have sh: "(siguienteDia ^^ i) (siguienteDia f) = (siguienteDia ^^ Suc i) f" for i
    by (simp add: funpow_swap1)
  have "contar_habiles v' n (siguienteDia f) =
      contar_habiles (v' - Suc j) (n - 1) ((siguienteDia ^^ Suc j) (siguienteDia f))"
    using Suc.prems by (intro Suc.IH v(2)) (auto simp: sh simp del: funpow.simps)
  moreover have "v - Suc (Suc j) = v' - Suc j" by (simp add: v(1))
  ultimately show ?case by (simp only: stp sh)
qed

lemma valid_funpow: "valid_date f \<Longrightarrow> valid_date ((siguienteDia ^^ i) f)"
  by (induction i) (auto simp: siguienteDia_days(2))

lemma contar_counts:
  assumes "valid_date f" and "6 * n \<le> v" and "0 < n"
  shows "\<exists>k. 0 < k \<and> k \<le> 6 * n \<and> contar_habiles v (int n) f = (siguienteDia ^^ k) f \<and>
    esHabil ((siguienteDia ^^ k) f) \<and> length (filter esHabil (dias_despues k f)) = n"
  using assms
proof (induction n arbitrary: f v)
  case 0
  then show ?case by simp
next
  case (Suc n)
  let ?hab = "\<lambda>i. 1 \<le> i \<and> esHabil ((siguienteDia ^^ i) f)"
  have ex: "\<exists>i. ?hab i \<and> i \<le> 6" using six_days [OF Suc.prems(1)] by auto
  define i where "i = (LEAST i. ?hab i)"
  have i: "?hab i" unfolding i_def using ex by (metis (mono_tags, lifting) LeastI)
  have i6: "i \<le> 6" using ex unfolding i_def by (metis (mono_tags, lifting) Least_le order_trans)
  have before: "\<not> ?hab j" if "j < i" for j using that unfolding i_def by (rule not_less_Least)
  from i obtain j where j: "i = Suc j" by (cases i) auto
  let ?f = "(siguienteDia ^^ i) f"
  have skip: "contar_habiles v (int (Suc n)) f = contar_habiles (v - i) (int n) ?f"
    using contar_skip [of j f v "int (Suc n)"] before i i6 Suc.prems(2) by (simp add: j del: funpow.simps)
  have here: "filter esHabil (dias_despues i f) = [?f]"
  proof -
    have "filter esHabil (dias_despues j f) = []"
      using before by (auto simp: dias_despues_def filter_empty_conv j)
    moreover have "dias_despues i f = dias_despues j f @ [?f]"
      by (simp add: dias_despues_def j)
    ultimately show ?thesis using i by simp
  qed
  show ?case
  proof (cases "n = 0")
    case True
    have "contar_habiles (v - i) 0 ?f = ?f" by (cases "v - i") simp_all
    then show ?thesis using skip i i6 here True by (intro exI [of _ i]) simp
  next
    case False
    have "6 * n \<le> v - i" using Suc.prems(2) i6 by simp
    from Suc.IH [OF valid_funpow [OF Suc.prems(1)] this] False
    obtain k where k: "0 < k" "k \<le> 6 * n" "contar_habiles (v - i) (int n) ?f = (siguienteDia ^^ k) ?f"
      "esHabil ((siguienteDia ^^ k) ?f)" "length (filter esHabil (dias_despues k ?f)) = n" by auto
    have sh: "(siguienteDia ^^ (i + k)) f = (siguienteDia ^^ k) ?f"
      by (simp add: add.commute [of i] funpow_add)
    show ?thesis
      using k skip here i6 by (intro exI [of _ "i + k"]) (simp add: sh dias_despues_add)
  qed
qed

text \<open>C29: A promise of up to 60 business days (the most an option may promise) ends exactly at the
  last second of the day that is the promised number of business days after the day of
  payment, counting neither Sundays nor Cuban holidays nor the day of payment itself; the
  safety cap of 400 turns never cuts it short, for any year.\<close>

theorem finDelPlazo_counts_business_days:
  assumes "valid_date (hv_date hv desde)" and "1 \<le> n" and "n \<le> 60"
  shows "\<exists>k. let f = (siguienteDia ^^ k) (hv_date hv desde); fin = (utc_days f + 1) * day_ms in
    0 < k \<and> esHabil f \<and> int (length (filter esHabil (dias_despues k (hv_date hv desde)))) = n \<and>
    finDelPlazo hv desde (Some n) = Some (fin - hv_offset hv fin * 60000 - 1000)"
proof -
  have n: "int (nat n) = n" "0 < nat n" "6 * nat n \<le> 400" using assms(2,3) by simp_all
  from contar_counts [OF assms(1) n(3,2)] obtain k where
    "0 < k" "contar_habiles 400 n (hv_date hv desde) = (siguienteDia ^^ k) (hv_date hv desde)"
    "esHabil ((siguienteDia ^^ k) (hv_date hv desde))"
    "length (filter esHabil (dias_despues k (hv_date hv desde))) = nat n"
    unfolding n(1) by blast
  then show ?thesis
    using assms(2) by (intro exI [of _ k]) (simp add: finDelPlazo_def Let_def)
qed

text \<open>Havana without daylight saving time, for the examples.\<close>

definition civil_2026 :: "int \<Rightarrow> date" where
  "civil_2026 n = (siguienteDia ^^ nat (n - utc_days (2026, 1, 1))) (2026, 1, 1)"

definition sample_havana :: havana where
  "sample_havana = \<lparr>hv_date = (\<lambda>t. civil_2026 ((t - 300 * 60000) div day_ms)), hv_offset = (\<lambda>t. - 300)\<rparr>"

text \<open>Paid on Saturday 2026-07-18 with seven days of term: Sundays and the three July
  holidays (25, 26, 27) are skipped where they fall.\<close>

theorem finDelPlazo_counts_business_days_witness:
  "\<exists>k. 0 < k \<and> esHabil ((siguienteDia ^^ k) (2026, 7, 18)) \<and>
     length (filter esHabil (dias_despues k (2026, 7, 18))) = 7"
proof -
  let ?t = "(utc_days (2026, 7, 18)) * day_ms + 17 * 3600000"
  have d: "hv_date sample_havana ?t = (2026, 7, 18)" by code_simp
  have v: "valid_date (hv_date sample_havana ?t)" unfolding d by code_simp
  from finDelPlazo_counts_business_days [OF v, of 7] show ?thesis
    unfolding d by (auto simp: Let_def)
qed

subsection \<open>Sealing\<close>

lemma sellarCobro_frame [simp]:
  "o_id (sellarCobro hv t ord) = o_id ord" "o_status (sellarCobro hv t ord) = o_status ord"
  "o_payment (sellarCobro hv t ord) = o_payment ord" "o_total (sellarCobro hv t ord) = o_total ord"
  "o_subtotal (sellarCobro hv t ord) = o_subtotal ord"
  "o_delivery_fee (sellarCobro hv t ord) = o_delivery_fee ord"
  "o_deleted (sellarCobro hv t ord) = o_deleted ord" "o_client (sellarCobro hv t ord) = o_client ord"
  by (simp_all add: sellarCobro_def Let_def split: option.split)

lemma deshacerCobro_frame [simp]:
  "o_id (deshacerCobro ord) = o_id ord" "o_status (deshacerCobro ord) = o_status ord"
  "o_payment (deshacerCobro ord) = o_payment ord" "o_total (deshacerCobro ord) = o_total ord"
  "o_subtotal (deshacerCobro ord) = o_subtotal ord"
  "o_delivery_fee (deshacerCobro ord) = o_delivery_fee ord"
  "o_deleted (deshacerCobro ord) = o_deleted ord" "o_client (deshacerCobro ord) = o_client ord"
  by (simp_all add: deshacerCobro_def)

text \<open>A seal stays: the payment date is never rewritten, and sealing again changes nothing once
  there is a promise.\<close>

lemma sellarCobro_paid: "o_paid_at (sellarCobro hv t ord) =
    (case o_paid_at ord of None \<Rightarrow> Some t | Some p \<Rightarrow> Some p)"
  by (simp add: sellarCobro_def Let_def split: option.split)

end
