(* ===== verification/Catalog.thy ===== *)
theory Catalog
  imports Stock_Contract Business_Days Permissions_Laws
begin

section \<open>The database, the catalogue as a shop window, and the cart\<close>

text \<open>
  \<open>db\<close> is the database the services share, one field per table. The catalogue is the part
  of \<open>src/products/products.service.ts\<close> that says where a product is covered and how much of
  it can be sold there; the cart is \<open>src/cart/cart.service.ts\<close>, the response that prices it
  (\<open>cart/dto/cart-response.dto.ts\<close>) and the two functions that hand an order's lines back and
  forth (\<open>cart/devolver-al-carrito.ts\<close>).
\<close>

record delivery_option =
  do_id :: id
  do_label :: string
  do_description :: "string option"
  do_fee :: cents
  do_promise :: "int option"
  do_threshold :: "int option"
  do_sort :: int
  do_enabled :: bool
  do_deleted :: bool

record delivery_zone =
  dz_option :: id
  dz_province :: id
  dz_municipality :: "id option"

text \<open>The settings document as stored: a field never sent is absent from the \<open>jsonb\<close>.\<close>

record settings_row =
  st_pickup :: "bool option"
  st_message :: "string option"
  st_promise :: "int option option"

record db =
  d_stock :: stock
  d_orders :: "order list"
  d_items :: "order_item list"
  d_events :: "order_event list"
  d_cart :: "cart_item list"
  d_charges :: "charge list"
  d_refunds :: "refund list"
  d_clients :: "client list"
  d_products :: "product list"
  d_categories :: "category list"
  d_storage :: storage
  d_geo :: geography
  d_access :: access
  d_addresses :: "client_address list"
  d_methods :: "payment_method list"
  d_options :: "delivery_option list"
  d_zones :: "delivery_zone list"
  d_settings :: "settings_row option"
  d_next :: nat
  d_seq :: nat

subsection \<open>Where a place is served from and what can be sold there\<close>

text \<open>The area of a request: a storage, a province, a municipality, each optional.\<close>

record area =
  ar_location :: "id option"
  ar_province :: "id option"
  ar_municipality :: "id option"

definition anywhere :: area where
  "anywhere = \<lparr>ar_location = None, ar_province = None, ar_municipality = None\<rparr>"

definition at_municipality :: "id option \<Rightarrow> area" where
  "at_municipality m = \<lparr>ar_location = None, ar_province = None, ar_municipality = m\<rparr>"

definition active_ids :: "storage \<Rightarrow> id list" where
  "active_ids s = active_location_ids (l_locations s) None"

definition covered_by :: "geography \<Rightarrow> id \<Rightarrow> coverage \<Rightarrow> bool" where
  "covered_by g mid c \<longleftrightarrow> cov_municipality c = Some mid \<or>
     (cov_type c = CoverProvince \<and>
      (case List.find (\<lambda>m. mun_id m = mid) (g_municipalities g) of
         None \<Rightarrow> False | Some m \<Rightarrow> cov_province c = mun_province m))"

definition coveringLocationIds :: "storage \<Rightarrow> geography \<Rightarrow> id option \<Rightarrow> id option \<Rightarrow> id list" where
  "coveringLocationIds s g province mid =
     (let joined = filter (\<lambda>c. cov_location c \<in> set (active_ids s)) (l_coverage s) in
      js_set (map cov_location (case mid of
          Some m \<Rightarrow> filter (covered_by g m) joined
        | None \<Rightarrow> filter (\<lambda>c. cov_type c = CoverProvince \<and> province = Some (cov_province c)) joined)))"

text \<open>\<open>stockMap\<close> looked up at a product (absent keys read as 0): a null scope is every active storage.\<close>

definition stockMap :: "storage \<Rightarrow> stock \<Rightarrow> id list option \<Rightarrow> id \<Rightarrow> int" where
  "stockMap s st scope p = sum_where (\<lambda>r. inv_product r = p \<and> inv_location r \<in> set (active_ids s)
       \<and> (case scope of None \<Rightarrow> True | Some ids \<Rightarrow> inv_location r \<in> set ids))
     (\<lambda>r. inv_quantity r - inv_reserved r) (s_rows st)"

definition availableForArea :: "storage \<Rightarrow> geography \<Rightarrow> stock \<Rightarrow> area \<Rightarrow> id \<Rightarrow> int" where
  "availableForArea s g st ar p =
     (let scope = (case ar_location ar of
            Some l \<Rightarrow> Some [l]
          | None \<Rightarrow> (if ar_municipality ar \<noteq> None \<or> ar_province ar \<noteq> None
                     then Some (coveringLocationIds s g (ar_province ar) (ar_municipality ar)) else None))
      in stockMap s st scope p)"

text \<open>The listing of the shop: active products that match the catalogue filters, with their stock, out-of-stock ones dropped.\<close>

definition findStorefront :: "db \<Rightarrow> (product \<Rightarrow> bool) \<Rightarrow> area \<Rightarrow> bool \<Rightarrow> (product \<times> int) list" where
  "findStorefront d matches ar include_empty =
     (let rows = map (\<lambda>p. (p, availableForArea (d_storage d) (d_geo d) (d_stock d) ar (p_id p)))
                   (filter (\<lambda>p. p_active p \<and> \<not> p_deleted p \<and> matches p) (d_products d))
      in if include_empty then rows else filter (\<lambda>(p, n). 0 < n) rows)"

definition find_product :: "db \<Rightarrow> id \<Rightarrow> error + product" where
  "find_product d pid = from_option (NotFound ''Product not found'')
     (List.find (\<lambda>p. p_id p = pid \<and> \<not> p_deleted p) (d_products d))"

text \<open>The price after the day's discount, a whole number of cents.\<close>

definition finalPrice :: "cents \<Rightarrow> cents \<Rightarrow> num64" where
  "finalPrice base discount =
     js_div (of_int (math_round (js_mul (js_mul (dec_num base) (js_sub 1 (js_div (dec_num discount) 100))) 100))) 100"

subsection \<open>The cart\<close>

record cart_line =
  cln_product :: id
  cln_name :: string
  cln_quantity :: int
  cln_base_price :: num64
  cln_discount :: num64
  cln_unit_price :: num64
  cln_line_total :: num64
  cln_available :: int
  cln_is_available :: bool

text \<open>\<open>Math.round(unitPrice * quantity * 100)\<close>: a line in cents.\<close>

definition line_cents :: "num64 \<Rightarrow> int \<Rightarrow> int" where
  "line_cents unit q = math_round (js_mul (js_mul unit (of_int q)) 100)"

definition cart_line_of :: "product \<Rightarrow> int \<Rightarrow> int \<Rightarrow> cart_line" where
  "cart_line_of p q avail =
     (let unit = finalPrice (p_base_price p) (p_discount p) in
      \<lparr>cln_product = p_id p, cln_name = p_name p, cln_quantity = q,
       cln_base_price = dec_num (p_base_price p), cln_discount = dec_num (p_discount p),
       cln_unit_price = unit, cln_line_total = js_div (of_int (line_cents unit q)) 100,
       cln_available = avail,
       cln_is_available = (p_active p \<and> \<not> p_deleted p \<and> q \<le> avail)\<rparr>)"

text \<open>Rows whose product row is gone are dropped; soft-deleted products are kept.\<close>

definition getCart :: "db \<Rightarrow> id \<Rightarrow> area \<Rightarrow> cart_line list" where
  "getCart d cid ar =
     List.map_filter (\<lambda>ci. case List.find (\<lambda>p. p_id p = ci_product ci) (d_products d) of
         None \<Rightarrow> None
       | Some p \<Rightarrow> Some (cart_line_of p (ci_quantity ci)
             (availableForArea (d_storage d) (d_geo d) (d_stock d) ar (p_id p))))
       (filter (\<lambda>ci. ci_client ci = cid) (d_cart d))"

definition cart_total_items :: "cart_line list \<Rightarrow> int" where
  "cart_total_items ls = sum_list (map cln_quantity ls)"

definition cart_subtotal :: "cart_line list \<Rightarrow> num64" where
  "cart_subtotal ls =
     js_div (of_int (math_round (js_mul (foldl (\<lambda>s l. js_add s (cln_line_total l)) 0 ls) 100))) 100"

definition cart_find :: "id \<Rightarrow> id \<Rightarrow> cart_item list \<Rightarrow> cart_item option" where
  "cart_find cid p cart = List.find (\<lambda>ci. ci_client ci = cid \<and> ci_product ci = p) cart"

definition cart_key :: "cart_item \<Rightarrow> id \<times> id" where
  "cart_key ci = (ci_client ci, ci_product ci)"

definition save_cart :: "cart_item \<Rightarrow> cart_item list \<Rightarrow> cart_item list" where
  "save_cart ci cart =
     (if cart_key ci \<in> cart_key ` set cart then save_by cart_key ci cart else cart @ [ci])"

definition assertActiveProduct :: "db \<Rightarrow> id \<Rightarrow> error + unit" where
  "assertActiveProduct d p =
     bindE (find_product d p) (\<lambda>prod. guardE (p_active prod) (NotFound ''Product not found''))"

definition assertStock :: "db \<Rightarrow> area \<Rightarrow> id \<Rightarrow> int \<Rightarrow> error + unit" where
  "assertStock d ar p requested =
     (let avail = availableForArea (d_storage d) (d_geo d) (d_stock d) ar p
      in guardE (\<not> avail < requested) (StockConflict avail))"

definition addItem :: "id \<Rightarrow> id \<Rightarrow> int \<Rightarrow> area \<Rightarrow> db \<Rightarrow> error + db" where
  "addItem cid p q ar d =
     bindE (assertActiveProduct d p) (\<lambda>_.
     let new_q = (case cart_find cid p (d_cart d) of None \<Rightarrow> 0 | Some ci \<Rightarrow> ci_quantity ci) + q in
     bindE (assertStock d ar p new_q) (\<lambda>_.
     Inr (d\<lparr>d_cart := save_cart \<lparr>ci_client = cid, ci_product = p, ci_quantity = new_q\<rparr> (d_cart d)\<rparr>)))"

definition findItemOrThrow :: "db \<Rightarrow> id \<Rightarrow> id \<Rightarrow> error + cart_item" where
  "findItemOrThrow d cid p =
     from_option (NotFound ''Product is not in the cart'') (cart_find cid p (d_cart d))"

definition updateItem :: "id \<Rightarrow> id \<Rightarrow> int \<Rightarrow> area \<Rightarrow> db \<Rightarrow> error + db" where
  "updateItem cid p q ar d =
     bindE (findItemOrThrow d cid p) (\<lambda>item.
     bindE (assertActiveProduct d p) (\<lambda>_.
     bindE (assertStock d ar p q) (\<lambda>_.
     Inr (d\<lparr>d_cart := save_cart (item\<lparr>ci_quantity := q\<rparr>) (d_cart d)\<rparr>))))"

definition removeItem :: "id \<Rightarrow> id \<Rightarrow> db \<Rightarrow> error + db" where
  "removeItem cid p d =
     bindE (findItemOrThrow d cid p) (\<lambda>item.
     Inr (d\<lparr>d_cart := filter (\<lambda>ci. cart_key ci \<noteq> cart_key item) (d_cart d)\<rparr>))"

definition clearCart :: "id \<Rightarrow> cart_item list \<Rightarrow> cart_item list" where
  "clearCart cid cart = filter (\<lambda>ci. ci_client ci \<noteq> cid) cart"

subsection \<open>Lines handed back to the cart, and taken out of it\<close>

definition a_devolver :: "(id \<times> int) list \<Rightarrow> (id \<times> int) list" where
  "a_devolver utiles = fold (\<lambda>(p, q) m.
     jm_set p (max (case jm_get p m of None \<Rightarrow> 0 | Some v \<Rightarrow> v) q) m) utiles []"

text \<open>The existing row is read from the rows loaded before any was written.\<close>

definition devolver_una :: "id \<Rightarrow> cart_item list \<Rightarrow> id \<times> int \<Rightarrow> cart_item list \<Rightarrow> cart_item list" where
  "devolver_una cid existentes pq cart =
     (case cart_find cid (fst pq) existentes of
        None \<Rightarrow> cart @ [\<lparr>ci_client = cid, ci_product = fst pq, ci_quantity = snd pq\<rparr>]
      | Some ci \<Rightarrow> (if ci_quantity ci < snd pq
                    then save_by cart_key (ci\<lparr>ci_quantity := snd pq\<rparr>) cart else cart))"

definition devolverAlCarrito :: "id \<Rightarrow> (id \<times> int) list \<Rightarrow> cart_item list \<Rightarrow> cart_item list" where
  "devolverAlCarrito cid lineas cart =
     (let utiles = filter (\<lambda>(p, q). 0 < q) lineas in
      if utiles = [] then cart
      else fold (devolver_una cid cart) (a_devolver utiles) cart)"

text \<open>The loaded rows are mutated as the lines are read; those that run out are removed at the end.\<close>

definition quitar_una :: "id \<Rightarrow> id \<times> int \<Rightarrow> cart_item list \<times> id list \<Rightarrow> cart_item list \<times> id list" where
  "quitar_una cid pq = (\<lambda>(cart, borrar).
     (case cart_find cid (fst pq) cart of
        None \<Rightarrow> (cart, borrar)
      | Some ci \<Rightarrow>
          (let resto = ci_quantity ci - snd pq in
           if 0 < resto then (save_by cart_key (ci\<lparr>ci_quantity := resto\<rparr>) cart, borrar)
           else (cart, fst pq # borrar))))"

definition quitarDelCarrito :: "id \<Rightarrow> (id \<times> int) list \<Rightarrow> cart_item list \<Rightarrow> cart_item list" where
  "quitarDelCarrito cid lineas cart =
     (let utiles = filter (\<lambda>(p, q). 0 < q) lineas in
      if utiles = [] then cart
      else let (cart', borrar) = fold (quitar_una cid) utiles (cart, [])
           in filter (\<lambda>ci. \<not> (ci_client ci = cid \<and> ci_product ci \<in> set borrar)) cart')"


subsection \<open>What the window shows can be held\<close>

lemma stockMap_free:
  assumes "\<And>l. l \<in> set (active_location_ids locs allowed) \<longleftrightarrow>
    l \<in> set (active_location_ids locs None) \<and> (case allowed of None \<Rightarrow> True | Some ids \<Rightarrow> l \<in> set ids)"
    and "l_locations s = locs"
  shows "stockMap s st allowed p = free_units locs allowed p st"
  unfolding stockMap_def free_units_def active_ids_def available_def assms(1,2)
  by (rule sum_where_cong) auto

lemma active_location_ids_allowed:
  "l \<in> set (active_location_ids locs allowed) \<longleftrightarrow>
    l \<in> set (active_location_ids locs None) \<and> (case allowed of None \<Rightarrow> True | Some ids \<Rightarrow> l \<in> set ids)"
  by (auto simp: active_location_ids_def split: option.splits)

lemma stockMap_free_units: "stockMap s st allowed p = free_units (l_locations s) allowed p st"
  by (rule stockMap_free [OF active_location_ids_allowed refl])

lemma free_units_mono:
  assumes "books st" and "set ids \<subseteq> set ids'"
  shows "free_units locs (Some ids) p st \<le> free_units locs (Some ids') p st"
proof -
  have nn: "0 \<le> available r" if "r \<in> set (s_rows st)" for r
    using books_row_bounds [OF assms(1) that] by (simp add: available_def)
  have mono: "sum_where P available rs \<le> sum_where Q available rs"
    if "\<And>r. r \<in> set rs \<Longrightarrow> P r \<Longrightarrow> Q r" "\<And>r. r \<in> set rs \<Longrightarrow> 0 \<le> available r" for P Q rs
    using that
  proof (induction rs)
    case (Cons r rs)
    have "sum_where P available rs \<le> sum_where Q available rs" using Cons by auto
    moreover have "P r \<longrightarrow> Q r" "0 \<le> available r" using Cons.prems by auto
    ultimately show ?case by auto
  qed simp
  show ?thesis
    unfolding free_units_def
    by (rule mono) (use nn assms(2) in \<open>auto simp: active_location_ids_def\<close>)
qed

text \<open>Holding one product leaves the free units of the others alone.\<close>

lemma reserve_loop_other_rows:
  assumes "q \<noteq> p" and "\<forall>r \<in> set rows. inv_product r = p"
  shows "filter (\<lambda>r. inv_product r = q) (s_rows (reserve_loop oid p now rows n st)) =
    filter (\<lambda>r. inv_product r = q) (s_rows st)"
  using assms(2)
proof (induction rows arbitrary: n st)
  case Nil
  then show ?case by simp
next
  case (Cons row rows)
  have f: "filter (\<lambda>r. inv_product r = q) (save_by inv_key r rs) = filter (\<lambda>r. inv_product r = q) rs"
    if "inv_product r = p" for r rs
    using that assms(1) by (induction rs) (auto simp: save_by_Cons inv_key_def)
  show ?case using Cons by (simp add: Let_def save_row_def f)
qed

lemma free_units_filter:
  "free_units locs allowed q st =
    sum_where (\<lambda>r. inv_location r \<in> set (active_location_ids locs allowed)) available
      (filter (\<lambda>r. inv_product r = q) (s_rows st))"
  by (simp add: free_units_def sum_simps)

lemma reserve_other_free:
  assumes "reserve locs allowed preferred now oid p n st = Inr st'" and "q \<noteq> p"
  shows "free_units locs' allowed' q st' = free_units locs' allowed' q st"
proof -
  have "\<forall>r \<in> set (reserve_rows locs p allowed preferred st). inv_product r = p"
    by (auto simp: reserve_rows_def Let_def)
  then show ?thesis
    using assms reserve_loop_other_rows [OF assms(2)]
    by (auto simp: free_units_filter reserve_succeeds)
qed

lemma reserve_all_lines:
  assumes "books st" and "distinct (map fst lines)"
    and "\<forall>(p, n) \<in> set lines. n \<le> free_units locs allowed p st"
  shows "\<exists>st'. foldE (\<lambda>(p, n). reserve_in (locs, allowed, preferred, now) oid p n) lines st = Inr st'"
  using assms
proof (induction lines arbitrary: st)
  case Nil
  then show ?case by simp
next
  case (Cons a lines)
  obtain p n where a: "a = (p, n)" by force
  have "n \<le> free_units locs allowed p st" using Cons.prems(3) by (simp add: a)
  then obtain st1 where st1: "reserve locs allowed preferred now oid p n st = Inr st1"
    by (auto simp: reserve_def Let_def free_units_rows)
  have "\<forall>(q, m) \<in> set lines. m \<le> free_units locs allowed q st1"
    using Cons.prems(2,3) reserve_other_free [OF st1] by (force simp: a)
  with Cons.IH [of st1] Cons.prems(2) reserve_effect(1) [OF Cons.prems(1) st1] st1 show ?case
    by (auto simp: a)
qed

subsection \<open>A small shop\<close>

definition sample_geo :: geography where
  "sample_geo = \<lparr>g_provinces = [(1, ''La Habana'')], g_municipalities = [
     \<lparr>mun_id = 11, mun_province = 1, mun_name = ''Plaza''\<rparr>, \<lparr>mun_id = 12, mun_province = 1, mun_name = ''Cerro''\<rparr>]\<rparr>"

definition sample_db :: db where
  "sample_db = \<lparr>
     d_stock = sample_stock, d_orders = [], d_items = [], d_events = [],
     d_cart = [\<lparr>ci_client = 3, ci_product = 7, ci_quantity = 2\<rparr>, \<lparr>ci_client = 4, ci_product = 7, ci_quantity = 1\<rparr>],
     d_charges = [], d_refunds = [],
     d_clients = [\<lparr>cl_id = 3, cl_active = True, cl_default_municipality = Some 11\<rparr>],
     d_products = [sample_product],
     d_categories = [\<lparr>cat_id = 91, cat_parent = None, cat_name = ''Alimentos'', cat_slug = ''alimentos'', cat_description = None,
         cat_img_desktop = None, cat_img_mobile = None, cat_featured = False, cat_sort = 0, cat_active = True,
         cat_created = 0, cat_deleted = False\<rparr>,
       \<lparr>cat_id = 92, cat_parent = Some 91, cat_name = ''Granos'', cat_slug = ''granos'', cat_description = None,
         cat_img_desktop = None, cat_img_mobile = None, cat_featured = False, cat_sort = 0, cat_active = True,
         cat_created = 0, cat_deleted = False\<rparr>],
     d_storage = sample_storage\<lparr>l_coverage := [\<lparr>cov_location = 1, cov_type = CoverMunicipality,
       cov_province = 1, cov_municipality = Some 11\<rparr>, \<lparr>cov_location = 2, cov_type = CoverProvince,
       cov_province = 1, cov_municipality = None\<rparr>],
       l_pickups := [\<lparr>pa_id = 31, pa_location = 1, pa_label = None, pa_address = ''Calle 23'', pa_hours = None\<rparr>]\<rparr>,
     d_geo = sample_geo, d_access = sample_access,
     d_addresses = [],
     d_methods = [\<lparr>mt_id = 61, mt_code = ''manual'', mt_label = ''Pago manual'', mt_sort = 90, mt_enabled = True,
       mt_custom = False, mt_instructions = None, mt_deleted = False\<rparr>],
     d_options = [\<lparr>do_id = 41, do_label = ''Mensajeria'', do_description = None, do_fee = 500,
       do_promise = Some 2, do_threshold = Some 2001, do_sort = 0, do_enabled = True, do_deleted = False\<rparr>],
     d_zones = [\<lparr>dz_option = 41, dz_province = 1, dz_municipality = Some 12\<rparr>],
     d_settings = None, d_next = 200, d_seq = 1\<rparr>"

end
