(* ===== verification/Cart_Laws.thy ===== *)
theory Cart_Laws
  imports Catalog
begin

section \<open>The cart: what it may hold, what it costs, what comes back\<close>

text \<open>
  A line never asks for more than can be sold; the subtotal is the exact sum of the lines in
  cents although it is added in binary floating point; lines handed back keep the larger
  quantity, and taking them out again subtracts them.
\<close>

subsection \<open>Lines by client and product\<close>

definition cart_qty :: "id \<Rightarrow> id \<Rightarrow> cart_item list \<Rightarrow> int" where
  "cart_qty cid p cart = (case cart_find cid p cart of None \<Rightarrow> 0 | Some ci \<Rightarrow> ci_quantity ci)"

definition cart_ok :: "cart_item list \<Rightarrow> bool" where
  "cart_ok cart \<longleftrightarrow> distinct (map cart_key cart) \<and> (\<forall>ci \<in> set cart. 0 < ci_quantity ci)"

lemma cart_find_key: "cart_find cid p cart = List.find (\<lambda>ci. cart_key ci = (cid, p)) cart"
  by (simp add: cart_find_def cart_key_def)

lemma cart_find_Some: "cart_find cid p cart = Some ci \<Longrightarrow> ci \<in> set cart \<and> cart_key ci = (cid, p)"
  by (auto simp: cart_find_key dest: find_key_Some)

lemma cart_find_None: "cart_find cid p cart = None \<longleftrightarrow> (cid, p) \<notin> cart_key ` set cart"
  by (simp add: cart_find_key find_key_None)

lemma cart_find_save_by:
  "cart_find cid p (save_by cart_key ci cart) =
     (if (cid, p) = cart_key ci
      then (case cart_find cid p cart of None \<Rightarrow> None | Some _ \<Rightarrow> Some ci)
      else cart_find cid p cart)"
  by (simp add: cart_find_key find_save_by)

lemma cart_find_append:
  "cart_find cid p (cart @ [ci]) =
     (case cart_find cid p cart of None \<Rightarrow> (if cart_key ci = (cid, p) then Some ci else None) | x \<Rightarrow> x)"
  by (simp add: cart_find_key find_append split: option.split)

lemma cart_find_save:
  "cart_find cid p (save_cart ci cart) = (if (cid, p) = cart_key ci then Some ci else cart_find cid p cart)"
proof (cases "cart_key ci \<in> cart_key ` set cart")
  case True
  then show ?thesis
    using cart_find_None [of cid p cart]
    by (auto simp: save_cart_def cart_find_save_by split: option.split)
next
  case False
  then show ?thesis
    using cart_find_None [of cid p cart]
    by (auto simp: save_cart_def cart_find_append split: option.split)
qed

lemma cart_ok_save:
  assumes "cart_ok cart" and "0 < ci_quantity ci"
  shows "cart_ok (save_cart ci cart)"
  using assms by (auto simp: cart_ok_def save_cart_def save_by_keys set_save_by)

definition line_holds :: "id \<Rightarrow> id \<Rightarrow> area \<Rightarrow> int \<Rightarrow> db \<Rightarrow> db \<Rightarrow> bool" where
  "line_holds cid p ar n d d' \<longleftrightarrow> cart_qty cid p (d_cart d') = n \<and>
     n \<le> availableForArea (d_storage d) (d_geo d) (d_stock d) ar p \<and>
     (\<exists>prod \<in> set (d_products d). p_id prod = p \<and> p_active prod \<and> \<not> p_deleted prod) \<and>
     (\<forall>cid' p'. (cid', p') \<noteq> (cid, p) \<longrightarrow> cart_qty cid' p' (d_cart d') = cart_qty cid' p' (d_cart d))"

text \<open>C28: Adding to the cart leaves the line with what it had and what was added; setting a line, which has to be there, leaves it
  with exactly the quantity asked. Both only for an active product and within what can be sold in the area of the
  request, and both touch no other line of anyone.\<close>

theorem cart_line_within_stock:
  shows "(addItem cid p q ar d = Inr d' \<longrightarrow> line_holds cid p ar (cart_qty cid p (d_cart d) + q) d d') \<and>
    (updateItem cid p q ar d = Inr d' \<longrightarrow> cart_find cid p (d_cart d) \<noteq> None \<and> line_holds cid p ar q d d')"
proof (intro conjI impI)
  have act: "\<exists>prod \<in> set (d_products d). p_id prod = p \<and> p_active prod \<and> \<not> p_deleted prod"
    if "assertActiveProduct d p = Inr u" for u
    using that by (auto simp: assertActiveProduct_def bindE_eq_Inr find_product_def find_Some_iff)
  show "line_holds cid p ar (cart_qty cid p (d_cart d) + q) d d'" if "addItem cid p q ar d = Inr d'"
    using that act by (auto simp: addItem_def bindE_eq_Inr Let_def assertStock_def cart_qty_def line_holds_def
        cart_find_save cart_key_def split: option.splits)
  assume u: "updateItem cid p q ar d = Inr d'"
  then obtain item where item: "cart_find cid p (d_cart d) = Some item"
    by (auto simp: updateItem_def bindE_eq_Inr findItemOrThrow_def)
  then have "cart_key item = (cid, p)" by (simp add: cart_find_Some)
  with u item show "line_holds cid p ar q d d'"
    using act by (auto simp: updateItem_def bindE_eq_Inr findItemOrThrow_def assertStock_def Let_def
        cart_qty_def cart_find_save cart_key_def line_holds_def)
  show "cart_find cid p (d_cart d) \<noteq> None" using item by simp
qed

subsection \<open>Handing lines back\<close>

text \<open>The largest positive quantity among the lines of a product.\<close>

definition mayor :: "id \<Rightarrow> (id \<times> int) list \<Rightarrow> int" where
  "mayor p lineas = foldr (\<lambda>(q, n) m. if q = p then max n m else m) lineas 0"

definition jm_val :: "'k \<Rightarrow> ('k \<times> int) list \<Rightarrow> int" where
  "jm_val k m = (case jm_get k m of None \<Rightarrow> 0 | Some v \<Rightarrow> v)"

lemma jm_val_Cons: "jm_val p ((q, n) # m) = (if p = q then n else jm_val p m)"
  by (simp add: jm_val_def)

lemma mayor_simps [simp]:
  "mayor p [] = 0" "mayor p ((q, n) # ls) = (if q = p then max n (mayor p ls) else mayor p ls)"
  by (simp_all add: mayor_def)

lemma mayor_nonneg: "0 \<le> mayor p ls"
  by (induction ls) (auto simp: max_def)

lemma mayor_filter: "mayor p (filter (\<lambda>(p, q). 0 < q) ls) = mayor p ls"
proof (induction ls)
  case (Cons a ls)
  then show ?case using mayor_nonneg [of p ls] by (cases a) (auto simp: max_def)
qed simp

definition devolver_step :: "id \<times> int \<Rightarrow> (id \<times> int) list \<Rightarrow> (id \<times> int) list" where
  "devolver_step = (\<lambda>(p, q) m. jm_set p (max (case jm_get p m of None \<Rightarrow> 0 | Some v \<Rightarrow> v) q) m)"

lemma a_devolver_fold: "a_devolver ls = fold devolver_step ls []"
  by (simp add: a_devolver_def devolver_step_def)

lemma devolver_steps:
  "jm_val p (fold devolver_step ls m) = max (jm_val p m) (mayor p ls)" if "0 \<le> jm_val p m"
  using that
proof (induction ls arbitrary: m)
  case Nil
  then show ?case by simp
next
  case (Cons a ls)
  obtain q n where a: "a = (q, n)" by force
  have v: "jm_val p (devolver_step (q, n) m) = (if q = p then max (jm_val p m) n else jm_val p m)"
    by (simp add: jm_val_def devolver_step_def jm_get_set)
  then have "0 \<le> jm_val p (devolver_step (q, n) m)" using Cons.prems by (auto simp: le_max_iff_disj)
  from Cons.IH [OF this] show ?case by (simp add: a v max.assoc max.left_commute max.commute)
qed

lemma a_devolver_distinct: "distinct (map fst (a_devolver ls))"
proof -
  have "distinct (map fst m) \<Longrightarrow> distinct (map fst (fold devolver_step ls m))" for m
  proof (induction ls arbitrary: m)
    case (Cons a ls)
    then show ?case by (cases a) (simp add: devolver_step_def jm_set_distinct)
  qed simp
  then show ?thesis by (simp add: a_devolver_fold)
qed

lemma cart_find_devolver_una:
  assumes "cart_find cid (fst pq) cart = cart_find cid (fst pq) base"
  shows "cart_find cid' p (devolver_una cid base pq cart) =
    (if (cid', p) = (cid, fst pq) then
       (case cart_find cid p base of None \<Rightarrow> Some \<lparr>ci_client = cid, ci_product = p, ci_quantity = snd pq\<rparr>
        | Some ci \<Rightarrow> Some (if ci_quantity ci < snd pq then ci\<lparr>ci_quantity := snd pq\<rparr> else ci))
     else cart_find cid' p cart)"
proof (cases "cart_find cid (fst pq) base")
  case None
  then show ?thesis
    using assms by (auto simp: devolver_una_def cart_find_append cart_key_def split: option.split)
next
  case (Some ci)
  then have "cart_key ci = (cid, fst pq)" by (simp add: cart_find_Some)
  then have "cart_key (ci\<lparr>ci_quantity := snd pq\<rparr>) = (cid, fst pq)" by (simp add: cart_key_def)
  then show ?thesis
    using assms Some by (auto simp: devolver_una_def cart_find_save_by split: option.split)
qed

lemma fold_devolver:
  assumes "distinct (map fst m)" and "\<forall>(p, q) \<in> set m. cart_find cid p cart = cart_find cid p base"
  shows "cart_qty cid' p (fold (devolver_una cid base) m cart) =
    (if cid' = cid \<and> p \<in> fst ` set m then
       (case cart_find cid p base of None \<Rightarrow> jm_val p m | Some ci \<Rightarrow> max (ci_quantity ci) (jm_val p m))
     else cart_qty cid' p cart)"
  using assms
proof (induction m arbitrary: cart)
  case Nil
  then show ?case by simp
next
  case (Cons a m)
  obtain q n where a: "a = (q, n)" by force
  let ?c = "devolver_una cid base (q, n) cart"
  have q: "q \<notin> fst ` set m" using Cons.prems(1) by (simp add: a)
  have here: "cart_find cid q cart = cart_find cid q base" using Cons.prems(2) by (simp add: a)
  note f = cart_find_devolver_una [of cid "(q, n)" cart base, simplified, OF here]
  have "\<forall>(p, k) \<in> set m. cart_find cid p ?c = cart_find cid p base"
  proof
    fix x assume x: "x \<in> set m"
    then have "fst x \<noteq> q" using q by auto
    then show "case x of (p, k) \<Rightarrow> cart_find cid p ?c = cart_find cid p base"
      using Cons.prems(2) x by (auto simp: f a)
  qed
  note IH = Cons.IH [OF _ this]
  have one: "cart_qty cid' p ?c = (if (cid', p) = (cid, q) then
      (case cart_find cid q base of None \<Rightarrow> n | Some ci \<Rightarrow> max (ci_quantity ci) n) else cart_qty cid' p cart)"
    by (auto simp: cart_qty_def f max_def split: option.split)
  show ?case
    unfolding a using IH Cons.prems(1) one q by (auto simp: a jm_val_Cons split: option.split)
qed

lemma devolver_qty:
  "cart_qty cid' p (devolverAlCarrito cid lineas cart) =
    (if cid' = cid then
       (case cart_find cid p cart of None \<Rightarrow> mayor p lineas | Some ci \<Rightarrow> max (ci_quantity ci) (mayor p lineas))
     else cart_qty cid' p cart)" if "cart_ok cart"
proof -
  let ?u = "filter (\<lambda>(p, q). 0 < q) lineas"
  have val: "jm_val p (a_devolver ?u) = mayor p lineas"
    using devolver_steps [of p "[]" ?u] mayor_nonneg [of p lineas]
    by (simp add: a_devolver_fold jm_val_def mayor_filter)
  have pos: "0 \<le> ci_quantity ci" if "cart_find cid p cart = Some ci" for ci
    using cart_find_Some [OF that] \<open>cart_ok cart\<close> by (auto simp: cart_ok_def order_less_imp_le)
  have none: "p \<notin> fst ` set (a_devolver ?u) \<Longrightarrow> mayor p lineas = 0"
    using val jm_get_None [of p "a_devolver ?u"] by (simp add: jm_val_def)
  have empty: "?u = [] \<Longrightarrow> mayor p lineas = 0" by (metis mayor_filter mayor_simps(1))
  have gone: ?thesis if "mayor p lineas = 0" and "devolverAlCarrito cid lineas cart = c"
    and "cart_qty cid' p c = cart_qty cid' p cart" for c
    using that pos mayor_nonneg [of p lineas]
    by (auto simp: cart_qty_def [of _ _ cart] split: option.split)
  show ?thesis
  proof (cases "?u = []")
    case True
    then show ?thesis using gone [of cart] empty by (simp add: devolverAlCarrito_def)
  next
    case False
    then have d: "devolverAlCarrito cid lineas cart = fold (devolver_una cid cart) (a_devolver ?u) cart"
      by (simp add: devolverAlCarrito_def)
    note f = fold_devolver [OF a_devolver_distinct, of ?u cid cart cart cid' p, simplified]
    show ?thesis
    proof (cases "p \<in> fst ` set (a_devolver ?u)")
      case True
      then show ?thesis unfolding d f val by simp
    next
      case False
      then show ?thesis using gone [OF none [OF False] d] f by simp
    qed
  qed
qed

text \<open>Handing the lines of an unpaid order back to the cart leaves each product with the
  larger of what the cart had and what the order had, never the sum and never less than the
  cart had, and touches no other customer's cart.\<close>

theorem devolverAlCarrito_keeps_larger:
  assumes "cart_ok cart"
  shows "cart_qty cid p (devolverAlCarrito cid lineas cart) = max (cart_qty cid p cart) (mayor p lineas) \<and>
    (cid' \<noteq> cid \<longrightarrow> cart_qty cid' p (devolverAlCarrito cid lineas cart) = cart_qty cid' p cart)"
  using devolver_qty [OF assms, of cid p cid lineas] devolver_qty [OF assms, of cid' p cid lineas]
    mayor_nonneg [of p lineas]
  by (auto simp: cart_qty_def split: option.split)

subsection \<open>Taking lines out\<close>

lemma quitar_fold:
  assumes "distinct (map fst ls)" and "\<forall>(p, q) \<in> set ls. p \<notin> set borrar"
    and "fold (quitar_una cid) ls (cart, borrar) = (cart', borrar')"
  shows "(\<forall>p. p \<notin> fst ` set ls \<longrightarrow> cart_find cid p cart' = cart_find cid p cart \<and> (p \<in> set borrar' \<longleftrightarrow> p \<in> set borrar))
    \<and> (\<forall>(p, q) \<in> set ls. (case cart_find cid p cart of
          None \<Rightarrow> cart_find cid p cart' = None \<and> p \<notin> set borrar'
        | Some ci \<Rightarrow> (if 0 < ci_quantity ci - q
             then cart_find cid p cart' = Some (ci\<lparr>ci_quantity := ci_quantity ci - q\<rparr>) \<and> p \<notin> set borrar'
             else p \<in> set borrar')))
    \<and> (\<forall>cid' p. cid' \<noteq> cid \<longrightarrow> cart_find cid' p cart' = cart_find cid' p cart)"
  using assms
proof (induction ls arbitrary: cart borrar)
  case Nil
  then show ?case by simp
next
  case (Cons a ls)
  obtain p q where a: "a = (p, q)" by force
  obtain c1 b1 where step: "quitar_una cid (p, q) (cart, borrar) = (c1, b1)" by force
  have p: "p \<notin> fst ` set ls" "p \<notin> set borrar" using Cons.prems(1,2) by (auto simp: a)
  have find1: "cart_find cid' r c1 = cart_find cid' r cart" if "(cid', r) \<noteq> (cid, p)" for cid' r
  proof (cases "cart_find cid p cart")
    case None
    then show ?thesis using step by (simp add: quitar_una_def)
  next
    case (Some ci)
    have "cart_key (ci\<lparr>ci_quantity := n\<rparr>) = (cid, p)" for n
      using cart_find_Some [OF Some] by (simp add: cart_key_def)
    then show ?thesis
      using step Some that by (auto simp: quitar_una_def Let_def cart_find_save_by split: if_splits)
  qed
  have here: "case cart_find cid p cart of
          None \<Rightarrow> cart_find cid p c1 = None \<and> b1 = borrar
        | Some ci \<Rightarrow> (if 0 < ci_quantity ci - q
             then cart_find cid p c1 = Some (ci\<lparr>ci_quantity := ci_quantity ci - q\<rparr>) \<and> b1 = borrar
             else b1 = p # borrar)"
  proof (cases "cart_find cid p cart")
    case None
    then show ?thesis using step by (simp add: quitar_una_def)
  next
    case (Some ci)
    have "cart_key (ci\<lparr>ci_quantity := n\<rparr>) = (cid, p)" for n
      using cart_find_Some [OF Some] by (simp add: cart_key_def)
    then show ?thesis
      using step Some by (auto simp: quitar_una_def Let_def cart_find_save_by split: if_splits)
  qed
  have b1: "set b1 \<subseteq> insert p (set borrar)" "p \<in> set b1 \<or> b1 = borrar"
    using here by (auto split: option.splits if_splits)
  have fresh: "\<forall>(r, k) \<in> set ls. r \<notin> set b1" using Cons.prems(2) b1 p(1) by (force simp: a)
  have rest: "fold (quitar_una cid) ls (c1, b1) = (cart', borrar')" using Cons.prems(3) step by (simp add: a)
  have dist: "distinct (map fst ls)" using Cons.prems(1) by (simp add: a)
  note IH = Cons.IH [OF dist fresh rest]
  have other: "cart_find cid r c1 = cart_find cid r cart" if "(r, k) \<in> set ls" for r k
    using find1 [of cid r] that p(1) by force
  have pfix: "cart_find cid p cart' = cart_find cid p c1" "p \<in> set borrar' \<longleftrightarrow> p \<in> set b1"
    using IH p(1) by blast+
  have b_eq: "r \<in> set b1 \<longleftrightarrow> r \<in> set borrar" if "r \<noteq> p" for r
    using here that by (auto split: option.splits if_splits)
  show ?case
  proof (intro conjI)
    show "\<forall>r. r \<notin> fst ` set (a # ls) \<longrightarrow> cart_find cid r cart' = cart_find cid r cart \<and> (r \<in> set borrar' \<longleftrightarrow> r \<in> set borrar)"
      using IH find1 b_eq by (auto simp: a)
    show "\<forall>(r, k) \<in> set (a # ls). (case cart_find cid r cart of
          None \<Rightarrow> cart_find cid r cart' = None \<and> r \<notin> set borrar'
        | Some ci \<Rightarrow> (if 0 < ci_quantity ci - k
             then cart_find cid r cart' = Some (ci\<lparr>ci_quantity := ci_quantity ci - k\<rparr>) \<and> r \<notin> set borrar'
             else r \<in> set borrar'))"
    proof
      fix x assume x: "x \<in> set (a # ls)"
      obtain r k where rk: "x = (r, k)" by force
      show "case x of (r, k) \<Rightarrow> (case cart_find cid r cart of
          None \<Rightarrow> cart_find cid r cart' = None \<and> r \<notin> set borrar'
        | Some ci \<Rightarrow> (if 0 < ci_quantity ci - k
             then cart_find cid r cart' = Some (ci\<lparr>ci_quantity := ci_quantity ci - k\<rparr>) \<and> r \<notin> set borrar'
             else r \<in> set borrar'))"
      proof (cases "x = a")
        case True
        then show ?thesis using here pfix p(2) by (auto simp: a split: option.splits if_splits)
      next
        case False
        then have rk': "(r, k) \<in> set ls" using x rk by simp
        have "case (r, k) of (r, k) \<Rightarrow> (case cart_find cid r c1 of
            None \<Rightarrow> cart_find cid r cart' = None \<and> r \<notin> set borrar'
          | Some ci \<Rightarrow> (if 0 < ci_quantity ci - k
               then cart_find cid r cart' = Some (ci\<lparr>ci_quantity := ci_quantity ci - k\<rparr>) \<and> r \<notin> set borrar'
               else r \<in> set borrar'))"
          using IH rk' by blast
        then show ?thesis using other [OF rk'] by (simp only: rk prod.case)
      qed
    qed
    show "\<forall>cid' r. cid' \<noteq> cid \<longrightarrow> cart_find cid' r cart' = cart_find cid' r cart"
      using IH find1 by simp
  qed
qed

lemma find_filter: "List.find P (filter Q xs) = List.find (\<lambda>x. Q x \<and> P x) xs"
  by (induction xs) auto

lemma cart_find_drop:
  "cart_find cid' p (filter (\<lambda>ci. \<not> (ci_client ci = cid \<and> ci_product ci \<in> B)) cart) =
     (if cid' = cid \<and> p \<in> B then None else cart_find cid' p cart)"
  unfolding cart_find_def find_filter
  by (induction cart) auto

text \<open>Taking a revived order's lines out of the cart subtracts them: what the customer added
  beyond the order stays, a line disappears only when nothing of it is left, and no other
  line and no other customer is touched.\<close>

theorem quitarDelCarrito_subtracts:
  assumes "cart_ok cart" and "distinct (map fst lineas)" and "\<forall>(p, q) \<in> set lineas. 0 < q"
  shows "(\<forall>(p, q) \<in> set lineas. cart_qty cid p (quitarDelCarrito cid lineas cart) = max 0 (cart_qty cid p cart - q)) \<and>
    (\<forall>p. p \<notin> fst ` set lineas \<longrightarrow> cart_qty cid p (quitarDelCarrito cid lineas cart) = cart_qty cid p cart) \<and>
    (\<forall>cid' p. cid' \<noteq> cid \<longrightarrow> cart_qty cid' p (quitarDelCarrito cid lineas cart) = cart_qty cid' p cart)"
proof -
  have u: "filter (\<lambda>(p, q). 0 < q) lineas = lineas" using assms(3) by (auto intro: filter_True)
  obtain c b where f: "fold (quitar_una cid) lineas (cart, []) = (c, b)" by force
  note q = quitar_fold [OF assms(2) _ f]
  have res: "quitarDelCarrito cid lineas cart =
      (if lineas = [] then cart else filter (\<lambda>ci. \<not> (ci_client ci = cid \<and> ci_product ci \<in> set b)) c)"
    by (simp add: quitarDelCarrito_def u Let_def f)
  have qty: "cart_qty cid' p (quitarDelCarrito cid lineas cart) =
      (if cid' = cid \<and> p \<in> set b then 0 else cart_qty cid' p c)" for cid' p
  proof (cases "lineas = []")
    case True
    then show ?thesis using f by (auto simp: quitarDelCarrito_def)
  next
    case False
    then have r: "quitarDelCarrito cid lineas cart =
        filter (\<lambda>ci. \<not> (ci_client ci = cid \<and> ci_product ci \<in> set b)) c"
      by (simp add: res)
    show ?thesis unfolding r cart_qty_def cart_find_drop by simp
  qed
  show ?thesis
  proof (intro conjI)
    show "\<forall>(p, q) \<in> set lineas. cart_qty cid p (quitarDelCarrito cid lineas cart) = max 0 (cart_qty cid p cart - q)"
    proof
      fix x assume x: "x \<in> set lineas"
      obtain p n where pn: "x = (p, n)" by force
      have n: "0 < n" using assms(3) x pn by auto
      have "case cart_find cid p cart of
          None \<Rightarrow> cart_find cid p c = None \<and> p \<notin> set b
        | Some ci \<Rightarrow> (if 0 < ci_quantity ci - n
             then cart_find cid p c = Some (ci\<lparr>ci_quantity := ci_quantity ci - n\<rparr>) \<and> p \<notin> set b
             else p \<in> set b)"
        using q x pn by fastforce
      then show "case x of (p, q) \<Rightarrow> cart_qty cid p (quitarDelCarrito cid lineas cart) = max 0 (cart_qty cid p cart - q)"
        using n unfolding pn qty by (auto simp: cart_qty_def split: option.splits if_splits)
    qed
    show "\<forall>p. p \<notin> fst ` set lineas \<longrightarrow> cart_qty cid p (quitarDelCarrito cid lineas cart) = cart_qty cid p cart"
      unfolding qty using q by (simp add: cart_qty_def)
    show "\<forall>cid' p. cid' \<noteq> cid \<longrightarrow> cart_qty cid' p (quitarDelCarrito cid lineas cart) = cart_qty cid' p cart"
      unfolding qty using q by (simp add: cart_qty_def)
  qed
qed

subsection \<open>The subtotal\<close>

lemma js_sum_near:
  assumes "\<forall>c \<in> set cs. 0 \<le> c" and "sum_list cs < 10 ^ 12" and "length cs \<le> 1000"
  shows "\<bar>foldl (\<lambda>s c. js_add s (dec_num c)) 0 cs - of_int (sum_list cs) / 100\<bar>
    \<le> of_nat (length cs) * (3 * 10 ^ 10 / 2 ^ 53)"
  using assms
proof (induction cs rule: rev_induct)
  case Nil
  then show ?case by simp
next
  case (snoc c cs)
  define S where "S = foldl (\<lambda>s c. js_add s (dec_num c)) 0 cs"
  define t where "t = sum_list cs"
  define e :: rat where "e = 3 * 10 ^ 10 / 2 ^ 53"
  have t: "0 \<le> t" "0 \<le> c" using snoc.prems(1) by (auto simp: t_def intro: sum_list_nonneg)
  have tc: "t + c < 10 ^ 12" using snoc.prems(2) by (simp add: t_def)
  have IH: "\<bar>S - of_int t / 100\<bar> \<le> of_nat (length cs) * e"
    using snoc t tc by (simp add: S_def t_def e_def)
  have bt: "of_int t \<le> (10 ^ 12 :: rat)" "of_int c \<le> (10 ^ 12 :: rat)"
    and btc: "of_int t + of_int c \<le> (10 ^ 12 :: rat)"
  proof -
    have "of_int (t + c) \<le> (of_int (10 ^ 12) :: rat)" using tc by (subst of_int_le_iff) simp
    then show "of_int t + of_int c \<le> (10 ^ 12 :: rat)" by simp
    then show "of_int t \<le> (10 ^ 12 :: rat)" "of_int c \<le> (10 ^ 12 :: rat)" using t by linarith+
  qed
  have nn: "0 \<le> (of_int t :: rat)" "0 \<le> (of_int c :: rat)" using t by simp_all
  have d: "\<bar>dec_num c - of_int c / 100\<bar> \<le> 10 ^ 10 / 2 ^ 53"
    unfolding dec_num_def by (rule js.rnd_within) (use bt nn in simp_all)
  have len: "of_nat (length cs) * e \<le> 1"
  proof -
    have "of_nat (length cs) * e \<le> 1000 * e"
      using snoc.prems(3) by (intro mult_right_mono) (simp_all add: e_def)
    also have "\<dots> \<le> 1" by (simp add: e_def)
    finally show ?thesis .
  qed
  have "\<bar>S + dec_num c\<bar> \<le> 2 * 10 ^ 10"
  proof -
    define L where "L = of_nat (length cs) * e"
    have "(10 ^ 10 / 2 ^ 53 :: rat) \<le> 1" by simp
    then have "\<bar>S - of_int t / 100\<bar> \<le> 1" "\<bar>dec_num c - of_int c / 100\<bar> \<le> 1"
      using IH d len by (unfold L_def [symmetric]) linarith+
    moreover have "(2 * 10 ^ 10 :: rat) = 20000000000" "(10 ^ 12 :: rat) = 1000000000000" by simp_all
    ultimately show ?thesis using btc nn by linarith
  qed
  then have r: "\<bar>js_add S (dec_num c) - (S + dec_num c)\<bar> \<le> 2 * 10 ^ 10 / 2 ^ 53"
    unfolding js_add_def by (rule js.rnd_within) simp
  have "\<bar>js_add S (dec_num c) - of_int (t + c) / 100\<bar> \<le>
      \<bar>js_add S (dec_num c) - (S + dec_num c)\<bar> + \<bar>S - of_int t / 100\<bar> + \<bar>dec_num c - of_int c / 100\<bar>"
    by (simp add: add_divide_distrib)
  also have "\<dots> \<le> of_nat (length (cs @ [c])) * e"
    using r IH d by (simp add: e_def distrib_right)
  finally show ?case by (simp add: S_def t_def e_def)
qed

lemma js_sum_cents:
  assumes "\<forall>c \<in> set cs. 0 \<le> c" and "sum_list cs < 10 ^ 12" and "length cs \<le> 1000"
  shows "math_round (js_mul (foldl (\<lambda>s c. js_add s (dec_num c)) 0 cs) 100) = sum_list cs"
proof -
  define S where "S = foldl (\<lambda>s c. js_add s (dec_num c)) 0 cs"
  have "of_nat (length cs) * (3 * 10 ^ 10 / 2 ^ 53) \<le> 1000 * (3 * 10 ^ 10 / 2 ^ 53 :: rat)"
    using assms(3) by (intro mult_right_mono) simp_all
  then have S: "\<bar>S - of_int (sum_list cs) / 100\<bar> \<le> 1 / 250"
    using js_sum_near [OF assms] by (simp add: S_def)
  have nn: "0 \<le> sum_list cs" using assms(1) by (intro sum_list_nonneg) auto
  have b: "of_int (sum_list cs) \<le> (10 ^ 12 :: rat)"
  proof -
    have "of_int (sum_list cs) \<le> (of_int (10 ^ 12) :: rat)" using assms(2) by (subst of_int_le_iff) simp
    then show ?thesis by simp
  qed
  have "0 \<le> (of_int (sum_list cs) :: rat)" using nn by simp
  moreover have "(10 ^ 12 :: rat) = 1000000000000" "(2 * 10 ^ 12 :: rat) = 2000000000000" by simp_all
  ultimately have "\<bar>S * 100\<bar> \<le> 2 * 10 ^ 12" using S b by linarith
  then have "\<bar>js_mul S 100 - S * 100\<bar> \<le> 2 * 10 ^ 12 / 2 ^ 53"
    unfolding js_mul_def by (rule js.rnd_within) simp
  moreover have "(2 * 10 ^ 12 / 2 ^ 53 :: rat) \<le> 1 / 1000" by simp
  ultimately have "\<bar>js_mul S 100 - of_int (sum_list cs)\<bar> < 1 / 2" using S by linarith
  then show ?thesis unfolding S_def by (rule math_round_near)
qed

lemma cart_line_total: "cln_line_total (cart_line_of p q avail) = dec_num (line_cents (finalPrice (p_base_price p) (p_discount p)) q)"
  by (simp add: cart_line_of_def Let_def js_div_100)

text \<open>The subtotal of a cart is the exact sum of its lines in cents: adding the line totals as
  binary fractions and rounding at the end never gains or loses a cent, for up to a thousand
  lines and ten thousand million in total.\<close>

theorem cart_subtotal_exact:
  assumes "\<forall>l \<in> set ls. cln_line_total l = dec_num (cents_of l) \<and> 0 \<le> cents_of l"
    and "sum_list (map cents_of ls) < 10 ^ 12" and "length ls \<le> 1000"
  shows "cart_subtotal ls = dec_num (sum_list (map cents_of ls))"
proof -
  have "foldl (\<lambda>s l. js_add s (cln_line_total l)) z ls = foldl (\<lambda>s c. js_add s (dec_num c)) z (map cents_of ls)" for z
    using assms(1) by (induction ls arbitrary: z) auto
  then show ?thesis
    using js_sum_cents [of "map cents_of ls"] assms by (simp add: cart_subtotal_def js_div_100)
qed

subsection \<open>On a small shop\<close>

lemma sample_cart_ok: "cart_ok (d_cart sample_db)"
  by code_simp

theorem cart_line_within_stock_witness:
  "\<exists>d' d''. addItem 3 7 1 (at_municipality (Some 12)) sample_db = Inr d' \<and>
     cart_qty 3 7 (d_cart d') = cart_qty 3 7 (d_cart sample_db) + 1 \<and>
     updateItem 3 7 1 (at_municipality (Some 12)) sample_db = Inr d'' \<and> cart_qty 3 7 (d_cart d'') = 1 \<and>
     cart_qty 3 7 (d_cart sample_db) \<noteq> 0"
proof -
  let ?ar = "at_municipality (Some 12)"
  have "\<not> isl (addItem 3 7 1 ?ar sample_db)" "\<not> isl (updateItem 3 7 1 ?ar sample_db)" by code_simp+
  then obtain d' d'' where "addItem 3 7 1 ?ar sample_db = Inr d'" "updateItem 3 7 1 ?ar sample_db = Inr d''"
    by (cases "addItem 3 7 1 ?ar sample_db"; cases "updateItem 3 7 1 ?ar sample_db") auto
  moreover have "cart_qty 3 7 (d_cart sample_db) \<noteq> 0" by code_simp
  ultimately show ?thesis
    using cart_line_within_stock [of 3 7 1 ?ar sample_db d'] cart_line_within_stock [of 3 7 1 ?ar sample_db d'']
    by (auto simp: line_holds_def)
qed

theorem devolverAlCarrito_keeps_larger_witness:
  "cart_qty 3 7 (devolverAlCarrito 3 [(7, 5), (7, 1)] (d_cart sample_db)) = 5"
  using devolverAlCarrito_keeps_larger [OF sample_cart_ok, of 3 7 "[(7, 5), (7, 1)]" 4]
  by (simp add: sample_db_def cart_qty_def cart_find_def)

theorem quitarDelCarrito_subtracts_witness:
  "cart_qty 4 7 (quitarDelCarrito 3 [(7, 1)] (d_cart sample_db)) = 1 \<and>
   cart_qty 3 7 (quitarDelCarrito 3 [(7, 1)] (d_cart sample_db)) = 1"
  using quitarDelCarrito_subtracts [OF sample_cart_ok, of "[(7, 1)]" 3]
  by (simp add: sample_db_def cart_qty_def cart_find_def)

theorem cart_subtotal_exact_witness:
  "cart_subtotal [cart_line_of sample_product 3 10, cart_line_of sample_product 1 10] = dec_num 7996"
proof -
  let ?ls = "[cart_line_of sample_product 3 10, cart_line_of sample_product 1 10]"
  let ?c = "\<lambda>l. if cln_quantity l = 3 then 5997 else (1999::int)"
  have "\<forall>l \<in> set ?ls. cln_line_total l = dec_num (?c l) \<and> 0 \<le> ?c l" by code_simp
  moreover have "sum_list (map ?c ?ls) = 7996" by code_simp
  ultimately show ?thesis using cart_subtotal_exact [of ?ls ?c] by simp
qed

end
