(* ===== verification/Fulfillment.thy ===== *)
theory Fulfillment
  imports Catalog
begin

section \<open>Fulfillment: what the shop can do for a customer\<close>

text \<open>
  \<open>src/fulfillment/fulfillment.service.ts\<close>: the settings, the catalogue of delivery options with
  their zones, the pickup points of the storages, what is offered at a municipality, and the
  validation of one checkout's choice. \<open>collate\<close> is the database's string collation, which only
  decides the order of listings. A municipality that may be absent is an option.
\<close>

type_synonym collation = "string \<Rightarrow> string \<Rightarrow> int"

subsection \<open>Settings\<close>

record fulfillment_settings =
  fs_pickup_enabled :: bool
  fs_message :: string
  fs_pickup_promise :: "int option"

definition DEFAULT_FULFILLMENT_SETTINGS :: fulfillment_settings where
  "DEFAULT_FULFILLMENT_SETTINGS = \<lparr>fs_pickup_enabled = True,
     fs_message = ''Por el momento no podemos procesar pedidos en linea. Escribenos y coordinamos tu compra.'',
     fs_pickup_promise = None\<rparr>"

definition getSettings :: "db \<Rightarrow> fulfillment_settings" where
  "getSettings d = (case d_settings d of
       None \<Rightarrow> DEFAULT_FULFILLMENT_SETTINGS
     | Some row \<Rightarrow> \<lparr>
         fs_pickup_enabled = (case st_pickup row of None \<Rightarrow> fs_pickup_enabled DEFAULT_FULFILLMENT_SETTINGS | Some b \<Rightarrow> b),
         fs_message = (case st_message row of None \<Rightarrow> fs_message DEFAULT_FULFILLMENT_SETTINGS | Some t \<Rightarrow> t),
         fs_pickup_promise = (case st_promise row of None \<Rightarrow> None | Some n \<Rightarrow> n)\<rparr>)"

text \<open>
  \<open>updateSettings\<close>: only the fields sent overwrite the current ones. The current ones are the
  stored ones over the defaults, so both fixed fields end up stored.
\<close>

definition updateSettings :: "settings_row \<Rightarrow> db \<Rightarrow> db" where
  "updateSettings dto d =
     (let current = getSettings d in
      d\<lparr>d_settings := Some \<lparr>
          st_pickup = Some (case st_pickup dto of None \<Rightarrow> fs_pickup_enabled current | Some b \<Rightarrow> b),
          st_message = Some (case st_message dto of None \<Rightarrow> fs_message current | Some t \<Rightarrow> t),
          st_promise = (case st_promise dto of
              None \<Rightarrow> (case d_settings d of None \<Rightarrow> None | Some row \<Rightarrow> st_promise row)
            | Some n \<Rightarrow> Some n)\<rparr>\<rparr>)"

subsection \<open>Delivery options\<close>

definition live_options :: "db \<Rightarrow> delivery_option list" where
  "live_options d = filter (\<lambda>op. \<not> do_deleted op) (d_options d)"

definition find_option :: "db \<Rightarrow> id \<Rightarrow> delivery_option option" where
  "find_option d oid = List.find (\<lambda>op. do_id op = oid) (live_options d)"

definition aCentimos :: "num64 option \<Rightarrow> int option" where
  "aCentimos dolares = map_option (\<lambda>x. math_round (js_mul x 100)) dolares"

text \<open>A zone of a request: its province and, when it is narrower, its municipality.\<close>

type_synonym zone_item = "id \<times> id option"

record option_dto =
  odt_label :: "string option"
  odt_description :: "string option option"
  odt_fee :: "num64 option"
  odt_promise :: "int option option"
  odt_threshold :: "num64 option option"
  odt_sort :: "int option"
  odt_enabled :: "bool option"
  odt_zones :: "zone_item list option"

definition replaceZones :: "id \<Rightarrow> zone_item list option \<Rightarrow> db \<Rightarrow> db" where
  "replaceZones oid zones d =
     (let kept = filter (\<lambda>z. dz_option z \<noteq> oid) (d_zones d) in
      d\<lparr>d_zones := (case zones of None \<Rightarrow> kept
         | Some zs \<Rightarrow> kept @ map (\<lambda>(p, m). \<lparr>dz_option = oid, dz_province = p, dz_municipality = m\<rparr>) zs)\<rparr>)"

definition createOption :: "string \<Rightarrow> option_dto \<Rightarrow> db \<Rightarrow> id \<times> db" where
  "createOption label dto d =
     (let oid = d_next d;
          op = \<lparr>do_id = oid, do_label = label,
                do_description = Option.bind (odt_description dto) id,
                do_fee = to_fixed2 (case odt_fee dto of None \<Rightarrow> 0 | Some x \<Rightarrow> x),
                do_promise = Option.bind (odt_promise dto) id,
                do_threshold = aCentimos (Option.bind (odt_threshold dto) id),
                do_sort = (case odt_sort dto of None \<Rightarrow> 0 | Some n \<Rightarrow> n),
                do_enabled = (case odt_enabled dto of None \<Rightarrow> False | Some b \<Rightarrow> b),
                do_deleted = False\<rparr>
      in (oid, replaceZones oid (odt_zones dto)
                 (d\<lparr>d_options := d_options d @ [op], d_next := Suc oid\<rparr>)))"

definition updateOption :: "id \<Rightarrow> option_dto \<Rightarrow> db \<Rightarrow> error + db" where
  "updateOption oid dto d =
     bindE (from_option (NotFound ''Delivery option not found'') (find_option d oid)) (\<lambda>op.
     let op' = op\<lparr>
           do_label := (case odt_label dto of None \<Rightarrow> do_label op | Some t \<Rightarrow> t),
           do_description := (case odt_description dto of None \<Rightarrow> do_description op | Some t \<Rightarrow> t),
           do_fee := (case odt_fee dto of None \<Rightarrow> do_fee op | Some x \<Rightarrow> to_fixed2 x),
           do_promise := (case odt_promise dto of None \<Rightarrow> do_promise op | Some n \<Rightarrow> n),
           do_threshold := (case odt_threshold dto of None \<Rightarrow> do_threshold op | Some x \<Rightarrow> aCentimos x),
           do_sort := (case odt_sort dto of None \<Rightarrow> do_sort op | Some n \<Rightarrow> n),
           do_enabled := (case odt_enabled dto of None \<Rightarrow> do_enabled op | Some b \<Rightarrow> b)\<rparr>;
         d1 = d\<lparr>d_options := save_by do_id op' (d_options d)\<rparr>
     in Inr (case odt_zones dto of None \<Rightarrow> d1 | Some zs \<Rightarrow> replaceZones oid (Some zs) d1))"

definition removeOption :: "id \<Rightarrow> db \<Rightarrow> error + db" where
  "removeOption oid d =
     bindE (from_option (NotFound ''Delivery option not found'') (find_option d oid)) (\<lambda>op.
     Inr (d\<lparr>d_zones := filter (\<lambda>z. dz_option z \<noteq> oid) (d_zones d),
            d_options := map (\<lambda>x. if do_id x = oid then x\<lparr>do_deleted := True\<rparr> else x) (d_options d)\<rparr>))"

text \<open>The fee of an option after its own free-delivery promotion. A missing threshold and a zero one are the same (\<open>!umbral\<close>).\<close>

definition feeConPromocion :: "db \<Rightarrow> id option \<Rightarrow> num64 \<Rightarrow> cents \<Rightarrow> cents" where
  "feeConPromocion d option_id subtotal fee =
     (case option_id of None \<Rightarrow> fee
      | Some oid \<Rightarrow> (case Option.bind (find_option d oid) do_threshold of
            None \<Rightarrow> fee
          | Some umbral \<Rightarrow> (if umbral = 0 then fee
              else if umbral \<le> math_round (js_mul subtotal 100) then 0 else fee)))"

subsection \<open>What is offered\<close>

definition cmp_option :: "collation \<Rightarrow> delivery_option \<Rightarrow> delivery_option \<Rightarrow> int" where
  "cmp_option collate a b =
     (if do_sort a \<noteq> do_sort b then do_sort a - do_sort b else collate (do_label a) (do_label b))"

record pickup_point =
  pp_id :: id
  pp_location :: id
  pp_location_name :: string
  pp_label :: "string option"
  pp_address :: string
  pp_hours :: "string option"

text \<open>A null label sorts last.\<close>

definition cmp_point :: "collation \<Rightarrow> pickup_point \<Rightarrow> pickup_point \<Rightarrow> int" where
  "cmp_point collate a b =
     (let n = collate (pp_location_name a) (pp_location_name b) in
      if n \<noteq> 0 then n
      else case (pp_label a, pp_label b) of
          (Some x, Some y) \<Rightarrow> collate x y | (None, Some _) \<Rightarrow> 1 | (Some _, None) \<Rightarrow> - 1 | (None, None) \<Rightarrow> 0)"

definition pickupPointsQuery :: "collation \<Rightarrow> storage \<Rightarrow> (pickup_address \<Rightarrow> bool) \<Rightarrow> pickup_point list" where
  "pickupPointsQuery collate s P =
     js_sort (cmp_point collate) (concat (map (\<lambda>pa.
       map (\<lambda>l. \<lparr>pp_id = pa_id pa, pp_location = pa_location pa, pp_location_name = loc_name l,
                  pp_label = pa_label pa, pp_address = pa_address pa, pp_hours = pa_hours pa\<rparr>)
         (filter (\<lambda>l. loc_id l = pa_location pa \<and> loc_active l \<and> \<not> loc_deleted l) (l_locations s)))
       (filter P (l_pickups s))))"

definition pickupPoints :: "collation \<Rightarrow> db \<Rightarrow> id option \<Rightarrow> pickup_point list" where
  "pickupPoints collate d mid =
     (case mid of None \<Rightarrow> pickupPointsQuery collate (d_storage d) (\<lambda>_. True)
      | Some _ \<Rightarrow>
         (let serving = coveringLocationIds (d_storage d) (d_geo d) None mid in
          if serving = [] then []
          else let cercanos = pickupPointsQuery collate (d_storage d) (\<lambda>pa. pa_location pa \<in> set serving)
               in if cercanos \<noteq> [] then cercanos else pickupPointsQuery collate (d_storage d) (\<lambda>_. True)))"

definition zonesFor :: "db \<Rightarrow> id \<Rightarrow> delivery_zone list" where
  "zonesFor d oid = filter (\<lambda>z. dz_option z = oid) (d_zones d)"

definition getMunicipalityOrThrow :: "geography \<Rightarrow> id \<Rightarrow> error + municipality" where
  "getMunicipalityOrThrow g mid =
     from_option (NotFound ''Municipality not found'') (List.find (\<lambda>m. mun_id m = mid) (g_municipalities g))"

definition zone_reaches :: "municipality \<Rightarrow> delivery_zone \<Rightarrow> bool" where
  "zone_reaches m z \<longleftrightarrow> dz_municipality z = Some (mun_id m) \<or>
     (dz_municipality z = None \<and> dz_province z = mun_province m)"

definition optionsForMunicipality :: "collation \<Rightarrow> db \<Rightarrow> id option \<Rightarrow> error + delivery_option list" where
  "optionsForMunicipality collate d mid =
     (let enabled = js_sort (cmp_option collate) (filter do_enabled (live_options d)) in
      if enabled = [] then Inr []
      else case mid of
        None \<Rightarrow> Inr (filter (\<lambda>op. zonesFor d (do_id op) = []) enabled)
      | Some m \<Rightarrow>
          (if coveringLocationIds (d_storage d) (d_geo d) None mid = [] then Inr []
           else bindE (getMunicipalityOrThrow (d_geo d) m) (\<lambda>mun.
             Inr (filter (\<lambda>op. zonesFor d (do_id op) = [] \<or> (\<exists>z \<in> set (zonesFor d (do_id op)). zone_reaches mun z))
                enabled))))"

record fulfillment_offer =
  fo_options :: "delivery_option list"
  fo_points :: "pickup_point list"
  fo_pickup_enabled :: bool
  fo_unavailable :: "string option"

definition availableForClient :: "collation \<Rightarrow> db \<Rightarrow> id option \<Rightarrow> error + fulfillment_offer" where
  "availableForClient collate d mid =
     (let settings = getSettings d in
      bindE (optionsForMunicipality collate d mid) (\<lambda>options.
      let points = (if fs_pickup_enabled settings then pickupPoints collate d mid else [])
      in Inr \<lparr>fo_options = options, fo_points = points, fo_pickup_enabled = fs_pickup_enabled settings,
              fo_unavailable = (if options = [] \<and> points = [] then Some (fs_message settings) else None)\<rparr>))"

text \<open>
  The SQL of \<open>municipalitiesWithoutFulfillment\<close>: municipalities an active storage covers and no
  enabled option reaches.
\<close>

definition municipalitiesWithoutFulfillment :: "db \<Rightarrow> municipality list" where
  "municipalitiesWithoutFulfillment d = filter (\<lambda>m.
       (\<exists>c \<in> set (l_coverage (d_storage d)).
          (cov_municipality c = Some (mun_id m) \<or> (cov_type c = CoverProvince \<and> cov_province c = mun_province m)) \<and>
          (\<exists>l \<in> set (l_locations (d_storage d)). loc_id l = cov_location c \<and> loc_active l \<and> \<not> loc_deleted l)) \<and>
       \<not> (\<exists>op \<in> set (d_options d). do_enabled op \<and> \<not> do_deleted op \<and>
          (zonesFor d (do_id op) = [] \<or>
           (\<exists>z \<in> set (zonesFor d (do_id op)). dz_municipality z = Some (mun_id m) \<or>
              (dz_municipality z = None \<and> dz_province z = mun_province m)))))
     (g_municipalities (d_geo d))"

record settings_response =
  sr_settings :: fulfillment_settings
  sr_without_addresses :: bool
  sr_unserved :: "municipality list"

definition getSettingsResponse :: "collation \<Rightarrow> db \<Rightarrow> settings_response" where
  "getSettingsResponse collate d =
     (let settings = getSettings d; points = pickupPoints collate d None
      in \<lparr>sr_settings = settings,
          sr_without_addresses = (fs_pickup_enabled settings \<and> points = []),
          sr_unserved = (if fs_pickup_enabled settings \<and> points \<noteq> [] then []
                         else municipalitiesWithoutFulfillment d)\<rparr>)"

subsection \<open>One checkout's choice\<close>

record fulfillment_choice =
  fc_type :: fulfillment_type
  fc_fee :: cents
  fc_option_id :: "id option"
  fc_option_label :: "string option"
  fc_pickup_location :: "id option"
  fc_pickup_address :: "id option"
  fc_pickup_snapshot :: "json option"
  fc_promise :: "int option"

definition json_opt :: "string option \<Rightarrow> json" where
  "json_opt x = (case x of None \<Rightarrow> JNull | Some t \<Rightarrow> JStr t)"

definition pickup_snapshot :: "pickup_point \<Rightarrow> json" where
  "pickup_snapshot pp = JObj [(''locationName'', JStr (pp_location_name pp)), (''label'', json_opt (pp_label pp)),
     (''address'', JStr (pp_address pp)), (''hours'', json_opt (pp_hours pp))]"

text \<open>\<open>id ? xs.find(...) : xs.length === 1 ? xs[0] : undefined\<close>.\<close>

definition chosen :: "('a \<Rightarrow> id) \<Rightarrow> id option \<Rightarrow> 'a list \<Rightarrow> 'a option" where
  "chosen key sel xs = (case sel of Some i \<Rightarrow> List.find (\<lambda>x. key x = i) xs
     | None \<Rightarrow> (case xs of [x] \<Rightarrow> Some x | _ \<Rightarrow> None))"

text \<open>The empty message is falsy, so it does not stop the choice.\<close>

definition resolveChoice ::
  "collation \<Rightarrow> db \<Rightarrow> fulfillment_type option \<Rightarrow> id option \<Rightarrow> id option \<Rightarrow> id option \<Rightarrow> error + fulfillment_choice" where
  "resolveChoice collate d ftype option_id pickup_id mid =
     bindE (availableForClient collate d mid) (\<lambda>offer.
     bindE (guardE (fo_unavailable offer = None \<or> fo_unavailable offer = Some [])
              (BadRequest (case fo_unavailable offer of None \<Rightarrow> [] | Some t \<Rightarrow> t))) (\<lambda>_.
     let type = (case ftype of Some t \<Rightarrow> t
                 | None \<Rightarrow> (if fo_options offer \<noteq> [] then DELIVERY else PICKUP)) in
     if type = PICKUP then
       bindE (guardE (fo_pickup_enabled offer) (BadRequest ''Pickup is not available'')) (\<lambda>_.
       bindE (from_option (BadRequest ''Choose one of the available pickup points'')
                (chosen pp_id pickup_id (fo_points offer))) (\<lambda>pt.
       Inr \<lparr>fc_type = type, fc_fee = 0, fc_option_id = None, fc_option_label = None,
            fc_pickup_location = Some (pp_location pt), fc_pickup_address = Some (pp_id pt),
            fc_pickup_snapshot = Some (pickup_snapshot pt), fc_promise = fs_pickup_promise (getSettings d)\<rparr>))
     else
       bindE (from_option (BadRequest ''Choose one of the available delivery options'')
                (chosen do_id option_id (fo_options offer))) (\<lambda>op.
       Inr \<lparr>fc_type = type, fc_fee = to_fixed2 (dec_num (do_fee op)), fc_option_id = Some (do_id op),
            fc_option_label = Some (do_label op), fc_pickup_location = None, fc_pickup_address = None,
            fc_pickup_snapshot = None, fc_promise = do_promise op\<rparr>)))"

subsection \<open>What is chosen was on offer\<close>

lemma live_option_iff: "op \<in> set (live_options d) \<longleftrightarrow> op \<in> set (d_options d) \<and> \<not> do_deleted op"
  by (simp add: live_options_def)

lemma chosen_in: "chosen key sel xs = Some x \<Longrightarrow> x \<in> set xs \<and> (\<forall>i. sel = Some i \<longrightarrow> key x = i)"
  by (auto simp: chosen_def find_Some_iff split: option.splits list.splits)

lemma pickup_point_in:
  "pt \<in> set (pickupPointsQuery collate s P) \<longleftrightarrow>
     (\<exists>pa \<in> set (l_pickups s). P pa \<and> (\<exists>l \<in> set (l_locations s). loc_id l = pa_location pa \<and> loc_active l \<and>
        \<not> loc_deleted l \<and> pt = \<lparr>pp_id = pa_id pa, pp_location = pa_location pa, pp_location_name = loc_name l,
                  pp_label = pa_label pa, pp_address = pa_address pa, pp_hours = pa_hours pa\<rparr>))"
  by (auto simp: pickupPointsQuery_def)

lemma pickupPoints_in:
  assumes "pt \<in> set (pickupPoints collate d mid)"
  shows "pt \<in> set (pickupPointsQuery collate (d_storage d) (\<lambda>_. True))"
  using assms by (auto simp: pickupPoints_def pickup_point_in Let_def split: option.splits if_splits)

lemma optionsForMunicipality_in:
  assumes "optionsForMunicipality collate d mid = Inr ops" and "op \<in> set ops"
  shows "op \<in> set (d_options d) \<and> do_enabled op \<and> \<not> do_deleted op \<and>
    (zonesFor d (do_id op) = [] \<or> (\<exists>m \<in> set (g_municipalities (d_geo d)). mid = Some (mun_id m) \<and>
       (\<exists>z \<in> set (d_zones d). dz_option z = do_id op \<and> zone_reaches m z)))"
  using assms
  by (auto simp: optionsForMunicipality_def Let_def live_option_iff bindE_eq_Inr getMunicipalityOrThrow_def
      zonesFor_def find_Some_iff split: option.splits if_splits)

text \<open>A checkout's fulfillment choice is one the shop really offers: a pickup point of an active storage while
  pickup is on, free of charge, with its own storage and snapshot; or an enabled delivery option whose
  zones reach the customer's municipality (or that has none), at exactly its fee, label and promise.\<close>

theorem resolveChoice_offered:
  assumes "resolveChoice collate d ftype option_id pickup_id mid = Inr c"
    and "\<forall>op \<in> set (d_options d). \<bar>do_fee op\<bar> < 10 ^ 12"
  shows "case fc_type c of
      PICKUP \<Rightarrow> fs_pickup_enabled (getSettings d) \<and> fc_fee c = 0 \<and> fc_option_id c = None \<and>
        (\<exists>pa \<in> set (l_pickups (d_storage d)). \<exists>l \<in> set (l_locations (d_storage d)).
           loc_id l = pa_location pa \<and> loc_active l \<and> \<not> loc_deleted l \<and>
           fc_pickup_address c = Some (pa_id pa) \<and> fc_pickup_location c = Some (loc_id l) \<and>
           (\<forall>i. pickup_id = Some i \<longrightarrow> i = pa_id pa))
    | DELIVERY \<Rightarrow> fc_pickup_location c = None \<and> fc_pickup_address c = None \<and>
        (\<exists>op \<in> set (d_options d). do_enabled op \<and> \<not> do_deleted op \<and> fc_option_id c = Some (do_id op) \<and>
           fc_option_label c = Some (do_label op) \<and> fc_fee c = do_fee op \<and> fc_promise c = do_promise op \<and>
           (\<forall>i. option_id = Some i \<longrightarrow> i = do_id op) \<and>
           (zonesFor d (do_id op) = [] \<or> (\<exists>m \<in> set (g_municipalities (d_geo d)). mid = Some (mun_id m) \<and>
              (\<exists>z \<in> set (d_zones d). dz_option z = do_id op \<and> zone_reaches m z))))"
proof -
  obtain offer where offer: "availableForClient collate d mid = Inr offer"
    using assms(1) by (auto simp: resolveChoice_def bindE_eq_Inr)
  then obtain ops where ops: "optionsForMunicipality collate d mid = Inr ops" and o: "fo_options offer = ops"
      "fo_pickup_enabled offer = fs_pickup_enabled (getSettings d)"
      "fo_points offer = (if fs_pickup_enabled (getSettings d) then pickupPoints collate d mid else [])"
    by (auto simp: availableForClient_def bindE_eq_Inr Let_def)
  show ?thesis
  proof (cases "fc_type c")
    case DELIVERY
    then obtain op where op: "chosen do_id option_id ops = Some op" and c: "fc_option_id c = Some (do_id op)"
        "fc_option_label c = Some (do_label op)" "fc_fee c = to_fixed2 (dec_num (do_fee op))"
        "fc_promise c = do_promise op" "fc_pickup_location c = None" "fc_pickup_address c = None"
      using assms(1) offer o(1) by (auto simp: resolveChoice_def bindE_eq_Inr Let_def split: if_splits)
    from chosen_in [OF op] have "op \<in> set ops" "\<forall>i. option_id = Some i \<longrightarrow> i = do_id op" by auto
    moreover from this(1) have "op \<in> set (d_options d) \<and> do_enabled op \<and> \<not> do_deleted op \<and>
        (zonesFor d (do_id op) = [] \<or> (\<exists>m \<in> set (g_municipalities (d_geo d)). mid = Some (mun_id m) \<and>
           (\<exists>z \<in> set (d_zones d). dz_option z = do_id op \<and> zone_reaches m z)))"
      by (rule optionsForMunicipality_in [OF ops])
    moreover from this assms(2) have "fc_fee c = do_fee op" using c(3) by (simp add: js_fixed_cents)
    ultimately show ?thesis unfolding DELIVERY fulfillment_type.case using c(1,2,4,5,6)
      by (intro conjI bexI [of _ op]) simp_all
  next
    case PICKUP
    then obtain pt where pt: "chosen pp_id pickup_id (fo_points offer) = Some pt" and c: "fc_fee c = 0"
        "fc_option_id c = None" "fc_pickup_location c = Some (pp_location pt)" "fc_pickup_address c = Some (pp_id pt)"
        "fs_pickup_enabled (getSettings d)"
      using assms(1) offer o(2) by (auto simp: resolveChoice_def bindE_eq_Inr Let_def split: if_splits)
    from chosen_in [OF pt] o(3) c(5) have "pt \<in> set (pickupPoints collate d mid)"
      and sel: "\<forall>i. pickup_id = Some i \<longrightarrow> i = pp_id pt" by auto
    then have "pt \<in> set (pickupPointsQuery collate (d_storage d) (\<lambda>_. True))" by (blast dest: pickupPoints_in)
    then obtain pa l where pa: "pa \<in> set (l_pickups (d_storage d))" "l \<in> set (l_locations (d_storage d))"
        "loc_id l = pa_location pa" "loc_active l" "\<not> loc_deleted l"
        "pp_id pt = pa_id pa" "pp_location pt = pa_location pa"
      by (auto simp: pickup_point_in)
    then show ?thesis unfolding PICKUP fulfillment_type.case using c sel
      by (intro conjI bexI [of _ pa] bexI [of _ l]) simp_all
  qed
qed

subsection \<open>The panel's warning says what the checkout will do\<close>

lemma served_iff:
  assumes "m \<in> set (g_municipalities (d_geo d))" and "distinct (map mun_id (g_municipalities (d_geo d)))"
  shows "coveringLocationIds (d_storage d) (d_geo d) None (Some (mun_id m)) \<noteq> [] \<longleftrightarrow>
    (\<exists>c \<in> set (l_coverage (d_storage d)).
          (cov_municipality c = Some (mun_id m) \<or> (cov_type c = CoverProvince \<and> cov_province c = mun_province m)) \<and>
          (\<exists>l \<in> set (l_locations (d_storage d)). loc_id l = cov_location c \<and> loc_active l \<and> \<not> loc_deleted l))"
proof -
  have "List.find (\<lambda>x. mun_id x = mun_id m) (g_municipalities (d_geo d)) = Some m"
    using find_distinct_key [OF assms(2,1)] .
  then have cov: "covered_by (d_geo d) (mun_id m) c \<longleftrightarrow>
      cov_municipality c = Some (mun_id m) \<or> (cov_type c = CoverProvince \<and> cov_province c = mun_province m)" for c
    by (simp add: covered_by_def)
  have act: "l \<in> set (active_ids (d_storage d)) \<longleftrightarrow>
      (\<exists>x \<in> set (l_locations (d_storage d)). loc_id x = l \<and> loc_active x \<and> \<not> loc_deleted x)" for l
    by (auto simp: active_ids_def active_location_ids_def)
  have "coveringLocationIds (d_storage d) (d_geo d) None (Some (mun_id m)) \<noteq> [] \<longleftrightarrow>
      (\<exists>c \<in> set (l_coverage (d_storage d)). cov_location c \<in> set (active_ids (d_storage d)) \<and>
         covered_by (d_geo d) (mun_id m) c)"
    by (auto simp: coveringLocationIds_def Let_def filter_empty_conv)
  then show ?thesis unfolding act cov by blast
qed

text \<open>The panel's warning and the checkout agree: with pickup not standing, a municipality that some
  active storage covers is listed as unserved exactly when a customer there is offered nothing and gets the
  support message instead.\<close>

theorem unserved_municipality_is_blocked:
  assumes "m \<in> set (g_municipalities (d_geo d))" and "distinct (map mun_id (g_municipalities (d_geo d)))"
    and "coveringLocationIds (d_storage d) (d_geo d) None (Some (mun_id m)) \<noteq> []"
    and "\<not> fs_pickup_enabled (getSettings d) \<or> pickupPoints collate d None = []"
  shows "m \<in> set (sr_unserved (getSettingsResponse collate d)) \<longleftrightarrow>
    availableForClient collate d (Some (mun_id m)) = Inr \<lparr>fo_options = [], fo_points = [],
      fo_pickup_enabled = fs_pickup_enabled (getSettings d), fo_unavailable = Some (fs_message (getSettings d))\<rparr>"
proof -
  let ?reach = "\<lambda>op. zonesFor d (do_id op) = [] \<or> (\<exists>z \<in> set (zonesFor d (do_id op)). zone_reaches m z)"
  have f: "List.find (\<lambda>x. mun_id x = mun_id m) (g_municipalities (d_geo d)) = Some m"
    using find_distinct_key [OF assms(2,1)] .
  have pts: "(if fs_pickup_enabled (getSettings d) then pickupPoints collate d (Some (mun_id m)) else []) = []"
  proof (cases "fs_pickup_enabled (getSettings d)")
    case True
    then have "set (pickupPointsQuery collate (d_storage d) (\<lambda>_. True)) = {}"
      using assms(4) by (simp add: pickupPoints_def)
    then show ?thesis using pickupPoints_in [of _ collate d "Some (mun_id m)"]
      by (cases "pickupPoints collate d (Some (mun_id m))") auto
  qed simp
  have listed: "m \<in> set (sr_unserved (getSettingsResponse collate d)) \<longleftrightarrow>
      \<not> (\<exists>op \<in> set (d_options d). do_enabled op \<and> \<not> do_deleted op \<and> ?reach op)"
    using assms(1,3,4) served_iff [OF assms(1,2)]
    by (auto simp: getSettingsResponse_def Let_def municipalitiesWithoutFulfillment_def zone_reaches_def)
  have opts: "optionsForMunicipality collate d (Some (mun_id m)) =
      Inr (filter ?reach (js_sort (cmp_option collate) (filter do_enabled (live_options d))))"
    using assms(3) f by (simp add: optionsForMunicipality_def Let_def getMunicipalityOrThrow_def)
  have offered: "filter ?reach (js_sort (cmp_option collate) (filter do_enabled (live_options d))) = [] \<longleftrightarrow>
      \<not> (\<exists>op \<in> set (d_options d). do_enabled op \<and> \<not> do_deleted op \<and> ?reach op)"
    by (auto simp: filter_empty_conv live_options_def)
  have no_offer: "availableForClient collate d (Some (mun_id m)) = Inr \<lparr>fo_options = [], fo_points = [],
        fo_pickup_enabled = fs_pickup_enabled (getSettings d), fo_unavailable = Some (fs_message (getSettings d))\<rparr>
      \<longleftrightarrow> ops = []" if "optionsForMunicipality collate d (Some (mun_id m)) = Inr ops" for ops
    using that pts by (simp add: availableForClient_def Let_def)
  from no_offer [OF opts] offered have "availableForClient collate d (Some (mun_id m)) = Inr \<lparr>fo_options = [], fo_points = [],
        fo_pickup_enabled = fs_pickup_enabled (getSettings d), fo_unavailable = Some (fs_message (getSettings d))\<rparr>
      \<longleftrightarrow> \<not> (\<exists>op \<in> set (d_options d). do_enabled op \<and> \<not> do_deleted op \<and> ?reach op)" by (rule trans)
  with listed show ?thesis by (rule trans [OF _ sym])
qed

text \<open>Free delivery is decided in whole cents: an option with a threshold is free exactly when the
  products' subtotal reaches it, to the cent, and otherwise costs its fee; other options always cost theirs.\<close>

theorem feeConPromocion_exact:
  assumes "\<bar>s\<bar> < 10 ^ 12"
  shows "feeConPromocion d option_id (dec_num s) fee =
    (if \<exists>oid op t. option_id = Some oid \<and> find_option d oid = Some op \<and> do_threshold op = Some t \<and> t \<noteq> 0 \<and> t \<le> s
     then 0 else fee)"
proof (cases option_id)
  case (Some oid)
  then show ?thesis
  proof (cases "find_option d oid")
    case (Some op)
    with \<open>option_id = Some oid\<close> show ?thesis
      using assms by (auto simp: feeConPromocion_def js_number_cents split: option.split)
  qed (simp add: feeConPromocion_def)
qed (simp add: feeConPromocion_def)

text \<open>Saving the settings changes only what the request carries: every field that was not sent keeps the value
  it had, stored or default, and the other tables are not touched.\<close>

theorem updateSettings_merges:
  "getSettings (updateSettings dto d) = \<lparr>
     fs_pickup_enabled = (case st_pickup dto of None \<Rightarrow> fs_pickup_enabled (getSettings d) | Some b \<Rightarrow> b),
     fs_message = (case st_message dto of None \<Rightarrow> fs_message (getSettings d) | Some t \<Rightarrow> t),
     fs_pickup_promise = (case st_promise dto of None \<Rightarrow> fs_pickup_promise (getSettings d) | Some n \<Rightarrow> n)\<rparr>
   \<and> d_settings_update (\<lambda>_. d_settings d) (updateSettings dto d) = d"
  by (cases "d_settings d") (auto simp: getSettings_def updateSettings_def Let_def DEFAULT_FULFILLMENT_SETTINGS_def
      split: option.split)

definition sample_collate :: collation where
  "sample_collate a b = int (length a) - int (length b)"

theorem resolveChoice_offered_witness:
  "\<exists>c. resolveChoice sample_collate sample_db None None None (Some 12) = Inr c \<and> fc_type c = DELIVERY \<and> fc_fee c = 500"
proof -
  let ?r = "resolveChoice sample_collate sample_db None None None (Some 12)"
  have "case ?r of Inr c \<Rightarrow> fc_type c = DELIVERY | Inl _ \<Rightarrow> False" by code_simp
  then obtain c where c: "?r = Inr c" "fc_type c = DELIVERY" by (cases ?r) auto
  have "\<forall>op \<in> set (d_options sample_db). \<bar>do_fee op\<bar> < 10 ^ 12" by (simp add: sample_db_def)
  from resolveChoice_offered [OF c(1) this] c show ?thesis by (auto simp: sample_db_def)
qed

theorem unserved_municipality_is_blocked_witness:
  "\<exists>dto. availableForClient sample_collate (updateSettings dto sample_db) (Some 11) = Inr \<lparr>fo_options = [], fo_points = [],
      fo_pickup_enabled = False, fo_unavailable = Some ''x''\<rparr>"
proof -
  let ?dto = "\<lparr>st_pickup = Some False, st_message = Some ''x'', st_promise = None\<rparr>"
  let ?d = "updateSettings ?dto sample_db"
  let ?m = "\<lparr>mun_id = 11, mun_province = 1, mun_name = ''Plaza''\<rparr>"
  have "?m \<in> set (g_municipalities (d_geo ?d))" by code_simp
  moreover have "distinct (map mun_id (g_municipalities (d_geo ?d)))" by code_simp
  moreover have "coveringLocationIds (d_storage ?d) (d_geo ?d) None (Some (mun_id ?m)) \<noteq> []" by code_simp
  moreover have s: "\<not> fs_pickup_enabled (getSettings ?d)" "fs_message (getSettings ?d) = ''x''" by code_simp+
  moreover have "?m \<in> set (sr_unserved (getSettingsResponse sample_collate ?d))" by code_simp
  ultimately have "availableForClient sample_collate ?d (Some 11) = Inr \<lparr>fo_options = [], fo_points = [],
      fo_pickup_enabled = False, fo_unavailable = Some ''x''\<rparr>"
    using unserved_municipality_is_blocked [of ?m ?d sample_collate] by simp
  then show ?thesis by blast
qed

theorem feeConPromocion_exact_witness:
  "feeConPromocion sample_db (Some 41) (dec_num 2001) 500 = 0 \<and> feeConPromocion sample_db (Some 41) (dec_num 2000) 500 = 500"
  using feeConPromocion_exact [of 2001 sample_db "Some 41" 500] feeConPromocion_exact [of 2000 sample_db "Some 41" 500]
  by (simp add: sample_db_def find_option_def live_options_def)

end
