(* ===== verification/Client_Addresses.thy ===== *)
theory Client_Addresses
  imports Fulfillment
begin

section \<open>The customer's address book\<close>

text \<open>
  \<open>src/client-addresses/client-addresses.service.ts\<close>: every operation is scoped by the client, and
  exactly one live address of a client with addresses is the default one. The rows are in the order
  they were created; \<open>ad_created\<close> is the creation instant that decides who inherits the default.
\<close>

definition MAX_ADDRESSES_PER_CLIENT :: nat where
  "MAX_ADDRESSES_PER_CLIENT = 20"

record address_input =
  ai_recipient :: "string option"
  ai_id_card :: "string option"
  ai_label :: "string option"
  ai_street :: string
  ai_between :: "string option"
  ai_reference :: "string option"
  ai_municipality :: id
  ai_phone :: "string option"
  ai_default :: "bool option"

text \<open>An update sends only some fields; an empty string clears one.\<close>

record address_patch =
  ap_recipient :: "string option"
  ap_id_card :: "string option"
  ap_label :: "string option"
  ap_street :: "string option"
  ap_between :: "string option"
  ap_reference :: "string option"
  ap_municipality :: "id option"
  ap_phone :: "string option"

definition live_addresses :: "id \<Rightarrow> client_address list \<Rightarrow> client_address list" where
  "live_addresses cid as = filter (\<lambda>a. ad_client a = cid \<and> \<not> ad_deleted a) as"

definition clearDefault :: "id \<Rightarrow> client_address list \<Rightarrow> client_address list" where
  "clearDefault cid as = map (\<lambda>a. if ad_client a = cid \<and> ad_default a then a\<lparr>ad_default := False\<rparr> else a) as"

definition create_address ::
  "geography \<Rightarrow> instant \<Rightarrow> id \<Rightarrow> id \<Rightarrow> address_input \<Rightarrow> client_address list \<Rightarrow> error + client_address list" where
  "create_address g now new_id cid input as =
     bindE (getMunicipalityOrThrow g (ai_municipality input)) (\<lambda>_.
     let existing = length (live_addresses cid as) in
     bindE (guardE (\<not> MAX_ADDRESSES_PER_CLIENT \<le> existing)
              (Conflict ''A customer cannot have more saved addresses'')) (\<lambda>_.
     let is_default = (if existing = 0 then True
                       else case ai_default input of None \<Rightarrow> False | Some b \<Rightarrow> b);
         cleared = (if is_default \<and> 0 < existing then clearDefault cid as else as)
     in Inr (cleared @ [\<lparr>ad_id = new_id, ad_client = cid, ad_label = ai_label input, ad_street = ai_street input,
               ad_between = ai_between input, ad_reference = ai_reference input,
               ad_municipality = ai_municipality input, ad_recipient = ai_recipient input,
               ad_id_card = ai_id_card input, ad_phone = ai_phone input, ad_default = is_default,
               ad_created = now, ad_deleted = False\<rparr>])))"

definition find_address :: "id \<Rightarrow> id \<Rightarrow> client_address list \<Rightarrow> error + client_address" where
  "find_address cid aid as = from_option (NotFound ''Address not found'')
     (List.find (\<lambda>a. ad_id a = aid) (live_addresses cid as))"

text \<open>\<open>value || null\<close> of a field that was sent.\<close>

definition patched :: "string option \<Rightarrow> string option \<Rightarrow> string option" where
  "patched sent old = (case sent of None \<Rightarrow> old | Some t \<Rightarrow> (if t = [] then None else Some t))"

definition update_address ::
  "geography \<Rightarrow> id \<Rightarrow> id \<Rightarrow> address_patch \<Rightarrow> client_address list \<Rightarrow> error + client_address list" where
  "update_address g cid aid input as =
     bindE (find_address cid aid as) (\<lambda>a.
     bindE (case ap_municipality input of
              None \<Rightarrow> Inr (ad_municipality a)
            | Some m \<Rightarrow> (if m \<noteq> ad_municipality a
                then bindE (getMunicipalityOrThrow g m) (\<lambda>_. Inr m) else Inr (ad_municipality a))) (\<lambda>m.
     Inr (save_by ad_id (a\<lparr>ad_municipality := m,
            ad_street := (case ap_street input of None \<Rightarrow> ad_street a | Some t \<Rightarrow> t),
            ad_label := patched (ap_label input) (ad_label a),
            ad_between := patched (ap_between input) (ad_between a),
            ad_reference := patched (ap_reference input) (ad_reference a),
            ad_recipient := patched (ap_recipient input) (ad_recipient a),
            ad_id_card := patched (ap_id_card input) (ad_id_card a),
            ad_phone := patched (ap_phone input) (ad_phone a)\<rparr>) as)))"

text \<open>\<open>order: {createdAt: 'DESC'}\<close>, the first row.\<close>

definition newest :: "client_address list \<Rightarrow> client_address option" where
  "newest as = (case js_sort (\<lambda>a b. ad_created b - ad_created a) as of [] \<Rightarrow> None | a # _ \<Rightarrow> Some a)"

definition remove_address :: "id \<Rightarrow> id \<Rightarrow> client_address list \<Rightarrow> error + client_address list" where
  "remove_address cid aid as =
     bindE (find_address cid aid as) (\<lambda>a.
     let as1 = map (\<lambda>x. if ad_id x = aid then x\<lparr>ad_deleted := True\<rparr> else x) as in
     Inr (if \<not> ad_default a then as1
          else case newest (live_addresses cid as1) of
              None \<Rightarrow> as1
            | Some s \<Rightarrow> map (\<lambda>x. if ad_id x = ad_id s then x\<lparr>ad_default := True\<rparr> else x) as1))"

definition setDefault :: "id \<Rightarrow> id \<Rightarrow> client_address list \<Rightarrow> error + client_address list" where
  "setDefault cid aid as =
     bindE (find_address cid aid as) (\<lambda>a.
     Inr (if ad_default a then as
          else save_by ad_id (a\<lparr>ad_default := True\<rparr>) (clearDefault cid as)))"

subsection \<open>One default address\<close>

text \<open>The operations of the book, by whoever owns it.\<close>

inductive book_step :: "client_address list \<Rightarrow> client_address list \<Rightarrow> bool" where
  Book_create: "create_address g now aid cid input as = Inr as' \<Longrightarrow> aid \<notin> ad_id ` set as \<Longrightarrow> book_step as as'"
| Book_update: "update_address g cid aid patch as = Inr as' \<Longrightarrow> book_step as as'"
| Book_remove: "remove_address cid aid as = Inr as' \<Longrightarrow> book_step as as'"
| Book_default: "setDefault cid aid as = Inr as' \<Longrightarrow> book_step as as'"

definition defaults :: "id \<Rightarrow> client_address list \<Rightarrow> nat" where
  "defaults cid as = length (filter ad_default (live_addresses cid as))"

definition book_ok :: "client_address list \<Rightarrow> bool" where
  "book_ok as \<longleftrightarrow> distinct (map ad_id as)"

definition one_default :: "id \<Rightarrow> client_address list \<Rightarrow> bool" where
  "one_default cid as \<longleftrightarrow> defaults cid as = (if live_addresses cid as = [] then 0 else 1)
     \<and> length (live_addresses cid as) \<le> MAX_ADDRESSES_PER_CLIENT"

lemma live_append: "live_addresses cid (as @ bs) = live_addresses cid as @ live_addresses cid bs"
  by (simp add: live_addresses_def)

lemma find_address_Some:
  assumes "find_address cid aid as = Inr a"
  shows "a \<in> set as" "ad_id a = aid" "ad_client a = cid" "\<not> ad_deleted a"
  using assms by (auto simp: find_address_def live_addresses_def find_Some_iff dest!: nth_mem [of _ "filter _ _"])

text \<open>The counts are sums, so a changed row shows as its own contribution.\<close>

definition count_where :: "(client_address \<Rightarrow> bool) \<Rightarrow> client_address list \<Rightarrow> nat" where
  "count_where P as = length (filter P as)"

lemma count_live: "length (live_addresses cid as) = count_where (\<lambda>a. ad_client a = cid \<and> \<not> ad_deleted a) as"
  by (simp add: count_where_def live_addresses_def)

lemma count_defaults: "defaults cid as = count_where (\<lambda>a. ad_client a = cid \<and> \<not> ad_deleted a \<and> ad_default a) as"
  by (simp add: count_where_def defaults_def live_addresses_def conj_ac)

lemma count_change:
  assumes "distinct (map ad_id as)" and "a \<in> set as"
  shows "count_where P (map (\<lambda>x. if ad_id x = ad_id a then f x else x) as) + (if P a then 1 else 0) =
    count_where P as + (if P (f a) then 1 else 0)"
  using assms
proof (induction as)
  case Nil
  then show ?case by simp
next
  case (Cons x as)
  show ?case
  proof (cases "x = a")
    case True
    with Cons.prems(1) have "ad_id a \<notin> ad_id ` set as" by auto
    then have "map (\<lambda>y. if ad_id y = ad_id a then f y else y) as = as"
      by (intro map_idI) (metis imageI)
    with True show ?thesis by (simp add: count_where_def)
  next
    case False
    with Cons.prems have in_as: "a \<in> set as" and "ad_id x \<noteq> ad_id a" by auto
    then show ?thesis using Cons.IH Cons.prems(1) by (simp add: count_where_def)
  qed
qed

lemma save_by_map: "save_by key r rows = map (\<lambda>x. if key x = key r then r else x) rows"
  by (simp add: save_by_def)

lemma count_save:
  assumes "distinct (map ad_id as)" and "a \<in> set as" and "ad_id r = ad_id a"
  shows "count_where P (save_by ad_id r as) + (if P a then 1 else 0) = count_where P as + (if P r then 1 else 0)"
  using count_change [OF assms(1,2), of P "\<lambda>_. r"] by (simp add: save_by_map assms(3))

lemma count_Nil [simp]: "count_where P [] = 0"
  by (simp add: count_where_def)

lemma count_Cons [simp]: "count_where P (a # as) = (if P a then 1 else 0) + count_where P as"
  by (simp add: count_where_def)

lemma clear_Cons:
  "clearDefault cid (a # as) = (if ad_client a = cid \<and> ad_default a then a\<lparr>ad_default := False\<rparr> else a) # clearDefault cid as"
  "clearDefault cid [] = []"
  by (simp_all add: clearDefault_def)

lemma count_clear_live:
  "count_where (\<lambda>a. ad_client a = cid' \<and> \<not> ad_deleted a) (clearDefault cid as) =
     count_where (\<lambda>a. ad_client a = cid' \<and> \<not> ad_deleted a) as"
  by (induction as) (simp_all add: clear_Cons)

lemma count_clear_default:
  "count_where (\<lambda>a. ad_client a = cid' \<and> \<not> ad_deleted a \<and> ad_default a) (clearDefault cid as) =
     (if cid' = cid then 0 else count_where (\<lambda>a. ad_client a = cid' \<and> \<not> ad_deleted a \<and> ad_default a) as)"
proof (induction as)
  case (Cons a as)
  then show ?case by (cases "ad_client a = cid") (auto simp: clear_Cons)
qed (simp add: clear_Cons)

lemmas count_clear = count_clear_live count_clear_default

lemma clear_keys: "map ad_id (clearDefault cid as) = map ad_id as"
  by (induction as) (auto simp: clearDefault_def)

lemma one_default_counts:
  "one_default cid as \<longleftrightarrow>
     count_where (\<lambda>a. ad_client a = cid \<and> \<not> ad_deleted a \<and> ad_default a) as =
       (if count_where (\<lambda>a. ad_client a = cid \<and> \<not> ad_deleted a) as = 0 then 0 else 1) \<and>
     count_where (\<lambda>a. ad_client a = cid \<and> \<not> ad_deleted a) as \<le> MAX_ADDRESSES_PER_CLIENT"
  by (simp add: one_default_def count_live [symmetric] count_defaults [symmetric])

lemma newest_in: "newest as = Some s \<Longrightarrow> s \<in> set as"
proof -
  assume s: "newest as = Some s"
  then have "s \<in> set (js_sort (\<lambda>a b. ad_created b - ad_created a) as)"
    by (cases "js_sort (\<lambda>a b. ad_created b - ad_created a) as") (simp_all add: newest_def)
  then show "s \<in> set as" by simp
qed

lemma newest_None: "newest as = None \<Longrightarrow> as = []"
proof -
  assume "newest as = None"
  then have "set (js_sort (\<lambda>a b. ad_created b - ad_created a) as) = {}"
    by (cases "js_sort (\<lambda>a b. ad_created b - ad_created a) as") (simp_all add: newest_def)
  then show "as = []" by simp
qed

lemma create_keeps:
  assumes "create_address g now aid cid input as = Inr as'" and "aid \<notin> ad_id ` set as"
    and "book_ok as" and "one_default c as"
  shows "book_ok as' \<and> one_default c as'"
proof -
  let ?live = "\<lambda>c a. ad_client a = c \<and> \<not> ad_deleted a"
  let ?def = "\<lambda>c a. ad_client a = c \<and> \<not> ad_deleted a \<and> ad_default a"
  define n where "n = count_where (?live cid) as"
  define isd where "isd = (if n = 0 then True else case ai_default input of None \<Rightarrow> False | Some b \<Rightarrow> b)"
  define r where "r = \<lparr>ad_id = aid, ad_client = cid, ad_label = ai_label input, ad_street = ai_street input,
               ad_between = ai_between input, ad_reference = ai_reference input,
               ad_municipality = ai_municipality input, ad_recipient = ai_recipient input,
               ad_id_card = ai_id_card input, ad_phone = ai_phone input, ad_default = isd,
               ad_created = now, ad_deleted = False\<rparr>"
  have nlen: "length (live_addresses cid as) = n" by (simp add: n_def count_live)
  have n: "n < MAX_ADDRESSES_PER_CLIENT"
    and as': "as' = (if isd \<and> 0 < n then clearDefault cid as else as) @ [r]"
    using assms(1) unfolding create_address_def Let_def nlen isd_def [symmetric] r_def [symmetric]
    by (simp_all add: bindE_eq_Inr)
  have row: "ad_id r = aid" "ad_client r = cid" "\<not> ad_deleted r" "n = 0 \<longrightarrow> ad_default r" "ad_default r = isd"
    by (simp_all add: r_def isd_def)
  have r: "as' = (if ad_default r \<and> 0 < n then clearDefault cid as else as) @ [r]" using as' row(5) by simp
  have app: "count_where P (xs @ [r]) = count_where P xs + (if P r then 1 else 0)" for P xs
    by (simp add: count_where_def)
  have keys: "map ad_id as' = map ad_id as @ [aid]" using row by (simp add: r clear_keys)
  have live: "count_where (?live c) as' = count_where (?live c) as + (if c = cid then 1 else 0)"
    using row by (simp add: r app count_clear)
  have default: "count_where (?def c) as' = (if c \<noteq> cid then count_where (?def c) as
      else if ad_default r then (if 0 < n then 1 else count_where (?def cid) as + 1) else count_where (?def cid) as)"
    using row by (simp add: r app count_clear)
  show ?thesis
    using assms(2-4) live default keys n row(4)
    by (auto simp: book_ok_def one_default_counts n_def [symmetric] split: if_splits)
qed

lemma update_keeps:
  assumes "update_address g cid aid patch as = Inr as'" and "book_ok as" and "one_default c as"
  shows "book_ok as' \<and> one_default c as'"
proof -
  from assms(1) obtain a r where a: "find_address cid aid as = Inr a" and as': "as' = save_by ad_id r as"
      and r: "ad_id r = ad_id a" "ad_client r = ad_client a" "ad_deleted r = ad_deleted a" "ad_default r = ad_default a"
    by (auto simp: update_address_def bindE_eq_Inr split: option.splits if_splits)
  from find_address_Some [OF a] have "a \<in> set as" by simp
  note c = count_save [OF assms(2) [unfolded book_ok_def] this r(1)]
  have "count_where (\<lambda>a. ad_client a = c \<and> \<not> ad_deleted a) as' = count_where (\<lambda>a. ad_client a = c \<and> \<not> ad_deleted a) as"
    "count_where (\<lambda>a. ad_client a = c \<and> \<not> ad_deleted a \<and> ad_default a) as' =
     count_where (\<lambda>a. ad_client a = c \<and> \<not> ad_deleted a \<and> ad_default a) as"
    using c [of "\<lambda>a. ad_client a = c \<and> \<not> ad_deleted a"] c [of "\<lambda>a. ad_client a = c \<and> \<not> ad_deleted a \<and> ad_default a"] r
    by (simp_all add: as')
  then show ?thesis using assms(2,3) by (simp add: one_default_counts book_ok_def as' save_by_keys)
qed

lemma remove_keeps:
  assumes "remove_address cid aid as = Inr as'" and "book_ok as" and "one_default c as"
  shows "book_ok as' \<and> one_default c as'"
proof -
  let ?live = "\<lambda>a. ad_client a = c \<and> \<not> ad_deleted a"
  let ?def = "\<lambda>a. ad_client a = c \<and> \<not> ad_deleted a \<and> ad_default a"
  from assms(1) obtain a where a: "find_address cid aid as = Inr a"
    by (auto simp: remove_address_def bindE_eq_Inr)
  note fa = find_address_Some [OF a]
  define as1 where "as1 = map (\<lambda>x. if ad_id x = ad_id a then x\<lparr>ad_deleted := True\<rparr> else x) as"
  have d: "distinct (map ad_id as)" using assms(2) by (simp add: book_ok_def)
  have keys: "map ad_id (map (\<lambda>x. if ad_id x = i then f x else x) xs) = map ad_id xs"
    if "\<And>x. ad_id (f x) = ad_id x" for f xs i using that by (induction xs) auto
  have d1: "distinct (map ad_id as1)" using d unfolding as1_def by (subst keys) simp_all
  have live1: "count_where ?live as1 + (if cid = c then 1 else 0) = count_where ?live as"
    and def1: "count_where ?def as1 + (if cid = c \<and> ad_default a then 1 else 0) = count_where ?def as"
    using count_change [OF d fa(1), of ?live "\<lambda>x. x\<lparr>ad_deleted := True\<rparr>"]
      count_change [OF d fa(1), of ?def "\<lambda>x. x\<lparr>ad_deleted := True\<rparr>"] fa
    by (simp_all add: as1_def)
  have le: "count_where ?def as1 \<le> count_where ?live as1" for as1
    by (induction as1) (auto simp: count_where_def)
  note inv = assms(3) [unfolded one_default_counts]
  show ?thesis
  proof (cases "ad_default a \<and> newest (live_addresses cid as1) \<noteq> None")
    case False
    then have as': "as' = as1"
      using assms(1) a fa(2) by (auto simp: remove_address_def as1_def Let_def)
    have "count_where ?live as1 = 0" if "cid = c" "ad_default a"
      using False that newest_None [of "live_addresses cid as1"] count_live [of c as1] by auto
    then show ?thesis
      using d1 inv live1 def1 le [of as1] fa(3) by (auto simp: as' book_ok_def one_default_counts split: if_splits)
  next
    case True
    then obtain s where s: "newest (live_addresses cid as1) = Some s" by auto
    then have as': "as' = map (\<lambda>x. if ad_id x = ad_id s then x\<lparr>ad_default := True\<rparr> else x) as1"
      using assms(1) a fa(2) True by (auto simp: remove_address_def as1_def Let_def)
    have s_in: "s \<in> set as1" "ad_client s = cid" "\<not> ad_deleted s"
      using newest_in [OF s] by (auto simp: live_addresses_def)
    have live2: "count_where ?live as' = count_where ?live as1"
      and def2: "count_where ?def as' + (if cid = c \<and> ad_default s then 1 else 0) =
        count_where ?def as1 + (if cid = c then 1 else 0)"
      using count_change [OF d1 s_in(1), of ?live "\<lambda>x. x\<lparr>ad_default := True\<rparr>"]
        count_change [OF d1 s_in(1), of ?def "\<lambda>x. x\<lparr>ad_default := True\<rparr>"] s_in
      by (simp_all add: as' split: if_splits)
    have pos: "0 < count_where P xs" if "x \<in> set xs" "P x" for P x xs
      using that unfolding count_where_def by (metis length_pos_if_in_set mem_Collect_eq set_filter)
    have nolive: "cid = c \<Longrightarrow> count_where ?live as1 \<noteq> 0" using pos [OF s_in(1), of ?live] s_in by auto
    have "ad_default s \<Longrightarrow> cid = c \<Longrightarrow> 0 < count_where ?def as1" using pos [OF s_in(1), of ?def] s_in by auto
    then have "cid = c \<Longrightarrow> \<not> ad_default s" using def1 inv True by (auto split: if_splits)
    moreover have "distinct (map ad_id as')" using d1 unfolding as' by (subst keys) simp_all
    ultimately show ?thesis
      using inv live1 def1 live2 def2 nolive True by (auto simp: book_ok_def one_default_counts split: if_splits)
  qed
qed

lemma setDefault_keeps:
  assumes "setDefault cid aid as = Inr as'" and "book_ok as" and "one_default c as"
  shows "book_ok as' \<and> one_default c as'"
proof -
  from assms(1) obtain a where a: "find_address cid aid as = Inr a"
    by (auto simp: setDefault_def bindE_eq_Inr)
  note fa = find_address_Some [OF a]
  show ?thesis
  proof (cases "ad_default a")
    case True
    then show ?thesis using assms a by (auto simp: setDefault_def)
  next
    case False
    let ?as = "clearDefault cid as"
    have as': "as' = save_by ad_id (a\<lparr>ad_default := True\<rparr>) ?as" using assms(1) a False by (simp add: setDefault_def)
    have a_in: "a \<in> set ?as" using fa(1) False by (force simp: clearDefault_def)
    have d: "distinct (map ad_id ?as)" using assms(2) by (simp add: book_ok_def clear_keys)
    have r: "ad_id (a\<lparr>ad_default := True\<rparr>) = ad_id a" by simp
    note cnt = count_save [OF d a_in r]
    have "0 < count_where (\<lambda>a. ad_client a = cid \<and> \<not> ad_deleted a) as"
      using fa unfolding count_where_def by (metis (mono_tags, lifting) length_pos_if_in_set mem_Collect_eq set_filter)
    then show ?thesis
      using assms(3) d False fa cnt [of "\<lambda>a. ad_client a = c \<and> \<not> ad_deleted a"]
        cnt [of "\<lambda>a. ad_client a = c \<and> \<not> ad_deleted a \<and> ad_default a"]
      by (auto simp: as' book_ok_def save_by_keys one_default_counts count_clear split: if_splits)
  qed
qed

definition book_inv :: "id \<Rightarrow> client_address list \<Rightarrow> bool" where
  "book_inv c as \<longleftrightarrow> book_ok as \<and> one_default c as"

interpretation book: stepwise book_step "book_inv c" for c
proof
  fix s s'
  assume inv: "book_inv c s" and "book_step s s'"
  from this(2) show "book_inv c s'"
    by cases (use inv create_keeps update_keeps remove_keeps setDefault_keeps in \<open>auto simp: book_inv_def\<close>)
qed

text \<open>However the address books are used, a customer with saved addresses always has exactly one default
  among them, one without addresses has none, and nobody ever has more than twenty.\<close>

theorem exactly_one_default_address:
  assumes "book_step\<^sup>*\<^sup>* [] as"
  shows "defaults cid as = (if live_addresses cid as = [] then 0 else 1) \<and>
    length (live_addresses cid as) \<le> MAX_ADDRESSES_PER_CLIENT"
proof -
  have "book_inv cid []" by (simp add: book_inv_def book_ok_def one_default_def defaults_def live_addresses_def)
  from book.run [OF assms this] show ?thesis by (simp add: book_inv_def one_default_def)
qed

definition sample_address :: address_input where
  "sample_address = \<lparr>ai_recipient = None, ai_id_card = None, ai_label = Some ''Casa'', ai_street = ''Calle 23'',
     ai_between = None, ai_reference = None, ai_municipality = 11, ai_phone = None, ai_default = Some True\<rparr>"

theorem exactly_one_default_address_witness:
  "\<exists>as. book_step\<^sup>*\<^sup>* [] as \<and> length (live_addresses 3 as) = 2 \<and> defaults 3 as = 1"
proof -
  define as1 where "as1 = (case create_address sample_geo 1 71 3 sample_address [] of Inr as \<Rightarrow> as | Inl _ \<Rightarrow> [])"
  define as2 where "as2 = (case create_address sample_geo 2 72 3 sample_address as1 of Inr as \<Rightarrow> as | Inl _ \<Rightarrow> [])"
  have "\<not> isl (create_address sample_geo 1 71 3 sample_address [])" by code_simp
  then have 1: "create_address sample_geo 1 71 3 sample_address [] = Inr as1"
    unfolding as1_def by (cases "create_address sample_geo 1 71 3 sample_address []") auto
  have "\<not> isl (create_address sample_geo 2 72 3 sample_address as1)" unfolding as1_def by code_simp
  then have 2: "create_address sample_geo 2 72 3 sample_address as1 = Inr as2"
    unfolding as2_def by (cases "create_address sample_geo 2 72 3 sample_address as1") auto
  have "(72::nat) \<notin> ad_id ` set as1" unfolding as1_def by code_simp
  then have s2: "book_step as1 as2" by (rule Book_create [OF 2])
  have s1: "book_step [] as1" by (rule Book_create [OF 1]) simp
  have r: "book_step\<^sup>*\<^sup>* [] as2" by (rule rtranclp.intros(2) [OF r_into_rtranclp [of book_step, OF s1] s2])
  have len: "length (live_addresses 3 as2) = 2" unfolding as2_def as1_def by code_simp
  then have "live_addresses 3 as2 \<noteq> []" by auto
  then have "defaults 3 as2 = 1" using exactly_one_default_address [OF r, of 3] by simp
  with r len show ?thesis by blast
qed

end
