(* ===== verification/Texts.thy ===== *)
theory Texts
  imports Entities
begin

section \<open>Numbers, amounts and instants as the code prints them\<close>

text \<open>
  \<open>String(n)\<close>, \<open>padStart\<close>, the two decimals of a stored amount and \<open>toISOString\<close>: what the
  services write into order numbers, codes, event values and metadata. Reading a printed number
  back gives the number, so different numbers print differently.
\<close>

definition digit :: "nat \<Rightarrow> char" where
  "digit d = char_of (48 + d)"

fun dec_str :: "nat \<Rightarrow> string" where
  "dec_str n = (if n < 10 then [digit n] else dec_str (n div 10) @ [digit (n mod 10)])"

declare dec_str.simps [simp del]

text \<open>\<open>s.padStart(n, '0')\<close>.\<close>

definition pad_start :: "nat \<Rightarrow> string \<Rightarrow> string" where
  "pad_start n s = replicate (n - length s) (CHR ''0'') @ s"

definition int_str :: "int \<Rightarrow> string" where
  "int_str n = (if n < 0 then ''-'' @ dec_str (nat (- n)) else dec_str (nat n))"

text \<open>An amount as a decimal column reads it: \<open>toFixed(2)\<close> of its cents.\<close>

definition cents_str :: "cents \<Rightarrow> string" where
  "cents_str c = (if c < 0 then ''-'' else []) @
     dec_str (nat (\<bar>c\<bar> div 100)) @ ''.'' @ pad_start 2 (dec_str (nat (\<bar>c\<bar> mod 100)))"

text \<open>
  The civil date of a day number (days since 1970-01-01), by eras of 400 years counted from
  the first of March, and \<open>Date.prototype.toISOString\<close> for the years 0 to 9999.
\<close>

definition civil_date :: "int \<Rightarrow> int \<times> int \<times> int" where
  "civil_date days =
     (let z = days + 719468; era = z div 146097; doe = z mod 146097;
          yoe = (doe - doe div 1460 + doe div 36524 - doe div 146096) div 365;
          doy = doe - (365 * yoe + yoe div 4 - yoe div 100);
          mp = (5 * doy + 2) div 153;
          d = doy - (153 * mp + 2) div 5 + 1;
          m = (if mp < 10 then mp + 3 else mp - 9);
          y = yoe + era * 400 + (if m \<le> 2 then 1 else 0)
      in (y, m, d))"

definition two :: "int \<Rightarrow> string" where
  "two n = pad_start 2 (dec_str (nat n))"

definition iso_string :: "instant \<Rightarrow> string" where
  "iso_string t =
     (let (y, m, d) = civil_date (t div 86400000); ms = t mod 86400000
      in pad_start 4 (dec_str (nat y)) @ ''-'' @ two m @ ''-'' @ two d @ ''T'' @
         two (ms div 3600000) @ '':'' @ two (ms div 60000 mod 60) @ '':'' @ two (ms div 1000 mod 60) @ ''.'' @
         pad_start 3 (dec_str (nat (ms mod 1000))) @ ''Z'')"

subsection \<open>Reading a printed number back\<close>

definition digit_value :: "char \<Rightarrow> nat" where
  "digit_value c = of_char c - 48"

definition read_dec :: "string \<Rightarrow> nat" where
  "read_dec s = fold (\<lambda>c n. 10 * n + digit_value c) s 0"

lemma digit_value_digit: "d < 10 \<Longrightarrow> digit_value (digit d) = d"
  by (simp add: digit_value_def digit_def)

lemma read_dec_snoc: "read_dec (s @ [c]) = 10 * read_dec s + digit_value c"
  by (simp add: read_dec_def)

lemma read_dec_str [simp]: "read_dec (dec_str n) = n"
proof (induction n rule: dec_str.induct)
  case (1 n)
  show ?case
  proof (cases "n < 10")
    case True
    then show ?thesis by (simp add: dec_str.simps [of n] read_dec_def digit_value_digit)
  next
    case False
    then have "read_dec (dec_str n) = 10 * (n div 10) + n mod 10"
      using 1 by (simp add: dec_str.simps [of n] read_dec_snoc digit_value_digit)
    then show ?thesis by presburger
  qed
qed

lemma dec_str_inject [simp]: "dec_str a = dec_str b \<longleftrightarrow> a = b"
  by (metis read_dec_str)

lemma dec_str_nonempty [simp]: "dec_str n \<noteq> []"
  by (subst dec_str.simps) simp

lemma read_dec_zeros: "read_dec (replicate k (CHR ''0'') @ s) = read_dec s"
proof -
  have "fold (\<lambda>c n. 10 * n + digit_value c) (replicate k (CHR ''0'')) 0 = 0"
    by (induction k) (simp_all add: digit_value_def)
  then show ?thesis by (simp add: read_dec_def)
qed

lemma read_pad_start [simp]: "read_dec (pad_start n (dec_str k)) = k"
  by (simp add: pad_start_def read_dec_zeros)

lemma pad_start_inject [simp]: "pad_start n (dec_str a) = pad_start n (dec_str b) \<longleftrightarrow> a = b"
  by (metis read_pad_start)

lemma cents_str_examples:
  "cents_str 1999 = ''19.99''" "cents_str 5 = ''0.05''" "cents_str (- 250) = ''-2.50''"
  by code_simp+

lemma iso_string_example: "iso_string 1784332800000 = ''2026-07-18T00:00:00.000Z''"
  by code_simp

end
