(* ===== verification/Names.thy ===== *)
theory Names
  imports Texts Permissions
begin

section \<open>Slugs and unique names\<close>

text \<open>
  \<open>slugify\<close> (\<open>src/common/utils/catalog-ownership.utils.ts\<close>) and the loop every catalogue uses to find a
  free name: the base, then \<open>base-2\<close>, \<open>base-3\<close>, ... The folding of accents (\<open>normalize('NFD')\<close> and the
  removal of combining marks) is the parameter \<open>unaccent\<close>.
\<close>

definition lower :: "char \<Rightarrow> char" where
  "lower c = (let n = of_char c :: nat in if 65 \<le> n \<and> n \<le> 90 then char_of (n + 32) else c)"

definition upper :: "char \<Rightarrow> char" where
  "upper c = (let n = of_char c :: nat in if 97 \<le> n \<and> n \<le> 122 then char_of (n - 32) else c)"

definition slug_char :: "char \<Rightarrow> bool" where
  "slug_char c = (let n = of_char c :: nat in (48 \<le> n \<and> n \<le> 57) \<or> (97 \<le> n \<and> n \<le> 122))"

text \<open>\<open>replace(/[^\da-z]+/gi, '-')\<close>: a run of other characters becomes one dash.\<close>

fun dash_runs :: "bool \<Rightarrow> string \<Rightarrow> string" where
  "dash_runs in_run [] = []"
| "dash_runs in_run (c # cs) =
     (if slug_char c then c # dash_runs False cs
      else if in_run then dash_runs True cs else CHR ''-'' # dash_runs True cs)"

text \<open>\<open>replace(/-+/g, '-')\<close>.\<close>

fun single_dashes :: "string \<Rightarrow> string" where
  "single_dashes (a # b # cs) = (if a = CHR ''-'' \<and> b = CHR ''-'' then single_dashes (b # cs) else a # single_dashes (b # cs))"
| "single_dashes cs = cs"

text \<open>\<open>replace(/^-|-$/g, '')\<close>: one dash at each end.\<close>

definition trim_dashes :: "string \<Rightarrow> string" where
  "trim_dashes s =
     (let t = (case s of c # cs \<Rightarrow> if c = CHR ''-'' then cs else s | [] \<Rightarrow> [])
      in if t \<noteq> [] \<and> last t = CHR ''-'' then butlast t else t)"

definition slugify :: "(string \<Rightarrow> string) \<Rightarrow> string \<Rightarrow> string" where
  "slugify unaccent v =
     (let s = trim_dashes (single_dashes (dash_runs False (js_trim (map lower (unaccent v)))))
      in if s = [] then ''item'' else s)"

subsection \<open>What a slug looks like\<close>

fun spaced :: "string \<Rightarrow> bool" where
  "spaced (a # b # cs) \<longleftrightarrow> \<not> (a = CHR ''-'' \<and> b = CHR ''-'') \<and> spaced (b # cs)"
| "spaced _ \<longleftrightarrow> True"

definition slug_ok :: "string \<Rightarrow> bool" where
  "slug_ok s \<longleftrightarrow> s \<noteq> [] \<and> (\<forall>c \<in> set s. slug_char c \<or> c = CHR ''-'') \<and> spaced s \<and> hd s \<noteq> CHR ''-'' \<and> last s \<noteq> CHR ''-''"

lemma dash_not_slug [simp]: "\<not> slug_char (CHR ''-'')"
  by (simp add: slug_char_def)

lemma dash_runs_chars: "c \<in> set (dash_runs b s) \<Longrightarrow> slug_char c \<or> c = CHR ''-''"
  by (induction b s rule: dash_runs.induct) (auto split: if_splits)

lemma dash_runs_start: "dash_runs True s \<noteq> [] \<Longrightarrow> hd (dash_runs True s) \<noteq> CHR ''-''"
  by (induction s) auto

lemma spaced_Cons: "spaced (a # s) \<longleftrightarrow> spaced s \<and> \<not> (a = CHR ''-'' \<and> s \<noteq> [] \<and> hd s = CHR ''-'')"
  by (cases s) auto

lemma dash_runs_spaced: "spaced (dash_runs b s)"
  using dash_runs_start by (induction b s rule: dash_runs.induct) (auto simp: spaced_Cons)

lemma single_dashes_id: "spaced s \<Longrightarrow> single_dashes s = s"
  by (induction s rule: single_dashes.induct) auto

lemma hd_of_butlast: "butlast s \<noteq> [] \<Longrightarrow> hd (butlast s) = hd s"
  by (cases s) (auto split: if_splits)

lemma spaced_butlast: "spaced s \<Longrightarrow> spaced (butlast s)"
proof (induction s)
  case (Cons a s)
  then show ?case by (cases s) (auto simp: spaced_Cons hd_of_butlast)
qed simp

lemma spaced_last2: "spaced s \<Longrightarrow> s \<noteq> [] \<Longrightarrow> last s = CHR ''-'' \<Longrightarrow> butlast s \<noteq> [] \<Longrightarrow> last (butlast s) \<noteq> CHR ''-''"
proof (induction s)
  case (Cons a s)
  then show ?case by (cases s; cases "tl s") (auto simp: spaced_Cons split: if_splits)
qed simp

lemma trim_dashes_ok:
  assumes "spaced s" and "\<forall>c \<in> set s. slug_char c \<or> c = CHR ''-''" and "trim_dashes s \<noteq> []"
  shows "slug_ok (trim_dashes s)"
proof -
  define t where "t = (case s of c # cs \<Rightarrow> if c = CHR ''-'' then cs else s | [] \<Rightarrow> [])"
  have t: "spaced t" "set t \<subseteq> set s" "t \<noteq> [] \<Longrightarrow> hd t \<noteq> CHR ''-''"
    using assms(1) by (auto simp: t_def spaced_Cons split: list.splits if_splits)
  have d: "trim_dashes s = (if t \<noteq> [] \<and> last t = CHR ''-'' then butlast t else t)"
    by (simp add: trim_dashes_def Let_def t_def)
  show ?thesis
  proof (cases "t \<noteq> [] \<and> last t = CHR ''-''")
    case True
    then have b: "butlast t \<noteq> []" using assms(3) d by simp
    then have "hd (butlast t) = hd t" by (simp add: hd_of_butlast)
    then show ?thesis
      using True b t spaced_butlast [OF t(1)] spaced_last2 [OF t(1)] assms(2) in_set_butlastD [of _ t]
      by (auto simp: slug_ok_def d)
  next
    case False
    then show ?thesis using t assms(2,3) d by (auto simp: slug_ok_def)
  qed
qed

lemma slugify_ok: "slug_ok (slugify unaccent v)"
proof -
  define s where "s = trim_dashes (single_dashes (dash_runs False (js_trim (map lower (unaccent v)))))"
  show ?thesis
  proof (cases "s = []")
    case True
    have "slug_ok ''item''" by code_simp
    then show ?thesis using True by (simp add: slugify_def s_def)
  next
    case False
    have "slug_ok s"
      unfolding s_def single_dashes_id [OF dash_runs_spaced]
      by (rule trim_dashes_ok [OF dash_runs_spaced])
        (use False dash_runs_chars in \<open>auto simp: s_def single_dashes_id [OF dash_runs_spaced]\<close>)
    then show ?thesis using False by (simp add: slugify_def s_def)
  qed
qed

subsection \<open>A free name\<close>

text \<open>\<open>fuel\<close> bounds the turns of the loop; one more than the names taken is always enough.\<close>

fun next_code :: "nat \<Rightarrow> string \<Rightarrow> nat \<Rightarrow> string \<Rightarrow> string list \<Rightarrow> string option" where
  "next_code 0 base suffix code taken = None"
| "next_code (Suc fuel) base suffix code taken =
     (if code \<in> set taken then next_code fuel base (Suc suffix) (base @ ''-'' @ dec_str suffix) taken
      else Some code)"

lemma next_code_free: "next_code fuel base suffix code taken = Some c \<Longrightarrow> c \<notin> set taken"
  by (induction fuel base suffix code taken rule: next_code.induct) (auto split: if_splits)

lemma next_code_prefix:
  "next_code fuel base suffix code taken = Some c \<Longrightarrow> take (length base) code = base \<Longrightarrow> take (length base) c = base"
  by (induction fuel base suffix code taken rule: next_code.induct) (auto split: if_splits)

text \<open>The candidates of the loop are all different, so one of them is free.\<close>

lemma next_code_total:
  assumes "finite T" and "T = set taken" and "card {c \<in> T. c = code \<or> (\<exists>k \<ge> suffix. c = base @ ''-'' @ dec_str k)} < fuel"
    and "\<forall>k \<ge> suffix. code \<noteq> base @ ''-'' @ dec_str k"
  shows "next_code fuel base suffix code taken \<noteq> None"
  using assms
proof (induction fuel base suffix code taken rule: next_code.induct)
  case (1 base suffix code taken)
  then show ?case by simp
next
  case (2 fuel base suffix code taken)
  show ?case
  proof (cases "code \<in> set taken")
    case False
    then show ?thesis by simp
  next
    case True
    let ?A = "{c \<in> T. c = code \<or> (\<exists>k \<ge> suffix. c = base @ ''-'' @ dec_str k)}"
    let ?B = "{c \<in> T. c = base @ ''-'' @ dec_str suffix \<or> (\<exists>k \<ge> Suc suffix. c = base @ ''-'' @ dec_str k)}"
    have "?B \<subseteq> ?A - {code}"
    proof
      fix c assume "c \<in> ?B"
      then obtain k where "c \<in> T" "suffix \<le> k" "c = base @ ''-'' @ dec_str k"
        by auto
      then show "c \<in> ?A - {code}" using "2.prems"(4) by auto
    qed
    moreover have "code \<in> ?A" using True "2.prems"(2) by simp
    moreover have "finite ?A" using "2.prems"(1) by simp
    ultimately have "card ?B < card ?A" by (metis (no_types, lifting) card_Diff1_less card_mono finite_Diff le_less_trans)
    then have "card ?B < fuel" using "2.prems"(3) by simp
    moreover have "\<forall>k \<ge> Suc suffix. base @ ''-'' @ dec_str suffix \<noteq> base @ ''-'' @ dec_str k" by simp
    ultimately show ?thesis using "2.IH" [OF True "2.prems"(1,2)] True by simp
  qed
qed

lemma next_code_exists: "\<exists>c. next_code (Suc (length taken)) base 2 base taken = Some c"
proof -
  have "card {c \<in> set taken. c = base \<or> (\<exists>k \<ge> 2. c = base @ ''-'' @ dec_str k)} \<le> card (set taken)"
    by (intro card_mono) auto
  also have "\<dots> \<le> length taken" by (rule card_length)
  finally have "next_code (Suc (length taken)) base 2 base taken \<noteq> None"
    by (intro next_code_total [of "set taken"]) auto
  then show ?thesis by auto
qed

end
