(* ===== verification/Payment_Methods.thy ===== *)
theory Payment_Methods
  imports Fulfillment Names
begin

section \<open>The catalogue of payment methods\<close>

text \<open>
  \<open>src/payments/payment-methods.service.ts\<close>: one row per registered gateway plus the methods an
  administrator writes. The registered gateways (credentials present or not, kind of action) are
  the parameter \<open>gateway list\<close>; a code without one falls to the custom manual gateway, which is
  always configured. Presentation columns (description, icon, config) are left out.
\<close>

datatype action_kind = KindRedirect | KindInstructions | KindManual

record gateway =
  gw_code :: string
  gw_kind :: action_kind
  gw_configured :: bool

definition customManualGateway :: gateway where
  "customManualGateway = \<lparr>gw_code = ''custom-manual'', gw_kind = KindManual, gw_configured = True\<rparr>"

definition gatewayFor :: "gateway list \<Rightarrow> string \<Rightarrow> gateway" where
  "gatewayFor gws code = (case List.find (\<lambda>g. gw_code g = code) gws of Some g \<Rightarrow> g | None \<Rightarrow> customManualGateway)"

definition isCashPaymentInstructions :: "json option \<Rightarrow> bool" where
  "isCashPaymentInstructions v = (case v of
       Some (JObj fs) \<Rightarrow> jm_get ''type'' fs = Some (JStr ''cash'') | _ \<Rightarrow> False)"

text \<open>How long a checkout holds the stock, in minutes: cash has no deadline.\<close>

definition holdMinutesFor :: "int \<Rightarrow> int \<Rightarrow> payment_method \<Rightarrow> action_kind \<Rightarrow> int option" where
  "holdMinutesFor gatewayMinutes manualHours m kind =
     (if isCashPaymentInstructions (mt_instructions m) then None
      else if kind = KindManual then Some (manualHours * 60) else Some gatewayMinutes)"

definition SEED :: "string \<Rightarrow> string \<times> int" where
  "SEED code =
     (if code = ''tropipay'' then (''Tarjeta (Tropipay)'', 10)
      else if code = ''mibilletera'' then (''Mi Billetera - Criptomonedas'', 20)
      else if code = ''mibilletera-wallet'' then (''Mi Billetera - Saldo'', 30)
      else if code = ''manual'' then (''Pago manual'', 90)
      else (code, 50))"

definition live_methods :: "payment_method list \<Rightarrow> payment_method list" where
  "live_methods ms = filter (\<lambda>m. \<not> mt_deleted m) ms"

text \<open>\<open>onModuleInit\<close>: a row for each gateway that has none; only \<open>manual\<close> is born enabled.\<close>

definition register_gateway :: "gateway \<Rightarrow> payment_method list \<times> nat \<Rightarrow> payment_method list \<times> nat" where
  "register_gateway g = (\<lambda>(ms, nxt).
     (if gw_code g \<in> mt_code ` set (live_methods ms) then (ms, nxt)
      else (ms @ [\<lparr>mt_id = nxt, mt_code = gw_code g, mt_label = fst (SEED (gw_code g)),
                    mt_sort = snd (SEED (gw_code g)), mt_enabled = (gw_code g = ''manual''),
                    mt_custom = False, mt_instructions = None, mt_deleted = False\<rparr>], Suc nxt)))"

definition methods_onModuleInit :: "gateway list \<Rightarrow> payment_method list \<times> nat \<Rightarrow> payment_method list \<times> nat" where
  "methods_onModuleInit gws = fold register_gateway gws"

record method_patch =
  mp_enabled :: "bool option"
  mp_label :: "string option"
  mp_sort :: "int option"

definition update_method ::
  "gateway list \<Rightarrow> id \<Rightarrow> method_patch \<Rightarrow> payment_method list \<Rightarrow> error + payment_method list" where
  "update_method gws mid dto ms =
     bindE (from_option (NotFound ''Payment method not found'') (List.find (\<lambda>m. mt_id m = mid) (live_methods ms))) (\<lambda>m.
     bindE (guardE (\<not> (mp_enabled dto = Some True \<and> \<not> gw_configured (gatewayFor gws (mt_code m))))
              (BadRequest ''no credentials configured in this environment'')) (\<lambda>_.
     Inr (save_by mt_id (m\<lparr>mt_enabled := (case mp_enabled dto of None \<Rightarrow> mt_enabled m | Some b \<Rightarrow> b),
            mt_label := (case mp_label dto of None \<Rightarrow> mt_label m | Some t \<Rightarrow> t),
            mt_sort := (case mp_sort dto of None \<Rightarrow> mt_sort m | Some n \<Rightarrow> n)\<rparr>) ms)))"

definition remove_method :: "id \<Rightarrow> payment_method list \<Rightarrow> error + payment_method list" where
  "remove_method mid ms =
     bindE (from_option (NotFound ''Payment method not found'') (List.find (\<lambda>m. mt_id m = mid) (live_methods ms))) (\<lambda>m.
     bindE (guardE (mt_custom m) (BadRequest ''Una pasarela integrada no se borra; desactivala.'')) (\<lambda>_.
     Inr (map (\<lambda>x. if mt_id x = mid then x\<lparr>mt_deleted := True\<rparr> else x) ms)))"

subsection \<open>A code for a custom method\<close>

text \<open>\<open>slug\<close> is \<open>slugify(label).slice(0, 28)\<close>, or the time-stamped code when that is empty.\<close>

definition uniqueCodeFor :: "gateway list \<Rightarrow> string \<Rightarrow> payment_method list \<Rightarrow> error + string" where
  "uniqueCodeFor gws slug ms =
     bindE (guardE (slug \<notin> gw_code ` set gws) (BadRequest ''choca con una pasarela integrada; usa otro nombre.'')) (\<lambda>_.
     from_option (InternalError ''no code'') (next_code (Suc (length ms)) slug 2 slug (map mt_code ms)))"

record method_dto =
  md_label :: string
  md_sort :: "int option"
  md_enabled :: "bool option"
  md_instructions :: json

definition create_method ::
  "gateway list \<Rightarrow> string \<Rightarrow> method_dto \<Rightarrow> payment_method list \<times> nat \<Rightarrow> error + payment_method list \<times> nat" where
  "create_method gws slug dto = (\<lambda>(ms, nxt).
     bindE (uniqueCodeFor gws slug ms) (\<lambda>code.
     Inr (ms @ [\<lparr>mt_id = nxt, mt_code = code, mt_label = md_label dto,
                  mt_sort = (case md_sort dto of None \<Rightarrow> 50 | Some n \<Rightarrow> n),
                  mt_enabled = (case md_enabled dto of None \<Rightarrow> False | Some b \<Rightarrow> b), mt_custom = True,
                  mt_instructions = Some (md_instructions dto), mt_deleted = False\<rparr>], Suc nxt)))"

subsection \<open>The method of an attempt\<close>

definition cmp_method :: "collation \<Rightarrow> payment_method \<Rightarrow> payment_method \<Rightarrow> int" where
  "cmp_method collate a b =
     (if mt_sort a \<noteq> mt_sort b then mt_sort a - mt_sort b else collate (mt_label a) (mt_label b))"

definition findAvailable :: "collation \<Rightarrow> gateway list \<Rightarrow> payment_method list \<Rightarrow> payment_method list" where
  "findAvailable collate gws ms =
     filter (\<lambda>m. gw_configured (gatewayFor gws (mt_code m)))
       (js_sort (cmp_method collate) (filter mt_enabled (live_methods ms)))"

definition resolve_method ::
  "collation \<Rightarrow> gateway list \<Rightarrow> payment_method list \<Rightarrow> string option \<Rightarrow> error + payment_method" where
  "resolve_method collate gws ms requested =
     (let avail = findAvailable collate gws ms in
      if requested \<noteq> None \<and> requested \<noteq> Some [] then
        from_option (BadRequest ''Payment method is not available'') (List.find (\<lambda>m. Some (mt_code m) = requested) avail)
      else case avail of
          m # _ \<Rightarrow> Inr m
        | [] \<Rightarrow> from_option (NotFound ''No hay ningun metodo de pago disponible'')
                  (List.find (\<lambda>m. mt_code m = ''manual'') (live_methods ms)))"

subsection \<open>Properties\<close>

text \<open>Creating a method always finds it a code: the numbering of repeated labels ends after at most as many turns
  as there are rows, and the code is new, among deleted methods too, unless the label is a gateway's own code.\<close>

theorem uniqueCodeFor_total:
  "case uniqueCodeFor gws slug ms of
      Inl e \<Rightarrow> slug \<in> gw_code ` set gws \<and> e = BadRequest ''choca con una pasarela integrada; usa otro nombre.''
    | Inr code \<Rightarrow> slug \<notin> gw_code ` set gws \<and> code \<notin> mt_code ` set ms \<and> take (length slug) code = slug"
proof (cases "slug \<in> gw_code ` set gws")
  case True
  then show ?thesis by (auto simp: uniqueCodeFor_def)
next
  case False
  obtain code where code: "next_code (Suc (length ms)) slug 2 slug (map mt_code ms) = Some code"
    using next_code_exists [of "map mt_code ms" slug] by auto
  then show ?thesis
    using False next_code_free [OF code] next_code_prefix [OF code] by (simp add: uniqueCodeFor_def)
qed

lemma findAvailable_iff:
  "m \<in> set (findAvailable collate gws ms) \<longleftrightarrow>
     m \<in> set ms \<and> \<not> mt_deleted m \<and> mt_enabled m \<and> gw_configured (gatewayFor gws (mt_code m))"
  by (auto simp: findAvailable_def live_methods_def)

text \<open>A payment attempt gets a method the shop offers: the one asked for, live, enabled and with credentials, or an
  error; with none asked for, an available one, and only when there is none at all the manual fallback.\<close>

theorem resolve_method_available:
  "case resolve_method collate gws ms requested of
      Inr m \<Rightarrow> m \<in> set ms \<and> \<not> mt_deleted m \<and>
        (if mt_enabled m \<and> gw_configured (gatewayFor gws (mt_code m))
         then requested = None \<or> requested = Some [] \<or> requested = Some (mt_code m)
         else (requested = None \<or> requested = Some []) \<and> mt_code m = ''manual'' \<and> findAvailable collate gws ms = [])
    | Inl e \<Rightarrow> (if requested = None \<or> requested = Some [] then findAvailable collate gws ms = []
        else \<not> (\<exists>m \<in> set ms. \<not> mt_deleted m \<and> mt_enabled m \<and> gw_configured (gatewayFor gws (mt_code m)) \<and>
               requested = Some (mt_code m)))"
proof (cases "requested \<noteq> None \<and> requested \<noteq> Some []")
  case True
  then have r: "resolve_method collate gws ms requested =
      from_option (BadRequest ''Payment method is not available'')
        (List.find (\<lambda>m. Some (mt_code m) = requested) (findAvailable collate gws ms))"
    by (simp add: resolve_method_def Let_def)
  show ?thesis
  proof (cases "List.find (\<lambda>m. Some (mt_code m) = requested) (findAvailable collate gws ms)")
    case None
    then have "\<not> (\<exists>m \<in> set (findAvailable collate gws ms). Some (mt_code m) = requested)"
      by (simp add: find_None_iff)
    then show ?thesis unfolding r None using True by (auto simp: findAvailable_iff)
  next
    case (Some m)
    then have "m \<in> set (findAvailable collate gws ms)" "requested = Some (mt_code m)"
      by (auto simp: find_Some_iff)
    then show ?thesis unfolding r Some by (auto simp: findAvailable_iff)
  qed
next
  case False
  then have r: "resolve_method collate gws ms requested = (case findAvailable collate gws ms of
          m # _ \<Rightarrow> Inr m
        | [] \<Rightarrow> from_option (NotFound ''No hay ningun metodo de pago disponible'')
                  (List.find (\<lambda>m. mt_code m = ''manual'') (live_methods ms)))"
    by (auto simp: resolve_method_def Let_def)
  show ?thesis
  proof (cases "findAvailable collate gws ms")
    case Nil
    show ?thesis
    proof (cases "List.find (\<lambda>m. mt_code m = ''manual'') (live_methods ms)")
      case None
      then show ?thesis using False unfolding r Nil by auto
    next
      case (Some m)
      then have m: "m \<in> set (live_methods ms)" "mt_code m = ''manual''" by (auto simp: find_Some_iff)
      have "m \<notin> set (findAvailable collate gws ms)" using Nil by simp
      with m have "m \<in> set ms \<and> \<not> mt_deleted m \<and> \<not> (mt_enabled m \<and> gw_configured (gatewayFor gws (mt_code m)))"
        unfolding findAvailable_iff by (auto simp: live_methods_def)
      then show ?thesis unfolding r Nil list.case Some from_option_simps sum.case using False m(2) by auto
    qed
  next
    case (Cons m rest)
    then have "m \<in> set (findAvailable collate gws ms)" by simp
    then have "m \<in> set ms \<and> \<not> mt_deleted m \<and> mt_enabled m \<and> gw_configured (gatewayFor gws (mt_code m))"
      by (rule findAvailable_iff [THEN iffD1])
    then show ?thesis using False unfolding r Cons by auto
  qed
qed

end
