(* ===== verification/Order_Model.thy ===== *)
theory Order_Model
  imports Client_Addresses Payment_Methods
begin

section \<open>Orders: states, snapshots, history and stock\<close>

text \<open>
  What every operation of \<open>src/orders/orders.service.ts\<close> shares: the environment of a request,
  the state machines, the snapshots an order keeps, the history (\<open>order-events.service.ts\<close>), and
  the stock an order may hold. The environment carries what the process reads from outside: the
  clock, the year of the server, the time zone of Havana, the collation of the database, the
  registered gateways and the random bytes of the tracking link.
\<close>

record env =
  e_now :: instant
  e_year :: nat
  e_hv :: havana
  e_collate :: collation
  e_gateways :: "gateway list"
  e_random :: string

subsection \<open>State machines\<close>

datatype stock_phase = Held | Committed | Returned

text \<open>\<open>released\<close> in the source.\<close>

fun stockPhase :: "order_status \<Rightarrow> stock_phase" where
  "stockPhase PENDING = Held"
| "stockPhase CANCELLED = Returned"
| "stockPhase _ = Committed"

fun TRANSITIONS :: "order_status \<Rightarrow> order_status list" where
  "TRANSITIONS PENDING = [CONFIRMED, CANCELLED]"
| "TRANSITIONS CONFIRMED = [PROCESSING, CANCELLED]"
| "TRANSITIONS PROCESSING = [SHIPPED, CANCELLED]"
| "TRANSITIONS SHIPPED = [DELIVERED, CANCELLED]"
| "TRANSITIONS DELIVERED = []"
| "TRANSITIONS CANCELLED = []"

fun PAYMENT_TRANSITIONS :: "payment_status \<Rightarrow> payment_status list" where
  "PAYMENT_TRANSITIONS PayPending = [PayPaid, PayFailed]"
| "PAYMENT_TRANSITIONS PayFailed = [PayPaid, PayPending]"
| "PAYMENT_TRANSITIONS PayPaid = [PayRefunded]"
| "PAYMENT_TRANSITIONS PayRefunded = []"

definition STAFF_TARGETS :: "order_status list" where
  "STAFF_TARGETS = [PROCESSING, SHIPPED, DELIVERED]"

definition FORWARD_CHAIN :: "order_status list" where
  "FORWARD_CHAIN = [PENDING, CONFIRMED, PROCESSING, SHIPPED, DELIVERED]"

text \<open>\<open>Array.prototype.indexOf\<close>.\<close>

fun index_of :: "'a \<Rightarrow> 'a list \<Rightarrow> int" where
  "index_of x [] = - 1"
| "index_of x (y # ys) = (if x = y then 0 else (let i = index_of x ys in if i < 0 then - 1 else i + 1))"

subsection \<open>Snapshots\<close>

record contact =
  ct_name :: "string option"
  ct_id_card :: "string option"
  ct_phone :: "string option"

text \<open>Identifiers inside a \<open>jsonb\<close> are their text.\<close>

definition id_json :: "id \<Rightarrow> json" where
  "id_json i = JStr (dec_str i)"

definition snapshotAddress :: "client_address \<Rightarrow> (string \<times> string) option \<Rightarrow> json" where
  "snapshotAddress a place = JObj [
     (''label'', json_opt (ad_label a)), (''street'', JStr (ad_street a)),
     (''betweenStreets'', json_opt (ad_between a)), (''reference'', json_opt (ad_reference a)),
     (''municipalityId'', id_json (ad_municipality a)),
     (''municipalityName'', json_opt (map_option fst place)),
     (''provinceName'', json_opt (map_option snd place)),
     (''contactPhone'', json_opt (ad_phone a))]"

definition snapshotContact :: "contact option \<Rightarrow> json option" where
  "snapshotContact source = (case source of None \<Rightarrow> None
     | Some c \<Rightarrow>
         (let name = trimmed (ct_name c); idc = trimmed (ct_id_card c); phone = trimmed (ct_phone c)
          in if name = None \<and> idc = None \<and> phone = None then None
             else Some (JObj [(''recipientName'', json_opt name), (''idCard'', json_opt idc),
                              (''contactPhone'', json_opt phone)])))"

text \<open>A text or null field of a free-form object; anything else counts as absent.\<close>

definition comoTextoOAusente :: "json option \<Rightarrow> string option" where
  "comoTextoOAusente v = (case v of Some (JStr t) \<Rightarrow> Some t | _ \<Rightarrow> None)"

definition contactoDesdeDireccion :: "json option \<Rightarrow> contact option" where
  "contactoDesdeDireccion address = (case address of None \<Rightarrow> None
     | Some a \<Rightarrow> Some \<lparr>ct_name = comoTextoOAusente (json_field ''recipientName'' a),
         ct_id_card = comoTextoOAusente (json_field ''idCard'' a),
         ct_phone = comoTextoOAusente (json_field ''contactPhone'' a)\<rparr>)"

definition address_contact :: "client_address \<Rightarrow> contact" where
  "address_contact a = \<lparr>ct_name = ad_recipient a, ct_id_card = ad_id_card a, ct_phone = ad_phone a\<rparr>"

subsection \<open>Rows of the order tables\<close>

definition find_order :: "db \<Rightarrow> id \<Rightarrow> order option" where
  "find_order d oid = List.find (\<lambda>ord. o_id ord = oid \<and> \<not> o_deleted ord) (d_orders d)"

definition order_or_404 :: "db \<Rightarrow> id \<Rightarrow> error + order" where
  "order_or_404 d oid = from_option (NotFound ''Order not found'') (find_order d oid)"

definition client_order_or_404 :: "db \<Rightarrow> id \<Rightarrow> id \<Rightarrow> error + order" where
  "client_order_or_404 d cid oid = from_option (NotFound ''Order not found'')
     (List.find (\<lambda>ord. o_id ord = oid \<and> o_client ord = cid \<and> \<not> o_deleted ord) (d_orders d))"

definition save_order :: "order \<Rightarrow> db \<Rightarrow> db" where
  "save_order ord d = d\<lparr>d_orders := save_by o_id ord (d_orders d)\<rparr>"

definition items_of_order :: "db \<Rightarrow> id \<Rightarrow> order_item list" where
  "items_of_order d oid = filter (\<lambda>it. it_order it = oid) (d_items d)"

definition item_lines :: "order_item list \<Rightarrow> (id \<times> int) list" where
  "item_lines its = map (\<lambda>it. (it_product it, it_quantity it)) its"

text \<open>\<open>OrderEventsService.record\<close>: one more row of history, at the present instant.\<close>

definition record_event ::
  "env \<Rightarrow> id \<Rightarrow> event_kind \<Rightarrow> event_actor \<Rightarrow> string option \<Rightarrow> string option \<Rightarrow> string option \<Rightarrow>
   string option \<Rightarrow> (string \<times> json) list option \<Rightarrow> db \<Rightarrow> db" where
  "record_event e oid kind actor field previous next_value reason meta d =
     d\<lparr>d_events := d_events d @ [\<lparr>ev_order = oid, ev_kind = kind, ev_actor = actor, ev_field = field,
        ev_previous = previous, ev_next = next_value, ev_reason = reason, ev_meta = meta, ev_at = e_now e\<rparr>]\<rparr>"

subsection \<open>The stock of an order\<close>

text \<open>The storages that cover the municipality, and the pickup counter on top of them.\<close>

definition with_counter :: "db \<Rightarrow> id option \<Rightarrow> id option \<Rightarrow> id list option" where
  "with_counter d mid counter =
     (let covering = (case mid of None \<Rightarrow> None
                      | Some m \<Rightarrow> Some (coveringLocationIds (d_storage d) (d_geo d) None (Some m)))
      in case (covering, counter) of (Some ids, Some l) \<Rightarrow> Some (js_set (ids @ [l])) | _ \<Rightarrow> covering)"

definition resolveAllowedLocationIds :: "db \<Rightarrow> id option \<Rightarrow> fulfillment_choice \<Rightarrow> id list option" where
  "resolveAllowedLocationIds d mid choice = with_counter d mid (fc_pickup_location choice)"

definition allowedLocationsFor :: "db \<Rightarrow> order \<Rightarrow> id list option" where
  "allowedLocationsFor d ord = with_counter d (o_municipality ord) (o_pickup_location ord)"

definition reserve_ctx :: "env \<Rightarrow> db \<Rightarrow> id list option \<Rightarrow> id option \<Rightarrow> reserve_context" where
  "reserve_ctx e d allowed preferred = (l_locations (d_storage d), allowed, preferred, e_now e)"

definition reserve_line ::
  "env \<Rightarrow> id list option \<Rightarrow> id option \<Rightarrow> id \<Rightarrow> id \<Rightarrow> int \<Rightarrow> db \<Rightarrow> error + db" where
  "reserve_line e allowed preferred oid p n d =
     bindE (reserve_in (reserve_ctx e d allowed preferred) oid p n (d_stock d)) (\<lambda>st.
     Inr (d\<lparr>d_stock := st\<rparr>))"

text \<open>A stock conflict is told with the line's name; any other error passes.\<close>

definition named_conflict :: "string \<Rightarrow> error + 'a \<Rightarrow> error + 'a" where
  "named_conflict name r = (case r of Inl e \<Rightarrow>
       Inl (if is_conflict e then Conflict (''No hay stock suficiente de '' @ name) else e) | Inr x \<Rightarrow> Inr x)"

definition reserveOrderItems :: "env \<Rightarrow> order \<Rightarrow> id list option \<Rightarrow> db \<Rightarrow> error + db" where
  "reserveOrderItems e ord allowed d =
     foldE (\<lambda>it d. named_conflict (it_name it)
         (reserve_line e allowed (o_pickup_location ord) (o_id ord) (it_product it) (it_quantity it) d))
       (items_of_order d (o_id ord)) d"

definition release_order :: "id \<Rightarrow> id option \<Rightarrow> reservation_status \<Rightarrow> db \<Rightarrow> error + db" where
  "release_order oid uo final d =
     bindE (release_reservations oid uo final (d_stock d)) (\<lambda>st. Inr (d\<lparr>d_stock := st\<rparr>))"

definition confirm_order :: "id \<Rightarrow> id \<Rightarrow> db \<Rightarrow> db" where
  "confirm_order oid u d = d\<lparr>d_stock := confirm_reservations oid u (d_stock d)\<rparr>"

subsection \<open>Frames\<close>

named_theorems db_frames

lemma record_event_frame [simp, db_frames]:
  "d_stock (record_event e oid k a f p n r m d) = d_stock d"
  "d_orders (record_event e oid k a f p n r m d) = d_orders d"
  "d_items (record_event e oid k a f p n r m d) = d_items d"
  "d_cart (record_event e oid k a f p n r m d) = d_cart d"
  "d_charges (record_event e oid k a f p n r m d) = d_charges d"
  "d_refunds (record_event e oid k a f p n r m d) = d_refunds d"
  "d_storage (record_event e oid k a f p n r m d) = d_storage d"
  "d_geo (record_event e oid k a f p n r m d) = d_geo d"
  "d_products (record_event e oid k a f p n r m d) = d_products d"
  "d_next (record_event e oid k a f p n r m d) = d_next d"
  "d_seq (record_event e oid k a f p n r m d) = d_seq d"
  by (simp_all add: record_event_def)

lemma save_order_frame [simp, db_frames]:
  "d_stock (save_order ord d) = d_stock d"
  "d_items (save_order ord d) = d_items d"
  "d_events (save_order ord d) = d_events d"
  "d_cart (save_order ord d) = d_cart d"
  "d_charges (save_order ord d) = d_charges d"
  "d_refunds (save_order ord d) = d_refunds d"
  "d_storage (save_order ord d) = d_storage d"
  "d_geo (save_order ord d) = d_geo d"
  "d_products (save_order ord d) = d_products d"
  "d_next (save_order ord d) = d_next d"
  "d_seq (save_order ord d) = d_seq d"
  "d_orders (save_order ord d) = save_by o_id ord (d_orders d)"
  by (simp_all add: save_order_def)

lemma find_order_Some:
  "find_order d oid = Some ord \<Longrightarrow> ord \<in> set (d_orders d) \<and> o_id ord = oid \<and> \<not> o_deleted ord"
  by (auto simp: find_order_def find_Some_iff)

lemma client_order_Inr:
  "client_order_or_404 d cid oid = Inr ord \<Longrightarrow>
     ord \<in> set (d_orders d) \<and> o_id ord = oid \<and> o_client ord = cid \<and> \<not> o_deleted ord"
  by (auto simp: client_order_or_404_def find_Some_iff)

lemma order_or_404_Inr [simp]: "order_or_404 d oid = Inr ord \<longleftrightarrow> find_order d oid = Some ord"
  by (simp add: order_or_404_def)

lemma named_conflict_Inr [simp]: "named_conflict name r = Inr x \<longleftrightarrow> r = Inr x"
  by (cases r) (simp_all add: named_conflict_def)

lemma reserve_line_Inr:
  "reserve_line e allowed preferred oid p n d = Inr d' \<longleftrightarrow>
     (\<exists>st. reserve_in (reserve_ctx e d allowed preferred) oid p n (d_stock d) = Inr st \<and> d' = d\<lparr>d_stock := st\<rparr>)"
  by (auto simp: reserve_line_def bindE_eq_Inr)

lemma release_order_Inr:
  "release_order oid uo final d = Inr d' \<longleftrightarrow>
     (\<exists>st. release_reservations oid uo final (d_stock d) = Inr st \<and> d' = d\<lparr>d_stock := st\<rparr>)"
  by (auto simp: release_order_def bindE_eq_Inr)

text \<open>Reserving a list of lines through the database is reserving them in its stock tables.\<close>

lemma reserve_lines_Inr:
  assumes "foldE (\<lambda>x d. named_conflict (nm x) (reserve_line e allowed preferred oid (pr x) (qt x) d)) xs d = Inr d'"
  shows "\<exists>st. foldE (\<lambda>(p, n). reserve_in (reserve_ctx e d allowed preferred) oid p n)
      (map (\<lambda>x. (pr x, qt x)) xs) (d_stock d) = Inr st \<and> d' = d\<lparr>d_stock := st\<rparr>"
  using assms
proof (induction xs arbitrary: d)
  case Nil
  then show ?case by simp
next
  case (Cons x xs)
  then obtain st where st: "reserve_in (reserve_ctx e d allowed preferred) oid (pr x) (qt x) (d_stock d) = Inr st"
    and rest: "foldE (\<lambda>x d. named_conflict (nm x) (reserve_line e allowed preferred oid (pr x) (qt x) d)) xs
      (d\<lparr>d_stock := st\<rparr>) = Inr d'"
    by (auto simp: bindE_eq_Inr reserve_line_Inr)
  have c: "reserve_ctx e (d\<lparr>d_stock := st\<rparr>) allowed preferred = reserve_ctx e d allowed preferred"
    by (simp add: reserve_ctx_def)
  from Cons.IH [OF rest] show ?case unfolding c by (simp add: st)
qed

lemma reserveOrderItems_Inr:
  assumes "reserveOrderItems e ord allowed d = Inr d'"
  shows "\<exists>st. foldE (\<lambda>(p, n). reserve_in (reserve_ctx e d allowed (o_pickup_location ord)) (o_id ord) p n)
      (item_lines (items_of_order d (o_id ord))) (d_stock d) = Inr st \<and> d' = d\<lparr>d_stock := st\<rparr>"
  using reserve_lines_Inr [OF assms [unfolded reserveOrderItems_def]] by (simp add: item_lines_def)

end
