(* ===== verification/Order_Creation.thy ===== *)
theory Order_Creation
  imports Order_Model
begin

section \<open>Where an order is born\<close>

text \<open>
  \<open>crearPedido\<close>, the only place of \<open>src/orders/orders.service.ts\<close> where an order is created, and its
  two callers: \<open>checkout\<close> (the customer's cart) and \<open>crearParaCliente\<close> (an employee for a customer).
  Mail and the background payment attempt of \<open>checkout\<close> happen after the transaction and are not
  part of it. A failed transaction leaves the database as it was: it is an \<open>Inl\<close>.
\<close>

record linea_resuelta =
  lr_product :: id
  lr_name :: string
  lr_quantity :: int
  lr_unit :: num64
  lr_list :: "num64 option"
  lr_discount :: "num64 option"

text \<open>A line of a request; its price is absent, null or a number.\<close>

record order_line =
  ol_product :: id
  ol_quantity :: int
  ol_price :: "num64 option option"

fun mapE :: "('a \<Rightarrow> error + 'b) \<Rightarrow> 'a list \<Rightarrow> error + 'b list" where
  "mapE f [] = Inr []"
| "mapE f (x # xs) = bindE (f x) (\<lambda>y. bindE (mapE f xs) (\<lambda>ys. Inr (y # ys)))"

subsection \<open>Pricing the lines\<close>

definition current_lines :: "order_item list \<Rightarrow> (id \<times> order_item) list" where
  "current_lines its = fold (\<lambda>it m. jm_set (it_product it) it m) its []"

definition price_given :: "order_line \<Rightarrow> num64 option" where
  "price_given line = (case ol_price line of None \<Rightarrow> None | Some x \<Rightarrow> x)"

definition resolve_line :: "db \<Rightarrow> (id \<times> order_item) list \<Rightarrow> order_line \<Rightarrow> error + linea_resuelta" where
  "resolve_line d current line =
     (case jm_get (ol_product line) current of
        Some existing \<Rightarrow> Inr \<lparr>lr_product = ol_product line, lr_name = it_name existing, lr_quantity = ol_quantity line,
            lr_unit = (case price_given line of Some x \<Rightarrow> x | None \<Rightarrow> dec_num (it_unit_price existing)),
            lr_list = None, lr_discount = None\<rparr>
      | None \<Rightarrow>
          bindE (find_product d (ol_product line)) (\<lambda>p.
          bindE (guardE (p_active p \<and> \<not> p_deleted p) (Conflict ''no esta a la venta; no se puede anadir al pedido'')) (\<lambda>_.
          let esDelCatalogo = (ol_price line = None) in
          Inr \<lparr>lr_product = ol_product line, lr_name = p_name p, lr_quantity = ol_quantity line,
            lr_unit = (case price_given line of Some x \<Rightarrow> x | None \<Rightarrow> finalPrice (p_base_price p) (p_discount p)),
            lr_list = (if esDelCatalogo then Some (dec_num (p_base_price p)) else None),
            lr_discount = (if esDelCatalogo then Some (dec_num (p_discount p)) else None)\<rparr>)))"

definition resolveLines :: "db \<Rightarrow> (id \<times> order_item) list \<Rightarrow> order_line list \<Rightarrow> error + linea_resuelta list" where
  "resolveLines d current lines = mapE (resolve_line d current) lines"

text \<open>The products of the order in cents, and as the number the source divides it into.\<close>

definition lines_cents :: "linea_resuelta list \<Rightarrow> int" where
  "lines_cents ls = sum_list (map (\<lambda>l. line_cents (lr_unit l) (lr_quantity l)) ls)"

definition line_total :: "linea_resuelta \<Rightarrow> cents" where
  "line_total l = to_fixed2 (js_div (of_int (line_cents (lr_unit l) (lr_quantity l))) 100)"

subsection \<open>crearPedido\<close>

record pedido_params =
  cp_client :: id
  cp_lines :: "linea_resuelta list"
  cp_choice :: fulfillment_choice
  cp_municipality :: "id option"
  cp_address :: "json option"
  cp_contact :: "json option"
  cp_notes :: "string option"
  cp_allowed :: "id list option"
  cp_actor :: event_actor
  cp_method :: "string option"
  cp_meta :: "(string \<times> json) list"

definition order_number :: "nat \<Rightarrow> nat \<Rightarrow> string" where
  "order_number year seq_no = ''ORD-'' @ dec_str year @ pad_start 4 (dec_str seq_no)"

definition fulfillment_str :: "fulfillment_type \<Rightarrow> string" where
  "fulfillment_str t = (case t of DELIVERY \<Rightarrow> ''delivery'' | PICKUP \<Rightarrow> ''pickup'')"

definition new_order :: "env \<Rightarrow> db \<Rightarrow> pedido_params \<Rightarrow> order" where
  "new_order e d ps =
     (let subtotal = js_div (of_int (lines_cents (cp_lines ps))) 100;
          choice = cp_choice ps;
          fee = feeConPromocion d (fc_option_id choice) subtotal (fc_fee choice)
      in \<lparr>o_id = d_next d, o_number = Some (order_number (e_year e) (d_seq d)), o_seq = d_seq d,
          o_client = cp_client ps, o_status = PENDING, o_payment = PayPending,
          o_tracking = Some (e_random e), o_payment_ref = None,
          o_subtotal = to_fixed2 subtotal, o_delivery_fee = fee,
          o_total = to_fixed2 (js_add subtotal (dec_num fee)),
          o_fulfillment = fc_type choice, o_option_id = fc_option_id choice,
          o_option_label = fc_option_label choice, o_pickup_location = fc_pickup_location choice,
          o_promise_days = fc_promise choice, o_promised_at = None,
          o_pickup_address = fc_pickup_address choice, o_pickup_snapshot = fc_pickup_snapshot choice,
          o_municipality = cp_municipality ps, o_address = cp_address ps, o_contact = cp_contact ps,
          o_notes = cp_notes ps, o_cancellation = None, o_reinstated_at = None, o_reinstated_by = None,
          o_paid_at = None, o_delivered_at = None, o_delivered_by = None, o_picked_up_by = None,
          o_created_at = e_now e, o_deleted = False\<rparr>)"

definition new_item :: "id \<Rightarrow> linea_resuelta \<Rightarrow> db \<Rightarrow> db" where
  "new_item oid l d = d\<lparr>d_items := d_items d @ [\<lparr>it_id = d_next d, it_order = oid, it_product = lr_product l,
       it_name = lr_name l, it_list_price = map_option to_fixed2 (lr_list l),
       it_discount = map_option to_fixed2 (lr_discount l), it_unit_price = to_fixed2 (lr_unit l),
       it_quantity = lr_quantity l, it_line_total = line_total l\<rparr>], d_next := Suc (d_next d)\<rparr>"

definition add_line :: "env \<Rightarrow> id list option \<Rightarrow> id option \<Rightarrow> id \<Rightarrow> linea_resuelta \<Rightarrow> db \<Rightarrow> error + db" where
  "add_line e allowed preferred oid l d =
     bindE (reserve_line e allowed preferred oid (lr_product l) (lr_quantity l) d) (\<lambda>d1.
     Inr (new_item oid l d1))"

definition crearPedido :: "env \<Rightarrow> pedido_params \<Rightarrow> (order \<Rightarrow> db \<Rightarrow> db) \<Rightarrow> db \<Rightarrow> error + id \<times> db" where
  "crearPedido e ps alFinalizar d =
     (let ord = new_order e d ps;
          d1 = d\<lparr>d_orders := d_orders d @ [ord], d_next := Suc (d_next d), d_seq := Suc (d_seq d)\<rparr>
      in bindE (foldE (add_line e (cp_allowed ps) (fc_pickup_location (cp_choice ps)) (o_id ord)) (cp_lines ps) d1) (\<lambda>d2.
         let d3 = record_event e (o_id ord) EvCreated (cp_actor ps) (Some ''status'') None (Some (status_str PENDING)) None
               (Some (cp_meta ps @ [(''total'', JStr (cents_str (o_total ord))),
                 (''fulfillmentType'', JStr (fulfillment_str (fc_type (cp_choice ps)))),
                 (''paymentMethod'', json_opt (cp_method ps))])) d2
         in Inr (o_id ord, alFinalizar ord d3)))"

subsection \<open>checkout\<close>

record checkout_dto =
  co_type :: "fulfillment_type option"
  co_option :: "id option"
  co_pickup :: "id option"
  co_address_id :: "id option"
  co_address :: "address_input option"
  co_contact :: "contact option"
  co_save :: bool
  co_delivery_address :: "json option"
  co_municipality :: "id option"
  co_notes :: "string option"
  co_method :: "string option"

text \<open>The address typed at checkout, not yet a row of the book: its identifier is never read.\<close>

definition detached_address :: "id \<Rightarrow> address_input \<Rightarrow> client_address" where
  "detached_address cid a = \<lparr>ad_id = 0, ad_client = cid, ad_label = ai_label a, ad_street = ai_street a,
     ad_between = ai_between a, ad_reference = ai_reference a, ad_municipality = ai_municipality a,
     ad_recipient = ai_recipient a, ad_id_card = ai_id_card a, ad_phone = ai_phone a, ad_default = False,
     ad_created = 0, ad_deleted = False\<rparr>"

definition resolveAddress :: "db \<Rightarrow> client \<Rightarrow> checkout_dto \<Rightarrow> error + client_address option" where
  "resolveAddress d cl dto =
     (if co_type dto = Some PICKUP then Inr None
      else case co_address_id dto of
          Some aid \<Rightarrow> bindE (find_address (cl_id cl) aid (d_addresses d)) (\<lambda>a. Inr (Some a))
        | None \<Rightarrow> Inr (map_option (detached_address (cl_id cl)) (co_address dto)))"

definition resolvePlace :: "geography \<Rightarrow> client_address \<Rightarrow> (string \<times> string) option" where
  "resolvePlace g a =
     (case List.find (\<lambda>m. mun_id m = ad_municipality a) (g_municipalities g) of
        None \<Rightarrow> None
      | Some m \<Rightarrow> (case jm_get (mun_province m) (g_provinces g) of
            None \<Rightarrow> None | Some name \<Rightarrow> Some (mun_name m, name)))"

definition first_some :: "'a option \<Rightarrow> 'a option \<Rightarrow> 'a option" where
  "first_some a b = (case a of Some x \<Rightarrow> Some x | None \<Rightarrow> b)"

definition cart_linea :: "cart_line \<Rightarrow> linea_resuelta" where
  "cart_linea l = \<lparr>lr_product = cln_product l, lr_name = cln_name l, lr_quantity = cln_quantity l,
     lr_unit = cln_unit_price l, lr_list = Some (cln_base_price l), lr_discount = Some (cln_discount l)\<rparr>"

text \<open>The address is kept in the book after the commit; a failure there does not undo the order.\<close>

definition save_typed_address :: "env \<Rightarrow> client \<Rightarrow> checkout_dto \<Rightarrow> db \<Rightarrow> db" where
  "save_typed_address e cl dto d =
     (case (co_address dto, co_address_id dto) of
        (Some input, None) \<Rightarrow>
          (if co_save dto then
             (case create_address (d_geo d) (e_now e) (d_next d) (cl_id cl) input (d_addresses d) of
                Inl _ \<Rightarrow> d | Inr as \<Rightarrow> d\<lparr>d_addresses := as, d_next := Suc (d_next d)\<rparr>)
           else d)
      | _ \<Rightarrow> d)"

definition checkout_municipality :: "client \<Rightarrow> checkout_dto \<Rightarrow> client_address option \<Rightarrow> id option" where
  "checkout_municipality cl dto address =
     first_some (map_option ad_municipality address) (first_some (co_municipality dto) (cl_default_municipality cl))"

text \<open>What \<open>checkout\<close> hands to \<open>crearPedido\<close>: the cart's lines and the snapshots of address and contact.\<close>

definition checkout_params ::
  "db \<Rightarrow> client \<Rightarrow> checkout_dto \<Rightarrow> client_address option \<Rightarrow> id option \<Rightarrow> fulfillment_choice \<Rightarrow> cart_line list \<Rightarrow> pedido_params" where
  "checkout_params d cl dto address mid choice cart =
     \<lparr>cp_client = cl_id cl, cp_lines = map cart_linea cart, cp_choice = choice, cp_municipality = mid,
      cp_address = (case address of
          Some a \<Rightarrow> Some (snapshotAddress a (resolvePlace (d_geo d) a)) | None \<Rightarrow> co_delivery_address dto),
      cp_contact = snapshotContact (first_some (co_contact dto) (map_option address_contact address)),
      cp_notes = co_notes dto, cp_allowed = resolveAllowedLocationIds d mid choice,
      cp_actor = ActorClient (cl_id cl), cp_method = co_method dto, cp_meta = []\<rparr>"

definition empty_cart :: "id \<Rightarrow> order \<Rightarrow> db \<Rightarrow> db" where
  "empty_cart cid ord d = d\<lparr>d_cart := clearCart cid (d_cart d)\<rparr>"

definition checkout :: "env \<Rightarrow> client \<Rightarrow> checkout_dto \<Rightarrow> db \<Rightarrow> error + id \<times> db" where
  "checkout e cl dto d =
     bindE (resolveAddress d cl dto) (\<lambda>address.
     let mid = checkout_municipality cl dto address in
     bindE (resolveChoice (e_collate e) d (co_type dto) (co_option dto) (co_pickup dto) mid) (\<lambda>choice.
     bindE (guardE (\<not> (fc_type choice = PICKUP \<and> co_contact dto = None))
              (BadRequest ''Faltan los datos de quien recoge el pedido'')) (\<lambda>_.
     let cart = getCart d (cl_id cl) (at_municipality mid) in
     bindE (guardE (cart \<noteq> []) (BadRequest ''Cart is empty'')) (\<lambda>_.
     let unavailable = filter (\<lambda>l. \<not> cln_is_available l) cart in
     bindE (guardE (unavailable = []) (LinesConflict (map (\<lambda>l. (cln_product l, cln_available l)) unavailable))) (\<lambda>_.
     bindE (resolve_method (e_collate e) (e_gateways e) (d_methods d) (co_method dto)) (\<lambda>_.
     bindE (crearPedido e (checkout_params d cl dto address mid choice cart) (empty_cart (cl_id cl)) d) (\<lambda>(oid, d').
     Inr (oid, save_typed_address e cl dto d'))))))))"

subsection \<open>crearParaCliente\<close>

record cobro =
  cb_method :: string
  cb_reference :: "string option"

record client_order_dto =
  cd_client :: id
  cd_items :: "order_line list"
  cd_type :: "fulfillment_type option"
  cd_option :: "id option"
  cd_pickup :: "id option"
  cd_address :: "json option"
  cd_municipality :: "id option"
  cd_contact :: "contact option"
  cd_method :: "string option"
  cd_notes :: "string option"
  cd_cobro :: "cobro option"

text \<open>The \<open>alFinalizar\<close> of a sale already charged: sealed inside the same transaction.\<close>

definition seal_cobro :: "env \<Rightarrow> user \<Rightarrow> cobro \<Rightarrow> order \<Rightarrow> db \<Rightarrow> db" where
  "seal_cobro e u cb ord d =
     record_event e (o_id ord) EvPaymentStatusChanged (ActorAdmin (u_id u)) (Some ''paymentStatus'')
       (Some (payment_str PayPending)) (Some (payment_str PayPaid)) None
       (Some [(''canal'', JStr ''back-office''), (''paymentMethod'', JStr (cb_method cb)),
              (''reference'', json_opt (cb_reference cb))])
       (save_order (sellarCobro (e_hv e) (e_now e) (ord\<lparr>o_payment := PayPaid, o_payment_ref := cb_reference cb\<rparr>)) d)"

text \<open>What is missing: lines whose product is not on sale or lacks stock, with what there is.\<close>

definition faltan :: "db \<Rightarrow> id option \<Rightarrow> order_line list \<Rightarrow> (id \<times> int) list" where
  "faltan d mid items = List.map_filter (\<lambda>l.
     (let avail = availableForArea (d_storage d) (d_geo d) (d_stock d) (at_municipality mid) (ol_product l) in
      case find_product d (ol_product l) of
        Inl _ \<Rightarrow> Some (ol_product l, avail)
      | Inr p \<Rightarrow> (if p_active p \<and> \<not> p_deleted p \<and> ol_quantity l \<le> avail then None else Some (ol_product l, avail)))) items"

definition municipio_contradictorio :: "client_order_dto \<Rightarrow> id option \<Rightarrow> bool" where
  "municipio_contradictorio dto mid =
     (case Option.bind (cd_address dto) (json_field ''municipalityId'') of
        Some (JStr t) \<Rightarrow> t \<noteq> [] \<and> Some t \<noteq> map_option dec_str mid
      | _ \<Rightarrow> False)"

definition truthy :: "string option \<Rightarrow> bool" where
  "truthy x \<longleftrightarrow> x \<noteq> None \<and> x \<noteq> Some []"

definition client_params ::
  "db \<Rightarrow> user \<Rightarrow> client_order_dto \<Rightarrow> client \<Rightarrow> id option \<Rightarrow> fulfillment_choice \<Rightarrow> linea_resuelta list \<Rightarrow> pedido_params" where
  "client_params d u dto cl mid choice lineas =
     (let pactadas = filter (\<lambda>l. price_given l \<noteq> None) (cd_items dto) in
      \<lparr>cp_client = cl_id cl, cp_lines = lineas, cp_choice = choice, cp_municipality = mid,
       cp_address = cd_address dto,
       cp_contact = snapshotContact (first_some (cd_contact dto) (contactoDesdeDireccion (cd_address dto))),
       cp_notes = cd_notes dto, cp_allowed = resolveAllowedLocationIds d mid choice,
       cp_actor = ActorAdmin (u_id u),
       cp_method = first_some (cd_method dto) (map_option cb_method (cd_cobro dto)),
       cp_meta = (''canal'', JStr ''back-office'') #
         (if pactadas \<noteq> [] then [(''lineasConPrecioPactado'', JArr (map (\<lambda>l. id_json (ol_product l)) pactadas))] else [])\<rparr>)"

definition crearParaCliente :: "env \<Rightarrow> user \<Rightarrow> client_order_dto \<Rightarrow> db \<Rightarrow> error + id \<times> db" where
  "crearParaCliente e u dto d =
     bindE (guardE (cd_cobro dto = None \<or> hasPermission (d_access d) (u_id u) (u_role u) ''orders'' ''update-payment-status'')
              (Forbidden ''No puedes marcar un pedido como cobrado; crealo pendiente'')) (\<lambda>_.
     bindE (from_option (NotFound ''No existe el cliente'') (List.find (\<lambda>c. cl_id c = cd_client dto) (d_clients d))) (\<lambda>cl.
     bindE (guardE (cl_active cl) (Conflict ''El cliente esta desactivado; no se le puede crear un pedido'')) (\<lambda>_.
     bindE (guardE (distinct (map ol_product (cd_items dto)))
              (BadRequest ''Un producto no puede aparecer dos veces; sumalo en una sola linea'')) (\<lambda>_.
     bindE (mapE (\<lambda>l. find_product d (ol_product l)) (cd_items dto)) (\<lambda>_.
     let mid = first_some (cd_municipality dto) (cl_default_municipality cl) in
     bindE (guardE (\<not> municipio_contradictorio dto mid) (BadRequest ''La direccion dice otro municipio'')) (\<lambda>_.
     bindE (resolveChoice (e_collate e) d (cd_type dto) (cd_option dto) (cd_pickup dto) mid) (\<lambda>choice.
     bindE (guardE (\<not> (fc_type choice = PICKUP \<and> cd_contact dto = None))
              (BadRequest ''Faltan los datos de quien recoge el pedido'')) (\<lambda>_.
     bindE (guardE (faltan d mid (cd_items dto) = []) (LinesConflict (faltan d mid (cd_items dto)))) (\<lambda>_.
     bindE (resolveLines d [] (cd_items dto)) (\<lambda>lineas.
     bindE (if truthy (cd_method dto)
            then bindE (resolve_method (e_collate e) (e_gateways e) (d_methods d) (cd_method dto)) (\<lambda>_. Inr ())
            else Inr ()) (\<lambda>_.
     bindE (case cd_cobro dto of None \<Rightarrow> Inr ()
            | Some cb \<Rightarrow> bindE (resolve_method (e_collate e) (e_gateways e) (d_methods d) (Some (cb_method cb))) (\<lambda>_. Inr ())) (\<lambda>_.
     crearPedido e (client_params d u dto cl mid choice lineas)
       (case cd_cobro dto of None \<Rightarrow> (\<lambda>_ d'. d') | Some cb \<Rightarrow> seal_cobro e u cb) d))))))))))))"

end
