(* ===== verification/Order_Stock.thy ===== *)
theory Order_Stock
  imports Order_Model
begin

section \<open>What an order's status says about the stock\<close>

text \<open>
  The promise behind every status change: a pending order holds exactly its lines, a confirmed one
  (and later ones) has exactly its lines out of the storage, a cancelled one holds nothing. The
  locale \<open>line_service\<close> extends the stock contract with the two calls that edit one line;
  from the contract alone follows how each call moves an order between phases.
\<close>

definition in_phase :: "stock_phase \<Rightarrow> (id \<Rightarrow> int) \<Rightarrow> (id \<Rightarrow> reservation_status \<Rightarrow> int) \<Rightarrow> bool" where
  "in_phase ph q u \<longleftrightarrow> (\<forall>p. u p Reserved = (if ph = Held then q p else 0) \<and>
                            u p Confirmed = (if ph = Committed then q p else 0))"

definition line_qty :: "(id \<times> int) list \<Rightarrow> id \<Rightarrow> int" where
  "line_qty lines p = sum_where (\<lambda>(q, _). q = p) snd lines"

lemma line_qty_simps [simp]:
  "line_qty [] p = 0" "line_qty ((q, n) # ls) p = (if q = p then n else 0) + line_qty ls p"
  by (simp_all add: line_qty_def)

lemma line_qty_append: "line_qty (xs @ ys) p = line_qty xs p + line_qty ys p"
  by (simp add: line_qty_def sum_simps)

lemma line_qty_positive:
  "\<forall>x \<in> set lines. 0 \<le> snd x \<Longrightarrow> sum_where (\<lambda>(p, _). p = q) (\<lambda>(_, n). max 0 n) lines = line_qty lines q"
proof (induction lines)
  case (Cons a lines)
  obtain p n where a: "a = (p, n)" by force
  show ?case using Cons by (simp add: a)
qed simp

locale line_service = stock_service good units placed physical ledger hold commit release
  for good :: "'s \<Rightarrow> bool"
    and units :: "id \<Rightarrow> id \<Rightarrow> reservation_status \<Rightarrow> 's \<Rightarrow> int"
    and placed :: "id \<Rightarrow> id \<Rightarrow> id \<Rightarrow> reservation_status \<Rightarrow> 's \<Rightarrow> int"
    and physical :: "id \<Rightarrow> id \<Rightarrow> 's \<Rightarrow> int"
    and ledger :: "id \<Rightarrow> id \<Rightarrow> 's \<Rightarrow> int"
    and hold :: "'c \<Rightarrow> id \<Rightarrow> id \<Rightarrow> int \<Rightarrow> 's \<Rightarrow> error + 's"
    and commit :: "id \<Rightarrow> id \<Rightarrow> 's \<Rightarrow> 's"
    and release :: "id \<Rightarrow> id option \<Rightarrow> reservation_status \<Rightarrow> 's \<Rightarrow> error + 's" +
  fixes drop_units :: "instant \<Rightarrow> id \<Rightarrow> id \<Rightarrow> int \<Rightarrow> id option \<Rightarrow> 's \<Rightarrow> error + 's"
    and commit_line :: "id \<Rightarrow> id \<Rightarrow> id \<Rightarrow> 's \<Rightarrow> 's"
  assumes drop_good: "good s \<Longrightarrow> drop_units now oid p n uo s = Inr s' \<Longrightarrow> good s'"
    and drop_Reserved: "good s \<Longrightarrow> drop_units now oid p n uo s = Inr s' \<Longrightarrow> 0 \<le> n \<Longrightarrow>
      units oid' q Reserved s' = units oid' q Reserved s -
        (if (oid', q) = (oid, p) then min n (units oid p Reserved s) else 0)"
    and drop_Confirmed: "good s \<Longrightarrow> drop_units now oid p n uo s = Inr s' \<Longrightarrow> 0 \<le> n \<Longrightarrow>
      units oid' q Confirmed s' = units oid' q Confirmed s -
        (if (oid', q) = (oid, p) then min (n - min n (units oid p Reserved s)) (units oid p Confirmed s) else 0)"
    and commit_line_good: "good s \<Longrightarrow> good (commit_line oid p u s)"
    and commit_line_Reserved: "good s \<Longrightarrow> units oid' q Reserved (commit_line oid p u s) =
      (if (oid', q) = (oid, p) then 0 else units oid' q Reserved s)"
    and commit_line_Confirmed: "good s \<Longrightarrow> units oid' q Confirmed (commit_line oid p u s) =
      units oid' q Confirmed s + (if (oid', q) = (oid, p) then units oid p Reserved s else 0)"
begin

lemma hold_phase:
  assumes "good s" and "in_phase Returned q (\<lambda>p st. units oid p st s)"
    and "foldE (\<lambda>(p, n). hold c oid p n) lines s = Inr s'" and "\<forall>x \<in> set lines. 0 \<le> snd x"
  shows "good s' \<and> in_phase Held (line_qty lines) (\<lambda>p st. units oid p st s') \<and>
    (\<forall>oid' p st. oid' \<noteq> oid \<longrightarrow> units oid' p st s' = units oid' p st s)"
  using hold_all [OF assms(3,1)] assms(2) line_qty_positive [OF assms(4)] by (auto simp: in_phase_def)

lemma commit_phase:
  assumes "good s" and "in_phase Held q (\<lambda>p st. units oid p st s)"
  shows "good (commit oid u s) \<and> in_phase Committed q (\<lambda>p st. units oid p st (commit oid u s)) \<and>
    (\<forall>oid' p st. oid' \<noteq> oid \<longrightarrow> units oid' p st (commit oid u s) = units oid' p st s)"
  using assms commit_good commit_units [OF assms(1)] by (auto simp: in_phase_def)

lemma release_phase:
  assumes "good s" and "release oid uo final s = Inr s'" and "final = Cancelled \<or> final = Expired"
  shows "good s' \<and> in_phase Returned q (\<lambda>p st. units oid p st s') \<and>
    (\<forall>oid' p st. oid' \<noteq> oid \<longrightarrow> units oid' p st s' = units oid' p st s)"
proof -
  have f: "final \<noteq> Reserved" "final \<noteq> Confirmed" using assms(3) by auto
  show ?thesis using release_good [OF assms(1) f assms(2)] release_units [OF assms(1) f assms(2)]
    by (auto simp: in_phase_def)
qed

lemma drop_phase:
  assumes "good s" and "in_phase ph q (\<lambda>p st. units oid p st s)" and "ph = Held \<or> ph = Committed"
    and "drop_units now oid p n uo s = Inr s'" and "0 \<le> n" and "n \<le> q p"
  shows "good s' \<and> in_phase ph (q(p := q p - n)) (\<lambda>p st. units oid p st s') \<and>
    (\<forall>oid' p st. oid' \<noteq> oid \<longrightarrow> st = Reserved \<or> st = Confirmed \<longrightarrow> units oid' p st s' = units oid' p st s)"
  using assms(2,3,5,6) drop_good [OF assms(1,4)] drop_Reserved [OF assms(1,4,5)] drop_Confirmed [OF assms(1,4,5)]
  by (auto simp: in_phase_def)

lemma raise_phase:
  assumes "good s" and "in_phase Held q (\<lambda>p st. units oid p st s)" and "hold c oid p n s = Inr s'" and "0 \<le> n"
  shows "good s' \<and> in_phase Held (q(p := q p + n)) (\<lambda>p st. units oid p st s') \<and>
    (\<forall>oid' p st. oid' \<noteq> oid \<longrightarrow> units oid' p st s' = units oid' p st s)"
  using assms(2,4) hold_good [OF assms(1,3)] hold_units [OF assms(1,3)] by (auto simp: in_phase_def)

lemma raise_commit_phase:
  assumes "good s" and "in_phase Committed q (\<lambda>p st. units oid p st s)" and "hold c oid p n s = Inr s1" and "0 \<le> n"
    and "s' = commit_line oid p u s1"
  shows "good s' \<and> in_phase Committed (q(p := q p + n)) (\<lambda>p st. units oid p st s') \<and>
    (\<forall>oid' p st. oid' \<noteq> oid \<longrightarrow> st = Reserved \<or> st = Confirmed \<longrightarrow> units oid' p st s' = units oid' p st s)"
proof -
  have g: "good s1" by (rule hold_good [OF assms(1,3)])
  show ?thesis
    using assms(2,4) commit_line_good [OF g] hold_units [OF assms(1,3)]
    by (auto simp: in_phase_def assms(5) commit_line_Reserved [OF g] commit_line_Confirmed [OF g])
qed

end

interpretation order_lines: line_service books order_units order_units_at quantity_at ledger_at
  reserve_in confirm_reservations release_reservations release_product_units confirm_product_reservations
proof unfold_locales
  fix s s' now oid p n uo
  assume a: "books s" "release_product_units now oid p n uo s = Inr s'"
  note e = release_units_effect [OF a]
  show "books s'" by (rule e(1))
  assume n: "0 \<le> n"
  have h: "held_part oid p n s = min n (order_units oid p Reserved s)"
    "shipped_part oid p n s = min (n - min n (order_units oid p Reserved s)) (order_units oid p Confirmed s)"
    using n by (simp_all add: held_part_def shipped_part_def)
  show "order_units oid' q Reserved s' = order_units oid' q Reserved s -
      (if (oid', q) = (oid, p) then min n (order_units oid p Reserved s) else 0)" for oid' q
    using e(2,5) h by auto
  show "order_units oid' q Confirmed s' = order_units oid' q Confirmed s -
      (if (oid', q) = (oid, p) then min (n - min n (order_units oid p Reserved s)) (order_units oid p Confirmed s) else 0)"
    for oid' q using e(3,5) h by auto
next
  fix s oid p u
  assume b: "books s"
  note e = confirm_product_effect [OF b refl]
  show "books (confirm_product_reservations oid p u s)" by (rule e(1))
  show "order_units oid' q Reserved (confirm_product_reservations oid p u s) =
      (if (oid', q) = (oid, p) then 0 else order_units oid' q Reserved s)"
    "order_units oid' q Confirmed (confirm_product_reservations oid p u s) =
      order_units oid' q Confirmed s + (if (oid', q) = (oid, p) then order_units oid p Reserved s else 0)" for oid' q
    by (simp_all add: e(2))
qed

subsection \<open>The shop's invariant\<close>

definition phase_of :: "db \<Rightarrow> id \<Rightarrow> stock_phase" where
  "phase_of d oid = (case List.find (\<lambda>ord. o_id ord = oid) (d_orders d) of
     None \<Rightarrow> Returned | Some ord \<Rightarrow> stockPhase (o_status ord))"

definition ordered_qty :: "db \<Rightarrow> id \<Rightarrow> id \<Rightarrow> int" where
  "ordered_qty d oid = line_qty (item_lines (items_of_order d oid))"

definition stocked :: "db \<Rightarrow> id \<Rightarrow> bool" where
  "stocked d oid \<longleftrightarrow> in_phase (phase_of d oid) (ordered_qty d oid) (\<lambda>p st. order_units oid p st (d_stock d))"

text \<open>
  The rows fit together: identifiers are unique and below the counter, every line belongs to an
  order and asks for at least one unit, no order has two lines of a product.
\<close>

definition items_ok :: "nat \<Rightarrow> order_item list \<Rightarrow> bool" where
  "items_ok n its \<longleftrightarrow> distinct (map it_id its) \<and> (\<forall>it \<in> set its. it_id it < n \<and> 0 < it_quantity it) \<and>
     (\<forall>oid. distinct (map it_product (filter (\<lambda>it. it_order it = oid) its)))"

definition rows_ok :: "db \<Rightarrow> bool" where
  "rows_ok d \<longleftrightarrow> distinct (map o_id (d_orders d)) \<and> (\<forall>ord \<in> set (d_orders d). o_id ord < d_next d) \<and>
     items_ok (d_next d) (d_items d) \<and> it_order ` set (d_items d) \<subseteq> o_id ` set (d_orders d)"

definition shop_ok :: "db \<Rightarrow> bool" where
  "shop_ok d \<longleftrightarrow> books (d_stock d) \<and> rows_ok d \<and> (\<forall>oid. stocked d oid)"

lemma shop_okD: "shop_ok d \<Longrightarrow> books (d_stock d)" "shop_ok d \<Longrightarrow> rows_ok d" "shop_ok d \<Longrightarrow> stocked d oid"
  by (simp_all add: shop_ok_def)

lemma find_order_row:
  assumes "rows_ok d" and "ord \<in> set (d_orders d)"
  shows "List.find (\<lambda>x. o_id x = o_id ord) (d_orders d) = Some ord"
  using assms by (intro find_distinct_key) (simp_all add: rows_ok_def)

lemma phase_of_row: "rows_ok d \<Longrightarrow> ord \<in> set (d_orders d) \<Longrightarrow> phase_of d (o_id ord) = stockPhase (o_status ord)"
  by (simp add: phase_of_def find_order_row)

lemma phase_of_unknown: "oid \<notin> o_id ` set (d_orders d) \<Longrightarrow> phase_of d oid = Returned"
  by (simp add: phase_of_def find_key_None [THEN iffD2])

lemma phase_of_save:
  assumes "rows_ok d" and "ord \<in> set (d_orders d)" and "o_id ord' = o_id ord" and "d_orders d' = save_by o_id ord' (d_orders d)"
  shows "phase_of d' oid = (if oid = o_id ord then stockPhase (o_status ord') else phase_of d oid)"
  using find_order_row [OF assms(1,2)] assms(3)
  by (auto simp: phase_of_def assms(4) find_save_by)

lemma rows_ok_save:
  assumes "rows_ok d" and "ord \<in> set (d_orders d)" and "o_id ord' = o_id ord"
    and "d_orders d' = save_by o_id ord' (d_orders d)" and "d_items d' = d_items d" and "d_next d' = d_next d"
  shows "rows_ok d'"
proof -
  have "o_id ` set (d_orders d') = o_id ` set (d_orders d)"
    using arg_cong [OF save_by_keys [of o_id ord' "d_orders d"], of set] by (simp add: assms(4))
  moreover have "\<forall>x \<in> set (d_orders d'). o_id x < d_next d"
  proof
    fix x assume "x \<in> set (d_orders d')"
    then have "o_id x \<in> o_id ` set (d_orders d)" using calculation by blast
    then show "o_id x < d_next d" using assms(1) by (auto simp: rows_ok_def)
  qed
  ultimately show ?thesis using assms(1,4-6) by (simp add: rows_ok_def save_by_keys)
qed

text \<open>Writing an order's row leaves the shop as it is when the new status is in the phase its stock is in.\<close>

lemma shop_ok_save:
  assumes "shop_ok d" and "ord \<in> set (d_orders d)" and "o_id ord' = o_id ord"
    and "d_orders d' = save_by o_id ord' (d_orders d)" and "d_items d' = d_items d" and "d_next d' = d_next d"
    and "books (d_stock d')"
    and "in_phase (stockPhase (o_status ord')) (ordered_qty d (o_id ord)) (\<lambda>p st. order_units (o_id ord) p st (d_stock d'))"
    and "\<forall>oid p st. oid \<noteq> o_id ord \<longrightarrow> st = Reserved \<or> st = Confirmed \<longrightarrow>
      order_units oid p st (d_stock d') = order_units oid p st (d_stock d)"
  shows "shop_ok d'"
proof -
  note r = shop_okD(2) [OF assms(1)]
  have q: "ordered_qty d' oid = ordered_qty d oid" for oid by (simp add: ordered_qty_def items_of_order_def assms(5))
  have "stocked d' oid" for oid
    using shop_okD(3) [OF assms(1), of oid] assms(8,9)
    by (auto simp: stocked_def q phase_of_save [OF r assms(2-4)] in_phase_def)
  with rows_ok_save [OF r assms(2-6)] assms(7) show ?thesis by (simp add: shop_ok_def)
qed

text \<open>Nothing the invariant speaks of changed.\<close>

lemma shop_ok_cong:
  assumes "shop_ok d" and "d_stock d' = d_stock d" and "d_orders d' = d_orders d" and "d_items d' = d_items d"
    and "d_next d \<le> d_next d'"
  shows "shop_ok d'"
proof -
  have s: "stocked d' oid = stocked d oid" for oid
    by (simp add: stocked_def phase_of_def ordered_qty_def items_of_order_def assms(2-4))
  show ?thesis using assms(1,5) unfolding shop_ok_def s
    by (auto simp: assms(2-4) rows_ok_def items_ok_def order_less_le_trans)
qed

lemma shop_ok_stock:
  assumes "shop_ok d" and "books st" and "\<And>oid p s. order_units oid p s st = order_units oid p s (d_stock d)"
  shows "shop_ok (d\<lparr>d_stock := st\<rparr>)"
proof -
  have s: "stocked (d\<lparr>d_stock := st\<rparr>) oid = stocked d oid" for oid
    by (simp add: stocked_def phase_of_def ordered_qty_def items_of_order_def assms(3))
  show ?thesis using assms(1,2) unfolding shop_ok_def s by (simp add: rows_ok_def)
qed

lemma items_positive:
  assumes "rows_ok d"
  shows "\<forall>x \<in> set (item_lines (items_of_order d oid)). 0 \<le> snd x"
  using assms by (auto simp: rows_ok_def items_ok_def item_lines_def items_of_order_def less_imp_le)

end
