(* ===== verification/Order_Changes.thy ===== *)
theory Order_Changes
  imports Order_Creation Order_Stock
begin

section \<open>The life of an order\<close>

text \<open>
  The operations of \<open>src/orders/orders.service.ts\<close> that change an order: cancelling, moving its
  status (step by step or directly), reinstating, marking its payment, the free correction and the
  correction of its lines, and the public tracking page. An operation that reads the order before its
  transaction is given as the part that decides (\<open>\<dots>_check\<close>) and the part that writes, so that what
  happens between the two can be stated. Notices by mail follow the commit and are left out.
\<close>

subsection \<open>Cancelled by the customer\<close>

definition devueltas :: "id \<Rightarrow> (id \<times> int) list \<Rightarrow> cart_item list \<Rightarrow> nat" where
  "devueltas cid lineas cart =
     length (filter (\<lambda>(p, q). case cart_find cid p cart of None \<Rightarrow> True | Some ci \<Rightarrow> ci_quantity ci < q)
       (a_devolver (filter (\<lambda>(p, q). 0 < q) lineas)))"

definition lines_back :: "order \<Rightarrow> db \<Rightarrow> db" where
  "lines_back ord d = d\<lparr>d_cart :=
     devolverAlCarrito (o_client ord) (item_lines (items_of_order d (o_id ord))) (d_cart d)\<rparr>"

definition lines_word :: "nat \<Rightarrow> string" where
  "lines_word n = dec_str n @ (if n = 1 then '' linea'' else '' lineas'')"

definition cancelByClient :: "env \<Rightarrow> id \<Rightarrow> id \<Rightarrow> db \<Rightarrow> error + db" where
  "cancelByClient e cid oid d =
     bindE (client_order_or_404 d cid oid) (\<lambda>ord.
     bindE (guardE (o_status ord = PENDING) (Conflict ''Only pending orders can be cancelled'')) (\<lambda>_.
     bindE (release_order (o_id ord) None Cancelled d) (\<lambda>d1.
     let d2 = save_order (ord\<lparr>o_status := CANCELLED\<rparr>) d1;
         lineas = item_lines (items_of_order d2 (o_id ord));
         n = devueltas cid lineas (d_cart d2);
         d3 = d2\<lparr>d_cart := devolverAlCarrito cid lineas (d_cart d2)\<rparr>
     in Inr (record_event e (o_id ord) EvStatusChanged (ActorClient cid) (Some ''status'')
          (Some (status_str (o_status ord))) (Some (status_str CANCELLED))
          (Some (if 0 < n then ''Cancelado por el cliente desde la tienda; '' @ lines_word n @ '' de vuelta en su carrito''
                 else ''Cancelado por el cliente desde la tienda'')) None d3))))"

subsection \<open>Delivery\<close>

record picked_up =
  pu_name :: string
  pu_id_card :: "string option"

text \<open>\<open>a || b ? {name, idCard} : null\<close>: empty texts are falsy.\<close>

definition picked_up_json :: "string option \<Rightarrow> string option \<Rightarrow> json option" where
  "picked_up_json name idc =
     (if truthy name \<or> truthy idc then Some (JObj [(''name'', json_opt name), (''idCard'', json_opt idc)]) else None)"

definition contact_field :: "string \<Rightarrow> order \<Rightarrow> string option" where
  "contact_field k ord = comoTextoOAusente (Option.bind (o_contact ord) (json_field k))"

definition sealDelivery :: "env \<Rightarrow> user \<Rightarrow> picked_up option \<Rightarrow> order \<Rightarrow> order" where
  "sealDelivery e u pickedUpBy ord =
     (let name = first_some (map_option pu_name pickedUpBy)
                   (first_some (contact_field ''fullName'' ord) (contact_field ''name'' ord));
          idc = first_some (Option.bind pickedUpBy pu_id_card) (contact_field ''idCard'' ord)
      in ord\<lparr>o_delivered_at := Some (e_now e), o_delivered_by := Some (u_id u),
             o_picked_up_by := picked_up_json name idc\<rparr>)"

subsection \<open>Moving the status\<close>

definition assertDirectJump :: "db \<Rightarrow> user \<Rightarrow> order \<Rightarrow> order_status \<Rightarrow> error + unit" where
  "assertDirectJump d u ord status =
     bindE (guardE (hasPermission (d_access d) (u_id u) (u_role u) ''orders'' ''update-status-direct'')
              (Forbidden ''You need the direct status-change permission to do this'')) (\<lambda>_.
     bindE (guardE (TRANSITIONS (o_status ord) \<noteq> []) (Conflict ''Order is already finished; nothing to change'')) (\<lambda>_.
     bindE (guardE (status \<noteq> o_status ord) (Conflict ''Order is already in that status'')) (\<lambda>_.
     guardE (\<not> (status \<noteq> CANCELLED \<and> index_of status FORWARD_CHAIN \<le> index_of (o_status ord) FORWARD_CHAIN))
       (Conflict ''Cannot move order backwards''))))"

definition updateStatus_check :: "db \<Rightarrow> user \<Rightarrow> id \<Rightarrow> order_status \<Rightarrow> bool \<Rightarrow> error + order" where
  "updateStatus_check d u oid status direct =
     bindE (order_or_404 d oid) (\<lambda>ord.
     bindE (if direct then assertDirectJump d u ord status
            else bindE (guardE (status \<in> set (TRANSITIONS (o_status ord))) (Conflict ''Cannot move order'')) (\<lambda>_.
                 guardE (is_system_admin (u_role u) \<or> status \<in> set STAFF_TARGETS)
                   (Forbidden ''Non-admin staff can only advance fulfillment''))) (\<lambda>_.
     Inr ord))"

definition crossesConfirmed :: "order_status \<Rightarrow> order_status \<Rightarrow> bool" where
  "crossesConfirmed from status \<longleftrightarrow> from = PENDING \<and> status \<noteq> CANCELLED \<and>
     index_of CONFIRMED FORWARD_CHAIN \<le> index_of status FORWARD_CHAIN"

text \<open>The transaction, on the order as it was read.\<close>

definition updateStatus_tx ::
  "env \<Rightarrow> user \<Rightarrow> order \<Rightarrow> order_status \<Rightarrow> bool \<Rightarrow> picked_up option \<Rightarrow> db \<Rightarrow> error + db" where
  "updateStatus_tx e u ord status direct pickedUpBy d =
     bindE (if crossesConfirmed (o_status ord) status then Inr (confirm_order (o_id ord) (u_id u) d)
            else if status = CANCELLED then release_order (o_id ord) (Some (u_id u)) Cancelled d
            else Inr d) (\<lambda>d1.
     let ord1 = ord\<lparr>o_status := status\<rparr>;
         ord2 = (if status = DELIVERED \<and> o_delivered_at ord1 = None then sealDelivery e u pickedUpBy ord1 else ord1);
         d2 = save_order ord2 d1;
         d3 = (if status = DELIVERED \<and> o_status ord \<noteq> status
               then record_event e (o_id ord) EvDelivered (ActorAdmin (u_id u)) (Some ''deliveredAt'') None
                      (map_option iso_string (o_delivered_at ord2)) (Some ''Pedido entregado'')
                      (Some [(''pickedUpBy'', case o_picked_up_by ord2 of None \<Rightarrow> JNull | Some j \<Rightarrow> j)]) d2
               else d2)
     in Inr (record_event e (o_id ord) EvStatusChanged (ActorAdmin (u_id u)) (Some ''status'')
          (Some (status_str (o_status ord))) (Some (status_str status)) None
          (if direct then Some [(''direct'', JBool True)] else None) d3))"

definition updateStatus ::
  "env \<Rightarrow> user \<Rightarrow> id \<Rightarrow> order_status \<Rightarrow> bool \<Rightarrow> picked_up option \<Rightarrow> db \<Rightarrow> error + db" where
  "updateStatus e u oid status direct pickedUpBy d =
     bindE (updateStatus_check d u oid status direct) (\<lambda>ord.
     updateStatus_tx e u ord status direct pickedUpBy d)"

subsection \<open>Back from cancelled\<close>

definition reinstate :: "env \<Rightarrow> user \<Rightarrow> id \<Rightarrow> db \<Rightarrow> error + db" where
  "reinstate e u oid d =
     bindE (order_or_404 d oid) (\<lambda>ord.
     bindE (guardE (o_status ord = CANCELLED) (Conflict ''Only cancelled orders can be reinstated'')) (\<lambda>_.
     bindE (guardE (o_cancellation ord \<noteq> Some PAID_AFTER_EXPIRY_OUT_OF_STOCK)
              (Conflict ''it needs a refund, not a reinstatement'')) (\<lambda>_.
     bindE (reserveOrderItems e ord (allowedLocationsFor d ord) d) (\<lambda>d1.
     Inr (record_event e (o_id ord) EvReinstated (ActorAdmin (u_id u)) (Some ''status'')
            (Some (status_str (o_status ord))) (Some (status_str PENDING))
            (Some ''Restablecida desde la administracion; el plazo de pago vuelve a empezar'') None
            (save_order (ord\<lparr>o_status := PENDING, o_cancellation := None, o_reinstated_at := Some (e_now e),
                             o_reinstated_by := Some (u_id u)\<rparr>) d1))))))"

subsection \<open>The payment marked by hand\<close>

definition updatePaymentStatus :: "env \<Rightarrow> user \<Rightarrow> id \<Rightarrow> payment_status \<Rightarrow> db \<Rightarrow> error + db" where
  "updatePaymentStatus e u oid pay d =
     bindE (order_or_404 d oid) (\<lambda>ord.
     bindE (guardE (pay \<in> set (PAYMENT_TRANSITIONS (o_payment ord))) (Conflict ''Cannot move payment'')) (\<lambda>_.
     let ord1 = ord\<lparr>o_payment := pay\<rparr>;
         ord2 = (if pay = PayPaid then sellarCobro (e_hv e) (e_now e) ord1 else ord1)
     in Inr (record_event e (o_id ord) EvPaymentStatusChanged (ActorAdmin (u_id u)) (Some ''paymentStatus'')
          (Some (payment_str (o_payment ord))) (Some (payment_str pay))
          (Some ''Marcado a mano desde la administracion'') None (save_order ord2 d))))"

subsection \<open>The free correction\<close>

text \<open>What the correction does to the stock when the phase changes.\<close>

definition correct_stock :: "env \<Rightarrow> user \<Rightarrow> order \<Rightarrow> order_status \<Rightarrow> id list option \<Rightarrow> db \<Rightarrow> error + db" where
  "correct_stock e u ord status allowed d =
     (let from = stockPhase (o_status ord); dest = stockPhase status in
      if from = dest then Inr d
      else
        bindE (if from = Committed then release_order (o_id ord) (Some (u_id u)) Cancelled d
               else if from = Held \<and> dest = Returned then release_order (o_id ord) (Some (u_id u)) Cancelled d
               else Inr d) (\<lambda>d1.
        if dest = Held \<or> dest = Committed then
          bindE (if from \<noteq> Held then reserveOrderItems e ord allowed d1 else Inr d1) (\<lambda>d2.
          Inr (if dest = Committed then confirm_order (o_id ord) (u_id u) d2 else d2))
        else Inr d1))"

definition correct_payment :: "env \<Rightarrow> payment_status \<Rightarrow> order \<Rightarrow> order" where
  "correct_payment e pay ord =
     (if o_payment ord = pay then ord
      else let ord1 = ord\<lparr>o_payment := pay\<rparr> in
           if pay = PayPaid then sellarCobro (e_hv e) (e_now e) ord1
           else if o_payment ord = PayPaid then deshacerCobro ord1 else ord1)"

text \<open>The order's row as the correction leaves it.\<close>

definition corrected_row :: "env \<Rightarrow> user \<Rightarrow> order_status \<Rightarrow> payment_status \<Rightarrow> order \<Rightarrow> order" where
  "corrected_row e u status pay ord =
     (let ord1 = (if o_status ord \<noteq> status
                 then (let x = ord\<lparr>o_status := status\<rparr> in
                       if status = CANCELLED then x\<lparr>o_cancellation := None\<rparr>
                       else if o_status ord = CANCELLED then x\<lparr>o_cancellation := None\<rparr> else x)
                 else ord);
          ord2 = correct_payment e pay ord1
      in if o_status ord2 = PENDING \<and> o_payment ord2 \<noteq> PayPaid \<and> (o_status ord \<noteq> PENDING \<or> o_payment ord = PayPaid)
         then ord2\<lparr>o_reinstated_at := Some (e_now e), o_reinstated_by := Some (u_id u)\<rparr> else ord2)"

definition correct ::
  "env \<Rightarrow> user \<Rightarrow> id \<Rightarrow> order_status option \<Rightarrow> payment_status option \<Rightarrow> string \<Rightarrow> db \<Rightarrow> error + db" where
  "correct e u oid status pay reason d =
     bindE (guardE (u_role u = SUPER_ADMIN) (Forbidden ''Only a super admin can correct an order freely'')) (\<lambda>_.
     bindE (guardE (\<not> (status = None \<and> pay = None))
              (BadRequest ''Nothing to correct: pass a status, a payment status, or both'')) (\<lambda>_.
     bindE (order_or_404 d oid) (\<lambda>ord.
     let toStatus = (case status of None \<Rightarrow> o_status ord | Some s \<Rightarrow> s);
         toPayment = (case pay of None \<Rightarrow> o_payment ord | Some p \<Rightarrow> p) in
     bindE (guardE (\<not> (o_status ord = toStatus \<and> o_payment ord = toPayment))
              (Conflict ''The order is already in that state'')) (\<lambda>_.
     let allowed = (if stockPhase (o_status ord) \<noteq> stockPhase toStatus \<and> stockPhase toStatus \<noteq> Returned
                    then allowedLocationsFor d ord else None) in
     bindE (if o_status ord \<noteq> toStatus then correct_stock e u ord toStatus allowed d else Inr d) (\<lambda>d1.
     let d2 = save_order (corrected_row e u toStatus toPayment ord) d1;
         d3 = (if o_status ord \<noteq> toStatus
               then record_event e (o_id ord) EvStatusChanged (ActorAdmin (u_id u)) (Some ''status'')
                      (Some (status_str (o_status ord))) (Some (status_str toStatus)) (Some reason)
                      (Some [(''correction'', JBool True)]) d2
               else d2)
     in Inr (if o_payment ord \<noteq> toPayment
             then record_event e (o_id ord) EvPaymentStatusChanged (ActorAdmin (u_id u)) (Some ''paymentStatus'')
                    (Some (payment_str (o_payment ord))) (Some (payment_str toPayment)) (Some reason)
                    (Some [(''correction'', JBool True)]) d3
             else d3))))))"

subsection \<open>The correction of the lines\<close>

definition line_change :: "(id \<times> order_item) list \<Rightarrow> linea_resuelta \<Rightarrow> json list" where
  "line_change current l =
     (case jm_get (lr_product l) current of
        None \<Rightarrow> [JObj [(''type'', JStr ''added''), (''productId'', id_json (lr_product l)), (''name'', JStr (lr_name l)),
                   (''quantity'', JNum (of_int (lr_quantity l))), (''unitPrice'', JNum (lr_unit l))]]
      | Some it \<Rightarrow>
          (if it_quantity it \<noteq> lr_quantity l
           then [JObj [(''type'', JStr ''quantity''), (''productId'', id_json (lr_product l)), (''name'', JStr (lr_name l)),
                   (''from'', JNum (of_int (it_quantity it))), (''to'', JNum (of_int (lr_quantity l)))]] else []) @
          (if dec_num (it_unit_price it) \<noteq> lr_unit l
           then [JObj [(''type'', JStr ''price''), (''productId'', id_json (lr_product l)), (''name'', JStr (lr_name l)),
                   (''from'', JStr (cents_str (to_fixed2 (dec_num (it_unit_price it))))),
                   (''to'', JStr (cents_str (to_fixed2 (lr_unit l))))]] else []))"

definition removed_change :: "order_item \<Rightarrow> json" where
  "removed_change it = JObj [(''type'', JStr ''removed''), (''productId'', id_json (it_product it)),
     (''name'', JStr (it_name it)), (''quantity'', JNum (of_int (it_quantity it)))]"

definition line_changes :: "(id \<times> order_item) list \<Rightarrow> linea_resuelta list \<Rightarrow> json list" where
  "line_changes current incoming =
     concat (map (line_change current) incoming) @
     map (\<lambda>(_, it). removed_change it) (filter (\<lambda>(p, it). it_product it \<notin> lr_product ` set incoming) current)"

text \<open>Units taken out of the order before any is asked for.\<close>

definition drop_of :: "linea_resuelta list \<Rightarrow> order_item \<Rightarrow> int" where
  "drop_of incoming it = (case List.find (\<lambda>l. lr_product l = it_product it) incoming of
     Some l \<Rightarrow> it_quantity it - lr_quantity l | None \<Rightarrow> it_quantity it)"

definition drop_line :: "env \<Rightarrow> user \<Rightarrow> id \<Rightarrow> linea_resuelta list \<Rightarrow> id \<times> order_item \<Rightarrow> db \<Rightarrow> error + db" where
  "drop_line e u oid incoming x d =
     (let drop_n = drop_of incoming (snd x) in
      if 0 < drop_n then
        bindE (release_product_units (e_now e) oid (it_product (snd x)) drop_n (Some (u_id u)) (d_stock d)) (\<lambda>st.
        Inr (d\<lparr>d_stock := st\<rparr>))
      else Inr d)"

definition rise_of :: "(id \<times> order_item) list \<Rightarrow> linea_resuelta \<Rightarrow> int" where
  "rise_of current l = lr_quantity l - (case jm_get (lr_product l) current of None \<Rightarrow> 0 | Some it \<Rightarrow> it_quantity it)"

definition raise_line ::
  "env \<Rightarrow> user \<Rightarrow> order \<Rightarrow> id list option \<Rightarrow> (id \<times> order_item) list \<Rightarrow> linea_resuelta \<Rightarrow> db \<Rightarrow> error + db" where
  "raise_line e u ord allowed current l d =
     (let rise = rise_of current l in
      if rise \<le> 0 then Inr d
      else bindE (named_conflict (lr_name l)
             (reserve_line e allowed (o_pickup_location ord) (o_id ord) (lr_product l) rise d)) (\<lambda>d1.
           Inr (if stockPhase (o_status ord) = Committed
                then d1\<lparr>d_stock := confirm_product_reservations (o_id ord) (lr_product l) (u_id u) (d_stock d1)\<rparr> else d1)))"

text \<open>Saving one line: an existing one keeps its breakdown only while it explains its price.\<close>

definition corrected_item :: "linea_resuelta \<Rightarrow> order_item \<Rightarrow> order_item" where
  "corrected_item l it =
     (let it1 = (if it_unit_price it \<noteq> to_fixed2 (lr_unit l) then it\<lparr>it_list_price := None, it_discount := None\<rparr> else it)
      in it1\<lparr>it_quantity := lr_quantity l, it_unit_price := to_fixed2 (lr_unit l), it_line_total := line_total l\<rparr>)"

definition save_line :: "id \<Rightarrow> (id \<times> order_item) list \<Rightarrow> linea_resuelta \<Rightarrow> db \<Rightarrow> db" where
  "save_line oid current l d =
     (case jm_get (lr_product l) current of
        Some it \<Rightarrow> d\<lparr>d_items := save_by it_id (corrected_item l it) (d_items d)\<rparr>
      | None \<Rightarrow> new_item oid l d)"

definition drop_gone_items :: "(id \<times> order_item) list \<Rightarrow> linea_resuelta list \<Rightarrow> db \<Rightarrow> db" where
  "drop_gone_items current incoming d =
     (let gone = map (\<lambda>(_, it). it_id it) (filter (\<lambda>(_, it). it_product it \<notin> lr_product ` set incoming) current)
      in d\<lparr>d_items := filter (\<lambda>it. it_id it \<notin> set gone) (d_items d)\<rparr>)"

text \<open>The stock by the differences, and then the rows, the totals and the history.\<close>

definition move_lines ::
  "env \<Rightarrow> user \<Rightarrow> order \<Rightarrow> (id \<times> order_item) list \<Rightarrow> linea_resuelta list \<Rightarrow> db \<Rightarrow> error + db" where
  "move_lines e u ord current incoming d =
     (if stockPhase (o_status ord) \<noteq> Returned
      then bindE (foldE (drop_line e u (o_id ord) incoming) current d)
             (foldE (raise_line e u ord (allowedLocationsFor d ord) current) incoming)
      else Inr d)"

definition write_lines ::
  "env \<Rightarrow> user \<Rightarrow> order \<Rightarrow> (id \<times> order_item) list \<Rightarrow> linea_resuelta list \<Rightarrow> string \<Rightarrow> db \<Rightarrow> db" where
  "write_lines e u ord current incoming reason d =
     (let previousTotal = dec_num (o_total ord);
          subtotal = js_div (of_int (lines_cents incoming)) 100;
          nextSubtotal = to_fixed2 subtotal;
          nextTotal = to_fixed2 (js_add subtotal (dec_num (o_delivery_fee ord)));
          d2 = fold (save_line (o_id ord) current) incoming (drop_gone_items current incoming d);
          d3 = save_order (ord\<lparr>o_subtotal := nextSubtotal, o_total := nextTotal\<rparr>) d2;
          d4 = record_event e (o_id ord) EvItemsChanged (ActorAdmin (u_id u)) (Some ''items'') None None (Some reason)
                (Some [(''correction'', JBool True), (''changes'', JArr (line_changes current incoming))]) d3
      in if previousTotal \<noteq> dec_num nextTotal
         then record_event e (o_id ord) EvTotalChanged (ActorAdmin (u_id u)) (Some ''total'')
                (Some (cents_str (to_fixed2 previousTotal))) (Some (cents_str nextTotal)) (Some reason)
                (Some ([(''correction'', JBool True), (''subtotal'', JStr (cents_str nextSubtotal)),
                        (''deliveryFee'', JStr (cents_str (o_delivery_fee ord)))] @
                       (if o_payment ord = PayPaid
                        then [(''paidDifference'', JStr (cents_str (to_fixed2 (js_sub (dec_num nextTotal) previousTotal))))]
                        else []))) d4
         else d4)"

definition updateItems :: "env \<Rightarrow> user \<Rightarrow> id \<Rightarrow> order_line list \<Rightarrow> string \<Rightarrow> db \<Rightarrow> error + db" where
  "updateItems e u oid lines reason d =
     bindE (guardE (u_role u = SUPER_ADMIN) (Forbidden ''Only a super admin can edit the lines of an order'')) (\<lambda>_.
     bindE (guardE (distinct (map ol_product lines))
              (BadRequest ''Un producto no puede aparecer dos veces; sumalo en una sola linea'')) (\<lambda>_.
     bindE (order_or_404 d oid) (\<lambda>ord.
     let current = current_lines (items_of_order d oid) in
     bindE (resolveLines d current lines) (\<lambda>incoming.
     bindE (guardE (line_changes current incoming \<noteq> []) (Conflict ''El pedido ya tiene esas lineas'')) (\<lambda>_.
     bindE (move_lines e u ord current incoming d) (\<lambda>d1.
     Inr (write_lines e u ord current incoming reason d1)))))))"

subsection \<open>The public tracking page\<close>

record tracking_entry =
  te_status :: string
  te_at :: instant

record tracking =
  tk_number :: "string option"
  tk_status :: string
  tk_paid :: bool
  tk_placed_at :: instant
  tk_promise_days :: "int option"
  tk_promised_at :: "instant option"
  tk_delivered_at :: "instant option"
  tk_fulfillment :: fulfillment_type
  tk_history :: "tracking_entry list"

fun ESTADO_PARA_EL_CLIENTE :: "order_status \<Rightarrow> string" where
  "ESTADO_PARA_EL_CLIENTE PENDING = ''Pendiente de pago''"
| "ESTADO_PARA_EL_CLIENTE CONFIRMED = ''Confirmado''"
| "ESTADO_PARA_EL_CLIENTE PROCESSING = ''En preparacion''"
| "ESTADO_PARA_EL_CLIENTE SHIPPED = ''En camino''"
| "ESTADO_PARA_EL_CLIENTE DELIVERED = ''Entregado''"
| "ESTADO_PARA_EL_CLIENTE CANCELLED = ''Cancelado''"

definition all_statuses :: "order_status list" where
  "all_statuses = [PENDING, CONFIRMED, PROCESSING, SHIPPED, DELIVERED, CANCELLED]"

definition status_of_str :: "string \<Rightarrow> order_status option" where
  "status_of_str t = List.find (\<lambda>s. status_str s = t) all_statuses"

definition listForOrder :: "db \<Rightarrow> id \<Rightarrow> order_event list" where
  "listForOrder d oid = js_sort (\<lambda>a b. ev_at a - ev_at b) (filter (\<lambda>ev. ev_order ev = oid) (d_events d))"

text \<open>\<open>/^[0-9a-f]{64}$/\<close>.\<close>

definition is_hex_digit :: "char \<Rightarrow> bool" where
  "is_hex_digit c \<longleftrightarrow> c \<in> set ''0123456789abcdef''"

definition tracking_shape :: "string \<Rightarrow> bool" where
  "tracking_shape t \<longleftrightarrow> length t = 64 \<and> (\<forall>c \<in> set t. is_hex_digit c)"

definition tracking_history :: "order_event list \<Rightarrow> tracking_entry list" where
  "tracking_history evs = List.map_filter (\<lambda>ev.
     (if ev_field ev = Some ''status'' then
        (case Option.bind (ev_next ev) status_of_str of
           None \<Rightarrow> None | Some s \<Rightarrow> Some \<lparr>te_status = ESTADO_PARA_EL_CLIENTE s, te_at = ev_at ev\<rparr>)
      else None)) evs"

definition trackByPublicId :: "db \<Rightarrow> string \<Rightarrow> error + tracking" where
  "trackByPublicId d tid =
     bindE (guardE (tracking_shape tid) (NotFound ''Pedido no encontrado'')) (\<lambda>_.
     bindE (from_option (NotFound ''Pedido no encontrado'')
              (List.find (\<lambda>ord. o_tracking ord = Some tid \<and> \<not> o_deleted ord) (d_orders d))) (\<lambda>ord.
     Inr \<lparr>tk_number = o_number ord, tk_status = ESTADO_PARA_EL_CLIENTE (o_status ord),
          tk_paid = (o_payment ord = PayPaid), tk_placed_at = o_created_at ord,
          tk_promise_days = o_promise_days ord, tk_promised_at = o_promised_at ord,
          tk_delivered_at = o_delivered_at ord, tk_fulfillment = o_fulfillment ord,
          tk_history = tracking_history (listForOrder d (o_id ord))\<rparr>))"

end
