(* ===== verification/Order_Laws.thy ===== *)
theory Order_Laws
  imports Cart_Laws Order_Changes
begin

section \<open>Every operation on an order keeps the shop's books\<close>

text \<open>
  The invariant of the shop, and that each operation of the order service keeps it: the stock an
  order holds is what its status and its lines say, carts have one row per product, and order
  numbers come from a sequence. \<open>stock_in\<close> is the invariant half way through an operation,
  when the stock has moved and the order's row has not been written yet.
\<close>

subsection \<open>What never changes of an order\<close>

definition same_order :: "order \<Rightarrow> order \<Rightarrow> bool" where
  "same_order a b \<longleftrightarrow> o_id a = o_id b \<and> o_seq a = o_seq b \<and> o_number a = o_number b \<and> o_client a = o_client b"

lemma same_order_refl [simp]: "same_order ord ord"
  by (simp add: same_order_def)

lemma same_orderD: "same_order a b \<Longrightarrow> o_id a = o_id b"
  by (simp add: same_order_def)

lemma sellarCobro_keys [simp]:
  "o_seq (sellarCobro hv t ord) = o_seq ord" "o_number (sellarCobro hv t ord) = o_number ord"
  "o_cancellation (sellarCobro hv t ord) = o_cancellation ord"
  "o_reinstated_at (sellarCobro hv t ord) = o_reinstated_at ord"
  "o_created_at (sellarCobro hv t ord) = o_created_at ord"
  by (simp_all add: sellarCobro_def Let_def split: option.split)

lemma deshacerCobro_keys [simp]:
  "o_seq (deshacerCobro ord) = o_seq ord" "o_number (deshacerCobro ord) = o_number ord"
  by (simp_all add: deshacerCobro_def)

lemma sealDelivery_keys [simp]:
  "o_id (sealDelivery e u pu ord) = o_id ord" "o_seq (sealDelivery e u pu ord) = o_seq ord"
  "o_number (sealDelivery e u pu ord) = o_number ord" "o_client (sealDelivery e u pu ord) = o_client ord"
  "o_status (sealDelivery e u pu ord) = o_status ord" "o_payment (sealDelivery e u pu ord) = o_payment ord"
  "o_total (sealDelivery e u pu ord) = o_total ord"
  by (simp_all add: sealDelivery_def Let_def)

definition numbered :: "nat \<Rightarrow> order list \<Rightarrow> bool" where
  "numbered next_seq orders \<longleftrightarrow> distinct (map o_seq orders) \<and> (\<forall>ord \<in> set orders. o_seq ord < next_seq \<and>
     (\<exists>y. 1000 \<le> y \<and> y \<le> 9999 \<and> o_number ord = Some (order_number y (o_seq ord))))"

definition shop_inv :: "db \<Rightarrow> bool" where
  "shop_inv d \<longleftrightarrow> shop_ok d \<and> cart_ok (d_cart d) \<and> numbered (d_seq d) (d_orders d)"

lemma save_by_same:
  assumes "distinct (map o_id orders)" and "ord \<in> set orders" and "same_order ord' ord"
  shows "map o_seq (save_by o_id ord' orders) = map o_seq orders" and
    "\<forall>x \<in> set (save_by o_id ord' orders). \<exists>y \<in> set orders. same_order x y"
proof -
  have u: "x = ord" if "x \<in> set orders" "o_id x = o_id ord'" for x
    using assms that by (auto simp: same_order_def dest: eq_key_imp_eq_value [of "map (\<lambda>x. (o_id x, x)) orders", simplified]
        inj_onD [of o_id "set orders"] simp: distinct_map)
  show "map o_seq (save_by o_id ord' orders) = map o_seq orders"
    using u assms(3) by (auto simp: save_by_def same_order_def)
  show "\<forall>x \<in> set (save_by o_id ord' orders). \<exists>y \<in> set orders. same_order x y"
    using assms(2,3) by (auto simp: save_by_def intro: same_order_refl)
qed

lemma numbered_save:
  assumes "numbered n orders" and "distinct (map o_id orders)" and "ord \<in> set orders" and "same_order ord' ord"
  shows "numbered n (save_by o_id ord' orders)"
  using assms(1) save_by_same [OF assms(2-4)] by (fastforce simp: numbered_def same_order_def)

subsection \<open>Half way through an operation\<close>

definition stock_in :: "db \<Rightarrow> id \<Rightarrow> stock_phase \<Rightarrow> stock \<Rightarrow> bool" where
  "stock_in d oid ph st \<longleftrightarrow> books st \<and> in_phase ph (ordered_qty d oid) (\<lambda>p s. order_units oid p s st) \<and>
     (\<forall>oid' p s. oid' \<noteq> oid \<longrightarrow> s = Reserved \<or> s = Confirmed \<longrightarrow>
        order_units oid' p s st = order_units oid' p s (d_stock d))"

lemma stock_in_start: "shop_ok d \<Longrightarrow> ord \<in> set (d_orders d) \<Longrightarrow> stock_in d (o_id ord) (stockPhase (o_status ord)) (d_stock d)"
  using shop_okD [of d] phase_of_row [of d ord] by (simp add: stock_in_def stocked_def) metis

lemma stock_in_commit:
  "stock_in d oid Held st \<Longrightarrow> stock_in d oid Committed (confirm_reservations oid u st)"
  using order_lines.commit_phase [of st "ordered_qty d oid" oid u] by (auto simp: stock_in_def)

lemma stock_in_release:
  "stock_in d oid ph st \<Longrightarrow> release_reservations oid uo final st = Inr st' \<Longrightarrow> final = Cancelled \<or> final = Expired \<Longrightarrow>
    stock_in d oid Returned st'"
  using order_lines.release_phase [of st oid uo final st' "ordered_qty d oid"] by (auto simp: stock_in_def)

lemma stock_in_hold:
  assumes "rows_ok d" and "stock_in d oid Returned st"
    and "foldE (\<lambda>(p, n). reserve_in c oid p n) (item_lines (items_of_order d oid)) st = Inr st'"
  shows "stock_in d oid Held st'"
  using order_lines.hold_phase [of st "ordered_qty d oid" oid c "item_lines (items_of_order d oid)" st']
    assms items_positive [OF assms(1), of oid]
  by (auto simp: stock_in_def ordered_qty_def)

lemma shop_inv_save:
  assumes "shop_inv d" and "ord \<in> set (d_orders d)" and "same_order ord' ord"
    and "stock_in d (o_id ord) (stockPhase (o_status ord')) (d_stock d')"
    and "d_orders d' = save_by o_id ord' (d_orders d)" and "d_items d' = d_items d" and "d_next d' = d_next d"
    and "d_seq d' = d_seq d" and "cart_ok (d_cart d')"
  shows "shop_inv d'"
proof -
  have r: "shop_ok d" "rows_ok d" using assms(1) by (simp_all add: shop_inv_def shop_okD)
  have "shop_ok d'"
    by (rule shop_ok_save [OF r(1) assms(2) same_orderD [OF assms(3)] assms(5-7)])
      (use assms(4) in \<open>auto simp: stock_in_def\<close>)
  moreover have "numbered (d_seq d') (d_orders d')"
    using assms(1,5,8) r(2) numbered_save [OF _ _ assms(2,3)] by (simp add: shop_inv_def rows_ok_def)
  ultimately show ?thesis using assms(9) by (simp add: shop_inv_def)
qed

text \<open>Writing the row without touching the stock, when the status stays in its phase.\<close>

lemma shop_inv_write:
  assumes "shop_inv d" and "ord \<in> set (d_orders d)" and "same_order ord' ord"
    and "stockPhase (o_status ord') = stockPhase (o_status ord)" and "d_stock d' = d_stock d"
    and "d_orders d' = save_by o_id ord' (d_orders d)" and "d_items d' = d_items d" and "d_next d' = d_next d"
    and "d_seq d' = d_seq d" and "d_cart d' = d_cart d"
  shows "shop_inv d'"
  using assms stock_in_start [of d ord] by (intro shop_inv_save [OF assms(1-3)]) (simp_all add: shop_inv_def)

lemma shop_invD:
  "shop_inv d \<Longrightarrow> shop_ok d" "shop_inv d \<Longrightarrow> rows_ok d" "shop_inv d \<Longrightarrow> cart_ok (d_cart d)"
  by (simp_all add: shop_inv_def shop_okD)

text \<open>Nothing the invariant speaks of changed.\<close>

lemma shop_inv_cong:
  assumes "shop_inv d" and "d_stock d' = d_stock d" and "d_orders d' = d_orders d" and "d_items d' = d_items d"
    and "d_next d \<le> d_next d'" and "d_seq d' = d_seq d" and "cart_ok (d_cart d')"
  shows "shop_inv d'"
  using assms shop_ok_cong [OF shop_invD(1) [OF assms(1)] assms(2-5)] by (simp add: shop_inv_def)

subsection \<open>Carts stay tidy\<close>

lemma cart_ok_filter: "cart_ok cart \<Longrightarrow> cart_ok (filter P cart)"
  by (auto simp: cart_ok_def distinct_map_filter)

lemma cart_ok_save_by: "cart_ok cart \<Longrightarrow> 0 < ci_quantity ci \<Longrightarrow> cart_ok (save_by cart_key ci cart)"
  by (auto simp: cart_ok_def save_by_keys) (auto simp: save_by_def split: if_splits)

lemma fold_devolver_ok:
  assumes "distinct (map fst m)" and "\<forall>(p, q) \<in> set m. 0 < q \<and> cart_find cid p cart = cart_find cid p base"
    and "cart_ok cart"
  shows "cart_ok (fold (devolver_una cid base) m cart)"
  using assms
proof (induction m arbitrary: cart)
  case (Cons a m)
  obtain p q where a: "a = (p, q)" by force
  have f: "cart_find cid p cart = cart_find cid p base" "0 < q" using Cons.prems(2) by (auto simp: a)
  have "cart_ok (devolver_una cid base a cart)"
    using Cons.prems(3) f cart_find_None [of cid p cart]
    by (auto simp: devolver_una_def a cart_ok_save_by split: option.split)
       (auto simp: cart_ok_def cart_key_def)
  moreover have "\<forall>(p', q') \<in> set m. cart_find cid p' (devolver_una cid base a cart) = cart_find cid p' base"
    using Cons.prems(1,2) cart_find_devolver_una [of cid a cart base cid] f by (force simp: a)
  moreover have "\<forall>(p', q') \<in> set m. 0 < q'" using Cons.prems(2) by auto
  ultimately have "\<forall>(p', q') \<in> set m. 0 < q' \<and> cart_find cid p' (devolver_una cid base a cart) = cart_find cid p' base"
    by blast
  with Cons.IH [of "devolver_una cid base a cart"] Cons.prems(1) \<open>cart_ok (devolver_una cid base a cart)\<close>
  show ?case by simp
qed simp

lemma jm_set_all: "\<forall>x \<in> set m. P (snd x) \<Longrightarrow> P v \<Longrightarrow> \<forall>x \<in> set (jm_set k v m). P (snd x)"
  by (induction k v m rule: jm_set.induct) auto

lemma a_devolver_positive:
  assumes "\<forall>x \<in> set ls. 0 < snd x"
  shows "\<forall>x \<in> set (a_devolver ls). 0 < snd x"
proof -
  have "\<forall>x \<in> set (fold devolver_step ls m). 0 < snd x" if "\<forall>x \<in> set m. 0 < snd x" for m
    using that assms
  proof (induction ls arbitrary: m)
    case (Cons a ls)
    obtain p n where a: "a = (p, n)" by force
    have "\<forall>x \<in> set (jm_set p (max (case jm_get p m of None \<Rightarrow> 0 | Some v \<Rightarrow> v) n) m). 0 < snd x"
      by (rule jm_set_all [OF Cons.prems(1)]) (use Cons.prems(2) in \<open>simp add: a less_max_iff_disj\<close>)
    then show ?case using Cons.IH [of "devolver_step a m"] Cons.prems(2) by (simp add: a devolver_step_def)
  qed simp
  from this [of "[]"] show ?thesis by (simp add: a_devolver_fold)
qed

lemma cart_ok_devolver: "cart_ok cart \<Longrightarrow> cart_ok (devolverAlCarrito cid lineas cart)"
  using a_devolver_positive [of "filter (\<lambda>(p, q). 0 < q) lineas"]
  by (simp add: devolverAlCarrito_def Let_def) (intro impI fold_devolver_ok a_devolver_distinct; force)

lemma fold_quitar_ok:
  "cart_ok (fst s) \<Longrightarrow> cart_ok (fst (fold (quitar_una cid) ls s))"
proof (induction ls arbitrary: s)
  case (Cons a ls)
  have "cart_ok (fst (quitar_una cid a s))"
    using Cons.prems by (cases s) (auto simp: quitar_una_def Let_def cart_ok_save_by split: option.split)
  then show ?case using Cons.IH by simp
qed simp

lemma cart_ok_quitar: "cart_ok cart \<Longrightarrow> cart_ok (quitarDelCarrito cid lineas cart)"
  using fold_quitar_ok [of "(cart, [])" cid]
  by (auto simp: quitarDelCarrito_def Let_def cart_ok_filter split: prod.split) (metis fst_conv cart_ok_filter)

subsection \<open>The operations that move an order\<close>

lemma release_order_stock_in:
  assumes "release_order (o_id ord) uo final d = Inr d'" and "final = Cancelled \<or> final = Expired"
    and "shop_ok d" and "ord \<in> set (d_orders d)"
  shows "\<exists>st. d' = d\<lparr>d_stock := st\<rparr> \<and> stock_in d (o_id ord) Returned st"
  using assms(1) stock_in_release [OF stock_in_start [OF assms(3,4)] _ assms(2)] by (auto simp: release_order_Inr)

lemma reserve_items_stock_in:
  assumes "reserveOrderItems e ord allowed (d\<lparr>d_stock := st\<rparr>) = Inr d'" and "rows_ok d"
    and "stock_in d (o_id ord) Returned st"
  shows "\<exists>st'. d' = d\<lparr>d_stock := st'\<rparr> \<and> stock_in d (o_id ord) Held st'"
  using reserveOrderItems_Inr [OF assms(1)]
    stock_in_hold [OF assms(2,3), of "reserve_ctx e (d\<lparr>d_stock := st\<rparr>) allowed (o_pickup_location ord)"]
  by (auto simp: items_of_order_def)

lemma cancelByClient_keeps:
  assumes "shop_inv d" and "cancelByClient e cid oid d = Inr d'"
  shows "shop_inv d'"
proof -
  from assms(2) obtain ord d1 where ord: "client_order_or_404 d cid oid = Inr ord"
    and d1: "release_order (o_id ord) None Cancelled d = Inr d1" and p: "o_status ord = PENDING"
    by (auto simp: cancelByClient_def bindE_eq_Inr Let_def)
  have mem: "ord \<in> set (d_orders d)" using client_order_Inr [OF ord] by simp
  obtain st where st: "d1 = d\<lparr>d_stock := st\<rparr>" "stock_in d (o_id ord) Returned st"
    using release_order_stock_in [OF d1 _ shop_invD(1) [OF assms(1)] mem] by auto
  show ?thesis
    by (rule shop_inv_save [OF assms(1) mem, of "ord\<lparr>o_status := CANCELLED\<rparr>"])
      (use assms(2) ord d1 p st shop_invD(3) [OF assms(1)] in
       \<open>auto simp: cancelByClient_def Let_def same_order_def cart_ok_devolver\<close>)
qed

lemma updateStatus_check_Inr:
  assumes "updateStatus_check d u oid status direct = Inr ord"
  shows "find_order d oid = Some ord" and "status \<in> set (TRANSITIONS (o_status ord)) \<or>
     (direct \<and> TRANSITIONS (o_status ord) \<noteq> [] \<and>
      (status = CANCELLED \<or> index_of (o_status ord) FORWARD_CHAIN < index_of status FORWARD_CHAIN))"
  using assms by (auto simp: updateStatus_check_def assertDirectJump_def bindE_eq_Inr split: if_splits)

text \<open>Every move the checks let through crosses the phases the way the transaction moves the stock.\<close>

lemma move_phase:
  assumes "status \<in> set (TRANSITIONS s0) \<or> (TRANSITIONS s0 \<noteq> [] \<and>
      (status = CANCELLED \<or> index_of s0 FORWARD_CHAIN < index_of status FORWARD_CHAIN))"
  shows "if crossesConfirmed s0 status then stockPhase s0 = Held \<and> stockPhase status = Committed
    else if status = CANCELLED then stockPhase status = Returned else stockPhase status = stockPhase s0"
  using assms by (cases s0; cases status) (simp_all add: crossesConfirmed_def FORWARD_CHAIN_def Let_def)

lemma updateStatus_keeps:
  assumes "shop_inv d" and "updateStatus e u oid status direct pu d = Inr d'"
  shows "shop_inv d'"
proof -
  from assms(2) obtain ord where c: "updateStatus_check d u oid status direct = Inr ord"
    and tx: "updateStatus_tx e u ord status direct pu d = Inr d'"
    by (auto simp: updateStatus_def bindE_eq_Inr)
  note chk = updateStatus_check_Inr [OF c]
  have mem: "ord \<in> set (d_orders d)" using find_order_Some [OF chk(1)] by simp
  note mv = move_phase [of status "o_status ord"]
  note start = stock_in_start [OF shop_invD(1) [OF assms(1)] mem]
  define step where "step = (if crossesConfirmed (o_status ord) status then Inr (confirm_order (o_id ord) (u_id u) d)
            else if status = CANCELLED then release_order (o_id ord) (Some (u_id u)) Cancelled d else Inr d)"
  from tx obtain d1 where d1: "step = Inr d1" by (auto simp: updateStatus_tx_def bindE_eq_Inr step_def)
  obtain st where st: "d1 = d\<lparr>d_stock := st\<rparr>" "stock_in d (o_id ord) (stockPhase status) st"
  proof (cases "crossesConfirmed (o_status ord) status")
    case True
    then show ?thesis
      using that [of "confirm_reservations (o_id ord) (u_id u) (d_stock d)"] d1 mv chk(2) stock_in_commit [of d "o_id ord"] start
      by (auto simp: step_def confirm_order_def)
  next
    case False
    show ?thesis
    proof (cases "status = CANCELLED")
      case True
      then show ?thesis
        using False that d1 release_order_stock_in [of ord "Some (u_id u)" Cancelled d d1] shop_invD(1) [OF assms(1)] mem
        by (auto simp: step_def)
    next
      case no_cancel: False
      then show ?thesis using False that [of "d_stock d"] d1 mv chk(2) start by (auto simp: step_def)
    qed
  qed
  define ord2 where "ord2 = (if status = DELIVERED \<and> o_delivered_at (ord\<lparr>o_status := status\<rparr>) = None
      then sealDelivery e u pu (ord\<lparr>o_status := status\<rparr>) else ord\<lparr>o_status := status\<rparr>)"
  have o2: "same_order ord2 ord" "o_status ord2 = status" by (simp_all add: ord2_def same_order_def)
  have "d_orders d' = save_by o_id ord2 (d_orders d1) \<and> d_stock d' = d_stock d1 \<and> d_items d' = d_items d1 \<and>
      d_next d' = d_next d1 \<and> d_seq d' = d_seq d1 \<and> d_cart d' = d_cart d1"
    using tx unfolding updateStatus_tx_def step_def [symmetric] d1 bindE_Inr Let_def ord2_def by auto
  then show ?thesis
    by (intro shop_inv_save [OF assms(1) mem o2(1)]) (use st o2(2) shop_invD(3) [OF assms(1)] in simp_all)
qed

lemma reinstate_keeps:
  assumes "shop_inv d" and "reinstate e u oid d = Inr d'"
  shows "shop_inv d'"
proof -
  from assms(2) obtain ord d1 where ord: "find_order d oid = Some ord" and s: "o_status ord = CANCELLED"
    and nc: "o_cancellation ord \<noteq> Some PAID_AFTER_EXPIRY_OUT_OF_STOCK"
    and d1: "reserveOrderItems e ord (allowedLocationsFor d ord) d = Inr d1"
    by (auto simp: reinstate_def bindE_eq_Inr)
  have mem: "ord \<in> set (d_orders d)" using find_order_Some [OF ord] by simp
  have r: "stock_in d (o_id ord) Returned (d_stock d)" using stock_in_start [OF shop_invD(1) [OF assms(1)] mem] s by simp
  obtain st where st: "d1 = d\<lparr>d_stock := st\<rparr>" "stock_in d (o_id ord) Held st"
    using reserve_items_stock_in [of e ord _ "d_stock d" d d1] d1 shop_invD(2) [OF assms(1)] r by auto
  show ?thesis
    by (rule shop_inv_save [OF assms(1) mem, of "ord\<lparr>o_status := PENDING, o_cancellation := None,
         o_reinstated_at := Some (e_now e), o_reinstated_by := Some (u_id u)\<rparr>"])
      (use assms(2) ord s nc d1 st shop_invD(3) [OF assms(1)] in
       \<open>auto simp: reinstate_def order_or_404_def same_order_def\<close>)
qed

lemma updatePaymentStatus_keeps:
  assumes "shop_inv d" and "updatePaymentStatus e u oid pay d = Inr d'"
  shows "shop_inv d'"
proof -
  from assms(2) obtain ord where ord: "find_order d oid = Some ord" and g: "pay \<in> set (PAYMENT_TRANSITIONS (o_payment ord))"
    by (auto simp: updatePaymentStatus_def bindE_eq_Inr)
  have mem: "ord \<in> set (d_orders d)" using find_order_Some [OF ord] by simp
  define ord2 where "ord2 = (if pay = PayPaid then sellarCobro (e_hv e) (e_now e) (ord\<lparr>o_payment := pay\<rparr>)
      else ord\<lparr>o_payment := pay\<rparr>)"
  have o2: "same_order ord2 ord" "o_status ord2 = o_status ord" by (simp_all add: ord2_def same_order_def)
  show ?thesis
    by (rule shop_inv_write [OF assms(1) mem o2(1)])
      (use assms(2) ord g o2(2) in
       \<open>auto simp: updatePaymentStatus_def order_or_404_def Let_def ord2_def [symmetric]\<close>)
qed

subsection \<open>The free correction\<close>

lemma correct_stock_effect:
  assumes "shop_inv d" and "ord \<in> set (d_orders d)" and "correct_stock e u ord status allowed d = Inr d'"
  shows "\<exists>st. d' = d\<lparr>d_stock := st\<rparr> \<and> stock_in d (o_id ord) (stockPhase status) st"
proof (cases "stockPhase (o_status ord) = stockPhase status")
  case True
  then show ?thesis
    using assms(3) stock_in_start [OF shop_invD(1) [OF assms(1)] assms(2)]
    by (auto simp: correct_stock_def intro!: exI [of _ "d_stock d"])
next
  case False
  let ?from = "stockPhase (o_status ord)" and ?dest = "stockPhase status"
  note start = stock_in_start [OF shop_invD(1) [OF assms(1)] assms(2)]
  from assms(3) False obtain d1 where
    d1: "(if ?from = Committed then release_order (o_id ord) (Some (u_id u)) Cancelled d
          else if ?from = Held \<and> ?dest = Returned then release_order (o_id ord) (Some (u_id u)) Cancelled d
          else Inr d) = Inr d1"
    and rest: "(if ?dest = Held \<or> ?dest = Committed then
          bindE (if ?from \<noteq> Held then reserveOrderItems e ord allowed d1 else Inr d1) (\<lambda>d2.
          Inr (if ?dest = Committed then confirm_order (o_id ord) (u_id u) d2 else d2))
        else Inr d1) = Inr d'"
    by (auto simp: correct_stock_def bindE_eq_Inr Let_def)
  define mid where "mid = (if ?from = Held \<and> ?dest = Committed then Held else Returned)"
  have "\<exists>st. d1 = d\<lparr>d_stock := st\<rparr> \<and> stock_in d (o_id ord) mid st"
  proof (cases "?from = Committed \<or> ?dest = Returned")
    case True
    then have "release_order (o_id ord) (Some (u_id u)) Cancelled d = Inr d1 \<and> mid = Returned"
      using d1 False by (cases ?from) (auto simp: mid_def)
    then show ?thesis
      using release_order_stock_in [of ord "Some (u_id u)" Cancelled d d1] shop_invD(1) [OF assms(1)] assms(2) by simp
  next
    case False
    then show ?thesis using d1 start \<open>?from \<noteq> ?dest\<close>
      by (intro exI [of _ "d_stock d"]) (cases ?from; cases ?dest; simp add: mid_def)
  qed
  then obtain st where st: "d1 = d\<lparr>d_stock := st\<rparr>" "stock_in d (o_id ord) mid st" by blast
  show ?thesis
  proof (cases "?dest = Returned")
    case True
    then show ?thesis using rest st by (auto simp: mid_def)
  next
    case dest: False
    then have dest2: "?dest = Held \<or> ?dest = Committed" by (cases ?dest) auto
    from rest dest2 obtain d2 where d2: "(if ?from \<noteq> Held then reserveOrderItems e ord allowed d1 else Inr d1) = Inr d2"
      and d': "d' = (if ?dest = Committed then confirm_order (o_id ord) (u_id u) d2 else d2)"
      by (auto simp: bindE_eq_Inr)
    have "\<exists>st. d2 = d\<lparr>d_stock := st\<rparr> \<and> stock_in d (o_id ord) Held st"
    proof (cases "?from = Held")
      case True
      then show ?thesis using d2 st False dest2 by (auto simp: mid_def)
    next
      case nh: False
      then show ?thesis
        using reserve_items_stock_in [of e ord allowed st d d2] d2 st shop_invD(2) [OF assms(1)]
        by (auto simp: mid_def)
    qed
    then obtain st2 where "d2 = d\<lparr>d_stock := st2\<rparr>" "stock_in d (o_id ord) Held st2" by blast
    then show ?thesis using d' dest2 stock_in_commit [of d "o_id ord" st2 "u_id u"]
      by (auto simp: confirm_order_def)
  qed
qed

lemma correct_payment_keys:
  "same_order (correct_payment e pay ord) ord" "o_status (correct_payment e pay ord) = o_status ord"
  by (simp_all add: correct_payment_def same_order_def Let_def)

lemma corrected_row_keys:
  "same_order (corrected_row e u status pay ord) ord" "o_status (corrected_row e u status pay ord) = status"
  "o_payment (corrected_row e u status pay ord) = pay"
proof -
  have p: "o_payment (correct_payment e pay x) = pay" for x
    by (auto simp: correct_payment_def Let_def)
  show "same_order (corrected_row e u status pay ord) ord" "o_status (corrected_row e u status pay ord) = status"
    "o_payment (corrected_row e u status pay ord) = pay"
    using correct_payment_keys(1) [of e pay "if o_status ord \<noteq> status
      then (let x = ord\<lparr>o_status := status\<rparr> in if status = CANCELLED then x\<lparr>o_cancellation := None\<rparr>
        else if o_status ord = CANCELLED then x\<lparr>o_cancellation := None\<rparr> else x) else ord"]
    by (auto simp: corrected_row_def Let_def correct_payment_keys(2) p same_order_def)
qed

lemma correct_Inr:
  assumes "correct e u oid status pay reason d = Inr d'"
  shows "\<exists>ord dest py allowed d1. find_order d oid = Some ord \<and>
    dest = (case status of None \<Rightarrow> o_status ord | Some s \<Rightarrow> s) \<and> py = (case pay of None \<Rightarrow> o_payment ord | Some p \<Rightarrow> p) \<and>
    (if o_status ord \<noteq> dest then correct_stock e u ord dest allowed d else Inr d) = Inr d1 \<and>
    d_orders d' = save_by o_id (corrected_row e u dest py ord) (d_orders d1) \<and>
    d_stock d' = d_stock d1 \<and> d_items d' = d_items d1 \<and>
    d_next d' = d_next d1 \<and> d_seq d' = d_seq d1 \<and> d_cart d' = d_cart d1 \<and> d_refunds d' = d_refunds d1"
  using assms unfolding correct_def Let_def bindE_eq_Inr order_or_404_Inr
  by (elim exE conjE) (intro exI conjI, assumption, (rule refl)+, assumption, auto)

lemma correct_keeps:
  assumes "shop_inv d" and "correct e u oid status pay reason d = Inr d'"
  shows "shop_inv d'"
proof -
  from correct_Inr [OF assms(2)] obtain ord dest py allowed d1 where
    f: "find_order d oid = Some ord" and c: "(if o_status ord \<noteq> dest then correct_stock e u ord dest allowed d else Inr d) = Inr d1"
    and w: "d_orders d' = save_by o_id (corrected_row e u dest py ord) (d_orders d1)" "d_stock d' = d_stock d1"
      "d_items d' = d_items d1" "d_next d' = d_next d1" "d_seq d' = d_seq d1" "d_cart d' = d_cart d1"
    by blast
  have mem: "ord \<in> set (d_orders d)" using find_order_Some [OF f] by simp
  have "\<exists>st. d1 = d\<lparr>d_stock := st\<rparr> \<and> stock_in d (o_id ord) (stockPhase dest) st"
  proof (cases "o_status ord = dest")
    case True
    then show ?thesis using c stock_in_start [OF shop_invD(1) [OF assms(1)] mem] by (intro exI [of _ "d_stock d"]) simp
  next
    case False
    then show ?thesis using c correct_stock_effect [OF assms(1) mem] by auto
  qed
  then show ?thesis
    using w shop_invD(3) [OF assms(1)] corrected_row_keys(2) [of e u dest py ord]
    by (intro shop_inv_save [OF assms(1) mem corrected_row_keys(1) [of e u dest py]]) auto
qed

end
