(* ===== verification/Creation_Laws.thy ===== *)
theory Creation_Laws
  imports Order_Laws
begin

section \<open>A new order enters the shop's books\<close>

text \<open>
  \<open>crearPedido\<close>, \<open>checkout\<close> and \<open>crearParaCliente\<close> keep the shop's invariant: the order's row comes
  first, and each line is held and then written, so the invariant holds after every turn of the loop.
\<close>

subsection \<open>Lines of a request\<close>

lemma mapE_Inr: "mapE f xs = Inr ys \<Longrightarrow> length ys = length xs \<and> list_all2 (\<lambda>x y. f x = Inr y) xs ys"
  by (induction xs arbitrary: ys) (auto simp: bindE_eq_Inr)

lemma resolve_line_Inr:
  "resolve_line d current line = Inr l \<Longrightarrow> lr_product l = ol_product line \<and> lr_quantity l = ol_quantity line"
  by (auto simp: resolve_line_def bindE_eq_Inr Let_def split: option.splits)

lemma resolveLines_Inr:
  assumes "resolveLines d current lines = Inr ls"
  shows "map lr_product ls = map ol_product lines" and "map lr_quantity ls = map ol_quantity lines"
proof -
  have "list_all2 (\<lambda>x y. resolve_line d current x = Inr y) lines ls"
    using mapE_Inr [OF assms [unfolded resolveLines_def]] by simp
  then show "map lr_product ls = map ol_product lines" "map lr_quantity ls = map ol_quantity lines"
    by (induction rule: list_all2_induct) (auto dest: resolve_line_Inr)
qed

lemma getCart_lines:
  "map (\<lambda>l. (cln_product l, cln_quantity l)) (getCart d cid ar) =
    map (\<lambda>ci. (ci_product ci, ci_quantity ci))
      (filter (\<lambda>ci. ci_client ci = cid \<and> ci_product ci \<in> p_id ` set (d_products d)) (d_cart d))"
proof -
  have "map (\<lambda>l. (cln_product l, cln_quantity l)) (List.map_filter (\<lambda>ci. case List.find (\<lambda>p. p_id p = ci_product ci) (d_products d) of
         None \<Rightarrow> None | Some p \<Rightarrow> Some (cart_line_of p (ci_quantity ci) (f p))) cart) =
    map (\<lambda>ci. (ci_product ci, ci_quantity ci)) (filter (\<lambda>ci. ci_product ci \<in> p_id ` set (d_products d)) cart)" for f cart
  proof (induction cart)
    case (Cons ci cart)
    show ?case
    proof (cases "List.find (\<lambda>p. p_id p = ci_product ci) (d_products d)")
      case None
      then have "ci_product ci \<notin> p_id ` set (d_products d)" by (simp add: find_key_None)
      then show ?thesis using Cons None by (simp add: map_filter_simps)
    next
      case (Some p)
      then have "p \<in> set (d_products d)" "p_id p = ci_product ci"
        by (auto dest: find_key_Some)
      moreover have "ci_product ci \<in> p_id ` set (d_products d)" using calculation by force
      ultimately show ?thesis using Cons Some by (simp add: map_filter_simps cart_line_of_def Let_def)
    qed
  qed (simp add: map_filter_simps)
  from this [of "\<lambda>p. availableForArea (d_storage d) (d_geo d) (d_stock d) ar (p_id p)"
      "filter (\<lambda>ci. ci_client ci = cid) (d_cart d)"]
  show ?thesis by (simp add: getCart_def conj_commute)
qed

lemma getCart_ok:
  assumes "cart_ok (d_cart d)"
  shows "distinct (map cln_product (getCart d cid ar))" and "\<forall>l \<in> set (getCart d cid ar). 0 < cln_quantity l"
proof -
  let ?rows = "filter (\<lambda>ci. ci_client ci = cid \<and> ci_product ci \<in> p_id ` set (d_products d)) (d_cart d)"
  have p: "map cln_product (getCart d cid ar) = map ci_product ?rows"
    and q: "map cln_quantity (getCart d cid ar) = map ci_quantity ?rows"
    using arg_cong [OF getCart_lines [of d cid ar], of "map fst"] arg_cong [OF getCart_lines [of d cid ar], of "map snd"]
    by (simp_all add: comp_def)
  have "distinct (map cart_key ?rows)" using assms by (simp add: cart_ok_def distinct_map_filter)
  then have "distinct (map ci_product ?rows)"
    by (rule_tac distinct_map [THEN iffD2]) (auto simp: distinct_map inj_on_def cart_key_def)
  then show "distinct (map cln_product (getCart d cid ar))" by (simp add: p)
  have "\<forall>n \<in> set (map cln_quantity (getCart d cid ar)). 0 < n"
    unfolding q using assms by (auto simp: cart_ok_def)
  then show "\<forall>l \<in> set (getCart d cid ar). 0 < cln_quantity l" by simp
qed

subsection \<open>The order and its lines\<close>

lemma ordered_qty_new_item:
  "ordered_qty (new_item oid l d) oid' q =
    ordered_qty d oid' q + (if oid' = oid \<and> q = lr_product l then lr_quantity l else 0)"
  by (simp add: ordered_qty_def items_of_order_def new_item_def item_lines_def line_qty_append)

lemma new_item_frame [simp]:
  "d_stock (new_item oid l d) = d_stock d" "d_orders (new_item oid l d) = d_orders d"
  "d_cart (new_item oid l d) = d_cart d" "d_seq (new_item oid l d) = d_seq d"
  "d_next (new_item oid l d) = Suc (d_next d)" "d_events (new_item oid l d) = d_events d"
  "d_charges (new_item oid l d) = d_charges d" "d_refunds (new_item oid l d) = d_refunds d"
  "d_storage (new_item oid l d) = d_storage d" "d_geo (new_item oid l d) = d_geo d"
  "d_products (new_item oid l d) = d_products d"
  by (simp_all add: new_item_def)

lemma items_of_new_item:
  "it_product ` set (items_of_order (new_item oid l d) oid') =
    it_product ` set (items_of_order d oid') \<union> (if oid' = oid then {lr_product l} else {})"
  by (auto simp: items_of_order_def new_item_def)

lemma rows_ok_new_item:
  assumes "rows_ok d" and "oid \<in> o_id ` set (d_orders d)" and "0 < lr_quantity l"
    and "lr_product l \<notin> it_product ` set (items_of_order d oid)"
  shows "rows_ok (new_item oid l d)"
  using assms
  by (auto simp: rows_ok_def items_ok_def new_item_def items_of_order_def less_Suc_eq image_iff)

lemma add_line_keeps:
  assumes "shop_ok d" and "ord \<in> set (d_orders d)" and "o_status ord = PENDING"
    and "add_line e allowed preferred (o_id ord) l d = Inr d'" and "0 < lr_quantity l"
    and "lr_product l \<notin> it_product ` set (items_of_order d (o_id ord))"
  shows "shop_ok d' \<and> d_orders d' = d_orders d \<and> d_cart d' = d_cart d \<and> d_seq d' = d_seq d \<and> d_next d' = Suc (d_next d) \<and>
    (\<forall>oid q. ordered_qty d' oid q = ordered_qty d oid q + (if oid = o_id ord \<and> q = lr_product l then lr_quantity l else 0)) \<and>
    it_product ` set (items_of_order d' (o_id ord)) = insert (lr_product l) (it_product ` set (items_of_order d (o_id ord)))"
proof -
  from assms(4) obtain st where
    h: "reserve_in (reserve_ctx e d allowed preferred) (o_id ord) (lr_product l) (lr_quantity l) (d_stock d) = Inr st"
    and d': "d' = new_item (o_id ord) l (d\<lparr>d_stock := st\<rparr>)"
    by (auto simp: add_line_def bindE_eq_Inr reserve_line_Inr)
  note start = stock_in_start [OF assms(1,2)]
  have held: "in_phase Held (ordered_qty d (o_id ord)) (\<lambda>p s. order_units (o_id ord) p s (d_stock d))"
    using start assms(3) by (simp add: stock_in_def)
  note r = order_lines.raise_phase [OF shop_okD(1) [OF assms(1)] held h less_imp_le [OF assms(5)]]
  have q: "ordered_qty d' oid q = ordered_qty d oid q + (if oid = o_id ord \<and> q = lr_product l then lr_quantity l else 0)" for oid q
    unfolding d' ordered_qty_new_item by (simp add: ordered_qty_def items_of_order_def)
  have ph: "phase_of d' oid = phase_of d oid" for oid by (simp add: phase_of_def d')
  have "stocked d' oid" for oid
  proof (cases "oid = o_id ord")
    case True
    have "(ordered_qty d (o_id ord))(lr_product l := ordered_qty d (o_id ord) (lr_product l) + lr_quantity l) = ordered_qty d' oid"
      by (rule ext) (simp add: q True)
    then show ?thesis using r True phase_of_row [OF shop_okD(2) [OF assms(1)] assms(2)] assms(3)
      by (simp add: stocked_def ph) (simp add: d')
  next
    case False
    then show ?thesis using r shop_okD(3) [OF assms(1), of oid]
      by (simp add: stocked_def ph in_phase_def q) (simp add: d')
  qed
  moreover have "rows_ok d'"
    unfolding d' by (rule rows_ok_new_item)
      (use assms shop_okD(2) [OF assms(1)] in \<open>auto simp: rows_ok_def items_of_order_def\<close>)
  moreover have "books (d_stock d')" using r by (simp add: d')
  ultimately show ?thesis
    using q by (simp add: shop_ok_def) (simp add: d' items_of_new_item, simp add: items_of_order_def)
qed

lemma add_lines_keep:
  assumes "shop_ok d" and "ord \<in> set (d_orders d)" and "o_status ord = PENDING"
    and "foldE (add_line e allowed preferred (o_id ord)) ls d = Inr d'" and "\<forall>l \<in> set ls. 0 < lr_quantity l"
    and "distinct (map lr_product ls)" and "lr_product ` set ls \<inter> it_product ` set (items_of_order d (o_id ord)) = {}"
  shows "shop_ok d' \<and> d_orders d' = d_orders d \<and> d_cart d' = d_cart d \<and> d_seq d' = d_seq d \<and> d_next d \<le> d_next d' \<and>
    (\<forall>oid q. ordered_qty d' oid q = ordered_qty d oid q +
      (if oid = o_id ord then line_qty (map (\<lambda>l. (lr_product l, lr_quantity l)) ls) q else 0))"
  using assms
proof (induction ls arbitrary: d)
  case Nil
  then show ?case by simp
next
  case (Cons l ls)
  from Cons.prems(4) obtain d1 where d1: "add_line e allowed preferred (o_id ord) l d = Inr d1"
    and rest: "foldE (add_line e allowed preferred (o_id ord)) ls d1 = Inr d'" by (auto simp: bindE_eq_Inr)
  have k: "0 < lr_quantity l" "lr_product l \<notin> it_product ` set (items_of_order d (o_id ord))"
    using Cons.prems(5,7) by auto
  note a = add_line_keeps [OF Cons.prems(1-3) d1 k]
  have "shop_ok d' \<and> d_orders d' = d_orders d1 \<and> d_cart d' = d_cart d1 \<and> d_seq d' = d_seq d1 \<and> d_next d1 \<le> d_next d' \<and>
    (\<forall>oid q. ordered_qty d' oid q = ordered_qty d1 oid q +
      (if oid = o_id ord then line_qty (map (\<lambda>l. (lr_product l, lr_quantity l)) ls) q else 0))"
    by (rule Cons.IH [OF _ _ Cons.prems(3) rest]) (use a Cons.prems(2,5-7) in auto)
  then show ?case using a by auto
qed

subsection \<open>crearPedido\<close>

definition order_entered :: "env \<Rightarrow> db \<Rightarrow> pedido_params \<Rightarrow> db" where
  "order_entered e d ps = d\<lparr>d_orders := d_orders d @ [new_order e d ps], d_next := Suc (d_next d), d_seq := Suc (d_seq d)\<rparr>"

lemma new_order_fields [simp]:
  "o_id (new_order e d ps) = d_next d" "o_seq (new_order e d ps) = d_seq d" "o_status (new_order e d ps) = PENDING"
  "o_payment (new_order e d ps) = PayPending" "o_client (new_order e d ps) = cp_client ps"
  "o_number (new_order e d ps) = Some (order_number (e_year e) (d_seq d))" "o_paid_at (new_order e d ps) = None"
  by (simp_all add: new_order_def Let_def)

lemma order_entered_keeps:
  assumes "shop_inv d" and "1000 \<le> e_year e" and "e_year e \<le> 9999"
  shows "shop_inv (order_entered e d ps) \<and> items_of_order (order_entered e d ps) (d_next d) = []"
proof -
  let ?d = "order_entered e d ps"
  note r = shop_invD [OF assms(1)]
  have fresh: "d_next d \<notin> o_id ` set (d_orders d)" using r(2) by (auto simp: rows_ok_def)
  have "it_order it \<in> o_id ` set (d_orders d)" if "it \<in> set (d_items d)" for it
    using r(2) that by (auto simp: rows_ok_def)
  then have none: "items_of_order ?d (d_next d) = []"
    using fresh by (force simp: order_entered_def items_of_order_def filter_empty_conv)
  have q: "ordered_qty ?d oid = ordered_qty d oid" for oid
    by (simp add: ordered_qty_def items_of_order_def order_entered_def)
  have ph: "phase_of ?d oid = (if oid = d_next d then Held else phase_of d oid)" for oid
    using fresh find_key_None [of o_id "d_next d" "d_orders d"]
    by (simp add: phase_of_def order_entered_def find_append split: option.split)
  have idle: "in_phase Held (ordered_qty ?d (d_next d)) (\<lambda>p s. order_units (d_next d) p s (d_stock d))"
    using shop_okD(3) [OF r(1), of "d_next d"] phase_of_unknown [OF fresh] none
    by (simp add: stocked_def in_phase_def ordered_qty_def item_lines_def)
  have "stocked ?d oid" for oid
    using shop_okD(3) [OF r(1), of oid] idle
    by (cases "oid = d_next d") (simp_all add: stocked_def ph q, simp_all add: order_entered_def)
  moreover have "rows_ok ?d"
    using r(2) fresh by (auto simp: rows_ok_def items_ok_def order_entered_def less_Suc_eq)
  moreover have "numbered (d_seq ?d) (d_orders ?d)"
    using assms by (auto simp: shop_inv_def numbered_def order_entered_def less_Suc_eq)
  ultimately show ?thesis
    using r none by (simp add: shop_inv_def shop_ok_def) (simp add: order_entered_def)
qed

lemma crearPedido_Inr:
  assumes "crearPedido e ps fin d = Inr (oid, d')"
  shows "oid = d_next d \<and> (\<exists>d2. foldE (add_line e (cp_allowed ps) (fc_pickup_location (cp_choice ps)) oid) (cp_lines ps)
      (order_entered e d ps) = Inr d2 \<and>
    d' = fin (new_order e d ps) (record_event e oid EvCreated (cp_actor ps) (Some ''status'') None (Some (status_str PENDING)) None
      (Some (cp_meta ps @ [(''total'', JStr (cents_str (o_total (new_order e d ps)))),
        (''fulfillmentType'', JStr (fulfillment_str (fc_type (cp_choice ps)))),
        (''paymentMethod'', json_opt (cp_method ps))])) d2))"
  using assms by (auto simp: crearPedido_def bindE_eq_Inr Let_def order_entered_def)

definition wanted :: "linea_resuelta list \<Rightarrow> (id \<times> int) list" where
  "wanted ls = map (\<lambda>l. (lr_product l, lr_quantity l)) ls"

lemma crearPedido_keeps:
  assumes "shop_inv d" and "1000 \<le> e_year e" and "e_year e \<le> 9999" and "crearPedido e ps fin d = Inr (oid, d')"
    and "distinct (map lr_product (cp_lines ps))" and "\<forall>l \<in> set (cp_lines ps). 0 < lr_quantity l"
  shows "\<exists>d3. d' = fin (new_order e d ps) d3 \<and> shop_inv d3 \<and> d_orders d3 = d_orders d @ [new_order e d ps] \<and>
    d_cart d3 = d_cart d \<and> d_seq d3 = Suc (d_seq d) \<and> oid = d_next d \<and> oid < d_next d3 \<and>
    (\<forall>q. ordered_qty d3 oid q = line_qty (wanted (cp_lines ps)) q)"
proof -
  from crearPedido_Inr [OF assms(4)] obtain d2 where oid: "oid = d_next d" and
    f: "foldE (add_line e (cp_allowed ps) (fc_pickup_location (cp_choice ps)) (o_id (new_order e d ps))) (cp_lines ps)
      (order_entered e d ps) = Inr d2"
    and d': "d' = fin (new_order e d ps) (record_event e oid EvCreated (cp_actor ps) (Some ''status'') None
      (Some (status_str PENDING)) None (Some (cp_meta ps @ [(''total'', JStr (cents_str (o_total (new_order e d ps)))),
        (''fulfillmentType'', JStr (fulfillment_str (fc_type (cp_choice ps)))),
        (''paymentMethod'', json_opt (cp_method ps))])) d2)" by auto
  note en = order_entered_keeps [OF assms(1-3), of ps]
  have mem: "new_order e d ps \<in> set (d_orders (order_entered e d ps))" by (simp add: order_entered_def)
  have no: "items_of_order (order_entered e d ps) (o_id (new_order e d ps)) = []" using en by simp
  then have z: "ordered_qty (order_entered e d ps) (d_next d) q = 0" for q by (simp add: ordered_qty_def item_lines_def)
  have ok: "shop_ok (order_entered e d ps)" using en by (simp add: shop_invD)
  note l = add_lines_keep [OF ok mem _ f assms(6,5)]
  have "shop_inv d2"
    using l no en by (auto simp: shop_inv_def)
  define d3 where "d3 = record_event e oid EvCreated (cp_actor ps) (Some ''status'') None
      (Some (status_str PENDING)) None (Some (cp_meta ps @ [(''total'', JStr (cents_str (o_total (new_order e d ps)))),
        (''fulfillmentType'', JStr (fulfillment_str (fc_type (cp_choice ps)))),
        (''paymentMethod'', json_opt (cp_method ps))])) d2"
  have q3: "ordered_qty d3 oid q = ordered_qty d2 oid q" for q
    by (simp add: d3_def ordered_qty_def items_of_order_def)
  have "shop_inv d3"
    by (rule shop_inv_cong [OF \<open>shop_inv d2\<close>]) (use \<open>shop_inv d2\<close> in \<open>simp_all add: shop_invD d3_def\<close>)
  moreover have "d_orders d3 = d_orders d @ [new_order e d ps]" "d_cart d3 = d_cart d" "d_seq d3 = Suc (d_seq d)"
    "oid < d_next d3" "\<forall>q. ordered_qty d3 oid q = line_qty (wanted (cp_lines ps)) q"
    using l no z oid q3 by (simp_all add: order_entered_def wanted_def d3_def)
  ultimately show ?thesis using oid d' [folded d3_def] by blast
qed

lemma sellarCobro_same: "same_order (sellarCobro hv t ord) ord"
  by (simp add: same_order_def)

lemma seal_cobro_keeps:
  assumes "shop_inv d" and "ord \<in> set (d_orders d)"
  shows "shop_inv (seal_cobro e u cb ord d)"
  by (rule shop_inv_write [OF assms, of "sellarCobro (e_hv e) (e_now e) (ord\<lparr>o_payment := PayPaid, o_payment_ref := cb_reference cb\<rparr>)"])
    (simp_all add: seal_cobro_def same_order_def)

lemma save_typed_address_keeps: "shop_inv d \<Longrightarrow> shop_inv (save_typed_address e cl dto d)"
  by (rule shop_inv_cong [of d]) (auto simp: save_typed_address_def shop_invD split: option.split sum.split)

lemma checkout_Inr:
  assumes "checkout e cl dto d = Inr (oid, d')"
  shows "\<exists>address mid choice cart d1. mid = checkout_municipality cl dto address \<and>
    resolveAddress d cl dto = Inr address \<and>
    resolveChoice (e_collate e) d (co_type dto) (co_option dto) (co_pickup dto) mid = Inr choice \<and>
    cart = getCart d (cl_id cl) (at_municipality mid) \<and> cart \<noteq> [] \<and> (\<forall>l \<in> set cart. cln_is_available l) \<and>
    crearPedido e (checkout_params d cl dto address mid choice cart) (empty_cart (cl_id cl)) d = Inr (oid, d1) \<and>
    d' = save_typed_address e cl dto d1"
proof -
  from assms obtain address choice r where
    a: "resolveAddress d cl dto = Inr address"
    and c: "resolveChoice (e_collate e) d (co_type dto) (co_option dto) (co_pickup dto) (checkout_municipality cl dto address) = Inr choice"
    and n: "getCart d (cl_id cl) (at_municipality (checkout_municipality cl dto address)) \<noteq> []"
    and f: "filter (\<lambda>l. \<not> cln_is_available l) (getCart d (cl_id cl) (at_municipality (checkout_municipality cl dto address))) = []"
    and r: "crearPedido e (checkout_params d cl dto address (checkout_municipality cl dto address) choice
        (getCart d (cl_id cl) (at_municipality (checkout_municipality cl dto address)))) (empty_cart (cl_id cl)) d = Inr r"
    and t: "(case r of (oid, d') \<Rightarrow> Inr (oid, save_typed_address e cl dto d')) = (Inr (oid, d') :: error + id \<times> db)"
    unfolding checkout_def Let_def bindE_eq_Inr guardE_eq_Inr by (elim exE conjE) blast
  obtain oid1 d1 where r1: "r = (oid1, d1)" by (cases r)
  have t1: "oid1 = oid" "d' = save_typed_address e cl dto d1" using t by (simp_all add: r1)
  show ?thesis
    using a c n f r t1
    by (intro exI [of _ address] exI [of _ "checkout_municipality cl dto address"] exI [of _ choice]
        exI [of _ "getCart d (cl_id cl) (at_municipality (checkout_municipality cl dto address))"] exI [of _ d1])
      (simp add: r1 filter_empty_conv)
qed

lemma checkout_params_lines [simp]:
  "cp_lines (checkout_params d cl dto address mid choice cart) = map cart_linea cart"
  "cp_client (checkout_params d cl dto address mid choice cart) = cl_id cl"
  "cp_choice (checkout_params d cl dto address mid choice cart) = choice"
  "cp_municipality (checkout_params d cl dto address mid choice cart) = mid"
  "cp_allowed (checkout_params d cl dto address mid choice cart) = resolveAllowedLocationIds d mid choice"
  by (simp_all add: checkout_params_def)

lemma cart_linea_fields [simp]:
  "lr_product (cart_linea l) = cln_product l" "lr_quantity (cart_linea l) = cln_quantity l"
  "lr_unit (cart_linea l) = cln_unit_price l"
  by (simp_all add: cart_linea_def)

lemma checkout_keeps:
  assumes "shop_inv d" and "1000 \<le> e_year e" and "e_year e \<le> 9999" and "checkout e cl dto d = Inr (oid, d')"
  shows "shop_inv d'"
proof -
  from checkout_Inr [OF assms(4)] obtain address mid choice cart d1 where
    cart: "cart = getCart d (cl_id cl) (at_municipality mid)" and
    c: "crearPedido e (checkout_params d cl dto address mid choice cart) (empty_cart (cl_id cl)) d = Inr (oid, d1)" and
    d': "d' = save_typed_address e cl dto d1" by blast
  note ok = getCart_ok [OF shop_invD(3) [OF assms(1)], of "cl_id cl" "at_municipality mid"]
  have lines: "distinct (map lr_product (cp_lines (checkout_params d cl dto address mid choice cart)))"
    "\<forall>l \<in> set (cp_lines (checkout_params d cl dto address mid choice cart)). 0 < lr_quantity l"
    using ok by (simp_all add: cart comp_def)
  from crearPedido_keeps [OF assms(1-3) c lines] obtain d3 where "d1 = empty_cart (cl_id cl) (new_order e d
      (checkout_params d cl dto address mid choice cart)) d3" and i: "shop_inv d3" by blast
  then have "shop_inv d1"
    by (intro shop_inv_cong [OF i]) (simp_all add: empty_cart_def clearCart_def cart_ok_filter shop_invD(3))
  then show ?thesis unfolding d' by (rule save_typed_address_keeps)
qed

lemma crearParaCliente_Inr:
  assumes "crearParaCliente e u dto d = Inr (oid, d')"
  shows "\<exists>cl mid choice lineas. resolveLines d [] (cd_items dto) = Inr lineas \<and> distinct (map ol_product (cd_items dto)) \<and>
    crearPedido e (client_params d u dto cl mid choice lineas)
      (case cd_cobro dto of None \<Rightarrow> (\<lambda>_ d'. d') | Some cb \<Rightarrow> seal_cobro e u cb) d = Inr (oid, d')"
  using assms unfolding crearParaCliente_def Let_def bindE_eq_Inr guardE_eq_Inr
  by (elim exE conjE) (intro exI conjI, assumption, assumption, assumption)

lemma client_params_lines [simp]: "cp_lines (client_params d u dto cl mid choice lineas) = lineas"
  by (simp add: client_params_def Let_def)

lemma crearParaCliente_keeps:
  assumes "shop_inv d" and "1000 \<le> e_year e" and "e_year e \<le> 9999" and "crearParaCliente e u dto d = Inr (oid, d')"
    and "\<forall>l \<in> set (cd_items dto). 0 < ol_quantity l"
  shows "shop_inv d'"
proof -
  from crearParaCliente_Inr [OF assms(4)] obtain cl mid choice lineas where
    l: "resolveLines d [] (cd_items dto) = Inr lineas" and dist: "distinct (map ol_product (cd_items dto))"
    and c: "crearPedido e (client_params d u dto cl mid choice lineas)
      (case cd_cobro dto of None \<Rightarrow> (\<lambda>_ d'. d') | Some cb \<Rightarrow> seal_cobro e u cb) d = Inr (oid, d')" by blast
  have "\<forall>n \<in> set (map lr_quantity lineas). 0 < n"
    unfolding resolveLines_Inr(2) [OF l] using assms(5) by simp
  then have lines: "distinct (map lr_product (cp_lines (client_params d u dto cl mid choice lineas)))"
    "\<forall>x \<in> set (cp_lines (client_params d u dto cl mid choice lineas)). 0 < lr_quantity x"
    using resolveLines_Inr(1) [OF l] dist by simp_all
  from crearPedido_keeps [OF assms(1-3) c lines] obtain d3 where
    d': "d' = (case cd_cobro dto of None \<Rightarrow> (\<lambda>_ d'. d') | Some cb \<Rightarrow> seal_cobro e u cb)
      (new_order e d (client_params d u dto cl mid choice lineas)) d3" and i: "shop_inv d3"
    and o3: "d_orders d3 = d_orders d @ [new_order e d (client_params d u dto cl mid choice lineas)]" by blast
  have mem: "new_order e d (client_params d u dto cl mid choice lineas) \<in> set (d_orders d3)" by (simp add: o3)
  show ?thesis using i seal_cobro_keeps [OF i mem] by (auto simp: d' split: option.split)
qed

end
