(* ===== verification/Line_Laws.thy ===== *)
theory Line_Laws
  imports Creation_Laws
begin

section \<open>Correcting the lines keeps the shop's books\<close>

text \<open>
  \<open>updateItems\<close> first moves the stock by the differences, then writes the rows. Both sides are
  followed per product: what the order holds falls by the drops and grows by the rises, what its
  rows ask for falls by the removed lines and changes by the same rises, and the two meet.
\<close>

subsection \<open>Sums over a list with one entry per key\<close>

lemma line_qty_find:
  assumes "distinct (map k xs)"
  shows "line_qty (map (\<lambda>x. (k x, f x)) xs) p = (case List.find (\<lambda>x. k x = p) xs of None \<Rightarrow> 0 | Some x \<Rightarrow> f x)"
  using assms
proof (induction xs)
  case (Cons a xs)
  have "line_qty (map (\<lambda>x. (k x, f x)) xs) p = 0" if "p \<notin> k ` set xs" for p
    using that by (induction xs) auto
  then show ?case using Cons by auto
qed simp

lemma current_lines_distinct:
  assumes "distinct (map it_product its)"
  shows "current_lines its = map (\<lambda>it. (it_product it, it)) its"
proof -
  have "fold (\<lambda>it m. jm_set (it_product it) it m) its m = m @ map (\<lambda>it. (it_product it, it)) its"
    if "distinct (map fst m @ map it_product its)" for m
    using that assms
  proof (induction its arbitrary: m)
    case (Cons it its)
    have n: "it_product it \<notin> fst ` set m" using Cons.prems(1) by auto
    have "fold (\<lambda>it m. jm_set (it_product it) it m) its (m @ [(it_product it, it)]) =
      (m @ [(it_product it, it)]) @ map (\<lambda>it. (it_product it, it)) its"
      using Cons.prems by (intro Cons.IH) auto
    then show ?case by (simp add: jm_set_new [OF n])
  qed simp
  from this [of "[]"] show ?thesis using assms by (simp add: current_lines_def)
qed

lemma jm_get_products: "jm_get p (map (\<lambda>it. (it_product it, it)) its) = List.find (\<lambda>it. it_product it = p) its"
  by (induction its) auto

lemma ordered_qty_sum:
  "ordered_qty d oid p = sum_where (\<lambda>it. it_order it = oid \<and> it_product it = p) it_quantity (d_items d)"
  by (simp add: ordered_qty_def line_qty_def item_lines_def items_of_order_def sum_simps comp_def case_prod_beta)

subsection \<open>The stock moves by the differences\<close>

definition stock_of :: "db \<Rightarrow> id \<Rightarrow> stock_phase \<Rightarrow> (id \<Rightarrow> int) \<Rightarrow> stock \<Rightarrow> bool" where
  "stock_of d oid ph q st \<longleftrightarrow> books st \<and> in_phase ph q (\<lambda>p s. order_units oid p s st) \<and>
     (\<forall>oid' p s. oid' \<noteq> oid \<longrightarrow> s = Reserved \<or> s = Confirmed \<longrightarrow>
        order_units oid' p s st = order_units oid' p s (d_stock d))"

lemma stock_in_of: "stock_in d oid ph st \<longleftrightarrow> stock_of d oid ph (ordered_qty d oid) st"
  by (simp add: stock_in_def stock_of_def)

lemma stock_of_drop:
  assumes "stock_of d oid ph q st" and "ph = Held \<or> ph = Committed" and "0 \<le> n" and "n \<le> q p"
    and "release_product_units now oid p n uo st = Inr st'"
  shows "stock_of d oid ph (q(p := q p - n)) st'"
  using order_lines.drop_phase [of st ph q oid now p n uo st'] assms by (auto simp: stock_of_def)

lemma stock_of_raise:
  assumes "stock_of d oid Held q st" and "0 \<le> n" and "reserve_in c oid p n st = Inr st'"
  shows "stock_of d oid Held (q(p := q p + n)) st'"
  using order_lines.raise_phase [of st q oid c p n st'] assms by (auto simp: stock_of_def)

lemma stock_of_raise_commit:
  assumes "stock_of d oid Committed q st" and "0 \<le> n" and "reserve_in c oid p n st = Inr st'"
  shows "stock_of d oid Committed (q(p := q p + n)) (confirm_product_reservations oid p u st')"
  using order_lines.raise_commit_phase [of st q oid c p n st' _ u] assms by (auto simp: stock_of_def)

definition drops :: "linea_resuelta list \<Rightarrow> order_item list \<Rightarrow> (id \<times> int) list" where
  "drops incoming its = map (\<lambda>it. (it_product it, max 0 (drop_of incoming it))) its"

definition rises :: "(id \<times> order_item) list \<Rightarrow> linea_resuelta list \<Rightarrow> (id \<times> int) list" where
  "rises current incoming = map (\<lambda>l. (lr_product l, max 0 (rise_of current l))) incoming"

lemma drop_lines_effect:
  assumes "stock_of d0 oid ph q (d_stock d)" and "ph = Held \<or> ph = Committed" and "distinct (map it_product its)"
    and "\<forall>it \<in> set its. drop_of incoming it \<le> q (it_product it) \<and> 0 \<le> q (it_product it)"
    and "foldE (drop_line e u oid incoming) (map (\<lambda>it. (it_product it, it)) its) d = Inr d'"
  shows "\<exists>st. d' = d\<lparr>d_stock := st\<rparr> \<and> stock_of d0 oid ph (\<lambda>p. q p - line_qty (drops incoming its) p) st"
  using assms
proof (induction its arbitrary: d q)
  case Nil
  then show ?case by (auto simp: drops_def intro!: exI [of _ "d_stock d"])
next
  case (Cons it its)
  let ?n = "max 0 (drop_of incoming it)" and ?p = "it_product it"
  from Cons.prems(5) obtain d1 where d1: "drop_line e u oid incoming (?p, it) d = Inr d1"
    and rest: "foldE (drop_line e u oid incoming) (map (\<lambda>it. (it_product it, it)) its) d1 = Inr d'"
    by (auto simp: bindE_eq_Inr)
  have ne: "\<forall>x \<in> set its. it_product x \<noteq> ?p" using Cons.prems(3) by (auto simp: image_iff)
  have n: "?n \<le> q ?p" using Cons.prems(4) by simp
  obtain st1 where st1: "d1 = d\<lparr>d_stock := st1\<rparr>" "stock_of d0 oid ph (q(?p := q ?p - ?n)) st1"
  proof (cases "0 < drop_of incoming it")
    case True
    then show ?thesis
      using d1 that n stock_of_drop [OF Cons.prems(1,2) _ n]
      by (auto simp: drop_line_def bindE_eq_Inr Let_def)
  next
    case False
    then show ?thesis using d1 that [of "d_stock d"] Cons.prems(1) by (auto simp: drop_line_def)
  qed
  have "\<exists>st. d' = d1\<lparr>d_stock := st\<rparr> \<and>
      stock_of d0 oid ph (\<lambda>p. (q(?p := q ?p - ?n)) p - line_qty (drops incoming its) p) st"
    by (rule Cons.IH [OF _ Cons.prems(2) _ _ rest]) (use st1 Cons.prems(3,4) ne in \<open>auto simp: fun_upd_def\<close>)
  moreover have "(\<lambda>p. (q(?p := q ?p - ?n)) p - line_qty (drops incoming its) p) =
      (\<lambda>p. q p - line_qty (drops incoming (it # its)) p)"
    by (rule ext) (simp add: drops_def)
  ultimately show ?case using st1 by auto
qed

lemma raise_lines_effect:
  assumes "stock_of d0 (o_id ord) (stockPhase (o_status ord)) q (d_stock d)" and "stockPhase (o_status ord) \<noteq> Returned"
    and "foldE (raise_line e u ord allowed current) incoming d = Inr d'"
  shows "\<exists>st. d' = d\<lparr>d_stock := st\<rparr> \<and>
    stock_of d0 (o_id ord) (stockPhase (o_status ord)) (\<lambda>p. q p + line_qty (rises current incoming) p) st"
  using assms
proof (induction incoming arbitrary: d q)
  case Nil
  then show ?case by (auto simp: rises_def intro!: exI [of _ "d_stock d"])
next
  case (Cons l incoming)
  let ?n = "max 0 (rise_of current l)" and ?p = "lr_product l"
  from Cons.prems(3) obtain d1 where d1: "raise_line e u ord allowed current l d = Inr d1"
    and rest: "foldE (raise_line e u ord allowed current) incoming d1 = Inr d'" by (auto simp: bindE_eq_Inr)
  obtain st1 where st1: "d1 = d\<lparr>d_stock := st1\<rparr>"
    "stock_of d0 (o_id ord) (stockPhase (o_status ord)) (q(?p := q ?p + ?n)) st1"
  proof (cases "0 < rise_of current l")
    case True
    then obtain st2 where st2: "reserve_in (reserve_ctx e d allowed (o_pickup_location ord)) (o_id ord) ?p ?n (d_stock d) = Inr st2"
      and d1': "d1 = (if stockPhase (o_status ord) = Committed
        then d\<lparr>d_stock := confirm_product_reservations (o_id ord) ?p (u_id u) st2\<rparr> else d\<lparr>d_stock := st2\<rparr>)"
      using d1 by (auto simp: raise_line_def bindE_eq_Inr Let_def reserve_line_Inr)
    show ?thesis
    proof (cases "stockPhase (o_status ord)")
      case Held
      then show ?thesis using that [of st2] d1' stock_of_raise [of d0 "o_id ord" q "d_stock d" ?n] Cons.prems(1) st2 by auto
    next
      case Committed
      then show ?thesis
        using that [of "confirm_product_reservations (o_id ord) ?p (u_id u) st2"] d1'
          stock_of_raise_commit [of d0 "o_id ord" q "d_stock d" ?n] Cons.prems(1) st2 by auto
    next
      case Returned
      then show ?thesis using Cons.prems(2) by simp
    qed
  next
    case False
    then show ?thesis using d1 that [of "d_stock d"] Cons.prems(1) by (auto simp: raise_line_def)
  qed
  have "\<exists>st. d' = d1\<lparr>d_stock := st\<rparr> \<and> stock_of d0 (o_id ord) (stockPhase (o_status ord))
      (\<lambda>p. (q(?p := q ?p + ?n)) p + line_qty (rises current incoming) p) st"
    by (rule Cons.IH [OF _ Cons.prems(2) rest]) (use st1 in \<open>simp add: fun_upd_def\<close>)
  moreover have "(\<lambda>p. (q(?p := q ?p + ?n)) p + line_qty (rises current incoming) p) =
      (\<lambda>p. q p + line_qty (rises current (l # incoming)) p)"
    by (rule ext) (simp add: rises_def)
  ultimately show ?case using st1 by auto
qed

subsection \<open>The rows change by the same differences\<close>

definition row_qty :: "order_item list \<Rightarrow> id \<Rightarrow> id \<Rightarrow> int" where
  "row_qty rows oid p = sum_where (\<lambda>it. it_order it = oid \<and> it_product it = p) it_quantity rows"

text \<open>Lines still to save find their row as it was loaded, or no row of their product.\<close>

definition to_save :: "db \<Rightarrow> id \<Rightarrow> order_item list \<Rightarrow> linea_resuelta \<Rightarrow> bool" where
  "to_save d oid its l \<longleftrightarrow> (case List.find (\<lambda>it. it_product it = lr_product l) its of
     Some it \<Rightarrow> it \<in> set (d_items d) \<and> it_order it = oid
   | None \<Rightarrow> lr_product l \<notin> it_product ` set (items_of_order d oid))"

lemma corrected_item_keys [simp]:
  "it_id (corrected_item l it) = it_id it" "it_order (corrected_item l it) = it_order it"
  "it_product (corrected_item l it) = it_product it" "it_quantity (corrected_item l it) = lr_quantity l"
  "it_line_total (corrected_item l it) = line_total l" "it_unit_price (corrected_item l it) = to_fixed2 (lr_unit l)"
  by (simp_all add: corrected_item_def Let_def)

lemma items_ok_save_by:
  assumes "items_ok n rows" and "it \<in> set rows" and "it_id it' = it_id it" and "it_order it' = it_order it"
    and "it_product it' = it_product it" and "0 < it_quantity it'"
  shows "items_ok n (save_by it_id it' rows)"
proof -
  have u: "x = it" if "x \<in> set rows" "it_id x = it_id it" for x
    using assms(1,2) that by (auto simp: items_ok_def distinct_map inj_on_def)
  have "map it_product (filter (\<lambda>x. it_order x = oid) (save_by it_id it' rs)) =
      map it_product (filter (\<lambda>x. it_order x = oid) rs)" if "set rs \<subseteq> set rows" for oid rs
    using that u assms(3-5) by (induction rs) (auto simp: save_by_Cons)
  moreover have "\<forall>x \<in> set (save_by it_id it' rows). it_id x < n \<and> 0 < it_quantity x"
    using assms by (auto simp: items_ok_def save_by_def)
  ultimately show ?thesis using assms(1) by (auto simp: items_ok_def save_by_keys)
qed

lemma new_item_rows: "set (d_items d) \<subseteq> set (d_items (new_item oid l d))"
  by (auto simp: new_item_def)

lemma save_line_effect:
  assumes "rows_ok d" and "oid \<in> o_id ` set (d_orders d)" and "to_save d oid its l" and "0 < lr_quantity l"
    and "current = map (\<lambda>it. (it_product it, it)) its"
  shows "rows_ok (save_line oid current l d)"
    and "row_qty (d_items (save_line oid current l d)) oid' q =
      row_qty (d_items d) oid' q + (if oid' = oid \<and> q = lr_product l then rise_of current l else 0)"
    and "to_save d oid its l' \<Longrightarrow> lr_product l' \<noteq> lr_product l \<Longrightarrow> to_save (save_line oid current l d) oid its l'"
proof -
  have g: "jm_get (lr_product l) current = List.find (\<lambda>it. it_product it = lr_product l) its"
    by (simp add: assms(5) jm_get_products)
  show "rows_ok (save_line oid current l d)" and
    "row_qty (d_items (save_line oid current l d)) oid' q =
      row_qty (d_items d) oid' q + (if oid' = oid \<and> q = lr_product l then rise_of current l else 0)" and
    "to_save d oid its l' \<Longrightarrow> lr_product l' \<noteq> lr_product l \<Longrightarrow> to_save (save_line oid current l d) oid its l'"
  proof (atomize (full), cases "List.find (\<lambda>it. it_product it = lr_product l) its")
    case None
    then have n: "lr_product l \<notin> it_product ` set (items_of_order d oid)" using assms(3) by (simp add: to_save_def)
    have s: "save_line oid current l d = new_item oid l d" by (simp add: save_line_def g None)
    have "to_save (new_item oid l d) oid its l'" if "to_save d oid its l'" "lr_product l' \<noteq> lr_product l"
      using that new_item_rows [of d oid l] by (simp add: to_save_def items_of_new_item split: option.splits) blast
    moreover have "row_qty (d_items (new_item oid l d)) oid' q =
        row_qty (d_items d) oid' q + (if oid' = oid \<and> q = lr_product l then lr_quantity l else 0)"
      by (auto simp: row_qty_def new_item_def sum_simps)
    ultimately show "rows_ok (save_line oid current l d) \<and>
      row_qty (d_items (save_line oid current l d)) oid' q =
        row_qty (d_items d) oid' q + (if oid' = oid \<and> q = lr_product l then rise_of current l else 0) \<and>
      (to_save d oid its l' \<longrightarrow> lr_product l' \<noteq> lr_product l \<longrightarrow> to_save (save_line oid current l d) oid its l')"
      using rows_ok_new_item [OF assms(1,2,4) n] by (simp add: s rise_of_def g None)
  next
    case (Some it)
    then have it: "it \<in> set (d_items d)" "it_order it = oid" "it_product it = lr_product l"
      using assms(3) Some find_key_Some(2) [OF Some] by (simp_all add: to_save_def)
    have ok: "items_ok (d_next d) (d_items d)" and ids: "distinct (map it_id (d_items d))"
      using assms(1) by (simp_all add: rows_ok_def items_ok_def)
    have s: "save_line oid current l d = d\<lparr>d_items := save_by it_id (corrected_item l it) (d_items d)\<rparr>"
      by (simp add: save_line_def g Some)
    have mem: "it_id (corrected_item l it) \<in> it_id ` set (d_items d)" using it(1) by simp
    have r: "rows_ok (save_line oid current l d)"
      using assms(1) it items_ok_save_by [OF ok it(1), of "corrected_item l it"] assms(4)
      by (auto simp: s rows_ok_def set_save_by [OF mem])
    have "row_qty (save_by it_id (corrected_item l it) (d_items d)) oid' q =
        row_qty (d_items d) oid' q + (if oid' = oid \<and> q = lr_product l then lr_quantity l - it_quantity it else 0)"
      unfolding row_qty_def by (subst sum_where_save_by [OF ids it(1)]) (use it in auto)
    moreover have "to_save (save_line oid current l d) oid its l'"
      if t: "to_save d oid its l'" "lr_product l' \<noteq> lr_product l"
    proof (cases "List.find (\<lambda>it. it_product it = lr_product l') its")
      case None
      then show ?thesis using t it by (auto simp: to_save_def s items_of_order_def set_save_by [OF mem])
    next
      case (Some it')
      then have p: "it' \<in> set (d_items d)" "it_product it' = lr_product l'" using t find_key_Some(2) [OF Some] by (simp_all add: to_save_def)
      have "it_id it' \<noteq> it_id it"
        using ids p it t(2) by (auto simp: distinct_map inj_on_def)
      then show ?thesis using t Some p by (simp add: to_save_def s set_save_by [OF mem])
    qed
    ultimately show "rows_ok (save_line oid current l d) \<and>
      row_qty (d_items (save_line oid current l d)) oid' q =
        row_qty (d_items d) oid' q + (if oid' = oid \<and> q = lr_product l then rise_of current l else 0) \<and>
      (to_save d oid its l' \<longrightarrow> lr_product l' \<noteq> lr_product l \<longrightarrow> to_save (save_line oid current l d) oid its l')"
      using r by (simp add: s rise_of_def g Some)
  qed
qed

lemma save_line_frame [simp]:
  "d_stock (save_line oid current l d) = d_stock d" "d_orders (save_line oid current l d) = d_orders d"
  "d_cart (save_line oid current l d) = d_cart d" "d_seq (save_line oid current l d) = d_seq d"
  "d_refunds (save_line oid current l d) = d_refunds d"
  by (simp_all add: save_line_def split: option.split)

lemma save_lines_effect:
  assumes "rows_ok d" and "oid \<in> o_id ` set (d_orders d)" and "\<forall>l \<in> set ls. to_save d oid its l \<and> 0 < lr_quantity l"
    and "distinct (map lr_product ls)" and "current = map (\<lambda>it. (it_product it, it)) its"
  shows "rows_ok (fold (save_line oid current) ls d) \<and>
    (\<forall>oid' q. row_qty (d_items (fold (save_line oid current) ls d)) oid' q = row_qty (d_items d) oid' q +
      (if oid' = oid then line_qty (map (\<lambda>l. (lr_product l, rise_of current l)) ls) q else 0)) \<and>
    d_stock (fold (save_line oid current) ls d) = d_stock d \<and> d_orders (fold (save_line oid current) ls d) = d_orders d \<and>
    d_cart (fold (save_line oid current) ls d) = d_cart d \<and> d_seq (fold (save_line oid current) ls d) = d_seq d \<and>
    d_refunds (fold (save_line oid current) ls d) = d_refunds d"
  using assms
proof (induction ls arbitrary: d)
  case (Cons l ls)
  have l: "to_save d oid its l" "0 < lr_quantity l" using Cons.prems(3) by auto
  note e = save_line_effect [OF Cons.prems(1,2) l Cons.prems(5)]
  have "\<forall>l' \<in> set ls. to_save (save_line oid current l d) oid its l' \<and> 0 < lr_quantity l'"
  proof
    fix l' assume "l' \<in> set ls"
    moreover then have "lr_product l' \<noteq> lr_product l" using Cons.prems(4) by (auto simp: image_iff)
    ultimately show "to_save (save_line oid current l d) oid its l' \<and> 0 < lr_quantity l'"
      using Cons.prems(3) e(3) by simp
  qed
  then show ?case using Cons.IH [of "save_line oid current l d"] e(1,2) Cons.prems(2,4,5) by simp
qed simp

text \<open>Removing the lines that are gone.\<close>

lemma drop_gone_items_rows:
  assumes "rows_ok d" and "its = items_of_order d oid" and "current = map (\<lambda>it. (it_product it, it)) its"
  shows "drop_gone_items current incoming d =
    d\<lparr>d_items := filter (\<lambda>it. \<not> (it_order it = oid \<and> it_product it \<notin> lr_product ` set incoming)) (d_items d)\<rparr>"
proof -
  define gone where "gone = map (\<lambda>(_, it). it_id it)
      (filter (\<lambda>(_, it). it_product it \<notin> lr_product ` set incoming) current)"
  have g: "set gone = it_id ` {it \<in> set (d_items d). it_order it = oid \<and> it_product it \<notin> lr_product ` set incoming}"
    by (auto simp: gone_def assms(2,3) items_of_order_def image_iff)
  have "filter (\<lambda>it. it_id it \<notin> set gone) (d_items d) =
      filter (\<lambda>it. \<not> (it_order it = oid \<and> it_product it \<notin> lr_product ` set incoming)) (d_items d)"
  proof (rule filter_cong [OF refl])
    fix it assume it: "it \<in> set (d_items d)"
    have "inj_on it_id (set (d_items d))" using assms(1) by (simp add: rows_ok_def items_ok_def distinct_map)
    then show "(it_id it \<notin> set gone) = (\<not> (it_order it = oid \<and> it_product it \<notin> lr_product ` set incoming))"
      unfolding g using it by (simp add: inj_on_image_mem_iff [of it_id "set (d_items d)"])
  qed
  then show ?thesis by (simp add: drop_gone_items_def gone_def)
qed

lemma items_ok_filter: "items_ok n rows \<Longrightarrow> items_ok n (filter P rows)"
proof -
  assume a: "items_ok n rows"
  have "distinct (map it_product (filter (\<lambda>it. it_order it = oid) (filter P rows)))" for oid
    using distinct_map_filter [of it_product "filter (\<lambda>it. it_order it = oid) rows" P] a
    by (simp add: items_ok_def conj_commute)
  then show ?thesis using a by (simp add: items_ok_def distinct_map_filter)
qed

lemma items_of_order_products:
  assumes "rows_ok d"
  shows "distinct (map it_product (items_of_order d oid))"
  using assms by (simp add: rows_ok_def items_ok_def items_of_order_def)

lemma wanted_rows:
  assumes "rows_ok d" and "oid \<in> o_id ` set (d_orders d)" and "its = items_of_order d oid"
    and "current = map (\<lambda>it. (it_product it, it)) its"
    and "distinct (map lr_product incoming)" and "\<forall>l \<in> set incoming. 0 < lr_quantity l"
    and "d' = fold (save_line oid current) incoming (drop_gone_items current incoming d)"
  shows "rows_ok d'" and "row_qty (d_items d') oid' q =
      (if oid' = oid then line_qty (wanted incoming) q else row_qty (d_items d) oid' q)"
    and "d_stock d' = d_stock d" and "d_orders d' = d_orders d" and "d_cart d' = d_cart d" and "d_seq d' = d_seq d"
    and "d_refunds d' = d_refunds d"
proof -
  let ?P = "lr_product ` set incoming"
  define d1 where "d1 = d\<lparr>d_items := filter (\<lambda>it. \<not> (it_order it = oid \<and> it_product it \<notin> ?P)) (d_items d)\<rparr>"
  have d1: "drop_gone_items current incoming d = d1"
    unfolding d1_def by (rule drop_gone_items_rows [OF assms(1,3,4)])
  have r1: "rows_ok d1"
    using assms(1) items_ok_filter by (auto simp: d1_def rows_ok_def)
  have q1: "row_qty (d_items d1) oid' q = (if oid' = oid \<and> q \<notin> ?P then 0 else row_qty (d_items d) oid' q)" for oid' q
    by (auto simp: d1_def row_qty_def sum_simps intro!: sum_where_cong sum_where_False)
  have ts: "\<forall>l \<in> set incoming. to_save d1 oid its l \<and> 0 < lr_quantity l"
  proof
    fix l assume l: "l \<in> set incoming"
    show "to_save d1 oid its l \<and> 0 < lr_quantity l"
    proof (cases "List.find (\<lambda>it. it_product it = lr_product l) its")
      case None
      then have "lr_product l \<notin> it_product ` set its" by (simp add: find_key_None)
      then show ?thesis using None l assms(6) by (auto simp: to_save_def d1_def items_of_order_def assms(3))
    next
      case (Some it)
      then have "it \<in> set its" "it_product it = lr_product l" by (auto dest: find_key_Some)
      then show ?thesis using Some l assms(6) by (auto simp: to_save_def d1_def assms(3) items_of_order_def)
    qed
  qed
  have o1: "oid \<in> o_id ` set (d_orders d1)" using assms(2) by (simp add: d1_def)
  note e = save_lines_effect [OF r1 o1 ts assms(5,4)]
  have d': "d' = fold (save_line oid current) incoming d1" by (simp add: assms(7) d1)
  show "rows_ok d'" "d_stock d' = d_stock d" "d_orders d' = d_orders d" "d_cart d' = d_cart d" "d_seq d' = d_seq d"
    "d_refunds d' = d_refunds d"
    using e by (simp_all add: d') (simp_all add: d1_def)
  have its: "row_qty (d_items d) oid q = (case List.find (\<lambda>it. it_product it = q) its of None \<Rightarrow> 0 | Some it \<Rightarrow> it_quantity it)" for q
    using line_qty_find [OF items_of_order_products [OF assms(1), of oid], of it_quantity q]
    unfolding assms(3) by (simp add: row_qty_def ordered_qty_sum [symmetric] ordered_qty_def item_lines_def)
  have total: "row_qty (d_items d1) oid q + line_qty (map (\<lambda>l. (lr_product l, rise_of current l)) incoming) q =
      line_qty (wanted incoming) q" for q
  proof (cases "List.find (\<lambda>l. lr_product l = q) incoming")
    case None
    then have "q \<notin> ?P" by (simp add: find_key_None)
    then show ?thesis
      using None by (simp add: q1 wanted_def line_qty_find [OF assms(5)])
  next
    case (Some l)
    then have l: "l \<in> set incoming" "lr_product l = q" by (auto dest: find_key_Some)
    then have "q \<in> ?P" by blast
    then show ?thesis
      using Some l by (simp add: q1 its wanted_def line_qty_find [OF assms(5)] rise_of_def assms(4) jm_get_products
          split: option.split)
  qed
  show "row_qty (d_items d') oid' q =
      (if oid' = oid then line_qty (wanted incoming) q else row_qty (d_items d) oid' q)"
  proof (cases "oid' = oid")
    case True
    then show ?thesis using e total by (simp add: d')
  next
    case False
    then show ?thesis using e by (simp add: d' q1)
  qed
qed

text \<open>What the stock gives back and takes meets what the rows ask for.\<close>

lemma drops_rises:
  assumes "distinct (map it_product its)" and "distinct (map lr_product incoming)" and "\<forall>it \<in> set its. 0 < it_quantity it"
    and "\<forall>l \<in> set incoming. 0 < lr_quantity l" and "current = map (\<lambda>it. (it_product it, it)) its"
  shows "line_qty (item_lines its) q - line_qty (drops incoming its) q + line_qty (rises current incoming) q =
    line_qty (wanted incoming) q"
proof -
  have i: "line_qty (item_lines its) q = (case List.find (\<lambda>it. it_product it = q) its of None \<Rightarrow> 0 | Some it \<Rightarrow> it_quantity it)"
    and dr: "line_qty (drops incoming its) q =
      (case List.find (\<lambda>it. it_product it = q) its of None \<Rightarrow> 0 | Some it \<Rightarrow> max 0 (drop_of incoming it))"
    and ri: "line_qty (rises current incoming) q =
      (case List.find (\<lambda>l. lr_product l = q) incoming of None \<Rightarrow> 0 | Some l \<Rightarrow> max 0 (rise_of current l))"
    and w: "line_qty (wanted incoming) q =
      (case List.find (\<lambda>l. lr_product l = q) incoming of None \<Rightarrow> 0 | Some l \<Rightarrow> lr_quantity l)"
    by (simp_all add: item_lines_def drops_def rises_def wanted_def line_qty_find [OF assms(1)] line_qty_find [OF assms(2)])
  have fi: "it \<in> set its \<and> it_product it = q" if "List.find (\<lambda>it. it_product it = q) its = Some it" for it
    using that by (auto dest: find_key_Some)
  have fl: "l \<in> set incoming \<and> lr_product l = q" if "List.find (\<lambda>l. lr_product l = q) incoming = Some l" for l
    using that by (auto dest: find_key_Some)
  show ?thesis
  proof (cases "List.find (\<lambda>it. it_product it = q) its")
    case ni: None
    show ?thesis
    proof (cases "List.find (\<lambda>l. lr_product l = q) incoming")
      case None
      then show ?thesis unfolding i dr ri w using ni by simp
    next
      case (Some l)
      then show ?thesis unfolding i dr ri w using ni fl [OF Some] assms(4)
        by (simp add: rise_of_def assms(5) jm_get_products)
    qed
  next
    case si: (Some it)
    then have d: "drop_of incoming it = (case List.find (\<lambda>l. lr_product l = q) incoming of
        Some l \<Rightarrow> it_quantity it - lr_quantity l | None \<Rightarrow> it_quantity it)"
      using fi [OF si] by (simp add: drop_of_def)
    show ?thesis
    proof (cases "List.find (\<lambda>l. lr_product l = q) incoming")
      case None
      then show ?thesis unfolding i dr ri w using si fi [OF si] assms(3) by (simp add: d)
    next
      case (Some l)
      then show ?thesis unfolding i dr ri w using si fl [OF Some]
        by (simp add: d rise_of_def assms(5) jm_get_products)
    qed
  qed
qed

subsection \<open>updateItems\<close>

definition new_subtotal :: "linea_resuelta list \<Rightarrow> num64" where
  "new_subtotal incoming = js_div (of_int (lines_cents incoming)) 100"

lemma write_lines_frame:
  "d_orders (write_lines e u ord current incoming reason d) =
     save_by o_id (ord\<lparr>o_subtotal := to_fixed2 (new_subtotal incoming),
      o_total := to_fixed2 (js_add (new_subtotal incoming) (dec_num (o_delivery_fee ord)))\<rparr>)
      (d_orders (fold (save_line (o_id ord) current) incoming (drop_gone_items current incoming d)))"
  "x = fold (save_line (o_id ord) current) incoming (drop_gone_items current incoming d) \<Longrightarrow>
    d_stock (write_lines e u ord current incoming reason d) = d_stock x \<and>
    d_items (write_lines e u ord current incoming reason d) = d_items x \<and>
    d_next (write_lines e u ord current incoming reason d) = d_next x \<and>
    d_seq (write_lines e u ord current incoming reason d) = d_seq x \<and>
    d_cart (write_lines e u ord current incoming reason d) = d_cart x \<and>
    d_refunds (write_lines e u ord current incoming reason d) = d_refunds x"
  by (simp_all add: write_lines_def new_subtotal_def Let_def)

lemma updateItems_Inr:
  assumes "updateItems e u oid lines reason d = Inr d'"
  shows "\<exists>ord current incoming d1. find_order d oid = Some ord \<and> distinct (map ol_product lines) \<and>
    current = current_lines (items_of_order d oid) \<and> resolveLines d current lines = Inr incoming \<and>
    move_lines e u ord current incoming d = Inr d1 \<and> d' = write_lines e u ord current incoming reason d1"
  using assms unfolding updateItems_def Let_def bindE_eq_Inr guardE_eq_Inr order_or_404_Inr
  by (elim exE conjE) (intro exI conjI, assumption, assumption, rule refl, assumption, assumption, simp)

lemma updateItems_keeps:
  assumes "shop_inv d" and "updateItems e u oid lines reason d = Inr d'" and "\<forall>l \<in> set lines. 0 < ol_quantity l"
  shows "shop_inv d' \<and> (\<exists>incoming. resolveLines d (current_lines (items_of_order d oid)) lines = Inr incoming \<and>
    (\<forall>q. ordered_qty d' oid q = line_qty (wanted incoming) q))"
proof -
  from updateItems_Inr [OF assms(2)] obtain ord current incoming d1 where
    f: "find_order d oid = Some ord" and dl: "distinct (map ol_product lines)"
    and cur: "current = current_lines (items_of_order d oid)" and res: "resolveLines d current lines = Inr incoming"
    and mv: "move_lines e u ord current incoming d = Inr d1" and d': "d' = write_lines e u ord current incoming reason d1"
    by blast
  define d2 where d2: "d2 = fold (save_line (o_id ord) current) incoming (drop_gone_items current incoming d1)"
  have w: "d_orders d' = save_by o_id (ord\<lparr>o_subtotal := to_fixed2 (new_subtotal incoming),
      o_total := to_fixed2 (js_add (new_subtotal incoming) (dec_num (o_delivery_fee ord)))\<rparr>) (d_orders d2)"
    "d_stock d' = d_stock d2" "d_items d' = d_items d2" "d_next d' = d_next d2" "d_seq d' = d_seq d2" "d_cart d' = d_cart d2"
    using write_lines_frame(2) [OF d2, of e u reason] by (simp_all add: d' d2 write_lines_frame(1))
  define its where "its = items_of_order d oid"
  have ro: "rows_ok d" by (rule shop_invD(2) [OF assms(1)])
  have mem: "ord \<in> set (d_orders d)" and oid: "o_id ord = oid" using find_order_Some [OF f] by simp_all
  have di: "distinct (map it_product its)" unfolding its_def by (rule items_of_order_products [OF ro])
  have c: "current = map (\<lambda>it. (it_product it, it)) its"
    using current_lines_distinct [OF di] by (simp add: cur its_def)
  have dp: "distinct (map lr_product incoming)" using resolveLines_Inr(1) [OF res] dl by simp
  have "\<forall>n \<in> set (map lr_quantity incoming). 0 < n"
    unfolding resolveLines_Inr(2) [OF res] using assms(3) by simp
  then have pl: "\<forall>l \<in> set incoming. 0 < lr_quantity l" by simp
  have pi: "\<forall>it \<in> set its. 0 < it_quantity it"
    using ro by (auto simp: its_def items_of_order_def rows_ok_def items_ok_def)
  have oq: "ordered_qty d oid = line_qty (item_lines its)" by (simp add: ordered_qty_def its_def)
  note start = stock_in_start [OF shop_invD(1) [OF assms(1)] mem]
  have "\<exists>st. d1 = d\<lparr>d_stock := st\<rparr> \<and> stock_of d oid (stockPhase (o_status ord)) (line_qty (wanted incoming)) st"
  proof (cases "stockPhase (o_status ord) = Returned")
    case True
    then show ?thesis using mv start oid
      by (intro exI [of _ "d_stock d"]) (simp add: move_lines_def stock_in_def stock_of_def in_phase_def)
  next
    case False
    then have ph: "stockPhase (o_status ord) = Held \<or> stockPhase (o_status ord) = Committed"
      by (cases "stockPhase (o_status ord)") auto
    from mv False obtain dm where dm: "foldE (drop_line e u oid incoming) (map (\<lambda>it. (it_product it, it)) its) d = Inr dm"
      and up: "foldE (raise_line e u ord (allowedLocationsFor d ord) current) incoming dm = Inr d1"
      by (auto simp: move_lines_def bindE_eq_Inr oid c)
    have s0: "stock_of d oid (stockPhase (o_status ord)) (line_qty (item_lines its)) (d_stock d)"
      using start by (simp add: stock_in_of oid oq)
    have "\<forall>it \<in> set its. drop_of incoming it \<le> line_qty (item_lines its) (it_product it) \<and>
        0 \<le> line_qty (item_lines its) (it_product it)"
    proof
      fix it assume it: "it \<in> set its"
      have "line_qty (item_lines its) (it_product it) = it_quantity it"
        using line_qty_find [OF di, of it_quantity "it_product it"] find_distinct_key [OF di it] by (simp add: item_lines_def)
      moreover have "drop_of incoming it \<le> it_quantity it"
      proof (cases "List.find (\<lambda>l. lr_product l = it_product it) incoming")
        case (Some l)
        have "l \<in> set incoming" by (rule find_key_Some(1) [OF Some])
        then show ?thesis using Some pl by (simp add: drop_of_def less_imp_le)
      qed (simp add: drop_of_def)
      ultimately show "drop_of incoming it \<le> line_qty (item_lines its) (it_product it) \<and>
          0 \<le> line_qty (item_lines its) (it_product it)" using pi it by (simp add: less_imp_le)
    qed
    from drop_lines_effect [OF s0 ph di this dm] obtain st1 where st1: "dm = d\<lparr>d_stock := st1\<rparr>"
      "stock_of d oid (stockPhase (o_status ord)) (\<lambda>p. line_qty (item_lines its) p - line_qty (drops incoming its) p) st1" by blast
    from raise_lines_effect [of d ord _ dm, OF _ False up] st1 oid obtain st2 where "d1 = dm\<lparr>d_stock := st2\<rparr>"
      "stock_of d oid (stockPhase (o_status ord))
        (\<lambda>p. line_qty (item_lines its) p - line_qty (drops incoming its) p + line_qty (rises current incoming) p) st2" by auto
    then show ?thesis using st1 drops_rises [OF di dp pi pl c] by auto
  qed
  then obtain st where st: "d1 = d\<lparr>d_stock := st\<rparr>"
    "stock_of d oid (stockPhase (o_status ord)) (line_qty (wanted incoming)) st" by blast
  have r1: "rows_ok d1" using ro by (simp add: st(1) rows_ok_def)
  have m1: "oid \<in> o_id ` set (d_orders d1)" using mem oid by (auto simp: st(1))
  have i1: "its = items_of_order d1 oid" by (simp add: its_def st(1) items_of_order_def)
  note rows = wanted_rows [OF r1 m1 i1 c dp pl d2 [unfolded oid]]
  have r2: "rows_ok d2" by (rule rows(1))
  have o2: "d_orders d2 = d_orders d" using rows(4) by (simp add: st(1))
  define ord' where "ord' = ord\<lparr>o_subtotal := to_fixed2 (new_subtotal incoming),
      o_total := to_fixed2 (js_add (new_subtotal incoming) (dec_num (o_delivery_fee ord)))\<rparr>"
  have so: "same_order ord' ord" "o_status ord' = o_status ord" by (simp_all add: ord'_def same_order_def)
  have w1: "d_orders d' = save_by o_id ord' (d_orders d2)" using w(1) by (simp add: ord'_def)
  have r3: "rows_ok d'"
    by (rule rows_ok_save [OF r2 _ same_orderD [OF so(1)] w1 w(3,4)]) (simp add: o2 mem)
  have q: "ordered_qty d' oid' q = (if oid' = oid then line_qty (wanted incoming) q else ordered_qty d oid' q)" for oid' q
    using rows(2) [of oid' q] by (simp add: ordered_qty_sum row_qty_def w(3) st(1))
  have ph: "phase_of d' oid' = phase_of d oid'" for oid'
    using phase_of_save [OF ro mem same_orderD [OF so(1)] w1 [unfolded o2]] phase_of_row [OF ro mem] so(2) by simp
  have sd: "d_stock d' = st" using rows(3) by (simp add: w(2) st(1))
  have "stocked d' oid'" for oid'
    using shop_okD(3) [OF shop_invD(1) [OF assms(1)], of oid'] st(2) phase_of_row [OF ro mem] oid
    by (auto simp: stocked_def stock_of_def in_phase_def ph q sd)
  moreover have "numbered (d_seq d') (d_orders d')"
    using numbered_save [of "d_seq d" "d_orders d" ord ord'] assms(1) ro mem so(1) rows(6)
    by (simp add: w1 o2 w(5) st(1) shop_inv_def rows_ok_def)
  ultimately have "shop_inv d'"
    using r3 st(2) rows(5) shop_invD(3) [OF assms(1)] by (simp add: shop_inv_def shop_ok_def sd stock_of_def w(6) st(1))
  then show ?thesis using q res by (auto simp: cur)
qed

end
