(* ===== verification/Refunds.thy ===== *)
theory Refunds
  imports Order_Changes
begin

section \<open>Money given back\<close>

text \<open>
  \<open>src/refunds/refunds.service.ts\<close>. Asking is not giving back: a requested refund commits money, a
  completed one has left, a rejected one counts for nothing. Amounts are whole cents, as the
  service counts them. \<open>request\<close> runs under a lock on the order, so its reading and its writing are
  one step; \<open>complete\<close> and \<open>reject\<close> read the refund first and write it in a transaction of their own.
  The names \<open>decorate\<close> adds for the panel and the mails are left out.
\<close>

datatype refund_actor = RaUser id | RaSystem

text \<open>\<open>amount\<close> is the number the decimal text of the request stands for.\<close>

record refund_dto =
  rd_amount :: "rat option"
  rd_reason :: string
  rd_method :: "refund_method option"
  rd_destination :: "string option"
  rd_notes :: "string option"

record complete_dto =
  cf_destination :: "string option"
  cf_provider_ref :: "string option"
  cf_notes :: "string option"

record refund_summary =
  rs_total :: cents
  rs_refunded :: cents
  rs_requested :: cents
  rs_refundable :: cents

text \<open>\<open>cents\<close> and \<open>fromCents\<close> of the service.\<close>

definition amount_cents :: "num64 \<Rightarrow> int" where
  "amount_cents amount = math_round (js_mul amount 100)"

definition fromCents :: "int \<Rightarrow> cents" where
  "fromCents v = to_fixed2 (js_div (of_int v) 100)"

definition refunds_of :: "refund list \<Rightarrow> id \<Rightarrow> refund_status \<Rightarrow> int" where
  "refunds_of rs oid st = sum_where (\<lambda>r. rf_order r = oid \<and> rf_status r = st) (\<lambda>r. amount_cents (dec_num (rf_amount r))) rs"

definition summaryFor :: "db \<Rightarrow> order \<Rightarrow> refund_summary" where
  "summaryFor d ord =
     (let completed = refunds_of (d_refunds d) (o_id ord) RefundCompleted;
          requested = refunds_of (d_refunds d) (o_id ord) RefundRequested;
          total = amount_cents (dec_num (o_total ord))
      in \<lparr>rs_total = fromCents total, rs_refunded = fromCents completed, rs_requested = fromCents requested,
          rs_refundable = fromCents (max 0 (total - completed - requested))\<rparr>)"

definition summary :: "db \<Rightarrow> id \<Rightarrow> error + refund_summary" where
  "summary d oid = bindE (order_or_404 d oid) (\<lambda>ord. Inr (summaryFor d ord))"

definition actor_of :: "refund_actor \<Rightarrow> event_actor" where
  "actor_of a = (case a of RaUser u \<Rightarrow> ActorAdmin u | RaSystem \<Rightarrow> ActorSystem)"

definition with_usd :: "int \<Rightarrow> string" where
  "with_usd c = cents_str (fromCents c) @ '' USD''"

definition new_refund :: "env \<Rightarrow> id \<Rightarrow> id \<Rightarrow> int \<Rightarrow> refund_dto \<Rightarrow> refund_actor \<Rightarrow> refund" where
  "new_refund e rid oid importe dto actor =
     \<lparr>rf_id = rid, rf_order = oid, rf_amount = fromCents importe, rf_currency = ''USD'', rf_status = RefundRequested,
      rf_method = (case rd_method dto of None \<Rightarrow> RefundManual | Some m \<Rightarrow> m),
      rf_origin = (case actor of RaSystem \<Rightarrow> OriginSystem | RaUser _ \<Rightarrow> OriginAdmin),
      rf_reason = rd_reason dto, rf_destination = rd_destination dto, rf_provider_ref = None, rf_notes = rd_notes dto,
      rf_requested_by = (case actor of RaUser u \<Rightarrow> Some u | RaSystem \<Rightarrow> None), rf_requested_at = e_now e,
      rf_completed_by = None, rf_completed_at = None, rf_rejected_by = None, rf_rejected_at = None,
      rf_rejection_reason = None\<rparr>"

text \<open>The amount asked for, or all that can be given back.\<close>

definition importe :: "refund_dto \<Rightarrow> int \<Rightarrow> int" where
  "importe dto refundable = (case rd_amount dto of Some a \<Rightarrow> amount_cents (rnd64 a) | None \<Rightarrow> refundable)"

definition request :: "env \<Rightarrow> id \<Rightarrow> refund_dto \<Rightarrow> refund_actor \<Rightarrow> db \<Rightarrow> error + id \<times> db" where
  "request e oid dto actor d =
     bindE (order_or_404 d oid) (\<lambda>ord.
     bindE (guardE (o_payment ord = PayPaid) (Conflict ''Solo se puede reembolsar un pedido cobrado'')) (\<lambda>_.
     let refundable = amount_cents (dec_num (rs_refundable (summaryFor d ord))) in
     bindE (guardE (\<not> refundable \<le> 0) (Conflict ''Este pedido ya tiene comprometido o devuelto todo lo cobrado'')) (\<lambda>_.
     let n = importe dto refundable in
     bindE (guardE (\<not> n \<le> 0) (BadRequest ''El importe a devolver tiene que ser mayor que cero'')) (\<lambda>_.
     bindE (guardE (\<not> refundable < n) (Conflict ''No se puede devolver esa cantidad'')) (\<lambda>_.
     let r = new_refund e (d_next d) (o_id ord) n dto actor;
         amount = amount_cents (dec_num (rf_amount r))
     in Inr (rf_id r, record_event e oid EvRefundRequested (actor_of actor) (Some ''refund'') None (Some (with_usd amount))
          (Some (rd_reason dto))
          (Some [(''refundId'', id_json (rf_id r)), (''amount'', JStr (cents_str (fromCents amount)))])
          (d\<lparr>d_refunds := d_refunds d @ [r], d_next := Suc (d_next d)\<rparr>)))))))"

definition find_refund :: "db \<Rightarrow> id \<Rightarrow> error + refund" where
  "find_refund d rid = from_option (NotFound ''Refund not found'') (List.find (\<lambda>r. rf_id r = rid) (d_refunds d))"

definition save_refund :: "refund \<Rightarrow> db \<Rightarrow> db" where
  "save_refund r d = d\<lparr>d_refunds := save_by rf_id r (d_refunds d)\<rparr>"

definition completedCents :: "db \<Rightarrow> id \<Rightarrow> int" where
  "completedCents d oid = refunds_of (d_refunds d) oid RefundCompleted"

definition completed_refund :: "env \<Rightarrow> user \<Rightarrow> complete_dto \<Rightarrow> refund \<Rightarrow> refund" where
  "completed_refund e u dto r = r\<lparr>rf_status := RefundCompleted,
     rf_destination := first_some (cf_destination dto) (rf_destination r),
     rf_provider_ref := first_some (cf_provider_ref dto) (rf_provider_ref r),
     rf_notes := first_some (cf_notes dto) (rf_notes r),
     rf_completed_by := Some (u_id u), rf_completed_at := Some (e_now e)\<rparr>"

definition complete_tx :: "env \<Rightarrow> user \<Rightarrow> complete_dto \<Rightarrow> refund \<Rightarrow> order \<Rightarrow> db \<Rightarrow> db" where
  "complete_tx e u dto r ord d =
     (let r1 = completed_refund e u dto r;
          d1 = save_refund r1 d;
          fullyRefunded = (amount_cents (dec_num (o_total ord)) \<le> completedCents d1 (rf_order r));
          d2 = record_event e (o_id ord) EvRefundCompleted (ActorAdmin (u_id u)) (Some ''refund'') (Some ''requested'')
                 (Some (cents_str (rf_amount r) @ '' USD'')) (Some (rf_reason r))
                 (Some [(''refundId'', id_json (rf_id r)), (''amount'', JStr (cents_str (rf_amount r))),
                        (''destination'', json_opt (rf_destination r1)), (''providerRef'', json_opt (rf_provider_ref r1)),
                        (''partial'', JBool (\<not> fullyRefunded))]) d1
      in if fullyRefunded \<and> o_payment ord \<noteq> PayRefunded
         then record_event e (o_id ord) EvPaymentStatusChanged (ActorAdmin (u_id u)) (Some ''paymentStatus'')
                (Some (payment_str (o_payment ord))) (Some (payment_str PayRefunded)) (Some ''Se devolvio todo lo cobrado'')
                (Some [(''refundId'', id_json (rf_id r))]) (save_order (ord\<lparr>o_payment := PayRefunded\<rparr>) d2)
         else d2)"

definition complete_refund :: "env \<Rightarrow> user \<Rightarrow> id \<Rightarrow> complete_dto \<Rightarrow> db \<Rightarrow> error + db" where
  "complete_refund e u rid dto d =
     bindE (find_refund d rid) (\<lambda>r.
     bindE (guardE (rf_status r = RefundRequested) (Conflict ''Este reembolso ya no esta solicitado'')) (\<lambda>_.
     bindE (guardE (\<not> (rf_method r = RefundManual \<and> \<not> truthy (first_some (cf_destination dto) (rf_destination r))))
              (BadRequest ''Hace falta decir a donde se envio el dinero'')) (\<lambda>_.
     bindE (order_or_404 d (rf_order r)) (\<lambda>ord.
     Inr (complete_tx e u dto r ord d)))))"

definition reject_refund :: "env \<Rightarrow> user \<Rightarrow> id \<Rightarrow> string \<Rightarrow> db \<Rightarrow> error + db" where
  "reject_refund e u rid reason d =
     bindE (find_refund d rid) (\<lambda>r.
     bindE (guardE (rf_status r = RefundRequested) (Conflict ''Este reembolso ya no esta solicitado'')) (\<lambda>_.
     Inr (record_event e (rf_order r) EvRefundRejected (ActorAdmin (u_id u)) (Some ''refund'') (Some ''requested'')
          (Some ''rejected'') (Some reason)
          (Some [(''refundId'', id_json (rf_id r)), (''amount'', JStr (cents_str (rf_amount r)))])
          (save_refund (r\<lparr>rf_status := RefundRejected, rf_rejected_by := Some (u_id u), rf_rejected_at := Some (e_now e),
             rf_rejection_reason := Some reason\<rparr>) d))))"

definition late_payment_dto :: refund_dto where
  "late_payment_dto = \<lparr>rd_amount = None,
     rd_reason = ''El pago llego despues de que el pedido caducara y ya no habia mercancia disponible'',
     rd_method = None, rd_destination = None, rd_notes = None\<rparr>"

text \<open>A failure to open it is logged and swallowed.\<close>

definition requestForLatePaymentWithoutStock :: "env \<Rightarrow> order \<Rightarrow> db \<Rightarrow> db" where
  "requestForLatePaymentWithoutStock e ord d =
     (case request e (o_id ord) late_payment_dto RaSystem d of Inl _ \<Rightarrow> d | Inr (_, d') \<Rightarrow> d')"

definition refund_cmp :: "refund \<Rightarrow> refund \<Rightarrow> int" where
  "refund_cmp a b = rf_requested_at a - rf_requested_at b"

definition listQueue :: "db \<Rightarrow> refund_status option \<Rightarrow> refund list" where
  "listQueue d st = js_sort refund_cmp
     (filter (\<lambda>r. rf_status r = (case st of None \<Rightarrow> RefundRequested | Some s \<Rightarrow> s)) (d_refunds d))"

subsection \<open>Committed money\<close>

definition amounts_ok :: "db \<Rightarrow> bool" where
  "amounts_ok d \<longleftrightarrow> distinct (map rf_id (d_refunds d)) \<and> (\<forall>r \<in> set (d_refunds d). rf_id r < d_next d \<and>
     0 < rf_amount r \<and> rf_amount r < 10 ^ 12) \<and> distinct (map o_id (d_orders d)) \<and>
     (\<forall>ord \<in> set (d_orders d). 0 \<le> o_total ord \<and> o_total ord < 10 ^ 12)"

text \<open>Requested or completed cents of an order, read off the rows.\<close>

definition committed :: "db \<Rightarrow> id \<Rightarrow> cents" where
  "committed d oid = sum_where (\<lambda>r. rf_order r = oid \<and> rf_status r \<noteq> RefundRejected) rf_amount (d_refunds d)"

definition given_back :: "db \<Rightarrow> id \<Rightarrow> cents" where
  "given_back d oid = sum_where (\<lambda>r. rf_order r = oid \<and> rf_status r = RefundCompleted) rf_amount (d_refunds d)"

lemma refunds_of_exact:
  assumes "\<forall>r \<in> set rs. 0 < rf_amount r \<and> rf_amount r < 10 ^ 12"
  shows "refunds_of rs oid st = sum_where (\<lambda>r. rf_order r = oid \<and> rf_status r = st) rf_amount rs"
  unfolding refunds_of_def
  by (rule sum_where_cong) (use assms js_number_cents in \<open>auto simp: amount_cents_def\<close>)

lemma committed_parts:
  "committed d oid = sum_where (\<lambda>r. rf_order r = oid \<and> rf_status r = RefundCompleted) rf_amount (d_refunds d) +
    sum_where (\<lambda>r. rf_order r = oid \<and> rf_status r = RefundRequested) rf_amount (d_refunds d)"
proof -
  have "sum_where (\<lambda>r. rf_order r = oid \<and> rf_status r \<noteq> RefundRejected) rf_amount rs =
    sum_where (\<lambda>r. rf_order r = oid \<and> rf_status r = RefundCompleted) rf_amount rs +
    sum_where (\<lambda>r. rf_order r = oid \<and> rf_status r = RefundRequested) rf_amount rs" for rs
  proof (induction rs)
    case (Cons r rs)
    then show ?case by (cases "rf_status r") auto
  qed simp
  then show ?thesis by (simp add: committed_def)
qed

lemma fromCents_exact: "\<bar>c\<bar> < 10 ^ 12 \<Longrightarrow> fromCents c = c"
  by (simp add: fromCents_def js_div_100 js_fixed_cents)

lemma amount_cents_exact: "\<bar>c\<bar> < 10 ^ 12 \<Longrightarrow> amount_cents (dec_num c) = c"
  by (simp add: amount_cents_def js_number_cents)

lemma committed_nonneg: "amounts_ok d \<Longrightarrow> 0 \<le> committed d oid"
  unfolding committed_def by (rule sum_where_nonneg) (auto simp: amounts_ok_def less_imp_le)

lemma refundable_exact:
  assumes "amounts_ok d" and "ord \<in> set (d_orders d)"
  shows "amount_cents (dec_num (rs_refundable (summaryFor d ord))) = max 0 (o_total ord - committed d (o_id ord))"
proof -
  have t: "0 \<le> o_total ord" "o_total ord < 10 ^ 12" using assms by (auto simp: amounts_ok_def)
  have r: "\<forall>r \<in> set (d_refunds d). 0 < rf_amount r \<and> rf_amount r < 10 ^ 12" using assms(1) by (simp add: amounts_ok_def)
  have n: "0 \<le> committed d (o_id ord)" by (rule committed_nonneg [OF assms(1)])
  define left where "left = max 0 (o_total ord - committed d (o_id ord))"
  have l: "\<bar>left\<bar> < 10 ^ 12" using t n by (auto simp: left_def)
  have "rs_refundable (summaryFor d ord) = fromCents left"
    using t by (simp add: summaryFor_def Let_def refunds_of_exact [OF r] amount_cents_exact left_def committed_parts diff_diff_eq)
  then show ?thesis using l by (simp add: fromCents_exact amount_cents_exact left_def)
qed

subsection \<open>Each operation on the money\<close>

lemma request_Inr:
  assumes "request e oid dto actor d = Inr (rid, d')"
  shows "\<exists>ord. find_order d oid = Some ord \<and> o_payment ord = PayPaid \<and> rid = d_next d \<and>
    (\<exists>refundable n. refundable = amount_cents (dec_num (rs_refundable (summaryFor d ord))) \<and> n = importe dto refundable \<and>
      0 < n \<and> n \<le> refundable \<and> d_refunds d' = d_refunds d @ [new_refund e (d_next d) (o_id ord) n dto actor]) \<and>
    d_orders d' = d_orders d \<and> d_next d' = Suc (d_next d) \<and> d_stock d' = d_stock d \<and> d_items d' = d_items d \<and>
    d_cart d' = d_cart d \<and> d_seq d' = d_seq d"
  using assms by (auto simp: request_def bindE_eq_Inr Let_def new_refund_def not_le not_less)

lemma request_effect:
  assumes "amounts_ok d" and "request e oid dto actor d = Inr (rid, d')"
  shows "\<exists>ord n. find_order d oid = Some ord \<and> o_payment ord = PayPaid \<and> 0 < n \<and> n \<le> o_total ord - committed d oid \<and>
    (rd_amount dto = None \<longrightarrow> n = o_total ord - committed d oid) \<and>
    d_refunds d' = d_refunds d @ [new_refund e (d_next d) oid n dto actor] \<and> rf_amount (new_refund e (d_next d) oid n dto actor) = n \<and>
    committed d' oid = committed d oid + n \<and> (\<forall>oid'. oid' \<noteq> oid \<longrightarrow> committed d' oid' = committed d oid') \<and>
    (\<forall>oid'. given_back d' oid' = given_back d oid') \<and> amounts_ok d' \<and> d_orders d' = d_orders d"
proof -
  from request_Inr [OF assms(2)] obtain ord n where
    f: "find_order d oid = Some ord" and p: "o_payment ord = PayPaid"
    and n: "n = importe dto (amount_cents (dec_num (rs_refundable (summaryFor d ord))))" "0 < n"
      "n \<le> amount_cents (dec_num (rs_refundable (summaryFor d ord)))"
    and r: "d_refunds d' = d_refunds d @ [new_refund e (d_next d) (o_id ord) n dto actor]"
    and o: "d_orders d' = d_orders d" "d_next d' = Suc (d_next d)" by auto
  have mem: "ord \<in> set (d_orders d)" and oid: "o_id ord = oid" using find_order_Some [OF f] by simp_all
  note re = refundable_exact [OF assms(1) mem]
  have le: "n \<le> o_total ord - committed d oid" using n(2,3) by (simp add: re oid)
  have t: "o_total ord < 10 ^ 12" using assms(1) mem by (simp add: amounts_ok_def)
  have b: "\<bar>n\<bar> < 10 ^ 12" using n(2) le t committed_nonneg [OF assms(1), of oid] by linarith
  have a: "rf_amount (new_refund e (d_next d) oid n dto actor) = n"
    by (simp add: new_refund_def fromCents_exact [OF b])
  have row: "rf_order (new_refund e i oid n dto actor) = oid" "rf_status (new_refund e i oid n dto actor) = RefundRequested"
    "rf_id (new_refund e i oid n dto actor) = i" for i
    by (simp_all add: new_refund_def)
  have "amounts_ok d'"
    using assms(1) a n(2) b row by (auto simp: amounts_ok_def r o oid less_Suc_eq)
  moreover have "rd_amount dto = None \<longrightarrow> n = o_total ord - committed d oid"
    using n(1,2) by (auto simp: importe_def re oid)
  ultimately show ?thesis
    using f p n(2) le r a o row by (auto simp: oid committed_def given_back_def sum_simps)
qed

lemma find_refund_Inr: "find_refund d rid = Inr r \<longleftrightarrow> List.find (\<lambda>x. rf_id x = rid) (d_refunds d) = Some r"
  by (simp add: find_refund_def)

text \<open>One refund changes its state; its order and amount stay.\<close>

lemma save_refund_sums:
  assumes "amounts_ok d" and "r \<in> set (d_refunds d)" and "rf_status r = RefundRequested"
    and "rf_id r' = rf_id r" and "rf_order r' = rf_order r" and "rf_amount r' = rf_amount r"
    and "d_refunds d' = save_by rf_id r' (d_refunds d)"
  shows "committed d' oid = committed d oid - (if oid = rf_order r \<and> rf_status r' = RefundRejected then rf_amount r else 0)"
    and "given_back d' oid = given_back d oid + (if oid = rf_order r \<and> rf_status r' = RefundCompleted then rf_amount r else 0)"
    and "\<forall>x \<in> set (d_refunds d). x \<noteq> r \<longrightarrow> x \<in> set (d_refunds d')"
proof -
  have ids: "distinct (map rf_id (d_refunds d))" using assms(1) by (simp add: amounts_ok_def)
  note s = sum_where_save_by [OF ids assms(2) assms(4) [symmetric]]
  show "committed d' oid = committed d oid - (if oid = rf_order r \<and> rf_status r' = RefundRejected then rf_amount r else 0)"
    unfolding committed_def assms(7) s using assms(3,5,6) by auto
  show "given_back d' oid = given_back d oid + (if oid = rf_order r \<and> rf_status r' = RefundCompleted then rf_amount r else 0)"
    unfolding given_back_def assms(7) s using assms(3,5,6) by auto
  have "rf_id x \<noteq> rf_id r" if "x \<in> set (d_refunds d)" "x \<noteq> r" for x
    using ids assms(2) that by (auto simp: distinct_map inj_on_def)
  then show "\<forall>x \<in> set (d_refunds d). x \<noteq> r \<longrightarrow> x \<in> set (d_refunds d')"
    by (auto simp: assms(4,7) save_by_def image_iff)
qed

lemma amounts_ok_save_refund:
  assumes "amounts_ok d" and "r \<in> set (d_refunds d)" and "rf_id r' = rf_id r" and "rf_amount r' = rf_amount r"
    and "d_refunds d' = save_by rf_id r' (d_refunds d)" and "d_next d' = d_next d"
    and "map o_id (d_orders d') = map o_id (d_orders d)"
    and "\<forall>x \<in> set (d_orders d'). \<exists>y \<in> set (d_orders d). o_total x = o_total y"
  shows "amounts_ok d'"
proof -
  have "\<forall>x \<in> set (d_refunds d'). rf_id x < d_next d \<and> 0 < rf_amount x \<and> rf_amount x < 10 ^ 12"
    using assms(1-5) by (auto simp: save_by_def amounts_ok_def)
  moreover have "0 \<le> o_total x \<and> o_total x < 10 ^ 12" if "x \<in> set (d_orders d')" for x
  proof -
    from assms(8) that obtain y where "y \<in> set (d_orders d)" "o_total x = o_total y" by blast
    then show ?thesis using assms(1) by (simp add: amounts_ok_def)
  qed
  ultimately show ?thesis using assms(1) by (simp add: amounts_ok_def assms(5-7) save_by_keys)
qed

lemma complete_tx_frame:
  "d_refunds (complete_tx e u dto r ord d) = save_by rf_id (completed_refund e u dto r) (d_refunds d)"
  "d_orders (complete_tx e u dto r ord d) =
    (if amount_cents (dec_num (o_total ord)) \<le>
        refunds_of (save_by rf_id (completed_refund e u dto r) (d_refunds d)) (rf_order r) RefundCompleted \<and>
        o_payment ord \<noteq> PayRefunded
     then save_by o_id (ord\<lparr>o_payment := PayRefunded\<rparr>) (d_orders d) else d_orders d)"
  "d_next (complete_tx e u dto r ord d) = d_next d" "d_stock (complete_tx e u dto r ord d) = d_stock d"
  "d_items (complete_tx e u dto r ord d) = d_items d" "d_cart (complete_tx e u dto r ord d) = d_cart d"
  "d_seq (complete_tx e u dto r ord d) = d_seq d"
  by (simp_all add: complete_tx_def Let_def save_refund_def completedCents_def)

lemma completed_refund_fields [simp]:
  "rf_id (completed_refund e u dto r) = rf_id r" "rf_order (completed_refund e u dto r) = rf_order r"
  "rf_amount (completed_refund e u dto r) = rf_amount r" "rf_status (completed_refund e u dto r) = RefundCompleted"
  by (simp_all add: completed_refund_def)

lemma complete_effect:
  assumes "amounts_ok d" and "complete_refund e u rid dto d = Inr d'"
  shows "\<exists>r ord. List.find (\<lambda>x. rf_id x = rid) (d_refunds d) = Some r \<and> rf_status r = RefundRequested \<and>
    find_order d (rf_order r) = Some ord \<and>
    committed d' oid = committed d oid \<and>
    given_back d' oid = given_back d oid + (if oid = rf_order r then rf_amount r else 0) \<and>
    d_orders d' = (if o_total ord \<le> given_back d' (rf_order r) \<and> o_payment ord \<noteq> PayRefunded
      then save_by o_id (ord\<lparr>o_payment := PayRefunded\<rparr>) (d_orders d) else d_orders d) \<and>
    (\<forall>x \<in> set (d_refunds d). x \<noteq> r \<longrightarrow> x \<in> set (d_refunds d')) \<and> amounts_ok d'"
proof -
  from assms(2) obtain r ord where r: "find_refund d rid = Inr r" and s: "rf_status r = RefundRequested"
    and o: "find_order d (rf_order r) = Some ord" and d': "d' = complete_tx e u dto r ord d"
    by (auto simp: complete_refund_def bindE_eq_Inr)
  have f: "List.find (\<lambda>x. rf_id x = rid) (d_refunds d) = Some r" using r by (simp add: find_refund_Inr)
  have m: "r \<in> set (d_refunds d)" by (rule find_key_Some(1) [OF f])
  have mo: "ord \<in> set (d_orders d)" and io: "o_id ord = rf_order r" using find_order_Some [OF o] by simp_all
  have rs: "d_refunds d' = save_by rf_id (completed_refund e u dto r) (d_refunds d)" by (simp add: d' complete_tx_frame)
  have idw: "rf_id (completed_refund e u dto r) \<in> rf_id ` set (d_refunds d)" using m by simp
  have ok: "amounts_ok d'"
    by (rule amounts_ok_save_refund [OF assms(1) m _ _ rs])
      (use mo in \<open>auto simp: d' complete_tx_frame save_by_keys save_by_def\<close>)
  have "refunds_of (d_refunds d') (rf_order r) RefundCompleted = given_back d' (rf_order r)"
    unfolding given_back_def by (rule refunds_of_exact) (use ok in \<open>simp add: amounts_ok_def\<close>)
  moreover have "amount_cents (dec_num (o_total ord)) = o_total ord"
    using assms(1) mo by (intro amount_cents_exact) (simp add: amounts_ok_def)
  ultimately have oo: "d_orders d' = (if o_total ord \<le> given_back d' (rf_order r) \<and> o_payment ord \<noteq> PayRefunded
      then save_by o_id (ord\<lparr>o_payment := PayRefunded\<rparr>) (d_orders d) else d_orders d)"
    by (simp add: d' complete_tx_frame)
  note sums = save_refund_sums [OF assms(1) m s _ _ _ rs]
  show ?thesis
    using f s o sums(1) [of oid] sums(2) [of oid] sums(3) oo ok by (intro exI [of _ r] exI [of _ ord]) simp
qed

lemma reject_effect:
  assumes "amounts_ok d" and "reject_refund e u rid reason d = Inr d'"
  shows "\<exists>r. List.find (\<lambda>x. rf_id x = rid) (d_refunds d) = Some r \<and> rf_status r = RefundRequested \<and>
    committed d' oid = committed d oid - (if oid = rf_order r then rf_amount r else 0) \<and>
    given_back d' oid = given_back d oid \<and> d_orders d' = d_orders d \<and>
    (\<forall>x \<in> set (d_refunds d). x \<noteq> r \<longrightarrow> x \<in> set (d_refunds d')) \<and> amounts_ok d'"
proof -
  from assms(2) obtain r where r: "find_refund d rid = Inr r" and s: "rf_status r = RefundRequested"
    by (auto simp: reject_refund_def bindE_eq_Inr)
  define r' where "r' = r\<lparr>rf_status := RefundRejected, rf_rejected_by := Some (u_id u), rf_rejected_at := Some (e_now e),
      rf_rejection_reason := Some reason\<rparr>"
  have d': "d_refunds d' = save_by rf_id r' (d_refunds d)" "d_orders d' = d_orders d" "d_next d' = d_next d"
    using assms(2) r s by (auto simp: reject_refund_def bindE_eq_Inr save_refund_def r'_def)
  have f: "List.find (\<lambda>x. rf_id x = rid) (d_refunds d) = Some r" using r by (simp add: find_refund_Inr)
  have m: "r \<in> set (d_refunds d)" by (rule find_key_Some(1) [OF f])
  have ok: "amounts_ok d'"
    by (rule amounts_ok_save_refund [OF assms(1) m _ _ d'(1) d'(3)]) (auto simp: d' r'_def)
  note sums = save_refund_sums [OF assms(1) m s _ _ _ d'(1)]
  show ?thesis
    using f s sums(1) [of oid] sums(2) [of oid] sums(3) ok d'(2) by (intro exI [of _ r]) (simp add: r'_def)
qed

subsection \<open>The life of the money\<close>

inductive money_step :: "db \<Rightarrow> db \<Rightarrow> bool" where
  Money_request: "request e oid dto actor d = Inr (rid, d') \<Longrightarrow> money_step d d'"
| Money_complete: "complete_refund e u rid cdto d = Inr d' \<Longrightarrow> money_step d d'"
| Money_reject: "reject_refund e u rid reason d = Inr d' \<Longrightarrow> money_step d d'"

inductive_cases money_stepE: "money_step d d'"

definition money_ok :: "db \<Rightarrow> bool" where
  "money_ok d \<longleftrightarrow> amounts_ok d \<and> (\<forall>ord \<in> set (d_orders d). committed d (o_id ord) \<le> o_total ord)"

lemma given_le_committed: "amounts_ok d \<Longrightarrow> given_back d oid \<le> committed d oid"
proof -
  assume a: "amounts_ok d"
  have "0 \<le> sum_where (\<lambda>r. rf_order r = oid \<and> rf_status r = RefundRequested) rf_amount (d_refunds d)"
    by (rule sum_where_nonneg) (use a in \<open>auto simp: amounts_ok_def less_imp_le\<close>)
  then show ?thesis unfolding committed_parts given_back_def by simp
qed

text \<open>The rows an operation leaves alone, and the orders as the money sees them.\<close>

definition settled_kept :: "db \<Rightarrow> db \<Rightarrow> bool" where
  "settled_kept d d' \<longleftrightarrow> (\<forall>r \<in> set (d_refunds d). rf_status r \<noteq> RefundRequested \<longrightarrow> r \<in> set (d_refunds d'))"

lemma money_step_keeps:
  assumes "money_step d d'" and "money_ok d"
  shows "money_ok d' \<and> settled_kept d d'"
  using assms(1)
proof cases
  case (Money_request e oid dto actor rid)
  have a: "amounts_ok d" using assms(2) by (simp add: money_ok_def)
  from request_effect [OF a Money_request] obtain ord n where
    f: "find_order d oid = Some ord" and n: "n \<le> o_total ord - committed d oid"
    and c: "committed d' oid = committed d oid + n" "\<forall>oid'. oid' \<noteq> oid \<longrightarrow> committed d' oid' = committed d oid'"
    and r: "d_refunds d' = d_refunds d @ [new_refund e (d_next d) oid n dto actor]" "amounts_ok d'" "d_orders d' = d_orders d"
    by blast
  have u: "x = ord" if "x \<in> set (d_orders d)" "o_id x = oid" for x
    using a find_order_Some [OF f] that by (auto simp: amounts_ok_def distinct_map inj_on_def)
  have "committed d' (o_id x) \<le> o_total x" if "x \<in> set (d_orders d)" for x
    using assms(2) that u c n by (cases "o_id x = oid") (auto simp: money_ok_def)
  then show ?thesis using r by (simp add: money_ok_def settled_kept_def)
next
  case (Money_complete e u rid cdto)
  have a: "amounts_ok d" using assms(2) by (simp add: money_ok_def)
  from complete_effect [OF a Money_complete] obtain r ord where
    s: "rf_status r = RefundRequested" and o: "find_order d (rf_order r) = Some ord"
    and k: "d_orders d' = (if o_total ord \<le> given_back d' (rf_order r) \<and> o_payment ord \<noteq> PayRefunded
      then save_by o_id (ord\<lparr>o_payment := PayRefunded\<rparr>) (d_orders d) else d_orders d)"
      "\<forall>x \<in> set (d_refunds d). x \<noteq> r \<longrightarrow> x \<in> set (d_refunds d')" "amounts_ok d'" by blast
  have c: "committed d' oid = committed d oid" for oid using complete_effect [OF a Money_complete, of oid] by blast
  have "\<exists>y \<in> set (d_orders d). o_id x = o_id y \<and> o_total x = o_total y" if "x \<in> set (d_orders d')" for x
    using that find_order_Some [OF o] by (force simp: k(1) save_by_def split: if_splits)
  then have "committed d' (o_id x) \<le> o_total x" if "x \<in> set (d_orders d')" for x
    using that assms(2) c by (fastforce simp: money_ok_def)
  then show ?thesis using k(2,3) s by (auto simp: money_ok_def settled_kept_def)
next
  case (Money_reject e u rid reason)
  have a: "amounts_ok d" using assms(2) by (simp add: money_ok_def)
  from reject_effect [OF a Money_reject] obtain r where
    s: "rf_status r = RefundRequested" "List.find (\<lambda>x. rf_id x = rid) (d_refunds d) = Some r"
    and k: "d_orders d' = d_orders d" "\<forall>x \<in> set (d_refunds d). x \<noteq> r \<longrightarrow> x \<in> set (d_refunds d')" "amounts_ok d'" by blast
  have m: "r \<in> set (d_refunds d)" using s(2) by (rule find_key_Some(1))
  have "0 < rf_amount r" using a m by (auto simp: amounts_ok_def)
  then have c: "committed d' oid \<le> committed d oid" for oid
    using reject_effect [OF a Money_reject, of oid] s(2) by (auto split: if_splits)
  then have "committed d' (o_id x) \<le> o_total x" if "x \<in> set (d_orders d)" for x
    using that assms(2) order_trans [OF c] by (auto simp: money_ok_def)
  then show ?thesis using k s by (auto simp: money_ok_def settled_kept_def)
qed

definition money_since :: "db \<Rightarrow> db \<Rightarrow> bool" where
  "money_since d0 d \<longleftrightarrow> money_ok d \<and> settled_kept d0 d"

lemma money_since_keeps: "money_since d0 d \<Longrightarrow> money_step d d' \<Longrightarrow> money_since d0 d'"
  using money_step_keeps [of d d'] by (auto simp: money_since_def settled_kept_def)

lemma settled_stay:
  assumes "money_step d d'" and "money_ok d"
  shows "\<forall>r \<in> set (d_refunds d). rf_status r \<noteq> RefundRequested \<longrightarrow> r \<in> set (d_refunds d')"
  using money_step_keeps [OF assms] by (simp add: settled_kept_def)

interpretation money: stepwise money_step "money_since d0" for d0
  by unfold_locales (rule money_since_keeps)

subsection \<open>Properties\<close>

text \<open>C3: However refunds are asked for, paid out and turned down, on any orders and in any order, the
  money committed to an order (requested or already returned) never exceeds what it was charged,
  and a refund that was paid out or turned down never changes again.\<close>

theorem refunds_never_exceed_charge:
  assumes "money_step\<^sup>*\<^sup>* d0 d" and "money_ok d0" and "ord \<in> set (d_orders d)"
  shows "0 \<le> given_back d (o_id ord) \<and> given_back d (o_id ord) \<le> committed d (o_id ord) \<and>
    committed d (o_id ord) \<le> o_total ord \<and> settled_kept d0 d"
proof -
  have "money_since d0 d"
    by (rule money.run [OF assms(1)]) (simp add: money_since_def assms(2) settled_kept_def)
  then have m: "money_ok d" "settled_kept d0 d" by (simp_all add: money_since_def)
  then have "amounts_ok d" by (simp add: money_ok_def)
  moreover from this have "0 \<le> given_back d (o_id ord)"
    unfolding given_back_def by (intro sum_where_nonneg) (auto simp: amounts_ok_def less_imp_le)
  ultimately show ?thesis using m assms(3) given_le_committed by (simp add: money_ok_def)
qed

text \<open>C12: Paying a refund out returns exactly its amount, changes no other refund, and marks the order
  as refunded exactly when everything it was charged has been returned: after a partial refund the
  order stays charged for the rest.\<close>

theorem complete_refund_settles:
  assumes "money_ok d" and "complete_refund e u rid dto d = Inr d'"
  shows "\<exists>r ord. r \<in> set (d_refunds d) \<and> rf_id r = rid \<and> rf_status r = RefundRequested \<and>
    find_order d (rf_order r) = Some ord \<and>
    given_back d' (rf_order r) = given_back d (rf_order r) + rf_amount r \<and>
    (o_payment ord \<noteq> PayRefunded \<longrightarrow>
      d_orders d' = (if given_back d' (rf_order r) = o_total ord
        then save_by o_id (ord\<lparr>o_payment := PayRefunded\<rparr>) (d_orders d) else d_orders d)) \<and>
    (\<forall>x \<in> set (d_refunds d). x \<noteq> r \<longrightarrow> x \<in> set (d_refunds d'))"
proof -
  have a: "amounts_ok d" using assms(1) by (simp add: money_ok_def)
  from complete_effect [OF a assms(2)] obtain r ord where
    f: "List.find (\<lambda>x. rf_id x = rid) (d_refunds d) = Some r" and s: "rf_status r = RefundRequested"
    and o: "find_order d (rf_order r) = Some ord"
    and k: "d_orders d' = (if o_total ord \<le> given_back d' (rf_order r) \<and> o_payment ord \<noteq> PayRefunded
      then save_by o_id (ord\<lparr>o_payment := PayRefunded\<rparr>) (d_orders d) else d_orders d)"
      "\<forall>x \<in> set (d_refunds d). x \<noteq> r \<longrightarrow> x \<in> set (d_refunds d')" "amounts_ok d'" by blast
  have g: "given_back d' (rf_order r) = given_back d (rf_order r) + rf_amount r" "committed d' (rf_order r) = committed d (rf_order r)"
    using complete_effect [OF a assms(2), of "rf_order r"] f by auto
  have "committed d (rf_order r) \<le> o_total ord"
    using assms(1) find_order_Some [OF o] by (auto simp: money_ok_def)
  then have "given_back d' (rf_order r) \<le> o_total ord"
    using given_le_committed [OF k(3), of "rf_order r"] g(2) by simp
  then have "o_payment ord \<noteq> PayRefunded \<longrightarrow> d_orders d' = (if given_back d' (rf_order r) = o_total ord
        then save_by o_id (ord\<lparr>o_payment := PayRefunded\<rparr>) (d_orders d) else d_orders d)"
    using k(1) by auto
  then show ?thesis
    using find_key_Some [OF f] s o g k(2) by (intro exI [of _ r] exI [of _ ord]) simp
qed

subsection \<open>A paid order and its refunds\<close>

definition sample_env :: env where
  "sample_env = \<lparr>e_now = 1000000, e_year = 2026, e_hv = sample_havana, e_collate = sample_collate,
     e_gateways = [\<lparr>gw_code = ''manual'', gw_kind = KindManual, gw_configured = True\<rparr>], e_random = ''abc''\<rparr>"

definition sample_order :: order where
  "sample_order = \<lparr>o_id = 70, o_number = Some (order_number 2026 0), o_seq = 0, o_client = 3, o_status = CONFIRMED,
     o_payment = PayPaid, o_tracking = None, o_payment_ref = None, o_subtotal = 6000, o_delivery_fee = 0, o_total = 6000,
     o_fulfillment = PICKUP, o_option_id = None, o_option_label = None, o_pickup_location = Some 1, o_promise_days = None,
     o_promised_at = None, o_pickup_address = None, o_pickup_snapshot = None, o_municipality = Some 11, o_address = None,
     o_contact = None, o_notes = None, o_cancellation = None, o_reinstated_at = None, o_reinstated_by = None,
     o_paid_at = Some 5, o_delivered_at = None, o_delivered_by = None, o_picked_up_by = None, o_created_at = 1, o_deleted = False\<rparr>"

definition paid_db :: db where
  "paid_db = sample_db\<lparr>d_orders := [sample_order]\<rparr>"

definition part_dto :: refund_dto where
  "part_dto = \<lparr>rd_amount = Some 25, rd_reason = ''dos piezas rotas'', rd_method = None,
     rd_destination = Some ''0xabc'', rd_notes = None\<rparr>"

definition super_user :: user where
  "super_user = \<lparr>u_id = 9, u_role = SUPER_ADMIN\<rparr>"

definition no_details :: complete_dto where
  "no_details = \<lparr>cf_destination = None, cf_provider_ref = None, cf_notes = None\<rparr>"

definition requested_db :: db where
  "requested_db = (case request sample_env 70 part_dto RaSystem paid_db of Inr (_, d) \<Rightarrow> d | Inl _ \<Rightarrow> paid_db)"

definition returned_db :: db where
  "returned_db = (case complete_refund sample_env super_user 200 no_details requested_db of Inr d \<Rightarrow> d | Inl _ \<Rightarrow> requested_db)"

lemma paid_db_ok: "money_ok paid_db"
  by (simp add: money_ok_def amounts_ok_def paid_db_def sample_db_def sample_order_def committed_def)

lemma paid_order: "find_order paid_db 70 = Some sample_order"
  by (simp add: find_order_def paid_db_def sample_order_def)

lemma requested_step: "request sample_env 70 part_dto RaSystem paid_db = Inr (200, requested_db)"
proof -
  have ok: "amounts_ok paid_db" using paid_db_ok by (simp add: money_ok_def)
  have "committed paid_db 70 = 0" by (simp add: committed_def paid_db_def sample_db_def)
  then have re: "amount_cents (dec_num (rs_refundable (summaryFor paid_db sample_order))) = 6000"
    using refundable_exact [OF ok, of sample_order] by (simp add: sample_order_def paid_db_def)
  have "rnd64 25 = dec_num 2500" by (simp add: dec_num_def)
  then have n: "importe part_dto 6000 = 2500" by (simp add: importe_def part_dto_def amount_cents_exact)
  have "\<exists>d'. request sample_env 70 part_dto RaSystem paid_db = Inr (200, d')"
    unfolding request_def paid_order order_or_404_def from_option_simps bindE_Inr Let_def re n
    by (simp add: new_refund_def paid_db_def sample_db_def sample_order_def)
  then show ?thesis by (auto simp: requested_db_def)
qed

lemma requested_db_ok: "money_ok requested_db"
  using money_step_keeps [OF Money_request [OF requested_step] paid_db_ok] by simp

lemma requested_rows: "d_orders requested_db = [sample_order]"
  "\<exists>r. d_refunds requested_db = [r] \<and> rf_id r = 200 \<and> rf_order r = 70 \<and> rf_status r = RefundRequested \<and>
     rf_method r = RefundManual \<and> rf_destination r = Some ''0xabc'' \<and> rf_amount r = 2500"
proof -
  have ok: "amounts_ok paid_db" using paid_db_ok by (simp add: money_ok_def)
  from request_Inr [OF requested_step] obtain n where
    "d_orders requested_db = d_orders paid_db"
    "d_refunds requested_db = d_refunds paid_db @ [new_refund sample_env 200 70 n part_dto RaSystem]"
    "n = importe part_dto (amount_cents (dec_num (rs_refundable (summaryFor paid_db sample_order))))"
    by (auto simp: paid_order sample_order_def)
  moreover have "rnd64 25 = dec_num 2500" by (simp add: dec_num_def)
  ultimately show "d_orders requested_db = [sample_order]"
    "\<exists>r. d_refunds requested_db = [r] \<and> rf_id r = 200 \<and> rf_order r = 70 \<and> rf_status r = RefundRequested \<and>
     rf_method r = RefundManual \<and> rf_destination r = Some ''0xabc'' \<and> rf_amount r = 2500"
    by (simp_all add: paid_db_def sample_db_def new_refund_def part_dto_def importe_def amount_cents_exact fromCents_exact)
qed

lemma returned_step: "complete_refund sample_env super_user 200 no_details requested_db = Inr returned_db"
proof -
  from requested_rows(2) obtain r where r: "d_refunds requested_db = [r]" "rf_id r = 200" "rf_order r = 70"
    "rf_status r = RefundRequested" "rf_destination r = Some ''0xabc''" by blast
  have "find_order requested_db 70 = Some sample_order"
    by (simp add: find_order_def requested_rows(1) sample_order_def)
  then have "complete_refund sample_env super_user 200 no_details requested_db =
      Inr (complete_tx sample_env super_user no_details r sample_order requested_db)"
    using r by (simp add: complete_refund_def find_refund_def first_some_def no_details_def truthy_def order_or_404_def)
  then show ?thesis by (simp add: returned_db_def)
qed

lemma returned_rows: "given_back returned_db 70 = 2500" "d_orders returned_db = [sample_order]"
proof -
  have ok: "amounts_ok requested_db" using requested_db_ok by (simp add: money_ok_def)
  from requested_rows(2) obtain r where r: "d_refunds requested_db = [r]" "rf_id r = 200" "rf_order r = 70"
    "rf_status r = RefundRequested" "rf_amount r = 2500" by blast
  have g0: "given_back requested_db 70 = 0" using r by (simp add: given_back_def)
  have o: "find_order requested_db 70 = Some sample_order"
    by (simp add: find_order_def requested_rows(1) sample_order_def)
  show g: "given_back returned_db 70 = 2500"
    using complete_effect [OF ok returned_step, of 70] r g0 by auto
  show "d_orders returned_db = [sample_order]"
    using complete_effect [OF ok returned_step, of 70] r o g requested_rows(1) by (auto simp: sample_order_def)
qed

text \<open>Twenty-five of sixty dollars back: the order stays charged.\<close>

theorem refunds_never_exceed_charge_witness:
  "given_back returned_db 70 = 2500 \<and> committed returned_db 70 \<le> 6000"
proof -
  have run: "money_step\<^sup>*\<^sup>* paid_db returned_db"
    using Money_request [OF requested_step] Money_complete [OF returned_step] by auto
  show ?thesis
    using refunds_never_exceed_charge [OF run paid_db_ok, of sample_order] returned_rows by (simp add: sample_order_def)
qed

theorem complete_refund_settles_witness:
  "\<exists>r \<in> set (d_refunds requested_db). rf_order r = 70 \<and> given_back returned_db 70 = rf_amount r"
proof -
  have g0: "given_back requested_db 70 = 0" using requested_rows(2) by (auto simp: given_back_def)
  from complete_refund_settles [OF requested_db_ok returned_step] obtain r where
    r: "r \<in> set (d_refunds requested_db)"
    and g: "given_back returned_db (rf_order r) = given_back requested_db (rf_order r) + rf_amount r" by blast
  have "rf_order r = 70" using r requested_rows(2) by auto
  then show ?thesis using r g g0 by auto
qed

end
