(* ===== verification/Payments.thy ===== *)
theory Payments
  imports Refunds
begin

section \<open>Payment attempts\<close>

text \<open>
  \<open>src/payments/payments.service.ts\<close> and the two gateways that contact nobody
  (\<open>gateways/manual\<close>, \<open>gateways/custom-manual\<close>): numbering of attempts, persistence, polling,
  webhooks, and what a charge's outcome does to its order. The gateways that call a platform are the
  parameter \<open>gateway_api\<close>. Saving an order writes the row as the caller holds it, as \<open>save\<close> of a
  loaded entity does. Mail and logs are left out.
\<close>

subsection \<open>What a gateway reports\<close>

text \<open>An optional nullable field is absent, null or a value.\<close>

record gateway_charge =
  gc_reference :: string
  gc_status :: charge_status
  gc_amount :: string
  gc_currency :: string
  gc_fee :: "string option option"
  gc_settlement :: "string option option"
  gc_action :: "json option option"
  gc_redirect :: "string option option"
  gc_expires :: "instant option option"
  gc_completed :: "instant option option"
  gc_error :: "string option option"
  gc_raw :: json

text \<open>\<open>Partial<GatewayCharge>\<close>.\<close>

record gateway_data =
  gd_status :: "charge_status option"
  gd_amount :: "string option"
  gd_currency :: "string option"
  gd_fee :: "string option option"
  gd_settlement :: "string option option"
  gd_action :: "json option option"
  gd_redirect :: "string option option"
  gd_expires :: "instant option option"
  gd_completed :: "instant option option"
  gd_error :: "string option option"
  gd_raw :: "json option"

definition whole :: "gateway_charge \<Rightarrow> gateway_data" where
  "whole g = \<lparr>gd_status = Some (gc_status g), gd_amount = Some (gc_amount g), gd_currency = Some (gc_currency g),
     gd_fee = gc_fee g, gd_settlement = gc_settlement g, gd_action = gc_action g, gd_redirect = gc_redirect g,
     gd_expires = gc_expires g, gd_completed = gc_completed g, gd_error = gc_error g, gd_raw = Some (gc_raw g)\<rparr>"

record webhook_event =
  wh_reference :: string
  wh_charge :: gateway_data

record gateway_api =
  ga_create :: "string \<Rightarrow> order \<Rightarrow> string \<Rightarrow> payment_method \<Rightarrow> error + gateway_charge"
  ga_sync :: "string \<Rightarrow> charge \<Rightarrow> error + gateway_charge"
  ga_webhook :: "string \<Rightarrow> string \<Rightarrow> (string \<times> string) list \<Rightarrow> error + webhook_event"

subsection \<open>The manual gateways\<close>

definition number_fixed :: "order \<Rightarrow> string" where
  "number_fixed ord = cents_str (to_fixed2 (dec_num (o_total ord)))"

definition manual_create :: "order \<Rightarrow> string \<Rightarrow> gateway_charge" where
  "manual_create ord key = \<lparr>gc_reference = key, gc_status = ChPending, gc_amount = number_fixed ord, gc_currency = ''USD'',
     gc_fee = None, gc_settlement = None, gc_action = None, gc_redirect = None, gc_expires = None, gc_completed = None,
     gc_error = None, gc_raw = JObj [(''manual'', JBool True)]\<rparr>"

definition manual_sync :: "charge \<Rightarrow> gateway_charge" where
  "manual_sync c = \<lparr>gc_reference = ch_reference c, gc_status = ch_status c, gc_amount = ch_amount c, gc_currency = ch_currency c,
     gc_fee = None, gc_settlement = None, gc_action = None, gc_redirect = None, gc_expires = None, gc_completed = None,
     gc_error = None, gc_raw = (case ch_last_payload c of Some j \<Rightarrow> j | None \<Rightarrow> JObj [(''manual'', JBool True)])\<rparr>"

definition custom_create :: "order \<Rightarrow> string \<Rightarrow> payment_method \<Rightarrow> gateway_charge" where
  "custom_create ord key m = (manual_create ord key)\<lparr>
     gc_action := Some (Some (JObj [(''methodLabel'', JStr (mt_label m)),
       (''instructions'', case mt_instructions m of None \<Rightarrow> JNull | Some j \<Rightarrow> j)])),
     gc_raw := JObj [(''manual'', JBool True), (''method'', JStr (mt_code m))]\<rparr>"

definition custom_sync :: "charge \<Rightarrow> gateway_charge" where
  "custom_sync c = (manual_sync c)\<lparr>gc_action := Some (ch_action_payload c)\<rparr>"

definition createCharge_via :: "gateway_api \<Rightarrow> string \<Rightarrow> order \<Rightarrow> string \<Rightarrow> payment_method \<Rightarrow> error + gateway_charge" where
  "createCharge_via api code ord key m =
     (if code = ''manual'' then Inr (manual_create ord key)
      else if code = ''custom-manual'' then Inr (custom_create ord key m) else ga_create api code ord key m)"

definition syncCharge_via :: "gateway_api \<Rightarrow> string \<Rightarrow> charge \<Rightarrow> error + gateway_charge" where
  "syncCharge_via api code c =
     (if code = ''manual'' then Inr (manual_sync c)
      else if code = ''custom-manual'' then Inr (custom_sync c) else ga_sync api code c)"

definition parseWebhook_via :: "gateway_api \<Rightarrow> string \<Rightarrow> string \<Rightarrow> (string \<times> string) list \<Rightarrow> error + webhook_event" where
  "parseWebhook_via api code raw headers =
     (if code = ''manual'' then Inl (BadRequest ''Manual payments receive no webhooks'')
      else if code = ''custom-manual'' then Inl (BadRequest ''Los pagos manuales no reciben webhooks'')
      else ga_webhook api code raw headers)"

text \<open>Our own exceptions pass; anything else is a gateway that failed.\<close>

fun is_http :: "error \<Rightarrow> bool" where
  "is_http (InternalError _) = False"
| "is_http _ = True"

definition callGateway :: "error + 'a \<Rightarrow> error + 'a" where
  "callGateway r = (case r of Inl e \<Rightarrow> Inl (if is_http e then e else BadGateway ''Payment gateway is unavailable right now'')
     | Inr x \<Rightarrow> Inr x)"

subsection \<open>Charges\<close>

fun TERMINAL :: "charge_status \<Rightarrow> bool" where
  "TERMINAL ChSucceeded = True" | "TERMINAL ChFailed = True" | "TERMINAL ChExpired = True" | "TERMINAL ChCancelled = True"
| "TERMINAL ChPending = False" | "TERMINAL ChRequiresAction = False" | "TERMINAL ChProcessing = False"

fun charge_status_str :: "charge_status \<Rightarrow> string" where
  "charge_status_str ChPending = ''PENDING''" | "charge_status_str ChRequiresAction = ''REQUIRES_ACTION''"
| "charge_status_str ChProcessing = ''PROCESSING''" | "charge_status_str ChSucceeded = ''SUCCEEDED''"
| "charge_status_str ChFailed = ''FAILED''" | "charge_status_str ChExpired = ''EXPIRED''"
| "charge_status_str ChCancelled = ''CANCELLED''"

definition given :: "'a option \<Rightarrow> 'a \<Rightarrow> 'a" where
  "given x old = (case x of None \<Rightarrow> old | Some v \<Rightarrow> v)"

text \<open>\<open>Object.assign(charge, gatewayFields(data))\<close>: only what was reported; an empty error message is null.\<close>

definition gatewayFields :: "gateway_data \<Rightarrow> charge \<Rightarrow> charge" where
  "gatewayFields g c = c\<lparr>
     ch_status := given (gd_status g) (ch_status c), ch_amount := given (gd_amount g) (ch_amount c),
     ch_currency := given (gd_currency g) (ch_currency c), ch_fee_amount := given (gd_fee g) (ch_fee_amount c),
     ch_settlement_amount := given (gd_settlement g) (ch_settlement_amount c),
     ch_action_payload := given (gd_action g) (ch_action_payload c), ch_redirect_url := given (gd_redirect g) (ch_redirect_url c),
     ch_error_message := (case gd_error g of None \<Rightarrow> ch_error_message c
        | Some m \<Rightarrow> (if m = Some [] then None else m)),
     ch_expires_at := given (gd_expires g) (ch_expires_at c), ch_completed_at := given (gd_completed g) (ch_completed_at c),
     ch_last_payload := (case gd_raw g of None \<Rightarrow> ch_last_payload c | Some j \<Rightarrow> Some j)\<rparr>"

definition new_charge :: "env \<Rightarrow> id \<Rightarrow> id \<Rightarrow> string \<Rightarrow> string \<Rightarrow> gateway_charge \<Rightarrow> charge" where
  "new_charge e cid oid code key g = gatewayFields (whole g)
     \<lparr>ch_id = cid, ch_order = oid, ch_provider = code, ch_reference = gc_reference g, ch_idempotency_key = key,
      ch_status = gc_status g, ch_amount = gc_amount g, ch_currency = gc_currency g, ch_fee_amount = None,
      ch_settlement_amount = None, ch_action_payload = None, ch_redirect_url = None, ch_error_message = None,
      ch_last_payload = None, ch_customer_reference = None, ch_receipt_url = None, ch_expires_at = None,
      ch_completed_at = None, ch_created_at = e_now e\<rparr>"

definition charge_by_reference :: "db \<Rightarrow> string \<Rightarrow> charge option" where
  "charge_by_reference d ref = List.find (\<lambda>c. ch_reference c = ref) (d_charges d)"

text \<open>The column is unique: a second insert of a reference takes the row that is there.\<close>

definition storeCharge :: "env \<Rightarrow> order \<Rightarrow> string \<Rightarrow> string \<Rightarrow> gateway_charge \<Rightarrow> db \<Rightarrow> charge \<times> db" where
  "storeCharge e ord code key g d =
     (case charge_by_reference d (gc_reference g) of
        Some stored \<Rightarrow> (stored, d)
      | None \<Rightarrow> (let c = new_charge e (d_next d) (o_id ord) code key g
                 in (c, d\<lparr>d_charges := d_charges d @ [c], d_next := Suc (d_next d)\<rparr>)))"

definition save_charge :: "charge \<Rightarrow> db \<Rightarrow> db" where
  "save_charge c d = d\<lparr>d_charges := save_by ch_id c (d_charges d)\<rparr>"

definition listChargesFor :: "db \<Rightarrow> id \<Rightarrow> charge list" where
  "listChargesFor d oid = js_sort (\<lambda>a b. ch_created_at b - ch_created_at a) (filter (\<lambda>c. ch_order c = oid) (d_charges d))"

definition latestChargeFor :: "db \<Rightarrow> id \<Rightarrow> charge option" where
  "latestChargeFor d oid = (case listChargesFor d oid of [] \<Rightarrow> None | c # _ \<Rightarrow> Some c)"

definition newest_first :: "charge \<Rightarrow> charge \<Rightarrow> int" where
  "newest_first a b = (if ch_created_at a \<noteq> ch_created_at b then ch_created_at b - ch_created_at a
     else int (ch_id b) - int (ch_id a))"

definition latestChargesFor :: "db \<Rightarrow> id list \<Rightarrow> (id \<times> charge) list" where
  "latestChargesFor d oids =
     fold (\<lambda>c m. if jm_get (ch_order c) m = None then jm_set (ch_order c) c m else m)
       (js_sort newest_first (filter (\<lambda>c. ch_order c \<in> set oids) (d_charges d))) []"

definition isLive :: "env \<Rightarrow> charge \<Rightarrow> bool" where
  "isLive e c \<longleftrightarrow> \<not> TERMINAL (ch_status c) \<and> (case ch_expires_at c of None \<Rightarrow> True | Some t \<Rightarrow> e_now e < t)"

definition order_name :: "order \<Rightarrow> string" where
  "order_name ord = (case o_number ord of Some n \<Rightarrow> n | None \<Rightarrow> dec_str (o_id ord))"

definition idempotency_key :: "order \<Rightarrow> string \<Rightarrow> nat \<Rightarrow> string" where
  "idempotency_key ord code attempt = ''order_'' @ order_name ord @ ''_'' @ code @ ''_'' @ dec_str attempt"

definition createChargeForOrder :: "env \<Rightarrow> gateway_api \<Rightarrow> order \<Rightarrow> payment_method \<Rightarrow> db \<Rightarrow> error + charge \<times> db" where
  "createChargeForOrder e api ord m d =
     (let code = mt_code m;
          attempt = Suc (length (filter (\<lambda>c. ch_order c = o_id ord) (d_charges d)));
          key = idempotency_key ord code attempt
      in bindE (callGateway (createCharge_via api (gw_code (gatewayFor (e_gateways e) code)) ord key m)) (\<lambda>g.
         let (c, d1) = storeCharge e ord code key g d
         in Inr (c, record_event e (o_id ord) EvPaymentAttempt (ActorClient (o_client ord)) None None None None
              (Some [(''provider'', JStr code), (''methodLabel'', JStr (mt_label m)), (''reference'', JStr (gc_reference g)),
                     (''chargeStatus'', JStr (charge_status_str (gc_status g))), (''attempt'', JNum (of_nat attempt))])
              (save_order (ord\<lparr>o_payment_ref := Some (gc_reference g)\<rparr>) d1))))"

subsection \<open>What an outcome does to the order\<close>

definition reserve_again :: "env \<Rightarrow> order \<Rightarrow> db \<Rightarrow> error + db" where
  "reserve_again e ord d = (let allowed = allowedLocationsFor d ord in
     foldE (\<lambda>it. reserve_line e allowed (o_pickup_location ord) (o_id ord) (it_product it) (it_quantity it))
       (items_of_order d (o_id ord)) d)"

definition reinstateIfExpired :: "env \<Rightarrow> order \<Rightarrow> db \<Rightarrow> db" where
  "reinstateIfExpired e ord d =
     (if o_status ord \<noteq> CANCELLED \<or> o_cancellation ord \<noteq> Some PAYMENT_NOT_RECEIVED then d
      else case reserve_again e ord d of
        Inr d1 \<Rightarrow>
          (let d2 = save_order (ord\<lparr>o_status := PENDING, o_cancellation := None\<rparr>) d1;
               d3 = d2\<lparr>d_cart := quitarDelCarrito (o_client ord) (item_lines (items_of_order d (o_id ord))) (d_cart d2)\<rparr>
           in record_event e (o_id ord) EvReinstated ActorSystem (Some ''status'') (Some (status_str (o_status ord)))
                (Some (status_str PENDING)) (Some ''El pago llego despues de caducar y el stock seguia disponible'') None d3)
      | Inl err \<Rightarrow>
          (if \<not> is_conflict err then d
           else let ord1 = ord\<lparr>o_status := CANCELLED, o_cancellation := Some PAID_AFTER_EXPIRY_OUT_OF_STOCK\<rparr>
                in requestForLatePaymentWithoutStock e ord1
                     (record_event e (o_id ord) EvStatusChanged ActorSystem (Some ''cancellationReason'')
                       (map_option cancellation_str (o_cancellation ord))
                       (Some (cancellation_str PAID_AFTER_EXPIRY_OUT_OF_STOCK))
                       (Some ''El pago llego despues de caducar y ya no habia stock: hay que reembolsar'') None
                       (save_order ord1 d))))"

definition outcome_row :: "env \<Rightarrow> charge \<Rightarrow> order \<Rightarrow> order option" where
  "outcome_row e c ord =
     (if ch_status c = ChSucceeded
      then Some (sellarCobro (e_hv e) (case ch_completed_at c of Some t \<Rightarrow> t | None \<Rightarrow> e_now e) (ord\<lparr>o_payment := PayPaid\<rparr>))
      else if ch_status c = ChFailed then Some (ord\<lparr>o_payment := PayFailed\<rparr>)
      else None)"

definition propagateToOrder :: "env \<Rightarrow> charge \<Rightarrow> db \<Rightarrow> db" where
  "propagateToOrder e c d =
     (case find_order d (ch_order c) of
        None \<Rightarrow> d
      | Some ord \<Rightarrow>
          (if o_payment ord = PayPaid then d
           else case outcome_row e c ord of
              None \<Rightarrow> d
            | Some ord1 \<Rightarrow>
                (let d1 = record_event e (o_id ord) EvPaymentStatusChanged ActorSystem (Some ''paymentStatus'')
                       (Some (payment_str (o_payment ord))) (Some (payment_str (o_payment ord1)))
                       (Some (''Notificado por la pasarela '' @ ch_provider c))
                       (Some [(''provider'', JStr (ch_provider c)), (''reference'', JStr (ch_reference c))]) (save_order ord1 d)
                 in if o_payment ord1 = PayPaid then reinstateIfExpired e ord1 d1 else d1)))"

subsection \<open>Polling, the storefront and webhooks\<close>

definition syncCharge :: "env \<Rightarrow> gateway_api \<Rightarrow> charge \<Rightarrow> db \<Rightarrow> error + charge \<times> db" where
  "syncCharge e api c d =
     (if TERMINAL (ch_status c) then Inr (c, d)
      else bindE (callGateway (syncCharge_via api (gw_code (gatewayFor (e_gateways e) (ch_provider c))) c)) (\<lambda>g.
           let c1 = gatewayFields (whole g) c in Inr (c1, propagateToOrder e c1 (save_charge c1 d))))"

text \<open>A gateway that does not answer serves the charge we hold.\<close>

definition getChargeForClient :: "env \<Rightarrow> gateway_api \<Rightarrow> id \<Rightarrow> id \<Rightarrow> db \<Rightarrow> error + charge \<times> db" where
  "getChargeForClient e api cid oid d =
     bindE (client_order_or_404 d cid oid) (\<lambda>_.
     bindE (from_option (NotFound ''This order has no payment attempt yet'') (latestChargeFor d oid)) (\<lambda>c.
     case syncCharge e api c d of Inl _ \<Rightarrow> Inr (c, d) | Inr r \<Rightarrow> Inr r))"

text \<open>
  A new attempt asked for by the customer. The order is read before the latest attempt is refreshed,
  and no transaction covers the call: what the refresh wrote stays when the new attempt fails, so the
  run gives its answer and the tables it leaves apart. \<open>refreshed\<close> is the tables after the refresh.
\<close>

definition asked_attempt :: "env \<Rightarrow> id \<Rightarrow> id \<Rightarrow> string option \<Rightarrow> db \<Rightarrow> error + order \<times> payment_method" where
  "asked_attempt e cid oid requested d =
     bindE (client_order_or_404 d cid oid) (\<lambda>ord.
     bindE (guardE (o_payment ord \<noteq> PayPaid) (BadRequest ''Order is already paid'')) (\<lambda>_.
     bindE (resolve_method (e_collate e) (e_gateways e) (d_methods d) requested) (\<lambda>m. Inr (ord, m))))"

definition refreshed :: "env \<Rightarrow> gateway_api \<Rightarrow> id \<Rightarrow> payment_method \<Rightarrow> db \<Rightarrow> error + charge option \<times> db" where
  "refreshed e api oid m d =
     (case latestChargeFor d oid of
        Some c \<Rightarrow> (if ch_provider c = mt_code m
          then bindE (syncCharge e api c d) (\<lambda>(c1, d1). Inr (if isLive e c1 then Some c1 else None, d1))
          else Inr (None, d))
      | None \<Rightarrow> Inr (None, d))"

definition createChargeForClient_run ::
  "env \<Rightarrow> gateway_api \<Rightarrow> id \<Rightarrow> id \<Rightarrow> string option \<Rightarrow> db \<Rightarrow> (error + charge) \<times> db" where
  "createChargeForClient_run e api cid oid requested d =
     (case asked_attempt e cid oid requested d of
        Inl err \<Rightarrow> (Inl err, d)
      | Inr (ord, m) \<Rightarrow> (case refreshed e api oid m d of
          Inl err \<Rightarrow> (Inl err, d)
        | Inr (Some c1, d1) \<Rightarrow> (Inr c1, d1)
        | Inr (None, d1) \<Rightarrow> (case createChargeForOrder e api ord m d1 of
            Inl err \<Rightarrow> (Inl err, d1)
          | Inr (c, d2) \<Rightarrow> (Inr c, d2))))"

text \<open>The call as its caller sees it: the attempt and the tables, or the error.\<close>

definition createChargeForClient ::
  "env \<Rightarrow> gateway_api \<Rightarrow> id \<Rightarrow> id \<Rightarrow> string option \<Rightarrow> db \<Rightarrow> error + charge \<times> db" where
  "createChargeForClient e api cid oid requested d =
     (case createChargeForClient_run e api cid oid requested d of
        (Inl err, _) \<Rightarrow> Inl err
      | (Inr c, d') \<Rightarrow> Inr (c, d'))"

definition submitProof :: "env \<Rightarrow> id \<Rightarrow> id \<Rightarrow> string \<Rightarrow> string option \<Rightarrow> db \<Rightarrow> error + charge \<times> db" where
  "submitProof e cid oid ref url d =
     bindE (client_order_or_404 d cid oid) (\<lambda>ord.
     bindE (guardE (o_payment ord \<noteq> PayPaid) (BadRequest ''Este pedido ya esta pagado'')) (\<lambda>_.
     bindE (from_option (NotFound ''Este pedido todavia no tiene un cobro'') (latestChargeFor d oid)) (\<lambda>c.
     let c1 = c\<lparr>ch_customer_reference := Some ref,
                ch_receipt_url := (if truthy url then url else ch_receipt_url c)\<rparr>
     in Inr (c1, record_event e (o_id ord) EvProofSubmitted (ActorClient cid) None None None None
          (Some [(''provider'', JStr (ch_provider c)), (''reference'', JStr ref), (''hasReceipt'', JBool (truthy url))])
          (save_charge c1 d)))))"

definition handleWebhook ::
  "env \<Rightarrow> gateway_api \<Rightarrow> string \<Rightarrow> string \<Rightarrow> (string \<times> string) list \<Rightarrow> db \<Rightarrow> error + bool \<times> db" where
  "handleWebhook e api provider raw headers d =
     bindE (parseWebhook_via api (gw_code (gatewayFor (e_gateways e) provider)) raw headers) (\<lambda>event.
     case (if wh_reference event = [] then None else charge_by_reference d (wh_reference event)) of
       None \<Rightarrow> Inr (False, d)
     | Some c \<Rightarrow>
         (if TERMINAL (ch_status c) \<and> gd_status (wh_charge event) = Some (ch_status c) then Inr (True, d)
          else let c1 = gatewayFields (wh_charge event) c;
                   c2 = (if TERMINAL (ch_status c1) \<and> ch_completed_at c1 = None
                         then c1\<lparr>ch_completed_at := Some (e_now e)\<rparr> else c1)
               in Inr (True, propagateToOrder e c2 (save_charge c2 d))))"

subsection \<open>Removing an attempt\<close>

definition removeAttempt :: "id \<Rightarrow> id \<Rightarrow> db \<Rightarrow> error + charge \<times> db" where
  "removeAttempt oid cid d =
     bindE (from_option (NotFound ''Payment attempt not found'')
              (List.find (\<lambda>c. ch_id c = cid \<and> ch_order c = oid) (d_charges d))) (\<lambda>c.
     bindE (guardE (ch_status c \<noteq> ChSucceeded)
              (Conflict ''Este intento se cobro con exito: no se puede quitar, hay que reembolsar'')) (\<lambda>_.
     Inr (c, d\<lparr>d_charges := filter (\<lambda>x. ch_id x \<noteq> ch_id c) (d_charges d)\<rparr>)))"

text \<open>\<open>OrdersService.removePaymentAttempt\<close>.\<close>

definition removePaymentAttempt :: "env \<Rightarrow> user \<Rightarrow> id \<Rightarrow> id \<Rightarrow> string \<Rightarrow> db \<Rightarrow> error + db" where
  "removePaymentAttempt e u oid cid reason d =
     bindE (guardE (u_role u = SUPER_ADMIN) (Forbidden ''Only a super admin can remove a payment attempt'')) (\<lambda>_.
     bindE (order_or_404 d oid) (\<lambda>ord.
     bindE (removeAttempt oid cid d) (\<lambda>(c, d1).
     let d2 = (if o_payment_ref ord = Some (ch_reference c) then save_order (ord\<lparr>o_payment_ref := None\<rparr>) d1 else d1)
     in Inr (record_event e (o_id ord) EvPaymentAttemptRemoved (ActorAdmin (u_id u)) None None None (Some reason)
          (Some [(''correction'', JBool True), (''provider'', JStr (ch_provider c)), (''reference'', JStr (ch_reference c)),
                 (''chargeStatus'', JStr (charge_status_str (ch_status c)))]) d2))))"

end
