(* ===== verification/Order_Expiry.thy ===== *)
theory Order_Expiry
  imports Payments
begin

section \<open>Orders nobody paid\<close>

text \<open>
  \<open>src/payments/order-expiry.service.ts\<close>: the periodic sweep that cancels unpaid orders past their
  deadline, gives the stock back and puts the lines in the customer's cart. Each order is read again
  inside its own transaction; a failure on one leaves it as it was and goes on with the next.
\<close>

record expiry_config =
  ex_gateway_minutes :: int
  ex_manual_hours :: int

definition charge_instructions :: "charge option \<Rightarrow> json option" where
  "charge_instructions c = Option.bind (Option.bind c ch_action_payload) (json_field ''instructions'')"

definition gatewayKindOf :: "env \<Rightarrow> string \<Rightarrow> action_kind" where
  "gatewayKindOf e provider = gw_kind (gatewayFor (e_gateways e) provider)"

definition expiry_window :: "env \<Rightarrow> expiry_config \<Rightarrow> charge option \<Rightarrow> int" where
  "expiry_window e cfg c =
     (case c of Some ch \<Rightarrow> (if gatewayKindOf e (ch_provider ch) \<noteq> KindManual
          then ex_gateway_minutes cfg * 60000 else ex_manual_hours cfg * 3600000)
      | None \<Rightarrow> ex_manual_hours cfg * 3600000)"

definition started_at :: "order \<Rightarrow> charge option \<Rightarrow> instant" where
  "started_at ord c =
     (let base = (case c of Some ch \<Rightarrow> ch_created_at ch | None \<Rightarrow> o_created_at ord)
      in case o_reinstated_at ord of Some t \<Rightarrow> (if base < t then t else base) | None \<Rightarrow> base)"

definition isExpired :: "env \<Rightarrow> expiry_config \<Rightarrow> order \<Rightarrow> charge option \<Rightarrow> bool" where
  "isExpired e cfg ord c \<longleftrightarrow>
     \<not> isCashPaymentInstructions (charge_instructions c) \<and>
     \<not> (\<exists>ch \<in> set_option c. ch_status ch = ChProcessing) \<and>
     expiry_window e cfg c \<le> e_now e - started_at ord c"

definition expire_reason :: "nat \<Rightarrow> string" where
  "expire_reason n =
     (if 0 < n then ''No se recibio el pago a tiempo; el stock se libero y '' @ lines_word n @ '' volvieron a su carrito''
      else ''No se recibio el pago a tiempo; el stock se libero'')"

definition expire_tx :: "env \<Rightarrow> order \<Rightarrow> db \<Rightarrow> error + db" where
  "expire_tx e fresh d =
     bindE (release_order (o_id fresh) None Expired d) (\<lambda>d1.
     let d2 = save_order (fresh\<lparr>o_status := CANCELLED, o_cancellation := Some PAYMENT_NOT_RECEIVED\<rparr>) d1;
         lineas = item_lines (items_of_order d (o_id fresh));
         n = devueltas (o_client fresh) lineas (d_cart d2);
         d3 = d2\<lparr>d_cart := devolverAlCarrito (o_client fresh) lineas (d_cart d2)\<rparr>
     in Inr (record_event e (o_id fresh) EvExpired ActorSystem (Some ''status'') (Some (status_str PENDING))
          (Some (status_str CANCELLED)) (Some (expire_reason n)) None d3))"

definition expire :: "env \<Rightarrow> id \<Rightarrow> db \<Rightarrow> bool \<times> db" where
  "expire e oid d =
     (case find_order d oid of
        None \<Rightarrow> (False, d)
      | Some fresh \<Rightarrow>
          (if o_status fresh \<noteq> PENDING \<or> o_payment fresh = PayPaid then (False, d)
           else case expire_tx e fresh d of Inl _ \<Rightarrow> (False, d) | Inr d' \<Rightarrow> (True, d')))"

definition expiry_candidate :: "env \<Rightarrow> expiry_config \<Rightarrow> order \<Rightarrow> bool" where
  "expiry_candidate e cfg ord \<longleftrightarrow> o_status ord = PENDING \<and> (o_payment ord = PayPending \<or> o_payment ord = PayFailed) \<and>
     \<not> o_deleted ord \<and> o_created_at ord < e_now e - ex_gateway_minutes cfg * 60000"

definition due_orders :: "env \<Rightarrow> expiry_config \<Rightarrow> db \<Rightarrow> order list" where
  "due_orders e cfg d =
     (let candidates = filter (expiry_candidate e cfg) (d_orders d);
          charges = latestChargesFor d (map o_id candidates)
      in filter (\<lambda>ord. isExpired e cfg ord (jm_get (o_id ord) charges)) candidates)"

definition expire_next :: "env \<Rightarrow> order \<Rightarrow> id list \<times> db \<Rightarrow> id list \<times> db" where
  "expire_next e ord = (\<lambda>(ids, d). let (cancelled, d') = expire e (o_id ord) d in (if cancelled then ids @ [o_id ord] else ids, d'))"

text \<open>The result: how many were examined, and which were cancelled.\<close>

definition sweep :: "env \<Rightarrow> expiry_config \<Rightarrow> db \<Rightarrow> (nat \<times> id list) \<times> db" where
  "sweep e cfg d =
     (let candidates = filter (expiry_candidate e cfg) (d_orders d);
          (ids, d') = fold (expire_next e) (due_orders e cfg d) ([], d)
      in ((length candidates, ids), d'))"

end
