(* ===== verification/Payment_Laws.thy ===== *)
theory Payment_Laws
  imports Line_Laws Order_Expiry
begin

section \<open>Payments, refunds and expiry keep the shop's books\<close>

text \<open>
  Charges and refunds are not part of the shop's invariant, so most of these operations only
  write an order's row in its phase. Two move stock: a payment that arrives after the order expired,
  and the expiry itself.
\<close>

subsection \<open>Frames\<close>

lemma save_charge_frame [simp]:
  "d_stock (save_charge c d) = d_stock d" "d_orders (save_charge c d) = d_orders d" "d_items (save_charge c d) = d_items d"
  "d_cart (save_charge c d) = d_cart d" "d_seq (save_charge c d) = d_seq d" "d_next (save_charge c d) = d_next d"
  "d_refunds (save_charge c d) = d_refunds d" "d_storage (save_charge c d) = d_storage d" "d_geo (save_charge c d) = d_geo d"
  by (simp_all add: save_charge_def)

lemma save_charge_keeps: "shop_inv d \<Longrightarrow> shop_inv (save_charge c d)"
  by (rule shop_inv_cong [of d]) (simp_all add: shop_invD)

lemma storeCharge_frame:
  assumes "storeCharge e ord code key g d = (c, d')"
  shows "d_orders d' = d_orders d" and "shop_inv d \<Longrightarrow> shop_inv d'" and "d_events d' = d_events d"
proof -
  show "d_orders d' = d_orders d" "d_events d' = d_events d"
    using assms by (auto simp: storeCharge_def Let_def split: option.splits)
  show "shop_inv d'" if "shop_inv d"
    using assms that by (intro shop_inv_cong [OF that]) (auto simp: storeCharge_def Let_def shop_invD split: option.splits)
qed

lemma request_keeps: "shop_inv d \<Longrightarrow> request e oid dto actor d = Inr (rid, d') \<Longrightarrow> shop_inv d'"
  using request_Inr [of e oid dto actor d rid d'] by (auto intro: shop_inv_cong simp: shop_invD)

lemma late_refund_keeps: "shop_inv d \<Longrightarrow> shop_inv (requestForLatePaymentWithoutStock e ord d)"
  using request_keeps by (auto simp: requestForLatePaymentWithoutStock_def split: sum.split)

lemma reject_keeps: "shop_inv d \<Longrightarrow> reject_refund e u rid reason d = Inr d' \<Longrightarrow> shop_inv d'"
  by (rule shop_inv_cong [of d]) (auto simp: reject_refund_def bindE_eq_Inr save_refund_def shop_invD)

lemma complete_keeps:
  assumes "shop_inv d" and "complete_refund e u rid dto d = Inr d'"
  shows "shop_inv d'"
proof -
  from assms(2) obtain r ord where o: "find_order d (rf_order r) = Some ord" and d': "d' = complete_tx e u dto r ord d"
    by (auto simp: complete_refund_def bindE_eq_Inr)
  have mem: "ord \<in> set (d_orders d)" using find_order_Some [OF o] by simp
  note f = complete_tx_frame [of e u dto r ord d, folded d']
  show ?thesis
  proof (cases "d_orders d' = d_orders d")
    case True
    then show ?thesis by (intro shop_inv_cong [OF assms(1)]) (use f shop_invD(3) [OF assms(1)] in auto)
  next
    case False
    then have "d_orders d' = save_by o_id (ord\<lparr>o_payment := PayRefunded\<rparr>) (d_orders d)" using f(2) by (simp split: if_splits)
    then show ?thesis
      by (intro shop_inv_write [OF assms(1) mem, of "ord\<lparr>o_payment := PayRefunded\<rparr>"]) (use f in \<open>simp_all add: same_order_def\<close>)
  qed
qed

subsection \<open>Attempts\<close>

lemma createChargeForOrder_keeps:
  assumes "shop_inv d" and "ord' \<in> set (d_orders d)" and "same_order ord ord'" and "o_status ord = o_status ord'"
    and "createChargeForOrder e api ord m d = Inr (c, d')"
  shows "shop_inv d'"
proof -
  define key where "key = idempotency_key ord (mt_code m) (Suc (length (filter (\<lambda>c. ch_order c = o_id ord) (d_charges d))))"
  from assms(5) obtain g where t: "(case storeCharge e ord (mt_code m) key g d of (c, d1) \<Rightarrow>
      Inr (c, record_event e (o_id ord) EvPaymentAttempt (ActorClient (o_client ord)) None None None None
              (Some [(''provider'', JStr (mt_code m)), (''methodLabel'', JStr (mt_label m)), (''reference'', JStr (gc_reference g)),
                     (''chargeStatus'', JStr (charge_status_str (gc_status g))),
                     (''attempt'', JNum (of_nat (Suc (length (filter (\<lambda>c. ch_order c = o_id ord) (d_charges d))))))])
              (save_order (ord\<lparr>o_payment_ref := Some (gc_reference g)\<rparr>) d1))) = (Inr (c, d') :: error + charge \<times> db)"
    unfolding createChargeForOrder_def Let_def bindE_eq_Inr key_def by blast
  obtain c0 d1 where st: "storeCharge e ord (mt_code m) key g d = (c0, d1)" by force
  have d': "\<exists>k a f p n r mt. d' = record_event e (o_id ord) k a f p n r mt
      (save_order (ord\<lparr>o_payment_ref := Some (gc_reference g)\<rparr>) d1)"
    using t unfolding st prod.case by (intro exI) (drule sum.inject(2) [THEN iffD1], simp only: prod.inject, blast)
  note f = storeCharge_frame [OF st]
  have i: "shop_inv d1" by (rule f(2) [OF assms(1)])
  show ?thesis
    by (rule shop_inv_write [OF i, of ord' "ord\<lparr>o_payment_ref := Some (gc_reference g)\<rparr>"])
      (use d' assms(2-4) f(1) in \<open>auto simp: same_order_def\<close>)
qed

lemma reserve_again_stock_in:
  assumes "reserve_again e ord d = Inr d'" and "rows_ok d" and "stock_in d (o_id ord) Returned (d_stock d)"
  shows "\<exists>st. d' = d\<lparr>d_stock := st\<rparr> \<and> stock_in d (o_id ord) Held st"
proof -
  have n: "named_conflict [] r = Inr x \<longleftrightarrow> r = Inr x" for r :: "error + db" and x by simp
  have same: "foldE (\<lambda>it d. reserve_line e al pr oid (it_product it) (it_quantity it) d) xs d0 = Inr d1 \<Longrightarrow>
      foldE (\<lambda>it d. named_conflict (it_name it) (reserve_line e al pr oid (it_product it) (it_quantity it) d)) xs d0 = Inr d1"
    for al pr oid xs d0 d1
    by (induction xs arbitrary: d0) (auto simp: bindE_eq_Inr)
  from reserve_lines_Inr [OF same [OF assms(1) [unfolded reserve_again_def Let_def]]] obtain st where
    "foldE (\<lambda>(p, n). reserve_in (reserve_ctx e d (allowedLocationsFor d ord) (o_pickup_location ord)) (o_id ord) p n)
      (item_lines (items_of_order d (o_id ord))) (d_stock d) = Inr st" "d' = d\<lparr>d_stock := st\<rparr>"
    by (auto simp: item_lines_def)
  then show ?thesis
    using stock_in_hold [OF assms(2,3), of "reserve_ctx e d (allowedLocationsFor d ord) (o_pickup_location ord)"] by auto
qed

lemma reinstateIfExpired_keeps:
  assumes "shop_inv d" and "ord \<in> set (d_orders d)"
  shows "shop_inv (reinstateIfExpired e ord d)"
proof (cases "o_status ord \<noteq> CANCELLED \<or> o_cancellation ord \<noteq> Some PAYMENT_NOT_RECEIVED")
  case True
  then show ?thesis using assms(1) by (simp add: reinstateIfExpired_def)
next
  case False
  then have c: "o_status ord = CANCELLED" by simp
  have r: "stock_in d (o_id ord) Returned (d_stock d)" using stock_in_start [OF shop_invD(1) [OF assms(1)] assms(2)] c by simp
  show ?thesis
  proof (cases "reserve_again e ord d")
    case (Inr d1)
    obtain st where st: "d1 = d\<lparr>d_stock := st\<rparr>" "stock_in d (o_id ord) Held st"
      using reserve_again_stock_in [OF Inr shop_invD(2) [OF assms(1)] r] by blast
    show ?thesis
      by (rule shop_inv_save [OF assms, of "ord\<lparr>o_status := PENDING, o_cancellation := None\<rparr>"])
        (use False Inr st shop_invD(3) [OF assms(1)] in
         \<open>auto simp: reinstateIfExpired_def Let_def same_order_def cart_ok_quitar\<close>)
  next
    case (Inl er)
    define ord1 where "ord1 = ord\<lparr>o_status := CANCELLED, o_cancellation := Some PAID_AFTER_EXPIRY_OUT_OF_STOCK\<rparr>"
    have "shop_inv (record_event e (o_id ord) k a f p n rs m (save_order ord1 d))" for k a f p n rs m
      by (rule shop_inv_write [OF assms, of ord1]) (simp_all add: ord1_def c same_order_def)
    then show ?thesis
      using assms(1) False Inl late_refund_keeps by (simp add: reinstateIfExpired_def Let_def ord1_def)
  qed
qed

lemma outcome_row_keys: "outcome_row e c ord = Some ord1 \<Longrightarrow> same_order ord1 ord \<and> o_status ord1 = o_status ord \<and>
    o_total ord1 = o_total ord \<and> o_cancellation ord1 = o_cancellation ord"
  by (auto simp: outcome_row_def same_order_def split: if_splits)

lemma save_order_mem:
  assumes "ord \<in> set (d_orders d)" and "o_id ord1 = o_id ord"
  shows "ord1 \<in> set (d_orders (save_order ord1 d))"
  using assms by (auto simp: save_by_def image_iff)

lemma propagate_keeps:
  assumes "shop_inv d"
  shows "shop_inv (propagateToOrder e c d)"
proof (cases "find_order d (ch_order c)")
  case None
  then show ?thesis using assms by (simp add: propagateToOrder_def)
next
  case (Some ord)
  have mem: "ord \<in> set (d_orders d)" using find_order_Some [OF Some] by simp
  show ?thesis
  proof (cases "o_payment ord = PayPaid \<or> outcome_row e c ord = None")
    case True
    then show ?thesis using assms Some by (auto simp: propagateToOrder_def split: option.split)
  next
    case False
    then obtain ord1 where o1: "outcome_row e c ord = Some ord1" and np: "o_payment ord \<noteq> PayPaid" by auto
    note k = outcome_row_keys [OF o1]
    have i: "shop_inv (record_event e (o_id ord) kd a f p n rs m (save_order ord1 d))" for kd a f p n rs m
      by (rule shop_inv_write [OF assms mem, of ord1]) (use k in simp_all)
    have "ord1 \<in> set (d_orders (record_event e (o_id ord) kd a f p n rs m (save_order ord1 d)))" for kd a f p n rs m
      using save_order_mem [OF mem same_orderD] k by simp
    then show ?thesis
      using i reinstateIfExpired_keeps Some o1 np by (simp add: propagateToOrder_def Let_def)
  qed
qed

lemma syncCharge_keeps: "shop_inv d \<Longrightarrow> syncCharge e api c d = Inr (c', d') \<Longrightarrow> shop_inv d'"
  by (auto simp: syncCharge_def bindE_eq_Inr Let_def propagate_keeps save_charge_keeps split: if_splits)

lemma getChargeForClient_keeps:
  assumes "shop_inv d" and "getChargeForClient e api cid oid d = Inr (c, d')"
  shows "shop_inv d'"
proof -
  from assms(2) obtain c0 where "(case syncCharge e api c0 d of Inl _ \<Rightarrow> Inr (c0, d) | Inr r \<Rightarrow> Inr r) = (Inr (c, d') :: error + charge \<times> db)"
    unfolding getChargeForClient_def bindE_eq_Inr by blast
  then show ?thesis using assms(1) syncCharge_keeps [OF assms(1), of e api c0] by (cases "syncCharge e api c0 d") auto
qed

lemma submitProof_keeps: "shop_inv d \<Longrightarrow> submitProof e cid oid ref url d = Inr (c, d') \<Longrightarrow> shop_inv d'"
  by (rule shop_inv_cong [of d]) (auto simp: submitProof_def bindE_eq_Inr Let_def shop_invD)

lemma handleWebhook_Inr:
  assumes "handleWebhook e api provider raw headers d = Inr (b, d')"
  shows "\<exists>event. parseWebhook_via api (gw_code (gatewayFor (e_gateways e) provider)) raw headers = Inr event \<and>
    (d' = d \<or> (\<exists>c c2. charge_by_reference d (wh_reference event) = Some c \<and>
      (c2 = gatewayFields (wh_charge event) c \<or>
       c2 = (gatewayFields (wh_charge event) c)\<lparr>ch_completed_at := Some (e_now e)\<rparr>) \<and>
      d' = propagateToOrder e c2 (save_charge c2 d)))"
proof -
  from assms obtain event where ev: "parseWebhook_via api (gw_code (gatewayFor (e_gateways e) provider)) raw headers = Inr event"
    by (auto simp: handleWebhook_def bindE_eq_Inr)
  show ?thesis
  proof (cases "if wh_reference event = [] then None else charge_by_reference d (wh_reference event)")
    case None
    then have "d' = d" using assms ev by (simp add: handleWebhook_def)
    then show ?thesis using ev by blast
  next
    case (Some c)
    then have "charge_by_reference d (wh_reference event) = Some c" by (simp split: if_splits)
    then show ?thesis using assms ev Some by (simp add: handleWebhook_def Let_def split: if_splits) blast+
  qed
qed

lemma handleWebhook_keeps: "shop_inv d \<Longrightarrow> handleWebhook e api provider raw headers d = Inr (b, d') \<Longrightarrow> shop_inv d'"
  by (drule handleWebhook_Inr) (auto intro: propagate_keeps save_charge_keeps)

lemma removePaymentAttempt_keeps:
  assumes "shop_inv d" and "removePaymentAttempt e u oid cid reason d = Inr d'"
  shows "shop_inv d'"
proof -
  from assms(2) obtain ord r where o: "find_order d oid = Some ord" and r: "removeAttempt oid cid d = Inr r"
    by (auto simp: removePaymentAttempt_def bindE_eq_Inr)
  obtain c d1 where cd: "r = (c, d1)" by (cases r)
  define d2 where "d2 = (if o_payment_ref ord = Some (ch_reference c) then save_order (ord\<lparr>o_payment_ref := None\<rparr>) d1 else d1)"
  have r: "removeAttempt oid cid d = Inr (c, d1)" using r by (simp add: cd)
  have d': "\<exists>k a f p n rs m. d' = record_event e (o_id ord) k a f p n rs m d2"
    using assms(2) o r unfolding removePaymentAttempt_def
    by (simp add: bindE_eq_Inr order_or_404_def Let_def flip: d2_def) blast
  have mem: "ord \<in> set (d_orders d)" using find_order_Some [OF o] by simp
  have d1: "d1 = d\<lparr>d_charges := d_charges d1\<rparr>" using r by (auto simp: removeAttempt_def bindE_eq_Inr)
  have i: "shop_inv d1" by (subst d1, rule shop_inv_cong [OF assms(1)]) (simp_all add: shop_invD(3) [OF assms(1)])
  have m1: "ord \<in> set (d_orders d1)" by (subst d1) (simp add: mem)
  have i2: "shop_inv d2"
    using i shop_inv_write [OF i m1, of "ord\<lparr>o_payment_ref := None\<rparr>" d2] by (auto simp: d2_def same_order_def)
  have "shop_inv (record_event e (o_id ord) k a f p n rs m d2)" for k a f p n rs m
    by (rule shop_inv_cong [OF i2]) (simp_all add: shop_invD(3) [OF i2])
  then show ?thesis using d' by auto
qed

subsection \<open>Expiry\<close>

lemma expire_tx_keeps:
  assumes "shop_inv d" and "fresh \<in> set (d_orders d)" and "expire_tx e fresh d = Inr d'"
  shows "shop_inv d'"
proof -
  from assms(3) obtain d1 where d1: "release_order (o_id fresh) None Expired d = Inr d1"
    by (auto simp: expire_tx_def bindE_eq_Inr)
  obtain st where st: "d1 = d\<lparr>d_stock := st\<rparr>" "stock_in d (o_id fresh) Returned st"
    using release_order_stock_in [OF d1 _ shop_invD(1) [OF assms(1)] assms(2)] by auto
  show ?thesis
    by (rule shop_inv_save [OF assms(1,2), of "fresh\<lparr>o_status := CANCELLED, o_cancellation := Some PAYMENT_NOT_RECEIVED\<rparr>"])
      (use assms(3) d1 st shop_invD(3) [OF assms(1)] in
       \<open>auto simp: expire_tx_def Let_def same_order_def cart_ok_devolver\<close>)
qed

lemma expire_keeps: "shop_inv d \<Longrightarrow> shop_inv (snd (expire e oid d))"
  using expire_tx_keeps find_order_Some [of d oid] by (auto simp: expire_def split: option.split sum.split)

lemma sweep_keeps: "shop_inv d \<Longrightarrow> shop_inv (snd (sweep e cfg d))"
proof -
  assume i: "shop_inv d"
  have "shop_inv (snd (fold (expire_next e) ords s))" if "shop_inv (snd s)" for ords s
    using that
  proof (induction ords arbitrary: s)
    case (Cons ord ords)
    have "shop_inv (snd (expire_next e ord s))"
      using Cons.prems expire_keeps [of "snd s" e "o_id ord"] by (simp add: expire_next_def case_prod_beta Let_def)
    then show ?case using Cons.IH by simp
  qed simp
  then show ?thesis using i by (simp add: sweep_def Let_def case_prod_beta)
qed

end
