(* ===== verification/Shop.thy ===== *)
theory Shop
  imports Payment_Laws
begin

section \<open>The shop as one machine\<close>

text \<open>
  Every operation of the modelled services as one labelled step relation on the database, with who
  may take the step. What the request validation guarantees (quantities of at least one) and the
  year of the server are premises of the steps they belong to. The properties of the whole shop: its
  rows stay well formed, the stock is what the orders say, order numbers are unique, and every
  order's status and payment follow an abstract life cycle.
\<close>

datatype who = Customer | Staff | SuperAdmin | System

text \<open>The tables no modelled operation on orders writes.\<close>

definition same_books :: "db \<Rightarrow> db \<Rightarrow> bool" where
  "same_books d d' \<longleftrightarrow> d_stock d' = d_stock d \<and> d_orders d' = d_orders d \<and> d_items d' = d_items d \<and>
     d_events d' = d_events d \<and> d_cart d' = d_cart d \<and> d_charges d' = d_charges d \<and> d_refunds d' = d_refunds d \<and>
     d_next d \<le> d_next d' \<and> d_seq d' = d_seq d"

definition this_century :: "env \<Rightarrow> bool" where
  "this_century e \<longleftrightarrow> 1000 \<le> e_year e \<and> e_year e \<le> 9999"

text \<open>
  \<open>Shop_charge_client\<close> is the request of a customer for a new attempt, whether it answers or fails. It
  leaves out one case, \<open>revived_meanwhile\<close>: the refresh finds the earlier attempt paid and revives
  the order, which had expired, and the new attempt then writes the order as it was read before, that
  is cancelled, over the revived one whose units are already held again. \<open>retry_unpays_a_paid_order\<close>
  states what a retry that finds a payment does, and \<open>retry_cancels_a_revived_order\<close> this case.
\<close>

definition revived_meanwhile :: "env \<Rightarrow> gateway_api \<Rightarrow> id \<Rightarrow> id \<Rightarrow> string option \<Rightarrow> db \<Rightarrow> bool" where
  "revived_meanwhile e api cid oid requested d =
     (case asked_attempt e cid oid requested d of
        Inl _ \<Rightarrow> False
      | Inr (ord, m) \<Rightarrow> (case refreshed e api oid m d of
          Inl _ \<Rightarrow> False
        | Inr (_, d1) \<Rightarrow> map_option o_status (find_order d1 oid) \<noteq> Some (o_status ord)))"

inductive shop_step :: "who \<Rightarrow> db \<Rightarrow> db \<Rightarrow> bool" where
  Shop_add: "addItem cid p q ar d = Inr d' \<Longrightarrow> 0 < q \<Longrightarrow> shop_step Customer d d'"
| Shop_set: "updateItem cid p q ar d = Inr d' \<Longrightarrow> 0 < q \<Longrightarrow> shop_step Customer d d'"
| Shop_remove: "removeItem cid p d = Inr d' \<Longrightarrow> shop_step Customer d d'"
| Shop_clear: "shop_step Customer d (d\<lparr>d_cart := clearCart cid (d_cart d)\<rparr>)"
| Shop_checkout: "checkout e cl dto d = Inr (oid, d') \<Longrightarrow> this_century e \<Longrightarrow> shop_step Customer d d'"
| Shop_order_for: "crearParaCliente e u cdto d = Inr (oid, d') \<Longrightarrow> this_century e \<Longrightarrow>
    \<forall>l \<in> set (cd_items cdto). 0 < ol_quantity l \<Longrightarrow> shop_step Staff d d'"
| Shop_cancel: "cancelByClient e cid oid d = Inr d' \<Longrightarrow> shop_step Customer d d'"
| Shop_status: "updateStatus e u oid status direct pu d = Inr d' \<Longrightarrow> shop_step Staff d d'"
| Shop_reinstate: "reinstate e u oid d = Inr d' \<Longrightarrow> shop_step Staff d d'"
| Shop_payment: "updatePaymentStatus e u oid pay d = Inr d' \<Longrightarrow> shop_step Staff d d'"
| Shop_correct: "correct e u oid st pa reason d = Inr d' \<Longrightarrow> shop_step SuperAdmin d d'"
| Shop_items: "updateItems e u oid lines reason d = Inr d' \<Longrightarrow> \<forall>l \<in> set lines. 0 < ol_quantity l \<Longrightarrow>
    shop_step SuperAdmin d d'"
| Shop_attempt: "createChargeForOrder e api ord m d = Inr (c, d') \<Longrightarrow> ord \<in> set (d_orders d) \<Longrightarrow> shop_step System d d'"
| Shop_charge_client: "\<not> revived_meanwhile e api cid oid requested d \<Longrightarrow>
    shop_step System d (snd (createChargeForClient_run e api cid oid requested d))"
| Shop_poll: "getChargeForClient e api cid oid d = Inr (c, d') \<Longrightarrow> shop_step System d d'"
| Shop_proof: "submitProof e cid oid ref url d = Inr (c, d') \<Longrightarrow> shop_step Customer d d'"
| Shop_webhook: "handleWebhook e api provider raw headers d = Inr (b, d') \<Longrightarrow> shop_step System d d'"
| Shop_remove_attempt: "removePaymentAttempt e u oid cid reason d = Inr d' \<Longrightarrow> shop_step SuperAdmin d d'"
| Shop_refund: "request e oid rdto actor d = Inr (rid, d') \<Longrightarrow> shop_step Staff d d'"
| Shop_refunded: "complete_refund e u rid fdto d = Inr d' \<Longrightarrow> shop_step Staff d d'"
| Shop_refused: "reject_refund e u rid reason d = Inr d' \<Longrightarrow> shop_step Staff d d'"
| Shop_sweep: "shop_step System d (snd (sweep e cfg d))"
| Shop_movement: "createOperation s products orders u odto (d_stock d) = Inr st \<Longrightarrow>
    \<forall>x \<in> set (od_items odto). 0 < snd x \<Longrightarrow> shop_step Staff d (d\<lparr>d_stock := st\<rparr>)"
| Shop_catalogue: "same_books d d' \<Longrightarrow> shop_step Staff d d'"

inductive_cases shop_stepE: "shop_step w d d'"

subsection \<open>Steps not covered before\<close>

lemma addItem_keeps: "shop_inv d \<Longrightarrow> addItem cid p q ar d = Inr d' \<Longrightarrow> 0 < q \<Longrightarrow> shop_inv d'"
proof -
  assume a: "shop_inv d" "addItem cid p q ar d = Inr d'" "0 < q"
  then obtain n where d': "d' = d\<lparr>d_cart := save_cart \<lparr>ci_client = cid, ci_product = p, ci_quantity = n + q\<rparr> (d_cart d)\<rparr>"
    and n: "n = (case cart_find cid p (d_cart d) of None \<Rightarrow> 0 | Some ci \<Rightarrow> ci_quantity ci)"
    by (auto simp: addItem_def bindE_eq_Inr Let_def)
  have c: "cart_ok (d_cart d)" by (rule shop_invD(3) [OF a(1)])
  have "0 \<le> n" using c cart_find_Some [of cid p "d_cart d"] by (auto simp: n cart_ok_def less_imp_le split: option.split)
  then have "cart_ok (d_cart d')" using c a(3) by (simp add: d' cart_ok_save)
  then show ?thesis by (intro shop_inv_cong [OF a(1)]) (simp_all add: d')
qed

lemma updateItem_keeps: "shop_inv d \<Longrightarrow> updateItem cid p q ar d = Inr d' \<Longrightarrow> 0 < q \<Longrightarrow> shop_inv d'"
  by (rule shop_inv_cong [of d]) (auto simp: updateItem_def bindE_eq_Inr cart_ok_save shop_invD)

lemma removeItem_keeps: "shop_inv d \<Longrightarrow> removeItem cid p d = Inr d' \<Longrightarrow> shop_inv d'"
  by (rule shop_inv_cong [of d]) (auto simp: removeItem_def bindE_eq_Inr cart_ok_filter shop_invD)

lemma clearCart_keeps: "shop_inv d \<Longrightarrow> shop_inv (d\<lparr>d_cart := clearCart cid (d_cart d)\<rparr>)"
  by (rule shop_inv_cong [of d]) (simp_all add: clearCart_def cart_ok_filter shop_invD)

lemma movement_keeps:
  assumes "shop_inv d" and "createOperation s products orders u dto (d_stock d) = Inr st"
    and "\<forall>x \<in> set (od_items dto). 0 < snd x"
  shows "shop_inv (d\<lparr>d_stock := st\<rparr>)"
proof -
  have b: "books (d_stock d)" using shop_okD(1) [OF shop_invD(1) [OF assms(1)]] .
  note e = createOperation_effect [OF b assms(2,3)]
  have "shop_ok (d\<lparr>d_stock := st\<rparr>)" by (rule shop_ok_stock [OF shop_invD(1) [OF assms(1)] e(1) e(4)])
  then show ?thesis using assms(1) by (simp add: shop_inv_def)
qed

subsection \<open>The row an outcome writes\<close>

lemma foldE_stock:
  assumes "foldE f xs d = Inr d'" and "\<And>x d d'. x \<in> set xs \<Longrightarrow> f x d = Inr d' \<Longrightarrow> \<exists>st. d' = d\<lparr>d_stock := st\<rparr>"
  shows "\<exists>st. d' = d\<lparr>d_stock := st\<rparr>"
proof (rule foldE_invariant [OF assms(1)])
  show "\<exists>st. d = d\<lparr>d_stock := st\<rparr>" by (rule exI [of _ "d_stock d"]) simp
  show "\<exists>st. s' = d\<lparr>d_stock := st\<rparr>" if "x \<in> set xs" "\<exists>st. s = d\<lparr>d_stock := st\<rparr>" "f x s = Inr s'" for x s s'
    using that assms(2) [OF that(1,3)] by auto
qed

lemma reserve_again_orders: "reserve_again e ord d = Inr d1 \<Longrightarrow> d_orders d1 = d_orders d"
proof -
  assume a: "reserve_again e ord d = Inr d1"
  have "\<exists>st. d1 = d\<lparr>d_stock := st\<rparr>"
    by (rule foldE_stock [OF a [unfolded reserve_again_def Let_def]]) (auto simp: reserve_line_Inr)
  then show ?thesis by auto
qed

lemma late_refund_orders: "d_orders (requestForLatePaymentWithoutStock e ord d) = d_orders d"
  by (auto simp: requestForLatePaymentWithoutStock_def split: sum.split dest!: request_Inr)

lemma save_by_twice: "o_id b = o_id a \<Longrightarrow> save_by o_id b (save_by o_id a xs) = save_by o_id b xs"
  by (simp add: save_by_def)

lemma reinstateIfExpired_row:
  "d_orders (reinstateIfExpired e ord d) = d_orders d \<or>
   (\<exists>ord'. same_order ord' ord \<and> o_payment ord' = o_payment ord \<and>
      (o_status ord' = o_status ord \<or> o_status ord = CANCELLED \<and> o_status ord' = PENDING) \<and>
      d_orders (reinstateIfExpired e ord d) = save_by o_id ord' (d_orders d))"
proof (cases "o_status ord \<noteq> CANCELLED \<or> o_cancellation ord \<noteq> Some PAYMENT_NOT_RECEIVED")
  case False
  show ?thesis
  proof (cases "reserve_again e ord d")
    case (Inl er)
    show ?thesis
      using False Inl
      by (cases "is_conflict er")
        (auto simp: reinstateIfExpired_def Let_def late_refund_orders same_order_def
          intro!: exI [of _ "ord\<lparr>o_status := CANCELLED, o_cancellation := Some PAID_AFTER_EXPIRY_OUT_OF_STOCK\<rparr>"])
  next
    case (Inr d1)
    then show ?thesis
      using False reserve_again_orders [OF Inr]
      by (intro disjI2 exI [of _ "ord\<lparr>o_status := PENDING, o_cancellation := None\<rparr>"])
        (simp add: reinstateIfExpired_def Let_def same_order_def)
  qed
qed (simp add: reinstateIfExpired_def)

text \<open>How an outcome moves the order it belongs to.\<close>

definition settles :: "order \<Rightarrow> order \<Rightarrow> bool" where
  "settles ord ord' \<longleftrightarrow> same_order ord' ord \<and> o_payment ord \<noteq> PayPaid \<and>
     (o_status ord' = o_status ord \<and> o_payment ord' \<in> {PayPaid, PayFailed} \<or>
      o_status ord = CANCELLED \<and> o_status ord' = PENDING \<and> o_payment ord' = PayPaid)"

lemma propagate_row:
  "d_orders (propagateToOrder e c d) = d_orders d \<or>
   (\<exists>ord \<in> set (d_orders d). \<exists>ord'. settles ord ord' \<and> d_orders (propagateToOrder e c d) = save_by o_id ord' (d_orders d))"
proof (cases "find_order d (ch_order c)")
  case None
  then show ?thesis by (simp add: propagateToOrder_def)
next
  case (Some ord)
  have mem: "ord \<in> set (d_orders d)" using find_order_Some [OF Some] by simp
  show ?thesis
  proof (cases "o_payment ord = PayPaid \<or> outcome_row e c ord = None")
    case True
    then show ?thesis using Some by (auto simp: propagateToOrder_def split: option.split)
  next
    case False
    then obtain ord1 where o1: "outcome_row e c ord = Some ord1" and np: "o_payment ord \<noteq> PayPaid" by auto
    have p1: "o_payment ord1 = PayPaid \<or> o_payment ord1 = PayFailed" using o1 by (auto simp: outcome_row_def split: if_splits)
    note k = outcome_row_keys [OF o1]
    define d1 where "d1 = record_event e (o_id ord) EvPaymentStatusChanged ActorSystem (Some ''paymentStatus'')
                       (Some (payment_str (o_payment ord))) (Some (payment_str (o_payment ord1)))
                       (Some (''Notificado por la pasarela '' @ ch_provider c))
                       (Some [(''provider'', JStr (ch_provider c)), (''reference'', JStr (ch_reference c))]) (save_order ord1 d)"
    have p: "propagateToOrder e c d = (if o_payment ord1 = PayPaid then reinstateIfExpired e ord1 d1 else d1)"
      using Some o1 np by (simp add: propagateToOrder_def Let_def d1_def)
    have w: "d_orders d1 = save_by o_id ord1 (d_orders d)" by (simp add: d1_def)
    have s1: "settles ord ord1" using k np p1 by (auto simp: settles_def)
    show ?thesis
    proof (cases "o_payment ord1 = PayPaid")
      case True
      consider "d_orders (reinstateIfExpired e ord1 d1) = d_orders d1"
        | ord2 where "same_order ord2 ord1" "o_payment ord2 = o_payment ord1"
          "o_status ord2 = o_status ord1 \<or> o_status ord1 = CANCELLED \<and> o_status ord2 = PENDING"
          "d_orders (reinstateIfExpired e ord1 d1) = save_by o_id ord2 (d_orders d1)"
        using reinstateIfExpired_row [of e ord1 d1] by blast
      then show ?thesis
      proof cases
        case 1
        then show ?thesis using mem s1 w True by (auto simp: p)
      next
        case a: (2 ord2)
        have "settles ord ord2" using a(1-3) k np True by (auto simp: settles_def same_order_def)
        moreover have "save_by o_id ord2 (d_orders d1) = save_by o_id ord2 (d_orders d)"
          unfolding w by (rule save_by_twice) (use a(1) in \<open>simp add: same_order_def\<close>)
        ultimately show ?thesis using mem a(4) True by (auto simp: p)
      qed
    next
      case False
      then show ?thesis using mem s1 w by (auto simp: p)
    qed
  qed
qed

lemma syncCharge_row:
  assumes "syncCharge e api c d = Inr (c1, d1)"
  shows "d_orders d1 = d_orders d \<or>
   (\<exists>ord \<in> set (d_orders d). \<exists>ord'. settles ord ord' \<and> d_orders d1 = save_by o_id ord' (d_orders d))"
proof -
  from assms consider "d1 = d" | "d1 = propagateToOrder e c1 (save_charge c1 d)"
    by (auto simp: syncCharge_def bindE_eq_Inr Let_def split: if_splits)
  then show ?thesis using propagate_row [of e c1 "save_charge c1 d"] by cases simp_all
qed

subsection \<open>A new attempt of a customer\<close>

lemma asked_attempt_Inr:
  "asked_attempt e cid oid requested d = Inr (ord, m) \<longleftrightarrow>
     client_order_or_404 d cid oid = Inr ord \<and> o_payment ord \<noteq> PayPaid \<and>
     resolve_method (e_collate e) (e_gateways e) (d_methods d) requested = Inr m"
  by (auto simp: asked_attempt_def bindE_eq_Inr)

lemma refreshed_cases:
  "refreshed e api oid m d = Inr (x, d1) \<Longrightarrow> d1 = d \<or> (\<exists>c0 c1. syncCharge e api c0 d = Inr (c1, d1))"
  by (auto simp: refreshed_def bindE_eq_Inr split: option.splits if_splits)

lemma refreshed_row:
  assumes "refreshed e api oid m d = Inr (x, d1)"
  shows "d_orders d1 = d_orders d \<or>
   (\<exists>ord \<in> set (d_orders d). \<exists>ord'. settles ord ord' \<and> d_orders d1 = save_by o_id ord' (d_orders d))"
  using refreshed_cases [OF assms] syncCharge_row by blast

lemma refreshed_keeps: "shop_inv d \<Longrightarrow> refreshed e api oid m d = Inr (x, d1) \<Longrightarrow> shop_inv d1"
  by (drule refreshed_cases) (auto intro: syncCharge_keeps)

text \<open>The tables a run leaves: as they were, refreshed, or with the new attempt on them.\<close>

lemma createChargeForClient_split:
  assumes "d' = snd (createChargeForClient_run e api cid oid requested d)"
  obtains "d' = d"
  | ord m x where "asked_attempt e cid oid requested d = Inr (ord, m)" "refreshed e api oid m d = Inr (x, d')"
  | ord m d1 c where "asked_attempt e cid oid requested d = Inr (ord, m)" "refreshed e api oid m d = Inr (None, d1)"
      "createChargeForOrder e api ord m d1 = Inr (c, d')"
proof (cases "asked_attempt e cid oid requested d")
  case (Inl er)
  then show thesis using that(1) assms by (simp add: createChargeForClient_run_def)
next
  case (Inr om)
  obtain ord m where om: "om = (ord, m)" by (cases om)
  note a = Inr [unfolded om]
  show thesis
  proof (cases "refreshed e api oid m d")
    case (Inl er)
    then show thesis using that(1) assms a by (simp add: createChargeForClient_run_def)
  next
    case (Inr r)
    obtain x d1 where r: "refreshed e api oid m d = Inr (x, d1)" using Inr by (cases r) simp
    show thesis
    proof (cases x)
      case (Some c1)
      then show thesis using that(2) [OF a] r assms a by (simp add: createChargeForClient_run_def)
    next
      case None
      show thesis
      proof (cases "createChargeForOrder e api ord m d1")
        case (Inl er)
        then show thesis using that(2) [OF a] r None assms a by (simp add: createChargeForClient_run_def)
      next
        case (Inr cd)
        then show thesis using that(3) [OF a] r None assms a by (cases cd) (simp add: createChargeForClient_run_def)
      qed
    qed
  qed
qed

lemma createChargeForClient_keeps:
  assumes "shop_inv d" and "\<not> revived_meanwhile e api cid oid requested d"
  shows "shop_inv (snd (createChargeForClient_run e api cid oid requested d))"
proof (rule createChargeForClient_split [OF refl, of e api cid oid requested d])
  fix ord m d1 c
  assume a: "asked_attempt e cid oid requested d = Inr (ord, m)" and r: "refreshed e api oid m d = Inr (None, d1)"
    and n: "createChargeForOrder e api ord m d1 = Inr (c, snd (createChargeForClient_run e api cid oid requested d))"
  have i1: "shop_inv d1" by (rule refreshed_keeps [OF assms(1) r])
  have mem: "ord \<in> set (d_orders d)" "o_id ord = oid" using a client_order_Inr by (auto simp: asked_attempt_Inr)
  from assms(2) a r obtain x where x: "find_order d1 oid = Some x" "o_status x = o_status ord"
    by (auto simp: revived_meanwhile_def)
  note x' = find_order_Some [OF x(1)]
  have "same_order ord x"
    using refreshed_row [OF r]
  proof (elim disjE bexE exE conjE)
    assume "d_orders d1 = d_orders d"
    then have "x = ord" using x' mem shop_invD(2) [OF assms(1)] by (auto simp: rows_ok_def distinct_map inj_on_def)
    then show ?thesis by simp
  next
    fix y y' assume y: "y \<in> set (d_orders d)" "settles y y'" "d_orders d1 = save_by o_id y' (d_orders d)"
    have "x = y' \<and> y = ord \<or> x = ord"
      using x' mem y shop_invD(2) [OF assms(1)]
      by (auto simp: save_by_def rows_ok_def distinct_map inj_on_def settles_def same_order_def split: if_splits)
    then show ?thesis using y(2) by (auto simp: settles_def same_order_def)
  qed
  then show ?thesis using createChargeForOrder_keeps [OF i1 _ _ _ n, of x] x' x(2) by simp
qed (use assms(1) refreshed_keeps in auto)

lemma catalogue_keeps: "shop_inv d \<Longrightarrow> same_books d d' \<Longrightarrow> shop_inv d'"
  by (rule shop_inv_cong [of d]) (auto simp: same_books_def shop_invD)

lemma attempt_keeps: "shop_inv d \<Longrightarrow> ord \<in> set (d_orders d) \<Longrightarrow> createChargeForOrder e api ord m d = Inr (c, d') \<Longrightarrow> shop_inv d'"
  by (rule createChargeForOrder_keeps [OF _ _ same_order_refl refl])

lemmas order_keeps = checkout_keeps crearParaCliente_keeps cancelByClient_keeps updateStatus_keeps reinstate_keeps
  updatePaymentStatus_keeps correct_keeps

lemmas payment_keeps = getChargeForClient_keeps submitProof_keeps handleWebhook_keeps removePaymentAttempt_keeps
  request_keeps complete_keeps reject_keeps sweep_keeps createChargeForClient_keeps

lemma shop_step_keeps: "shop_step w d d' \<Longrightarrow> shop_inv d \<Longrightarrow> shop_inv d'"
  by (induction rule: shop_step.induct)
    (auto simp: this_century_def intro: order_keeps payment_keeps addItem_keeps updateItem_keeps removeItem_keeps
      clearCart_keeps movement_keeps catalogue_keeps attempt_keeps dest: updateItems_keeps)

definition any_step :: "db \<Rightarrow> db \<Rightarrow> bool" where
  "any_step d d' \<longleftrightarrow> (\<exists>w. shop_step w d d')"

interpretation shop: stepwise any_step shop_inv
  by unfold_locales (auto simp: any_step_def intro: shop_step_keeps)

subsection \<open>Order numbers\<close>

lemma length_dec_str_4: "1000 \<le> y \<Longrightarrow> y \<le> 9999 \<Longrightarrow> length (dec_str y) = 4"
proof -
  assume "1000 \<le> y" "y \<le> 9999"
  then have "\<not> y < 10" "\<not> y div 10 < 10" "\<not> y div 10 div 10 < 10" "y div 10 div 10 div 10 < 10"
    by linarith+
  then show ?thesis
    by (simp add: dec_str.simps [of y] dec_str.simps [of "y div 10"] dec_str.simps [of "y div 10 div 10"]
      dec_str.simps [of "y div 10 div 10 div 10"])
qed

lemma order_number_inject:
  assumes "order_number y s = order_number y' s'" and "1000 \<le> y" "y \<le> 9999" "1000 \<le> y'" "y' \<le> 9999"
  shows "y = y' \<and> s = s'"
proof -
  have "dec_str y @ pad_start 4 (dec_str s) = dec_str y' @ pad_start 4 (dec_str s')"
    using assms(1) by (simp add: order_number_def)
  then have "dec_str y = dec_str y'" "pad_start 4 (dec_str s) = pad_start 4 (dec_str s')"
    using append_eq_append_conv [of "dec_str y" "dec_str y'"] length_dec_str_4 assms(2-5) by auto
  then show ?thesis using dec_str_inject pad_start_inject by blast
qed

lemma numbered_distinct:
  assumes "numbered n orders"
  shows "distinct (map o_number orders)"
proof -
  have "inj_on o_number (set orders)"
  proof (rule inj_onI)
    fix a b assume a: "a \<in> set orders" "b \<in> set orders" "o_number a = o_number b"
    from assms a obtain y y' where y: "o_number a = Some (order_number y (o_seq a))" "1000 \<le> y" "y \<le> 9999"
      "o_number b = Some (order_number y' (o_seq b))" "1000 \<le> y'" "y' \<le> 9999"
      unfolding numbered_def by blast
    then have "order_number y (o_seq a) = order_number y' (o_seq b)" using a(3) by simp
    then have "o_seq a = o_seq b" using order_number_inject [of y "o_seq a" y' "o_seq b"] y by blast
    then show "a = b" using assms a(1,2) by (auto simp: numbered_def distinct_map inj_on_def)
  qed
  moreover have "distinct orders" using assms by (auto simp: numbered_def distinct_map)
  ultimately show ?thesis by (simp add: distinct_map)
qed

subsection \<open>A small shop with an open order\<close>

definition open_order :: order where
  "open_order = sample_order\<lparr>o_id := 50, o_status := PENDING, o_payment := PayPending, o_paid_at := None,
     o_subtotal := 3998, o_total := 3998\<rparr>"

definition open_item :: order_item where
  "open_item = \<lparr>it_id = 60, it_order = 50, it_product = 7, it_name = ''Arroz'', it_list_price = Some 1999,
     it_discount = Some 0, it_unit_price = 1999, it_quantity = 2, it_line_total = 3998\<rparr>"

definition open_db :: db where
  "open_db = sample_db\<lparr>d_orders := [open_order], d_items := [open_item]\<rparr>"

lemma open_db_inv: "shop_inv open_db"
proof -
  have b: "books (d_stock open_db)" using sample_books by (simp add: open_db_def sample_db_def)
  have u: "order_units oid p st sample_stock = (if oid = 50 \<and> p = 7 \<and> st = Reserved then 2 else 0)" for oid p st
    by (auto simp: order_units_def sample_stock_def)
  have "stocked open_db oid" for oid
    by (auto simp: stocked_def in_phase_def phase_of_def ordered_qty_def items_of_order_def item_lines_def
        open_db_def sample_db_def open_order_def sample_order_def open_item_def u)
  moreover have "rows_ok open_db"
    by (auto simp: rows_ok_def items_ok_def open_db_def sample_db_def open_order_def sample_order_def open_item_def)
  moreover have "cart_ok (d_cart open_db)" by (simp add: cart_ok_def open_db_def sample_db_def cart_key_def)
  moreover have "numbered (d_seq open_db) (d_orders open_db)"
    by (auto simp: numbered_def open_db_def sample_db_def open_order_def sample_order_def intro!: exI [of _ 2026])
  ultimately show ?thesis using b by (simp add: shop_inv_def shop_ok_def)
qed

lemma cancelByClient_row:
  "cancelByClient e cid oid d = Inr d' \<Longrightarrow> \<exists>ord \<in> set (d_orders d). o_status ord = PENDING \<and>
    d_orders d' = save_by o_id (ord\<lparr>o_status := CANCELLED\<rparr>) (d_orders d)"
  by (auto simp: cancelByClient_def bindE_eq_Inr Let_def release_order_Inr dest!: client_order_Inr)

definition cancelled_db :: db where
  "cancelled_db = (case cancelByClient sample_env 3 50 open_db of Inr d \<Rightarrow> d | Inl _ \<Rightarrow> open_db)"

lemma open_order_found: "client_order_or_404 open_db 3 50 = Inr open_order" "find_order open_db 50 = Some open_order"
  by (simp_all add: client_order_or_404_def find_order_def open_db_def open_order_def sample_order_def)

lemma cancelled_step: "cancelByClient sample_env 3 50 open_db = Inr cancelled_db"
proof -
  have "with_status 50 Confirmed sample_stock = []" by (simp add: with_status_def sample_stock_def)
  then obtain st where "release_reservations 50 None Cancelled sample_stock = Inr st"
    using release_succeeds [OF _ sample_books, of 50 None Cancelled] by auto
  then have "\<exists>d. cancelByClient sample_env 3 50 open_db = Inr d"
    unfolding cancelByClient_def open_order_found bindE_Inr Let_def
    by (simp add: open_order_def sample_order_def release_order_def open_db_def sample_db_def)
  then show ?thesis by (auto simp: cancelled_db_def)
qed

subsection \<open>Properties\<close>

text \<open>C1: After a run of the shop of any length (carts, checkouts, orders made by employees, status changes,
  cancellations, reinstatements, payments and new attempts of them, refunds, corrections of status and
  lines, expiry sweeps, movements by hand, changes of the catalogue) every order holds in reservation
  exactly its lines while it is pending, has exactly its lines out of the storages once it is
  confirmed, and neither once it is cancelled; and no storage has promised more than it has. The runs
  take every call of these operations but one, a new attempt whose own refresh revives the expired
  order (\<open>revived_meanwhile\<close>): that call breaks the property for its order.\<close>

theorem shop_stock_matches_orders:
  assumes "any_step\<^sup>*\<^sup>* d0 d" and "shop_inv d0" and "ord \<in> set (d_orders d)"
  shows "order_units (o_id ord) p Reserved (d_stock d) =
      (if stockPhase (o_status ord) = Held then ordered_qty d (o_id ord) p else 0) \<and>
    order_units (o_id ord) p Confirmed (d_stock d) =
      (if stockPhase (o_status ord) = Committed then ordered_qty d (o_id ord) p else 0) \<and>
    reserved_at l p (d_stock d) = held_at l p (d_stock d) \<and> held_at l p (d_stock d) \<le> quantity_at l p (d_stock d)"
proof -
  have i: "shop_inv d" by (rule shop.run [OF assms(1,2)])
  have "stocked d (o_id ord)" by (rule shop_okD(3) [OF shop_invD(1) [OF i]])
  then show ?thesis
    using phase_of_row [OF shop_invD(2) [OF i] assms(3)] books_numbers [OF shop_okD(1) [OF shop_invD(1) [OF i]]]
    by (simp add: stocked_def in_phase_def)
qed

theorem shop_stock_matches_orders_witness:
  "\<exists>ord \<in> set (d_orders cancelled_db). o_id ord = 50 \<and> order_units 50 7 Reserved (d_stock cancelled_db) = 0"
proof -
  have run: "any_step\<^sup>*\<^sup>* open_db cancelled_db"
    by (rule r_into_rtranclp) (use Shop_cancel [OF cancelled_step] in \<open>auto simp: any_step_def\<close>)
  have o: "d_orders cancelled_db = [open_order\<lparr>o_status := CANCELLED\<rparr>]"
    using cancelByClient_row [OF cancelled_step] by (simp add: save_by_def open_db_def)
  show ?thesis
    using shop_stock_matches_orders [OF run open_db_inv, of "open_order\<lparr>o_status := CANCELLED\<rparr>" 7]
    by (simp add: o open_order_def sample_order_def)
qed

text \<open>C8: The rows stay well formed through any run: identifiers and order numbers are unique, every
  line belongs to an order and asks for at least one unit, no order has two lines of one product, and
  no customer has two cart rows of one product or an empty one.\<close>

theorem shop_rows_well_formed:
  assumes "any_step\<^sup>*\<^sup>* d0 d" and "shop_inv d0"
  shows "distinct (map o_id (d_orders d)) \<and> distinct (map o_number (d_orders d)) \<and>
    (\<forall>it \<in> set (d_items d). 0 < it_quantity it \<and> it_order it \<in> o_id ` set (d_orders d)) \<and>
    distinct (map it_product (items_of_order d oid)) \<and> cart_ok (d_cart d)"
proof -
  have i: "shop_inv d" by (rule shop.run [OF assms])
  then have "distinct (map o_number (d_orders d))" by (auto simp: shop_inv_def intro: numbered_distinct)
  then show ?thesis
    using shop_invD(2) [OF i] items_of_order_products [OF shop_invD(2) [OF i]] shop_invD(3) [OF i]
    by (auto simp: rows_ok_def items_ok_def)
qed

theorem shop_rows_well_formed_witness: "cart_ok (d_cart cancelled_db) \<and> distinct (map o_number (d_orders cancelled_db))"
proof -
  have run: "any_step\<^sup>*\<^sup>* open_db cancelled_db"
    by (rule r_into_rtranclp) (use Shop_cancel [OF cancelled_step] in \<open>auto simp: any_step_def\<close>)
  show ?thesis using shop_rows_well_formed [OF run open_db_inv] by simp
qed

end
