(* ===== verification/Life_Cycle.thy ===== *)
theory Life_Cycle
  imports Shop
begin

section \<open>The life cycle of an order, and that the shop refines it\<close>

text \<open>
  The abstract specification: a stage is a status and a payment status, and \<open>life w\<close> says which
  moves each kind of actor may make. The shop refines it: whatever step is taken, every order is
  still there and has stayed at its stage or made one single move, a move of the actor who took it.
\<close>

type_synonym stage = "order_status \<times> payment_status"

definition stage :: "order \<Rightarrow> stage" where
  "stage ord = (o_status ord, o_payment ord)"

definition forward :: "order_status \<Rightarrow> order_status \<Rightarrow> bool" where
  "forward s s' \<longleftrightarrow> index_of s FORWARD_CHAIN < index_of s' FORWARD_CHAIN"

inductive life :: "who \<Rightarrow> stage \<Rightarrow> stage \<Rightarrow> bool" where
  Life_give_up: "life Customer (PENDING, p) (CANCELLED, p)"
| Life_advance: "s \<noteq> DELIVERED \<Longrightarrow> s \<noteq> CANCELLED \<Longrightarrow> s' = CANCELLED \<or> forward s s' \<Longrightarrow> life Staff (s, p) (s', p)"
| Life_reinstate: "life Staff (CANCELLED, p) (PENDING, p)"
| Life_mark_paid: "p' \<in> set (PAYMENT_TRANSITIONS p) \<Longrightarrow> life Staff (s, p) (s, p')"
| Life_refunded: "life Staff (s, p) (s, PayRefunded)"
| Life_correct: "life SuperAdmin x y"
| Life_settled: "p \<noteq> PayPaid \<Longrightarrow> p' = PayPaid \<or> p' = PayFailed \<Longrightarrow> life System (s, p) (s, p')"
| Life_late: "p \<noteq> PayPaid \<Longrightarrow> life System (CANCELLED, p) (PENDING, PayPaid)"
| Life_expire: "p \<noteq> PayPaid \<Longrightarrow> life System (PENDING, p) (CANCELLED, p)"

inductive_cases life_CustomerE: "life Customer x y"
inductive_cases life_StaffE: "life Staff x y"
inductive_cases life_SystemE: "life System x y"

definition follows :: "who \<Rightarrow> order \<Rightarrow> order \<Rightarrow> bool" where
  "follows w ord ord' \<longleftrightarrow> same_order ord' ord \<and> (stage ord' = stage ord \<or> life w (stage ord) (stage ord'))"

text \<open>Every order of \<open>d\<close> is still there in \<open>d'\<close>, changed only as \<open>R\<close> allows.\<close>

definition moves_by :: "(order \<Rightarrow> order \<Rightarrow> bool) \<Rightarrow> db \<Rightarrow> db \<Rightarrow> bool" where
  "moves_by R d d' \<longleftrightarrow> (\<forall>ord \<in> set (d_orders d). \<exists>ord' \<in> set (d_orders d'). R ord ord')"

abbreviation moves :: "who \<Rightarrow> db \<Rightarrow> db \<Rightarrow> bool" where
  "moves w \<equiv> moves_by (follows w)"

lemma follows_refl [simp]: "follows w ord ord"
  by (simp add: follows_def)

lemma moves_by_same: "(\<And>x. R x x) \<Longrightarrow> set (d_orders d) \<subseteq> set (d_orders d') \<Longrightarrow> moves_by R d d'"
  unfolding moves_by_def by (meson subsetD)

lemma moves_same: "set (d_orders d) \<subseteq> set (d_orders d') \<Longrightarrow> moves w d d'"
  by (rule moves_by_same) simp_all

lemma moves_by_trans: "transp R \<Longrightarrow> moves_by R d d1 \<Longrightarrow> moves_by R d1 d' \<Longrightarrow> moves_by R d d'"
  unfolding moves_by_def by (meson transpD)

lemma moves_by_mono: "moves_by R d d' \<Longrightarrow> (\<And>x y. R x y \<Longrightarrow> S x y) \<Longrightarrow> moves_by S d d'"
  unfolding moves_by_def by blast

lemma moves_by_save:
  assumes "rows_ok d" and "ord \<in> set (d_orders d)" and "R ord ord'" and "o_id ord' = o_id ord" and "\<And>x. R x x"
    and "d_orders d' = save_by o_id ord' (d_orders d)"
  shows "moves_by R d d'"
  unfolding moves_by_def
proof
  fix x assume x: "x \<in> set (d_orders d)"
  show "\<exists>x' \<in> set (d_orders d'). R x x'"
  proof (cases "o_id x = o_id ord'")
    case True
    then have "x = ord" using assms(1,2,4) x by (auto simp: rows_ok_def distinct_map inj_on_def)
    moreover have "ord' \<in> set (d_orders d')" using assms(6) x True by (auto simp: save_by_def image_iff)
    ultimately show ?thesis using assms(3) by blast
  next
    case False
    then have "x \<in> set (d_orders d')" using assms(6) x by (auto simp: save_by_def image_iff)
    then show ?thesis using assms(5) by blast
  qed
qed

lemma moves_save:
  assumes "rows_ok d" and "ord \<in> set (d_orders d)" and "follows w ord ord'" and "d_orders d' = save_by o_id ord' (d_orders d)"
  shows "moves w d d'"
  by (rule moves_by_save [OF assms(1-3) _ follows_refl assms(4)]) (use assms(3) in \<open>simp add: follows_def same_order_def\<close>)

lemma followsI: "same_order ord' ord \<Longrightarrow> life w (stage ord) (stage ord') \<Longrightarrow> follows w ord ord'"
  by (simp add: follows_def)

lemma follows_same_stage: "same_order ord' ord \<Longrightarrow> stage ord' = stage ord \<Longrightarrow> follows w ord ord'"
  by (simp add: follows_def)

subsection \<open>The row each operation writes\<close>

lemma updateStatus_row:
  assumes "updateStatus e u oid status direct pu d = Inr d'"
  shows "\<exists>ord ord'. ord \<in> set (d_orders d) \<and> o_id ord = oid \<and> updateStatus_check d u oid status direct = Inr ord \<and>
    same_order ord' ord \<and> stage ord' = (status, o_payment ord) \<and> d_orders d' = save_by o_id ord' (d_orders d)"
proof -
  from assms obtain ord where c: "updateStatus_check d u oid status direct = Inr ord"
    and tx: "updateStatus_tx e u ord status direct pu d = Inr d'"
    by (auto simp: updateStatus_def bindE_eq_Inr)
  have mem: "ord \<in> set (d_orders d)" "o_id ord = oid" using find_order_Some [OF updateStatus_check_Inr(1) [OF c]] by simp_all
  define ord2 where "ord2 = (if status = DELIVERED \<and> o_delivered_at (ord\<lparr>o_status := status\<rparr>) = None
      then sealDelivery e u pu (ord\<lparr>o_status := status\<rparr>) else ord\<lparr>o_status := status\<rparr>)"
  have "same_order ord2 ord" "stage ord2 = (status, o_payment ord)" by (simp_all add: ord2_def same_order_def stage_def)
  moreover have "d_orders d' = save_by o_id ord2 (d_orders d)"
    using tx unfolding updateStatus_tx_def Let_def ord2_def
    by (auto simp: bindE_eq_Inr release_order_Inr confirm_order_def split: if_splits)
  ultimately show ?thesis using c mem by blast
qed

lemma reinstate_row:
  "reinstate e u oid d = Inr d' \<Longrightarrow> \<exists>ord \<in> set (d_orders d). o_status ord = CANCELLED \<and>
    d_orders d' = save_by o_id (ord\<lparr>o_status := PENDING, o_cancellation := None, o_reinstated_at := Some (e_now e),
      o_reinstated_by := Some (u_id u)\<rparr>) (d_orders d)"
  using find_order_Some [of d oid] by (auto simp: reinstate_def bindE_eq_Inr dest!: reserveOrderItems_Inr)

lemma updatePaymentStatus_row:
  "updatePaymentStatus e u oid pay d = Inr d' \<Longrightarrow> \<exists>ord ord'. ord \<in> set (d_orders d) \<and>
    pay \<in> set (PAYMENT_TRANSITIONS (o_payment ord)) \<and> same_order ord' ord \<and> stage ord' = (o_status ord, pay) \<and>
    d_orders d' = save_by o_id ord' (d_orders d)"
proof -
  assume "updatePaymentStatus e u oid pay d = Inr d'"
  then obtain ord where f: "find_order d oid = Some ord" and g: "pay \<in> set (PAYMENT_TRANSITIONS (o_payment ord))"
    and r: "d_orders d' = save_by o_id (if pay = PayPaid then sellarCobro (e_hv e) (e_now e) (ord\<lparr>o_payment := pay\<rparr>)
      else ord\<lparr>o_payment := pay\<rparr>) (d_orders d)"
    by (auto simp: updatePaymentStatus_def bindE_eq_Inr Let_def)
  have "same_order (if pay = PayPaid then sellarCobro (e_hv e) (e_now e) (ord\<lparr>o_payment := pay\<rparr>) else ord\<lparr>o_payment := pay\<rparr>) ord"
    "stage (if pay = PayPaid then sellarCobro (e_hv e) (e_now e) (ord\<lparr>o_payment := pay\<rparr>) else ord\<lparr>o_payment := pay\<rparr>) = (o_status ord, pay)"
    by (simp_all add: same_order_def stage_def)
  then show ?thesis using find_order_Some [OF f] g r by blast
qed

lemma move_lines_stock: "move_lines e u ord current incoming d = Inr d1 \<Longrightarrow> \<exists>st. d1 = d\<lparr>d_stock := st\<rparr>"
proof (cases "stockPhase (o_status ord) = Returned")
  case True
  assume "move_lines e u ord current incoming d = Inr d1"
  then show ?thesis using True by (intro exI [of _ "d_stock d"]) (simp add: move_lines_def)
next
  case False
  assume "move_lines e u ord current incoming d = Inr d1"
  then obtain dm where a: "foldE (drop_line e u (o_id ord) incoming) current d = Inr dm"
    and b: "foldE (raise_line e u ord (allowedLocationsFor d ord) current) incoming dm = Inr d1"
    using False by (auto simp: move_lines_def bindE_eq_Inr)
  have "\<exists>st. s' = s\<lparr>d_stock := st\<rparr>" if "drop_line e u (o_id ord) incoming x s = Inr s'" for x s s'
    using that by (auto simp: drop_line_def bindE_eq_Inr Let_def split: if_splits intro: exI [of _ "d_stock s"])
  then have "\<exists>st. dm = d\<lparr>d_stock := st\<rparr>" using foldE_stock [OF a] by blast
  moreover have "\<exists>st. s' = s\<lparr>d_stock := st\<rparr>" if "raise_line e u ord al current x s = Inr s'" for al x s s'
    using that by (auto simp: raise_line_def bindE_eq_Inr Let_def reserve_line_Inr split: if_splits intro: exI [of _ "d_stock s"])
  then have "\<exists>st. d1 = dm\<lparr>d_stock := st\<rparr>" using foldE_stock [OF b] by blast
  ultimately show ?thesis by auto
qed

lemma updateItems_row:
  assumes "updateItems e u oid lines reason d = Inr d'"
  shows "\<exists>ord ord'. ord \<in> set (d_orders d) \<and> same_order ord' ord \<and> stage ord' = stage ord \<and>
    d_orders d' = save_by o_id ord' (d_orders d)"
proof -
  from updateItems_Inr [OF assms] obtain ord current incoming d1 where
    f: "find_order d oid = Some ord" and mv: "move_lines e u ord current incoming d = Inr d1"
    and d': "d' = write_lines e u ord current incoming reason d1" by blast
  from move_lines_stock [OF mv] obtain st where st: "d1 = d\<lparr>d_stock := st\<rparr>" by blast
  have o: "d_orders (fold (save_line oid current) ls x) = d_orders x" for oid ls x
    by (induction ls arbitrary: x) simp_all
  define ord' where "ord' = ord\<lparr>o_subtotal := to_fixed2 (new_subtotal incoming),
      o_total := to_fixed2 (js_add (new_subtotal incoming) (dec_num (o_delivery_fee ord)))\<rparr>"
  have "d_orders d' = save_by o_id ord' (d_orders d)"
    unfolding d' write_lines_frame(1) o ord'_def by (simp add: drop_gone_items_def st)
  then show ?thesis
    using find_order_Some [OF f]
    by (intro exI [of _ ord] exI [of _ ord']) (simp add: ord'_def same_order_def stage_def)
qed

lemma correct_row:
  assumes "shop_inv d" and "correct e u oid st pa reason d = Inr d'"
  shows "\<exists>ord ord'. ord \<in> set (d_orders d) \<and> same_order ord' ord \<and> d_orders d' = save_by o_id ord' (d_orders d)"
proof -
  from correct_Inr [OF assms(2)] obtain ord dest py allowed d1 where
    f: "find_order d oid = Some ord" and c: "(if o_status ord \<noteq> dest then correct_stock e u ord dest allowed d else Inr d) = Inr d1"
    and w: "d_orders d' = save_by o_id (corrected_row e u dest py ord) (d_orders d1)" by blast
  have mem: "ord \<in> set (d_orders d)" using find_order_Some [OF f] by simp
  have "d_orders d1 = d_orders d"
    using c correct_stock_effect [OF assms(1) mem, of e u dest allowed d1] by (auto split: if_splits)
  then show ?thesis using mem w corrected_row_keys(1) by metis
qed

lemma complete_row:
  assumes "complete_refund e u rid dto d = Inr d'"
  shows "d_orders d' = d_orders d \<or> (\<exists>ord \<in> set (d_orders d). d_orders d' = save_by o_id (ord\<lparr>o_payment := PayRefunded\<rparr>) (d_orders d))"
proof -
  from assms obtain r ord where o: "find_order d (rf_order r) = Some ord" and d': "d' = complete_tx e u dto r ord d"
    by (auto simp: complete_refund_def bindE_eq_Inr)
  show ?thesis using find_order_Some [OF o] by (auto simp: d' complete_tx_frame)
qed

subsection \<open>Every step of the shop is a move of its actor\<close>

text \<open>What the sweep may do to an order, however many orders it cancels.\<close>

definition expires :: "order \<Rightarrow> order \<Rightarrow> bool" where
  "expires ord ord' \<longleftrightarrow> same_order ord' ord \<and> o_payment ord' = o_payment ord \<and>
     (o_status ord' = o_status ord \<or> o_status ord = PENDING \<and> o_status ord' = CANCELLED \<and> o_payment ord \<noteq> PayPaid)"

lemma expires_refl [simp]: "expires ord ord"
  by (simp add: expires_def)

lemma expires_transp: "transp expires"
  by (rule transpI) (auto simp: expires_def same_order_def)

lemma expires_follows: "expires ord ord' \<Longrightarrow> follows System ord ord'"
  by (auto simp: expires_def follows_def stage_def intro: Life_expire)

lemma expire_moves: "shop_inv d \<Longrightarrow> moves_by expires d (snd (expire e oid d))"
proof (cases "find_order d oid")
  case None
  then show ?thesis by (simp add: expire_def moves_by_same)
next
  case (Some fresh)
  assume i: "shop_inv d"
  have mem: "fresh \<in> set (d_orders d)" using find_order_Some [OF Some] by simp
  show ?thesis
  proof (cases "o_status fresh \<noteq> PENDING \<or> o_payment fresh = PayPaid")
    case True
    then show ?thesis using Some by (simp add: expire_def moves_by_same)
  next
    case False
    show ?thesis
    proof (cases "expire_tx e fresh d")
      case (Inl er)
      then show ?thesis using Some False by (simp add: expire_def moves_by_same)
    next
      case (Inr d')
      then have "d_orders d' = save_by o_id (fresh\<lparr>o_status := CANCELLED, o_cancellation := Some PAYMENT_NOT_RECEIVED\<rparr>) (d_orders d)"
        by (auto simp: expire_tx_def bindE_eq_Inr Let_def release_order_Inr)
      then have "moves_by expires d d'"
        by (rule moves_by_save [OF shop_invD(2) [OF i] mem, rotated 3])
          (use False in \<open>simp_all add: expires_def same_order_def\<close>)
      then show ?thesis using Some False Inr by (simp add: expire_def)
    qed
  qed
qed

lemma sweep_moves: "shop_inv d \<Longrightarrow> moves System d (snd (sweep e cfg d))"
proof -
  assume i: "shop_inv d"
  have "moves_by expires (snd s) (snd (fold (expire_next e) ords s))" if "shop_inv (snd s)" for ords s
    using that
  proof (induction ords arbitrary: s)
    case Nil
    then show ?case by (simp add: moves_by_same)
  next
    case (Cons ord ords)
    have n: "snd (expire_next e ord s) = snd (expire e (o_id ord) (snd s))"
      by (simp add: expire_next_def case_prod_beta Let_def)
    have k: "shop_inv (snd (expire_next e ord s))" unfolding n by (rule expire_keeps [OF Cons.prems])
    show ?case
      using moves_by_trans [OF expires_transp expire_moves [OF Cons.prems, of e "o_id ord", folded n] Cons.IH [OF k]] by simp
  qed
  from this [of "([], d)"] have "moves_by expires d (snd (sweep e cfg d))"
    using i by (simp add: sweep_def Let_def case_prod_beta)
  then show ?thesis by (rule moves_by_mono [OF _ expires_follows])
qed

lemma settles_follows: "settles ord ord' \<Longrightarrow> follows System ord ord'"
  by (auto simp: settles_def follows_def stage_def intro: Life_settled Life_late)

lemma settled_moves:
  assumes "shop_inv d"
    and "d_orders d' = d_orders d \<or>
      (\<exists>ord \<in> set (d_orders d). \<exists>ord'. settles ord ord' \<and> d_orders d' = save_by o_id ord' (d_orders d))"
  shows "moves System d d'"
  using assms(2) moves_save [OF shop_invD(2) [OF assms(1)] _ settles_follows] by (auto simp: moves_same)

lemma propagate_charge_moves: "shop_inv d \<Longrightarrow> moves System d (propagateToOrder e c1 (save_charge c2 d))"
  using propagate_row [of e c1 "save_charge c2 d"] by (intro settled_moves) simp_all

lemma syncCharge_moves: "shop_inv d \<Longrightarrow> syncCharge e api c d = Inr (c1, d1) \<Longrightarrow> moves System d d1"
  by (intro settled_moves syncCharge_row)

lemma getChargeForClient_moves:
  assumes "shop_inv d" and "getChargeForClient e api cid oid d = Inr (c, d')"
  shows "moves System d d'"
proof -
  from assms(2) obtain c0 where "(case syncCharge e api c0 d of Inl _ \<Rightarrow> Inr (c0, d) | Inr r \<Rightarrow> Inr r) = (Inr (c, d') :: error + charge \<times> db)"
    unfolding getChargeForClient_def bindE_eq_Inr by blast
  then show ?thesis using syncCharge_moves [OF assms(1), of e api c0] by (cases "syncCharge e api c0 d") (auto simp: moves_same)
qed

lemma handleWebhook_moves:
  assumes "shop_inv d" and "handleWebhook e api provider raw headers d = Inr (b, d')"
  shows "moves System d d'"
  using handleWebhook_Inr [OF assms(2)] propagate_charge_moves [OF assms(1)] by (auto simp: moves_same)

lemma createChargeForOrder_row:
  assumes "createChargeForOrder e api ord m d = Inr (c, d')"
  shows "\<exists>ref. d_orders d' = save_by o_id (ord\<lparr>o_payment_ref := Some ref\<rparr>) (d_orders d)"
  using assms
  by (auto simp: createChargeForOrder_def bindE_eq_Inr Let_def storeCharge_def split: prod.splits option.splits)

lemma createChargeForOrder_moves:
  assumes "shop_inv d" and "ord \<in> set (d_orders d)" and "createChargeForOrder e api ord m d = Inr (c, d')"
  shows "moves w d d'"
proof -
  from createChargeForOrder_row [OF assms(3)] obtain ref where
    w: "d_orders d' = save_by o_id (ord\<lparr>o_payment_ref := Some ref\<rparr>) (d_orders d)" ..
  show ?thesis
    by (rule moves_save [OF shop_invD(2) [OF assms(1)] assms(2) _ w], rule follows_same_stage)
      (simp_all add: same_order_def stage_def)
qed

lemma moves_overwrite:
  assumes "moves w d d1" and "rows_ok d" and "ord \<in> set (d_orders d)" and "same_order ord' ord" and "stage ord' = stage ord"
    and "d_orders d' = save_by o_id ord' (d_orders d1)"
  shows "moves w d d'"
  unfolding moves_by_def
proof
  fix y assume y: "y \<in> set (d_orders d)"
  then obtain y1 where y1: "y1 \<in> set (d_orders d1)" "follows w y y1" using assms(1) by (auto simp: moves_by_def)
  have i: "o_id y1 = o_id y" using y1(2) by (simp add: follows_def same_order_def)
  show "\<exists>y' \<in> set (d_orders d'). follows w y y'"
  proof (cases "o_id y = o_id ord")
    case True
    then have "y = ord" using assms(2,3) y by (auto simp: rows_ok_def distinct_map inj_on_def)
    moreover have "ord' \<in> set (d_orders d')"
      using y1(1) i True same_orderD [OF assms(4)] by (auto simp: assms(6) save_by_def image_iff intro!: bexI [of _ y1])
    ultimately show ?thesis using follows_same_stage [OF assms(4,5)] by blast
  next
    case False
    then have "y1 \<in> set (d_orders d')"
      using y1(1) i same_orderD [OF assms(4)] by (auto simp: assms(6) save_by_def image_iff intro!: bexI [of _ y1])
    then show ?thesis using y1(2) by blast
  qed
qed

lemma stale_attempt_moves:
  assumes "shop_inv d" and "ord \<in> set (d_orders d)" and "refreshed e api oid m' d = Inr (x, d1)"
    and "createChargeForOrder e api ord m d1 = Inr (c, d')"
  shows "moves System d d'"
proof -
  from createChargeForOrder_row [OF assms(4)] obtain ref where
    w: "d_orders d' = save_by o_id (ord\<lparr>o_payment_ref := Some ref\<rparr>) (d_orders d1)" ..
  show ?thesis
    by (rule moves_overwrite [OF settled_moves [OF assms(1) refreshed_row [OF assms(3)]] shop_invD(2) [OF assms(1)] assms(2) _ _ w])
      (simp_all add: same_order_def stage_def)
qed

lemma removePaymentAttempt_moves:
  assumes "shop_inv d" and "removePaymentAttempt e u oid cid reason d = Inr d'"
  shows "moves SuperAdmin d d'"
proof -
  from assms(2) obtain ord r where o: "find_order d oid = Some ord" and r: "removeAttempt oid cid d = Inr r"
    by (auto simp: removePaymentAttempt_def bindE_eq_Inr)
  obtain c d1 where cd: "r = (c, d1)" by (cases r)
  have d1: "d_orders d1 = d_orders d" using r by (auto simp: cd removeAttempt_def bindE_eq_Inr)
  have mem: "ord \<in> set (d_orders d)" using find_order_Some [OF o] by simp
  have "d_orders d' = d_orders d \<or> d_orders d' = save_by o_id (ord\<lparr>o_payment_ref := None\<rparr>) (d_orders d)"
    using assms(2) o r d1 by (auto simp: removePaymentAttempt_def bindE_eq_Inr cd Let_def)
  then show ?thesis
  proof
    assume w: "d_orders d' = save_by o_id (ord\<lparr>o_payment_ref := None\<rparr>) (d_orders d)"
    show ?thesis
      by (rule moves_save [OF shop_invD(2) [OF assms(1)] mem _ w], rule follows_same_stage)
        (simp_all add: same_order_def stage_def)
  qed (simp add: moves_same)
qed

text \<open>Every request for a new attempt, the one whose refresh revives the order included.\<close>

lemma createChargeForClient_moves:
  assumes "shop_inv d"
  shows "moves System d (snd (createChargeForClient_run e api cid oid requested d))"
proof (rule createChargeForClient_split [OF refl, of e api cid oid requested d])
  fix ord m d1 c
  assume a: "asked_attempt e cid oid requested d = Inr (ord, m)" and r: "refreshed e api oid m d = Inr (None, d1)"
    and n: "createChargeForOrder e api ord m d1 = Inr (c, snd (createChargeForClient_run e api cid oid requested d))"
  have "ord \<in> set (d_orders d)" using a client_order_Inr by (auto simp: asked_attempt_Inr)
  then show ?thesis by (rule stale_attempt_moves [OF assms _ r n])
qed (use settled_moves [OF assms] refreshed_row in \<open>auto simp: moves_same\<close>)

lemma complete_moves:
  assumes "shop_inv d" and "complete_refund e u rid dto d = Inr d'"
  shows "moves Staff d d'"
  using complete_row [OF assms(2)]
proof
  assume "\<exists>ord \<in> set (d_orders d). d_orders d' = save_by o_id (ord\<lparr>o_payment := PayRefunded\<rparr>) (d_orders d)"
  then obtain ord where o: "ord \<in> set (d_orders d)" and w: "d_orders d' = save_by o_id (ord\<lparr>o_payment := PayRefunded\<rparr>) (d_orders d)" by blast
  show ?thesis
    by (rule moves_save [OF shop_invD(2) [OF assms(1)] o _ w], rule followsI)
      (simp_all add: same_order_def stage_def Life_refunded)
qed (simp add: moves_same)

lemma request_moves:
  assumes "request e oid dto actor d = Inr (rid, d')"
  shows "moves w d d'"
  using request_Inr [OF assms] by (auto intro: moves_same)

lemma creation_moves:
  assumes "shop_inv d" and "this_century e" and "crearPedido e ps fin d = Inr (oid, d')"
    and "distinct (map lr_product (cp_lines ps))" and "\<forall>l \<in> set (cp_lines ps). 0 < lr_quantity l"
    and "\<And>ord x. ord \<in> set (d_orders x) \<Longrightarrow> d_orders (fin ord x) = d_orders x \<or>
      (\<exists>ord'. o_id ord' = o_id ord \<and> d_orders (fin ord x) = save_by o_id ord' (d_orders x))"
  shows "moves w d d'"
proof -
  from crearPedido_keeps [OF assms(1) _ _ assms(3-5)] assms(2) obtain d3 where
    d': "d' = fin (new_order e d ps) d3" and o: "d_orders d3 = d_orders d @ [new_order e d ps]"
    by (auto simp: this_century_def)
  have fresh: "\<forall>x \<in> set (d_orders d). o_id x \<noteq> d_next d" using shop_invD(2) [OF assms(1)] by (auto simp: rows_ok_def)
  have mem: "new_order e d ps \<in> set (d_orders d3)" by (simp add: o)
  have "set (d_orders d) \<subseteq> set (d_orders d')"
    using assms(6) [OF mem] fresh by (auto simp: d' o save_by_def image_iff)
  then show ?thesis by (rule moves_same)
qed

lemma checkout_moves:
  assumes "shop_inv d" and "checkout e cl dto d = Inr (oid, d')" and "this_century e"
  shows "moves Customer d d'"
proof -
  from checkout_Inr [OF assms(2)] obtain address mid choice cart d1 where
    cart: "cart = getCart d (cl_id cl) (at_municipality mid)" and
    c: "crearPedido e (checkout_params d cl dto address mid choice cart) (empty_cart (cl_id cl)) d = Inr (oid, d1)" and
    d': "d' = save_typed_address e cl dto d1" by blast
  note ok = getCart_ok [OF shop_invD(3) [OF assms(1)], of "cl_id cl" "at_municipality mid"]
  have "moves Customer d d1"
    by (rule creation_moves [OF assms(1,3) c]) (use ok in \<open>simp_all add: cart comp_def empty_cart_def\<close>)
  moreover have "d_orders d' = d_orders d1" by (auto simp: d' save_typed_address_def split: option.split sum.split)
  ultimately show ?thesis by (simp add: moves_by_def)
qed

lemma crearParaCliente_moves:
  assumes "shop_inv d" and "crearParaCliente e u dto d = Inr (oid, d')" and "this_century e"
    and "\<forall>l \<in> set (cd_items dto). 0 < ol_quantity l"
  shows "moves Staff d d'"
proof -
  from crearParaCliente_Inr [OF assms(2)] obtain cl mid choice lineas where
    l: "resolveLines d [] (cd_items dto) = Inr lineas" and dist: "distinct (map ol_product (cd_items dto))"
    and c: "crearPedido e (client_params d u dto cl mid choice lineas)
      (case cd_cobro dto of None \<Rightarrow> (\<lambda>_ d'. d') | Some cb \<Rightarrow> seal_cobro e u cb) d = Inr (oid, d')" by blast
  have "\<forall>n \<in> set (map lr_quantity lineas). 0 < n"
    unfolding resolveLines_Inr(2) [OF l] using assms(4) by simp
  then have lines: "distinct (map lr_product (cp_lines (client_params d u dto cl mid choice lineas)))"
    "\<forall>x \<in> set (cp_lines (client_params d u dto cl mid choice lineas)). 0 < lr_quantity x"
    using resolveLines_Inr(1) [OF l] dist by simp_all
  have "d_orders ((case cd_cobro dto of None \<Rightarrow> (\<lambda>_ d'. d') | Some cb \<Rightarrow> seal_cobro e u cb) ord x) = d_orders x \<or>
      (\<exists>ord'. o_id ord' = o_id ord \<and>
         d_orders ((case cd_cobro dto of None \<Rightarrow> (\<lambda>_ d'. d') | Some cb \<Rightarrow> seal_cobro e u cb) ord x) = save_by o_id ord' (d_orders x))"
    for ord x
  proof (cases "cd_cobro dto")
    case (Some cb)
    show ?thesis
      by (rule disjI2, rule exI [of _ "sellarCobro (e_hv e) (e_now e) (ord\<lparr>o_payment := PayPaid, o_payment_ref := cb_reference cb\<rparr>)"])
        (simp add: Some seal_cobro_def)
  qed simp
  then show ?thesis by (rule creation_moves [OF assms(1,3) c lines])
qed

lemma updateStatus_moves:
  assumes "shop_inv d" and "updateStatus e u oid status direct pu d = Inr d'"
  shows "moves Staff d d'"
proof -
  from updateStatus_row [OF assms(2)] obtain ord ord' where mem: "ord \<in> set (d_orders d)"
    and c: "updateStatus_check d u oid status direct = Inr ord"
    and o: "same_order ord' ord" "stage ord' = (status, o_payment ord)" "d_orders d' = save_by o_id ord' (d_orders d)" by blast
  have "o_status ord \<noteq> DELIVERED \<and> o_status ord \<noteq> CANCELLED \<and> (status = CANCELLED \<or> forward (o_status ord) status)"
    using updateStatus_check_Inr(2) [OF c]
    by (cases "o_status ord"; cases status) (simp_all add: forward_def FORWARD_CHAIN_def Let_def)
  then have "life Staff (stage ord) (stage ord')"
    unfolding o(2) unfolding stage_def by (intro Life_advance) auto
  then show ?thesis by (intro moves_save [OF shop_invD(2) [OF assms(1)] mem followsI [OF o(1)] o(3)])
qed

lemma shop_step_moves:
  assumes "shop_step w d d'" and "shop_inv d"
  shows "moves w d d'"
  using assms
proof (induction rule: shop_step.induct)
  case (Shop_cancel e cid oid d d')
  from cancelByClient_row [OF Shop_cancel(1)] obtain ord where o: "ord \<in> set (d_orders d)" "o_status ord = PENDING"
    "d_orders d' = save_by o_id (ord\<lparr>o_status := CANCELLED\<rparr>) (d_orders d)" by blast
  show ?case
    by (rule moves_save [OF shop_invD(2) [OF Shop_cancel(2)] o(1) _ o(3)], rule followsI)
      (use o(2) Life_give_up in \<open>simp_all add: same_order_def stage_def\<close>)
next
  case (Shop_reinstate e u oid d d')
  from reinstate_row [OF Shop_reinstate(1)] obtain ord where o: "ord \<in> set (d_orders d)" "o_status ord = CANCELLED"
    "d_orders d' = save_by o_id (ord\<lparr>o_status := PENDING, o_cancellation := None, o_reinstated_at := Some (e_now e),
      o_reinstated_by := Some (u_id u)\<rparr>) (d_orders d)" by blast
  show ?case
    by (rule moves_save [OF shop_invD(2) [OF Shop_reinstate(2)] o(1) _ o(3)], rule followsI)
      (use o(2) Life_reinstate in \<open>simp_all add: same_order_def stage_def\<close>)
next
  case (Shop_payment e u oid pay d d')
  from updatePaymentStatus_row [OF Shop_payment(1)] obtain ord ord' where o: "ord \<in> set (d_orders d)"
    "pay \<in> set (PAYMENT_TRANSITIONS (o_payment ord))" "same_order ord' ord" "stage ord' = (o_status ord, pay)"
    "d_orders d' = save_by o_id ord' (d_orders d)" by blast
  show ?case
    by (rule moves_save [OF shop_invD(2) [OF Shop_payment(2)] o(1) followsI [OF o(3)] o(5)])
      (use o(2,4) Life_mark_paid in \<open>simp add: stage_def\<close>)
next
  case (Shop_correct e u oid st pa reason d d')
  from correct_row [OF Shop_correct(2,1)] obtain ord ord' where "ord \<in> set (d_orders d)" "same_order ord' ord"
    "d_orders d' = save_by o_id ord' (d_orders d)" by blast
  then show ?case by (intro moves_save [OF shop_invD(2) [OF Shop_correct(2)]] followsI Life_correct)
next
  case (Shop_items e u oid lines reason d d')
  from updateItems_row [OF Shop_items(1)] obtain ord ord' where "ord \<in> set (d_orders d)" "same_order ord' ord"
    "stage ord' = stage ord" "d_orders d' = save_by o_id ord' (d_orders d)" by blast
  then show ?case by (intro moves_save [OF shop_invD(2) [OF Shop_items(3)]] follows_same_stage)
qed (auto intro: moves_same updateStatus_moves checkout_moves crearParaCliente_moves createChargeForOrder_moves
      createChargeForClient_moves
      getChargeForClient_moves handleWebhook_moves removePaymentAttempt_moves complete_moves sweep_moves request_moves
    simp: addItem_def updateItem_def removeItem_def submitProof_def reject_refund_def save_refund_def bindE_eq_Inr Let_def
      same_books_def)

subsection \<open>Properties\<close>

text \<open>Every step of the shop, and the one call \<open>shop_step\<close> leaves out.\<close>

definition every_step :: "who \<Rightarrow> db \<Rightarrow> db \<Rightarrow> bool" where
  "every_step w d d' \<longleftrightarrow> shop_step w d d' \<or>
     w = System \<and> (\<exists>e api cid oid requested. d' = snd (createChargeForClient_run e api cid oid requested d))"

text \<open>C2: The shop refines the life cycle: whatever operation is executed, no order disappears or
  changes its identity, and each order stays at its stage (status and payment) or makes one single
  move of the life cycle, one of those of the actor who executes it. A customer can only give a
  pending order up; an employee only moves an order forward, cancels one that is not delivered,
  reinstates a cancelled one, marks its payment along the transitions or records it refunded, one
  of these at a time; a gateway or the sweep only settles an unpaid order, which revives it in the
  same move when it was cancelled, or cancels an unpaid pending one. Every request for a new attempt
  is covered, whatever its refresh finds and whether it answers or fails. Only the corrections of a
  super administrator are free.\<close>

theorem shop_refines_life_cycle:
  assumes "every_step w d d'" and "shop_inv d" and "ord \<in> set (d_orders d)"
  shows "\<exists>ord' \<in> set (d_orders d'). same_order ord' ord \<and> (stage ord' = stage ord \<or> life w (stage ord) (stage ord'))"
proof -
  have "moves w d d'"
    using assms(1) shop_step_moves [OF _ assms(2)] createChargeForClient_moves [OF assms(2)] by (auto simp: every_step_def)
  then show ?thesis using assms(3) by (auto simp: moves_by_def follows_def)
qed

theorem shop_refines_life_cycle_witness:
  "\<exists>ord' \<in> set (d_orders cancelled_db). same_order ord' open_order \<and>
     (stage ord' = (PENDING, PayPending) \<or> life Customer (PENDING, PayPending) (stage ord'))"
proof -
  have "every_step Customer open_db cancelled_db" using Shop_cancel [OF cancelled_step] by (simp add: every_step_def)
  from shop_refines_life_cycle [OF this open_db_inv, of open_order]
  show ?thesis by (simp add: open_db_def stage_def open_order_def)
qed

text \<open>Who can leave a delivered order.\<close>

lemma delivered_life: "life w x y \<Longrightarrow> w \<noteq> SuperAdmin \<Longrightarrow> fst x = DELIVERED \<Longrightarrow> fst y = DELIVERED"
  by (cases w) (auto elim!: life_CustomerE life_StaffE life_SystemE)

text \<open>The steps of everybody but the super administrator.\<close>

definition daily_step :: "db \<Rightarrow> db \<Rightarrow> bool" where
  "daily_step d d' \<longleftrightarrow> (\<exists>w. w \<noteq> SuperAdmin \<and> shop_step w d d')"

definition delivered_in :: "id \<Rightarrow> db \<Rightarrow> bool" where
  "delivered_in oid d \<longleftrightarrow> shop_inv d \<and> (\<exists>ord \<in> set (d_orders d). o_id ord = oid \<and> o_status ord = DELIVERED)"

interpretation delivered: stepwise daily_step "delivered_in oid" for oid
proof unfold_locales
  fix d d' assume a: "delivered_in oid d" "daily_step d d'"
  then obtain w ord where w: "w \<noteq> SuperAdmin" "shop_step w d d'" and i: "shop_inv d"
    and o: "ord \<in> set (d_orders d)" "o_id ord = oid" "o_status ord = DELIVERED"
    by (auto simp: daily_step_def delivered_in_def)
  from shop_step_moves [OF w(2) i] o(1) obtain ord' where o': "ord' \<in> set (d_orders d')" "follows w ord ord'"
    by (auto simp: moves_by_def)
  have "o_status ord' = DELIVERED"
    using delivered_life [of w "stage ord" "stage ord'"] w(1) o(3) o'(2) by (auto simp: follows_def stage_def)
  moreover have "o_id ord' = oid" using o'(2) o(2) by (simp add: follows_def same_order_def)
  ultimately show "delivered_in oid d'" using o'(1) shop_step_keeps [OF w(2) i] by (auto simp: delivered_in_def)
qed

text \<open>A delivered order stays delivered, with its units out of the storage, however the shop goes on,
  unless a super administrator corrects it: no customer, employee, gateway or sweep can take it
  back.\<close>

theorem delivered_is_final:
  assumes "daily_step\<^sup>*\<^sup>* d d'" and "shop_inv d" and "ord \<in> set (d_orders d)" and "o_status ord = DELIVERED"
  shows "\<exists>ord' \<in> set (d_orders d'). o_id ord' = o_id ord \<and> o_status ord' = DELIVERED \<and>
    (\<forall>p. order_units (o_id ord) p Confirmed (d_stock d') = ordered_qty d' (o_id ord) p)"
proof -
  have "delivered_in (o_id ord) d'"
    by (rule delivered.run [OF assms(1)]) (use assms(2-4) in \<open>auto simp: delivered_in_def\<close>)
  then obtain ord' where i: "shop_inv d'" and o: "ord' \<in> set (d_orders d')" "o_id ord' = o_id ord" "o_status ord' = DELIVERED"
    by (auto simp: delivered_in_def)
  have "stocked d' (o_id ord)" by (rule shop_okD(3) [OF shop_invD(1) [OF i]])
  then have "\<forall>p. order_units (o_id ord) p Confirmed (d_stock d') = ordered_qty d' (o_id ord) p"
    using phase_of_row [OF shop_invD(2) [OF i] o(1)] o(2,3) by (simp add: stocked_def in_phase_def)
  then show ?thesis using o by blast
qed

definition delivered_db :: db where
  "delivered_db = sample_db\<lparr>d_stock := (d_stock sample_db)\<lparr>s_resv := [], s_rows := []\<rparr>, d_orders := [sample_order\<lparr>o_status := DELIVERED\<rparr>]\<rparr>"

theorem delivered_is_final_witness:
  "shop_inv delivered_db \<and> (\<exists>ord' \<in> set (d_orders (delivered_db\<lparr>d_cart := clearCart 3 (d_cart delivered_db)\<rparr>)).
     o_id ord' = 70 \<and> o_status ord' = DELIVERED)"
proof -
  have b: "books (d_stock delivered_db)"
    by (simp add: books_def tidy_def delivered_db_def sample_db_def sample_stock_def stock_numbers)
  have "stocked delivered_db oid" for oid
    by (simp add: stocked_def in_phase_def delivered_db_def sample_db_def order_units_def ordered_qty_def items_of_order_def item_lines_def)
  then have i: "shop_inv delivered_db"
    using b by (auto simp: shop_inv_def shop_ok_def rows_ok_def items_ok_def numbered_def cart_ok_def cart_key_def
        delivered_db_def sample_db_def sample_order_def intro!: exI [of _ 2026])
  have run: "daily_step\<^sup>*\<^sup>* delivered_db (delivered_db\<lparr>d_cart := clearCart 3 (d_cart delivered_db)\<rparr>)"
    by (rule r_into_rtranclp) (use Shop_clear [of delivered_db 3] in \<open>auto simp: daily_step_def\<close>)
  show ?thesis
    using delivered_is_final [OF run i, of "sample_order\<lparr>o_status := DELIVERED\<rparr>"] i
    by (auto simp: delivered_db_def sample_order_def)
qed

end
