(* ===== verification/Checkout_Laws.thy ===== *)
theory Checkout_Laws
  imports Life_Cycle
begin

section \<open>A checkout gives what the cart shows\<close>

text \<open>
  The cart is priced and its stock is checked before the order exists; the order is then written line
  by line in a transaction. Both agree: when the checks pass the transaction cannot fail, and what it
  writes is the cart, at the cart's prices.
\<close>

subsection \<open>Writing the lines succeeds when their stock does\<close>

lemma add_lines_total:
  "foldE (\<lambda>(p, n). reserve_in (reserve_ctx e d allowed preferred) oid p n) (wanted ls) (d_stock d) = Inr st \<Longrightarrow>
    \<exists>d'. foldE (add_line e allowed preferred oid) ls d = Inr d'"
proof (induction ls arbitrary: d)
  case Nil
  then show ?case by simp
next
  case (Cons l ls)
  then obtain st1 where s: "reserve_in (reserve_ctx e d allowed preferred) oid (lr_product l) (lr_quantity l) (d_stock d) = Inr st1"
    and rest: "foldE (\<lambda>(p, n). reserve_in (reserve_ctx e d allowed preferred) oid p n) (wanted ls) st1 = Inr st"
    by (auto simp: wanted_def bindE_eq_Inr)
  define d1 where "d1 = new_item oid l (d\<lparr>d_stock := st1\<rparr>)"
  have a: "add_line e allowed preferred oid l d = Inr d1"
    by (simp add: add_line_def reserve_line_def s d1_def)
  have "reserve_ctx e d1 allowed preferred = reserve_ctx e d allowed preferred" "d_stock d1 = st1"
    by (simp_all add: reserve_ctx_def d1_def)
  then show ?case using Cons.IH [of d1] rest a by simp
qed

text \<open>The storages an order may use include those whose stock the cart shows.\<close>

lemma area_within_allowed:
  assumes "books st"
  shows "availableForArea (d_storage d) (d_geo d) st (at_municipality mid) p
    \<le> free_units (l_locations (d_storage d)) (resolveAllowedLocationIds d mid choice) p st"
proof (cases mid)
  case None
  then show ?thesis
    by (simp add: availableForArea_def at_municipality_def stockMap_free_units resolveAllowedLocationIds_def with_counter_def)
next
  case (Some m)
  let ?c = "coveringLocationIds (d_storage d) (d_geo d) None (Some m)"
  obtain ids where i: "resolveAllowedLocationIds d mid choice = Some ids" "set ?c \<subseteq> set ids"
    by (cases "fc_pickup_location choice") (auto simp: resolveAllowedLocationIds_def with_counter_def Some)
  have "availableForArea (d_storage d) (d_geo d) st (at_municipality mid) p = free_units (l_locations (d_storage d)) (Some ?c) p st"
    by (simp add: availableForArea_def at_municipality_def stockMap_free_units Some)
  then show ?thesis using free_units_mono [OF assms i(2)] i(1) by simp
qed

lemma getCart_line:
  "l \<in> set (getCart d cid ar) \<Longrightarrow>
    cln_available l = availableForArea (d_storage d) (d_geo d) (d_stock d) ar (cln_product l) \<and>
    (cln_is_available l \<longrightarrow> cln_quantity l \<le> cln_available l)"
  by (auto simp: getCart_def map_filter_def cart_line_of_def Let_def split: option.splits)

lemma crearPedido_total:
  assumes "shop_inv d" and "distinct (map lr_product (cp_lines ps))"
    and "\<forall>l \<in> set (cp_lines ps). lr_quantity l \<le> free_units (l_locations (d_storage d)) (cp_allowed ps) (lr_product l) (d_stock d)"
  shows "\<exists>oid d'. crearPedido e ps fin d = Inr (oid, d')"
proof -
  let ?d = "order_entered e d ps" and ?pref = "fc_pickup_location (cp_choice ps)"
  have k: "d_stock ?d = d_stock d" "d_storage ?d = d_storage d" by (simp_all add: order_entered_def)
  have "\<exists>st. foldE (\<lambda>(p, n). reserve_in (l_locations (d_storage d), cp_allowed ps, ?pref, e_now e) (d_next d) p n)
      (wanted (cp_lines ps)) (d_stock d) = Inr st"
    by (rule reserve_all_lines [OF shop_okD(1) [OF shop_invD(1) [OF assms(1)]]])
      (use assms(2,3) in \<open>auto simp: wanted_def comp_def\<close>)
  then obtain st where "foldE (\<lambda>(p, n). reserve_in (reserve_ctx e ?d (cp_allowed ps) ?pref) (d_next d) p n) (wanted (cp_lines ps)) (d_stock ?d) = Inr st"
    by (auto simp: k reserve_ctx_def)
  from add_lines_total [OF this] obtain d2 where
    "foldE (add_line e (cp_allowed ps) ?pref (d_next d)) (cp_lines ps) ?d = Inr d2" ..
  then show ?thesis by (simp add: crearPedido_def Let_def order_entered_def)
qed

subsection \<open>The money of an order\<close>

lemma lines_cents_exact:
  assumes "\<forall>l \<in> set ls. lr_unit l = dec_num (price l) \<and> 0 \<le> price l \<and> 0 < lr_quantity l"
    and "sum_list (map (\<lambda>l. price l * lr_quantity l) ls) < 10 ^ 12"
  shows "lines_cents ls = sum_list (map (\<lambda>l. price l * lr_quantity l) ls)"
proof -
  have nn: "0 \<le> price l * lr_quantity l" if "l \<in> set ls" for l
    using assms(1) that by (simp add: less_imp_le)
  have "line_cents (lr_unit l) (lr_quantity l) = price l * lr_quantity l" if l: "l \<in> set ls" for l
  proof -
    have "price l * lr_quantity l \<le> sum_list (map (\<lambda>l. price l * lr_quantity l) ls)"
      using nn l by (intro member_le_sum_list) auto
    then show ?thesis using assms l nn [OF l] by (simp add: line_cents_def js_line_cents)
  qed
  then show ?thesis unfolding lines_cents_def by (metis (no_types, lifting) map_eq_conv)
qed

lemma new_order_money:
  assumes "lines_cents (cp_lines ps) = s" and "0 \<le> s" and "s < 10 ^ 12" and "0 \<le> fc_fee (cp_choice ps)" and "fc_fee (cp_choice ps) < 10 ^ 12"
  shows "o_subtotal (new_order e d ps) = s" and "o_total (new_order e d ps) = s + o_delivery_fee (new_order e d ps)"
    and "o_delivery_fee (new_order e d ps) = fc_fee (cp_choice ps) \<or> o_delivery_fee (new_order e d ps) = 0"
proof -
  show f: "o_delivery_fee (new_order e d ps) = fc_fee (cp_choice ps) \<or> o_delivery_fee (new_order e d ps) = 0"
    by (auto simp: new_order_def Let_def feeConPromocion_def split: option.split)
  show "o_subtotal (new_order e d ps) = s"
    using assms by (simp add: new_order_def Let_def js_div_100 js_fixed_cents)
  have t: "o_total (new_order e d ps) = to_fixed2 (js_add (dec_num s) (dec_num (o_delivery_fee (new_order e d ps))))"
    by (simp add: new_order_def Let_def js_div_100 assms(1))
  show "o_total (new_order e d ps) = s + o_delivery_fee (new_order e d ps)"
    unfolding t by (rule js_fixed_sum) (use assms f in auto)
qed

subsection \<open>Property\<close>

text \<open>C4: When the checks of a checkout pass (address, delivery or pickup choice, contact, every line of the cart
  available in the customer's area, payment method) the checkout cannot fail: the order is written,
  pending, with exactly the lines of the cart and every unit of them held, its subtotal is the exact
  sum of the lines in cents, its total adds the fee of the choice (or none, by promotion), and the
  customer's cart is left empty.\<close>

theorem checkout_honours_the_cart:
  assumes "shop_inv d" and "this_century e" and "resolveAddress d cl dto = Inr address"
    and "resolveChoice (e_collate e) d (co_type dto) (co_option dto) (co_pickup dto) (checkout_municipality cl dto address) = Inr choice"
    and "\<not> (fc_type choice = PICKUP \<and> co_contact dto = None)"
    and "getCart d (cl_id cl) (at_municipality (checkout_municipality cl dto address)) = cart" and "cart \<noteq> []"
    and "\<forall>l \<in> set cart. cln_is_available l"
    and "resolve_method (e_collate e) (e_gateways e) (d_methods d) (co_method dto) = Inr m"
    and "\<forall>l \<in> set cart. cln_unit_price l = dec_num (price (cln_product l)) \<and> 0 \<le> price (cln_product l)"
    and "sum_list (map (\<lambda>l. price (cln_product l) * cln_quantity l) cart) < 10 ^ 12" and "0 \<le> fc_fee choice" and "fc_fee choice < 10 ^ 12"
  shows "\<exists>oid d' ord. checkout e cl dto d = Inr (oid, d') \<and> ord \<in> set (d_orders d') \<and> o_id ord = oid \<and>
    o_client ord = cl_id cl \<and> o_status ord = PENDING \<and> o_payment ord = PayPending \<and>
    (\<forall>p. ordered_qty d' oid p = line_qty (map (\<lambda>l. (cln_product l, cln_quantity l)) cart) p \<and>
       order_units oid p Reserved (d_stock d') = ordered_qty d' oid p) \<and>
    o_subtotal ord = sum_list (map (\<lambda>l. price (cln_product l) * cln_quantity l) cart) \<and>
    o_total ord = o_subtotal ord + o_delivery_fee ord \<and> (o_delivery_fee ord = fc_fee choice \<or> o_delivery_fee ord = 0) \<and>
    (\<forall>x \<in> set (d_cart d'). ci_client x \<noteq> cl_id cl)"
proof -
  let ?mid = "checkout_municipality cl dto address"
  define ps where "ps = checkout_params d cl dto address ?mid choice cart"
  note gc = getCart_ok [OF shop_invD(3) [OF assms(1)], of "cl_id cl" "at_municipality ?mid", unfolded assms(6)]
  have ls: "cp_lines ps = map cart_linea cart" and cl: "cp_client ps = cl_id cl" and ch: "cp_choice ps = choice"
    and al: "cp_allowed ps = resolveAllowedLocationIds d ?mid choice"
    by (simp_all add: ps_def checkout_params_def)
  have dist: "distinct (map lr_product (cp_lines ps))" and pos: "\<forall>l \<in> set (cp_lines ps). 0 < lr_quantity l"
    using gc by (simp_all add: ls comp_def)
  have "cln_quantity l \<le> free_units (l_locations (d_storage d)) (cp_allowed ps) (cln_product l) (d_stock d)" if "l \<in> set cart" for l
    using getCart_line [of l d "cl_id cl" "at_municipality ?mid"] that assms(6,8)
      area_within_allowed [OF shop_okD(1) [OF shop_invD(1) [OF assms(1)]], of d ?mid "cln_product l" choice] by (fastforce simp: al)
  then have "\<exists>oid d1. crearPedido e ps (empty_cart (cl_id cl)) d = Inr (oid, d1)"
    by (intro crearPedido_total [OF assms(1) dist]) (simp add: ls)
  then obtain oid d1 where c: "crearPedido e ps (empty_cart (cl_id cl)) d = Inr (oid, d1)" by blast
  from crearPedido_keeps [OF assms(1) _ _ c dist pos] assms(2) obtain d3 where
    d1: "d1 = empty_cart (cl_id cl) (new_order e d ps) d3" and o3: "d_orders d3 = d_orders d @ [new_order e d ps]"
    and oid: "oid = d_next d" and q3: "\<forall>q. ordered_qty d3 oid q = line_qty (wanted (cp_lines ps)) q"
    by (auto simp: this_century_def)
  define d' where "d' = save_typed_address e cl dto d1"
  have run: "checkout e cl dto d = Inr (oid, d')"
    unfolding checkout_def assms(3) bindE_Inr Let_def assms(4) assms(6) assms(9) ps_def [symmetric] c
    using assms(5,7,8) by (simp add: d'_def filter_empty_conv)
  have f: "d_orders d' = d_orders d3" "d_cart d' = clearCart (cl_id cl) (d_cart d3)" "d_items d' = d_items d3"
    by (auto simp: d'_def save_typed_address_def d1 empty_cart_def split: option.split sum.split)
  have i: "shop_inv d'" by (rule checkout_keeps [OF assms(1) _ _ run]) (use assms(2) in \<open>simp_all add: this_century_def\<close>)
  have mem: "new_order e d ps \<in> set (d_orders d')" by (simp add: f o3)
  have qty: "ordered_qty d' oid p = line_qty (map (\<lambda>l. (cln_product l, cln_quantity l)) cart) p" for p
    using q3 f(3) by (simp add: ordered_qty_def items_of_order_def wanted_def ls comp_def)
  have held: "order_units oid p Reserved (d_stock d') = ordered_qty d' oid p" for p
    using phase_of_row [OF shop_invD(2) [OF i] mem] shop_okD(3) [OF shop_invD(1) [OF i], of oid] oid
    by (simp add: stocked_def in_phase_def)
  let ?s = "sum_list (map (\<lambda>l. price (cln_product l) * cln_quantity l) cart)"
  have s: "lines_cents (cp_lines ps) = ?s"
    using lines_cents_exact [of "cp_lines ps" "\<lambda>l. price (lr_product l)"] assms(10,11) gc(2) by (simp add: ls comp_def cart_linea_def)
  have "0 \<le> ?s" using assms(10) gc(2) by (intro sum_list_nonneg) auto
  note money = new_order_money [OF s this assms(11), of e d, unfolded ch, OF assms(12,13)]
  have "\<forall>x \<in> set (d_cart d'). ci_client x \<noteq> cl_id cl" by (simp add: f clearCart_def)
  then show ?thesis
    using run mem qty held money oid cl by (intro exI [of _ oid] exI [of _ d'] exI [of _ "new_order e d ps"]) simp
qed

definition sample_client :: client where
  "sample_client = \<lparr>cl_id = 3, cl_active = True, cl_default_municipality = Some 11\<rparr>"

definition pickup_dto :: checkout_dto where
  "pickup_dto = \<lparr>co_type = Some PICKUP, co_option = None, co_pickup = Some 31, co_address_id = None, co_address = None,
     co_contact = Some \<lparr>ct_name = Some ''Ana'', ct_id_card = None, ct_phone = None\<rparr>, co_save = False,
     co_delivery_address = None, co_municipality = None, co_notes = None, co_method = None\<rparr>"

theorem checkout_honours_the_cart_witness:
  "\<exists>oid d' ord. checkout sample_env sample_client pickup_dto open_db = Inr (oid, d') \<and> ord \<in> set (d_orders d') \<and> o_id ord = oid \<and>
     order_units oid 7 Reserved (d_stock d') = 2 \<and> o_total ord = 3998"
proof -
  let ?mid = "checkout_municipality sample_client pickup_dto None"
  have a: "resolveAddress open_db sample_client pickup_dto = Inr None" by (simp add: resolveAddress_def pickup_dto_def)
  have mid: "?mid = Some 11" by (simp add: checkout_municipality_def pickup_dto_def sample_client_def first_some_def)
  let ?r = "resolveChoice (e_collate sample_env) open_db (co_type pickup_dto) (co_option pickup_dto) (co_pickup pickup_dto) ?mid"
  have "case resolveChoice sample_collate (sample_db\<lparr>d_orders := os, d_items := its\<rparr>) (Some PICKUP) None (Some 31) (Some 11) of
      Inr c \<Rightarrow> fc_fee c = 0 | Inl _ \<Rightarrow> False" for os its by code_simp
  from this [where os = "[open_order]" and its = "[open_item]"] have "case ?r of Inr c \<Rightarrow> fc_fee c = 0 | Inl _ \<Rightarrow> False"
    unfolding mid by (simp add: open_db_def sample_env_def pickup_dto_def)
  then obtain choice where c: "?r = Inr choice" "fc_fee choice = 0" by (cases ?r) auto
  define cart where "cart = [cart_line_of sample_product 2 13]"
  have cid: "cl_id sample_client = 3" by (simp add: sample_client_def)
  have "availableForArea (d_storage sample_db) (d_geo sample_db) sample_stock (at_municipality (Some 11)) 7 = 13"
    by code_simp
  then have "availableForArea (d_storage open_db) (d_geo open_db) (d_stock open_db) (at_municipality (Some 11)) 7 = 13"
    by (simp add: open_db_def sample_db_def)
  then have g: "getCart open_db (cl_id sample_client) (at_municipality ?mid) = cart"
    unfolding mid cid cart_def by (simp add: getCart_def map_filter_def open_db_def sample_db_def sample_product_def)
  have p: "finalPrice 1999 0 = dec_num 1999" by code_simp
  have m: "resolve_method (e_collate sample_env) (e_gateways sample_env) (d_methods open_db) (co_method pickup_dto) = Inr (d_methods sample_db ! 0)"
    by (simp add: resolve_method_def findAvailable_def live_methods_def open_db_def sample_db_def js_sort_def
        gatewayFor_def sample_env_def pickup_dto_def)
  have k: "cart \<noteq> []" "\<forall>l \<in> set cart. cln_is_available l" "\<forall>l \<in> set cart. cln_unit_price l = dec_num 1999 \<and> (0::int) \<le> 1999"
    "sum_list (map (\<lambda>l. 1999 * cln_quantity l) cart) = 3998" "line_qty (map (\<lambda>l. (cln_product l, cln_quantity l)) cart) 7 = 2"
    by (simp_all add: cart_def cart_line_of_def sample_product_def p line_qty_def Let_def)
  have y: "this_century sample_env" by (simp add: this_century_def sample_env_def)
  have n: "\<not> (fc_type choice = PICKUP \<and> co_contact pickup_dto = None)" by (simp add: pickup_dto_def)
  from checkout_honours_the_cart [where price = "\<lambda>_. 1999", OF open_db_inv y a c(1) n g k(1,2) m k(3)] c(2) k(4,5)
  obtain oid d' ord where "checkout sample_env sample_client pickup_dto open_db = Inr (oid, d')" "ord \<in> set (d_orders d')" "o_id ord = oid"
    "order_units oid 7 Reserved (d_stock d') = 2" "o_total ord = 3998" by auto
  then show ?thesis by blast
qed

end
