(* ===== verification/Late_Payments.thy ===== *)
theory Late_Payments
  imports Life_Cycle
begin

section \<open>Payments that arrive when they should not\<close>

text \<open>
  What a payment does that arrives after its order expired, what a repeated notification does, and
  two places where a retry goes wrong: the second attempt that takes back a payment that had just
  been found, and the attempt that takes the name of an earlier one.
\<close>

subsection \<open>A stock conflict is the only way to fail\<close>

lemma reserve_line_Inl: "reserve_line e al pr oid p n d = Inl err \<Longrightarrow> is_conflict err"
  by (auto simp: reserve_line_def bindE_eq_Inl reserve_ctx_def reserve_def Let_def split: if_splits)

lemma reserve_again_Inl: "reserve_again e ord d = Inl err \<Longrightarrow> is_conflict err"
proof -
  have "foldE (\<lambda>it. reserve_line e al pr oid (it_product it) (it_quantity it)) its x = Inl err \<Longrightarrow> is_conflict err"
    for al pr oid its x
    by (induction its arbitrary: x) (auto simp: bindE_eq_Inl dest: reserve_line_Inl)
  then show "reserve_again e ord d = Inl err \<Longrightarrow> is_conflict err" by (auto simp: reserve_again_def Let_def)
qed

subsection \<open>The automatic refund\<close>

lemma request_succeeds:
  assumes "amounts_ok d" and "find_order d oid = Some ord" and "o_payment ord = PayPaid"
    and "committed d oid < o_total ord" and "rd_amount dto = None"
  shows "\<exists>r. request e oid dto actor d = Inr r"
proof -
  have "ord \<in> set (d_orders d)" "o_id ord = oid" using find_order_Some [OF assms(2)] by simp_all
  then have "amount_cents (dec_num (rs_refundable (summaryFor d ord))) = o_total ord - committed d oid"
    using refundable_exact [OF assms(1), of ord] assms(4) by simp
  then show ?thesis
    using assms(2-5) by (simp add: request_def order_or_404_def importe_def Let_def)
qed

lemma late_refund_commits:
  assumes "amounts_ok d" and "find_order d (o_id ord) = Some row" and "o_payment row = PayPaid"
    and "committed d (o_id ord) \<le> o_total row"
  shows "committed (requestForLatePaymentWithoutStock e ord d) (o_id ord) = o_total row"
proof (cases "committed d (o_id ord) = o_total row")
  case True
  have "request e (o_id ord) late_payment_dto RaSystem d \<noteq> Inr (rid, d')" for rid d'
    using request_effect [OF assms(1), of e "o_id ord" late_payment_dto RaSystem rid d'] assms(2) True by auto
  then show ?thesis
    using True by (auto simp: requestForLatePaymentWithoutStock_def split: sum.split)
next
  case False
  have n: "rd_amount late_payment_dto = None" by (simp add: late_payment_dto_def)
  obtain rid d' where r: "request e (o_id ord) late_payment_dto RaSystem d = Inr (rid, d')"
    using request_succeeds [OF assms(1-3) _ n, of e RaSystem] False assms(4) by fastforce
  from request_effect [OF assms(1) r] obtain n where "n = o_total row - committed d (o_id ord)"
    "committed d' (o_id ord) = committed d (o_id ord) + n"
    using assms(2) by (auto simp: late_payment_dto_def)
  then show ?thesis by (simp add: requestForLatePaymentWithoutStock_def r)
qed

text \<open>Writing an order's row leaves the sums of its refunds alone.\<close>

lemma money_ok_save:
  assumes "money_ok d" and "ord \<in> set (d_orders d)" and "o_id ord' = o_id ord" and "o_total ord' = o_total ord"
    and "d_orders d' = save_by o_id ord' (d_orders d)" and "d_refunds d' = d_refunds d" and "d_next d' = d_next d"
  shows "money_ok d'"
proof -
  have rows: "\<forall>x \<in> set (d_orders d'). \<exists>y \<in> set (d_orders d). o_id x = o_id y \<and> o_total x = o_total y"
    using assms(2-5) by (auto simp: save_by_def)
  moreover have "map o_id (d_orders d') = map o_id (d_orders d)" by (simp add: assms(5) save_by_keys)
  ultimately have "amounts_ok d'"
    using assms(1,6,7) unfolding money_ok_def amounts_ok_def by (metis (no_types, lifting))
  moreover have "committed d' oid = committed d oid" for oid by (simp add: committed_def assms(6))
  ultimately show ?thesis using assms(1) rows unfolding money_ok_def by metis
qed

subsection \<open>An order that is paid when it had expired\<close>

lemma rows_find:
  assumes "rows_ok d" and "ord \<in> set (d_orders d)" and "\<not> o_deleted ord"
  shows "find_order d (o_id ord) = Some ord"
proof -
  have "List.find (\<lambda>x. o_id x = o_id ord \<and> \<not> o_deleted x) xs = Some ord" if "distinct (map o_id xs)" "ord \<in> set xs" for xs
    using that assms(3) by (induction xs) auto
  then show ?thesis using assms(1,2) by (simp add: find_order_def rows_ok_def)
qed

definition settled_late :: "order \<Rightarrow> db \<Rightarrow> bool" where
  "settled_late ord d' \<longleftrightarrow> (\<exists>ord' \<in> set (d_orders d'). same_order ord' ord \<and> o_payment ord' = PayPaid \<and>
     (if o_status ord = CANCELLED \<and> o_cancellation ord = Some PAYMENT_NOT_RECEIVED
      then o_status ord' = PENDING \<or>
        (o_status ord' = CANCELLED \<and> o_cancellation ord' = Some PAID_AFTER_EXPIRY_OUT_OF_STOCK \<and>
         committed d' (o_id ord) = o_total ord)
      else o_status ord' = o_status ord))"

lemma reinstateIfExpired_settles:
  assumes "shop_inv d" and "money_ok d" and "ord \<in> set (d_orders d)" and "o_payment ord = PayPaid" and "\<not> o_deleted ord"
  shows "settled_late ord (reinstateIfExpired e ord d)"
proof (cases "o_status ord \<noteq> CANCELLED \<or> o_cancellation ord \<noteq> Some PAYMENT_NOT_RECEIVED")
  case True
  then show ?thesis
    unfolding settled_late_def using assms(3,4) by (intro bexI [of _ ord]) (auto simp: reinstateIfExpired_def)
next
  case False
  show ?thesis
  proof (cases "reserve_again e ord d")
    case (Inr d1)
    have w: "d_orders (reinstateIfExpired e ord d) = save_by o_id (ord\<lparr>o_status := PENDING, o_cancellation := None\<rparr>) (d_orders d)"
      using False reserve_again_orders [OF Inr] Inr by (simp add: reinstateIfExpired_def Let_def)
    have "ord\<lparr>o_status := PENDING, o_cancellation := None\<rparr> \<in> set (d_orders (reinstateIfExpired e ord d))"
      unfolding w using assms(3) by (auto simp: save_by_def image_iff)
    then show ?thesis
      using False assms(4) unfolding settled_late_def
      by (intro bexI [of _ "ord\<lparr>o_status := PENDING, o_cancellation := None\<rparr>"]) (simp_all add: same_order_def)
  next
    case (Inl err)
    define ord1 where "ord1 = ord\<lparr>o_status := CANCELLED, o_cancellation := Some PAID_AFTER_EXPIRY_OUT_OF_STOCK\<rparr>"
    define d1 where "d1 = record_event e (o_id ord) EvStatusChanged ActorSystem (Some ''cancellationReason'')
                       (map_option cancellation_str (o_cancellation ord))
                       (Some (cancellation_str PAID_AFTER_EXPIRY_OUT_OF_STOCK))
                       (Some ''El pago llego despues de caducar y ya no habia stock: hay que reembolsar'') None
                       (save_order ord1 d)"
    have p: "reinstateIfExpired e ord d = requestForLatePaymentWithoutStock e ord1 d1"
      using False Inl reserve_again_Inl [OF Inl] by (simp add: reinstateIfExpired_def Let_def ord1_def d1_def)
    have i: "o_id ord1 = o_id ord" "o_total ord1 = o_total ord" by (simp_all add: ord1_def)
    have m: "money_ok d1" by (rule money_ok_save [OF assms(2,3) i]) (simp_all add: d1_def)
    have inv: "shop_inv d1"
      by (rule shop_inv_write [OF assms(1,3), of ord1]) (use False in \<open>simp_all add: d1_def ord1_def same_order_def\<close>)
    have mem: "ord1 \<in> set (d_orders d1)" using save_order_mem [OF assms(3) i(1)] by (simp add: d1_def)
    have "find_order d1 (o_id ord1) = Some ord1"
      by (rule rows_find [OF shop_invD(2) [OF inv] mem]) (simp add: ord1_def assms(5))
    then have "committed (requestForLatePaymentWithoutStock e ord1 d1) (o_id ord1) = o_total ord1"
      by (rule late_refund_commits [rotated])
        (use m mem assms(4) in \<open>auto simp: money_ok_def ord1_def\<close>)
    then show ?thesis
      unfolding p settled_late_def using False mem assms(4) i
      by (intro bexI [of _ ord1]) (simp_all add: late_refund_orders ord1_def same_order_def)
  qed
qed

lemma sellarCobro_deleted [simp]: "o_deleted (sellarCobro hv t ord) = o_deleted ord"
  by (simp add: sellarCobro_def Let_def split: option.split)

lemma propagate_settles:
  assumes "shop_inv d" and "money_ok d" and "find_order d (ch_order c) = Some ord" and "o_payment ord \<noteq> PayPaid"
    and "ch_status c = ChSucceeded"
  shows "settled_late ord (propagateToOrder e c d)"
proof -
  define ord1 where "ord1 = sellarCobro (e_hv e) (case ch_completed_at c of Some t \<Rightarrow> t | None \<Rightarrow> e_now e) (ord\<lparr>o_payment := PayPaid\<rparr>)"
  have o1: "outcome_row e c ord = Some ord1" using assms(5) by (simp add: outcome_row_def ord1_def)
  define d1 where "d1 = record_event e (o_id ord) EvPaymentStatusChanged ActorSystem (Some ''paymentStatus'')
                       (Some (payment_str (o_payment ord))) (Some (payment_str (o_payment ord1)))
                       (Some (''Notificado por la pasarela '' @ ch_provider c))
                       (Some [(''provider'', JStr (ch_provider c)), (''reference'', JStr (ch_reference c))]) (save_order ord1 d)"
  have k: "o_payment ord1 = PayPaid" "same_order ord1 ord" "o_status ord1 = o_status ord" "o_total ord1 = o_total ord"
    "o_cancellation ord1 = o_cancellation ord" "o_deleted ord1 = o_deleted ord"
    by (simp_all add: ord1_def same_order_def)
  have p: "propagateToOrder e c d = reinstateIfExpired e ord1 d1"
    using assms(3,4) o1 k(1) by (simp add: propagateToOrder_def Let_def d1_def)
  have mem: "ord \<in> set (d_orders d)" and nd: "\<not> o_deleted ord" using find_order_Some [OF assms(3)] by simp_all
  have inv: "shop_inv d1" by (rule shop_inv_write [OF assms(1) mem, of ord1]) (use k in \<open>simp_all add: d1_def\<close>)
  have m: "money_ok d1" by (rule money_ok_save [OF assms(2) mem same_orderD [OF k(2)] k(4)]) (simp_all add: d1_def)
  have mem1: "ord1 \<in> set (d_orders d1)" using save_order_mem [OF mem same_orderD [OF k(2)]] by (simp add: d1_def)
  have "settled_late ord1 (reinstateIfExpired e ord1 d1)"
    by (rule reinstateIfExpired_settles [OF inv m mem1 k(1)]) (simp add: k nd)
  then show ?thesis using k by (auto simp: p settled_late_def same_order_def)
qed

lemma save_charge_money: "money_ok d \<Longrightarrow> money_ok (save_charge c d)"
  by (simp add: money_ok_def amounts_ok_def committed_def)

lemma find_order_save_charge [simp]: "find_order (save_charge c d) oid = find_order d oid"
  by (simp add: find_order_def)

text \<open>What the notification of a success writes.\<close>

lemma gatewayFields_keys [simp]:
  "ch_order (gatewayFields g c) = ch_order c" "ch_status (gatewayFields g c) = given (gd_status g) (ch_status c)"
  "ch_id (gatewayFields g c) = ch_id c" "ch_reference (gatewayFields g c) = ch_reference c"
  by (simp_all add: gatewayFields_def)

lemma webhook_succeeded:
  assumes "handleWebhook e api provider raw headers d = Inr (b, d')"
    and "parseWebhook_via api (gw_code (gatewayFor (e_gateways e) provider)) raw headers = Inr event"
    and "wh_reference event \<noteq> []" and "charge_by_reference d (wh_reference event) = Some c"
    and "gd_status (wh_charge event) = Some ChSucceeded" and "ch_status c \<noteq> ChSucceeded"
  shows "\<exists>c2. ch_status c2 = ChSucceeded \<and> ch_order c2 = ch_order c \<and> d' = propagateToOrder e c2 (save_charge c2 d)"
proof -
  define c1 where "c1 = gatewayFields (wh_charge event) c"
  define c2 where "c2 = (if ch_completed_at c1 = None then c1\<lparr>ch_completed_at := Some (e_now e)\<rparr> else c1)"
  have s: "ch_status c1 = ChSucceeded" "ch_order c1 = ch_order c" by (simp_all add: c1_def assms(5) given_def)
  then have "ch_status c2 = ChSucceeded" "ch_order c2 = ch_order c" by (simp_all add: c2_def)
  moreover have "d' = propagateToOrder e c2 (save_charge c2 d)"
    using assms(1) s unfolding handleWebhook_def assms(2) bindE_Inr
    by (simp add: assms(3-5) assms(6) [symmetric] Let_def flip: c1_def) (auto simp: c2_def)
  ultimately show ?thesis by blast
qed



subsection \<open>Notifications delivered twice\<close>

lemma reserve_again_charges: "reserve_again e ord d = Inr d1 \<Longrightarrow> d_charges d1 = d_charges d"
proof -
  assume a: "reserve_again e ord d = Inr d1"
  have "\<exists>st. d1 = d\<lparr>d_stock := st\<rparr>"
    by (rule foldE_stock [OF a [unfolded reserve_again_def Let_def]]) (auto simp: reserve_line_Inr)
  then show ?thesis by auto
qed

lemma late_refund_charges: "d_charges (requestForLatePaymentWithoutStock e ord d) = d_charges d"
  by (auto simp: requestForLatePaymentWithoutStock_def request_def bindE_eq_Inr Let_def split: sum.split)

lemma reinstate_charges: "d_charges (reinstateIfExpired e ord d) = d_charges d"
  by (simp add: reinstateIfExpired_def Let_def reserve_again_charges late_refund_charges split: sum.split)

lemma propagate_charges: "d_charges (propagateToOrder e c d) = d_charges d"
  by (simp add: propagateToOrder_def Let_def reinstate_charges split: option.split)

lemma charge_by_reference_save:
  assumes "distinct (map ch_id (d_charges d))" and "distinct (map ch_reference (d_charges d))"
    and "charge_by_reference d ref = Some c" and "ch_id c2 = ch_id c" and "ch_reference c2 = ch_reference c"
    and "d_charges d' = save_by ch_id c2 (d_charges d)"
  shows "charge_by_reference d' ref = Some c2"
proof -
  have c: "c \<in> set (d_charges d)" "ch_reference c = ref"
    using find_key_Some [of ch_reference ref] assms(3) by (auto simp: charge_by_reference_def)
  have refs: "ch_reference x = ref" if "x \<in> set (d_charges d)" "ch_id x = ch_id c" for x
    using that assms(1) c by (auto simp: distinct_map inj_on_def)
  then have "map ch_reference (save_by ch_id c2 (d_charges d)) = map ch_reference (d_charges d)"
    using assms(4,5) c(2) by (auto simp: save_by_def)
  moreover have "c2 \<in> set (save_by ch_id c2 (d_charges d))"
    using c(1) assms(4) by (auto simp: save_by_def image_iff)
  ultimately show ?thesis
    using find_distinct_key [of ch_reference "save_by ch_id c2 (d_charges d)" c2] assms(2,5,6) c(2)
    by (simp add: charge_by_reference_def)
qed

text \<open>C9: A gateway may deliver the notification of an outcome again: the second delivery is accepted and changes
  nothing at all, whatever the first one did to the charge, the order, the stock or the refunds.\<close>

theorem webhook_redelivery:
  assumes "handleWebhook e api provider raw headers d = Inr (b, d1)"
    and "parseWebhook_via api (gw_code (gatewayFor (e_gateways e) provider)) raw headers = Inr event"
    and "gd_status (wh_charge event) = Some s" and "TERMINAL s"
    and "distinct (map ch_id (d_charges d))" and "distinct (map ch_reference (d_charges d))"
  shows "handleWebhook e api provider raw headers d1 = Inr (b, d1)"
proof (cases "if wh_reference event = [] then None else charge_by_reference d (wh_reference event)")
  case None
  then have "d1 = d \<and> \<not> b" using assms(1,2) by (simp add: handleWebhook_def)
  then show ?thesis using assms(1) by simp
next
  case (Some c)
  then have ref: "wh_reference event \<noteq> []" "charge_by_reference d (wh_reference event) = Some c" by (simp_all split: if_splits)
  show ?thesis
  proof (cases "ch_status c = s")
    case True
    then have "d1 = d" using assms(1-4) ref by (simp add: handleWebhook_def)
    then show ?thesis using assms(1) by simp
  next
    case False
    define c1 where "c1 = gatewayFields (wh_charge event) c"
    define c2 where "c2 = (if ch_completed_at c1 = None then c1\<lparr>ch_completed_at := Some (e_now e)\<rparr> else c1)"
    have k: "ch_status c1 = s" by (simp add: c1_def assms(3) given_def)
    have r: "b \<and> d1 = propagateToOrder e c2 (save_charge c2 d)"
      using assms(1) False k unfolding handleWebhook_def assms(2) bindE_Inr
      by (simp add: assms(3,4) ref Let_def eq_commute [of s] flip: c1_def) (auto simp: c2_def)
    have "charge_by_reference d1 (wh_reference event) = Some c2"
      by (rule charge_by_reference_save [OF assms(5,6) ref(2)])
        (use r in \<open>simp_all add: c2_def c1_def propagate_charges save_charge_def\<close>)
    moreover have "ch_status c2 = s" by (simp add: c2_def k)
    ultimately show ?thesis using r by (simp add: handleWebhook_def assms(2-4) ref(1))
  qed
qed

subsection \<open>A retry that takes a payment back\<close>

lemma propagate_pays:
  assumes "shop_inv d" and "find_order d (ch_order c) = Some ord" and "o_payment ord \<noteq> PayPaid" and "ch_status c = ChSucceeded"
  shows "\<exists>x \<in> set (d_orders (propagateToOrder e c d)). o_id x = ch_order c \<and> o_payment x = PayPaid"
proof -
  define ord1 where "ord1 = sellarCobro (e_hv e) (case ch_completed_at c of Some t \<Rightarrow> t | None \<Rightarrow> e_now e) (ord\<lparr>o_payment := PayPaid\<rparr>)"
  have o1: "outcome_row e c ord = Some ord1" using assms(4) by (simp add: outcome_row_def ord1_def)
  define d1 where "d1 = record_event e (o_id ord) EvPaymentStatusChanged ActorSystem (Some ''paymentStatus'')
                       (Some (payment_str (o_payment ord))) (Some (payment_str (o_payment ord1)))
                       (Some (''Notificado por la pasarela '' @ ch_provider c))
                       (Some [(''provider'', JStr (ch_provider c)), (''reference'', JStr (ch_reference c))]) (save_order ord1 d)"
  have k: "o_payment ord1 = PayPaid" "same_order ord1 ord" "o_status ord1 = o_status ord" by (simp_all add: ord1_def same_order_def)
  have p: "propagateToOrder e c d = reinstateIfExpired e ord1 d1"
    using assms(2,3) o1 k(1) by (simp add: propagateToOrder_def Let_def d1_def)
  have mem: "ord \<in> set (d_orders d)" "o_id ord = ch_order c" using find_order_Some [OF assms(2)] by simp_all
  have mem1: "ord1 \<in> set (d_orders d1)" using save_order_mem [OF mem(1) same_orderD [OF k(2)]] by (simp add: d1_def)
  have "\<exists>x \<in> set (d_orders (reinstateIfExpired e ord1 d1)). same_order x ord1 \<and> o_payment x = PayPaid"
    using reinstateIfExpired_row [of e ord1 d1]
  proof
    assume "\<exists>ord'. same_order ord' ord1 \<and> o_payment ord' = o_payment ord1 \<and>
      (o_status ord' = o_status ord1 \<or> o_status ord1 = CANCELLED \<and> o_status ord' = PENDING) \<and>
      d_orders (reinstateIfExpired e ord1 d1) = save_by o_id ord' (d_orders d1)"
    then obtain x where x: "same_order x ord1" "o_payment x = o_payment ord1"
      "d_orders (reinstateIfExpired e ord1 d1) = save_by o_id x (d_orders d1)" by blast
    then have "x \<in> set (d_orders (reinstateIfExpired e ord1 d1))"
      using mem1 by (auto simp: save_by_def same_order_def image_iff)
    then show ?thesis using x(1,2) k(1) by auto
  qed (use mem1 k(1) in \<open>auto intro!: bexI [of _ ord1]\<close>)
  then show ?thesis using p k(2) mem(2) by (auto simp: same_order_def)
qed

lemma latestChargeFor_order: "latestChargeFor d oid = Some c \<Longrightarrow> ch_order c = oid \<and> c \<in> set (d_charges d)"
proof -
  assume "latestChargeFor d oid = Some c"
  then obtain cs where "listChargesFor d oid = c # cs" by (auto simp: latestChargeFor_def split: list.splits)
  then have "c \<in> set (listChargesFor d oid)" by simp
  then show ?thesis by (simp add: listChargesFor_def)
qed

lemma client_order_found:
  assumes "rows_ok d" and "client_order_or_404 d cid oid = Inr ord"
  shows "find_order d oid = Some ord"
  using rows_find [OF assms(1)] client_order_Inr [OF assms(2)] by blast

lemma createChargeForOrder_total:
  assumes "\<And>key. \<exists>g. createCharge_via api (gw_code (gatewayFor (e_gateways e) (mt_code m))) ord key m = Inr g"
  shows "\<exists>c d'. createChargeForOrder e api ord m d = Inr (c, d')"
proof -
  let ?key = "idempotency_key ord (mt_code m) (Suc (length (filter (\<lambda>c. ch_order c = o_id ord) (d_charges d))))"
  from assms [of ?key] obtain g where "createCharge_via api (gw_code (gatewayFor (e_gateways e) (mt_code m))) ord ?key m = Inr g" ..
  then show ?thesis by (simp add: createChargeForOrder_def Let_def callGateway_def split: prod.split)
qed

text \<open>C7: Asking for a new attempt at a moment when the gateway has just been paid takes the payment back: the
  refresh of the earlier attempt finds it paid and marks the order paid, and then the new attempt saves
  the order as it was read before, so the order ends unpaid, with no date of payment, although its
  earlier charge succeeded.\<close>

theorem retry_unpays_a_paid_order:
  assumes "shop_inv d" and "client_order_or_404 d cid oid = Inr ord" and "o_payment ord \<noteq> PayPaid"
    and "resolve_method (e_collate e) (e_gateways e) (d_methods d) requested = Inr m"
    and "latestChargeFor d oid = Some c0" and "ch_provider c0 = mt_code m" and "\<not> TERMINAL (ch_status c0)"
    and "syncCharge_via api (gw_code (gatewayFor (e_gateways e) (mt_code m))) c0 = Inr g" and "gc_status g = ChSucceeded"
    and "\<And>key. \<exists>g. createCharge_via api (gw_code (gatewayFor (e_gateways e) (mt_code m))) ord key m = Inr g"
  shows "\<exists>c1 d1 c d'. syncCharge e api c0 d = Inr (c1, d1) \<and>
    (\<exists>x \<in> set (d_orders d1). o_id x = oid \<and> o_payment x = PayPaid) \<and>
    createChargeForClient e api cid oid requested d = Inr (c, d') \<and>
    (\<exists>x \<in> set (d_orders d'). o_id x = oid) \<and>
    (\<forall>x \<in> set (d_orders d'). o_id x = oid \<longrightarrow>
       o_payment x = o_payment ord \<and> o_paid_at x = o_paid_at ord \<and> o_status x = o_status ord)"
proof -
  define c1 where "c1 = gatewayFields (whole g) c0"
  define d1 where "d1 = propagateToOrder e c1 (save_charge c1 d)"
  have s: "syncCharge e api c0 d = Inr (c1, d1)"
    using assms(6-8) by (simp add: syncCharge_def callGateway_def Let_def c1_def d1_def)
  have st: "ch_status c1 = ChSucceeded" by (simp add: c1_def whole_def given_def assms(9))
  have oc: "ch_order c1 = oid" using latestChargeFor_order [OF assms(5)] by (simp add: c1_def)
  have oid: "o_id ord = oid" using client_order_Inr [OF assms(2)] by simp
  have "find_order (save_charge c1 d) (ch_order c1) = Some ord"
    using client_order_found [OF shop_invD(2) [OF assms(1)] assms(2)] by (simp add: oc)
  from propagate_pays [OF save_charge_keeps [OF assms(1)] this assms(3) st]
  have paid: "\<exists>x \<in> set (d_orders d1). o_id x = oid \<and> o_payment x = PayPaid" by (simp add: d1_def oc)
  from createChargeForOrder_total [OF assms(10)] obtain c d' where n: "createChargeForOrder e api ord m d1 = Inr (c, d')" by blast
  from createChargeForOrder_row [OF n] obtain ref where
    w: "d_orders d' = save_by o_id (ord\<lparr>o_payment_ref := Some ref\<rparr>) (d_orders d1)" ..
  have "createChargeForClient e api cid oid requested d = Inr (c, d')"
    using assms(2-6) s n st
    by (simp add: createChargeForClient_def createChargeForClient_run_def asked_attempt_def refreshed_def isLive_def)
  moreover have "\<forall>x \<in> set (d_orders d'). o_id x = oid \<longrightarrow>
       o_payment x = o_payment ord \<and> o_paid_at x = o_paid_at ord \<and> o_status x = o_status ord"
    by (auto simp: w save_by_def oid)
  moreover have "\<exists>x \<in> set (d_orders d'). o_id x = oid"
  proof -
    from paid obtain x where "x \<in> set (d_orders d1)" "o_id x = oid" by blast
    then have "ord\<lparr>o_payment_ref := Some ref\<rparr> \<in> set (d_orders d')" by (auto simp: w save_by_def oid image_iff)
    then show ?thesis by (rule bexI [rotated]) (simp add: oid)
  qed
  ultimately show ?thesis using s paid by blast
qed

subsection \<open>A retry that cancels a revived order\<close>

lemma createChargeForOrder_frame:
  assumes "createChargeForOrder e api ord m d = Inr (c, d')"
  shows "d_stock d' = d_stock d \<and> d_items d' = d_items d"
  using assms
  by (auto simp: createChargeForOrder_def bindE_eq_Inr Let_def storeCharge_def split: prod.splits option.splits)

text \<open>
  The call the steps of the shop leave out, in full: the order ends cancelled and unpaid, with its
  lines still held in reservation. The damage stays with that order: the stock of every other order
  is what its phase says.
\<close>

theorem retry_cancels_a_revived_order:
  assumes "shop_inv d" and "asked_attempt e cid oid requested d = Inr (ord, m)"
    and "refreshed e api oid m d = Inr (None, d1)" and "find_order d1 oid = Some x" and "o_status x \<noteq> o_status ord"
    and "createChargeForOrder e api ord m d1 = Inr (c, d')"
  shows "(\<exists>y \<in> set (d_orders d'). o_id y = oid \<and> o_status y = CANCELLED \<and> o_payment y \<noteq> PayPaid) \<and>
    order_units oid p Reserved (d_stock d') = ordered_qty d' oid p \<and> (\<forall>other. other \<noteq> oid \<longrightarrow> stocked d' other)"
proof -
  have i1: "shop_inv d1" by (rule refreshed_keeps [OF assms(1,3)])
  have mem: "ord \<in> set (d_orders d)" "o_id ord = oid" and np: "o_payment ord \<noteq> PayPaid"
    using assms(2) client_order_Inr by (auto simp: asked_attempt_Inr)
  note x = find_order_Some [OF assms(4)]
  have u: "y = ord" if "y \<in> set (d_orders d)" "o_id y = oid" for y
    using that mem shop_invD(2) [OF assms(1)] by (auto simp: rows_ok_def distinct_map inj_on_def)
  from refreshed_row [OF assms(3)] obtain y y' where y: "y \<in> set (d_orders d)" "settles y y'" "d_orders d1 = save_by o_id y' (d_orders d)"
    using x u [of x] assms(5) by auto
  have "x = y'" "y = ord"
    using x y u [of x] u [of y] assms(5) by (auto simp: save_by_def settles_def same_order_def split: if_splits)
  then have st: "o_status ord = CANCELLED" "o_status x = PENDING" using y(2) assms(5) by (auto simp: settles_def)
  from createChargeForOrder_row [OF assms(6)] obtain ref where
    w: "d_orders d' = save_by o_id (ord\<lparr>o_payment_ref := Some ref\<rparr>) (d_orders d1)" ..
  have "ord\<lparr>o_payment_ref := Some ref\<rparr> \<in> set (d_orders d')" using x mem(2) by (auto simp: w save_by_def image_iff)
  then have "\<exists>y \<in> set (d_orders d'). o_id y = oid \<and> o_status y = CANCELLED \<and> o_payment y \<noteq> PayPaid"
    by (rule bexI [rotated]) (use st np mem(2) in simp)
  note f = createChargeForOrder_frame [OF assms(6)]
  have k: "stocked d1 n" for n by (rule shop_okD(3) [OF shop_invD(1) [OF i1]])
  have q: "ordered_qty d' n = ordered_qty d1 n" for n using f by (simp add: ordered_qty_def items_of_order_def fun_eq_iff)
  have "order_units oid p Reserved (d_stock d') = ordered_qty d' oid p"
    using k [of oid] phase_of_row [OF shop_invD(2) [OF i1], of x] x st(2) f q by (simp add: stocked_def in_phase_def)
  moreover have "stocked d' other" if "other \<noteq> oid" for other
  proof -
    have "phase_of d' other = phase_of d1 other"
      using that mem(2) by (simp add: phase_of_def w find_save_by)
    then show ?thesis using k [of other] f q by (simp add: stocked_def in_phase_def)
  qed
  ultimately show ?thesis
    using \<open>\<exists>y \<in> set (d_orders d'). o_id y = oid \<and> o_status y = CANCELLED \<and> o_payment y \<noteq> PayPaid\<close> by blast
qed

subsection \<open>An attempt that takes the place of another\<close>

lemma removePaymentAttempt_charges:
  assumes "removePaymentAttempt e u oid cid reason d = Inr d'"
  shows "\<exists>c. c \<in> set (d_charges d) \<and> ch_id c = cid \<and> ch_order c = oid \<and> d_charges d' = filter (\<lambda>x. ch_id x \<noteq> cid) (d_charges d)"
proof -
  from assms obtain r where r: "removeAttempt oid cid d = Inr r" by (auto simp: removePaymentAttempt_def bindE_eq_Inr)
  obtain c d1 where cd: "r = (c, d1)" by (cases r)
  have c: "c \<in> set (d_charges d)" "ch_id c = cid" "ch_order c = oid" "d1 = d\<lparr>d_charges := filter (\<lambda>x. ch_id x \<noteq> cid) (d_charges d)\<rparr>"
    using r by (auto simp: cd removeAttempt_def bindE_eq_Inr find_Some_iff)
  have "d_charges d' = d_charges d1"
    using assms r unfolding removePaymentAttempt_def by (auto simp: bindE_eq_Inr cd Let_def)
  then show ?thesis using c by auto
qed

lemma filter_one_less:
  assumes "distinct (map ch_id cs)" and "c \<in> set cs" and "ch_order c = oid"
  shows "Suc (length (filter (\<lambda>x. ch_order x = oid) (filter (\<lambda>x. ch_id x \<noteq> ch_id c) cs))) = length (filter (\<lambda>x. ch_order x = oid) cs)"
  using assms
proof (induction cs)
  case (Cons a cs)
  show ?case
  proof (cases "a = c")
    case True
    then have "filter (\<lambda>x. ch_id x \<noteq> ch_id c) cs = cs" using Cons.prems(1) by (auto simp: filter_id_conv) (metis image_eqI)
    then show ?thesis using True Cons.prems(3) by simp
  next
    case False
    then have "ch_id a \<noteq> ch_id c" using Cons.prems by auto
    then show ?thesis using Cons False by auto
  qed
qed simp

text \<open>Attempts are numbered by counting rows, so after a super administrator removes an earlier attempt
  the next one is given the key of the last attempt that is still there. With a manual method, whose
  reference is that key, no attempt is opened at all: the customer gets the old one back, with the
  instructions and the date it had.\<close>

theorem removed_attempt_repeats_key:
  assumes "removePaymentAttempt e u oid cid reason d = Inr d'"
    and "distinct (map ch_id (d_charges d))" and "distinct (map ch_reference (d_charges d))"
    and "b \<in> set (d_charges d)" and "ch_id b \<noteq> cid" and "o_id ord = oid"
    and "ch_reference b = idempotency_key ord (mt_code m) (length (filter (\<lambda>c. ch_order c = oid) (d_charges d)))"
    and "gw_code (gatewayFor (e_gateways e') (mt_code m)) \<in> {''manual'', ''custom-manual''}"
  shows "\<exists>d2. createChargeForOrder e' api ord m d' = Inr (b, d2) \<and> d_charges d2 = d_charges d'"
proof -
  from removePaymentAttempt_charges [OF assms(1)] obtain c where c: "c \<in> set (d_charges d)" "ch_id c = cid" "ch_order c = oid"
    and d': "d_charges d' = filter (\<lambda>x. ch_id x \<noteq> cid) (d_charges d)" by blast
  have n: "Suc (length (filter (\<lambda>c. ch_order c = o_id ord) (d_charges d'))) = length (filter (\<lambda>c. ch_order c = oid) (d_charges d))"
    using filter_one_less [OF assms(2) c(1,3)] by (simp only: d' assms(6) c(2))
  define key where "key = idempotency_key ord (mt_code m) (length (filter (\<lambda>c. ch_order c = oid) (d_charges d)))"
  have g: "\<exists>g. createCharge_via api (gw_code (gatewayFor (e_gateways e') (mt_code m))) ord key m = Inr g \<and> gc_reference g = key"
    using assms(8) by (auto simp: createCharge_via_def manual_create_def custom_create_def)
  then obtain g where g: "createCharge_via api (gw_code (gatewayFor (e_gateways e') (mt_code m))) ord key m = Inr g" "gc_reference g = key"
    by blast
  have "distinct (map ch_reference (d_charges d'))" by (simp add: d' distinct_map_filter assms(3))
  then have "charge_by_reference d' key = Some b"
    using find_distinct_key [of ch_reference "d_charges d'" b] assms(4,5,7) by (simp add: charge_by_reference_def d' key_def)
  then have st: "storeCharge e' ord (mt_code m) key g d' = (b, d')" by (simp add: storeCharge_def g(2))
  show ?thesis
    unfolding createChargeForOrder_def Let_def n key_def [symmetric] g(1) callGateway_def sum.case bindE_Inr st prod.case by simp
qed


subsection \<open>An order paid by card\<close>

definition card_env :: env where
  "card_env = sample_env\<lparr>e_gateways := [\<lparr>gw_code = ''manual'', gw_kind = KindManual, gw_configured = True\<rparr>,
     \<lparr>gw_code = ''tropipay'', gw_kind = KindRedirect, gw_configured = True\<rparr>]\<rparr>"

definition card_method :: payment_method where
  "card_method = \<lparr>mt_id = 62, mt_code = ''tropipay'', mt_label = ''Tarjeta'', mt_sort = 10, mt_enabled = True,
     mt_custom = False, mt_instructions = None, mt_deleted = False\<rparr>"

definition card_charge :: charge where
  "card_charge = \<lparr>ch_id = 80, ch_order = 50, ch_provider = ''tropipay'', ch_reference = ''tp-1'', ch_idempotency_key = ''k'',
     ch_status = ChRequiresAction, ch_amount = ''39.98'', ch_currency = ''USD'', ch_fee_amount = None,
     ch_settlement_amount = None, ch_action_payload = None, ch_redirect_url = None, ch_error_message = None,
     ch_last_payload = None, ch_customer_reference = None, ch_receipt_url = None, ch_expires_at = None,
     ch_completed_at = None, ch_created_at = 2\<rparr>"

definition paid_event :: webhook_event where
  "paid_event = \<lparr>wh_reference = ''tp-1'', wh_charge = \<lparr>gd_status = Some ChSucceeded, gd_amount = None, gd_currency = None,
     gd_fee = None, gd_settlement = None, gd_action = None, gd_redirect = None, gd_expires = None, gd_completed = Some (Some 9),
     gd_error = None, gd_raw = None\<rparr>\<rparr>"

definition card_api :: gateway_api where
  "card_api = \<lparr>ga_create = (\<lambda>_ ord key _. Inr (manual_create ord key)),
     ga_sync = (\<lambda>_ c. Inr ((manual_sync c)\<lparr>gc_status := ChSucceeded\<rparr>)), ga_webhook = (\<lambda>_ _ _. Inr paid_event)\<rparr>"

definition card_db :: db where
  "card_db = open_db\<lparr>d_charges := [card_charge], d_methods := [card_method]\<rparr>"

lemma card_db_inv: "shop_inv card_db"
  by (rule shop_inv_cong [OF open_db_inv]) (simp_all add: card_db_def shop_invD(3) [OF open_db_inv])

lemma card_order: "find_order card_db 50 = Some open_order" "client_order_or_404 card_db 3 50 = Inr open_order"
  using open_order_found by (simp_all add: card_db_def find_order_def client_order_or_404_def)

lemma card_gateway: "gw_code (gatewayFor (e_gateways card_env) ''tropipay'') = ''tropipay''"
  by (simp add: card_env_def gatewayFor_def)

lemma card_parse: "parseWebhook_via card_api (gw_code (gatewayFor (e_gateways card_env) ''tropipay'')) [] [] = Inr paid_event"
  unfolding card_gateway by (simp add: parseWebhook_via_def card_api_def)

lemma card_charge_found: "charge_by_reference card_db ''tp-1'' = Some card_charge"
  by (simp add: charge_by_reference_def card_db_def card_charge_def)

definition expired_db :: db where
  "expired_db = snd (expire card_env 50 card_db)"

lemma expired_step: "\<exists>d. expire_tx card_env open_order card_db = Inr d \<and> expired_db = d"
proof -
  have "with_status 50 Confirmed sample_stock = []" by (simp add: with_status_def sample_stock_def)
  then obtain st where "release_reservations 50 None Expired sample_stock = Inr st"
    using release_succeeds [OF _ sample_books, of 50 None Expired] by auto
  then obtain d where d: "expire_tx card_env open_order card_db = Inr d"
    by (auto simp: expire_tx_def release_order_def Let_def card_db_def open_db_def sample_db_def open_order_def)
  have "o_status open_order = PENDING" "o_payment open_order = PayPending" by (simp_all add: open_order_def)
  then show ?thesis using d by (simp add: expired_db_def expire_def card_order)
qed

lemma expired_rows:
  "d_orders expired_db = [open_order\<lparr>o_status := CANCELLED, o_cancellation := Some PAYMENT_NOT_RECEIVED\<rparr>]"
  "d_charges expired_db = [card_charge]" "d_refunds expired_db = []"
proof -
  from expired_step obtain d where d: "expire_tx card_env open_order card_db = Inr d" "expired_db = d" by blast
  have o: "d_orders d = save_by o_id (open_order\<lparr>o_status := CANCELLED, o_cancellation := Some PAYMENT_NOT_RECEIVED\<rparr>) (d_orders card_db)"
    and c: "d_charges d = d_charges card_db" and r: "d_refunds d = d_refunds card_db"
    using d(1) by (auto simp: expire_tx_def bindE_eq_Inr Let_def release_order_Inr)
  show "d_orders expired_db = [open_order\<lparr>o_status := CANCELLED, o_cancellation := Some PAYMENT_NOT_RECEIVED\<rparr>]"
    using o d(2) by (simp add: save_by_def card_db_def open_db_def)
  show "d_charges expired_db = [card_charge]" using c d(2) by (simp add: card_db_def)
  show "d_refunds expired_db = []" using r d(2) by (simp add: card_db_def open_db_def sample_db_def)
qed

lemma expired_db_ok: "shop_inv expired_db" "money_ok expired_db"
proof -
  show "shop_inv expired_db" unfolding expired_db_def by (rule expire_keeps [OF card_db_inv])
  show "money_ok expired_db"
    by (simp add: money_ok_def amounts_ok_def expired_rows committed_def open_order_def sample_order_def)
qed

lemma webhook_applies:
  assumes "charge_by_reference d ''tp-1'' = Some card_charge"
  shows "\<exists>d'. handleWebhook card_env card_api ''tropipay'' [] [] d = Inr (True, d')"
  unfolding handleWebhook_def card_parse bindE_Inr
  using assms by (simp add: paid_event_def card_charge_def Let_def)


theorem webhook_redelivery_witness:
  "\<exists>d1. handleWebhook card_env card_api ''tropipay'' [] [] card_db = Inr (True, d1) \<and>
     handleWebhook card_env card_api ''tropipay'' [] [] d1 = Inr (True, d1)"
proof -
  from webhook_applies [OF card_charge_found] obtain d1 where w: "handleWebhook card_env card_api ''tropipay'' [] [] card_db = Inr (True, d1)" ..
  have e: "gd_status (wh_charge paid_event) = Some ChSucceeded" by (simp add: paid_event_def)
  show ?thesis using webhook_redelivery [OF w card_parse e] w by (simp add: card_db_def)
qed

theorem retry_unpays_a_paid_order_witness:
  "\<exists>c1 d1 c d'. syncCharge card_env card_api card_charge card_db = Inr (c1, d1) \<and>
     createChargeForClient card_env card_api 3 50 None card_db = Inr (c, d') \<and>
     (\<exists>x \<in> set (d_orders d1). o_id x = 50 \<and> o_payment x = PayPaid) \<and>
     (\<exists>x \<in> set (d_orders d'). o_id x = 50 \<and> o_payment x = PayPending)"
proof -
  have m: "resolve_method (e_collate card_env) (e_gateways card_env) (d_methods card_db) None = Inr card_method"
    by (simp add: resolve_method_def findAvailable_def live_methods_def card_db_def card_method_def js_sort_def
        gatewayFor_def card_env_def)
  have mc: "mt_code card_method = ''tropipay''" by (simp add: card_method_def)
  have l: "latestChargeFor card_db 50 = Some card_charge"
    by (simp add: latestChargeFor_def listChargesFor_def card_db_def js_sort_def card_charge_def)
  have s: "syncCharge_via card_api (gw_code (gatewayFor (e_gateways card_env) (mt_code card_method))) card_charge =
      Inr ((manual_sync card_charge)\<lparr>gc_status := ChSucceeded\<rparr>)"
    unfolding mc card_gateway by (simp add: syncCharge_via_def card_api_def)
  have p: "o_payment open_order = PayPending" by (simp add: open_order_def)
  show ?thesis
    using retry_unpays_a_paid_order [OF card_db_inv card_order(2) _ m l _ _ s]
    by (fastforce simp: p mc card_gateway card_charge_def createCharge_via_def card_api_def)
qed

definition manual_attempt :: "nat \<Rightarrow> id \<Rightarrow> charge" where
  "manual_attempt n cid = card_charge\<lparr>ch_id := cid, ch_provider := ''manual'', ch_status := ChPending,
     ch_reference := idempotency_key open_order ''manual'' n\<rparr>"

theorem removed_attempt_repeats_key_witness:
  "\<exists>d' d2. removePaymentAttempt sample_env super_user 50 81 ''duplicado'' (open_db\<lparr>d_charges := [manual_attempt 1 81, manual_attempt 2 82]\<rparr>) = Inr d' \<and>
     createChargeForOrder sample_env card_api open_order (card_method\<lparr>mt_code := ''manual''\<rparr>) d' = Inr (manual_attempt 2 82, d2) \<and>
     d_charges d2 = d_charges d'"
proof -
  let ?d = "open_db\<lparr>d_charges := [manual_attempt 1 81, manual_attempt 2 82]\<rparr>"
  have f: "find_order ?d 50 = Some open_order" using open_order_found by (simp add: find_order_def)
  have a: "removeAttempt 50 81 ?d = Inr (manual_attempt 1 81, open_db\<lparr>d_charges := [manual_attempt 2 82]\<rparr>)"
    by (simp add: removeAttempt_def manual_attempt_def card_charge_def)
  have u: "u_role super_user = SUPER_ADMIN" by (simp add: super_user_def)
  obtain d' where r: "removePaymentAttempt sample_env super_user 50 81 ''duplicado'' ?d = Inr d'"
    using f a u by (auto simp: removePaymentAttempt_def order_or_404_def Let_def)
  have k: "ch_reference (manual_attempt n cid) = idempotency_key open_order ''manual'' n" "ch_id (manual_attempt n cid) = cid"
    "ch_order (manual_attempt n cid) = 50" for n cid by (simp_all add: manual_attempt_def card_charge_def)
  have ne: "idempotency_key open_order ''manual'' 1 \<noteq> idempotency_key open_order ''manual'' 2"
    using dec_str_inject [of 1 2] by (simp add: idempotency_key_def)
  have g: "gw_code (gatewayFor (e_gateways sample_env) (mt_code (card_method\<lparr>mt_code := ''manual''\<rparr>))) \<in> {''manual'', ''custom-manual''}"
    by (simp add: sample_env_def gatewayFor_def)
  have o: "o_id open_order = 50" by (simp add: open_order_def)
  show ?thesis
    using removed_attempt_repeats_key [OF r, where b = "manual_attempt 2 82" and ord = open_order
        and m = "card_method\<lparr>mt_code := ''manual''\<rparr>" and e' = sample_env and api = card_api] r g ne
    by (auto simp: k o numeral_2_eq_2)
qed

end
