(* ===== verification/Expiry_Laws.thy ===== *)
theory Expiry_Laws
  imports Late_Payments
begin

section \<open>The sweep of unpaid orders\<close>

text \<open>
  The sweep catches every failure of one order and goes on, so it could silently do nothing. It does
  not: under the shop's invariant no order that is due can fail to be cancelled.
\<close>

lemma no_shipped_units:
  assumes "shop_inv d" and "ord \<in> set (d_orders d)" and "o_status ord = PENDING"
  shows "with_status (o_id ord) Confirmed (d_stock d) = []"
proof (rule ccontr)
  assume "with_status (o_id ord) Confirmed (d_stock d) \<noteq> []"
  then obtain r where "r \<in> set (with_status (o_id ord) Confirmed (d_stock d))" by (cases "with_status (o_id ord) Confirmed (d_stock d)") auto
  then have r: "r \<in> set (s_resv (d_stock d))" "r_order r = o_id ord" "r_status r = Confirmed" by (auto simp: with_status_def)
  have t: "\<forall>x \<in> set (s_resv (d_stock d)). 0 < r_quantity x"
    using books_tidy [OF shop_okD(1) [OF shop_invD(1) [OF assms(1)]]] by (simp add: tidy_def)
  have "stocked d (o_id ord)" by (rule shop_okD(3) [OF shop_invD(1) [OF assms(1)]])
  then have "order_units (o_id ord) (r_product r) Confirmed (d_stock d) = 0"
    using phase_of_row [OF shop_invD(2) [OF assms(1)] assms(2)] assms(3) by (simp add: stocked_def in_phase_def)
  moreover have "r_quantity r \<le> order_units (o_id ord) (r_product r) Confirmed (d_stock d)"
    unfolding order_units_def by (rule sum_where_member_le [OF r(1)]) (use r t in \<open>auto simp: less_imp_le\<close>)
  moreover have "0 < r_quantity r" using r(1) t by blast
  ultimately show False by linarith
qed

definition expired_row :: "order \<Rightarrow> order" where
  "expired_row ord = ord\<lparr>o_status := CANCELLED, o_cancellation := Some PAYMENT_NOT_RECEIVED\<rparr>"

lemma expire_due:
  assumes "shop_inv d" and "ord \<in> set (d_orders d)" and "o_status ord = PENDING" and "o_payment ord \<noteq> PayPaid" and "\<not> o_deleted ord"
  shows "\<exists>d'. expire e (o_id ord) d = (True, d') \<and> d_orders d' = save_by o_id (expired_row ord) (d_orders d)"
proof -
  have f: "find_order d (o_id ord) = Some ord" by (rule rows_find [OF shop_invD(2) [OF assms(1)] assms(2,5)])
  obtain st where "release_reservations (o_id ord) None Expired (d_stock d) = Inr st"
    using release_succeeds [OF _ shop_okD(1) [OF shop_invD(1) [OF assms(1)]], of "o_id ord" None Expired]
      no_shipped_units [OF assms(1-3)] by auto
  then obtain d' where d': "expire_tx e ord d = Inr d'" by (auto simp: expire_tx_def release_order_def Let_def)
  moreover from this have "d_orders d' = save_by o_id (expired_row ord) (d_orders d)"
    by (auto simp: expire_tx_def bindE_eq_Inr Let_def release_order_Inr expired_row_def)
  ultimately show ?thesis using f assms(3,4) by (simp add: expire_def)
qed

lemma sweep_fold:
  assumes "shop_inv d" and "distinct (map o_id ords)"
    and "\<forall>x \<in> set ords. x \<in> set (d_orders d) \<and> o_status x = PENDING \<and> o_payment x \<noteq> PayPaid \<and> \<not> o_deleted x"
  shows "\<exists>d'. fold (expire_next e) ords (ids, d) = (ids @ map o_id ords, d') \<and>
    d_orders d' = map (\<lambda>x. if x \<in> set ords then expired_row x else x) (d_orders d)"
  using assms
proof (induction ords arbitrary: d ids)
  case Nil
  then show ?case by simp
next
  case (Cons ord ords)
  from Cons.prems(3) have o: "ord \<in> set (d_orders d)" "o_status ord = PENDING" "o_payment ord \<noteq> PayPaid" "\<not> o_deleted ord" by simp_all
  from expire_due [OF Cons.prems(1) o] obtain d1 where d1: "expire e (o_id ord) d = (True, d1)"
    "d_orders d1 = save_by o_id (expired_row ord) (d_orders d)" by blast
  have i: "shop_inv d1" using expire_keeps [OF Cons.prems(1), of e "o_id ord"] d1(1) by simp
  have ids: "distinct (map o_id (d_orders d))" using shop_invD(2) [OF Cons.prems(1)] by (simp add: rows_ok_def)
  have w: "save_by o_id (expired_row ord) (d_orders d) = map (\<lambda>x. if x = ord then expired_row ord else x) (d_orders d)"
    using ids o(1) by (auto simp: save_by_def expired_row_def distinct_map inj_on_def)
  have r: "\<forall>x \<in> set ords. x \<in> set (d_orders d1) \<and> o_status x = PENDING \<and> o_payment x \<noteq> PayPaid \<and> \<not> o_deleted x"
    using Cons.prems(2,3) by (auto simp: d1(2) w image_iff)
  from Cons.IH [OF i _ r, of "ids @ [o_id ord]"] Cons.prems(2) obtain d' where
    d': "fold (expire_next e) ords (ids @ [o_id ord], d1) = ((ids @ [o_id ord]) @ map o_id ords, d')"
    "d_orders d' = map (\<lambda>x. if x \<in> set ords then expired_row x else x) (d_orders d1)" by auto
  have "expired_row ord \<notin> set ords" using r by (auto simp: expired_row_def)
  moreover have "ord \<notin> set ords" using Cons.prems(2) by auto
  ultimately have "d_orders d' = map (\<lambda>x. if x \<in> set (ord # ords) then expired_row x else x) (d_orders d)"
    by (auto simp: d'(2) d1(2) w)
  moreover have "expire_next e ord (ids, d) = (ids @ [o_id ord], d1)" by (simp add: expire_next_def d1(1))
  ultimately show ?case using d'(1) by simp
qed

text \<open>C6: A sweep cancels every order whose deadline has passed, without exception, and no other: each is
  reported, left cancelled for not being paid and holding nothing, and every other order is exactly as
  it was. No failure is swallowed.\<close>

theorem sweep_cancels_exactly_the_due:
  assumes "shop_inv d" and "sweep e cfg d = ((scanned, ids), d')"
  shows "ids = map o_id (due_orders e cfg d) \<and>
    d_orders d' = map (\<lambda>x. if x \<in> set (due_orders e cfg d)
      then x\<lparr>o_status := CANCELLED, o_cancellation := Some PAYMENT_NOT_RECEIVED\<rparr> else x) (d_orders d) \<and>
    (\<forall>x \<in> set (due_orders e cfg d). \<forall>p. order_units (o_id x) p Reserved (d_stock d') = 0)"
proof -
  let ?due = "due_orders e cfg d"
  have ids: "distinct (map o_id (d_orders d))" using shop_invD(2) [OF assms(1)] by (simp add: rows_ok_def)
  have due: "\<forall>x \<in> set ?due. x \<in> set (d_orders d) \<and> o_status x = PENDING \<and> o_payment x \<noteq> PayPaid \<and> \<not> o_deleted x"
    by (auto simp: due_orders_def Let_def expiry_candidate_def)
  have "distinct (map o_id ?due)" using ids by (simp add: due_orders_def Let_def distinct_map_filter)
  from sweep_fold [OF assms(1) this due, of e "[]"] obtain d1 where
    f: "fold (expire_next e) ?due ([], d) = (map o_id ?due, d1)"
    and o: "d_orders d1 = map (\<lambda>x. if x \<in> set ?due then expired_row x else x) (d_orders d)" by auto
  have r: "ids = map o_id ?due" "d' = d1" using assms(2) f by (simp_all add: sweep_def Let_def)
  have i: "shop_inv d'" using sweep_keeps [OF assms(1), of e cfg] assms(2) by simp
  have "order_units (o_id x) p Reserved (d_stock d') = 0" if x: "x \<in> set ?due" for x p
  proof -
    have "expired_row x \<in> set (d_orders d')" using due x unfolding r(2) o by (auto simp: image_iff intro!: bexI [of _ x])
    from phase_of_row [OF shop_invD(2) [OF i] this] shop_okD(3) [OF shop_invD(1) [OF i], of "o_id x"] show ?thesis
      by (simp add: stocked_def in_phase_def expired_row_def)
  qed
  then show ?thesis using r o by (simp add: expired_row_def)
qed

definition two_hours :: expiry_config where
  "two_hours = \<lparr>ex_gateway_minutes = 1, ex_manual_hours = 2\<rparr>"

theorem sweep_cancels_exactly_the_due_witness:
  "snd (fst (sweep card_env two_hours card_db)) = [50] \<and>
   order_units 50 7 Reserved (d_stock (snd (sweep card_env two_hours card_db))) = 0"
proof -
  have "latestChargesFor card_db [50] = [(50, card_charge)]"
    by (simp add: latestChargesFor_def card_db_def js_sort_def card_charge_def)
  then have due: "due_orders card_env two_hours card_db = [open_order]"
    by (simp add: due_orders_def Let_def expiry_candidate_def card_db_def open_db_def open_order_def sample_order_def two_hours_def
        card_env_def sample_env_def isExpired_def charge_instructions_def isCashPaymentInstructions_def card_charge_def
        expiry_window_def gatewayKindOf_def gatewayFor_def started_at_def)
  obtain n ids d' where s: "sweep card_env two_hours card_db = ((n, ids), d')" by (metis prod.collapse)
  show ?thesis
    using sweep_cancels_exactly_the_due [OF card_db_inv s] by (simp add: s due open_order_def)
qed

end
