(* ===== verification/Taxonomy.thy ===== *)
theory Taxonomy
  imports Fulfillment Names
begin

section \<open>Departments and categories\<close>

text \<open>
  \<open>src/categories/categories.service.ts\<close>: the two-level taxonomy (a department has no parent, a category
  hangs off a department), its editing, and the reads of the shop window: which departments and
  categories have something to sell in an area, and how much. The notifications to the web cache are
  left out; \<open>unaccent\<close> is the folding of accents, \<open>matches\<close> the accent-insensitive search of the
  database.
\<close>

subsection \<open>Reading a row\<close>

definition live_categories :: "db \<Rightarrow> category list" where
  "live_categories d = filter (\<lambda>c. \<not> cat_deleted c) (d_categories d)"

definition getDepartment :: "db \<Rightarrow> id \<Rightarrow> error + category" where
  "getDepartment d cid = from_option (NotFound ''El departamento no existe'')
     (List.find (\<lambda>c. cat_id c = cid \<and> cat_parent c = None) (live_categories d))"

definition getCategory :: "db \<Rightarrow> id \<Rightarrow> error + category" where
  "getCategory d cid = from_option (NotFound ''La categoria no existe'')
     (List.find (\<lambda>c. cat_id c = cid) (live_categories d))"

definition getChildCategoryOrThrow :: "db \<Rightarrow> id \<Rightarrow> error + category" where
  "getChildCategoryOrThrow d cid =
     bindE (getCategory d cid) (\<lambda>c.
     bindE (guardE (cat_parent c \<noteq> None) (BadRequest ''Un producto va en una categoria, no en un departamento'')) (\<lambda>_.
     Inr c))"

definition cmp_category :: "collation \<Rightarrow> category \<Rightarrow> category \<Rightarrow> int" where
  "cmp_category collate a b =
     (if cat_sort a \<noteq> cat_sort b then cat_sort a - cat_sort b else collate (cat_name a) (cat_name b))"

definition taxonomy_where :: "(string \<Rightarrow> string \<Rightarrow> bool) \<Rightarrow> string option \<Rightarrow> category \<Rightarrow> bool" where
  "taxonomy_where matches q c =
     (case q of None \<Rightarrow> True | Some t \<Rightarrow> js_trim t = [] \<or> matches (js_trim t) (cat_name c) \<or> matches (js_trim t) (cat_slug c))"

definition listDepartments :: "collation \<Rightarrow> (string \<Rightarrow> string \<Rightarrow> bool) \<Rightarrow> db \<Rightarrow> string option \<Rightarrow> category list" where
  "listDepartments collate matches d q =
     js_sort (cmp_category collate) (filter (\<lambda>c. cat_parent c = None \<and> taxonomy_where matches q c) (live_categories d))"

definition listCategories :: "collation \<Rightarrow> (string \<Rightarrow> string \<Rightarrow> bool) \<Rightarrow> db \<Rightarrow> id option \<Rightarrow> string option \<Rightarrow> category list" where
  "listCategories collate matches d dep q =
     js_sort (cmp_category collate)
       (filter (\<lambda>c. (case dep of Some i \<Rightarrow> cat_parent c = Some i | None \<Rightarrow> cat_parent c \<noteq> None) \<and> taxonomy_where matches q c)
         (live_categories d))"

subsection \<open>Editing\<close>

record category_dto =
  kd_name :: string
  kd_slug :: "string option"
  kd_description :: "string option"
  kd_desktop :: "string option"
  kd_mobile :: "string option"
  kd_featured :: "bool option"
  kd_sort :: "int option"
  kd_active :: "bool option"

record category_patch =
  kp_department :: "id option"
  kp_name :: "string option"
  kp_slug :: "string option"
  kp_description :: "string option"
  kp_desktop :: "string option"
  kp_mobile :: "string option"
  kp_featured :: "bool option"
  kp_sort :: "int option"
  kp_active :: "bool option"

definition given_or :: "'a option \<Rightarrow> 'a \<Rightarrow> 'a" where
  "given_or x old = (case x of None \<Rightarrow> old | Some v \<Rightarrow> v)"

text \<open>Deleted rows keep their slugs; the row being edited may keep its own.\<close>

definition free_slug :: "(string \<Rightarrow> string) \<Rightarrow> string list \<Rightarrow> string \<Rightarrow> error + string" where
  "free_slug unaccent taken raw =
     (let slug = slugify unaccent raw
      in from_option (InternalError ''no slug'') (next_code (Suc (length taken)) slug 2 slug taken))"

definition ensureUniqueSlug :: "(string \<Rightarrow> string) \<Rightarrow> db \<Rightarrow> string \<Rightarrow> id option \<Rightarrow> error + string" where
  "ensureUniqueSlug unaccent d raw exclude =
     free_slug unaccent (map cat_slug (filter (\<lambda>c. exclude \<noteq> Some (cat_id c)) (d_categories d))) raw"

definition new_category :: "instant \<Rightarrow> id \<Rightarrow> id option \<Rightarrow> string \<Rightarrow> bool \<Rightarrow> category_dto \<Rightarrow> category" where
  "new_category now cid parent slug featured dto =
     \<lparr>cat_id = cid, cat_parent = parent, cat_name = kd_name dto, cat_slug = slug, cat_description = kd_description dto,
      cat_img_desktop = kd_desktop dto, cat_img_mobile = kd_mobile dto, cat_featured = featured,
      cat_sort = given_or (kd_sort dto) 0, cat_active = given_or (kd_active dto) True, cat_created = now, cat_deleted = False\<rparr>"

definition add_category :: "category \<Rightarrow> db \<Rightarrow> db" where
  "add_category c d = d\<lparr>d_categories := d_categories d @ [c], d_next := Suc (d_next d)\<rparr>"

definition save_category :: "category \<Rightarrow> db \<Rightarrow> db" where
  "save_category c d = d\<lparr>d_categories := save_by cat_id c (d_categories d)\<rparr>"

definition createDepartment :: "(string \<Rightarrow> string) \<Rightarrow> instant \<Rightarrow> category_dto \<Rightarrow> db \<Rightarrow> error + db" where
  "createDepartment unaccent now dto d =
     bindE (ensureUniqueSlug unaccent d (given_or (kd_slug dto) (kd_name dto)) None) (\<lambda>slug.
     Inr (add_category (new_category now (d_next d) None slug (given_or (kd_featured dto) False) dto) d))"

definition createCategory :: "(string \<Rightarrow> string) \<Rightarrow> instant \<Rightarrow> id \<Rightarrow> category_dto \<Rightarrow> db \<Rightarrow> error + db" where
  "createCategory unaccent now dep dto d =
     bindE (getDepartment d dep) (\<lambda>department.
     bindE (ensureUniqueSlug unaccent d (given_or (kd_slug dto) (kd_name dto)) None) (\<lambda>slug.
     Inr (add_category (new_category now (d_next d) (Some (cat_id department)) slug False dto) d)))"

definition patched_category :: "category_patch \<Rightarrow> string \<Rightarrow> category \<Rightarrow> category" where
  "patched_category dto slug c = c\<lparr>cat_name := given_or (kp_name dto) (cat_name c), cat_slug := slug,
     cat_description := (case kp_description dto of None \<Rightarrow> cat_description c | Some t \<Rightarrow> Some t),
     cat_img_desktop := (case kp_desktop dto of None \<Rightarrow> cat_img_desktop c | Some t \<Rightarrow> Some t),
     cat_img_mobile := (case kp_mobile dto of None \<Rightarrow> cat_img_mobile c | Some t \<Rightarrow> Some t),
     cat_sort := given_or (kp_sort dto) (cat_sort c), cat_active := given_or (kp_active dto) (cat_active c)\<rparr>"

definition patched_slug :: "(string \<Rightarrow> string) \<Rightarrow> db \<Rightarrow> category_patch \<Rightarrow> category \<Rightarrow> error + string" where
  "patched_slug unaccent d dto c = (case kp_slug dto of None \<Rightarrow> Inr (cat_slug c)
     | Some s \<Rightarrow> ensureUniqueSlug unaccent d s (Some (cat_id c)))"

definition updateDepartment :: "(string \<Rightarrow> string) \<Rightarrow> id \<Rightarrow> category_patch \<Rightarrow> db \<Rightarrow> error + db" where
  "updateDepartment unaccent cid dto d =
     bindE (getDepartment d cid) (\<lambda>c.
     bindE (patched_slug unaccent d dto c) (\<lambda>slug.
     Inr (save_category ((patched_category dto slug c)\<lparr>cat_featured := given_or (kp_featured dto) (cat_featured c)\<rparr>) d)))"

text \<open>The row is looked up by identifier alone, so it may be a department.\<close>

definition updateCategory :: "(string \<Rightarrow> string) \<Rightarrow> id \<Rightarrow> category_patch \<Rightarrow> db \<Rightarrow> error + db" where
  "updateCategory unaccent cid dto d =
     bindE (getCategory d cid) (\<lambda>c.
     bindE (case kp_department dto of None \<Rightarrow> Inr (cat_parent c)
            | Some dep \<Rightarrow> bindE (getDepartment d dep) (\<lambda>department. Inr (Some (cat_id department)))) (\<lambda>parent.
     bindE (patched_slug unaccent d dto c) (\<lambda>slug.
     Inr (save_category ((patched_category dto slug c)\<lparr>cat_parent := parent\<rparr>) d))))"

definition removeDepartment :: "id \<Rightarrow> db \<Rightarrow> error + db" where
  "removeDepartment cid d =
     bindE (getDepartment d cid) (\<lambda>c.
     bindE (guardE (filter (\<lambda>x. cat_parent x = Some cid) (live_categories d) = [])
              (Conflict ''El departamento tiene categorias'')) (\<lambda>_.
     Inr (save_category (c\<lparr>cat_deleted := True\<rparr>) d)))"

definition removeCategory :: "id \<Rightarrow> db \<Rightarrow> error + db" where
  "removeCategory cid d =
     bindE (getCategory d cid) (\<lambda>c.
     bindE (guardE (cat_parent c \<noteq> None) (BadRequest ''Es un departamento'')) (\<lambda>_.
     bindE (guardE (filter (\<lambda>p. p_category p = cid \<and> \<not> p_deleted p) (d_products d) = [])
              (Conflict ''La categoria tiene productos'')) (\<lambda>_.
     Inr (save_category (c\<lparr>cat_deleted := True\<rparr>) d))))"

subsection \<open>What is on sale\<close>

text \<open>The SQL of \<open>productHasStockSql\<close>: rows of active storages, of the area when there is one.\<close>

definition area_storages :: "db \<Rightarrow> id \<Rightarrow> id list" where
  "area_storages d mid = map cov_location (filter (covered_by (d_geo d) mid) (l_coverage (d_storage d)))"

definition product_has_stock :: "db \<Rightarrow> id option \<Rightarrow> product \<Rightarrow> bool" where
  "product_has_stock d mid p \<longleftrightarrow>
     0 < sum_where (\<lambda>r. inv_product r = p_id p \<and> inv_location r \<in> set (active_ids (d_storage d)) \<and>
            (case mid of None \<Rightarrow> True | Some m \<Rightarrow> inv_location r \<in> set (area_storages d m)))
          (\<lambda>r. inv_quantity r - inv_reserved r) (s_rows (d_stock d))"

definition on_sale :: "db \<Rightarrow> id option \<Rightarrow> product \<Rightarrow> bool" where
  "on_sale d mid p \<longleftrightarrow> \<not> p_deleted p \<and> p_active p \<and> product_has_stock d mid p"

definition category_has_stock :: "db \<Rightarrow> id option \<Rightarrow> id \<Rightarrow> bool" where
  "category_has_stock d mid cid \<longleftrightarrow> (\<exists>p \<in> set (d_products d). p_category p = cid \<and> on_sale d mid p)"

text \<open>A \<open>GROUP BY\<close> with \<open>COUNT(*)\<close> over the given identifiers: groups without rows are absent.\<close>

definition counts_by :: "id list \<Rightarrow> (id \<Rightarrow> nat) \<Rightarrow> (id \<times> nat) list" where
  "counts_by ids f = filter (\<lambda>(_, n). 0 < n) (map (\<lambda>i. (i, f i)) (js_set ids))"

definition countValidProducts :: "db \<Rightarrow> id list \<Rightarrow> id option \<Rightarrow> (id \<times> nat) list" where
  "countValidProducts d ids mid =
     counts_by ids (\<lambda>i. length (filter (\<lambda>p. p_category p = i \<and> on_sale d mid p) (d_products d)))"

definition countValidChildren :: "db \<Rightarrow> id list \<Rightarrow> id option \<Rightarrow> (id \<times> nat) list" where
  "countValidChildren d ids mid =
     counts_by ids (\<lambda>i. length (filter (\<lambda>c. cat_parent c = Some i \<and> cat_active c \<and> category_has_stock d mid (cat_id c))
        (live_categories d)))"

definition countChildren :: "db \<Rightarrow> id list \<Rightarrow> (id \<times> nat) list" where
  "countChildren d ids = counts_by ids (\<lambda>i. length (filter (\<lambda>c. cat_parent c = Some i) (live_categories d)))"

definition countProducts :: "db \<Rightarrow> id list \<Rightarrow> (id \<times> nat) list" where
  "countProducts d ids = counts_by ids (\<lambda>i. length (filter (\<lambda>p. p_category p = i \<and> \<not> p_deleted p) (d_products d)))"

datatype public_sort = SortName | SortOrder | SortCreated

definition cmp_public :: "collation \<Rightarrow> public_sort option \<Rightarrow> bool \<Rightarrow> category \<Rightarrow> category \<Rightarrow> int" where
  "cmp_public collate by desc a b =
     (let (x, y) = (if desc then (b, a) else (a, b)) in
      case by of
        Some SortName \<Rightarrow> collate (cat_name x) (cat_name y)
      | Some SortCreated \<Rightarrow> cat_created x - cat_created y
      | Some SortOrder \<Rightarrow> cat_sort x - cat_sort y
      | None \<Rightarrow> cmp_category collate a b)"

definition listPublicDepartments ::
  "collation \<Rightarrow> db \<Rightarrow> bool \<Rightarrow> public_sort option \<Rightarrow> bool \<Rightarrow> id option \<Rightarrow> category list" where
  "listPublicDepartments collate d featured by desc mid =
     js_sort (cmp_public collate by desc)
       (filter (\<lambda>dep. cat_parent dep = None \<and> cat_active dep \<and>
           (\<exists>c \<in> set (live_categories d). cat_parent c = Some (cat_id dep) \<and> cat_active c \<and> category_has_stock d mid (cat_id c)) \<and>
           (featured \<longrightarrow> cat_featured dep)) (live_categories d))"

definition listPublicCategories ::
  "collation \<Rightarrow> db \<Rightarrow> id option \<Rightarrow> public_sort option \<Rightarrow> bool \<Rightarrow> id option \<Rightarrow> category list" where
  "listPublicCategories collate d dep by desc mid =
     js_sort (cmp_public collate by desc)
       (filter (\<lambda>c. cat_parent c \<noteq> None \<and> cat_active c \<and> category_has_stock d mid (cat_id c) \<and>
           (case dep of None \<Rightarrow> True | Some i \<Rightarrow> cat_parent c = Some i)) (live_categories d))"

definition getPublicDepartment :: "db \<Rightarrow> id \<Rightarrow> error + category" where
  "getPublicDepartment d cid = from_option (NotFound ''El departamento no existe'')
     (List.find (\<lambda>c. cat_id c = cid \<and> cat_parent c = None \<and> cat_active c) (live_categories d))"

definition getPublicCategory :: "db \<Rightarrow> id \<Rightarrow> error + category" where
  "getPublicCategory d cid = from_option (NotFound ''La categoria no existe'')
     (List.find (\<lambda>c. cat_id c = cid \<and> cat_parent c \<noteq> None \<and> cat_active c) (live_categories d))"

record catalog_node =
  cn_department :: category
  cn_count :: nat
  cn_categories :: "(category \<times> nat) list"

definition by_parent :: "category list \<Rightarrow> (id \<times> category list) list" where
  "by_parent cats = fold (\<lambda>c m. case cat_parent c of None \<Rightarrow> m
     | Some p \<Rightarrow> jm_set p (given_or (jm_get p m) [] @ [c]) m) cats []"

definition catalog_node_of :: "(id \<times> category list) list \<Rightarrow> (id \<times> nat) list \<Rightarrow> category \<Rightarrow> catalog_node" where
  "catalog_node_of parents counts dep =
     (let cats = map (\<lambda>c. (c, given_or (jm_get (cat_id c) counts) 0)) (given_or (jm_get (cat_id dep) parents) [])
      in \<lparr>cn_department = dep, cn_count = sum_list (map snd cats), cn_categories = cats\<rparr>)"

definition getPublicCatalog :: "collation \<Rightarrow> db \<Rightarrow> id option \<Rightarrow> catalog_node list" where
  "getPublicCatalog collate d mid =
     (let departments = listPublicDepartments collate d False None False mid;
          categories = listPublicCategories collate d None None False mid;
          counts = countValidProducts d (map cat_id categories) mid
      in filter (\<lambda>node. cn_categories node \<noteq> []) (map (catalog_node_of (by_parent categories) counts) departments))"

subsection \<open>The counts and the shop window agree\<close>

lemma product_has_stock_area:
  "product_has_stock d mid p \<longleftrightarrow>
     0 < availableForArea (d_storage d) (d_geo d) (d_stock d) (at_municipality mid) (p_id p)"
proof (cases mid)
  case None
  then show ?thesis
    by (simp add: product_has_stock_def availableForArea_def at_municipality_def stockMap_def)
next
  case (Some m)
  have "sum_where (\<lambda>r. inv_product r = p_id p \<and> inv_location r \<in> set (active_ids (d_storage d)) \<and> inv_location r \<in> set (area_storages d m))
      (\<lambda>r. inv_quantity r - inv_reserved r) (s_rows (d_stock d)) =
    stockMap (d_storage d) (d_stock d) (Some (coveringLocationIds (d_storage d) (d_geo d) None (Some m))) (p_id p)"
    unfolding stockMap_def area_storages_def coveringLocationIds_def Let_def
    by (rule sum_where_cong) auto
  then show ?thesis by (simp add: product_has_stock_def availableForArea_def at_municipality_def Some)
qed

lemma on_sale_window:
  "length (filter (\<lambda>p. p_category p = i \<and> on_sale d mid p) (d_products d)) =
    length (findStorefront d (\<lambda>p. p_category p = i) (at_municipality mid) False)"
proof -
  have "length (filter (\<lambda>p. p_category p = i \<and> on_sale d mid p) ps) =
    length (filter (\<lambda>(p, n). 0 < n) (map (\<lambda>p. (p, availableForArea (d_storage d) (d_geo d) (d_stock d) (at_municipality mid) (p_id p)))
      (filter (\<lambda>p. p_active p \<and> \<not> p_deleted p \<and> p_category p = i) ps)))" for ps
    by (induction ps) (auto simp: on_sale_def product_has_stock_area)
  then show ?thesis by (simp add: findStorefront_def Let_def)
qed

lemma counts_by_get: "jm_get i (counts_by ids f) = (if i \<in> set ids \<and> 0 < f i then Some (f i) else None)"
proof -
  have "jm_get i (filter (\<lambda>(_, n). 0 < n) (map (\<lambda>i. (i, f i)) xs)) = (if i \<in> set xs \<and> 0 < f i then Some (f i) else None)" for xs
    by (induction xs) auto
  then show ?thesis by (simp add: counts_by_def)
qed

lemma by_parent_get: "jm_get p (by_parent cats) = (let xs = filter (\<lambda>c. cat_parent c = Some p) cats in if xs = [] then None else Some xs)"
proof -
  have "jm_get p (fold (\<lambda>c m. case cat_parent c of None \<Rightarrow> m | Some p \<Rightarrow> jm_set p (given_or (jm_get p m) [] @ [c]) m) cats m) =
    (let xs = filter (\<lambda>c. cat_parent c = Some p) cats in
      if xs = [] then jm_get p m else Some (given_or (jm_get p m) [] @ xs))" for m
  proof (induction cats arbitrary: m)
    case (Cons c cats)
    show ?case
      using Cons by (cases "cat_parent c") (auto simp: Let_def given_or_def table_simps split: option.split)
  qed simp
  from this [of "[]"] show ?thesis unfolding by_parent_def by (simp add: given_or_def Let_def)
qed

lemma category_has_stock_count:
  "category_has_stock d mid i \<longleftrightarrow> 0 < length (filter (\<lambda>p. p_category p = i \<and> on_sale d mid p) (d_products d))"
  by (auto simp: category_has_stock_def length_greater_0_conv filter_empty_conv)

lemma public_department_iff:
  "dep \<in> set (listPublicDepartments collate d False by desc mid) \<longleftrightarrow>
    dep \<in> set (live_categories d) \<and> cat_parent dep = None \<and> cat_active dep \<and>
    (\<exists>c \<in> set (live_categories d). cat_parent c = Some (cat_id dep) \<and> cat_active c \<and> category_has_stock d mid (cat_id c))"
  by (auto simp: listPublicDepartments_def)

lemma public_category_iff:
  "c \<in> set (listPublicCategories collate d None by desc mid) \<longleftrightarrow>
    c \<in> set (live_categories d) \<and> cat_parent c \<noteq> None \<and> cat_active c \<and> category_has_stock d mid (cat_id c)"
  by (auto simp: listPublicCategories_def)

text \<open>C18: The catalogue tree and the shop window agree, in every area: the tree shows exactly the active departments
  that have an active category with something on sale there, each with exactly those categories, each
  category with as many products as the window lists when filtered by it (at least one), and the total of
  a department is the sum. The final filter of empty departments never drops one.\<close>

theorem catalog_tree_matches_window:
  "map cn_department (getPublicCatalog collate d mid) = listPublicDepartments collate d False None False mid \<and>
   (\<forall>node \<in> set (getPublicCatalog collate d mid).
      cn_categories node \<noteq> [] \<and> cn_count node = sum_list (map snd (cn_categories node)) \<and>
      map fst (cn_categories node) = filter (\<lambda>c. cat_parent c = Some (cat_id (cn_department node)))
        (listPublicCategories collate d None None False mid) \<and>
      (\<forall>(c, n) \<in> set (cn_categories node).
         n = length (findStorefront d (\<lambda>p. p_category p = cat_id c) (at_municipality mid) False) \<and> 0 < n))"
proof -
  let ?deps = "listPublicDepartments collate d False None False mid"
  let ?cats = "listPublicCategories collate d None None False mid"
  let ?counts = "countValidProducts d (map cat_id ?cats) mid"
  let ?node = "catalog_node_of (by_parent ?cats) ?counts"
  have cats: "cn_categories (?node dep) = map (\<lambda>c. (c, given_or (jm_get (cat_id c) ?counts) 0))
      (filter (\<lambda>c. cat_parent c = Some (cat_id dep)) ?cats)" for dep
    by (simp add: catalog_node_of_def Let_def by_parent_get given_or_def)
  have ne: "cn_categories (?node dep) \<noteq> []" if "dep \<in> set ?deps" for dep
    using that unfolding cats public_department_iff by (auto simp: filter_empty_conv public_category_iff)
  have tree: "getPublicCatalog collate d mid = map ?node ?deps"
    unfolding getPublicCatalog_def Let_def by (rule filter_True) (use ne in auto)
  have n: "given_or (jm_get (cat_id c) ?counts) 0 = length (findStorefront d (\<lambda>p. p_category p = cat_id c) (at_municipality mid) False)
      \<and> 0 < length (findStorefront d (\<lambda>p. p_category p = cat_id c) (at_municipality mid) False)" if "c \<in> set ?cats" for c
    using that category_has_stock_count [of d mid "cat_id c"]
    by (auto simp: countValidProducts_def counts_by_get given_or_def on_sale_window public_category_iff)
  have node: "cn_department (?node dep) = dep" "cn_count (?node dep) = sum_list (map snd (cn_categories (?node dep)))" for dep
    by (simp_all add: catalog_node_of_def Let_def)
  have fst: "map fst (cn_categories (?node dep)) = filter (\<lambda>c. cat_parent c = Some (cat_id (cn_department (?node dep)))) ?cats" for dep
    unfolding node(1) by (simp add: cats comp_def)
  have cnt: "\<forall>(c, n) \<in> set (cn_categories (?node dep)).
      n = length (findStorefront d (\<lambda>p. p_category p = cat_id c) (at_municipality mid) False) \<and> 0 < n" for dep
    using n unfolding cats by fastforce
  define good where "good = (\<lambda>node :: catalog_node. cn_categories node \<noteq> [] \<and> cn_count node = sum_list (map snd (cn_categories node)) \<and>
      map fst (cn_categories node) = filter (\<lambda>c. cat_parent c = Some (cat_id (cn_department node))) ?cats \<and>
      (\<forall>(c, n) \<in> set (cn_categories node).
         n = length (findStorefront d (\<lambda>p. p_category p = cat_id c) (at_municipality mid) False) \<and> 0 < n))"
  have "good (?node dep)" if "dep \<in> set ?deps" for dep
    unfolding good_def by (intro conjI ne [OF that] node(2) fst cnt)
  then have all: "\<forall>node \<in> set (map ?node ?deps). good node" by simp
  have "map cn_department (map ?node ?deps) = ?deps" by (simp add: comp_def node(1))
  then show ?thesis unfolding tree using all [unfolded good_def] by (rule conjI)
qed

theorem catalog_tree_matches_window_witness:
  "\<exists>node. getPublicCatalog (\<lambda>a b. 0) sample_db (Some 11) = [node] \<and> 0 < cn_count node"
proof -
  have "getPublicCatalog (\<lambda>a b. 0) sample_db (Some 11) \<noteq> [] \<and> length (getPublicCatalog (\<lambda>a b. 0) sample_db (Some 11)) = 1"
    by code_simp
  then obtain node where t: "getPublicCatalog (\<lambda>a b. 0) sample_db (Some 11) = [node]"
    by (cases "getPublicCatalog (\<lambda>a b. 0) sample_db (Some 11)") auto
  from catalog_tree_matches_window [of "\<lambda>a b. 0" sample_db "Some 11"] have
    "cn_categories node \<noteq> []" "cn_count node = sum_list (map snd (cn_categories node))"
    "\<forall>(c, n) \<in> set (cn_categories node). 0 < n" unfolding t by auto
  then have "0 < cn_count node" by (cases "cn_categories node") auto
  then show ?thesis using t by simp
qed

end
