(* ===== verification/Search.thy ===== *)
theory Search
  imports Taxonomy
begin

section \<open>Searching without accents\<close>

text \<open>
  \<open>src/common/search/accent-insensitive.ts\<close>: the typed text becomes an \<open>ILIKE\<close> pattern, its wildcards escaped,
  and both sides go through \<open>f_unaccent\<close>, a function of the database (the parameter \<open>unaccent\<close>). The
  filters of \<open>ProductsService.findAll\<close> use it. \<open>like\<close> is the \<open>LIKE\<close> of PostgreSQL with its default
  escape; it raises on a pattern that ends in the escape, which these patterns never do.
\<close>

definition backslash :: char where
  "backslash = char_of (92 :: nat)"

definition comodin :: "char \<Rightarrow> bool" where
  "comodin c \<longleftrightarrow> c = CHR ''%'' \<or> c = CHR ''_'' \<or> c = backslash"

definition escapado :: "string \<Rightarrow> string" where
  "escapado t = concat (map (\<lambda>c. if comodin c then [backslash, c] else [c]) t)"

definition comoBusquedaParcial :: "string \<Rightarrow> string" where
  "comoBusquedaParcial t = ''%'' @ escapado t @ ''%''"

fun like :: "string \<Rightarrow> string \<Rightarrow> bool" where
  "like [] s \<longleftrightarrow> s = []"
| "like (p # ps) [] \<longleftrightarrow> p = CHR ''%'' \<and> like ps []"
| "like (p # ps) (c # cs) \<longleftrightarrow>
     (if p = CHR ''%'' then like ps (c # cs) \<or> like (p # ps) cs
      else if p = CHR ''_'' then like ps cs
      else if p = backslash then (case ps of [] \<Rightarrow> False | q # qs \<Rightarrow> q = c \<and> like qs cs)
      else p = c \<and> like ps cs)"

text \<open>\<open>f_unaccent(column) ILIKE f_unaccent(:q)\<close>.\<close>

definition sinTildes :: "(string \<Rightarrow> string) \<Rightarrow> string \<Rightarrow> string \<Rightarrow> bool" where
  "sinTildes unaccent column q = like (map lower (unaccent q)) (map lower (unaccent column))"

text \<open>
  The search over lists already in memory: \<open>normalize('NFD')\<close>, the marks from U+0300 to U+036F removed, \<open>toLowerCase\<close>. The texts
  of the model are Latin-1, for which the canonical decompositions of Unicode are these: letter, base and mark.
\<close>

definition NFD_LATIN1 :: "(nat \<times> nat \<times> nat) list" where
  "NFD_LATIN1 = [
     (0xC0, 65, 0x300), (0xC1, 65, 0x301), (0xC2, 65, 0x302), (0xC3, 65, 0x303), (0xC4, 65, 0x308), (0xC5, 65, 0x30A),
     (0xC7, 67, 0x327), (0xC8, 69, 0x300), (0xC9, 69, 0x301), (0xCA, 69, 0x302), (0xCB, 69, 0x308),
     (0xCC, 73, 0x300), (0xCD, 73, 0x301), (0xCE, 73, 0x302), (0xCF, 73, 0x308), (0xD1, 78, 0x303),
     (0xD2, 79, 0x300), (0xD3, 79, 0x301), (0xD4, 79, 0x302), (0xD5, 79, 0x303), (0xD6, 79, 0x308),
     (0xD9, 85, 0x300), (0xDA, 85, 0x301), (0xDB, 85, 0x302), (0xDC, 85, 0x308), (0xDD, 89, 0x301),
     (0xE0, 97, 0x300), (0xE1, 97, 0x301), (0xE2, 97, 0x302), (0xE3, 97, 0x303), (0xE4, 97, 0x308), (0xE5, 97, 0x30A),
     (0xE7, 99, 0x327), (0xE8, 101, 0x300), (0xE9, 101, 0x301), (0xEA, 101, 0x302), (0xEB, 101, 0x308),
     (0xEC, 105, 0x300), (0xED, 105, 0x301), (0xEE, 105, 0x302), (0xEF, 105, 0x308), (0xF1, 110, 0x303),
     (0xF2, 111, 0x300), (0xF3, 111, 0x301), (0xF4, 111, 0x302), (0xF5, 111, 0x303), (0xF6, 111, 0x308),
     (0xF9, 117, 0x300), (0xFA, 117, 0x301), (0xFB, 117, 0x302), (0xFC, 117, 0x308), (0xFD, 121, 0x301), (0xFF, 121, 0x308)]"

definition nfd_char :: "nat \<Rightarrow> nat list" where
  "nfd_char n = (case map_of NFD_LATIN1 n of None \<Rightarrow> [n] | Some (base, m) \<Rightarrow> [base, m])"

definition nfd :: "string \<Rightarrow> nat list" where
  "nfd t = concat (map (\<lambda>c. nfd_char (of_char c)) t)"

definition combining_mark :: "nat \<Rightarrow> bool" where
  "combining_mark n \<longleftrightarrow> 0x300 \<le> n \<and> n \<le> 0x36F"

definition js_lower :: "nat \<Rightarrow> nat" where
  "js_lower n = (if 65 \<le> n \<and> n \<le> 90 \<or> 0xC0 \<le> n \<and> n \<le> 0xDE \<and> n \<noteq> 0xD7 then n + 32 else n)"

definition normalizarSinTildes :: "string option \<Rightarrow> nat list" where
  "normalizarSinTildes t = map js_lower (filter (\<lambda>n. \<not> combining_mark n) (nfd (given_or t [])))"

fun js_includes :: "'a list \<Rightarrow> 'a list \<Rightarrow> bool" where
  "js_includes [] t \<longleftrightarrow> t = []"
| "js_includes (c # cs) t \<longleftrightarrow> take (length t) (c # cs) = t \<or> js_includes cs t"

definition contieneTexto :: "string \<Rightarrow> string option list \<Rightarrow> bool" where
  "contieneTexto t campos =
     (let buscado = normalizarSinTildes (Some t)
      in list_ex (\<lambda>campo. js_includes (normalizarSinTildes campo) buscado) campos)"

subsection \<open>The pattern finds exactly the text\<close>

lemma like_all: "like ''%'' s"
  by (induction s) auto

lemma like_escaped: "like (escapado t @ ''%'') s \<longleftrightarrow> take (length t) s = t"
proof (induction t arbitrary: s)
  case Nil
  then show ?case by (simp add: escapado_def like_all)
next
  case (Cons c t)
  have cons: "escapado (c # t) = (if comodin c then [backslash, c] else [c]) @ escapado t"
    by (simp add: escapado_def)
  have "backslash \<noteq> CHR ''%''" and "backslash \<noteq> CHR ''_''" by code_simp+
  then show ?case
    using Cons unfolding cons by (cases s) (auto simp: comodin_def)
qed

lemma like_partial: "like (comoBusquedaParcial t) s \<longleftrightarrow> js_includes s t"
proof (induction s)
  case Nil
  then show ?case using like_escaped [of t "[]"] by (auto simp: comoBusquedaParcial_def)
next
  case (Cons c s)
  then show ?case using like_escaped [of t "c # s"] by (auto simp: comoBusquedaParcial_def)
qed

lemma lower_comodin: "comodin c \<Longrightarrow> lower c = c" "comodin (lower c) \<Longrightarrow> comodin c"
proof -
  show "comodin c \<Longrightarrow> lower c = c" by (auto simp: comodin_def lower_def backslash_def)
  show "comodin (lower c) \<Longrightarrow> comodin c"
  proof (rule ccontr)
    assume c: "comodin (lower c)" "\<not> comodin c"
    then have n: "65 \<le> (of_char c :: nat)" "(of_char c :: nat) \<le> 90"
      by (auto simp: lower_def Let_def split: if_splits)
    then have "of_char (lower c) = (of_char c + 32 :: nat)" by (simp add: lower_def)
    moreover have "(of_char (lower c) :: nat) \<in> {37, 95, 92}"
      using c(1) by (auto simp: comodin_def backslash_def)
    ultimately show False using n by auto
  qed
qed

lemma escapado_folded:
  assumes "\<And>c. comodin c \<Longrightarrow> fold_char c = [c]" and "\<And>c. \<not> comodin c \<Longrightarrow> list_all (\<lambda>x. \<not> comodin x) (fold_char c)"
  shows "map lower (concat (map fold_char (escapado t))) = escapado (map lower (concat (map fold_char t)))"
proof (induction t)
  case Nil
  then show ?case by (simp add: escapado_def)
next
  case (Cons c t)
  have esc: "comodin backslash" by (simp add: comodin_def)
  have app: "escapado (xs @ ys) = escapado xs @ escapado ys" for xs ys by (simp add: escapado_def)
  have plain: "list_all (\<lambda>x. \<not> comodin x) xs \<Longrightarrow> escapado xs = xs" for xs
    by (induction xs) (auto simp: escapado_def)
  have "map lower (concat (map fold_char (if comodin c then [backslash, c] else [c]))) = escapado (map lower (fold_char c))"
  proof (cases "comodin c")
    case True
    then show ?thesis using assms(1) esc lower_comodin(1) by (simp add: escapado_def)
  next
    case False
    have "list_all (\<lambda>x. \<not> comodin x) (map lower (fold_char c))"
      using assms(2) [OF False] lower_comodin(2) by (auto simp: list_all_iff)
    then show ?thesis using False plain by simp
  qed
  moreover have "escapado (c # t) = (if comodin c then [backslash, c] else [c]) @ escapado t" by (simp add: escapado_def)
  ultimately show ?case using Cons by (simp add: app)
qed

text \<open>A character that the database folds as the search in memory does: not so the letters that are no base and mark, like the
  sharp s or the Scandinavian ones, which \<open>unaccent\<close> spells with other letters.\<close>

definition sin_marca :: "char \<Rightarrow> nat list" where
  "sin_marca c = map js_lower (filter (\<lambda>n. \<not> combining_mark n) (nfd_char (of_char c)))"

definition same_spelling :: "(char \<Rightarrow> string) \<Rightarrow> char \<Rightarrow> bool" where
  "same_spelling fold_char c \<longleftrightarrow> map (\<lambda>x. of_char (lower x)) (fold_char c) = sin_marca c"

lemma normalizar_concat: "normalizarSinTildes (Some t) = concat (map sin_marca t)"
proof -
  have "map js_lower (filter (\<lambda>n. \<not> combining_mark n) (concat (map f t))) = concat (map (\<lambda>c. map js_lower (filter (\<lambda>n. \<not> combining_mark n) (f c))) t)"
    for f :: "char \<Rightarrow> nat list"
    by (induction t) simp_all
  then show ?thesis by (simp add: normalizarSinTildes_def nfd_def sin_marca_def [abs_def] given_or_def)
qed

lemma normalizar_folded:
  assumes "\<forall>c \<in> set t. same_spelling fold_char c"
  shows "normalizarSinTildes (Some t) = map of_char (map lower (concat (map fold_char t)))"
  unfolding normalizar_concat using assms by (induction t) (simp_all add: same_spelling_def o_def)

lemma js_includes_iff: "js_includes s w \<longleftrightarrow> (\<exists>pre post. s = pre @ w @ post)"
proof (induction s)
  case (Cons c s)
  have "take (length w) (c # s) = w \<longleftrightarrow> (\<exists>post. c # s = w @ post)"
    by (metis append_eq_conv_conj append_take_drop_id)
  then show ?case using Cons by (auto simp: Cons_eq_append_conv append_eq_Cons_conv)
qed simp

lemma js_includes_map: "inj f \<Longrightarrow> js_includes (map f s) (map f w) \<longleftrightarrow> js_includes s w"
proof (induction s)
  case (Cons c s)
  have "take (length w) (map f (c # s)) = map f w \<longleftrightarrow> take (length w) (c # s) = w"
    using inj_map_eq_map [OF Cons.prems] by (metis take_map)
  then show ?case using Cons by simp
qed simp


text \<open>A folding like that of the database: the marks go, and the sharp s becomes two letters.\<close>

definition sample_fold :: "char \<Rightarrow> string" where
  "sample_fold c = (if c = CHR 0xDF then ''ss'' else map char_of (filter (\<lambda>n. \<not> combining_mark n) (nfd_char (of_char c))))"

lemma bases_are_letters: "(n, base, m) \<in> set NFD_LATIN1 \<Longrightarrow> 192 \<le> n \<and> base \<notin> {37, 92, 95} \<and> base < 128 \<and> combining_mark m"
  by (auto simp: NFD_LATIN1_def combining_mark_def)

lemma comodin_code: "comodin c \<longleftrightarrow> (of_char c :: nat) \<in> {37, 92, 95}"
proof -
  have eq: "c = d \<longleftrightarrow> (of_char c :: nat) = of_char d" for d by simp
  show ?thesis by (simp add: comodin_def backslash_def eq [of "CHR ''%''"] eq [of "CHR ''_''"] eq [of "char_of 92"] disj_commute disj_left_commute)
qed

lemma sample_fold_plain: "(of_char c :: nat) < 128 \<Longrightarrow> sample_fold c = [c]"
proof -
  assume c: "(of_char c :: nat) < 128"
  then have "map_of NFD_LATIN1 (of_char c) = None"
    using bases_are_letters map_of_SomeD [of NFD_LATIN1 "of_char c"] by (cases "map_of NFD_LATIN1 (of_char c)") fastforce+
  moreover have "c \<noteq> CHR 0xDF" using c by auto
  ultimately show ?thesis using c by (simp add: sample_fold_def nfd_char_def combining_mark_def)
qed

lemma sample_fold_ok:
  "comodin c \<Longrightarrow> sample_fold c = [c]" "\<not> comodin c \<Longrightarrow> list_all (\<lambda>x. \<not> comodin x) (sample_fold c)"
proof -
  show "sample_fold c = [c]" if "comodin c"
    by (rule sample_fold_plain) (use that in \<open>auto simp: comodin_code\<close>)
  assume c: "\<not> comodin c"
  show "list_all (\<lambda>x. \<not> comodin x) (sample_fold c)"
  proof (cases "map_of NFD_LATIN1 (of_char c)")
    case None
    then show ?thesis using c by (simp add: sample_fold_def nfd_char_def comodin_code)
  next
    case (Some v)
    obtain base m where v: "v = (base, m)" by (cases v)
    note l = bases_are_letters [OF map_of_SomeD [OF Some [unfolded v]]]
    then show ?thesis using Some v by (simp add: sample_fold_def nfd_char_def comodin_code)
  qed
qed

lemma sample_fold_spells:
  assumes "(of_char c :: nat) < 128 \<or> map_of NFD_LATIN1 (of_char c) \<noteq> None"
  shows "same_spelling sample_fold c"
proof -
  have low: "of_char (lower x) = js_lower (of_char x)" if "(of_char x :: nat) < 128" for x
    using that by (simp add: lower_def js_lower_def Let_def)
  show ?thesis
  proof (cases "map_of NFD_LATIN1 (of_char c)")
    case None
    then have "(of_char c :: nat) < 128" using assms by simp
    moreover from this have "c \<noteq> CHR 0xDF" by auto
    ultimately show ?thesis
      using None low by (simp add: same_spelling_def sample_fold_def sin_marca_def nfd_char_def combining_mark_def)
  next
    case (Some v)
    obtain base m where v: "v = (base, m)" by (cases v)
    note l = bases_are_letters [OF map_of_SomeD [OF Some [unfolded v]]]
    have "c \<noteq> CHR 0xDF" using Some by (auto simp: NFD_LATIN1_def)
    then show ?thesis
      using Some l low [of "char_of base"]
      by (simp add: v same_spelling_def sample_fold_def sin_marca_def nfd_char_def combining_mark_def)
  qed
qed


text \<open>Where the database spells a letter with others, it finds texts that the search in memory does not.\<close>

lemma memory_misses_the_sharp_s:
  "sinTildes (\<lambda>s. concat (map sample_fold s)) [CHR 0xDF] (comoBusquedaParcial ''ss'') \<and> \<not> contieneTexto ''ss'' [Some [CHR 0xDF]]"
proof -
  have "concat (map sample_fold ''ss'') = ''ss''" "concat (map sample_fold [CHR 0xDF]) = ''ss''"
    by (simp add: sample_fold_plain) (simp add: sample_fold_def)
  then have "sinTildes (\<lambda>s. concat (map sample_fold s)) [CHR 0xDF] (comoBusquedaParcial ''ss'')"
    using like_partial [of "''ss''" "''ss''"]
    by (simp add: sinTildes_def comoBusquedaParcial_def escapado_def comodin_code sample_fold_plain lower_def)
  moreover have "normalizarSinTildes (Some [CHR 0xDF]) = [223]" "normalizarSinTildes (Some ''ss'') = [115, 115]"
    by (simp_all add: normalizar_concat sin_marca_def nfd_char_def NFD_LATIN1_def combining_mark_def js_lower_def)
  then have "\<not> contieneTexto ''ss'' [Some [CHR 0xDF]]" by (simp add: contieneTexto_def)
  ultimately show ?thesis ..
qed

subsection \<open>The listing of products\<close>

datatype product_sort = ByName | ByPrice | ByFinalPrice | ByCreated | ByUpdated

record product_filters =
  pf_q :: "string option"
  pf_department :: "id option"
  pf_category :: "id option"
  pf_category_slug :: "string option"
  pf_department_slug :: "string option"
  pf_min :: "rat option"
  pf_max :: "rat option"
  pf_final :: bool
  pf_featured :: "bool option"
  pf_ids :: "id list option"
  pf_on_sale :: "bool option"
  pf_active :: "bool option"
  pf_sort :: "product_sort option"
  pf_desc :: bool

text \<open>\<open>basePrice * (1 - discount / 100)\<close> in the decimal arithmetic of the database: exact, not rounded to cents.\<close>

definition sql_final_price :: "product \<Rightarrow> rat" where
  "sql_final_price p = of_int (p_base_price p) / 100 * (1 - of_int (p_discount p) / 100 / 100)"

definition price_expr :: "product_filters \<Rightarrow> product \<Rightarrow> rat" where
  "price_expr f p = (if pf_final f then sql_final_price p else of_int (p_base_price p) / 100)"

definition when_given :: "'a option \<Rightarrow> ('a \<Rightarrow> bool) \<Rightarrow> bool" where
  "when_given x P = (case x of None \<Rightarrow> True | Some v \<Rightarrow> P v)"

definition category_of :: "db \<Rightarrow> product \<Rightarrow> category option" where
  "category_of d p = List.find (\<lambda>c. cat_id c = p_category p) (live_categories d)"

definition selected :: "(string \<Rightarrow> string) \<Rightarrow> db \<Rightarrow> product_filters \<Rightarrow> product \<Rightarrow> bool" where
  "selected unaccent d f p \<longleftrightarrow> \<not> p_deleted p \<and>
     when_given (pf_category f) (\<lambda>i. p_category p = i) \<and>
     when_given (pf_department f) (\<lambda>i. list_ex (\<lambda>c. cat_id c = p_category p \<and> cat_parent c = Some i) (live_categories d)) \<and>
     when_given (pf_category_slug f) (\<lambda>s. s = [] \<or> list_ex (\<lambda>c. cat_id c = p_category p \<and> cat_slug c = s) (live_categories d)) \<and>
     when_given (pf_department_slug f) (\<lambda>s. s = [] \<or> list_ex (\<lambda>c. cat_id c = p_category p \<and>
        list_ex (\<lambda>e. cat_parent c = Some (cat_id e) \<and> cat_slug e = s) (live_categories d)) (live_categories d)) \<and>
     when_given (pf_q f) (\<lambda>q. q = [] \<or> sinTildes unaccent (p_name p) (comoBusquedaParcial q)) \<and>
     when_given (pf_min f) (\<lambda>m. m \<le> price_expr f p) \<and> when_given (pf_max f) (\<lambda>m. price_expr f p \<le> m) \<and>
     when_given (pf_featured f) (\<lambda>b. p_featured p = b) \<and>
     when_given (pf_ids f) (\<lambda>ids. ids = [] \<or> p_id p \<in> set ids) \<and>
     when_given (pf_on_sale f) (\<lambda>b. if b then 0 < p_discount p else p_discount p = 0) \<and>
     when_given (pf_active f) (\<lambda>b. p_active p = b)"

definition cmp_rat :: "rat \<Rightarrow> rat \<Rightarrow> int" where
  "cmp_rat a b = (if a < b then -1 else if a = b then 0 else 1)"

definition cmp_product :: "collation \<Rightarrow> (product \<Rightarrow> instant) \<Rightarrow> product_filters \<Rightarrow> product \<Rightarrow> product \<Rightarrow> int" where
  "cmp_product collate updated f a b =
     (let (x, y) = (if pf_desc f then (b, a) else (a, b)) in
      case pf_sort f of
        Some ByName \<Rightarrow> collate (p_name x) (p_name y)
      | Some ByPrice \<Rightarrow> p_base_price x - p_base_price y
      | Some ByFinalPrice \<Rightarrow> cmp_rat (sql_final_price x) (sql_final_price y)
      | Some ByCreated \<Rightarrow> p_created x - p_created y
      | Some ByUpdated \<Rightarrow> updated x - updated y
      | None \<Rightarrow> if p_sort a \<noteq> p_sort b then p_sort a - p_sort b else p_created b - p_created a)"

definition findAll_products :: "collation \<Rightarrow> (string \<Rightarrow> string) \<Rightarrow> (product \<Rightarrow> instant) \<Rightarrow> db \<Rightarrow> product_filters \<Rightarrow> product list" where
  "findAll_products collate unaccent updated d f =
     js_sort (cmp_product collate updated f) (filter (selected unaccent d f) (d_products d))"

definition amountsFor :: "db \<Rightarrow> id \<Rightarrow> int" where
  "amountsFor d pid = sum_where (\<lambda>r. inv_product r = pid) inv_quantity (s_rows (d_stock d))"

text \<open>\<open>findStorefront\<close> with its filters and its order; up to the order it is the shop window of the catalogue.\<close>

definition storefront_page ::
  "collation \<Rightarrow> (string \<Rightarrow> string) \<Rightarrow> (product \<Rightarrow> instant) \<Rightarrow> db \<Rightarrow> product_filters \<Rightarrow> area \<Rightarrow> bool \<Rightarrow> (product \<times> int) list" where
  "storefront_page collate unaccent updated d f ar include_empty =
     (let rows = map (\<lambda>p. (p, availableForArea (d_storage d) (d_geo d) (d_stock d) ar (p_id p)))
                   (findAll_products collate unaccent updated d (f\<lparr>pf_active := Some True\<rparr>))
      in if include_empty then rows else filter (\<lambda>(p, n). 0 < n) rows)"

lemma storefront_page_window:
  "mset (storefront_page collate unaccent updated d f ar keep) =
    mset (findStorefront d (selected unaccent d (f\<lparr>pf_active := None\<rparr>)) ar keep)"
proof -
  have sel: "selected unaccent d (f\<lparr>pf_active := Some True\<rparr>) p \<longleftrightarrow>
      p_active p \<and> \<not> p_deleted p \<and> selected unaccent d (f\<lparr>pf_active := None\<rparr>) p" for p
    by (auto simp: selected_def when_given_def price_expr_def)
  have "mset (findAll_products collate unaccent updated d (f\<lparr>pf_active := Some True\<rparr>)) =
      mset (filter (\<lambda>p. p_active p \<and> \<not> p_deleted p \<and> selected unaccent d (f\<lparr>pf_active := None\<rparr>) p) (d_products d))"
    by (simp add: findAll_products_def sel)
  then show ?thesis
    by (cases keep) (simp_all add: storefront_page_def findStorefront_def Let_def mset_filter mset_map)
qed

end
