(* ===== verification/Customers.thy ===== *)
theory Customers
  imports Search
begin

section \<open>Customers of the shop and their accounts at the identity provider\<close>

text \<open>
  \<open>src/clients/clients.service.ts\<close>, \<open>customer-provisioning.service.ts\<close>, \<open>client-recovery.service.ts\<close>,
  \<open>client-invitations.service.ts\<close> and \<open>src/auth/client-auth.service.ts\<close>. The identity provider (Clerk) is
  not in the repository: its answers are the functions of \<open>clerk_api\<close>, which may depend on the calls made so
  far, and every call that changes something there is recorded in \<open>pe_calls\<close>. The unique columns of the
  tables are enforced by the database: writing a row that repeats one fails.
\<close>

subsection \<open>Rows and the state\<close>

record customer =
  cu_id :: id
  cu_clerk :: string
  cu_email :: "string option"
  cu_first :: "string option"
  cu_last :: "string option"
  cu_phone :: "string option"
  cu_avatar :: "string option"
  cu_municipality :: "id option"
  cu_active :: bool
  cu_pending :: bool
  cu_onboarded :: bool
  cu_created :: instant
  cu_deleted :: bool

record account =
  us_id :: id
  us_clerk :: "string option"
  us_role :: role
  us_email :: "string option"
  us_first :: "string option"
  us_last :: "string option"
  us_phone :: "string option"
  us_avatar :: "string option"
  us_business :: "string option"
  us_business_text :: "string option"
  us_business_logo :: "string option"
  us_org :: "string option"
  us_active :: bool
  us_approved :: "instant option"
  us_created_by :: "id option"
  us_created :: instant
  us_deleted :: bool

datatype invitation_status = InvPending | InvAccepted | InvRevoked

record invitation =
  in_id :: id
  in_email :: string
  in_role :: role
  in_roles :: "id list"
  in_inviter :: "id option"
  in_org :: "string option"
  in_first :: "string option"
  in_last :: "string option"
  in_clerk :: "string option"
  in_status :: invitation_status
  in_accepted :: "instant option"
  in_created :: instant

datatype clerk_call =
    CallInvite string role "(string \<times> string) list" bool
  | CallOrgInvite string string string "string option"
  | CallRevokeInvitation string
  | CallSetPassword string string
  | CallCreateCustomer string string
  | CallClearPending string
  | CallDeleteCustomer string
  | CallInviteCustomer string
  | CallRevokeCustomerInvitation string

record people =
  pe_users :: "account list"
  pe_invitations :: "invitation list"
  pe_customers :: "customer list"
  pe_access :: access
  pe_calls :: "clerk_call list"
  pe_next :: nat

record clerk_failure =
  kf_code :: "string option"
  kf_detail :: string

record clerk_user =
  ku_id :: string
  ku_emails :: "(string \<times> string) list"
  ku_primary :: "string option"
  ku_first :: "string option"
  ku_last :: "string option"
  ku_meta_phone :: "string option"
  ku_meta_business :: "string option"

record clerk_api =
  ck_backoffice_key :: bool
  ck_store_key :: bool
  ck_notify :: bool
  ck_redirect :: bool
  ck_token :: "string \<Rightarrow> string option"
  ck_backoffice_user :: "string \<Rightarrow> clerk_user option"
  ck_store_user :: "string \<Rightarrow> clerk_user option"
  ck_store_has_email :: "clerk_call list \<Rightarrow> string \<Rightarrow> bool"
  ck_create_customer :: "clerk_call list \<Rightarrow> string \<Rightarrow> clerk_failure + string"
  ck_invite :: "clerk_call list \<Rightarrow> clerk_call \<Rightarrow> clerk_failure + string"
  ck_set_password :: "clerk_call list \<Rightarrow> string \<Rightarrow> string \<Rightarrow> clerk_failure + unit"
  ck_pending :: "clerk_call list \<Rightarrow> (string \<times> string) list option"

definition called :: "clerk_call \<Rightarrow> people \<Rightarrow> people" where
  "called c w = w\<lparr>pe_calls := pe_calls w @ [c]\<rparr>"

definition low :: "string \<Rightarrow> string" where
  "low s = map lower s"

text \<open>\<open>(primary ?? emails[0]).email_address\<close>.\<close>

definition extractPrimaryEmail :: "clerk_user \<Rightarrow> string option" where
  "extractPrimaryEmail u =
     (if ku_emails u = [] then None
      else case ku_primary u of
        None \<Rightarrow> Some (snd (hd (ku_emails u)))
      | Some i \<Rightarrow> (if i = [] then Some (snd (hd (ku_emails u)))
                   else case jm_get i (ku_emails u) of Some e \<Rightarrow> Some e | None \<Rightarrow> Some (snd (hd (ku_emails u)))))"

subsection \<open>The table of customers\<close>

definition live_customers :: "people \<Rightarrow> customer list" where
  "live_customers w = filter (\<lambda>c. \<not> cu_deleted c) (pe_customers w)"

definition unique_customer :: "customer \<Rightarrow> people \<Rightarrow> bool" where
  "unique_customer c w \<longleftrightarrow> list_all (\<lambda>x. cu_id x = cu_id c \<or>
     (cu_clerk x \<noteq> cu_clerk c \<and> (cu_email c = None \<or> cu_email x \<noteq> cu_email c))) (pe_customers w)"

definition insert_customer :: "customer \<Rightarrow> people \<Rightarrow> error + people" where
  "insert_customer c w =
     bindE (guardE (unique_customer c w) (InternalError ''duplicate key'')) (\<lambda>_.
     Inr (w\<lparr>pe_customers := pe_customers w @ [c], pe_next := Suc (pe_next w)\<rparr>))"

definition save_customer :: "customer \<Rightarrow> people \<Rightarrow> error + people" where
  "save_customer c w =
     bindE (guardE (unique_customer c w) (InternalError ''duplicate key'')) (\<lambda>_.
     Inr (w\<lparr>pe_customers := save_by cu_id c (pe_customers w)\<rparr>))"

definition find_client :: "people \<Rightarrow> id \<Rightarrow> error + customer" where
  "find_client w i = from_option (NotFound ''Client not found'') (List.find (\<lambda>c. cu_id c = i) (live_customers w))"

definition client_by_clerk :: "people \<Rightarrow> string \<Rightarrow> bool \<Rightarrow> customer option" where
  "client_by_clerk w k with_deleted =
     List.find (\<lambda>c. cu_clerk c = k) (if with_deleted then pe_customers w else live_customers w)"

definition guard_client_email :: "people \<Rightarrow> string \<Rightarrow> id option \<Rightarrow> error + unit" where
  "guard_client_email w email ex =
     (case List.find (\<lambda>c. cu_email c = Some email) (pe_customers w) of
        None \<Rightarrow> Inr ()
      | Some c \<Rightarrow> guardE (ex = Some (cu_id c)) (Conflict ''A client with that email already exists''))"

definition guard_client_clerk :: "people \<Rightarrow> string \<Rightarrow> error + unit" where
  "guard_client_clerk w k =
     guardE (client_by_clerk w k True = None) (Conflict ''A client with that clerkId already exists'')"

text \<open>\<open>if (data.email)\<close>: an empty string is no address.\<close>

definition when_email :: "string option \<Rightarrow> (string \<Rightarrow> error + unit) \<Rightarrow> error + unit" where
  "when_email e f = (case e of None \<Rightarrow> Inr () | Some t \<Rightarrow> if t = [] then Inr () else f (low t))"

definition when_present :: "string option \<Rightarrow> (string \<Rightarrow> error + unit) \<Rightarrow> error + unit" where
  "when_present e f = (case e of None \<Rightarrow> Inr () | Some t \<Rightarrow> if t = [] then Inr () else f t)"

subsection \<open>The operations on customers\<close>

record client_dto =
  nc_clerk :: string
  nc_email :: "string option"
  nc_first :: "string option"
  nc_last :: "string option"
  nc_phone :: "string option"
  nc_avatar :: "string option"
  nc_municipality :: "id option"
  nc_active :: "bool option"
  nc_pending :: "bool option"
  nc_onboarded :: "bool option"

definition or_old :: "'a option \<Rightarrow> 'a option \<Rightarrow> 'a option" where
  "or_old x old = (case x of None \<Rightarrow> old | Some v \<Rightarrow> Some v)"

definition merge_client :: "client_dto \<Rightarrow> customer \<Rightarrow> customer" where
  "merge_client dto c = c\<lparr>cu_email := or_old (nc_email dto) (cu_email c), cu_first := or_old (nc_first dto) (cu_first c),
     cu_last := or_old (nc_last dto) (cu_last c), cu_phone := or_old (nc_phone dto) (cu_phone c),
     cu_avatar := or_old (nc_avatar dto) (cu_avatar c), cu_municipality := or_old (nc_municipality dto) (cu_municipality c),
     cu_active := given_or (nc_active dto) (cu_active c), cu_pending := given_or (nc_pending dto) (cu_pending c),
     cu_onboarded := given_or (nc_onboarded dto) (cu_onboarded c)\<rparr>"

definition new_client :: "instant \<Rightarrow> id \<Rightarrow> client_dto \<Rightarrow> bool \<Rightarrow> customer" where
  "new_client now i dto onboarded =
     \<lparr>cu_id = i, cu_clerk = nc_clerk dto, cu_email = map_option low (nc_email dto), cu_first = nc_first dto, cu_last = nc_last dto,
      cu_phone = nc_phone dto, cu_avatar = nc_avatar dto, cu_municipality = nc_municipality dto,
      cu_active = given_or (nc_active dto) True, cu_pending = given_or (nc_pending dto) False, cu_onboarded = onboarded,
      cu_created = now, cu_deleted = False\<rparr>"

definition create_client :: "instant \<Rightarrow> client_dto \<Rightarrow> people \<Rightarrow> error + people" where
  "create_client now dto w =
     bindE (guard_client_clerk w (nc_clerk dto)) (\<lambda>_.
     bindE (when_email (nc_email dto) (\<lambda>e. guard_client_email w e None)) (\<lambda>_.
     insert_customer (new_client now (pe_next w) dto (nc_municipality dto \<noteq> None \<or> nc_onboarded dto = Some True)) w))"

text \<open>
  A known customer is overwritten with what came; a deleted one is not found here, so the insertion hits
  the unique columns.
\<close>

definition client_from_clerk :: "instant \<Rightarrow> client_dto \<Rightarrow> people \<Rightarrow> error + people" where
  "client_from_clerk now dto w =
     (case client_by_clerk w (nc_clerk dto) False of
        Some c \<Rightarrow> save_customer (merge_client (dto\<lparr>nc_email := map_option low (nc_email dto)\<rparr>) c) w
      | None \<Rightarrow>
          bindE (when_email (nc_email dto) (\<lambda>e. guard_client_email w e None)) (\<lambda>_.
          insert_customer (new_client now (pe_next w) dto (nc_municipality dto \<noteq> None)) w))"

definition update_client :: "id \<Rightarrow> client_dto \<Rightarrow> people \<Rightarrow> error + people" where
  "update_client i dto w =
     bindE (find_client w i) (\<lambda>c.
     bindE (when_email (nc_email dto) (\<lambda>e. guard_client_email w e (Some i))) (\<lambda>_.
     let c1 = merge_client dto c in
     save_customer (if nc_email dto \<noteq> None \<and> nc_email dto \<noteq> Some [] then c1\<lparr>cu_email := map_option low (nc_email dto)\<rparr> else c1) w))"

definition soft_delete_client :: "id \<Rightarrow> people \<Rightarrow> people" where
  "soft_delete_client i w = w\<lparr>pe_customers := map (\<lambda>c. if cu_id c = i then c\<lparr>cu_deleted := True\<rparr> else c) (pe_customers w)\<rparr>"

definition remove_client :: "id \<Rightarrow> people \<Rightarrow> error + people" where
  "remove_client i w =
     bindE (guardE (list_ex (\<lambda>c. cu_id c = i) (pe_customers w)) (NotFound ''Client not found'')) (\<lambda>_. Inr (soft_delete_client i w))"

definition removeByClerkId :: "string \<Rightarrow> people \<Rightarrow> people" where
  "removeByClerkId k w = (case client_by_clerk w k False of None \<Rightarrow> w | Some c \<Rightarrow> soft_delete_client (cu_id c) w)"

subsection \<open>The gated customer of an invited administrator\<close>

definition tokenOwnsEmail :: "clerk_api \<Rightarrow> string \<Rightarrow> string \<Rightarrow> bool" where
  "tokenOwnsEmail api token claimed \<longleftrightarrow> ck_backoffice_key api \<and>
     (case ck_token api token of
        None \<Rightarrow> False
      | Some sub \<Rightarrow> sub \<noteq> [] \<and> (case ck_backoffice_user api sub of
          None \<Rightarrow> False
        | Some u \<Rightarrow> (case extractPrimaryEmail u of None \<Rightarrow> False | Some e \<Rightarrow> e \<noteq> [] \<and> low e = low claimed)))"

record provision_input =
  pi_email :: string
  pi_password :: string
  pi_first :: "string option"
  pi_last :: "string option"
  pi_phone :: "string option"

definition provision_row :: "instant \<Rightarrow> provision_input \<Rightarrow> string \<Rightarrow> people \<Rightarrow> customer \<times> bool" where
  "provision_row now inp k w =
     (case List.find (\<lambda>c. cu_email c = Some (low (pi_email inp))) (pe_customers w) of
        Some c \<Rightarrow> (c\<lparr>cu_clerk := k, cu_first := or_old (pi_first inp) (cu_first c), cu_last := or_old (pi_last inp) (cu_last c),
                    cu_phone := or_old (pi_phone inp) (cu_phone c), cu_active := False, cu_pending := True, cu_deleted := False\<rparr>, False)
      | None \<Rightarrow> (\<lparr>cu_id = pe_next w, cu_clerk = k, cu_email = Some (low (pi_email inp)), cu_first = pi_first inp,
                  cu_last = pi_last inp, cu_phone = pi_phone inp, cu_avatar = None, cu_municipality = None, cu_active = False,
                  cu_pending = True, cu_onboarded = False, cu_created = now, cu_deleted = False\<rparr>, True))"

definition provisionPending :: "clerk_api \<Rightarrow> instant \<Rightarrow> provision_input \<Rightarrow> people \<Rightarrow> error + people" where
  "provisionPending api now inp w =
     (let email = low (pi_email inp) in
      bindE (guardE (ck_store_key api) (InternalError ''CLERK_SECRET_KEY is not configured'')) (\<lambda>_.
      if ck_store_has_email api (pe_calls w) email then Inr w
      else case ck_create_customer api (pe_calls w) email of
        Inl f \<Rightarrow> Inl (InternalError (kf_detail f))
      | Inr k \<Rightarrow>
          let (row, fresh) = provision_row now inp k w; w1 = called (CallCreateCustomer email k) w
          in (if fresh then insert_customer row w1 else save_customer row w1)))"

text \<open>\<open>POST /users/storefront-mirror\<close>, the public route: the caller proves that the address is theirs.\<close>

definition mirror :: "clerk_api \<Rightarrow> instant \<Rightarrow> string option \<Rightarrow> provision_input \<Rightarrow> people \<Rightarrow> error + people" where
  "mirror api now bearer inp w =
     bindE (guardE (case bearer of None \<Rightarrow> False | Some t \<Rightarrow> t \<noteq> [] \<and> tokenOwnsEmail api t (pi_email inp))
              (Unauthorized ''Invalid or mismatched credentials'')) (\<lambda>_.
     provisionPending api now inp w)"

definition pending_by_email :: "people \<Rightarrow> string option \<Rightarrow> customer option" where
  "pending_by_email w email =
     (case email of
        None \<Rightarrow> None
      | Some t \<Rightarrow> (if t = [] then None
          else case List.find (\<lambda>c. cu_email c = Some (low t)) (live_customers w) of
            None \<Rightarrow> None
          | Some c \<Rightarrow> if cu_pending c then Some c else None))"

definition activateForEmail :: "string option \<Rightarrow> people \<Rightarrow> people" where
  "activateForEmail email w =
     (case pending_by_email w email of
        None \<Rightarrow> w
      | Some c \<Rightarrow> called (CallClearPending (cu_clerk c))
          (w\<lparr>pe_customers := save_by cu_id (c\<lparr>cu_active := True, cu_pending := False\<rparr>) (pe_customers w)\<rparr>))"

definition revokeForEmail :: "string option \<Rightarrow> people \<Rightarrow> people" where
  "revokeForEmail email w =
     (case pending_by_email w email of
        None \<Rightarrow> w
      | Some c \<Rightarrow> soft_delete_client (cu_id c) (called (CallDeleteCustomer (cu_clerk c)) w))"

subsection \<open>Signing in to the shop\<close>

definition clerk_profile :: "string \<Rightarrow> clerk_user \<Rightarrow> client_dto" where
  "clerk_profile k u = \<lparr>nc_clerk = k, nc_email = extractPrimaryEmail u, nc_first = ku_first u, nc_last = ku_last u, nc_phone = None,
     nc_avatar = None, nc_municipality = None, nc_active = None, nc_pending = None, nc_onboarded = None\<rparr>"

text \<open>A customer whose webhook was lost is created on the first request, only when the shop's own provider knows them.\<close>

definition recuperarDesdeClerk :: "clerk_api \<Rightarrow> instant \<Rightarrow> string \<Rightarrow> people \<Rightarrow> error + people" where
  "recuperarDesdeClerk api now k w =
     (if \<not> ck_store_key api then Inr w
      else case ck_store_user api k of None \<Rightarrow> Inr w | Some u \<Rightarrow> client_from_clerk now (clerk_profile k u) w)"

definition authenticate_client :: "clerk_api \<Rightarrow> instant \<Rightarrow> string \<Rightarrow> people \<Rightarrow> error + customer \<times> people" where
  "authenticate_client api now token w =
     (case ck_token api token of
        None \<Rightarrow> Inl (Unauthorized ''Invalid access token'')
      | Some k \<Rightarrow>
          bindE (if client_by_clerk w k True = None then recuperarDesdeClerk api now k w else Inr w) (\<lambda>w1.
          case client_by_clerk w1 k True of
            None \<Rightarrow> Inl (Unauthorized ''Client not registered'')
          | Some c \<Rightarrow>
              bindE (guardE (\<not> cu_deleted c \<and> cu_active c) (Unauthorized ''Account is inactive'')) (\<lambda>_. Inr (c, w1))))"

subsection \<open>Inviting a customer from the panel\<close>

definition revoke_customer_invitations :: "clerk_api \<Rightarrow> string \<Rightarrow> people \<Rightarrow> people" where
  "revoke_customer_invitations api email w =
     (case ck_pending api (pe_calls w) of
        None \<Rightarrow> w
      | Some invs \<Rightarrow> fold (\<lambda>(i, e) x. called (CallRevokeCustomerInvitation i) x) (filter (\<lambda>(i, e). low e = email) invs) w)"

definition invite_customer :: "clerk_api \<Rightarrow> string \<Rightarrow> people \<Rightarrow> error + string \<times> people" where
  "invite_customer api address w =
     (let email = low (js_trim address) in
      bindE (guardE (List.find (\<lambda>c. cu_email c = Some email) (live_customers w) = None) (Conflict ''Ya es cliente de la tienda'')) (\<lambda>_.
      bindE (guardE (ck_store_key api) (InternalError ''CLERK_SECRET_KEY is not configured'')) (\<lambda>_.
      bindE (guardE (\<not> ck_store_has_email api (pe_calls w) email) (Conflict ''Ya tiene cuenta en la tienda'')) (\<lambda>_.
      let w1 = revoke_customer_invitations api email w in
      case ck_invite api (pe_calls w1) (CallInviteCustomer email) of
        Inl f \<Rightarrow> Inl (InternalError (kf_detail f))
      | Inr i \<Rightarrow> Inr (i, called (CallInviteCustomer email) w1)))))"

end
