(* ===== verification/Accounts.thy ===== *)
theory Accounts
  imports Customers
begin

section \<open>Staff accounts, invitations and the provider's notices\<close>

text \<open>
  \<open>src/users/users.service.ts\<close>, \<open>src/users/invitations.service.ts\<close>, \<open>src/webhooks/webhooks.service.ts\<close> and
  \<open>src/auth/auth.service.ts\<close>. An optional field of a request that is absent is \<open>None\<close>. Side effects
  that the code runs best-effort (the mirror customer, the revocation at the provider) never fail here
  either.
\<close>

subsection \<open>The table of users\<close>

definition live_users :: "people \<Rightarrow> account list" where
  "live_users w = filter (\<lambda>u. \<not> us_deleted u) (pe_users w)"

definition unique_user :: "account \<Rightarrow> people \<Rightarrow> bool" where
  "unique_user u w \<longleftrightarrow> list_all (\<lambda>x. us_id x = us_id u \<or>
     ((us_clerk u = None \<or> us_clerk x \<noteq> us_clerk u) \<and> (us_email u = None \<or> us_email x \<noteq> us_email u) \<and>
      (us_org u = None \<or> us_org x \<noteq> us_org u))) (pe_users w)"

definition insert_user :: "account \<Rightarrow> people \<Rightarrow> error + people" where
  "insert_user u w =
     bindE (guardE (unique_user u w) (InternalError ''duplicate key'')) (\<lambda>_.
     Inr (w\<lparr>pe_users := pe_users w @ [u], pe_next := Suc (pe_next w)\<rparr>))"

definition save_user :: "account \<Rightarrow> people \<Rightarrow> error + people" where
  "save_user u w =
     bindE (guardE (unique_user u w) (InternalError ''duplicate key'')) (\<lambda>_.
     Inr (w\<lparr>pe_users := save_by us_id u (pe_users w)\<rparr>))"

definition find_user :: "people \<Rightarrow> id \<Rightarrow> error + account" where
  "find_user w i = from_option (NotFound ''User not found'') (List.find (\<lambda>u. us_id u = i) (live_users w))"

definition findByClerkId :: "people \<Rightarrow> string \<Rightarrow> account option" where
  "findByClerkId w k = List.find (\<lambda>u. us_clerk u = Some k) (live_users w)"

definition guard_user_email :: "people \<Rightarrow> string \<Rightarrow> id option \<Rightarrow> error + unit" where
  "guard_user_email w email ex =
     (case List.find (\<lambda>u. us_email u = Some email) (pe_users w) of
        None \<Rightarrow> Inr ()
      | Some u \<Rightarrow> guardE (ex = Some (us_id u)) (Conflict ''A user with that email already exists''))"

definition guard_user_clerk :: "people \<Rightarrow> string \<Rightarrow> error + unit" where
  "guard_user_clerk w k =
     guardE (List.find (\<lambda>u. us_clerk u = Some k) (pe_users w) = None) (Conflict ''A user with that clerkId already exists'')"

subsection \<open>Who may touch whom\<close>

definition assertPuedeAsignarRol :: "account option \<Rightarrow> role option \<Rightarrow> error + unit" where
  "assertPuedeAsignarRol actor rol =
     guardE (rol \<noteq> Some SUPER_ADMIN \<or> map_option us_role actor = Some SUPER_ADMIN)
       (Forbidden ''Only a super admin can grant the super admin role'')"

definition assertPuedeGestionar :: "account option \<Rightarrow> account \<Rightarrow> error + unit" where
  "assertPuedeGestionar actor objetivo =
     guardE (us_role objetivo \<noteq> SUPER_ADMIN \<or> map_option us_role actor = Some SUPER_ADMIN)
       (Forbidden ''Only a super admin can manage a super admin account'')"

definition active_super :: "account \<Rightarrow> bool" where
  "active_super u \<longleftrightarrow> us_role u = SUPER_ADMIN \<and> us_active u \<and> \<not> us_deleted u"

definition assertNotLastSuperAdmin :: "people \<Rightarrow> error + unit" where
  "assertNotLastSuperAdmin w =
     guardE (\<not> length (filter (\<lambda>u. us_role u = SUPER_ADMIN \<and> us_active u) (live_users w)) \<le> 1)
       (Forbidden ''Cannot disable or demote the last active super admin'')"

subsection \<open>Invitations\<close>

definition find_invitation :: "people \<Rightarrow> id \<Rightarrow> error + invitation" where
  "find_invitation w i = from_option (NotFound ''Invitation not found'') (List.find (\<lambda>x. in_id x = i) (pe_invitations w))"

definition save_invitation :: "invitation \<Rightarrow> people \<Rightarrow> people" where
  "save_invitation x w = w\<lparr>pe_invitations := save_by in_id x (pe_invitations w)\<rparr>"

definition findPendingByEmail :: "people \<Rightarrow> string \<Rightarrow> invitation option" where
  "findPendingByEmail w email =
     List.find (\<lambda>x. in_email x = low (js_trim email) \<and> in_status x = InvPending) (pe_invitations w)"

definition YA_EXISTE :: "string list" where
  "YA_EXISTE = [''duplicate_record'', ''form_identifier_exists'', ''identifier_already_signed_up'']"

definition traducirFalloDeClerk :: "clerk_failure \<Rightarrow> error" where
  "traducirFalloDeClerk f =
     (case kf_code f of
        Some c \<Rightarrow> if c \<in> set YA_EXISTE then Conflict ''Clerk ya tiene una cuenta con ese correo'' else ServiceUnavailable (kf_detail f)
      | None \<Rightarrow> ServiceUnavailable (kf_detail f))"

record invite_dto =
  iv_email :: string
  iv_role :: role
  iv_roles :: "id list option"
  iv_first :: "string option"
  iv_last :: "string option"
  iv_org :: "string option"

text \<open>The parameters added to the address of the acceptance page.\<close>

definition redirect_field :: "string \<Rightarrow> string option \<Rightarrow> (string \<times> string) list" where
  "redirect_field k v = (case v of None \<Rightarrow> [] | Some t \<Rightarrow> if js_trim t = [] then [] else [(k, js_trim t)])"

definition buildInvitationRedirectUrl :: "clerk_api \<Rightarrow> invite_dto \<Rightarrow> (string \<times> string) list" where
  "buildInvitationRedirectUrl api dto =
     (if \<not> ck_redirect api then []
      else redirect_field ''firstName'' (iv_first dto) @ redirect_field ''lastName'' (iv_last dto) @
           redirect_field ''email'' (Some (iv_email dto)))"

definition clerk_invitation_call :: "clerk_api \<Rightarrow> invite_dto \<Rightarrow> account \<Rightarrow> clerk_call" where
  "clerk_invitation_call api dto inviter =
     (if iv_org dto \<noteq> None \<and> iv_org dto \<noteq> Some []
      then CallOrgInvite (given_or (iv_org dto) []) (iv_email dto)
             (if is_system_admin (iv_role dto) then ''org:admin'' else ''org:member'') (us_clerk inviter)
      else CallInvite (iv_email dto) (iv_role dto) (buildInvitationRedirectUrl api dto) (ck_notify api))"

definition sendClerkInvitation :: "clerk_api \<Rightarrow> invite_dto \<Rightarrow> account \<Rightarrow> people \<Rightarrow> error + string \<times> people" where
  "sendClerkInvitation api dto inviter w =
     bindE (guardE (ck_backoffice_key api) (InternalError ''CLERK_BACKOFFICE_SECRET_KEY is not configured'')) (\<lambda>_.
     let c = clerk_invitation_call api dto inviter in
     case ck_invite api (pe_calls w) c of
       Inl f \<Rightarrow> Inl (traducirFalloDeClerk f)
     | Inr k \<Rightarrow> Inr (k, called c w))"

definition createAndSendInvitation :: "clerk_api \<Rightarrow> instant \<Rightarrow> invite_dto \<Rightarrow> account \<Rightarrow> people \<Rightarrow> error + people" where
  "createAndSendInvitation api now dto inviter w =
     bindE (guardE (\<not> (iv_role dto = SUPER_ADMIN \<and> us_role inviter \<noteq> SUPER_ADMIN)) (Forbidden ''Only a super admin can invite a super admin'')) (\<lambda>_.
     let email = js_trim (low (iv_email dto)); roleIds = js_set (given_or (iv_roles dto) []) in
     bindE (guardE (\<not> (is_system_admin (iv_role dto) \<and> roleIds \<noteq> [])) (BadRequest ''Admin tiers do not take managed roles on an invitation'')) (\<lambda>_.
     bindE (if iv_role dto = STAFF then assertActiveRoles (pe_access w) roleIds else Inr ()) (\<lambda>_.
     bindE (guardE (List.find (\<lambda>u. us_email u = Some email \<and> us_active u) (live_users w) = None) (Conflict ''Ya hay un usuario activo con ese correo'')) (\<lambda>_.
     bindE (guardE (List.find (\<lambda>x. in_email x = email \<and> in_status x = InvPending) (pe_invitations w) = None) (Conflict ''Ya hay una invitacion pendiente'')) (\<lambda>_.
     bindE (sendClerkInvitation api dto inviter w) (\<lambda>(k, w1).
     Inr (w1\<lparr>pe_invitations := pe_invitations w1 @
            [\<lparr>in_id = pe_next w1, in_email = email, in_role = iv_role dto, in_roles = roleIds, in_inviter = Some (us_id inviter),
              in_org = iv_org dto, in_first = iv_first dto, in_last = iv_last dto, in_clerk = Some k, in_status = InvPending,
              in_accepted = None, in_created = now\<rparr>], pe_next := Suc (pe_next w1)\<rparr>)))))))"

definition revokeClerkInvitation :: "clerk_api \<Rightarrow> string \<Rightarrow> people \<Rightarrow> people" where
  "revokeClerkInvitation api k w = (if ck_backoffice_key api then called (CallRevokeInvitation k) w else w)"

definition revoke_at_clerk :: "clerk_api \<Rightarrow> invitation \<Rightarrow> people \<Rightarrow> people" where
  "revoke_at_clerk api x w = (case in_clerk x of None \<Rightarrow> w | Some k \<Rightarrow> if k = [] then w else revokeClerkInvitation api k w)"

definition revoke_invitation :: "clerk_api \<Rightarrow> id \<Rightarrow> people \<Rightarrow> error + people" where
  "revoke_invitation api i w =
     bindE (find_invitation w i) (\<lambda>x.
     if in_status x = InvRevoked then Inr w
     else if in_status x = InvAccepted then Inl (Conflict ''Cannot revoke an accepted invitation.'')
     else Inr (save_invitation (x\<lparr>in_status := InvRevoked\<rparr>) (revoke_at_clerk api x w)))"

text \<open>A failed revocation is logged and skipped.\<close>

definition revoke_quietly :: "clerk_api \<Rightarrow> invitation \<Rightarrow> people \<Rightarrow> people" where
  "revoke_quietly api x w = (case revoke_invitation api (in_id x) w of Inl _ \<Rightarrow> w | Inr w1 \<Rightarrow> w1)"

definition revokePendingForEmail :: "clerk_api \<Rightarrow> string option \<Rightarrow> people \<Rightarrow> people" where
  "revokePendingForEmail api email w =
     (let e = js_trim (low (given_or email [])) in
      if e = [] then w
      else fold (revoke_quietly api) (filter (\<lambda>x. in_email x = e \<and> in_status x = InvPending) (pe_invitations w)) w)"

definition resend_dto :: "invitation \<Rightarrow> invite_dto" where
  "resend_dto x = \<lparr>iv_email = in_email x, iv_role = in_role x, iv_roles = None, iv_first = in_first x, iv_last = in_last x, iv_org = in_org x\<rparr>"

definition resend :: "clerk_api \<Rightarrow> id \<Rightarrow> account \<Rightarrow> people \<Rightarrow> error + people" where
  "resend api i inviter w =
     bindE (find_invitation w i) (\<lambda>x.
     bindE (guardE (in_status x \<noteq> InvAccepted) (Conflict ''Cannot resend an accepted invitation.'')) (\<lambda>_.
     let w1 = (if in_status x = InvPending then revoke_at_clerk api x w else w) in
     bindE (sendClerkInvitation api (resend_dto x) inviter w1) (\<lambda>(k, w2).
     Inr (save_invitation (x\<lparr>in_clerk := Some k, in_status := InvPending\<rparr>) w2))))"

definition markAccepted :: "instant \<Rightarrow> invitation \<Rightarrow> people \<Rightarrow> people" where
  "markAccepted now x w = save_invitation (x\<lparr>in_status := InvAccepted, in_accepted := Some now\<rparr>) w"

subsection \<open>The operations on users\<close>

record user_dto =
  nu_clerk :: "string option"
  nu_role :: "role option"
  nu_email :: "string option"
  nu_first :: "string option"
  nu_last :: "string option"
  nu_phone :: "string option"
  nu_avatar :: "string option"
  nu_business :: "string option"
  nu_business_text :: "string option"
  nu_business_logo :: "string option"
  nu_org :: "string option"
  nu_active :: "bool option"
  nu_created_by :: "id option"

definition merge_user :: "user_dto \<Rightarrow> account \<Rightarrow> account" where
  "merge_user dto u = u\<lparr>us_role := given_or (nu_role dto) (us_role u), us_email := or_old (nu_email dto) (us_email u),
     us_first := or_old (nu_first dto) (us_first u), us_last := or_old (nu_last dto) (us_last u),
     us_phone := or_old (nu_phone dto) (us_phone u), us_avatar := or_old (nu_avatar dto) (us_avatar u),
     us_business := or_old (nu_business dto) (us_business u), us_business_text := or_old (nu_business_text dto) (us_business_text u),
     us_business_logo := or_old (nu_business_logo dto) (us_business_logo u), us_org := or_old (nu_org dto) (us_org u),
     us_active := given_or (nu_active dto) (us_active u), us_created_by := or_old (nu_created_by dto) (us_created_by u)\<rparr>"

definition new_user :: "instant \<Rightarrow> id \<Rightarrow> role \<Rightarrow> user_dto \<Rightarrow> bool \<Rightarrow> account" where
  "new_user now i r dto active =
     \<lparr>us_id = i, us_clerk = nu_clerk dto, us_role = r, us_email = map_option low (nu_email dto), us_first = nu_first dto,
      us_last = nu_last dto, us_phone = nu_phone dto, us_avatar = nu_avatar dto, us_business = nu_business dto,
      us_business_text = nu_business_text dto, us_business_logo = nu_business_logo dto, us_org = nu_org dto,
      us_active = active, us_approved = None, us_created_by = nu_created_by dto, us_created = now, us_deleted = False\<rparr>"

text \<open>The role is mandatory in this request; the rest as the request says.\<close>

definition create_user :: "instant \<Rightarrow> role \<Rightarrow> user_dto \<Rightarrow> account option \<Rightarrow> people \<Rightarrow> error + people" where
  "create_user now r dto actor w =
     bindE (assertPuedeAsignarRol actor (Some r)) (\<lambda>_.
     bindE (case nu_clerk dto of None \<Rightarrow> Inr () | Some k \<Rightarrow> if k = [] then Inr () else guard_user_clerk w k) (\<lambda>_.
     bindE (when_email (nu_email dto) (\<lambda>e. guard_user_email w e None)) (\<lambda>_.
     insert_user (new_user now (pe_next w) r dto (given_or (nu_active dto) True)) w)))"

definition own_account :: "account \<Rightarrow> user_dto \<Rightarrow> error + unit" where
  "own_account u dto =
     bindE (guardE (\<not> (nu_role dto \<noteq> None \<and> nu_role dto \<noteq> Some (us_role u))) (Forbidden ''Cannot change your own role'')) (\<lambda>_.
     guardE (nu_active dto \<noteq> Some False) (Forbidden ''Cannot deactivate your own account''))"

definition loses_super :: "account \<Rightarrow> user_dto \<Rightarrow> bool" where
  "loses_super u dto \<longleftrightarrow>
     (us_role u = SUPER_ADMIN \<and> nu_role dto \<noteq> None \<and> nu_role dto \<noteq> Some SUPER_ADMIN) \<or>
     (us_role u = SUPER_ADMIN \<and> nu_active dto = Some False)"

definition updated_user :: "instant \<Rightarrow> user_dto \<Rightarrow> account \<Rightarrow> account" where
  "updated_user now dto u =
     (let u1 = merge_user dto u;
          u2 = (if nu_email dto \<noteq> None \<and> nu_email dto \<noteq> Some [] then u1\<lparr>us_email := map_option low (nu_email dto)\<rparr> else u1)
      in if us_active u2 \<and> us_approved u2 = None then u2\<lparr>us_approved := Some now\<rparr> else u2)"

definition just_approved :: "user_dto \<Rightarrow> account \<Rightarrow> bool" where
  "just_approved dto u \<longleftrightarrow> us_active (merge_user dto u) \<and> us_approved u = None"

definition update_user :: "instant \<Rightarrow> id \<Rightarrow> user_dto \<Rightarrow> account option \<Rightarrow> people \<Rightarrow> error + people" where
  "update_user now i dto actor w =
     bindE (find_user w i) (\<lambda>u.
     bindE (assertPuedeGestionar actor u) (\<lambda>_.
     bindE (assertPuedeAsignarRol actor (nu_role dto)) (\<lambda>_.
     bindE (if map_option us_id actor = Some i then own_account u dto else Inr ()) (\<lambda>_.
     bindE (if loses_super u dto then assertNotLastSuperAdmin w else Inr ()) (\<lambda>_.
     bindE (when_email (nu_email dto) (\<lambda>e. guard_user_email w e (Some i))) (\<lambda>_.
     let u1 = updated_user now dto u in
     bindE (save_user u1 w) (\<lambda>w1.
     Inr (if just_approved dto u then activateForEmail (us_email u1) w1 else w1))))))))"

definition setPassword :: "clerk_api \<Rightarrow> id \<Rightarrow> string \<Rightarrow> account option \<Rightarrow> people \<Rightarrow> error + people" where
  "setPassword api i password actor w =
     bindE (guardE (map_option us_id actor \<noteq> Some i) (Forbidden ''Change your own password from your profile'')) (\<lambda>_.
     bindE (find_user w i) (\<lambda>u.
     bindE (assertPuedeGestionar actor u) (\<lambda>_.
     bindE (guardE (us_clerk u \<noteq> None \<and> us_clerk u \<noteq> Some []) (BadRequest ''User has no Clerk account yet'')) (\<lambda>_.
     bindE (guardE (ck_backoffice_key api) (InternalError ''CLERK_BACKOFFICE_SECRET_KEY is not configured'')) (\<lambda>_.
     let k = given_or (us_clerk u) [] in
     case ck_set_password api (pe_calls w) k password of
       Inl f \<Rightarrow> Inl (InternalError (kf_detail f))
     | Inr _ \<Rightarrow> Inr (called (CallSetPassword k password) w))))))"

definition remove_user :: "clerk_api \<Rightarrow> id \<Rightarrow> account option \<Rightarrow> people \<Rightarrow> error + people" where
  "remove_user api i actor w =
     bindE (find_user w i) (\<lambda>u.
     bindE (guardE (map_option us_id actor \<noteq> Some i) (Forbidden ''Cannot delete your own account'')) (\<lambda>_.
     bindE (assertPuedeGestionar actor u) (\<lambda>_.
     bindE (if us_role u = SUPER_ADMIN then assertNotLastSuperAdmin w else Inr ()) (\<lambda>_.
     let w1 = w\<lparr>pe_users := save_by us_id (u\<lparr>us_active := False, us_deleted := True\<rparr>) (pe_users w)\<rparr>;
         w2 = revokePendingForEmail api (us_email u) w1
     in Inr (if us_approved u = None then revokeForEmail (us_email u) w2 else w2)))))"

definition restore_user :: "id \<Rightarrow> people \<Rightarrow> error + people" where
  "restore_user i w =
     bindE (from_option (NotFound ''User not found'') (List.find (\<lambda>u. us_id u = i) (pe_users w))) (\<lambda>u.
     if \<not> us_deleted u then Inr w
     else
     bindE (when_present (us_email u) (\<lambda>e. guardE (List.find (\<lambda>x. us_email x = Some e) (live_users w) = None) (Conflict ''Another active user with that email''))) (\<lambda>_.
     bindE (when_present (us_clerk u) (\<lambda>k. guardE (findByClerkId w k = None) (Conflict ''Another active user with that clerkId''))) (\<lambda>_.
     Inr (w\<lparr>pe_users := save_by us_id (u\<lparr>us_active := True, us_deleted := False\<rparr>) (pe_users w)\<rparr>))))"

subsection \<open>The provider's notices\<close>

record clerk_data =
  kd_email :: "string option"
  kd_first :: "string option"
  kd_last :: "string option"
  kd_role :: "role option"
  kd_roles :: "id list option"
  kd_phone :: "string option"
  kd_business :: "string option"

definition no_user_dto :: user_dto where
  "no_user_dto = \<lparr>nu_clerk = None, nu_role = None, nu_email = None, nu_first = None, nu_last = None, nu_phone = None, nu_avatar = None,
     nu_business = None, nu_business_text = None, nu_business_logo = None, nu_org = None, nu_active = None, nu_created_by = None\<rparr>"

text \<open>A new account is inactive until it is approved; a known one never changes its activation here.\<close>

definition createOrUpdateFromClerk :: "instant \<Rightarrow> string \<Rightarrow> clerk_data \<Rightarrow> people \<Rightarrow> error + people" where
  "createOrUpdateFromClerk now k data w =
     (case List.find (\<lambda>u. us_clerk u = Some k) (pe_users w) of
        None \<Rightarrow>
          bindE (when_email (kd_email data) (\<lambda>e. guard_user_email w e None)) (\<lambda>_.
          bindE (insert_user (new_user now (pe_next w) (given_or (kd_role data) STAFF)
             (no_user_dto\<lparr>nu_clerk := Some k, nu_email := kd_email data, nu_first := kd_first data, nu_last := kd_last data,
                nu_phone := kd_phone data, nu_business := kd_business data\<rparr>) False) w) (\<lambda>w1.
          Inr (w1\<lparr>pe_access := assignRolesLenient (pe_next w) (given_or (kd_roles data) []) (pe_access w1)\<rparr>)))
      | Some u \<Rightarrow>
          bindE (when_email (kd_email data) (\<lambda>e. guard_user_email w e (Some (us_id u)))) (\<lambda>_.
          save_user (u\<lparr>us_email := or_old (map_option low (kd_email data)) (us_email u), us_first := or_old (kd_first data) (us_first u),
             us_last := or_old (kd_last data) (us_last u), us_phone := or_old (kd_phone data) (us_phone u),
             us_business := or_old (kd_business data) (us_business u), us_role := given_or (kd_role data) (us_role u)\<rparr>) w))"

definition deactivateByClerkId :: "string \<Rightarrow> people \<Rightarrow> people" where
  "deactivateByClerkId k w =
     (case findByClerkId w k of
        None \<Rightarrow> w
      | Some u \<Rightarrow> w\<lparr>pe_users := save_by us_id (u\<lparr>us_active := False\<rparr>) (pe_users w)\<rparr>)"

definition non_empty :: "string option \<Rightarrow> string option" where
  "non_empty x = (if x = Some [] then None else x)"

definition profile_of :: "clerk_user \<Rightarrow> role option \<Rightarrow> id list option \<Rightarrow> clerk_data" where
  "profile_of u r ids = \<lparr>kd_email = extractPrimaryEmail u, kd_first = ku_first u, kd_last = ku_last u, kd_role = r, kd_roles = ids,
     kd_phone = non_empty (ku_meta_phone u), kd_business = non_empty (ku_meta_business u)\<rparr>"

definition createAdminUserFromInvitation :: "instant \<Rightarrow> clerk_user \<Rightarrow> people \<Rightarrow> error + people" where
  "createAdminUserFromInvitation now data w =
     (case non_empty (extractPrimaryEmail data) of
        None \<Rightarrow> Inr w
      | Some email \<Rightarrow>
          (case findPendingByEmail w email of
             None \<Rightarrow> Inr w
           | Some x \<Rightarrow>
               bindE (createOrUpdateFromClerk now (ku_id data) (profile_of data (Some (in_role x)) (Some (in_roles x))) w) (\<lambda>w1.
               Inr (markAccepted now x w1))))"

definition updateAdminUser :: "instant \<Rightarrow> clerk_user \<Rightarrow> people \<Rightarrow> error + people" where
  "updateAdminUser now data w = createOrUpdateFromClerk now (ku_id data) (profile_of data None None) w"

datatype clerk_event = UserCreated clerk_user | UserUpdated clerk_user | UserDeleted string | OtherEvent string

record webhook_config =
  wc_secret :: "string option"
  wc_allow_unverified :: bool
  wc_parse :: "string \<Rightarrow> clerk_event option"
  wc_verify :: "string \<Rightarrow> string \<Rightarrow> (string \<times> string) list \<Rightarrow> clerk_event option"

text \<open>Without a secret a notice is refused, unless unsigned notices were allowed expressly.\<close>

definition verifyWebhook :: "webhook_config \<Rightarrow> string \<Rightarrow> (string \<times> string) list \<Rightarrow> error + clerk_event" where
  "verifyWebhook cfg raw headers =
     (case non_empty (wc_secret cfg) of
        None \<Rightarrow>
          bindE (guardE (wc_allow_unverified cfg) (Unauthorized ''Clerk webhook secret is not configured'')) (\<lambda>_.
          from_option (BadRequest ''Invalid JSON webhook payload'') (wc_parse cfg raw))
      | Some secret \<Rightarrow> from_option (InternalError ''signature'') (wc_verify cfg secret raw headers))"

fun on_admin_event :: "instant \<Rightarrow> clerk_event \<Rightarrow> people \<Rightarrow> error + people" where
  "on_admin_event now (UserCreated u) w = createAdminUserFromInvitation now u w"
| "on_admin_event now (UserUpdated u) w = updateAdminUser now u w"
| "on_admin_event now (UserDeleted k) w = Inr (deactivateByClerkId k w)"
| "on_admin_event now (OtherEvent t) w = Inr w"

definition handleAdminWebhook :: "webhook_config \<Rightarrow> instant \<Rightarrow> string \<Rightarrow> (string \<times> string) list \<Rightarrow> people \<Rightarrow> error + people" where
  "handleAdminWebhook cfg now raw headers w = bindE (verifyWebhook cfg raw headers) (\<lambda>ev. on_admin_event now ev w)"

fun on_store_event :: "instant \<Rightarrow> clerk_event \<Rightarrow> people \<Rightarrow> error + people" where
  "on_store_event now (UserCreated u) w = client_from_clerk now (clerk_profile (ku_id u) u) w"
| "on_store_event now (UserUpdated u) w = client_from_clerk now (clerk_profile (ku_id u) u) w"
| "on_store_event now (UserDeleted k) w = Inr (removeByClerkId k w)"
| "on_store_event now (OtherEvent t) w = Inr w"

definition handleStoreWebhook :: "webhook_config \<Rightarrow> instant \<Rightarrow> string \<Rightarrow> (string \<times> string) list \<Rightarrow> people \<Rightarrow> error + people" where
  "handleStoreWebhook cfg now raw headers w = bindE (verifyWebhook cfg raw headers) (\<lambda>ev. on_store_event now ev w)"

subsection \<open>Signing in to the panel\<close>

definition authenticateByBearerToken :: "clerk_api \<Rightarrow> string \<Rightarrow> people \<Rightarrow> error + account" where
  "authenticateByBearerToken api token w =
     bindE (from_option (Unauthorized ''Invalid access token'') (ck_token api token)) (\<lambda>k.
     bindE (from_option (Unauthorized ''NOT_REGISTERED'') (findByClerkId w k)) (\<lambda>u.
     bindE (guardE (us_active u) (Unauthorized ''ACCOUNT_INACTIVE'')) (\<lambda>_. Inr u)))"

end
