(* ===== verification/Product_Catalog.thy ===== *)
theory Product_Catalog
  imports Taxonomy
begin

section \<open>Editing products, and the catalogue's invariant\<close>

text \<open>
  The editing half of \<open>src/products/products.service.ts\<close>. Together with the editing of the taxonomy it keeps
  the catalogue in one piece: slugs and stock codes are never repeated (deleted rows included), every
  product that is not deleted is in a live category, and every live category hangs off a live department.
  One operation breaks the last rule, and the theorem at the end says which.
\<close>

record product_dto =
  pd_category :: id
  pd_sku :: "string option"
  pd_name :: string
  pd_slug :: "string option"
  pd_description :: "string option"
  pd_image :: "string option"
  pd_format :: "string option"
  pd_expiry :: "string option"
  pd_measure :: "string option"
  pd_price :: rat
  pd_discount :: "rat option"
  pd_featured :: "bool option"
  pd_sort :: "int option"
  pd_active :: "bool option"

record product_patch =
  pp_category :: "id option"
  pp_sku :: "string option"
  pp_name :: "string option"
  pp_slug :: "string option"
  pp_description :: "string option"
  pp_image :: "string option"
  pp_format :: "string option"
  pp_expiry :: "string option"
  pp_measure :: "string option"
  pp_price :: "rat option"
  pp_discount :: "rat option"
  pp_featured :: "bool option"
  pp_sort :: "int option"
  pp_active :: "bool option"

subsection \<open>Codes and slugs\<close>

definition guardDuplicateSku :: "db \<Rightarrow> string \<Rightarrow> id option \<Rightarrow> error + unit" where
  "guardDuplicateSku d sku exclude =
     guardE (\<forall>p \<in> set (d_products d). p_sku p = sku \<longrightarrow> exclude = Some (p_id p)) (Conflict ''A product with that SKU already exists'')"

definition generateUniqueSku :: "(string \<Rightarrow> string) \<Rightarrow> db \<Rightarrow> string \<Rightarrow> error + string" where
  "generateUniqueSku unaccent d raw =
     (let up = map upper (slugify unaccent raw);
          base = (if up = [] then ''SKU'' else up);
          taken = map p_sku (d_products d)
      in from_option (InternalError ''no sku'') (next_code (Suc (length taken)) base 2 base taken))"

definition product_slug :: "(string \<Rightarrow> string) \<Rightarrow> db \<Rightarrow> string \<Rightarrow> id option \<Rightarrow> error + string" where
  "product_slug unaccent d raw exclude =
     free_slug unaccent (map p_slug (filter (\<lambda>p. exclude \<noteq> Some (p_id p)) (d_products d))) raw"

definition chosen_sku :: "(string \<Rightarrow> string) \<Rightarrow> db \<Rightarrow> product_dto \<Rightarrow> error + string" where
  "chosen_sku unaccent d dto =
     (if pd_sku dto \<noteq> None \<and> pd_sku dto \<noteq> Some []
      then bindE (guardDuplicateSku d (js_trim (given_or (pd_sku dto) [])) None) (\<lambda>_. Inr (js_trim (given_or (pd_sku dto) [])))
      else generateUniqueSku unaccent d (pd_name dto))"

subsection \<open>The operations\<close>

definition new_product :: "instant \<Rightarrow> id \<Rightarrow> id \<Rightarrow> string \<Rightarrow> string \<Rightarrow> product_dto \<Rightarrow> product" where
  "new_product now pid cid sku slug dto =
     \<lparr>p_id = pid, p_name = pd_name dto, p_base_price = to_fixed2 (rnd64 (pd_price dto)),
      p_discount = to_fixed2 (rnd64 (given_or (pd_discount dto) 0)), p_active = given_or (pd_active dto) True, p_deleted = False,
      p_category = cid, p_sku = sku, p_slug = slug, p_description = pd_description dto, p_image = pd_image dto,
      p_format = pd_format dto, p_expiry = pd_expiry dto, p_measure = given_or (pd_measure dto) ''unidad'',
      p_featured = given_or (pd_featured dto) False, p_sort = given_or (pd_sort dto) 0, p_created = now\<rparr>"

definition create_product :: "(string \<Rightarrow> string) \<Rightarrow> instant \<Rightarrow> product_dto \<Rightarrow> db \<Rightarrow> error + db" where
  "create_product unaccent now dto d =
     bindE (getChildCategoryOrThrow d (pd_category dto)) (\<lambda>c.
     bindE (chosen_sku unaccent d dto) (\<lambda>sku.
     bindE (product_slug unaccent d (given_or (pd_slug dto) (pd_name dto)) None) (\<lambda>slug.
     Inr (d\<lparr>d_products := d_products d @ [new_product now (d_next d) (cat_id c) sku slug dto], d_next := Suc (d_next d)\<rparr>))))"

definition save_product :: "product \<Rightarrow> db \<Rightarrow> db" where
  "save_product p d = d\<lparr>d_products := save_by p_id p (d_products d)\<rparr>"

definition or_null :: "'a option \<Rightarrow> 'a option \<Rightarrow> 'a option" where
  "or_null x old = (case x of None \<Rightarrow> old | Some v \<Rightarrow> Some v)"

definition patched_product :: "product_patch \<Rightarrow> id \<Rightarrow> string \<Rightarrow> string \<Rightarrow> product \<Rightarrow> product" where
  "patched_product dto cid sku slug p = p\<lparr>
     p_category := cid, p_sku := sku, p_slug := slug, p_name := given_or (pp_name dto) (p_name p),
     p_description := or_null (pp_description dto) (p_description p), p_image := or_null (pp_image dto) (p_image p),
     p_format := or_null (pp_format dto) (p_format p), p_expiry := or_null (pp_expiry dto) (p_expiry p),
     p_measure := given_or (pp_measure dto) (p_measure p),
     p_base_price := (case pp_price dto of None \<Rightarrow> p_base_price p | Some x \<Rightarrow> to_fixed2 (rnd64 x)),
     p_discount := (case pp_discount dto of None \<Rightarrow> p_discount p | Some x \<Rightarrow> to_fixed2 (rnd64 x)),
     p_featured := given_or (pp_featured dto) (p_featured p), p_sort := given_or (pp_sort dto) (p_sort p),
     p_active := given_or (pp_active dto) (p_active p)\<rparr>"

text \<open>A new name without a slug of its own gives a new slug.\<close>

definition update_product :: "(string \<Rightarrow> string) \<Rightarrow> id \<Rightarrow> product_patch \<Rightarrow> db \<Rightarrow> error + db" where
  "update_product unaccent pid dto d =
     bindE (find_product d pid) (\<lambda>p.
     bindE (case pp_category dto of None \<Rightarrow> Inr (p_category p)
            | Some cid \<Rightarrow> bindE (getChildCategoryOrThrow d cid) (\<lambda>c. Inr (cat_id c))) (\<lambda>cid.
     bindE (case pp_sku dto of None \<Rightarrow> Inr (p_sku p)
            | Some s \<Rightarrow> bindE (guardDuplicateSku d (js_trim s) (Some pid)) (\<lambda>_. Inr (js_trim s))) (\<lambda>sku.
     bindE (case (pp_slug dto, pp_name dto) of (Some s, _) \<Rightarrow> product_slug unaccent d s (Some pid)
            | (None, Some name) \<Rightarrow> product_slug unaccent d name (Some pid)
            | (None, None) \<Rightarrow> Inr (p_slug p)) (\<lambda>slug.
     Inr (save_product (patched_product dto cid sku slug p) d)))))"

definition physical_stock :: "db \<Rightarrow> id \<Rightarrow> int" where
  "physical_stock d pid = sum_where (\<lambda>r. inv_product r = pid) inv_quantity (s_rows (d_stock d))"

definition remove_product :: "id \<Rightarrow> db \<Rightarrow> error + db" where
  "remove_product pid d =
     bindE (find_product d pid) (\<lambda>p.
     bindE (guardE (\<not> 0 < physical_stock d (p_id p)) (Conflict ''No se puede eliminar un producto con existencias'')) (\<lambda>_.
     Inr (save_product (p\<lparr>p_deleted := True\<rparr>) d)))"

subsection \<open>The invariant\<close>

definition is_department :: "category list \<Rightarrow> id \<Rightarrow> bool" where
  "is_department cs i \<longleftrightarrow> (\<exists>c \<in> set cs. cat_id c = i \<and> cat_parent c = None \<and> \<not> cat_deleted c)"

definition is_child :: "category list \<Rightarrow> id \<Rightarrow> bool" where
  "is_child cs i \<longleftrightarrow> (\<exists>c \<in> set cs. cat_id c = i \<and> cat_parent c \<noteq> None \<and> \<not> cat_deleted c)"

definition two_levels :: "category list \<Rightarrow> bool" where
  "two_levels cs \<longleftrightarrow> (\<forall>c \<in> set cs. cat_deleted c \<or> (case cat_parent c of None \<Rightarrow> True | Some p \<Rightarrow> is_department cs p))"

lemma two_levels_iff: "two_levels cs \<longleftrightarrow> (\<forall>c \<in> set cs. \<forall>p. cat_parent c = Some p \<longrightarrow> \<not> cat_deleted c \<longrightarrow> is_department cs p)"
  by (auto simp: two_levels_def split: option.splits)

definition categories_ok :: "nat \<Rightarrow> category list \<Rightarrow> bool" where
  "categories_ok nxt cs \<longleftrightarrow> distinct (map cat_id cs) \<and> distinct (map cat_slug cs) \<and> (\<forall>c \<in> set cs. cat_id c < nxt) \<and> two_levels cs"

definition products_ok :: "nat \<Rightarrow> category list \<Rightarrow> product list \<Rightarrow> bool" where
  "products_ok nxt cs ps \<longleftrightarrow> distinct (map p_id ps) \<and> distinct (map p_slug ps) \<and> distinct (map p_sku ps) \<and>
     (\<forall>p \<in> set ps. p_id p < nxt \<and> (\<not> p_deleted p \<longrightarrow> is_child cs (p_category p)))"

definition catalogue_ok :: "db \<Rightarrow> bool" where
  "catalogue_ok d \<longleftrightarrow> categories_ok (d_next d) (d_categories d) \<and> products_ok (d_next d) (d_categories d) (d_products d)"

text \<open>The one edit the steps leave out: that of a category, called on a department, with a department to hang it off.\<close>

definition nests_department :: "id \<Rightarrow> category_patch \<Rightarrow> db \<Rightarrow> bool" where
  "nests_department cid pt d \<longleftrightarrow> kp_department pt \<noteq> None \<and> is_department (d_categories d) cid"

text \<open>
  The operations, one step each. \<open>Cat_update\<close> is every edition of a category but that one.
\<close>

inductive catalogue_step :: "db \<Rightarrow> db \<Rightarrow> bool" where
  Cat_new_department: "createDepartment unaccent now dto d = Inr d' \<Longrightarrow> catalogue_step d d'"
| Cat_new_category: "createCategory unaccent now dep dto d = Inr d' \<Longrightarrow> catalogue_step d d'"
| Cat_update_department: "updateDepartment unaccent cid pt d = Inr d' \<Longrightarrow> catalogue_step d d'"
| Cat_update: "updateCategory unaccent cid pt d = Inr d' \<Longrightarrow>
    \<not> nests_department cid pt d \<Longrightarrow> catalogue_step d d'"
| Cat_remove_department: "removeDepartment cid d = Inr d' \<Longrightarrow> catalogue_step d d'"
| Cat_remove: "removeCategory cid d = Inr d' \<Longrightarrow> catalogue_step d d'"
| Cat_new_product: "create_product unaccent now pdto d = Inr d' \<Longrightarrow> catalogue_step d d'"
| Cat_update_product: "update_product unaccent pid ppt d = Inr d' \<Longrightarrow> catalogue_step d d'"
| Cat_remove_product: "remove_product pid d = Inr d' \<Longrightarrow> catalogue_step d d'"

subsection \<open>Lookups and free names\<close>

lemma getDepartment_Inr: "getDepartment d i = Inr c \<Longrightarrow>
    c \<in> set (d_categories d) \<and> cat_id c = i \<and> cat_parent c = None \<and> \<not> cat_deleted c"
  by (auto simp: getDepartment_def live_categories_def find_Some_iff dest: nth_mem)

lemma getCategory_Inr: "getCategory d i = Inr c \<Longrightarrow> c \<in> set (d_categories d) \<and> cat_id c = i \<and> \<not> cat_deleted c"
  by (auto simp: getCategory_def live_categories_def find_Some_iff dest: nth_mem)

lemma getChildCategory_Inr: "getChildCategoryOrThrow d i = Inr c \<Longrightarrow> is_child (d_categories d) (cat_id c) \<and> cat_id c = i"
  by (auto simp: getChildCategoryOrThrow_def bindE_eq_Inr is_child_def dest!: getCategory_Inr)

lemma find_product_Inr: "find_product d i = Inr p \<Longrightarrow> p \<in> set (d_products d) \<and> p_id p = i \<and> \<not> p_deleted p"
  by (auto simp: find_product_def find_Some_iff)

lemma free_slug_Inr: "free_slug unaccent taken raw = Inr s \<Longrightarrow> s \<notin> set taken"
  by (auto simp: free_slug_def Let_def simp del: next_code.simps dest: next_code_free)

lemma ensureUniqueSlug_Inr:
  "ensureUniqueSlug unaccent d raw ex = Inr s \<Longrightarrow> \<forall>c \<in> set (d_categories d). cat_slug c = s \<longrightarrow> ex = Some (cat_id c)"
  unfolding ensureUniqueSlug_def by (drule free_slug_Inr) auto

lemma product_slug_Inr:
  "product_slug unaccent d raw ex = Inr s \<Longrightarrow> \<forall>p \<in> set (d_products d). p_slug p = s \<longrightarrow> ex = Some (p_id p)"
  unfolding product_slug_def by (drule free_slug_Inr) auto

lemma guardDuplicateSku_Inr: "guardDuplicateSku d sku ex = Inr u \<longleftrightarrow> (\<forall>p \<in> set (d_products d). p_sku p = sku \<longrightarrow> ex = Some (p_id p))"
  by (simp add: guardDuplicateSku_def)

lemma chosen_sku_Inr: "chosen_sku unaccent d dto = Inr s \<Longrightarrow> s \<notin> p_sku ` set (d_products d)"
  by (auto simp: chosen_sku_def bindE_eq_Inr guardDuplicateSku_Inr generateUniqueSku_def Let_def
      simp del: next_code.simps dest: next_code_free split: if_splits)

lemma distinct_save_by:
  assumes "distinct (map key xs)" and "distinct (map f xs)" and "x \<in> set xs" and "key y = key x"
    and "\<forall>z \<in> set xs. f z = f y \<longrightarrow> key z = key y"
  shows "distinct (map f (save_by key y xs))"
proof -
  have "inj_on f (set (save_by key y xs))"
    using assms(2,5) by (auto simp: inj_on_def save_by_def distinct_map)
  moreover have "distinct (save_by key y xs)"
    using assms(1) by (metis distinct_map save_by_keys)
  ultimately show ?thesis by (simp add: distinct_map)
qed

text \<open>Rewriting a row that stays a department, or stays a category of a department.\<close>

lemma categories_ok_save:
  assumes ok: "categories_ok n cs" and c: "c \<in> set cs" and id: "cat_id c' = cat_id c"
    and slug: "\<forall>x \<in> set cs. cat_slug x = cat_slug c' \<longrightarrow> cat_id x = cat_id c'"
    and dep: "is_department cs (cat_id c) \<Longrightarrow> cat_parent c' = None \<and> \<not> cat_deleted c'"
    and par: "\<And>p. cat_parent c' = Some p \<Longrightarrow> \<not> cat_deleted c' \<Longrightarrow> is_department cs p"
  shows "categories_ok n (save_by cat_id c' cs)"
proof -
  have ids: "distinct (map cat_id cs)" and slugs: "distinct (map cat_slug cs)" using ok by (simp_all add: categories_ok_def)
  have mem: "x \<in> set (save_by cat_id c' cs) \<longleftrightarrow> x = c' \<or> (x \<in> set cs \<and> cat_id x \<noteq> cat_id c)" for x
    using c id by (auto simp: set_save_by)
  have keep: "is_department (save_by cat_id c' cs) p" if "is_department cs p" for p
  proof (cases "p = cat_id c")
    case True
    then show ?thesis using dep that id mem by (auto simp: is_department_def intro!: bexI [of _ c'])
  next
    case False
    then show ?thesis using that mem by (auto simp: is_department_def)
  qed
  have "two_levels (save_by cat_id c' cs)"
    using ok par keep unfolding two_levels_iff categories_ok_def by (auto simp: mem)
  moreover have "distinct (map cat_slug (save_by cat_id c' cs))"
    by (rule distinct_save_by [OF ids slugs c id slug])
  ultimately show ?thesis using ok id c by (auto simp: categories_ok_def save_by_keys mem)
qed

lemma is_child_save:
  assumes "c \<in> set cs" and "cat_id c' = cat_id c" and "is_child cs i"
    and "i = cat_id c \<Longrightarrow> cat_parent c' \<noteq> None \<and> \<not> cat_deleted c'"
  shows "is_child (save_by cat_id c' cs) i"
proof -
  have mem: "x \<in> set (save_by cat_id c' cs) \<longleftrightarrow> x = c' \<or> (x \<in> set cs \<and> cat_id x \<noteq> cat_id c)" for x
    using assms(1,2) by (auto simp: set_save_by)
  show ?thesis
  proof (cases "i = cat_id c")
    case True
    then show ?thesis using assms(2,4) mem by (auto simp: is_child_def intro!: bexI [of _ c'])
  next
    case False
    then show ?thesis using assms(3) mem by (auto simp: is_child_def)
  qed
qed

lemma unique_category: "categories_ok n cs \<Longrightarrow> a \<in> set cs \<Longrightarrow> b \<in> set cs \<Longrightarrow> cat_id a = cat_id b \<Longrightarrow> a = b"
  by (auto simp: categories_ok_def distinct_map inj_on_def)


subsection \<open>Every operation keeps the catalogue connected\<close>

lemma is_department_unique: "categories_ok n cs \<Longrightarrow> c \<in> set cs \<Longrightarrow> is_department cs (cat_id c) \<Longrightarrow> cat_parent c = None \<and> \<not> cat_deleted c"
  by (auto simp: is_department_def dest: unique_category)

lemma is_child_unique: "categories_ok n cs \<Longrightarrow> c \<in> set cs \<Longrightarrow> is_child cs (cat_id c) \<Longrightarrow> cat_parent c \<noteq> None \<and> \<not> cat_deleted c"
  by (auto simp: is_child_def dest: unique_category)

lemma categories_ok_parent: "categories_ok n cs \<Longrightarrow> c \<in> set cs \<Longrightarrow> \<not> cat_deleted c \<Longrightarrow> cat_parent c = Some p \<Longrightarrow> is_department cs p"
  by (auto simp: categories_ok_def two_levels_iff)

lemma catalogue_save_category:
  assumes ok: "catalogue_ok d" and c: "c \<in> set (d_categories d)" and id: "cat_id c' = cat_id c"
    and slug: "\<forall>x \<in> set (d_categories d). cat_slug x = cat_slug c' \<longrightarrow> cat_id x = cat_id c'"
    and dep: "is_department (d_categories d) (cat_id c) \<Longrightarrow> cat_parent c' = None \<and> \<not> cat_deleted c'"
    and par: "\<And>p. cat_parent c' = Some p \<Longrightarrow> \<not> cat_deleted c' \<Longrightarrow> is_department (d_categories d) p"
    and child: "is_child (d_categories d) (cat_id c) \<Longrightarrow> cat_parent c' \<noteq> None \<and> \<not> cat_deleted c'"
  shows "catalogue_ok (save_category c' d)"
proof -
  have cats: "categories_ok (d_next d) (d_categories d)" and prods: "products_ok (d_next d) (d_categories d) (d_products d)"
    using ok by (simp_all add: catalogue_ok_def)
  have "is_child (save_by cat_id c' (d_categories d)) i" if "is_child (d_categories d) i" for i
    by (rule is_child_save [OF c id that]) (use child that in simp)
  then show ?thesis
    using categories_ok_save [OF cats c id slug dep par] prods by (auto simp: catalogue_ok_def products_ok_def save_category_def)
qed

lemma catalogue_add_category:
  assumes ok: "catalogue_ok d" and "cat_id c = d_next d" and "\<forall>x \<in> set (d_categories d). cat_slug x \<noteq> cat_slug c"
    and "\<And>p. cat_parent c = Some p \<Longrightarrow> is_department (d_categories d) p"
  shows "catalogue_ok (add_category c d)"
  using assms
  by (fastforce simp: catalogue_ok_def categories_ok_def products_ok_def add_category_def two_levels_iff is_department_def is_child_def
      intro: less_SucI)

lemma patched_slug_Inr:
  assumes "catalogue_ok d" and "c \<in> set (d_categories d)" and "patched_slug unaccent d pt c = Inr s"
  shows "\<forall>x \<in> set (d_categories d). cat_slug x = s \<longrightarrow> cat_id x = cat_id c"
proof (cases "kp_slug pt")
  case None
  have "distinct (map cat_slug (d_categories d))" using assms(1) by (simp add: catalogue_ok_def categories_ok_def)
  then show ?thesis using None assms(2,3) by (auto simp: patched_slug_def distinct_map dest: inj_onD)
next
  case (Some t)
  then show ?thesis using assms(3) by (auto simp: patched_slug_def dest: ensureUniqueSlug_Inr)
qed

lemma patched_category_fields [simp]:
  "cat_id (patched_category pt s c) = cat_id c" "cat_slug (patched_category pt s c) = s"
  "cat_parent (patched_category pt s c) = cat_parent c" "cat_deleted (patched_category pt s c) = cat_deleted c"
  by (simp_all add: patched_category_def)

lemma new_category_fields [simp]:
  "cat_id (new_category now i p s f dto) = i" "cat_slug (new_category now i p s f dto) = s"
  "cat_parent (new_category now i p s f dto) = p"
  by (simp_all add: new_category_def)

lemma createDepartment_ok:
  assumes "catalogue_ok d" and "createDepartment unaccent now dto d = Inr d'"
  shows "catalogue_ok d'"
proof -
  obtain slug where slug: "ensureUniqueSlug unaccent d (given_or (kd_slug dto) (kd_name dto)) None = Inr slug"
    and d': "d' = add_category (new_category now (d_next d) None slug (given_or (kd_featured dto) False) dto) d"
    using assms(2) by (auto simp: createDepartment_def bindE_eq_Inr)
  show ?thesis unfolding d' by (rule catalogue_add_category [OF assms(1)]) (use ensureUniqueSlug_Inr [OF slug] in auto)
qed

lemma createCategory_ok:
  assumes "catalogue_ok d" and "createCategory unaccent now dep dto d = Inr d'"
  shows "catalogue_ok d'"
proof -
  obtain c slug where c: "getDepartment d dep = Inr c"
    and slug: "ensureUniqueSlug unaccent d (given_or (kd_slug dto) (kd_name dto)) None = Inr slug"
    and d': "d' = add_category (new_category now (d_next d) (Some (cat_id c)) slug False dto) d"
    using assms(2) by (auto simp: createCategory_def bindE_eq_Inr)
  have "is_department (d_categories d) (cat_id c)" using getDepartment_Inr [OF c] by (auto simp: is_department_def)
  then show ?thesis unfolding d' by (intro catalogue_add_category [OF assms(1)]) (use ensureUniqueSlug_Inr [OF slug] in auto)
qed

lemma updateDepartment_ok:
  assumes ok: "catalogue_ok d" and "updateDepartment unaccent cid pt d = Inr d'"
  shows "catalogue_ok d'"
proof -
  obtain c slug where c: "getDepartment d cid = Inr c" and slug: "patched_slug unaccent d pt c = Inr slug"
    and d': "d' = save_category ((patched_category pt slug c)\<lparr>cat_featured := given_or (kp_featured pt) (cat_featured c)\<rparr>) d"
    using assms(2) by (auto simp: updateDepartment_def bindE_eq_Inr)
  note c' = getDepartment_Inr [OF c]
  have cats: "categories_ok (d_next d) (d_categories d)" using ok by (simp add: catalogue_ok_def)
  show ?thesis unfolding d'
    by (rule catalogue_save_category [OF ok, of c])
      (use c' patched_slug_Inr [OF ok _ slug] is_child_unique [OF cats, of c] in auto)
qed

lemma updateCategory_ok:
  assumes ok: "catalogue_ok d" and "updateCategory unaccent cid pt d = Inr d'"
    and side: "kp_department pt = None \<or> \<not> is_department (d_categories d) cid"
  shows "catalogue_ok d'"
proof -
  obtain c parent slug where c: "getCategory d cid = Inr c" and slug: "patched_slug unaccent d pt c = Inr slug"
    and parent: "(case kp_department pt of None \<Rightarrow> Inr (cat_parent c)
            | Some dep \<Rightarrow> bindE (getDepartment d dep) (\<lambda>department. Inr (Some (cat_id department)))) = Inr parent"
    and d': "d' = save_category ((patched_category pt slug c)\<lparr>cat_parent := parent\<rparr>) d"
    using assms(2) by (auto simp: updateCategory_def bindE_eq_Inr)
  note c' = getCategory_Inr [OF c]
  have cats: "categories_ok (d_next d) (d_categories d)" using ok by (simp add: catalogue_ok_def)
  have old: "kp_department pt = None \<Longrightarrow> parent = cat_parent c" using parent by simp
  have new: "parent \<noteq> None" if "kp_department pt \<noteq> None" using parent that by (auto simp: bindE_eq_Inr)
  have par: "is_department (d_categories d) p" if "parent = Some p" for p
  proof (cases "kp_department pt")
    case None
    then show ?thesis using old that c' categories_ok_parent [OF cats] by auto
  next
    case (Some dep)
    then show ?thesis using parent that by (auto simp: bindE_eq_Inr is_department_def dest!: getDepartment_Inr)
  qed
  show ?thesis unfolding d'
  proof (rule catalogue_save_category [OF ok, of c])
    show "c \<in> set (d_categories d)" using c' by simp
    show "\<forall>x \<in> set (d_categories d). cat_slug x = cat_slug ((patched_category pt slug c)\<lparr>cat_parent := parent\<rparr>) \<longrightarrow>
        cat_id x = cat_id ((patched_category pt slug c)\<lparr>cat_parent := parent\<rparr>)"
      using patched_slug_Inr [OF ok _ slug] c' by simp
    assume "is_department (d_categories d) (cat_id c)"
    then have "kp_department pt = None" and "cat_parent c = None" using side c' is_department_unique [OF cats] by auto
    then show "cat_parent ((patched_category pt slug c)\<lparr>cat_parent := parent\<rparr>) = None \<and>
        \<not> cat_deleted ((patched_category pt slug c)\<lparr>cat_parent := parent\<rparr>)" using old c' by simp
  next
    fix p
    assume "cat_parent ((patched_category pt slug c)\<lparr>cat_parent := parent\<rparr>) = Some p"
    then show "is_department (d_categories d) p" by (intro par) simp
  next
    assume "is_child (d_categories d) (cat_id c)"
    then have "cat_parent c \<noteq> None" using c' is_child_unique [OF cats] by auto
    then show "cat_parent ((patched_category pt slug c)\<lparr>cat_parent := parent\<rparr>) \<noteq> None \<and>
        \<not> cat_deleted ((patched_category pt slug c)\<lparr>cat_parent := parent\<rparr>)" using old new c' by auto
  qed simp
qed

lemma catalogue_slug_unique:
  "catalogue_ok d \<Longrightarrow> c \<in> set (d_categories d) \<Longrightarrow> x \<in> set (d_categories d) \<Longrightarrow> cat_slug x = cat_slug c \<Longrightarrow> cat_id x = cat_id c"
  by (auto simp: catalogue_ok_def categories_ok_def distinct_map dest: inj_onD)

text \<open>A department is removed only without live categories, a category only without live products.\<close>

lemma removeDepartment_ok:
  assumes ok: "catalogue_ok d" and "removeDepartment cid d = Inr d'"
  shows "catalogue_ok d'"
proof -
  obtain c where c: "getDepartment d cid = Inr c" and none: "filter (\<lambda>x. cat_parent x = Some cid) (live_categories d) = []"
    and d': "d' = save_category (c\<lparr>cat_deleted := True\<rparr>) d"
    using assms(2) by (auto simp: removeDepartment_def bindE_eq_Inr)
  note c' = getDepartment_Inr [OF c]
  define cs where "cs = d_categories d"
  have cats: "categories_ok (d_next d) cs" and prods: "products_ok (d_next d) cs (d_products d)"
    using ok by (simp_all add: catalogue_ok_def cs_def)
  have mem: "x \<in> set (save_by cat_id (c\<lparr>cat_deleted := True\<rparr>) cs) \<longleftrightarrow> x = c\<lparr>cat_deleted := True\<rparr> \<or> (x \<in> set cs \<and> cat_id x \<noteq> cid)" for x
    using c' by (auto simp: set_save_by cs_def)
  have orphan: "x \<in> set cs \<Longrightarrow> \<not> cat_deleted x \<Longrightarrow> cat_parent x \<noteq> Some cid" for x
    using none by (auto simp: filter_empty_conv live_categories_def cs_def)
  have two: "two_levels (save_by cat_id (c\<lparr>cat_deleted := True\<rparr>) cs)"
    unfolding two_levels_iff
  proof (intro ballI allI impI)
    fix x p
    assume "x \<in> set (save_by cat_id (c\<lparr>cat_deleted := True\<rparr>) cs)" and p: "cat_parent x = Some p" and live: "\<not> cat_deleted x"
    then have x: "x \<in> set cs" using c' by (auto simp: mem)
    have "p \<noteq> cid" using orphan [OF x live] p by simp
    moreover obtain e where "e \<in> set cs" "cat_id e = p" "cat_parent e = None" "\<not> cat_deleted e"
      using categories_ok_parent [OF cats x live p] by (auto simp: is_department_def)
    ultimately show "is_department (save_by cat_id (c\<lparr>cat_deleted := True\<rparr>) cs) p"
      unfolding is_department_def by (intro bexI [of _ e]) (auto simp: mem)
  qed
  have slugs: "distinct (map cat_slug (save_by cat_id (c\<lparr>cat_deleted := True\<rparr>) cs))"
    by (rule distinct_save_by [of cat_id _ _ c]) (use cats c' catalogue_slug_unique [OF ok, of c] in \<open>auto simp: categories_ok_def cs_def\<close>)
  have "is_child (save_by cat_id (c\<lparr>cat_deleted := True\<rparr>) cs) i" if i: "is_child cs i" for i
    by (rule is_child_save [OF _ _ i, of c]) (use c' is_child_unique [OF cats, of c] i in \<open>auto simp: cs_def\<close>)
  then show ?thesis
    using two slugs cats prods c' unfolding d'
    by (auto simp: catalogue_ok_def categories_ok_def products_ok_def save_category_def save_by_keys mem cs_def [symmetric])
qed

lemma removeCategory_ok:
  assumes ok: "catalogue_ok d" and "removeCategory cid d = Inr d'"
  shows "catalogue_ok d'"
proof -
  obtain c where c: "getCategory d cid = Inr c" and par: "cat_parent c \<noteq> None"
    and none: "filter (\<lambda>p. p_category p = cid \<and> \<not> p_deleted p) (d_products d) = []"
    and d': "d' = save_category (c\<lparr>cat_deleted := True\<rparr>) d"
    using assms(2) by (auto simp: removeCategory_def bindE_eq_Inr)
  note c' = getCategory_Inr [OF c]
  have cats: "categories_ok (d_next d) (d_categories d)" and prods: "products_ok (d_next d) (d_categories d) (d_products d)"
    using ok by (simp_all add: catalogue_ok_def)
  have "categories_ok (d_next d) (save_by cat_id (c\<lparr>cat_deleted := True\<rparr>) (d_categories d))"
    by (rule categories_ok_save [OF cats, of c])
      (use c' par catalogue_slug_unique [OF ok, of c] is_department_unique [OF cats, of c] in auto)
  moreover have "is_child (save_by cat_id (c\<lparr>cat_deleted := True\<rparr>) (d_categories d)) (p_category p)"
    if p: "p \<in> set (d_products d)" "\<not> p_deleted p" for p
  proof (rule is_child_save [of c])
    show "is_child (d_categories d) (p_category p)" using prods p by (simp add: products_ok_def)
    have "p_category p \<noteq> cid" using none p by (auto simp: filter_empty_conv)
    then show "p_category p = cat_id c \<Longrightarrow> cat_parent (c\<lparr>cat_deleted := True\<rparr>) \<noteq> None \<and> \<not> cat_deleted (c\<lparr>cat_deleted := True\<rparr>)"
      using c' by simp
  qed (use c' in auto)
  ultimately show ?thesis using prods unfolding d' by (auto simp: catalogue_ok_def products_ok_def save_category_def)
qed

lemma catalogue_save_product:
  assumes ok: "catalogue_ok d" and p: "p \<in> set (d_products d)" and id: "p_id p' = p_id p"
    and slug: "\<forall>x \<in> set (d_products d). p_slug x = p_slug p' \<longrightarrow> p_id x = p_id p'"
    and sku: "\<forall>x \<in> set (d_products d). p_sku x = p_sku p' \<longrightarrow> p_id x = p_id p'"
    and cat: "\<not> p_deleted p' \<Longrightarrow> is_child (d_categories d) (p_category p')"
  shows "catalogue_ok (save_product p' d)"
proof -
  have ps: "products_ok (d_next d) (d_categories d) (d_products d)" using ok by (simp add: catalogue_ok_def)
  then have ids: "distinct (map p_id (d_products d))" and "distinct (map p_slug (d_products d))" and "distinct (map p_sku (d_products d))"
    by (simp_all add: products_ok_def)
  then have "distinct (map p_slug (save_by p_id p' (d_products d)))" and "distinct (map p_sku (save_by p_id p' (d_products d)))"
    using distinct_save_by [OF ids _ p id slug] distinct_save_by [OF ids _ p id sku] by blast+
  moreover have "x \<in> set (save_by p_id p' (d_products d)) \<longleftrightarrow> x = p' \<or> (x \<in> set (d_products d) \<and> p_id x \<noteq> p_id p)" for x
    using p id by (auto simp: set_save_by)
  ultimately show ?thesis using ok ps cat id p by (auto simp: catalogue_ok_def products_ok_def save_product_def save_by_keys)
qed

lemma product_unique: "catalogue_ok d \<Longrightarrow> p \<in> set (d_products d) \<Longrightarrow> x \<in> set (d_products d) \<Longrightarrow>
    p_slug x = p_slug p \<or> p_sku x = p_sku p \<Longrightarrow> p_id x = p_id p"
  by (auto simp: catalogue_ok_def products_ok_def distinct_map dest: inj_onD)

lemma create_product_ok:
  assumes ok: "catalogue_ok d" and "create_product unaccent now dto d = Inr d'"
  shows "catalogue_ok d'"
proof -
  obtain c sku slug where c: "getChildCategoryOrThrow d (pd_category dto) = Inr c" and sku: "chosen_sku unaccent d dto = Inr sku"
    and slug: "product_slug unaccent d (given_or (pd_slug dto) (pd_name dto)) None = Inr slug"
    and d': "d' = d\<lparr>d_products := d_products d @ [new_product now (d_next d) (cat_id c) sku slug dto], d_next := Suc (d_next d)\<rparr>"
    using assms(2) by (auto simp: create_product_def bindE_eq_Inr)
  show ?thesis
    using ok getChildCategory_Inr [OF c] chosen_sku_Inr [OF sku] product_slug_Inr [OF slug] unfolding d'
    by (auto simp: catalogue_ok_def categories_ok_def products_ok_def new_product_def less_Suc_eq)
qed

lemma update_product_ok:
  assumes ok: "catalogue_ok d" and "update_product unaccent pid dto d = Inr d'"
  shows "catalogue_ok d'"
proof -
  obtain p cid sku slug where p: "find_product d pid = Inr p"
    and cid: "(case pp_category dto of None \<Rightarrow> Inr (p_category p)
            | Some cid \<Rightarrow> bindE (getChildCategoryOrThrow d cid) (\<lambda>c. Inr (cat_id c))) = Inr cid"
    and sku: "(case pp_sku dto of None \<Rightarrow> Inr (p_sku p)
            | Some s \<Rightarrow> bindE (guardDuplicateSku d (js_trim s) (Some pid)) (\<lambda>_. Inr (js_trim s))) = Inr sku"
    and slug: "(case (pp_slug dto, pp_name dto) of (Some s, _) \<Rightarrow> product_slug unaccent d s (Some pid)
            | (None, Some name) \<Rightarrow> product_slug unaccent d name (Some pid)
            | (None, None) \<Rightarrow> Inr (p_slug p)) = Inr slug"
    and d': "d' = save_product (patched_product dto cid sku slug p) d"
    using assms(2) by (auto simp: update_product_def bindE_eq_Inr)
  note p' = find_product_Inr [OF p]
  have slugs: "\<forall>x \<in> set (d_products d). p_slug x = slug \<longrightarrow> p_id x = p_id p"
    using slug p' product_unique [OF ok, of p] by (auto split: option.splits dest!: product_slug_Inr)
  have skus: "\<forall>x \<in> set (d_products d). p_sku x = sku \<longrightarrow> p_id x = p_id p"
    using sku p' product_unique [OF ok, of p] by (auto split: option.splits simp: bindE_eq_Inr guardDuplicateSku_Inr)
  have cat: "is_child (d_categories d) cid"
    using cid p' ok by (auto split: option.splits simp: bindE_eq_Inr catalogue_ok_def products_ok_def dest!: getChildCategory_Inr)
  show ?thesis unfolding d'
    by (rule catalogue_save_product [OF ok, of p]) (use p' slugs skus cat in \<open>simp_all add: patched_product_def\<close>)
qed

lemma remove_product_ok:
  assumes ok: "catalogue_ok d" and "remove_product pid d = Inr d'"
  shows "catalogue_ok d'"
proof -
  obtain p where p: "find_product d pid = Inr p" and d': "d' = save_product (p\<lparr>p_deleted := True\<rparr>) d"
    using assms(2) by (auto simp: remove_product_def bindE_eq_Inr)
  show ?thesis unfolding d'
    by (rule catalogue_save_product [OF ok, of p]) (use find_product_Inr [OF p] product_unique [OF ok, of p] in auto)
qed

lemma catalogue_step_ok: "catalogue_ok d \<Longrightarrow> catalogue_step d d' \<Longrightarrow> catalogue_ok d'"
  by (erule catalogue_step.cases, unfold nests_department_def de_Morgan_conj not_not)
    (blast intro: createDepartment_ok createCategory_ok updateDepartment_ok updateCategory_ok removeDepartment_ok removeCategory_ok
      create_product_ok update_product_ok remove_product_ok)+

interpretation catalogue: stepwise catalogue_step catalogue_ok
  by unfold_locales (rule catalogue_step_ok)

lemma sample_catalogue_ok: "catalogue_ok sample_db"
  by code_simp

lemma not_islE: "\<not> isl x \<Longrightarrow> (\<And>y. x = Inr y \<Longrightarrow> P) \<Longrightarrow> P"
  by (cases x) auto

lemma find_unique:
  assumes "x \<in> set xs" and "P x" and "\<And>y. y \<in> set xs \<Longrightarrow> P y \<Longrightarrow> y = x"
  shows "List.find P xs = Some x"
proof (cases "List.find P xs")
  case None
  then show ?thesis using assms(1,2) by (auto simp: find_None_iff)
next
  case (Some y)
  then show ?thesis using assms(3) [of y] by (auto simp: find_Some_iff)
qed

lemma getCategory_of_row:
  assumes "categories_ok n (d_categories d)" and "c \<in> set (d_categories d)" and "\<not> cat_deleted c"
  shows "getCategory d (cat_id c) = Inr c"
  using assms unique_category [OF assms(1)] by (auto simp: getCategory_def live_categories_def intro!: find_unique)

lemma getDepartment_of_row:
  assumes "categories_ok n (d_categories d)" and "is_department (d_categories d) i"
  shows "\<not> isl (getDepartment d i)"
proof -
  have "List.find (\<lambda>c. cat_id c = i \<and> cat_parent c = None) (live_categories d) \<noteq> None"
    using assms(2) by (auto simp: is_department_def find_None_iff live_categories_def)
  then show ?thesis by (auto simp: getDepartment_def)
qed

lemma child_reads:
  assumes ok: "categories_ok n (d_categories d)" and child: "is_child (d_categories d) i"
  shows "\<exists>c dep. getChildCategoryOrThrow d i = Inr c \<and> cat_parent c = Some dep \<and> \<not> isl (getDepartment d dep)"
proof -
  obtain c where c: "c \<in> set (d_categories d)" "cat_id c = i" "cat_parent c \<noteq> None" "\<not> cat_deleted c"
    using child by (auto simp: is_child_def)
  then obtain dep where dep: "cat_parent c = Some dep" by auto
  have "getChildCategoryOrThrow d i = Inr c"
    using getCategory_of_row [OF ok c(1,4)] c(2,3) by (simp add: getChildCategoryOrThrow_def)
  then show ?thesis using dep getDepartment_of_row [OF ok categories_ok_parent [OF ok c(1,4) dep]] by blast
qed

lemma filter_save_by_other:
  "(\<And>x. key x = key r \<Longrightarrow> \<not> (P x \<and> Q x)) \<Longrightarrow> filter P (filter Q (save_by key r xs)) = filter P (filter Q xs)"
  by (induction xs) (auto simp: save_by_Cons)

definition only_department :: "id \<Rightarrow> category_patch" where
  "only_department dep = \<lparr>kp_department = Some dep, kp_name = None, kp_slug = None, kp_description = None, kp_desktop = None,
     kp_mobile = None, kp_featured = None, kp_sort = None, kp_active = None\<rparr>"

subsection \<open>The shop's catalogue\<close>

text \<open>C17: However departments, categories and products are created, edited and removed, in any order, as long as no edit hangs a department
  off another (which the edition of categories allows, see \<open>updateCategory_nests_departments\<close>), two products never share a
  slug or a stock code (deleted ones included), every product that is not deleted is in a live category, and that category hangs
  off a live department.\<close>

theorem catalogue_stays_connected:
  assumes "catalogue_ok d" and "catalogue_step\<^sup>*\<^sup>* d d'"
  shows "distinct (map p_slug (d_products d')) \<and> distinct (map p_sku (d_products d')) \<and>
    (\<forall>p \<in> set (d_products d'). \<not> p_deleted p \<longrightarrow>
       (\<exists>c dep. getChildCategoryOrThrow d' (p_category p) = Inr c \<and> cat_parent c = Some dep \<and> \<not> isl (getDepartment d' dep)))"
proof -
  have ok: "catalogue_ok d'" by (rule catalogue.run [OF assms(2,1)])
  then have cats: "categories_ok (d_next d') (d_categories d')" and prods: "products_ok (d_next d') (d_categories d') (d_products d')"
    by (simp_all add: catalogue_ok_def)
  have "\<exists>c dep. getChildCategoryOrThrow d' (p_category p) = Inr c \<and> cat_parent c = Some dep \<and> \<not> isl (getDepartment d' dep)"
    if p: "p \<in> set (d_products d')" "\<not> p_deleted p" for p
  proof -
    have child: "is_child (d_categories d') (p_category p)" using prods p by (simp add: products_ok_def)
    show ?thesis using child_reads [OF cats child] .
  qed
  then show ?thesis using prods by (simp add: products_ok_def)
qed

lemma catalogue_stays_connected_witness:
  "\<exists>d'. createCategory id 50 91 \<lparr>kd_name = ''Leche en polvo'', kd_slug = None, kd_description = None, kd_desktop = None,
       kd_mobile = None, kd_featured = None, kd_sort = None, kd_active = None\<rparr> sample_db = Inr d' \<and>
     distinct (map p_slug (d_products d')) \<and>
     (\<forall>p \<in> set (d_products d'). \<not> p_deleted p \<longrightarrow>
       (\<exists>c dep. getChildCategoryOrThrow d' (p_category p) = Inr c \<and> cat_parent c = Some dep \<and> \<not> isl (getDepartment d' dep)))"
proof -
  have "\<not> isl (createCategory id 50 91 \<lparr>kd_name = ''Leche en polvo'', kd_slug = None, kd_description = None, kd_desktop = None,
       kd_mobile = None, kd_featured = None, kd_sort = None, kd_active = None\<rparr> sample_db)" by code_simp
  then obtain d' where d': "createCategory id 50 91 \<lparr>kd_name = ''Leche en polvo'', kd_slug = None, kd_description = None, kd_desktop = None,
       kd_mobile = None, kd_featured = None, kd_sort = None, kd_active = None\<rparr> sample_db = Inr d'" by (rule not_islE)
  have "catalogue_step\<^sup>*\<^sup>* sample_db d'" by (rule r_into_rtranclp) (rule Cat_new_category [OF d'])
  from catalogue_stays_connected [OF sample_catalogue_ok this] d' show ?thesis by blast
qed

text \<open>The edition of a category looks its row up by identifier alone, so it also takes a department: given the identifier of a department
  and any department to hang it off (itself included), it makes the department a category. The department
  is no longer found as one, products can be put straight into it, and its categories hang off something
  that is no department.\<close>

theorem updateCategory_nests_departments:
  assumes "catalogue_ok d" and "getDepartment d cid = Inr c" and "getDepartment d dep = Inr e"
  shows "\<exists>d'. updateCategory unaccent cid (only_department dep) d = Inr d' \<and>
    isl (getDepartment d' cid) \<and> getChildCategoryOrThrow d' cid = Inr (c\<lparr>cat_parent := Some dep\<rparr>) \<and>
    filter (\<lambda>x. cat_parent x = Some cid \<and> cat_id x \<noteq> cid) (live_categories d') =
    filter (\<lambda>x. cat_parent x = Some cid \<and> cat_id x \<noteq> cid) (live_categories d)"
proof -
  define c' where "c' = c\<lparr>cat_parent := Some dep\<rparr>"
  define d' where "d' = save_category c' d"
  have cats: "categories_ok (d_next d) (d_categories d)" using assms(1) by (simp add: catalogue_ok_def)
  note c = getDepartment_Inr [OF assms(2)]
  have get: "getCategory d cid = Inr c" using getCategory_of_row [OF cats, of c] c by simp
  have e: "cat_id e = dep" using getDepartment_Inr [OF assms(3)] by simp
  have same: "c\<lparr>cat_name := cat_name c, cat_slug := cat_slug c, cat_description := cat_description c, cat_img_desktop := cat_img_desktop c,
      cat_img_mobile := cat_img_mobile c, cat_sort := cat_sort c, cat_active := cat_active c, cat_parent := Some dep\<rparr> = c'"
    by (simp add: c'_def)
  have run: "updateCategory unaccent cid (only_department dep) d = Inr d'"
    using get assms(3) e same
    by (simp add: updateCategory_def only_department_def patched_slug_def patched_category_def given_or_def d'_def)
  have mem: "x \<in> set (d_categories d') \<longleftrightarrow> x = c' \<or> (x \<in> set (d_categories d) \<and> cat_id x \<noteq> cid)" for x
    using c by (auto simp: d'_def save_category_def set_save_by c'_def)
  have gone: "isl (getDepartment d' cid)"
    by (cases "getDepartment d' cid") (auto dest!: getDepartment_Inr simp: mem c'_def)
  have found: "getCategory d' cid = Inr c'"
    unfolding getCategory_def from_option_eq_Inr
    by (rule find_unique) (use c in \<open>auto simp: live_categories_def mem c'_def\<close>)
  have "filter (\<lambda>x. cat_parent x = Some cid \<and> cat_id x \<noteq> cid) (live_categories d') =
      filter (\<lambda>x. cat_parent x = Some cid \<and> cat_id x \<noteq> cid) (live_categories d)"
    unfolding d'_def save_category_def live_categories_def
    using c by (simp add: filter_save_by_other c'_def del: filter_filter)
  then show ?thesis using run gone found by (auto simp: getChildCategoryOrThrow_def c'_def)
qed

lemma updateCategory_nests_departments_witness:
  "\<exists>d'. updateCategory id 91 (only_department 91) sample_db = Inr d' \<and> isl (getDepartment d' 91) \<and> \<not> isl (getChildCategoryOrThrow d' 91)"
proof -
  have "\<not> isl (getDepartment sample_db 91)" by code_simp
  then obtain c where "getDepartment sample_db 91 = Inr c" by (rule not_islE)
  from updateCategory_nests_departments [where unaccent = id, OF sample_catalogue_ok this this] show ?thesis by fastforce
qed

end
