(* ===== verification/Accounts_Laws.thy ===== *)
theory Accounts_Laws
  imports Accounts Product_Catalog
begin

section \<open>Nobody climbs, and somebody stays in charge\<close>

text \<open>
  The rules of \<open>UsersService\<close> about super administrators, over runs of the panel's operations and the
  provider's notices.
\<close>

subsection \<open>A run of the panel\<close>

text \<open>
  The routes are open to signed-in administrators, \<open>restore\<close> to super administrators. The provider
  announces the creation of a user once, so the notice is about an account the table does not have. Its
  notice that an account was deleted there, which the service obeys, is not part of these runs.
\<close>

definition signed_in :: "people \<Rightarrow> account \<Rightarrow> bool" where
  "signed_in w a \<longleftrightarrow> a \<in> set (live_users w) \<and> us_active a \<and> is_system_admin (us_role a)"

inductive panel_step :: "clerk_api \<Rightarrow> account option \<Rightarrow> people \<Rightarrow> people \<Rightarrow> bool" for api where
  P_create: "signed_in w a \<Longrightarrow> create_user now r dto (Some a) w = Inr w' \<Longrightarrow> panel_step api (Some a) w w'"
| P_update: "signed_in w a \<Longrightarrow> update_user now i dto (Some a) w = Inr w' \<Longrightarrow> panel_step api (Some a) w w'"
| P_password: "signed_in w a \<Longrightarrow> setPassword api i pwd (Some a) w = Inr w' \<Longrightarrow> panel_step api (Some a) w w'"
| P_remove: "signed_in w a \<Longrightarrow> remove_user api i (Some a) w = Inr w' \<Longrightarrow> panel_step api (Some a) w w'"
| P_restore: "signed_in w a \<Longrightarrow> us_role a = SUPER_ADMIN \<Longrightarrow> restore_user i w = Inr w' \<Longrightarrow> panel_step api (Some a) w w'"
| P_invite: "signed_in w a \<Longrightarrow> createAndSendInvitation api now idto a w = Inr w' \<Longrightarrow> panel_step api (Some a) w w'"
| P_revoke: "signed_in w a \<Longrightarrow> revoke_invitation api i w = Inr w' \<Longrightarrow> panel_step api (Some a) w w'"
| P_resend: "signed_in w a \<Longrightarrow> resend api i a w = Inr w' \<Longrightarrow> panel_step api (Some a) w w'"
| P_created: "List.find (\<lambda>x. us_clerk x = Some (ku_id u)) (pe_users w) = None \<Longrightarrow>
    on_admin_event now (UserCreated u) w = Inr w' \<Longrightarrow> panel_step api None w w'"
| P_updated: "on_admin_event now (UserUpdated u) w = Inr w' \<Longrightarrow> panel_step api None w w'"
| P_mirror: "mirror api now bearer inp w = Inr w' \<Longrightarrow> panel_step api None w w'"

text \<open>
  A run of the whole panel takes these steps and the notices of accounts deleted at the provider, but the one that would leave nobody
  in charge: \<open>deactivateByClerkId\<close> does not ask.
\<close>

definition leaves_someone :: "string \<Rightarrow> people \<Rightarrow> bool" where
  "leaves_someone k w \<longleftrightarrow> (\<exists>u \<in> set (pe_users w). active_super u \<and> us_clerk u \<noteq> Some k)"

definition run_step :: "clerk_api \<Rightarrow> people \<Rightarrow> people \<Rightarrow> bool" where
  "run_step api w w' \<longleftrightarrow> (\<exists>a. panel_step api a w w') \<or>
     (\<exists>now k. on_admin_event now (UserDeleted k) w = Inr w' \<and> leaves_someone k w)"

definition admin_step :: "clerk_api \<Rightarrow> people \<Rightarrow> people \<Rightarrow> bool" where
  "admin_step api w w' \<longleftrightarrow> (\<exists>a. map_option us_role a \<noteq> Some SUPER_ADMIN \<and> panel_step api a w w')"

subsection \<open>The rows stay identified\<close>

definition users_ok :: "nat \<Rightarrow> account list \<Rightarrow> bool" where
  "users_ok n us \<longleftrightarrow> distinct (map us_id us) \<and> (\<forall>u \<in> set us. us_id u < n) \<and>
     (\<forall>u \<in> set us. \<forall>v \<in> set us. us_clerk u \<noteq> None \<longrightarrow> us_clerk u = us_clerk v \<longrightarrow> us_id u = us_id v)"

definition people_ok :: "people \<Rightarrow> bool" where
  "people_ok w \<longleftrightarrow> users_ok (pe_next w) (pe_users w)"

text \<open>The active super administrators: who they are and how they sign in.\<close>

definition supers :: "people \<Rightarrow> (id \<times> string option) list" where
  "supers w = map (\<lambda>u. (us_id u, us_clerk u)) (filter active_super (pe_users w))"

definition passwords :: "people \<Rightarrow> string list" where
  "passwords w = concat (map (\<lambda>c. case c of CallSetPassword k p \<Rightarrow> [k] | _ \<Rightarrow> []) (pe_calls w))"

lemma passwords_called [simp]: "passwords (called c w) = passwords w @ (case c of CallSetPassword k p \<Rightarrow> [k] | _ \<Rightarrow> [])"
  by (simp add: passwords_def called_def)

lemma called_fields [simp]: "pe_users (called c w) = pe_users w" "pe_next (called c w) = pe_next w"
  by (simp_all add: called_def)

text \<open>A step that leaves the table of users and the passwords alone.\<close>

definition aside :: "people \<Rightarrow> people \<Rightarrow> bool" where
  "aside w w' \<longleftrightarrow> pe_users w' = pe_users w \<and> pe_next w \<le> pe_next w' \<and> passwords w' = passwords w"

lemma aside_refl [simp]: "aside w w"
  by (simp add: aside_def)

lemma aside_trans: "aside a b \<Longrightarrow> aside b c \<Longrightarrow> aside a c"
  by (simp add: aside_def)

lemma aside_ok: "aside w w' \<Longrightarrow> people_ok w \<Longrightarrow> people_ok w'"
  by (auto simp: aside_def people_ok_def users_ok_def)

lemma aside_supers: "aside w w' \<Longrightarrow> supers w' = supers w"
  by (simp add: aside_def supers_def)

lemma save_invitation_aside: "aside w (save_invitation x w)"
  by (simp add: aside_def save_invitation_def passwords_def)

lemma revoke_at_clerk_aside: "aside w (revoke_at_clerk api x w)"
  by (simp add: aside_def revoke_at_clerk_def revokeClerkInvitation_def split: option.split)

lemma soft_delete_client_aside: "aside w (soft_delete_client i w)"
  by (simp add: aside_def soft_delete_client_def passwords_def)

lemma revoke_invitation_aside: "revoke_invitation api i w = Inr w' \<Longrightarrow> aside w w'"
  using aside_trans [OF revoke_at_clerk_aside save_invitation_aside]
  by (auto simp: revoke_invitation_def bindE_eq_Inr split: if_splits)

lemma revoke_quietly_aside: "aside w (revoke_quietly api x w)"
  by (auto simp: revoke_quietly_def split: sum.split dest: revoke_invitation_aside)

lemma revokePending_aside: "aside w (revokePendingForEmail api email w)"
proof -
  have "aside w (fold (revoke_quietly api) xs w)" for xs
    by (induction xs arbitrary: w) (auto intro: aside_trans revoke_quietly_aside)
  then show ?thesis by (simp add: revokePendingForEmail_def Let_def)
qed

lemma activate_aside: "aside w (activateForEmail email w)"
  by (simp add: aside_def activateForEmail_def passwords_def called_def split: option.split)

lemma revokeForEmail_aside: "aside w (revokeForEmail email w)"
proof (cases "pending_by_email w email")
  case (Some c)
  have "aside w (called (CallDeleteCustomer (cu_clerk c)) w)" by (simp add: aside_def)
  from aside_trans [OF this soft_delete_client_aside] show ?thesis by (simp add: revokeForEmail_def Some)
qed (simp add: revokeForEmail_def)

lemma sendClerkInvitation_aside: "sendClerkInvitation api dto a w = Inr (k, w') \<Longrightarrow> aside w w'"
  by (auto simp: sendClerkInvitation_def bindE_eq_Inr Let_def aside_def clerk_invitation_call_def split: sum.splits if_splits)

lemma createAndSend_aside: "createAndSendInvitation api now dto a w = Inr w' \<Longrightarrow> aside w w'"
  by (auto simp: createAndSendInvitation_def bindE_eq_Inr Let_def aside_def passwords_def split: if_splits
      dest!: sendClerkInvitation_aside)

lemma resend_aside:
  assumes "resend api i a w = Inr w'"
  shows "aside w w'"
proof -
  obtain x k w2 where send: "sendClerkInvitation api (resend_dto x) a (if in_status x = InvPending then revoke_at_clerk api x w else w) = Inr (k, w2)"
    and w': "w' = save_invitation (x\<lparr>in_clerk := Some k, in_status := InvPending\<rparr>) w2"
    using assms by (auto simp: resend_def bindE_eq_Inr Let_def)
  have "aside w (if in_status x = InvPending then revoke_at_clerk api x w else w)" by (simp add: revoke_at_clerk_aside)
  from aside_trans [OF aside_trans [OF this sendClerkInvitation_aside [OF send]] save_invitation_aside]
  show ?thesis by (simp add: w')
qed

lemma mirror_aside: "mirror api now b inp w = Inr w' \<Longrightarrow> aside w w'"
  by (auto simp: mirror_def provisionPending_def bindE_eq_Inr Let_def aside_def passwords_def insert_customer_def save_customer_def
      called_def split: if_splits sum.splits prod.splits)

subsection \<open>Writing a user\<close>

definition put_user :: "account \<Rightarrow> people \<Rightarrow> people" where
  "put_user u w = w\<lparr>pe_users := save_by us_id u (pe_users w)\<rparr>"

lemma users_ok_unique: "users_ok n us \<Longrightarrow> u \<in> set us \<Longrightarrow> v \<in> set us \<Longrightarrow> us_id u = us_id v \<Longrightarrow> u = v"
  by (auto simp: users_ok_def distinct_map inj_on_def)

lemma put_user_mem:
  assumes "u0 \<in> set us" and "us_id u0 = us_id u"
  shows "x \<in> set (save_by us_id u us) \<longleftrightarrow> x = u \<or> (x \<in> set us \<and> us_id x \<noteq> us_id u)"
proof -
  have "us_id u \<in> us_id ` set us" using assms by (metis image_eqI)
  then show ?thesis by (auto simp: set_save_by)
qed

lemma users_okI:
  assumes "distinct (map us_id us)" and "\<And>u. u \<in> set us \<Longrightarrow> us_id u < n"
    and "\<And>u v. u \<in> set us \<Longrightarrow> v \<in> set us \<Longrightarrow> us_clerk u \<noteq> None \<Longrightarrow> us_clerk u = us_clerk v \<Longrightarrow> us_id u = us_id v"
  shows "users_ok n us"
  using assms unfolding users_ok_def by blast

lemma users_ok_clerk: "users_ok n us \<Longrightarrow> u \<in> set us \<Longrightarrow> v \<in> set us \<Longrightarrow> us_clerk u \<noteq> None \<Longrightarrow> us_clerk u = us_clerk v \<Longrightarrow> us_id u = us_id v"
  unfolding users_ok_def by blast

lemma users_ok_bound: "users_ok n us \<Longrightarrow> u \<in> set us \<Longrightarrow> us_id u < n"
  unfolding users_ok_def by blast

lemma put_user_passwords [simp]: "passwords (put_user u w) = passwords w"
  by (simp add: put_user_def passwords_def)

lemma put_user_ok:
  assumes ok: "people_ok w" and u0: "u0 \<in> set (pe_users w)" "us_id u0 = us_id u"
    and free: "\<And>x. x \<in> set (pe_users w) \<Longrightarrow> us_id x \<noteq> us_id u \<Longrightarrow> us_clerk u \<noteq> None \<Longrightarrow> us_clerk x \<noteq> us_clerk u"
  shows "people_ok (put_user u w)"
proof -
  note mem = put_user_mem [OF u0]
  have us: "users_ok (pe_next w) (pe_users w)" using ok by (simp add: people_ok_def)
  have "users_ok (pe_next w) (save_by us_id u (pe_users w))"
  proof (rule users_okI)
    show "distinct (map us_id (save_by us_id u (pe_users w)))" using us by (simp add: users_ok_def save_by_keys)
    fix x
    assume "x \<in> set (save_by us_id u (pe_users w))"
    then show "us_id x < pe_next w" using mem u0 users_ok_bound [OF us] by metis
  next
    fix x y
    assume "x \<in> set (save_by us_id u (pe_users w))" "y \<in> set (save_by us_id u (pe_users w))"
      "us_clerk x \<noteq> None" "us_clerk x = us_clerk y"
    then show "us_id x = us_id y" using mem free users_ok_clerk [OF us] by metis
  qed
  then show ?thesis by (simp add: people_ok_def put_user_def)
qed

lemma put_user_supers:
  assumes ok: "people_ok w" and u0: "u0 \<in> set (pe_users w)" "us_id u0 = us_id u"
    and same: "active_super u = active_super u0" "active_super u0 \<Longrightarrow> us_clerk u = us_clerk u0"
  shows "supers (put_user u w) = supers w"
proof -
  have one: "x = u0" if "x \<in> set (pe_users w)" "us_id x = us_id u" for x
    using users_ok_unique ok that u0 by (metis people_ok_def)
  have "map (\<lambda>u. (us_id u, us_clerk u)) (filter active_super (save_by us_id u xs)) = map (\<lambda>u. (us_id u, us_clerk u)) (filter active_super xs)"
    if "set xs \<subseteq> set (pe_users w)" for xs
    using that by (induction xs) (auto simp: save_by_Cons same u0 dest!: one)
  then show ?thesis by (simp add: supers_def put_user_def)
qed

lemma supers_Nil: "supers w = [] \<longleftrightarrow> \<not> (\<exists>u \<in> set (pe_users w). active_super u)"
  by (auto simp: supers_def filter_empty_conv)

lemma put_user_survives:
  assumes "u0 \<in> set (pe_users w)" "us_id u0 = us_id u"
    and "active_super u \<or> (\<exists>v \<in> set (pe_users w). active_super v \<and> us_id v \<noteq> us_id u)"
  shows "supers (put_user u w) \<noteq> []"
  using assms put_user_mem [OF assms(1,2)] by (auto simp: supers_Nil put_user_def)

lemma put_user_keeps_super:
  assumes ok: "people_ok w" and u0: "u0 \<in> set (pe_users w)" "us_id u0 = us_id u" and some: "supers w \<noteq> []"
    and keep: "active_super u0 \<Longrightarrow> active_super u"
  shows "supers (put_user u w) \<noteq> []"
proof -
  obtain x where x: "x \<in> set (pe_users w)" "active_super x" using some by (auto simp: supers_Nil)
  show ?thesis
  proof (cases "us_id x = us_id u")
    case True
    then have "x = u0" using ok x(1) u0 users_ok_unique unfolding people_ok_def by metis
    then show ?thesis using x(2) keep by (intro put_user_survives [OF u0]) blast
  next
    case False
    then show ?thesis using x by (intro put_user_survives [OF u0]) blast
  qed
qed

lemma insert_user_Inr: "insert_user u w = Inr w' \<longleftrightarrow>
    unique_user u w \<and> w' = w\<lparr>pe_users := pe_users w @ [u], pe_next := Suc (pe_next w)\<rparr>"
  by (auto simp: insert_user_def bindE_eq_Inr)

lemma save_user_Inr: "save_user u w = Inr w' \<longleftrightarrow> unique_user u w \<and> w' = put_user u w"
  by (auto simp: save_user_def bindE_eq_Inr put_user_def)

lemma unique_user_clerk: "unique_user u w \<Longrightarrow> x \<in> set (pe_users w) \<Longrightarrow> us_id x \<noteq> us_id u \<Longrightarrow> us_clerk u \<noteq> None \<Longrightarrow> us_clerk x \<noteq> us_clerk u"
  by (auto simp: unique_user_def list_all_iff)

lemma insert_user_ok:
  assumes "people_ok w" and "unique_user u w" and "us_id u = pe_next w"
  shows "people_ok (w\<lparr>pe_users := pe_users w @ [u], pe_next := Suc (pe_next w)\<rparr>)"
proof -
  have fresh: "us_id x \<noteq> us_id u" if "x \<in> set (pe_users w)" for x
    using assms(1,3) that by (auto simp: people_ok_def users_ok_def)
  have us: "users_ok (pe_next w) (pe_users w)" using assms(1) by (simp add: people_ok_def)
  note clerk = unique_user_clerk [OF assms(2) _ fresh]
  have "users_ok (Suc (pe_next w)) (pe_users w @ [u])"
  proof (rule users_okI)
    have "us_id u \<notin> us_id ` set (pe_users w)" using fresh by (metis imageE)
    then show "distinct (map us_id (pe_users w @ [u]))" using us by (simp add: users_ok_def)
    fix x
    assume "x \<in> set (pe_users w @ [u])"
    then show "us_id x < Suc (pe_next w)" using assms(3) users_ok_bound [OF us] by (auto intro: less_SucI)
  next
    fix x y
    assume "x \<in> set (pe_users w @ [u])" "y \<in> set (pe_users w @ [u])" "us_clerk x \<noteq> None" "us_clerk x = us_clerk y"
    then show "us_id x = us_id y" using clerk [of x] clerk [of y] users_ok_clerk [OF us, of x y] by auto
  qed
  then show ?thesis by (simp add: people_ok_def)
qed

lemma find_user_Inr: "find_user w i = Inr u \<Longrightarrow> u \<in> set (pe_users w) \<and> us_id u = i \<and> \<not> us_deleted u"
  by (auto simp: find_user_def live_users_def find_Some_iff dest: nth_mem)

text \<open>With two of them, somebody else is left.\<close>

lemma another_super:
  assumes ok: "people_ok w" and "assertNotLastSuperAdmin w = Inr x"
  shows "\<exists>v \<in> set (pe_users w). active_super v \<and> us_id v \<noteq> i"
proof (rule ccontr)
  assume none: "\<not> ?thesis"
  have eq: "filter (\<lambda>u. us_role u = SUPER_ADMIN \<and> us_active u) (live_users w) = filter active_super (pe_users w)"
    by (auto simp: live_users_def active_super_def intro!: filter_cong)
  have len: "2 \<le> length (filter active_super (pe_users w))" using assms(2) by (simp add: assertNotLastSuperAdmin_def eq)
  have "distinct (map us_id (filter active_super (pe_users w)))"
    using ok by (simp add: people_ok_def users_ok_def distinct_map_filter)
  moreover have "set (map us_id (filter active_super (pe_users w))) \<subseteq> {i}" using none by auto
  ultimately have "length (filter active_super (pe_users w)) \<le> card {i}"
    by (metis card_mono distinct_card finite.emptyI finite.insertI length_map)
  then show False using len by simp
qed

subsection \<open>What each operation does to the table of users\<close>

lemma create_user_effect:
  assumes ok: "people_ok w" and run: "create_user now r dto actor w = Inr w'"
  shows "people_ok w' \<and> passwords w' = passwords w \<and> (supers w \<noteq> [] \<longrightarrow> supers w' \<noteq> []) \<and>
    (map_option us_role actor \<noteq> Some SUPER_ADMIN \<longrightarrow> supers w' = supers w)"
proof -
  let ?u = "new_user now (pe_next w) r dto (given_or (nu_active dto) True)"
  have w': "w' = w\<lparr>pe_users := pe_users w @ [?u], pe_next := Suc (pe_next w)\<rparr>" and un: "unique_user ?u w"
    and grant: "r \<noteq> SUPER_ADMIN \<or> map_option us_role actor = Some SUPER_ADMIN"
    using run by (auto simp: create_user_def bindE_eq_Inr insert_user_Inr assertPuedeAsignarRol_def)
  have "us_id ?u = pe_next w" by (simp add: new_user_def)
  then have "people_ok w'" unfolding w' by (rule insert_user_ok [OF ok un])
  moreover have "supers w' = supers w @ (if active_super ?u then [(us_id ?u, us_clerk ?u)] else [])" by (simp add: supers_def w')
  moreover have "r \<noteq> SUPER_ADMIN \<Longrightarrow> \<not> active_super ?u" by (simp add: active_super_def new_user_def)
  ultimately show ?thesis using grant by (auto simp: passwords_def w')
qed

lemma updated_user_fields [simp]:
  "us_id (updated_user now dto u) = us_id u" "us_clerk (updated_user now dto u) = us_clerk u"
  "us_deleted (updated_user now dto u) = us_deleted u" "us_role (updated_user now dto u) = given_or (nu_role dto) (us_role u)"
  "us_active (updated_user now dto u) = given_or (nu_active dto) (us_active u)"
  by (simp_all add: updated_user_def merge_user_def Let_def)

lemma update_user_effect:
  assumes ok: "people_ok w" and run: "update_user now i dto actor w = Inr w'"
  shows "people_ok w' \<and> passwords w' = passwords w \<and> (supers w \<noteq> [] \<longrightarrow> supers w' \<noteq> []) \<and>
    (map_option us_role actor \<noteq> Some SUPER_ADMIN \<longrightarrow> supers w' = supers w)"
proof -
  obtain u where u: "find_user w i = Inr u" and manage: "us_role u \<noteq> SUPER_ADMIN \<or> map_option us_role actor = Some SUPER_ADMIN"
    and grant: "nu_role dto \<noteq> Some SUPER_ADMIN \<or> map_option us_role actor = Some SUPER_ADMIN"
    and last: "loses_super u dto \<Longrightarrow> assertNotLastSuperAdmin w = Inr ()"
    and w': "w' = (if just_approved dto u then activateForEmail (us_email (updated_user now dto u)) (put_user (updated_user now dto u) w)
                   else put_user (updated_user now dto u) w)"
    using run by (auto simp: update_user_def bindE_eq_Inr Let_def save_user_Inr assertPuedeGestionar_def assertPuedeAsignarRol_def split: if_splits)
  let ?v = "updated_user now dto u"
  note u = find_user_Inr [OF u]
  have side: "aside (put_user ?v w) w'" by (simp add: w' activate_aside)
  have clerk: "us_clerk x \<noteq> us_clerk ?v" if "x \<in> set (pe_users w)" "us_id x \<noteq> us_id ?v" "us_clerk ?v \<noteq> None" for x
    using ok u that users_ok_clerk unfolding people_ok_def by (metis updated_user_fields(1,2))
  have "people_ok (put_user ?v w)" by (rule put_user_ok [OF ok, of u]) (use u clerk in auto)
  moreover have "supers (put_user ?v w) = supers w" if "map_option us_role actor \<noteq> Some SUPER_ADMIN"
  proof (rule put_user_supers [OF ok, of u])
    show "active_super ?v = active_super u"
      using manage grant that u by (auto simp: active_super_def given_or_def split: option.split)
  qed (use u in auto)
  moreover have "supers (put_user ?v w) \<noteq> []" if "supers w \<noteq> []"
  proof (cases "loses_super u dto")
    case True
    from another_super [OF ok last [OF True], of "us_id u"]
    show ?thesis by (intro put_user_survives [of u]) (use u in auto)
  next
    case False
    then have "active_super u \<Longrightarrow> active_super ?v"
      using u by (auto simp: loses_super_def active_super_def given_or_def split: option.splits)
    then show ?thesis by (intro put_user_keeps_super [OF ok, of u]) (use that u in auto)
  qed
  ultimately show ?thesis
    using aside_ok [OF side] aside_supers [OF side] side by (auto simp: aside_def)
qed

lemma remove_user_effect:
  assumes ok: "people_ok w" and run: "remove_user api i actor w = Inr w'"
  shows "people_ok w' \<and> passwords w' = passwords w \<and> (supers w \<noteq> [] \<longrightarrow> supers w' \<noteq> []) \<and>
    (map_option us_role actor \<noteq> Some SUPER_ADMIN \<longrightarrow> supers w' = supers w)"
proof -
  obtain u where u: "find_user w i = Inr u" and manage: "us_role u \<noteq> SUPER_ADMIN \<or> map_option us_role actor = Some SUPER_ADMIN"
    and last: "us_role u = SUPER_ADMIN \<Longrightarrow> assertNotLastSuperAdmin w = Inr ()"
    and w': "w' = (let w2 = revokePendingForEmail api (us_email u) (put_user (u\<lparr>us_active := False, us_deleted := True\<rparr>) w)
                   in if us_approved u = None then revokeForEmail (us_email u) w2 else w2)"
    using run by (auto simp: remove_user_def bindE_eq_Inr Let_def put_user_def assertPuedeGestionar_def split: if_splits)
  let ?v = "u\<lparr>us_active := False, us_deleted := True\<rparr>"
  note u = find_user_Inr [OF u]
  have side: "aside (put_user ?v w) w'"
    unfolding w' Let_def by (simp add: revokePending_aside aside_trans [OF revokePending_aside revokeForEmail_aside])
  have clerk: "us_clerk x \<noteq> us_clerk ?v" if "x \<in> set (pe_users w)" "us_id x \<noteq> us_id ?v" "us_clerk ?v \<noteq> None" for x
    using ok u that users_ok_clerk [of "pe_next w" "pe_users w" u x] unfolding people_ok_def by auto
  have "people_ok (put_user ?v w)" by (rule put_user_ok [OF ok, of u]) (use u clerk in auto)
  moreover have "supers (put_user ?v w) = supers w" if "us_role u \<noteq> SUPER_ADMIN"
    by (rule put_user_supers [OF ok, of u]) (use u that in \<open>auto simp: active_super_def\<close>)
  moreover have "supers (put_user ?v w) \<noteq> []" if "us_role u = SUPER_ADMIN"
    using another_super [OF ok last [OF that], of "us_id u"] u by (intro put_user_survives [of u]) auto
  ultimately show ?thesis
    using aside_ok [OF side] aside_supers [OF side] side manage by (cases "us_role u = SUPER_ADMIN") (auto simp: aside_def)
qed

lemma restore_user_effect:
  assumes ok: "people_ok w" and run: "restore_user i w = Inr w'"
  shows "people_ok w' \<and> passwords w' = passwords w \<and> (supers w \<noteq> [] \<longrightarrow> supers w' \<noteq> [])"
proof -
  obtain u where u: "List.find (\<lambda>u. us_id u = i) (pe_users w) = Some u"
    and w': "w' = (if us_deleted u then put_user (u\<lparr>us_active := True, us_deleted := False\<rparr>) w else w)"
    using run by (auto simp: restore_user_def bindE_eq_Inr put_user_def split: if_splits)
  let ?v = "u\<lparr>us_active := True, us_deleted := False\<rparr>"
  have u: "u \<in> set (pe_users w)" using u by (auto simp: find_Some_iff)
  have clerk: "us_clerk x \<noteq> us_clerk ?v" if "x \<in> set (pe_users w)" "us_id x \<noteq> us_id ?v" "us_clerk ?v \<noteq> None" for x
    using ok u that users_ok_clerk [of "pe_next w" "pe_users w" u x] unfolding people_ok_def by auto
  have "people_ok (put_user ?v w)" by (rule put_user_ok [OF ok, of u]) (use u clerk in auto)
  moreover have "supers (put_user ?v w) \<noteq> []" if "supers w \<noteq> []"
    by (rule put_user_keeps_super [OF ok u]) (use that in \<open>auto simp: active_super_def\<close>)
  ultimately show ?thesis using ok by (simp add: w')
qed

lemma case_unit_Inr: "(case c of Inl f \<Rightarrow> Inl (g f) | Inr (_ :: unit) \<Rightarrow> Inr z) = Inr y \<longleftrightarrow> c = Inr () \<and> z = y"
  by (cases c) auto

lemma setPassword_effect:
  assumes ok: "people_ok w" and run: "setPassword api i pwd actor w = Inr w'"
  shows "people_ok w' \<and> supers w' = supers w \<and>
    (\<exists>k. passwords w' = passwords w @ [k] \<and> (map_option us_role actor \<noteq> Some SUPER_ADMIN \<longrightarrow> Some k \<notin> snd ` set (supers w)))"
proof -
  obtain u where u: "find_user w i = Inr u" and manage: "us_role u \<noteq> SUPER_ADMIN \<or> map_option us_role actor = Some SUPER_ADMIN"
    and some: "us_clerk u \<noteq> None" and w1: "w' = called (CallSetPassword (given_or (us_clerk u) []) pwd) w"
    using run by (auto simp: setPassword_def bindE_eq_Inr Let_def assertPuedeGestionar_def case_unit_Inr)
  obtain k where k: "us_clerk u = Some k" and w': "w' = called (CallSetPassword k pwd) w"
    using some w1 by (auto simp: given_or_def)
  note u = find_user_Inr [OF u]
  have "Some k \<notin> snd ` set (supers w)" if "us_role u \<noteq> SUPER_ADMIN"
  proof
    assume "Some k \<in> snd ` set (supers w)"
    then obtain x where x: "x \<in> set (pe_users w)" "active_super x" "us_clerk x = Some k" by (auto simp: supers_def)
    have us: "users_ok (pe_next w) (pe_users w)" using ok by (simp add: people_ok_def)
    have "us_id x = us_id u" using users_ok_clerk [OF us x(1), of u] x(3) u k by simp
    then have "x = u" using users_ok_unique [OF us x(1)] u by blast
    then show False using x(2) that by (simp add: active_super_def)
  qed
  then show ?thesis using ok manage by (auto simp: w' people_ok_def supers_def)
qed

lemma clerk_new_effect:
  assumes ok: "people_ok w" and new: "List.find (\<lambda>x. us_clerk x = Some k) (pe_users w) = None"
    and run: "createOrUpdateFromClerk now k data w = Inr w'"
  shows "people_ok w' \<and> supers w' = supers w \<and> passwords w' = passwords w"
proof -
  define u where "u = new_user now (pe_next w) (given_or (kd_role data) STAFF)
       (no_user_dto\<lparr>nu_clerk := Some k, nu_email := kd_email data, nu_first := kd_first data, nu_last := kd_last data,
          nu_phone := kd_phone data, nu_business := kd_business data\<rparr>) False"
  obtain w1 where un: "unique_user u w" and w1: "w1 = w\<lparr>pe_users := pe_users w @ [u], pe_next := Suc (pe_next w)\<rparr>"
    and w': "w' = w1\<lparr>pe_access := assignRolesLenient (pe_next w) (given_or (kd_roles data) []) (pe_access w1)\<rparr>"
    using run by (auto simp: createOrUpdateFromClerk_def new bindE_eq_Inr insert_user_Inr u_def)
  have id: "us_id u = pe_next w" and off: "\<not> active_super u" by (simp_all add: u_def new_user_def active_super_def)
  have "people_ok w1" unfolding w1 by (rule insert_user_ok [OF ok un id])
  then show ?thesis using off by (simp add: w' w1 people_ok_def supers_def passwords_def)
qed

lemma clerk_update_effect:
  assumes ok: "people_ok w" and role: "kd_role data = None" and run: "createOrUpdateFromClerk now k data w = Inr w'"
  shows "people_ok w' \<and> supers w' = supers w \<and> passwords w' = passwords w"
proof (cases "List.find (\<lambda>x. us_clerk x = Some k) (pe_users w)")
  case None
  then show ?thesis using clerk_new_effect [OF ok _ run] by simp
next
  case (Some u)
  then have u: "u \<in> set (pe_users w)" by (auto simp: find_Some_iff)
  define v where "v = u\<lparr>us_email := or_old (map_option low (kd_email data)) (us_email u), us_first := or_old (kd_first data) (us_first u),
             us_last := or_old (kd_last data) (us_last u), us_phone := or_old (kd_phone data) (us_phone u),
             us_business := or_old (kd_business data) (us_business u), us_role := given_or (kd_role data) (us_role u)\<rparr>"
  have same: "us_id v = us_id u" "us_clerk v = us_clerk u" "active_super v = active_super u"
    by (simp_all add: v_def active_super_def role given_or_def)
  have un: "unique_user v w" and w': "w' = put_user v w"
    using run by (auto simp: createOrUpdateFromClerk_def Some bindE_eq_Inr save_user_Inr v_def)
  have "people_ok w'" unfolding w' by (rule put_user_ok [OF ok u]) (use same unique_user_clerk [OF un] in auto)
  moreover have "supers w' = supers w" unfolding w' by (rule put_user_supers [OF ok u]) (use same in auto)
  ultimately show ?thesis by (simp add: w')
qed

lemma markAccepted_aside: "aside w (markAccepted now x w)"
  by (simp add: markAccepted_def save_invitation_aside)

lemma created_effect:
  assumes ok: "people_ok w" and new: "List.find (\<lambda>x. us_clerk x = Some (ku_id u)) (pe_users w) = None"
    and run: "on_admin_event now (UserCreated u) w = Inr w'"
  shows "people_ok w' \<and> supers w' = supers w \<and> passwords w' = passwords w"
proof -
  consider "w' = w" | x w1 where "createOrUpdateFromClerk now (ku_id u) (profile_of u (Some (in_role x)) (Some (in_roles x))) w = Inr w1"
      "w' = markAccepted now x w1"
    using run by (auto simp: createAdminUserFromInvitation_def bindE_eq_Inr split: option.splits)
  then show ?thesis
  proof cases
    case 2
    then show ?thesis
      using clerk_new_effect [OF ok new 2(1)] markAccepted_aside [of w1 now x] aside_ok aside_supers unfolding 2(2)
      by (metis aside_def)
  qed (simp add: ok)
qed

subsection \<open>Runs\<close>

lemma updated_effect:
  assumes "people_ok w" and "on_admin_event now (UserUpdated u) w = Inr w'"
  shows "people_ok w' \<and> supers w' = supers w \<and> passwords w' = passwords w"
  using clerk_update_effect [OF assms(1), of "profile_of u None None" now "ku_id u" w'] assms(2)
  by (simp add: updateAdminUser_def profile_of_def)

lemma aside_effect: "people_ok w \<Longrightarrow> aside w w' \<Longrightarrow> people_ok w' \<and> supers w' = supers w \<and> passwords w' = passwords w"
  using aside_ok aside_supers by (simp add: aside_def)

lemma panel_step_effect:
  assumes step: "panel_step api a w w'" and ok: "people_ok w"
  shows "people_ok w' \<and> (supers w \<noteq> [] \<longrightarrow> supers w' \<noteq> []) \<and>
    (map_option us_role a \<noteq> Some SUPER_ADMIN \<longrightarrow> supers w' = supers w \<and>
       set (passwords w') \<subseteq> set (passwords w) \<union> {k. Some k \<notin> snd ` set (supers w)})"
  using step
proof cases
  case (P_create a now r dto)
  then show ?thesis using create_user_effect [OF ok P_create(3)] by auto
next
  case (P_update a now i dto)
  then show ?thesis using update_user_effect [OF ok P_update(3)] by auto
next
  case (P_password a i pwd)
  from setPassword_effect [OF ok P_password(3)]
  obtain k where "people_ok w'" "supers w' = supers w" "passwords w' = passwords w @ [k]"
    "map_option us_role (Some a) \<noteq> Some SUPER_ADMIN \<longrightarrow> Some k \<notin> snd ` set (supers w)" by blast
  then show ?thesis using P_password(1) by simp
next
  case (P_remove a i)
  then show ?thesis using remove_user_effect [OF ok P_remove(3)] by auto
next
  case (P_restore a i)
  then show ?thesis using restore_user_effect [OF ok P_restore(4)] by auto
next
  case (P_invite a now idto)
  then show ?thesis using aside_effect [OF ok createAndSend_aside [OF P_invite(3)]] by auto
next
  case (P_revoke a i)
  then show ?thesis using aside_effect [OF ok revoke_invitation_aside [OF P_revoke(3)]] by auto
next
  case (P_resend a i)
  then show ?thesis using aside_effect [OF ok resend_aside [OF P_resend(3)]] by auto
next
  case (P_created u now)
  then show ?thesis using created_effect [OF ok P_created(2,3)] by auto
next
  case (P_updated now u)
  then show ?thesis using updated_effect [OF ok P_updated(2)] by auto
next
  case (P_mirror now bearer inp)
  then show ?thesis using aside_effect [OF ok mirror_aside [OF P_mirror(2)]] by auto
qed

lemma findByClerkId_Some: "findByClerkId w k = Some u \<Longrightarrow> u \<in> set (pe_users w) \<and> us_clerk u = Some k \<and> \<not> us_deleted u"
  by (auto simp: findByClerkId_def live_users_def find_Some_iff dest: nth_mem)

lemma deactivate_put: "findByClerkId w k = Some u \<Longrightarrow> deactivateByClerkId k w = put_user (u\<lparr>us_active := False\<rparr>) w"
  by (simp add: deactivateByClerkId_def put_user_def)

lemma deleted_effect:
  assumes ok: "people_ok w" and rest: "leaves_someone k w"
  shows "people_ok (deactivateByClerkId k w) \<and> supers (deactivateByClerkId k w) \<noteq> []"
proof (cases "findByClerkId w k")
  case None
  then show ?thesis using ok rest by (auto simp: deactivateByClerkId_def leaves_someone_def supers_Nil)
next
  case (Some u)
  note u = findByClerkId_Some [OF Some]
  obtain v where v: "v \<in> set (pe_users w)" "active_super v" "us_clerk v \<noteq> Some k" using rest by (auto simp: leaves_someone_def)
  have us: "users_ok (pe_next w) (pe_users w)" using ok by (simp add: people_ok_def)
  have "people_ok (put_user (u\<lparr>us_active := False\<rparr>) w)"
    by (rule put_user_ok [OF ok, of u]) (use u users_ok_clerk [OF us, of u] in auto)
  moreover have "supers (put_user (u\<lparr>us_active := False\<rparr>) w) \<noteq> []"
    by (rule put_user_survives [of u]) (use u v users_ok_unique [OF us] in auto)
  ultimately show ?thesis by (simp add: deactivate_put [OF Some])
qed

text \<open>The notice left out, on any panel: the account of the last active super administrator is disabled as any other.\<close>

lemma deleted_last_super:
  assumes ok: "people_ok w" and last: "\<not> leaves_someone k w"
  shows "\<not> (\<exists>u \<in> set (pe_users (deactivateByClerkId k w)). active_super u)"
proof (cases "findByClerkId w k")
  case None
  have "\<not> active_super v" if "v \<in> set (pe_users w)" for v
    using None last that by (auto simp: findByClerkId_def live_users_def find_None_iff leaves_someone_def active_super_def)
  then show ?thesis using None by (simp add: deactivateByClerkId_def)
next
  case (Some u)
  note u = findByClerkId_Some [OF Some]
  have us: "users_ok (pe_next w) (pe_users w)" using ok by (simp add: people_ok_def)
  have "us_id v = us_id u" if "v \<in> set (pe_users w)" "active_super v" for v
    using that last u users_ok_clerk [OF us, of v u] by (auto simp: leaves_someone_def)
  moreover have off: "\<not> active_super (u\<lparr>us_active := False\<rparr>)" by (simp add: active_super_def)
  ultimately have "\<not> (\<exists>v \<in> set (pe_users (put_user (u\<lparr>us_active := False\<rparr>) w)). active_super v)"
    using u put_user_mem [of u "pe_users w" "u\<lparr>us_active := False\<rparr>"] off by (auto simp: put_user_def)
  then show ?thesis by (simp add: deactivate_put [OF Some])
qed

definition guarded_by :: "people \<Rightarrow> people \<Rightarrow> bool" where
  "guarded_by w0 w \<longleftrightarrow> people_ok w \<and> supers w = supers w0 \<and>
     set (passwords w) \<subseteq> set (passwords w0) \<union> {k. Some k \<notin> snd ` set (supers w0)}"

interpretation in_charge: stepwise "run_step api" "\<lambda>w. people_ok w \<and> supers w \<noteq> []" for api
proof unfold_locales
  fix w w'
  assume inv: "people_ok w \<and> supers w \<noteq> []" and step: "run_step api w w'"
  from step consider a where "panel_step api a w w'" | k where "w' = deactivateByClerkId k w" "leaves_someone k w"
    by (auto simp: run_step_def)
  then show "people_ok w' \<and> supers w' \<noteq> []"
  proof cases
    case 1
    from panel_step_effect [OF this] inv show ?thesis by blast
  next
    case 2
    then show ?thesis using deleted_effect inv by blast
  qed
qed

interpretation nobody_climbs: stepwise "admin_step api" "guarded_by w0" for api w0
proof unfold_locales
  fix w w'
  assume inv: "guarded_by w0 w" and step: "admin_step api w w'"
  obtain a where a: "map_option us_role a \<noteq> Some SUPER_ADMIN" and run: "panel_step api a w w'"
    using step by (auto simp: admin_step_def)
  from panel_step_effect [OF run] inv a show "guarded_by w0 w'" unfolding guarded_by_def by fastforce
qed

subsection \<open>A small office\<close>

definition sample_account :: "id \<Rightarrow> string \<Rightarrow> role \<Rightarrow> bool \<Rightarrow> account" where
  "sample_account i k r active = \<lparr>us_id = i, us_clerk = Some k, us_role = r, us_email = Some (k @ ''@maxi.cu''), us_first = None,
     us_last = None, us_phone = None, us_avatar = None, us_business = None, us_business_text = None, us_business_logo = None,
     us_org = None, us_active = active, us_approved = (if active then Some 1 else None), us_created_by = None, us_created = 1,
     us_deleted = False\<rparr>"

definition sample_invitation :: invitation where
  "sample_invitation = \<lparr>in_id = 7, in_email = ''luis@maxi.cu'', in_role = SUPER_ADMIN, in_roles = [], in_inviter = Some 1, in_org = None,
     in_first = None, in_last = None, in_clerk = Some ''inv1'', in_status = InvRevoked, in_accepted = None, in_created = 2\<rparr>"

definition sample_people :: people where
  "sample_people = \<lparr>pe_users = [sample_account 1 ''ana'' SUPER_ADMIN True, sample_account 2 ''beto'' ADMIN True,
       sample_account 3 ''caro'' SUPER_ADMIN False, sample_account 4 ''dani'' STAFF True],
     pe_invitations = [sample_invitation], pe_customers = [], pe_access = sample_access, pe_calls = [], pe_next = 10\<rparr>"

definition sample_clerk :: clerk_api where
  "sample_clerk = \<lparr>ck_backoffice_key = True, ck_store_key = True, ck_notify = False, ck_redirect = False, ck_token = Some,
     ck_backoffice_user = (\<lambda>_. None), ck_store_user = (\<lambda>_. None), ck_store_has_email = (\<lambda>_ _. False),
     ck_create_customer = (\<lambda>calls e. Inr e), ck_invite = (\<lambda>calls c. Inr ''inv2''), ck_set_password = (\<lambda>_ _ _. Inr ()),
     ck_pending = (\<lambda>_. None)\<rparr>"

abbreviation ana :: account where "ana \<equiv> sample_account 1 ''ana'' SUPER_ADMIN True"
abbreviation beto :: account where "beto \<equiv> sample_account 2 ''beto'' ADMIN True"
abbreviation caro :: account where "caro \<equiv> sample_account 3 ''caro'' SUPER_ADMIN False"

lemma sample_people_ok: "people_ok sample_people"
  by (simp add: people_ok_def users_ok_def sample_people_def sample_account_def)

lemma sample_signed_in: "signed_in sample_people beto" "signed_in sample_people ana"
  by (simp_all add: signed_in_def live_users_def sample_people_def sample_account_def is_system_admin_def)

subsection \<open>The rules\<close>

text \<open>C24: Nobody climbs: however administrators who are not super administrators use the panel (creating, editing, restoring
  and removing accounts, setting passwords, inviting, revoking and resending invitations), mixed with the
  identity provider's notices of accounts changed and of accounts created that the panel does not know yet, the active super
  administrators are the same before and after, each signs in with the same account, and none of them has had a password set. The
  notice left out, of the creation of an account that has its row already, is the one with which they climb (C26).\<close>

theorem no_admin_makes_a_super_admin:
  assumes "people_ok w" and "(admin_step api)\<^sup>*\<^sup>* w w'"
  shows "supers w' = supers w \<and>
    (\<forall>k. k \<in> set (passwords w') \<longrightarrow> k \<notin> set (passwords w) \<longrightarrow> Some k \<notin> snd ` set (supers w))"
proof -
  have "guarded_by w w" using assms(1) by (auto simp: guarded_by_def)
  from nobody_climbs.run [OF assms(2) this] show ?thesis by (auto simp: guarded_by_def)
qed

lemma no_admin_makes_a_super_admin_witness:
  "\<exists>w'. setPassword sample_clerk 4 ''nueva'' (Some beto) sample_people = Inr w' \<and> supers w' = supers sample_people \<and>
     passwords w' = [''dani''] \<and> Some ''dani'' \<notin> snd ` set (supers sample_people)"
proof -
  define w' where "w' = called (CallSetPassword ''dani'' ''nueva'') sample_people"
  have run: "setPassword sample_clerk 4 ''nueva'' (Some beto) sample_people = Inr w'"
    by (simp add: w'_def setPassword_def find_user_def live_users_def sample_people_def sample_account_def assertPuedeGestionar_def
        sample_clerk_def given_or_def)
  have "admin_step sample_clerk sample_people w'"
    unfolding admin_step_def by (rule exI [of _ "Some beto"]) (simp add: P_password [OF sample_signed_in(1) run], simp add: sample_account_def)
  from no_admin_makes_a_super_admin [OF sample_people_ok r_into_rtranclp, OF this]
  have "supers w' = supers sample_people" and "k \<in> set (passwords w') \<longrightarrow> k \<notin> set (passwords sample_people) \<longrightarrow> Some k \<notin> snd ` set (supers sample_people)" for k
    by blast+
  moreover have "passwords w' = [''dani'']" and "passwords sample_people = []" by (simp_all add: w'_def passwords_def sample_people_def called_def)
  ultimately show ?thesis using run by auto
qed



subsection \<open>Where the rules leak\<close>

lemma find_put: "List.find (\<lambda>x. in_id x = i) xs = Some x \<Longrightarrow> in_id y = i \<Longrightarrow> List.find (\<lambda>x. in_id x = i) (save_by in_id y xs) = Some y"
  by (simp add: find_save_by)

text \<open>Resending does not ask who is asking: an administrator who may not invite a super administrator can bring a revoked
  invitation of one back to life, with a fresh invitation at the provider.\<close>

theorem resend_skips_the_rank:
  assumes "find_invitation w i = Inr x" and "in_role x = SUPER_ADMIN" and "in_status x = InvRevoked" and "us_role a \<noteq> SUPER_ADMIN"
    and "ck_backoffice_key api" and "ck_invite api (pe_calls w) (clerk_invitation_call api (resend_dto x) a) = Inr k"
  shows "createAndSendInvitation api now (resend_dto x) a w = Inl (Forbidden ''Only a super admin can invite a super admin'') \<and>
    (\<exists>w'. resend api i a w = Inr w' \<and> find_invitation w' i = Inr (x\<lparr>in_clerk := Some k, in_status := InvPending\<rparr>) \<and>
       pe_calls w' = pe_calls w @ [clerk_invitation_call api (resend_dto x) a])"
proof -
  have x: "List.find (\<lambda>x. in_id x = i) (pe_invitations w) = Some x" using assms(1) by (simp add: find_invitation_def)
  then have id: "in_id x = i" by (auto simp: find_Some_iff)
  define w' where "w' = save_invitation (x\<lparr>in_clerk := Some k, in_status := InvPending\<rparr>) (called (clerk_invitation_call api (resend_dto x) a) w)"
  have "resend api i a w = Inr w'"
    using assms by (simp add: resend_def sendClerkInvitation_def Let_def w'_def)
  moreover have "find_invitation w' i = Inr (x\<lparr>in_clerk := Some k, in_status := InvPending\<rparr>)"
    using find_put [OF x, of "x\<lparr>in_clerk := Some k, in_status := InvPending\<rparr>"] id
    by (simp add: find_invitation_def w'_def save_invitation_def called_def)
  moreover have "pe_calls w' = pe_calls w @ [clerk_invitation_call api (resend_dto x) a]"
    by (simp add: w'_def save_invitation_def called_def)
  moreover have "createAndSendInvitation api now (resend_dto x) a w = Inl (Forbidden ''Only a super admin can invite a super admin'')"
    using assms(2,4) by (simp add: createAndSendInvitation_def resend_dto_def)
  ultimately show ?thesis by blast
qed

lemma resend_skips_the_rank_witness:
  "\<exists>w'. resend sample_clerk 7 beto sample_people = Inr w' \<and>
     find_invitation w' 7 = Inr (sample_invitation\<lparr>in_clerk := Some ''inv2'', in_status := InvPending\<rparr>)"
proof -
  have x: "find_invitation sample_people 7 = Inr sample_invitation" by (simp add: find_invitation_def sample_people_def sample_invitation_def)
  have facts: "in_role sample_invitation = SUPER_ADMIN" "in_status sample_invitation = InvRevoked" "us_role beto \<noteq> SUPER_ADMIN"
    by (simp_all add: sample_invitation_def sample_account_def)
  have clerk: "ck_backoffice_key sample_clerk" "ck_invite sample_clerk cs c = Inr ''inv2''" for cs c by (simp_all add: sample_clerk_def)
  from resend_skips_the_rank [OF x facts clerk] show ?thesis by blast
qed

text \<open>The protection of the last super administrator looks at the rank of the account, not at whether it is active: with a
  single active super administrator, an account of that rank that is disabled (one still waiting for
  approval, for instance) can be neither removed nor lowered by anybody, although the active one would stay.\<close>

theorem disabled_super_cannot_be_removed:
  assumes "find_user w i = Inr u" and "us_role u = SUPER_ADMIN" and "\<not> us_active u" and "length (supers w) = 1" and "people_ok w"
  shows "isl (remove_user api i actor w) \<and>
    (nu_role dto \<noteq> None \<longrightarrow> nu_role dto \<noteq> Some SUPER_ADMIN \<longrightarrow> isl (update_user now i dto actor w)) \<and>
    supers (put_user (u\<lparr>us_deleted := True\<rparr>) w) = supers w"
proof -
  have u: "u \<in> set (pe_users w)" "us_id u = i" using find_user_Inr [OF assms(1)] by auto
  have "filter (\<lambda>u. us_role u = SUPER_ADMIN \<and> us_active u) (live_users w) = filter active_super (pe_users w)"
    by (auto simp: live_users_def active_super_def intro!: filter_cong)
  then have last: "assertNotLastSuperAdmin w = Inl (Forbidden ''Cannot disable or demote the last active super admin'')"
    using assms(4) by (simp add: assertNotLastSuperAdmin_def supers_def)
  have 1: "isl (remove_user api i actor w)"
    using last assms(1,2) by (auto simp: remove_user_def bindE_def guardE_def split: sum.split)
  have 2: "nu_role dto \<noteq> None \<longrightarrow> nu_role dto \<noteq> Some SUPER_ADMIN \<longrightarrow> isl (update_user now i dto actor w)"
    using last assms(1,2) by (auto simp: update_user_def loses_super_def bindE_def split: sum.split)
  have "supers (put_user (u\<lparr>us_deleted := True\<rparr>) w) = supers w"
    by (rule put_user_supers [OF assms(5) u(1)]) (use assms(3) in \<open>auto simp: active_super_def\<close>)
  with 1 2 show ?thesis by blast
qed

lemma disabled_super_cannot_be_removed_witness:
  "isl (remove_user sample_clerk 3 (Some ana) sample_people) \<and>
   isl (update_user 5 3 (no_user_dto\<lparr>nu_role := Some STAFF\<rparr>) (Some ana) sample_people)"
proof -
  have u: "find_user sample_people 3 = Inr caro" by (simp add: find_user_def live_users_def sample_people_def sample_account_def)
  have facts: "us_role caro = SUPER_ADMIN" "\<not> us_active caro" "length (supers sample_people) = 1"
    by (simp_all add: supers_def sample_people_def sample_account_def active_super_def)
  show ?thesis
    using disabled_super_cannot_be_removed [OF u facts sample_people_ok, of sample_clerk "Some ana" "no_user_dto\<lparr>nu_role := Some STAFF\<rparr>" 5]
    by simp
qed

text \<open>The notice of a sign-up, when the person has a row already and a pending invitation: the rank is written over the row.\<close>

lemma sign_up_writes_the_rank:
  assumes "findPendingByEmail w email = Some x" and "in_role x = SUPER_ADMIN" and "email \<noteq> []" and "low email = email"
    and "List.find (\<lambda>u. us_clerk u = Some k) (pe_users w) = Some u" and "us_active u" and "\<not> us_deleted u" and "us_org u = None"
    and "\<forall>v \<in> set (pe_users w). us_email v \<noteq> Some email" and "\<forall>v \<in> set (pe_users w). us_clerk v = Some k \<longrightarrow> us_id v = us_id u"
    and "ku_id data = k" and "extractPrimaryEmail data = Some email"
  shows "\<exists>w'. on_admin_event now (UserCreated data) w = Inr w' \<and> (\<exists>v \<in> set (pe_users w'). us_clerk v = Some k \<and> active_super v)"
proof -
  have mem: "u \<in> set (pe_users w)" "us_clerk u = Some k" using assms(5) by (auto simp: find_Some_iff)
  define data1 where "data1 = profile_of data (Some (in_role x)) (Some (in_roles x))"
  have mail: "kd_email data1 = Some email" using assms(12) by (simp add: data1_def profile_of_def)
  define v where "v = u\<lparr>us_email := or_old (map_option low (kd_email data1)) (us_email u), us_first := or_old (kd_first data1) (us_first u),
             us_last := or_old (kd_last data1) (us_last u), us_phone := or_old (kd_phone data1) (us_phone u),
             us_business := or_old (kd_business data1) (us_business u), us_role := given_or (kd_role data1) (us_role u)\<rparr>"
  have v: "us_clerk v = Some k" "active_super v" "us_email v = Some email" "us_org v = None" "us_id v = us_id u"
    using assms(2,4,6-8) mem(2) mail by (simp_all add: v_def active_super_def data1_def profile_of_def given_or_def or_old_def)
  have "List.find (\<lambda>u. us_email u = Some email) (pe_users w) = None" using assms(9) by (simp add: find_None_iff)
  then have "guard_user_email w email (Some (us_id u)) = Inr ()" by (simp add: guard_user_email_def)
  moreover have "unique_user v w" using assms(9,10) v by (auto simp: unique_user_def list_all_iff)
  ultimately have up: "createOrUpdateFromClerk now k data1 w = Inr (w\<lparr>pe_users := save_by us_id v (pe_users w)\<rparr>)"
    unfolding createOrUpdateFromClerk_def assms(5) option.case v_def [symmetric]
    using mail assms(3,4) by (simp add: when_email_def save_user_def)
  let ?w' = "markAccepted now x (w\<lparr>pe_users := save_by us_id v (pe_users w)\<rparr>)"
  have "on_admin_event now (UserCreated data) w = Inr ?w'"
    using assms(1,3,11,12) up by (simp add: createAdminUserFromInvitation_def non_empty_def data1_def)
  moreover have "v \<in> set (pe_users ?w')" using mem(1) v(5) by (auto simp: markAccepted_def save_invitation_def set_save_by)
  ultimately show ?thesis using v(1,2) by blast
qed

text \<open>C26: An administrator makes a super administrator in three calls. Resending does not look at the rank of the invitation, so a revoked
  invitation of a super administrator comes back to life; creating an account with the identifier that the person has at the provider
  gives an active row of any lower rank; and the notice that the person signed up, when it comes (or comes again) after that,
  finds the row and writes the rank of the invitation over it, leaving it active and unapproved by anyone.\<close>

theorem admin_makes_a_super_admin:
  assumes "find_invitation w i = Inr x" and "in_role x = SUPER_ADMIN" and "in_status x = InvRevoked" and "us_role a = ADMIN"
    and "\<forall>y \<in> set (pe_invitations w). in_email y = in_email x \<longrightarrow> y = x"
    and "low (js_trim (in_email x)) = in_email x" and "low (in_email x) = in_email x" and "in_email x \<noteq> []" and "clerk_id \<noteq> []"
    and "\<forall>u \<in> set (pe_users w). us_clerk u \<noteq> Some clerk_id \<and> us_email u \<noteq> Some (in_email x) \<and> us_id u < pe_next w"
    and "ck_backoffice_key api" and "ck_invite api (pe_calls w) (clerk_invitation_call api (resend_dto x) a) = Inr k"
    and "ku_id data = clerk_id" and "extractPrimaryEmail data = Some (in_email x)"
  shows "\<exists>w1 w2 w3. resend api i a w = Inr w1 \<and>
    create_user now STAFF (no_user_dto\<lparr>nu_clerk := Some clerk_id\<rparr>) (Some a) w1 = Inr w2 \<and>
    on_admin_event later (UserCreated data) w2 = Inr w3 \<and>
    (\<exists>u \<in> set (pe_users w3). us_clerk u = Some clerk_id \<and> active_super u) \<and>
    \<not> (\<exists>u \<in> set (pe_users w). us_clerk u = Some clerk_id)"
proof -
  have x: "List.find (\<lambda>x. in_id x = i) (pe_invitations w) = Some x" using assms(1) by (simp add: find_invitation_def)
  then have xi: "in_id x = i" "x \<in> set (pe_invitations w)" by (auto simp: find_Some_iff)
  let ?x = "x\<lparr>in_clerk := Some k, in_status := InvPending\<rparr>"
  let ?dto = "no_user_dto\<lparr>nu_clerk := Some clerk_id\<rparr>"
  let ?u = "new_user now (pe_next w) STAFF ?dto True"
  define w1 where "w1 = save_invitation ?x (called (clerk_invitation_call api (resend_dto x) a) w)"
  have f1: "pe_users w1 = pe_users w" "pe_next w1 = pe_next w" "pe_invitations w1 = save_by in_id ?x (pe_invitations w)"
    by (simp_all add: w1_def save_invitation_def called_def)
  define w2 where "w2 = w1\<lparr>pe_users := pe_users w @ [?u], pe_next := Suc (pe_next w)\<rparr>"
  have r1: "resend api i a w = Inr w1"
    using assms(1-3,11,12) by (simp add: resend_def sendClerkInvitation_def Let_def w1_def)
  have new: "guard_user_clerk w1 clerk_id = Inr ()" using assms(10) by (auto simp: guard_user_clerk_def f1 find_None_iff)
  have "unique_user ?u w1"
    using assms(10) by (auto simp: unique_user_def f1 new_user_def no_user_dto_def list_all_iff)
  then have r2: "create_user now STAFF ?dto (Some a) w1 = Inr w2"
    using new assms(9)
    by (simp add: create_user_def assertPuedeAsignarRol_def no_user_dto_def when_email_def insert_user_def given_or_def f1 w2_def bindE_def guardE_def)
  have pending: "findPendingByEmail w2 (in_email x) = Some ?x"
    unfolding findPendingByEmail_def assms(6)
  proof (rule find_unique)
    show "?x \<in> set (pe_invitations w2)" using xi by (auto simp: w2_def f1 set_save_by)
    fix y assume y: "y \<in> set (pe_invitations w2)" "in_email y = in_email x \<and> in_status y = InvPending"
    then have "y = ?x \<or> y \<in> set (pe_invitations w)" by (auto simp: w2_def f1 save_by_def split: if_splits)
    then show "y = ?x" using y(2) assms(3,5) by auto
  qed simp
  have found: "List.find (\<lambda>u. us_clerk u = Some clerk_id) (pe_users w2) = Some ?u"
  proof (rule find_unique)
    fix y assume "y \<in> set (pe_users w2)" "us_clerk y = Some clerk_id"
    then show "y = ?u" using assms(10) by (auto simp: w2_def)
  qed (simp_all add: w2_def new_user_def no_user_dto_def)
  have fields: "us_active ?u" "\<not> us_deleted ?u" "us_org ?u = None" "us_email ?u = None" "us_id ?u = pe_next w"
    by (simp_all add: new_user_def no_user_dto_def)
  have "\<forall>v \<in> set (pe_users w2). us_email v \<noteq> Some (in_email x)"
    "\<forall>v \<in> set (pe_users w2). us_clerk v = Some clerk_id \<longrightarrow> us_id v = us_id ?u"
    using assms(10) fields(4) by (auto simp: w2_def)
  from sign_up_writes_the_rank [OF pending _ assms(8,7) found fields(1-3) this assms(13,14), of later]
  show ?thesis using r1 r2 assms(2,10) by auto
qed

definition luis :: clerk_user where
  "luis = \<lparr>ku_id = ''luis'', ku_emails = [(''e1'', ''luis@maxi.cu'')], ku_primary = Some ''e1'', ku_first = None, ku_last = None,
     ku_meta_phone = None, ku_meta_business = None\<rparr>"

lemma admin_makes_a_super_admin_witness:
  "\<exists>w1 w2 w3. resend sample_clerk 7 beto sample_people = Inr w1 \<and>
     create_user 5 STAFF (no_user_dto\<lparr>nu_clerk := Some ''luis''\<rparr>) (Some beto) w1 = Inr w2 \<and>
     on_admin_event 6 (UserCreated luis) w2 = Inr w3 \<and> (\<exists>u \<in> set (pe_users w3). us_clerk u = Some ''luis'' \<and> active_super u)"
proof -
  have x: "find_invitation sample_people 7 = Inr sample_invitation" by (simp add: find_invitation_def sample_people_def sample_invitation_def)
  have facts: "in_role sample_invitation = SUPER_ADMIN" "in_status sample_invitation = InvRevoked" "us_role beto = ADMIN"
    "\<forall>y \<in> set (pe_invitations sample_people). in_email y = in_email sample_invitation \<longrightarrow> y = sample_invitation"
    by (simp_all add: sample_invitation_def sample_account_def sample_people_def)
  have mail: "low (js_trim (in_email sample_invitation)) = in_email sample_invitation" "low (in_email sample_invitation) = in_email sample_invitation"
    "in_email sample_invitation \<noteq> []" "''luis'' \<noteq> []" by code_simp+
  have fresh: "\<forall>u \<in> set (pe_users sample_people). us_clerk u \<noteq> Some ''luis'' \<and> us_email u \<noteq> Some (in_email sample_invitation) \<and>
      us_id u < pe_next sample_people"
    by (simp add: sample_people_def sample_account_def sample_invitation_def)
  have clerk: "ck_backoffice_key sample_clerk" "ck_invite sample_clerk cs c = Inr ''inv2''" for cs c by (simp_all add: sample_clerk_def)
  have data: "ku_id luis = ''luis''" "extractPrimaryEmail luis = Some (in_email sample_invitation)"
    by (simp_all add: luis_def extractPrimaryEmail_def sample_invitation_def)
  from admin_makes_a_super_admin [OF x facts mail fresh clerk data, of 5 6] show ?thesis by blast
qed

text \<open>When the provider accepts the invitation (it refuses the addresses it knows, so the person's account there has to be gone), inviting
  an administrator again at the address of a disabled or deleted account is accepted, but the notice of the next sign-up is refused
  because the address is taken: no account appears and the invitation stays pending.\<close>

theorem reinvited_account_is_refused:
  assumes "u \<in> set (pe_users w)" and "us_email u = Some email" and "email \<noteq> []" and "low email = email" and "js_trim email = email"
    and "\<forall>v \<in> set (pe_users w). us_email v = Some email \<longrightarrow> us_deleted v \<or> \<not> us_active v"
    and "\<forall>x \<in> set (pe_invitations w). in_email x = email \<longrightarrow> in_status x \<noteq> InvPending"
    and "ck_backoffice_key api" and "ck_invite api (pe_calls w) (clerk_invitation_call api dto a) = Inr k"
    and "iv_email dto = email" and "iv_role dto = ADMIN" and "iv_roles dto = None"
    and "\<forall>v \<in> set (pe_users w). us_clerk v \<noteq> Some (ku_id data)" and "extractPrimaryEmail data = Some email"
  shows "\<exists>w' x. createAndSendInvitation api now dto a w = Inr w' \<and> findPendingByEmail w' email = Some x \<and>
    on_admin_event later (UserCreated data) w' = Inl (Conflict ''A user with that email already exists'')"
proof -
  let ?x = "\<lparr>in_id = pe_next w, in_email = email, in_role = iv_role dto, in_roles = [], in_inviter = Some (us_id a),
      in_org = iv_org dto, in_first = iv_first dto, in_last = iv_last dto, in_clerk = Some k, in_status = InvPending,
      in_accepted = None, in_created = now\<rparr>"
  define w' where "w' = (called (clerk_invitation_call api dto a) w)\<lparr>pe_invitations := pe_invitations w @ [?x], pe_next := Suc (pe_next w)\<rparr>"
  have no_user: "List.find (\<lambda>u. us_email u = Some email \<and> us_active u) (live_users w) = None"
    using assms(6) by (auto simp: find_None_iff live_users_def)
  have no_inv: "List.find (\<lambda>x. in_email x = email \<and> in_status x = InvPending) (pe_invitations w) = None"
    using assms(7) by (auto simp: find_None_iff)
  have "js_set (given_or (iv_roles dto) []) = []" using assms(12) by (simp add: given_or_def)
  then have run: "createAndSendInvitation api now dto a w = Inr w'"
    using assms(4,5,8-11) no_user no_inv
    by (simp add: createAndSendInvitation_def sendClerkInvitation_def Let_def is_system_admin_def w'_def called_def)
  have pending: "findPendingByEmail w' email = Some ?x"
    using no_inv assms(4,5) by (simp add: findPendingByEmail_def w'_def called_def find_append)
  have unknown: "List.find (\<lambda>u. us_clerk u = Some (ku_id data)) (pe_users w') = None"
    using assms(13) by (auto simp: find_None_iff w'_def called_def)
  have "List.find (\<lambda>u. us_email u = Some email) (pe_users w') \<noteq> None"
    using assms(1,2) by (auto simp: find_None_iff w'_def called_def)
  then have taken: "guard_user_email w' email None = Inl (Conflict ''A user with that email already exists'')"
    by (auto simp: guard_user_email_def)
  have "on_admin_event later (UserCreated data) w' = Inl (Conflict ''A user with that email already exists'')"
    using pending unknown taken assms(3,4,14)
    by (simp add: createAdminUserFromInvitation_def non_empty_def createOrUpdateFromClerk_def profile_of_def when_email_def)
  with run pending show ?thesis by blast
qed

definition sample_signup :: clerk_user where
  "sample_signup = \<lparr>ku_id = ''caro2'', ku_emails = [(''e1'', ''caro@maxi.cu'')], ku_primary = Some ''e1'', ku_first = None, ku_last = None,
     ku_meta_phone = None, ku_meta_business = None\<rparr>"

definition sample_invite :: invite_dto where
  "sample_invite = \<lparr>iv_email = ''caro@maxi.cu'', iv_role = ADMIN, iv_roles = None, iv_first = None, iv_last = None, iv_org = None\<rparr>"

lemma reinvited_account_is_refused_witness:
  "\<exists>w' x. createAndSendInvitation sample_clerk 5 sample_invite ana sample_people = Inr w' \<and>
     findPendingByEmail w' ''caro@maxi.cu'' = Some x \<and>
     on_admin_event 6 (UserCreated sample_signup) w' = Inl (Conflict ''A user with that email already exists'')"
proof -
  have mem: "caro \<in> set (pe_users sample_people)" and mail: "us_email caro = Some ''caro@maxi.cu''"
    by (simp_all add: sample_people_def sample_account_def)
  have low: "low ''caro@maxi.cu'' = ''caro@maxi.cu''" "js_trim ''caro@maxi.cu'' = ''caro@maxi.cu''" by code_simp+
  have free: "\<forall>v \<in> set (pe_users sample_people). us_email v = Some ''caro@maxi.cu'' \<longrightarrow> us_deleted v \<or> \<not> us_active v"
    "\<forall>x \<in> set (pe_invitations sample_people). in_email x = ''caro@maxi.cu'' \<longrightarrow> in_status x \<noteq> InvPending"
    "\<forall>v \<in> set (pe_users sample_people). us_clerk v \<noteq> Some (ku_id sample_signup)"
    by (simp_all add: sample_people_def sample_account_def sample_invitation_def sample_signup_def)
  have api: "ck_backoffice_key sample_clerk" "ck_invite sample_clerk cs c = Inr ''inv2''" for cs c by (simp_all add: sample_clerk_def)
  have dto: "iv_email sample_invite = ''caro@maxi.cu''" "iv_role sample_invite = ADMIN" "iv_roles sample_invite = None"
    by (simp_all add: sample_invite_def)
  have mail2: "extractPrimaryEmail sample_signup = Some ''caro@maxi.cu''" by (simp add: extractPrimaryEmail_def sample_signup_def)
  show ?thesis
    by (rule reinvited_account_is_refused [OF mem mail _ low free(1,2) api(1) api(2) dto free(3) mail2]) simp
qed

end
