(* ===== verification/Gateways.thy ===== *)
theory Gateways
  imports Payments Search
begin

section \<open>The gateways that talk to a platform\<close>

text \<open>
  \<open>src/payments/gateways/tropipay/\<close> (cards) and \<open>src/payments/gateways/mibilletera/\<close> (deposit and wallet): the
  request of a charge, its polling, and the check and reading of a notification. What is outside is the
  record \<open>platforms\<close>: the configuration, the answers of both platforms, the two signature functions of
  their libraries, \<open>JSON.parse\<close>, the parsing of dates and the printing of a number. A status that is not one of the enum's is
  refused when it is read (the column would refuse it when it is saved).
\<close>

subsection \<open>Values of a notification\<close>

fun js_truthy :: "json option \<Rightarrow> bool" where
  "js_truthy None = False"
| "js_truthy (Some JNull) = False"
| "js_truthy (Some (JBool b)) = b"
| "js_truthy (Some (JNum r)) = (r \<noteq> 0)"
| "js_truthy (Some (JStr s)) = (s \<noteq> [])"
| "js_truthy (Some _) = True"

text \<open>\<open>a ?? b\<close> on a field that may be absent or null.\<close>

fun nullish :: "json option \<Rightarrow> json option" where
  "nullish (Some JNull) = None"
| "nullish x = x"

record movement =
  mv_reference :: "string option"
  mv_state :: "int option"
  mv_completed :: bool
  mv_raw :: json

record platforms =
  px_now :: instant
  px_production :: bool
  px_parse :: "string \<Rightarrow> json option"
  px_text :: "json \<Rightarrow> string"
  px_date :: "string \<Rightarrow> instant option"
  px_public_url :: "string option"
  px_store_url :: "string option"
  tp_configured :: bool
  tp_currency :: string
  tp_min :: "num64 option"
  tp_verify :: "string \<Rightarrow> string \<Rightarrow> string \<Rightarrow> bool"
  tp_create :: "json \<Rightarrow> error + string option \<times> string option \<times> json"
  tp_movements :: "error + movement list"
  mb_secret :: "string option"
  mb_hmac :: "string \<Rightarrow> string \<Rightarrow> string"
  mb_currency :: string
  mb_configured :: bool
  mb_fetch :: "string \<Rightarrow> string \<Rightarrow> json option \<Rightarrow> (bool \<times> json option) option"

text \<open>\<open>String(v)\<close>: text stays as it is, the rest is printed.\<close>

definition text_of :: "platforms \<Rightarrow> json option \<Rightarrow> string" where
  "text_of px j = (case j of None \<Rightarrow> ''undefined'' | Some (JStr s) \<Rightarrow> s | Some v \<Rightarrow> px_text px v)"

fun read_status :: "string \<Rightarrow> charge_status option" where
  "read_status s =
     (if s = ''PENDING'' then Some ChPending else if s = ''REQUIRES_ACTION'' then Some ChRequiresAction
      else if s = ''PROCESSING'' then Some ChProcessing else if s = ''SUCCEEDED'' then Some ChSucceeded
      else if s = ''FAILED'' then Some ChFailed else if s = ''EXPIRED'' then Some ChExpired
      else if s = ''CANCELLED'' then Some ChCancelled else None)"

subsection \<open>Cards\<close>

definition SUPPORTED_CURRENCIES :: "string list" where
  "SUPPORTED_CURRENCIES = [''EUR'', ''USD'']"

definition DEFAULT_MIN_AMOUNT :: num64 where
  "DEFAULT_MIN_AMOUNT = 3 / 2"

text \<open>\<open>url.replace(/\/\/localhost(?=[:/?]|$)/, '//127.0.0.1')\<close>: the first occurrence that ends there.\<close>

definition host_ends :: "string \<Rightarrow> bool" where
  "host_ends s \<longleftrightarrow> s = [] \<or> hd s \<in> {CHR '':'', CHR ''/'', CHR ''?''}"

fun normalizeCallbackUrl :: "string \<Rightarrow> string" where
  "normalizeCallbackUrl [] = []"
| "normalizeCallbackUrl (c # cs) =
     (if take 11 (c # cs) = ''//localhost'' \<and> host_ends (drop 11 (c # cs)) then ''//127.0.0.1'' @ drop 11 (c # cs)
      else c # normalizeCallbackUrl cs)"

definition no_end_slash :: "string \<Rightarrow> string" where
  "no_end_slash s = rev (dropWhile (\<lambda>c. c = CHR ''/'') (rev s))"

definition storefrontUrl :: "platforms \<Rightarrow> id \<Rightarrow> string \<Rightarrow> string" where
  "storefrontUrl px oid outcome = normalizeCallbackUrl (no_end_slash (case px_store_url px of None \<Rightarrow> ''http://127.0.0.1:3001'' | Some u \<Rightarrow> u)
     @ ''/pedidos/'' @ dec_str oid @ ''?pago='' @ outcome)"

definition notificationUrl :: "platforms \<Rightarrow> string" where
  "notificationUrl px = normalizeCallbackUrl (no_end_slash (case px_public_url px of None \<Rightarrow> ''http://127.0.0.1:3000'' | Some u \<Rightarrow> u)
     @ ''/api/webhooks/payments/tropipay'')"

definition minor_units :: "order \<Rightarrow> int" where
  "minor_units ord = math_round (js_mul (dec_num (o_total ord)) 100)"

definition link_request :: "platforms \<Rightarrow> order \<Rightarrow> string \<Rightarrow> json" where
  "link_request px ord key = (let concept = ''Orden '' @ order_name ord in JObj [
     (''reference'', JStr key), (''concept'', JStr concept), (''description'', JStr concept),
     (''amount'', JNum (of_int (minor_units ord))), (''currency'', JStr (tp_currency px)),
     (''singleUse'', JBool True), (''favorite'', JBool False), (''paymentMethods'', JArr [JStr ''EXT'', JStr ''TPP'']),
     (''reasonId'', JNum 9), (''expirationDays'', JNum 0), (''lang'', JStr ''es''),
     (''serviceDate'', JStr (take 10 (iso_string (px_now px)))),
     (''urlSuccess'', JStr (storefrontUrl px (o_id ord) ''ok'')), (''urlFailed'', JStr (storefrontUrl px (o_id ord) ''error'')),
     (''urlNotification'', JStr (notificationUrl px)), (''client'', JNull), (''directPayment'', JBool False)])"

definition tropipay_create :: "platforms \<Rightarrow> order \<Rightarrow> string \<Rightarrow> error + gateway_charge" where
  "tropipay_create px ord key =
     bindE (guardE (tp_currency px \<in> set SUPPORTED_CURRENCIES) (BadRequest ''Tropipay only settles in EUR or USD'')) (\<lambda>_.
     bindE (guardE (\<not> dec_num (o_total ord) < (case tp_min px of None \<Rightarrow> DEFAULT_MIN_AMOUNT | Some m \<Rightarrow> m))
              (BadRequest ''El monto es menor que el minimo para pagar con tarjeta'')) (\<lambda>_.
     bindE (guardE (tp_configured px) (InternalError ''Tropipay is not configured'')) (\<lambda>_.
     bindE (tp_create px (link_request px ord key)) (\<lambda>(short, long, raw).
     Inr \<lparr>gc_reference = key, gc_status = ChRequiresAction, gc_amount = number_fixed ord, gc_currency = tp_currency px,
       gc_fee = None, gc_settlement = None, gc_action = None, gc_redirect = Some (case short of None \<Rightarrow> long | Some u \<Rightarrow> Some u),
       gc_expires = Some None, gc_completed = None, gc_error = None, gc_raw = raw\<rparr>))))"

text \<open>Movements lag behind the notification: polling only ever promotes.\<close>

definition MOVEMENT_COMPLETED :: int where
  "MOVEMENT_COMPLETED = 2"

definition tropipay_sync :: "platforms \<Rightarrow> charge \<Rightarrow> error + gateway_charge" where
  "tropipay_sync px c =
     bindE (guardE (tp_configured px) (InternalError ''Tropipay is not configured'')) (\<lambda>_.
     bindE (tp_movements px) (\<lambda>rows.
     let mv = List.find (\<lambda>m. mv_reference m = Some (ch_reference c)) rows;
         paid = (case mv of None \<Rightarrow> False | Some m \<Rightarrow> mv_state m = Some MOVEMENT_COMPLETED \<or> mv_completed m)
     in Inr \<lparr>gc_reference = ch_reference c, gc_status = (if paid then ChSucceeded else ch_status c), gc_amount = ch_amount c,
       gc_currency = ch_currency c, gc_fee = None, gc_settlement = None, gc_action = None, gc_redirect = Some (ch_redirect_url c),
       gc_expires = None, gc_completed = Some (if paid then Some (px_now px) else None), gc_error = None,
       gc_raw = (case mv of Some m \<Rightarrow> mv_raw m | None \<Rightarrow> case ch_last_payload c of Some j \<Rightarrow> j | None \<Rightarrow> JObj [])\<rparr>))"

text \<open>What the notification carries; the signature is over the bank's code and the amount.\<close>

definition data_field :: "json \<Rightarrow> string \<Rightarrow> json option" where
  "data_field event k = (case nullish (json_field ''data'' event) of None \<Rightarrow> None | Some j \<Rightarrow> json_field k j)"

definition tropipay_signed :: "platforms \<Rightarrow> json \<Rightarrow> bool" where
  "tropipay_signed px event = tp_verify px (text_of px (data_field event ''originalCurrencyAmount''))
     (text_of px (data_field event ''bankOrderCode''))
     (case nullish (data_field event ''signaturev2'') of None \<Rightarrow> [] | s \<Rightarrow> text_of px s)"

definition tropipay_event :: "platforms \<Rightarrow> json \<Rightarrow> webhook_event" where
  "tropipay_event px event =
     (let succeeded = (json_field ''status'' event = Some (JStr ''OK''))
      in \<lparr>wh_reference = text_of px (data_field event ''reference''),
          wh_charge = \<lparr>gd_status = Some (if succeeded then ChSucceeded else ChFailed), gd_amount = None, gd_currency = None,
            gd_fee = (case data_field event ''ourFee'' of Some (JNum r) \<Rightarrow> Some (Some (cents_str (to_fixed2 (js_div r 100)))) | _ \<Rightarrow> None),
            gd_settlement = None, gd_action = None, gd_redirect = None, gd_expires = None, gd_completed = Some (Some (px_now px)),
            gd_error = Some (if succeeded then None else Some (case nullish (data_field event ''errorReason'') of
               None \<Rightarrow> ''Payment failed'' | m \<Rightarrow> text_of px m)),
            gd_raw = Some event\<rparr>\<rparr>)"

definition tropipay_webhook :: "platforms \<Rightarrow> string \<Rightarrow> error + webhook_event" where
  "tropipay_webhook px raw =
     bindE (from_option (BadRequest ''Invalid JSON webhook payload'') (px_parse px raw)) (\<lambda>event.
     bindE (guardE (event \<noteq> JNull) (InternalError ''TypeError'')) (\<lambda>_.
     bindE (guardE (js_truthy (data_field event ''reference'') \<and> js_truthy (data_field event ''bankOrderCode''))
              (BadRequest ''Malformed Tropipay notification'')) (\<lambda>_.
     bindE (guardE (tropipay_signed px event) (Unauthorized ''Invalid Tropipay signature'')) (\<lambda>_.
     Inr (tropipay_event px event)))))"

subsection \<open>Deposits and the wallet\<close>

text \<open>\<open>encodeURIComponent\<close> of Latin text.\<close>

definition hex_digit :: "nat \<Rightarrow> char" where
  "hex_digit n = (if n < 10 then char_of (48 + n) else char_of (55 + n))"

definition percent :: "nat \<Rightarrow> string" where
  "percent n = [CHR ''%'', hex_digit (n div 16), hex_digit (n mod 16)]"

definition uri_safe :: "char \<Rightarrow> bool" where
  "uri_safe c \<longleftrightarrow> slug_char (lower c) \<or> c \<in> set ''-_.!~*()'' \<or> c = char_of (39 :: nat)"

definition encode_uri :: "string \<Rightarrow> string" where
  "encode_uri s = concat (map (\<lambda>c. let n = of_char c in if uri_safe c then [c]
     else if n < 128 then percent n else percent (192 + n div 64) @ percent (128 + n mod 64)) s)"

definition mibi_request :: "platforms \<Rightarrow> string \<Rightarrow> string \<Rightarrow> json option \<Rightarrow> error + json" where
  "mibi_request px meth path body =
     bindE (guardE (mb_configured px) (InternalError ''Mi Billetera is not configured'')) (\<lambda>_.
     case mb_fetch px meth path body of
       None \<Rightarrow> Inl (InternalError ''Mi Billetera is unreachable'')
     | Some (ok, envelope) \<Rightarrow>
         (case envelope of
            None \<Rightarrow> Inl (InternalError ''Mi Billetera request failed'')
          | Some j \<Rightarrow>
              (if ok \<and> js_truthy (json_field ''success'' j) \<and> js_truthy (json_field ''data'' j)
               then from_option (InternalError ''no data'') (json_field ''data'' j)
               else Inl (InternalError ''Mi Billetera request failed''))))"

definition text_field :: "platforms \<Rightarrow> json \<Rightarrow> string \<Rightarrow> string option" where
  "text_field px j k = (case nullish (json_field k j) of None \<Rightarrow> None | v \<Rightarrow> Some (text_of px v))"

definition toGatewayCharge :: "platforms \<Rightarrow> json \<Rightarrow> error + gateway_charge" where
  "toGatewayCharge px data =
     bindE (from_option (InternalError ''invalid status'') (read_status (text_of px (json_field ''status'' data)))) (\<lambda>st.
     Inr \<lparr>gc_reference = text_of px (json_field ''reference'' data), gc_status = st, gc_amount = text_of px (json_field ''amount'' data),
       gc_currency = text_of px (json_field ''currency'' data), gc_fee = Some (text_field px data ''fee_amount''),
       gc_settlement = Some (case text_field px data ''settlement_amount'' of None \<Rightarrow> text_field px data ''net_amount'' | s \<Rightarrow> s),
       gc_action = Some (nullish (json_field ''action_payload'' data)), gc_redirect = Some None,
       gc_expires = Some (if js_truthy (json_field ''expires_at'' data) then px_date px (text_of px (json_field ''expires_at'' data)) else None),
       gc_completed = Some (if js_truthy (json_field ''completed_at'' data) then px_date px (text_of px (json_field ''completed_at'' data)) else None),
       gc_error = Some (if js_truthy (json_field ''error_message'' data) then text_field px data ''error_message'' else None),
       gc_raw = data\<rparr>)"

definition mibi_body :: "platforms \<Rightarrow> string \<Rightarrow> order \<Rightarrow> string \<Rightarrow> json" where
  "mibi_body px meth ord key = JObj [(''method'', JStr meth), (''amount'', JStr (number_fixed ord)), (''currency'', JStr (mb_currency px)),
     (''description'', JStr (''Orden '' @ order_name ord)), (''idempotency_key'', JStr key),
     (''metadata'', JObj [(''order_id'', JStr (dec_str (o_id ord)))])]"

definition mibi_create :: "platforms \<Rightarrow> string \<Rightarrow> order \<Rightarrow> string \<Rightarrow> error + gateway_charge" where
  "mibi_create px meth ord key =
     bindE (mibi_request px ''POST'' ''/api/merchant/charges/'' (Some (mibi_body px meth ord key))) (toGatewayCharge px)"

definition mibi_sync :: "platforms \<Rightarrow> charge \<Rightarrow> error + gateway_charge" where
  "mibi_sync px c =
     bindE (mibi_request px ''GET'' (''/api/merchant/charges/'' @ encode_uri (ch_reference c) @ ''/'') None) (toGatewayCharge px)"

definition EVENT_STATUSES :: "(string \<times> string) list" where
  "EVENT_STATUSES = [(''charge.succeeded'', ''SUCCEEDED''), (''charge.failed'', ''FAILED''), (''charge.expired'', ''EXPIRED''),
     (''charge.cancelled'', ''CANCELLED'')]"

definition mibi_signed :: "platforms \<Rightarrow> string \<Rightarrow> (string \<times> string) list \<Rightarrow> error + unit" where
  "mibi_signed px raw headers =
     (case mb_secret px of
        Some (c # cs) \<Rightarrow> guardE ((case jm_get ''x-mibi-signature'' headers of None \<Rightarrow> [] | Some s \<Rightarrow> s) = mb_hmac px (c # cs) raw)
          (Unauthorized ''Invalid Mi Billetera signature'')
      | _ \<Rightarrow> guardE (\<not> px_production px) (Unauthorized ''Mi Billetera webhook secret is not configured''))"

definition mibi_status :: "platforms \<Rightarrow> json \<Rightarrow> string option" where
  "mibi_status px event = (case nullish (json_field ''status'' event) of
     None \<Rightarrow> jm_get (text_of px (json_field ''event'' event)) EVENT_STATUSES
   | v \<Rightarrow> if js_truthy v then Some (text_of px v) else None)"

definition string_field :: "json \<Rightarrow> string \<Rightarrow> string option option" where
  "string_field j k = (case json_field k j of Some (JStr s) \<Rightarrow> Some (Some s) | _ \<Rightarrow> None)"

definition mibi_webhook :: "platforms \<Rightarrow> string \<Rightarrow> (string \<times> string) list \<Rightarrow> error + webhook_event" where
  "mibi_webhook px raw headers =
     bindE (mibi_signed px raw headers) (\<lambda>_.
     bindE (from_option (BadRequest ''Invalid JSON webhook payload'') (px_parse px raw)) (\<lambda>event.
     bindE (guardE (event \<noteq> JNull) (InternalError ''TypeError'')) (\<lambda>_.
     bindE (from_option (BadRequest ''Unrecognized Mi Billetera webhook event'') (mibi_status px event)) (\<lambda>s.
     bindE (from_option (InternalError ''invalid status'') (read_status s)) (\<lambda>st.
     Inr \<lparr>wh_reference = (case nullish (json_field ''reference'' event) of None \<Rightarrow> [] | v \<Rightarrow> text_of px v),
       wh_charge = \<lparr>gd_status = Some st, gd_amount = None, gd_currency = None, gd_fee = string_field event ''fee_amount'',
         gd_settlement = string_field event ''net_amount'', gd_action = None, gd_redirect = None, gd_expires = None,
         gd_completed = (if TERMINAL st then Some (Some (px_now px)) else None), gd_error = None, gd_raw = Some event\<rparr>\<rparr>)))))"

subsection \<open>The registry\<close>

definition platform_api :: "platforms \<Rightarrow> gateway_api" where
  "platform_api px = \<lparr>
     ga_create = (\<lambda>code ord key m. if code = ''tropipay'' then tropipay_create px ord key
        else if code = ''mibilletera'' then mibi_create px ''CRYPTO'' ord key
        else if code = ''mibilletera-wallet'' then mibi_create px ''WALLET'' ord key else Inl (InternalError ''no gateway'')),
     ga_sync = (\<lambda>code c. if code = ''tropipay'' then tropipay_sync px c
        else if code = ''mibilletera'' \<or> code = ''mibilletera-wallet'' then mibi_sync px c else Inl (InternalError ''no gateway'')),
     ga_webhook = (\<lambda>code raw headers. if code = ''tropipay'' then tropipay_webhook px raw
        else if code = ''mibilletera'' \<or> code = ''mibilletera-wallet'' then mibi_webhook px raw headers
        else Inl (InternalError ''no gateway''))\<rparr>"

end
