(* ===== verification/Routes.thy ===== *)
theory Routes
  imports Permissions Accounts
begin

section \<open>The routes of the API and the way of a request to its handler\<close>

text \<open>
  Every controller of \<open>src/\<close> as a table: the handler's name, its HTTP method and path, and the mark that says who may
  call it; the class's prefix, mark and customer guard stand before the rows. The tables, the choice of a route and
  the three global guards of \<open>app.module.ts\<close> give \<open>serve\<close>, which says what becomes of a request before its handler
  runs. Left out: the limit of requests per minute, the validation of bodies and parameters, cache headers and status
  codes.
\<close>

subsection \<open>Paths\<close>

datatype segment = Lit string | Par string

datatype http = GET | POST | PATCH | PUT | DELETE

text \<open>A path cut at its slashes, as the router does: doubled and outer slashes do not count.\<close>

fun pieces :: "string \<Rightarrow> string \<Rightarrow> string list" where
  "pieces cur [] = (if cur = [] then [] else [rev cur])"
| "pieces cur (c # cs) = (if c = CHR ''/'' then (if cur = [] then [] else [rev cur]) @ pieces [] cs else pieces (c # cur) cs)"

fun segment_of :: "string \<Rightarrow> segment" where
  "segment_of s = (case s of c # cs \<Rightarrow> if c = CHR '':'' then Par cs else Lit s | [] \<Rightarrow> Lit [])"

definition path_of :: "string \<Rightarrow> string \<Rightarrow> segment list" where
  "path_of prefix sub = map segment_of (pieces [] prefix @ pieces [] sub)"

fun matches :: "segment list \<Rightarrow> string list \<Rightarrow> bool" where
  "matches [] [] = True"
| "matches (Lit a # ps) (x # xs) = (a = x \<and> matches ps xs)"
| "matches (Par _ # ps) (x # xs) = matches ps xs"
| "matches _ _ = False"

subsection \<open>Marks\<close>

text \<open>The decorators of a class or of a handler.\<close>

record marks =
  mk_public :: "bool option"
  mk_roles :: "role list option"
  mk_need :: "(string \<times> string) option"
  mk_any :: "bool option"

definition plain :: marks where
  "plain = \<lparr>mk_public = None, mk_roles = None, mk_need = None, mk_any = None\<rparr>"

definition open_door :: marks where
  "open_door = plain\<lparr>mk_public := Some True\<rparr>"

definition only :: "role list \<Rightarrow> marks" where
  "only rs = plain\<lparr>mk_roles := Some rs\<rparr>"

definition need :: "string \<Rightarrow> string \<Rightarrow> marks" where
  "need mdl action = plain\<lparr>mk_need := Some (mdl, action)\<rparr>"

definition any_signed_in :: marks where
  "any_signed_in = plain\<lparr>mk_any := Some True\<rparr>"

record endpoint =
  en_class :: string
  en_handler :: string
  en_prefix :: "segment list"
  en_method :: http
  en_path :: "segment list"
  en_client :: bool
  en_route :: route

definition endpoint_of :: "string \<Rightarrow> string \<Rightarrow> marks \<Rightarrow> bool \<Rightarrow> string \<times> http \<times> string \<times> marks \<Rightarrow> endpoint" where
  "endpoint_of cls prefix cm customer row = (case row of (handler, meth, sub, hm) \<Rightarrow>
     \<lparr>en_class = cls, en_handler = handler, en_prefix = path_of prefix [],
      en_method = meth, en_path = path_of prefix sub, en_client = customer,
      en_route = \<lparr>rt_public = (mk_public hm, mk_public cm), rt_roles = (mk_roles hm, mk_roles cm),
        rt_permission = (mk_need hm, mk_need cm), rt_any_authenticated = (mk_any hm, mk_any cm)\<rparr>\<rparr>)"

definition controller :: "string \<Rightarrow> string \<Rightarrow> marks \<Rightarrow> bool \<Rightarrow> (string \<times> http \<times> string \<times> marks) list \<Rightarrow> endpoint list" where
  "controller cls prefix cm customer rows = map (endpoint_of cls prefix cm customer) rows"

subsection \<open>The tables\<close>

definition app_controller :: "endpoint list" where
  "app_controller = controller ''AppController'' '''' open_door False [
     (''getHello'', GET, '''', plain)]"

definition health_controller :: "endpoint list" where
  "health_controller = controller ''HealthController'' ''health'' open_door False [
     (''getHealth'', GET, '''', plain),
     (''getReady'', GET, ''ready'', plain)]"

definition users_controller :: "endpoint list" where
  "users_controller = controller ''UsersController'' ''users'' (only [SUPER_ADMIN, ADMIN]) False [
     (''findAll'', GET, '''', plain),
     (''findByClerkId'', GET, ''lookup'', plain),
     (''findOne'', GET, '':id'', plain),
     (''create'', POST, '''', plain),
     (''update'', PATCH, '':id'', plain),
     (''setPassword'', PATCH, '':id/password'', plain),
     (''remove'', DELETE, '':id'', plain),
     (''restore'', POST, '':id/restore'', only [SUPER_ADMIN]),
     (''invite'', POST, ''invite'', plain),
     (''revokeInvitation'', POST, ''invitations/:id/revoke'', plain),
     (''resendInvitation'', POST, ''invitations/:id/resend'', plain)]"

definition storefront_mirror_controller :: "endpoint list" where
  "storefront_mirror_controller = controller ''StorefrontMirrorController'' ''users'' open_door False [
     (''mirror'', POST, ''storefront-mirror'', plain)]"

definition clients_controller :: "endpoint list" where
  "clients_controller = controller ''ClientsController'' ''clients'' plain False [
     (''findAll'', GET, '''', need ''clients'' ''list''),
     (''findByClerkId'', GET, ''lookup'', need ''clients'' ''list''),
     (''findOne'', GET, '':id'', need ''clients'' ''read''),
     (''findBeneficiaries'', GET, '':id/beneficiaries'', need ''clients'' ''read''),
     (''invite'', POST, ''invitations'', need ''clients'' ''create''),
     (''revokeInvitation'', DELETE, ''invitations/:id'', need ''clients'' ''create''),
     (''create'', POST, '''', need ''clients'' ''create''),
     (''update'', PATCH, '':id'', need ''clients'' ''update''),
     (''remove'', DELETE, '':id'', need ''clients'' ''delete'')]"

definition client_addresses_controller :: "endpoint list" where
  "client_addresses_controller = controller ''ClientAddressesController'' ''storefront/addresses'' open_door True [
     (''findAll'', GET, '''', plain),
     (''findOne'', GET, '':id'', plain),
     (''create'', POST, '''', plain),
     (''update'', PATCH, '':id'', plain),
     (''setDefault'', PATCH, '':id/default'', plain),
     (''remove'', DELETE, '':id'', plain)]"

definition auth_controller :: "endpoint list" where
  "auth_controller = controller ''AuthController'' ''auth'' plain False [
     (''me'', GET, ''me'', any_signed_in)]"

definition categories_controller :: "endpoint list" where
  "categories_controller = controller ''CategoriesController'' ''categories'' plain False [
     (''findAll'', GET, '''', need ''categories'' ''list''),
     (''findOne'', GET, '':id'', need ''categories'' ''read''),
     (''create'', POST, '''', need ''categories'' ''create''),
     (''update'', PATCH, '':id'', need ''categories'' ''update''),
     (''remove'', DELETE, '':id'', need ''categories'' ''delete'')]"

definition departments_controller :: "endpoint list" where
  "departments_controller = controller ''DepartmentsController'' ''departments'' plain False [
     (''findAll'', GET, '''', need ''departments'' ''list''),
     (''findOne'', GET, '':id'', need ''departments'' ''read''),
     (''create'', POST, '''', need ''departments'' ''create''),
     (''update'', PATCH, '':id'', need ''departments'' ''update''),
     (''remove'', DELETE, '':id'', need ''departments'' ''delete'')]"

definition public_departments_controller :: "endpoint list" where
  "public_departments_controller = controller ''PublicDepartmentsController'' ''public/departments'' open_door False [
     (''findAll'', GET, '''', plain),
     (''findOne'', GET, '':id'', plain)]"

definition public_categories_controller :: "endpoint list" where
  "public_categories_controller = controller ''PublicCategoriesController'' ''public/categories'' open_door False [
     (''findAll'', GET, '''', plain),
     (''findOne'', GET, '':id'', plain)]"

definition public_catalog_controller :: "endpoint list" where
  "public_catalog_controller = controller ''PublicCatalogController'' ''public/catalog'' open_door False [
     (''findAll'', GET, '''', plain)]"

definition cms_texts_rows :: "(string \<times> http \<times> string \<times> marks) list" where
  "cms_texts_rows = [
     (''findAll'', GET, '''', need ''cms-pages'' ''list''),
     (''findOne'', GET, '':id'', need ''cms-pages'' ''read''),
     (''create'', POST, '''', need ''cms-pages'' ''create''),
     (''update'', PATCH, '':id'', need ''cms-pages'' ''update''),
     (''publish'', POST, '':id/publish'', need ''cms-pages'' ''publish''),
     (''versions'', GET, '':id/versions'', need ''cms-pages'' ''read''),
     (''remove'', DELETE, '':id'', need ''cms-pages'' ''delete'')]"

definition cms_pages_controller :: "endpoint list" where
  "cms_pages_controller = controller ''CmsPagesController'' ''cms/pages'' plain False cms_texts_rows"

definition cms_home_notices_controller :: "endpoint list" where
  "cms_home_notices_controller = controller ''CmsHomeNoticesController'' ''cms/home-notices'' plain False cms_texts_rows"

definition cms_banners_controller :: "endpoint list" where
  "cms_banners_controller = controller ''CmsBannersController'' ''cms/banners'' plain False [
     (''findAll'', GET, '''', need ''cms-banners'' ''list''),
     (''findOne'', GET, '':id'', need ''cms-banners'' ''read''),
     (''create'', POST, '''', need ''cms-banners'' ''create''),
     (''update'', PATCH, '':id'', need ''cms-banners'' ''update''),
     (''remove'', DELETE, '':id'', need ''cms-banners'' ''delete'')]"

definition cms_services_controller :: "endpoint list" where
  "cms_services_controller = controller ''CmsServicesController'' ''cms/services'' plain False [
     (''findAll'', GET, '''', need ''cms-services'' ''list''),
     (''findOne'', GET, '':id'', need ''cms-services'' ''read''),
     (''create'', POST, '''', need ''cms-services'' ''create''),
     (''update'', PATCH, '':id'', need ''cms-services'' ''update''),
     (''remove'', DELETE, '':id'', need ''cms-services'' ''delete'')]"

definition cms_staff_controller :: "endpoint list" where
  "cms_staff_controller = controller ''CmsStaffController'' ''cms/staff'' plain False [
     (''findAll'', GET, '''', need ''cms-staff'' ''list''),
     (''findOne'', GET, '':id'', need ''cms-staff'' ''read''),
     (''create'', POST, '''', need ''cms-staff'' ''create''),
     (''update'', PATCH, '':id'', need ''cms-staff'' ''update''),
     (''remove'', DELETE, '':id'', need ''cms-staff'' ''delete'')]"

definition cms_settings_controller :: "endpoint list" where
  "cms_settings_controller = controller ''CmsSettingsController'' ''cms/settings'' plain False [
     (''find'', GET, '''', need ''cms-settings'' ''read''),
     (''update'', PATCH, '''', need ''cms-settings'' ''update'')]"

definition cms_faq_controller :: "endpoint list" where
  "cms_faq_controller = controller ''CmsFaqController'' ''cms/faq'' (only [SUPER_ADMIN, ADMIN]) False [
     (''categories'', GET, ''categories'', plain),
     (''category'', GET, ''categories/:id'', plain),
     (''createCategory'', POST, ''categories'', plain),
     (''updateCategory'', PATCH, ''categories/:id'', plain),
     (''removeCategory'', DELETE, ''categories/:id'', plain),
     (''questions'', GET, ''questions'', plain),
     (''question'', GET, ''questions/:id'', plain),
     (''createQuestion'', POST, ''questions'', plain),
     (''updateQuestion'', PATCH, ''questions/:id'', plain),
     (''removeQuestion'', DELETE, ''questions/:id'', plain)]"

definition cms_home_controller :: "endpoint list" where
  "cms_home_controller = controller ''CmsHomeController'' ''cms/home'' plain False [
     (''find'', GET, '''', need ''cms-home'' ''read''),
     (''update'', PATCH, '''', need ''cms-home'' ''update''),
     (''publish'', POST, ''publish'', need ''cms-home'' ''publish''),
     (''preview'', POST, ''preview'', need ''cms-home'' ''read''),
     (''listChanges'', GET, ''changes'', need ''cms-home'' ''read'')]"

definition public_cms_controller :: "endpoint list" where
  "public_cms_controller = controller ''PublicCmsController'' ''public/cms'' open_door False [
     (''settings'', GET, ''settings'', plain),
     (''home'', GET, ''home'', plain),
     (''draftHome'', GET, ''home/draft'', plain),
     (''banners'', GET, ''banners'', plain),
     (''services'', GET, ''services'', plain),
     (''staff'', GET, ''staff'', plain),
     (''faqs'', GET, ''faqs'', plain),
     (''homeNotices'', GET, ''home-notices'', plain),
     (''pages'', GET, ''pages'', plain),
     (''page'', GET, ''pages/:slug'', plain)]"

definition nomenclators_controller :: "endpoint list" where
  "nomenclators_controller = controller ''NomenclatorsController'' ''nomenclators'' plain False [
     (''findAll'', GET, '''', need ''nomenclators'' ''list''),
     (''findOne'', GET, '':id'', need ''nomenclators'' ''read''),
     (''create'', POST, '''', need ''nomenclators'' ''create''),
     (''update'', PATCH, '':id'', need ''nomenclators'' ''update''),
     (''remove'', DELETE, '':id'', need ''nomenclators'' ''delete'')]"

definition public_contact_controller :: "endpoint list" where
  "public_contact_controller = controller ''PublicContactController'' ''public/contact'' open_door False [
     (''motives'', GET, ''motives'', plain),
     (''submit'', POST, ''messages'', plain)]"

definition contact_messages_controller :: "endpoint list" where
  "contact_messages_controller = controller ''ContactMessagesController'' ''contact/messages'' plain False [
     (''findAll'', GET, '''', need ''contact'' ''list''),
     (''config'', GET, ''config'', need ''contact'' ''list''),
     (''findOne'', GET, '':id'', need ''contact'' ''read''),
     (''updateStatus'', PATCH, '':id/status'', need ''contact'' ''update''),
     (''addReply'', POST, '':id/replies'', need ''contact'' ''reply'')]"

definition contact_templates_controller :: "endpoint list" where
  "contact_templates_controller = controller ''ContactTemplatesController'' ''contact/templates'' plain False [
     (''findAll'', GET, '''', need ''contact'' ''list''),
     (''findOne'', GET, '':id'', need ''contact'' ''read''),
     (''create'', POST, '''', need ''contact'' ''create''),
     (''update'', PATCH, '':id'', need ''contact'' ''update''),
     (''remove'', DELETE, '':id'', need ''contact'' ''delete'')]"

definition products_controller :: "endpoint list" where
  "products_controller = controller ''ProductsController'' ''products'' plain False [
     (''findAll'', GET, '''', need ''products'' ''list''),
     (''findOne'', GET, '':id'', need ''products'' ''read''),
     (''create'', POST, '''', need ''products'' ''create''),
     (''update'', PATCH, '':id'', need ''products'' ''update''),
     (''remove'', DELETE, '':id'', need ''products'' ''delete'')]"

definition public_products_controller :: "endpoint list" where
  "public_products_controller = controller ''PublicProductsController'' ''public/products'' open_door False [
     (''findAll'', GET, '''', plain),
     (''findOne'', GET, '':id'', plain)]"

definition cart_controller :: "endpoint list" where
  "cart_controller = controller ''CartController'' ''cart'' open_door True [
     (''getCart'', GET, '''', plain),
     (''addItem'', POST, ''items'', plain),
     (''updateItem'', PATCH, ''items/:productId'', plain),
     (''removeItem'', DELETE, ''items/:productId'', plain),
     (''clear'', DELETE, '''', plain)]"

definition geography_controller :: "endpoint list" where
  "geography_controller = controller ''GeographyController'' '''' open_door False [
     (''listProvinces'', GET, ''provinces'', plain),
     (''listByProvince'', GET, ''provinces/:id/municipalities'', plain),
     (''listMunicipalities'', GET, ''municipalities'', plain)]"

definition delivery_options_controller :: "endpoint list" where
  "delivery_options_controller = controller ''DeliveryOptionsController'' ''delivery-options'' plain False [
     (''findAll'', GET, '''', need ''delivery-options'' ''list''),
     (''findOne'', GET, '':id'', need ''delivery-options'' ''read''),
     (''create'', POST, '''', need ''delivery-options'' ''create''),
     (''update'', PATCH, '':id'', need ''delivery-options'' ''update''),
     (''remove'', DELETE, '':id'', need ''delivery-options'' ''delete'')]"

definition fulfillment_controller :: "endpoint list" where
  "fulfillment_controller = controller ''FulfillmentController'' ''fulfillment'' plain False [
     (''find'', GET, '''', need ''orders'' ''create'')]"

definition fulfillment_settings_controller :: "endpoint list" where
  "fulfillment_settings_controller = controller ''FulfillmentSettingsController'' ''fulfillment-settings'' plain False [
     (''find'', GET, '''', need ''fulfillment-settings'' ''read''),
     (''update'', PATCH, '''', need ''fulfillment-settings'' ''update'')]"

definition public_fulfillment_controller :: "endpoint list" where
  "public_fulfillment_controller = controller ''PublicFulfillmentController'' ''public/fulfillment'' open_door False [
     (''availability'', GET, ''availability'', plain)]"

definition storefront_fulfillment_controller :: "endpoint list" where
  "storefront_fulfillment_controller = controller ''StorefrontFulfillmentController'' ''storefront/fulfillment'' open_door True [
     (''find'', GET, '''', plain)]"

definition stock_locations_controller :: "endpoint list" where
  "stock_locations_controller = controller ''StockLocationsController'' ''stock-locations'' plain False [
     (''findAll'', GET, '''', need ''stock-locations'' ''list''),
     (''assignableUsers'', GET, ''assignable-users'', need ''stock-locations'' ''update''),
     (''findOne'', GET, '':id'', need ''stock-locations'' ''read''),
     (''create'', POST, '''', need ''stock-locations'' ''create''),
     (''update'', PATCH, '':id'', need ''stock-locations'' ''update''),
     (''remove'', DELETE, '':id'', need ''stock-locations'' ''delete'')]"

definition inventory_controller :: "endpoint list" where
  "inventory_controller = controller ''InventoryController'' ''inventory'' plain False [
     (''aggregate'', GET, ''aggregate'', need ''inventory'' ''aggregate''),
     (''productHistory'', GET, ''product/:productId/history'', need ''inventory'' ''history''),
     (''locationHistory'', GET, ''location/:locationId/history'', need ''inventory'' ''history''),
     (''list'', GET, '''', need ''inventory'' ''list''),
     (''listOperations'', GET, ''operations'', need ''inventory'' ''list''),
     (''stockByProduct'', GET, ''product/:productId'', need ''inventory'' ''read''),
     (''createOperation'', POST, ''operations'', need ''inventory'' ''create-operation'')]"

definition orders_controller :: "endpoint list" where
  "orders_controller = controller ''OrdersController'' ''orders'' plain False [
     (''findAll'', GET, '''', need ''orders'' ''list''),
     (''crearParaCliente'', POST, '''', need ''orders'' ''create''),
     (''findOne'', GET, '':id'', need ''orders'' ''read''),
     (''updateStatus'', PATCH, '':id/status'', need ''orders'' ''update-status''),
     (''reinstate'', POST, '':id/reinstate'', only [SUPER_ADMIN, ADMIN]),
     (''updatePaymentStatus'', PATCH, '':id/payment-status'', need ''orders'' ''update-payment-status''),
     (''correct'', POST, '':id/correct'', only [SUPER_ADMIN]),
     (''updateItems'', PATCH, '':id/items'', only [SUPER_ADMIN]),
     (''listPaymentAttempts'', GET, '':id/payment-attempts'', need ''orders'' ''read''),
     (''removePaymentAttempt'', DELETE, '':id/payment-attempts/:chargeId'', only [SUPER_ADMIN]),
     (''reportePdf'', GET, ''report/pdf'', need ''orders'' ''read''),
     (''enviarReporte'', POST, ''report/email'', need ''orders'' ''read''),
     (''pdf'', GET, '':id/pdf'', need ''orders'' ''read''),
     (''listEvents'', GET, '':id/events'', need ''orders'' ''read'')]"

definition storefront_orders_controller :: "endpoint list" where
  "storefront_orders_controller = controller ''StorefrontOrdersController'' ''storefront/orders'' open_door True [
     (''checkout'', POST, '''', plain),
     (''getOrders'', GET, '''', plain),
     (''getOrder'', GET, '':id'', plain),
     (''getPayment'', GET, '':id/payment'', plain),
     (''createPayment'', POST, '':id/payment'', plain),
     (''submitProof'', POST, '':id/payment/proof'', plain),
     (''cancel'', POST, '':id/cancel'', plain)]"

definition order_tracking_controller :: "endpoint list" where
  "order_tracking_controller = controller ''OrderTrackingController'' ''storefront/tracking'' open_door False [
     (''track'', GET, '':trackingId'', plain)]"

definition collections_controller :: "endpoint list" where
  "collections_controller = controller ''CollectionsController'' ''payments/collections'' plain False [
     (''find'', GET, '''', need ''payments'' ''list'')]"

definition payment_methods_controller :: "endpoint list" where
  "payment_methods_controller = controller ''PaymentMethodsController'' ''payment-methods'' plain False [
     (''findAll'', GET, '''', need ''orders'' ''list''),
     (''create'', POST, '''', only [SUPER_ADMIN, ADMIN]),
     (''update'', PATCH, '':id'', only [SUPER_ADMIN, ADMIN]),
     (''remove'', DELETE, '':id'', only [SUPER_ADMIN, ADMIN])]"

definition storefront_payment_methods_controller :: "endpoint list" where
  "storefront_payment_methods_controller = controller ''StorefrontPaymentMethodsController'' ''storefront/payment-methods'' open_door True [
     (''findAvailable'', GET, '''', plain)]"

definition payments_webhook_controller :: "endpoint list" where
  "payments_webhook_controller = controller ''PaymentsWebhookController'' ''webhooks/payments'' open_door False [
     (''handle'', POST, '':provider'', plain)]"

definition order_expiry_controller :: "endpoint list" where
  "order_expiry_controller = controller ''OrderExpiryController'' ''internal/orders'' open_door False [
     (''expire'', POST, ''expire'', plain)]"

definition refunds_controller :: "endpoint list" where
  "refunds_controller = controller ''RefundsController'' ''refunds'' plain False [
     (''list'', GET, '''', need ''refunds'' ''list''),
     (''complete'', POST, '':id/complete'', need ''refunds'' ''complete''),
     (''reject'', POST, '':id/reject'', need ''refunds'' ''reject'')]"

definition order_refunds_controller :: "endpoint list" where
  "order_refunds_controller = controller ''OrderRefundsController'' ''orders/:orderId/refunds'' plain False [
     (''list'', GET, '''', need ''refunds'' ''read''),
     (''summary'', GET, ''summary'', need ''refunds'' ''read''),
     (''request'', POST, '''', need ''refunds'' ''request'')]"

definition pickup_reminders_controller :: "endpoint list" where
  "pickup_reminders_controller = controller ''PickupRemindersController'' ''internal/orders'' open_door False [
     (''run'', POST, ''pickup-reminders'', plain)]"

definition uploads_controller :: "endpoint list" where
  "uploads_controller = controller ''UploadsController'' ''uploads'' plain False [
     (''uploadImage'', POST, ''image'', need ''uploads'' ''create'')]"

definition webhooks_controller :: "endpoint list" where
  "webhooks_controller = controller ''WebhooksController'' ''webhooks'' open_door False [
     (''handleClerkStore'', POST, ''clerk/store'', plain),
     (''handleClerkAdmin'', POST, ''clerk/admin'', plain)]"

definition permissions_controller :: "endpoint list" where
  "permissions_controller = controller ''PermissionsController'' ''permissions'' (only [SUPER_ADMIN, ADMIN]) False [
     (''listPermissions'', GET, '''', plain),
     (''createRole'', POST, ''roles'', plain),
     (''listRoles'', GET, ''roles'', plain),
     (''getRole'', GET, ''roles/:id'', plain),
     (''updateRole'', PATCH, ''roles/:id'', plain),
     (''deleteRole'', DELETE, ''roles/:id'', plain),
     (''setRolePermissions'', PUT, ''roles/:id/permissions'', plain),
     (''getUserRoles'', GET, ''users/:userId/roles'', plain),
     (''setUserRoles'', PUT, ''users/:userId/roles'', plain),
     (''getUserPermissions'', GET, ''users/:userId'', plain)]"

definition dashboard_controller :: "endpoint list" where
  "dashboard_controller = controller ''DashboardController'' ''dashboard'' plain False [
     (''getStats'', GET, ''stats'', need ''dashboard'' ''view''),
     (''getTopProducts'', GET, ''top-products'', need ''dashboard'' ''view'')]"

definition api_tables :: "endpoint list list" where
  "api_tables = [
     app_controller, health_controller, users_controller, storefront_mirror_controller, clients_controller,
     client_addresses_controller, auth_controller, categories_controller, departments_controller, public_departments_controller,
     public_categories_controller, public_catalog_controller, cms_pages_controller, cms_home_notices_controller,
     cms_banners_controller, cms_services_controller, cms_staff_controller, cms_settings_controller, cms_faq_controller,
     cms_home_controller, public_cms_controller, nomenclators_controller, public_contact_controller, contact_messages_controller,
     contact_templates_controller, products_controller, public_products_controller, cart_controller, geography_controller,
     delivery_options_controller, fulfillment_controller, fulfillment_settings_controller, public_fulfillment_controller,
     storefront_fulfillment_controller, stock_locations_controller, inventory_controller, orders_controller,
     storefront_orders_controller, order_tracking_controller, collections_controller, payment_methods_controller,
     storefront_payment_methods_controller, payments_webhook_controller, order_expiry_controller, refunds_controller,
     order_refunds_controller, pickup_reminders_controller, uploads_controller, webhooks_controller, permissions_controller,
     dashboard_controller]"

lemmas table_defs =
   cms_texts_rows_def app_controller_def health_controller_def users_controller_def storefront_mirror_controller_def
   clients_controller_def client_addresses_controller_def auth_controller_def categories_controller_def
   departments_controller_def public_departments_controller_def public_categories_controller_def
   public_catalog_controller_def cms_pages_controller_def cms_home_notices_controller_def cms_banners_controller_def
   cms_services_controller_def cms_staff_controller_def cms_settings_controller_def cms_faq_controller_def
   cms_home_controller_def public_cms_controller_def nomenclators_controller_def public_contact_controller_def
   contact_messages_controller_def contact_templates_controller_def products_controller_def
   public_products_controller_def cart_controller_def geography_controller_def delivery_options_controller_def
   fulfillment_controller_def fulfillment_settings_controller_def public_fulfillment_controller_def
   storefront_fulfillment_controller_def stock_locations_controller_def inventory_controller_def orders_controller_def
   storefront_orders_controller_def order_tracking_controller_def collections_controller_def
   payment_methods_controller_def storefront_payment_methods_controller_def payments_webhook_controller_def
   order_expiry_controller_def refunds_controller_def order_refunds_controller_def pickup_reminders_controller_def
   uploads_controller_def webhooks_controller_def permissions_controller_def dashboard_controller_def api_tables_def

subsection \<open>From a request to its handler\<close>

record http_request =
  rq_method :: http
  rq_path :: "string list"
  rq_auth :: "string option"

text \<open>Each module registers its controllers in turn; the first route that fits is the one called.\<close>

definition dispatch :: "endpoint list list \<Rightarrow> http \<Rightarrow> string list \<Rightarrow> endpoint option" where
  "dispatch tables meth path = List.find (\<lambda>e. en_method e = meth \<and> matches (en_path e) path) (concat tables)"

text \<open>\<open>header?.split(' ')\<close>: the scheme and what follows it up to the next space.\<close>

fun word_and_rest :: "string \<Rightarrow> string \<times> string option" where
  "word_and_rest [] = ([], None)"
| "word_and_rest (c # cs) = (if c = CHR '' '' then ([], Some cs) else case word_and_rest cs of (w, r) \<Rightarrow> (c # w, r))"

definition extractToken :: "string option \<Rightarrow> string option" where
  "extractToken header = (case header of None \<Rightarrow> None | Some h \<Rightarrow>
     (case word_and_rest h of (scheme, rest) \<Rightarrow>
        if scheme = ''Bearer'' then map_option (fst \<circ> word_and_rest) rest else None))"

definition present_token :: "string option \<Rightarrow> string option" where
  "present_token header = (case extractToken header of Some (c # cs) \<Rightarrow> Some (c # cs) | _ \<Rightarrow> None)"

definition user_of :: "account \<Rightarrow> user" where
  "user_of u = \<lparr>u_id = us_id u, u_role = us_role u\<rparr>"

text \<open>The branch of the guard for routes marked as of optional sign-in is left out: no route has the mark.\<close>

definition auth_guard :: "clerk_api \<Rightarrow> people \<Rightarrow> route \<Rightarrow> string option \<Rightarrow> error + user option" where
  "auth_guard api w rt header =
     (if override (rt_public rt) = Some True then Inr None
      else bindE (from_option (Unauthorized ''Missing access token'') (present_token header)) (\<lambda>token.
           bindE (authenticateByBearerToken api token w) (\<lambda>u. Inr (Some (user_of u)))))"

definition client_guard :: "clerk_api \<Rightarrow> instant \<Rightarrow> people \<Rightarrow> string option \<Rightarrow> error + customer \<times> people" where
  "client_guard api now w header =
     bindE (from_option (Unauthorized ''Missing access token'') (present_token header)) (\<lambda>token.
       authenticate_client api now token w)"

text \<open>Who the handler is called for: a user of the panel, a customer, or nobody.\<close>

datatype caller = Anybody | Panel user | Shopper customer

definition serve :: "clerk_api \<Rightarrow> instant \<Rightarrow> people \<Rightarrow> endpoint list list \<Rightarrow> http_request \<Rightarrow> error + endpoint \<times> caller \<times> people" where
  "serve api now w tables rq =
     bindE (from_option (NotFound ''Cannot find the route'') (dispatch tables (rq_method rq) (rq_path rq))) (\<lambda>e.
     bindE (auth_guard api w (en_route e) (rq_auth rq)) (\<lambda>user.
     bindE (guards (pe_access w) (en_route e) user) (\<lambda>_.
     if en_client e then bindE (client_guard api now w (rq_auth rq)) (\<lambda>(c, w1). Inr (e, Shopper c, w1))
     else Inr (e, (case user of None \<Rightarrow> Anybody | Some u \<Rightarrow> Panel u), w))))"

end
