(* ===== verification/Doors.thy ===== *)
theory Doors
  imports Routes Permissions_Laws Order_Changes
begin

section \<open>Who reaches which handler\<close>

text \<open>
  The tables of all controllers together with the guards: each route is reached by its own address, what is open
  without an account is a closed list, and the permissions the routes ask for are those a role can be given.
\<close>

subsection \<open>The router\<close>

text \<open>\<open>covers p q\<close>: the pattern p takes every request built from q, when the values of q's parameters are no words of
  the tables.\<close>

fun covers :: "segment list \<Rightarrow> segment list \<Rightarrow> bool" where
  "covers [] [] = True"
| "covers (Lit a # ps) (Lit b # qs) = (a = b \<and> covers ps qs)"
| "covers (Par _ # ps) (_ # qs) = covers ps qs"
| "covers _ _ = False"

lemma covers_Nil: "covers [] q \<longleftrightarrow> q = []"
  by (cases q) simp_all

fun fill :: "segment list \<Rightarrow> (string \<Rightarrow> string) \<Rightarrow> string list" where
  "fill [] v = []"
| "fill (Lit a # ps) v = a # fill ps v"
| "fill (Par x # ps) v = v x # fill ps v"

fun words :: "segment list \<Rightarrow> string list" where
  "words [] = []"
| "words (Lit a # ps) = a # words ps"
| "words (Par _ # ps) = words ps"

lemma matches_Nil_fill: "matches [] (fill q v) \<longleftrightarrow> q = []"
  by (cases q rule: words.cases) simp_all

lemma matches_fill: "\<forall>x. v x \<notin> set (words p) \<Longrightarrow> matches p (fill q v) = covers p q"
proof (induction p arbitrary: q)
  case Nil
  then show ?case by (simp add: matches_Nil_fill) (cases q; simp)
next
  case (Cons s p)
  show ?case
  proof (cases s)
    case (Lit a)
    with Cons.prems have "\<forall>x. v x \<notin> set (words p)" "\<forall>x. v x \<noteq> a" by auto
    with Cons.IH show ?thesis unfolding Lit by (cases q rule: words.cases) auto
  next
    case (Par x)
    with Cons show ?thesis unfolding Par by (cases q rule: words.cases) auto
  qed
qed

definition rival :: "endpoint \<Rightarrow> endpoint \<Rightarrow> bool" where
  "rival e e' \<longleftrightarrow> en_method e' = en_method e \<and> covers (en_path e') (en_path e)"

definition unshadowed :: "endpoint list \<Rightarrow> bool" where
  "unshadowed es \<longleftrightarrow> list_all (\<lambda>e. List.find (rival e) es = Some e) es"

text \<open>Two controllers whose prefixes differ in a word cannot take each other's requests.\<close>

fun apart :: "segment list \<Rightarrow> segment list \<Rightarrow> bool" where
  "apart (Lit a # ps) (Lit b # qs) = (a \<noteq> b \<or> apart ps qs)"
| "apart (_ # ps) (_ # qs) = apart ps qs"
| "apart _ _ = False"

definition tags :: "endpoint list \<Rightarrow> segment list list" where
  "tags c = (let ps = remdups (map en_prefix c) in if ps = [[]] then remdups (map (take 1 \<circ> en_path) c) else ps)"

definition far :: "segment list list \<Rightarrow> segment list list \<Rightarrow> bool" where
  "far ps qs \<longleftrightarrow> list_all (\<lambda>p. list_all (\<lambda>q. apart p q) qs) ps"

definition close_tables :: "(endpoint list \<times> endpoint list) list" where
  "close_tables = [(users_controller, storefront_mirror_controller), (orders_controller, order_refunds_controller),
     (order_expiry_controller, pickup_reminders_controller), (payments_webhook_controller, webhooks_controller)]"

definition name :: "endpoint list \<Rightarrow> string" where
  "name c = en_class (hd c)"

lemma unshadowed_tables: "list_all unshadowed api_tables"
  by code_simp

lemma far_tables: "sorted_wrt (\<lambda>x y. far (snd x) (snd y) \<or> (fst x, fst y) \<in> set (map (map_prod name name) close_tables))
    (map (\<lambda>c. (name c, tags c)) (tl api_tables))"
  by code_simp

lemma apart_covers: "apart p q \<Longrightarrow> \<not> covers (p @ r) (q @ r') \<and> \<not> covers (q @ r') (p @ r)"
  by (induction p q rule: apart.induct) (auto elim: covers.elims)

lemma tags_front:
  assumes "e \<in> set c" and "\<And>x. x \<in> set c \<Longrightarrow> \<exists>r. en_path x = en_prefix x @ r"
  shows "\<exists>p \<in> set (tags c). \<exists>r. en_path e = p @ r"
proof (cases "remdups (map en_prefix c) = [[]]")
  case True
  then have "take 1 (en_path e) \<in> set (tags c)" using assms(1) by (auto simp: tags_def)
  then show ?thesis by (metis append_take_drop_id)
next
  case False
  then have "en_prefix e \<in> set (tags c)" using assms(1) by (auto simp: tags_def)
  with assms(2) [OF assms(1)] show ?thesis by blast
qed

definition clear :: "endpoint list \<Rightarrow> endpoint list \<Rightarrow> bool" where
  "clear c c' \<longleftrightarrow> (\<forall>e \<in> set c. \<forall>e' \<in> set c'. \<not> rival e' e)"

lemma far_clear:
  assumes "far (tags c) (tags c')"
    and "\<And>x. x \<in> set c \<Longrightarrow> \<exists>r. en_path x = en_prefix x @ r" and "\<And>x. x \<in> set c' \<Longrightarrow> \<exists>r. en_path x = en_prefix x @ r"
  shows "clear c c'"
proof -
  have "\<not> rival e' e" if "e \<in> set c" "e' \<in> set c'" for e e'
  proof -
    have "\<exists>p \<in> set (tags c). \<exists>r. en_path e = p @ r" by (rule tags_front [OF that(1)]) (rule assms(2))
    moreover have "\<exists>q \<in> set (tags c'). \<exists>r. en_path e' = q @ r" by (rule tags_front [OF that(2)]) (rule assms(3))
    ultimately obtain p r q r' where "p \<in> set (tags c)" "q \<in> set (tags c')" "en_path e = p @ r" "en_path e' = q @ r'"
      by blast
    moreover from this assms(1) have "apart p q" by (auto simp: far_def list_all_iff)
    ultimately show ?thesis using apart_covers by (auto simp: rival_def)
  qed
  then show ?thesis by (simp add: clear_def)
qed

lemma find_concat:
  assumes "sorted_wrt clear tables" and "list_all unshadowed tables" and "e \<in> set (concat tables)"
  shows "List.find (rival e) (concat tables) = Some e"
  using assms
proof (induction tables)
  case (Cons c tables)
  show ?case
  proof (cases "e \<in> set c")
    case True
    then show ?thesis using Cons.prems(2) by (auto simp: find_append unshadowed_def list_all_iff)
  next
    case False
    with Cons.prems have "e \<in> set (concat tables)" by simp
    moreover from this Cons.prems(1) have "List.find (rival e) c = None" by (auto simp: find_None_iff clear_def)
    ultimately show ?thesis using Cons by (simp add: find_append)
  qed
qed simp

lemma prefixes: "list_all (list_all (\<lambda>e. take (length (en_prefix e)) (en_path e) = en_prefix e)) api_tables"
  by code_simp

lemma api_prefix: "c \<in> set api_tables \<Longrightarrow> x \<in> set c \<Longrightarrow> \<exists>r. en_path x = en_prefix x @ r"
  using prefixes unfolding list_all_iff by (metis append_take_drop_id)

lemma close_clear: "list_all (\<lambda>(c, c'). clear c c') close_tables"
  by code_simp

lemma named: "list_all (\<lambda>c. list_all (\<lambda>(x, y). (name c = name x \<longrightarrow> c = x) \<and> (name c = name y \<longrightarrow> c = y)) close_tables) api_tables"
  by code_simp

lemma root_alone: "list_all (list_all (\<lambda>e. en_path e \<noteq> [])) (tl api_tables)" and root: "map en_path app_controller = [[]]"
  by code_simp+

lemma tl_api: "api_tables = app_controller # tl api_tables"
  by (simp add: api_tables_def)

lemma tables_clear: "sorted_wrt clear api_tables"
proof -
  have "clear c c'" if c: "c \<in> set (tl api_tables)" "c' \<in> set (tl api_tables)"
    and "far (tags c) (tags c') \<or> (name c, name c') \<in> set (map (map_prod name name) close_tables)" for c c'
    using that(3)
  proof
    from c have in_api: "c \<in> set api_tables" "c' \<in> set api_tables" by (metis list.set_intros(2) tl_api)+
    {
      assume "far (tags c) (tags c')"
      then show ?thesis by (rule far_clear) (rule api_prefix, rule in_api, assumption)+
    next
      assume "(name c, name c') \<in> set (map (map_prod name name) close_tables)"
      then obtain x y where xy: "(x, y) \<in> set close_tables" "name c = name x" "name c' = name y" by auto
      with named in_api have "c = x" "c' = y" unfolding list_all_iff by blast+
      with close_clear xy(1) show ?thesis by (auto simp: list_all_iff)
    }
  qed
  then have "sorted_wrt clear (tl api_tables)"
    using sorted_wrt_mono_rel [OF _ far_tables [unfolded sorted_wrt_map fst_conv snd_conv]] by blast
  moreover have "clear app_controller c" if "c \<in> set (tl api_tables)" for c
  proof -
    have "en_path e = []" if "e \<in> set app_controller" for e
      using that root by (metis image_eqI list.set_map list.simps(15) empty_set singletonD)
    moreover have "en_path e' \<noteq> []" if "e' \<in> set c" for e'
      using that root_alone \<open>c \<in> set (tl api_tables)\<close> by (auto simp: list_all_iff)
    ultimately show ?thesis by (auto simp: clear_def rival_def covers_Nil)
  qed
  ultimately show ?thesis by (subst tl_api) simp
qed

subsection \<open>Every route is reached\<close>

definition api_words :: "string list" where
  "api_words = concat (map (words \<circ> en_path) (concat api_tables))"

lemma find_cong_set: "(\<And>x. x \<in> set xs \<Longrightarrow> P x = Q x) \<Longrightarrow> List.find P xs = List.find Q xs"
  by (induction xs) auto

text \<open>C22: Every route of the API is reached by its own address: whatever identifiers stand for its parameters (as long as they are
  not words that the routes themselves use), the router calls exactly that route's handler. No route hides
  another, within a controller or between controllers that share a prefix.\<close>

theorem every_route_is_reached:
  assumes "e \<in> set (concat api_tables)" and "\<forall>x. v x \<notin> set api_words"
  shows "dispatch api_tables (en_method e) (fill (en_path e) v) = Some e"
proof -
  have "matches (en_path e') (fill (en_path e) v) = covers (en_path e') (en_path e)" if "e' \<in> set (concat api_tables)" for e'
    using assms(2) that by (intro matches_fill) (auto simp: api_words_def)
  then have "dispatch api_tables (en_method e) (fill (en_path e) v) = List.find (rival e) (concat api_tables)"
    unfolding dispatch_def by (intro find_cong_set) (auto simp: rival_def)
  then show ?thesis using find_concat [OF tables_clear unshadowed_tables assms(1)] by simp
qed

lemma orders_length: "length orders_controller = 14"
  by (simp add: orders_controller_def controller_def)

lemma every_route_is_reached_witness:
  "map_option en_handler (dispatch api_tables GET [''orders'', ''7'', ''pdf'']) = Some ''pdf'' \<and>
   map_option en_handler (dispatch api_tables GET [''orders'', ''report'', ''pdf'']) = Some ''reportePdf''"
proof -
  have e: "orders_controller ! 12 \<in> set (concat api_tables)" "orders_controller ! 10 \<in> set (concat api_tables)"
    using nth_mem [of _ orders_controller] orders_length by (auto simp: api_tables_def)
  have "''7'' \<notin> set api_words" by code_simp
  then have v: "\<forall>x. (\<lambda>_. ''7'') x \<notin> set api_words" by simp
  have "en_method (orders_controller ! 12) = GET" "en_handler (orders_controller ! 12) = ''pdf''"
    "fill (en_path (orders_controller ! 12)) (\<lambda>_. ''7'') = [''orders'', ''7'', ''pdf'']"
    "en_method (orders_controller ! 10) = GET" "en_handler (orders_controller ! 10) = ''reportePdf''"
    "fill (en_path (orders_controller ! 10)) (\<lambda>_. ''7'') = [''orders'', ''report'', ''pdf'']"
    by code_simp+
  with every_route_is_reached [OF e(1) v] every_route_is_reached [OF e(2) v] show ?thesis by simp
qed

subsection \<open>The catalogue of permissions and the routes\<close>

abbreviation demand :: "endpoint \<Rightarrow> (string \<times> string) option" where
  "demand e \<equiv> override (rt_permission (en_route e))"

text \<open>
  A route asks for a permission, or a service checks it by itself: \<open>canViewAll\<close> answers as the permission says, and
  \<open>assertDirectJump\<close> complains of the missing permission exactly to those who do not have it, whatever the tables, the user and the
  order.
\<close>

definition route_asks :: "string \<times> string \<Rightarrow> bool" where
  "route_asks p \<longleftrightarrow> (\<exists>e \<in> set (concat api_tables). demand e = Some p)"

definition has_pair :: "access \<Rightarrow> user \<Rightarrow> string \<times> string \<Rightarrow> bool" where
  "has_pair a u p \<longleftrightarrow> hasPermission a (u_id u) (u_role u) (fst p) (snd p)"

definition service_asks :: "string \<times> string \<Rightarrow> bool" where
  "service_asks p \<longleftrightarrow> (\<forall>a u. canViewAll a u \<longleftrightarrow> has_pair a u p) \<or>
     (\<forall>d u ord status. assertDirectJump d u ord status = Inl (Forbidden ''You need the direct status-change permission to do this'') \<longleftrightarrow>
        \<not> has_pair (d_access d) u p)"

text \<open>A member of the staff with one permission.\<close>

definition only_pair :: "string \<times> string \<Rightarrow> access" where
  "only_pair p = \<lparr>a_users = [\<lparr>u_id = 1, u_role = STAFF\<rparr>],
     a_permissions = [\<lparr>pm_id = 1, pm_module = fst p, pm_action = snd p, pm_active = True\<rparr>],
     a_roles = [\<lparr>mr_id = 1, mr_name = [], mr_description = None, mr_system_key = None, mr_system = False, mr_active = True,
       mr_created_by = None, mr_deleted = False\<rparr>],
     a_grants = [(1, 1)], a_user_roles = [\<lparr>ur_user = 1, ur_role = 1, ur_assigned_by = None\<rparr>], a_next = 2\<rparr>"

definition one_member :: user where
  "one_member = \<lparr>u_id = 1, u_role = STAFF\<rparr>"

lemma only_pair_has: "has_pair (only_pair p) one_member q \<longleftrightarrow> q = p"
  by (cases p; cases q)
    (auto simp: has_pair_def only_pair_def one_member_def hasPermission_def is_system_admin_def getActiveRoleIdsForUser_def assigned_roles_def
      role_is_active_def live_role_def)

lemma service_asks_iff: "service_asks p \<longleftrightarrow> p = (''stock-locations'', ''view-all'') \<or> p = (''orders'', ''update-status-direct'')"
proof
  have view: "canViewAll a u \<longleftrightarrow> has_pair a u (''stock-locations'', ''view-all'')" for a u
    by (simp add: canViewAll_def has_pair_def)
  have jump: "assertDirectJump d u ord status = Inl (Forbidden ''You need the direct status-change permission to do this'') \<longleftrightarrow>
      \<not> has_pair (d_access d) u (''orders'', ''update-status-direct'')" for d u ord status
    by (auto simp: assertDirectJump_def has_pair_def bindE_def guardE_def)
  show "service_asks p" if "p = (''stock-locations'', ''view-all'') \<or> p = (''orders'', ''update-status-direct'')"
    using that view jump unfolding service_asks_def by blast
  assume "service_asks p"
  then consider "\<forall>a u. canViewAll a u \<longleftrightarrow> has_pair a u p"
    | "\<forall>d u ord status. assertDirectJump d u ord status = Inl (Forbidden ''You need the direct status-change permission to do this'') \<longleftrightarrow>
        \<not> has_pair (d_access d) u p"
    unfolding service_asks_def by blast
  then show "p = (''stock-locations'', ''view-all'') \<or> p = (''orders'', ''update-status-direct'')"
  proof cases
    case 1
    then have "has_pair (only_pair p) one_member (''stock-locations'', ''view-all'')"
      using view only_pair_has [of p p] by simp
    then show ?thesis by (simp add: only_pair_has)
  next
    case 2
    have "\<not> has_pair (d_access d) u (''orders'', ''update-status-direct'') \<longleftrightarrow> \<not> has_pair (d_access d) u p" for d :: db and u
      using 2 jump by metis
    from this [of "undefined\<lparr>d_access := only_pair p\<rparr>" "one_member"]
    show ?thesis using only_pair_has [of p p] by (simp add: only_pair_has)
  qed
qed

definition grantable :: "string \<times> string \<Rightarrow> bool" where
  "grantable p \<longleftrightarrow> (case jm_get (fst p) MODULE_ACTIONS of None \<Rightarrow> False | Some acts \<Rightarrow> snd p \<in> set acts)"

lemma grantable_pair: "grantable p \<Longrightarrow> p \<in> set catalog_pairs"
  by (force simp: grantable_def catalog_pairs_def dest: jm_get_Some_in split: option.splits)

lemma demands_grantable: "list_all (list_all (\<lambda>e. case demand e of None \<Rightarrow> True | Some p \<Rightarrow> grantable p)) api_tables"
  by code_simp

text \<open>The controllers that use the permissions of each module, in the order of the catalogue.\<close>

definition module_tables :: "endpoint list list" where
  "module_tables = [products_controller, categories_controller, departments_controller, stock_locations_controller,
     nomenclators_controller, delivery_options_controller, clients_controller, cms_pages_controller, cms_banners_controller,
     cms_services_controller, cms_staff_controller, contact_messages_controller @ contact_templates_controller,
     orders_controller, refunds_controller @ order_refunds_controller, inventory_controller, cms_settings_controller,
     cms_home_controller, fulfillment_settings_controller, collections_controller, dashboard_controller, uploads_controller]"

lemma actions_used: "list_all2 (\<lambda>(mdl, acts) t. list_all (\<lambda>a. (mdl, a) \<in> {(''stock-locations'', ''view-all''), (''orders'', ''update-status-direct'')} \<or> list_ex (\<lambda>e. demand e = Some (mdl, a)) t) acts)
    MODULE_ACTIONS module_tables"
  by code_simp

lemma module_tables_api: "t \<in> set module_tables \<Longrightarrow> set t \<subseteq> set (concat api_tables)"
  by (auto simp: module_tables_def api_tables_def)



subsection \<open>Doors\<close>

definition open_handlers :: "(string \<times> string list) list" where
  "open_handlers = [
     (''AppController'', [''getHello'']), (''HealthController'', [''getHealth'', ''getReady'']),
     (''StorefrontMirrorController'', [''mirror'']), (''PublicDepartmentsController'', [''findAll'', ''findOne'']),
     (''PublicCategoriesController'', [''findAll'', ''findOne'']), (''PublicCatalogController'', [''findAll'']),
     (''PublicCmsController'', [''settings'', ''home'', ''draftHome'', ''banners'', ''services'', ''staff'', ''faqs'', ''homeNotices'', ''pages'', ''page'']),
     (''PublicContactController'', [''motives'', ''submit'']), (''PublicProductsController'', [''findAll'', ''findOne'']),
     (''GeographyController'', [''listProvinces'', ''listByProvince'', ''listMunicipalities'']),
     (''PublicFulfillmentController'', [''availability'']), (''OrderTrackingController'', [''track'']),
     (''PaymentsWebhookController'', [''handle'']), (''OrderExpiryController'', [''expire'']),
     (''PickupRemindersController'', [''run'']), (''WebhooksController'', [''handleClerkStore'', ''handleClerkAdmin''])]"

definition customer_classes :: "string list" where
  "customer_classes = [''ClientAddressesController'', ''CartController'', ''StorefrontFulfillmentController'', ''StorefrontOrdersController'', ''StorefrontPaymentMethodsController'']"

definition super_only :: "(string \<times> string) list" where
  "super_only = [(''OrdersController'', ''correct''), (''OrdersController'', ''updateItems''), (''OrdersController'', ''removePaymentAttempt''),
     (''UsersController'', ''restore'')]"

definition is_open :: "endpoint \<Rightarrow> bool" where
  "is_open e \<longleftrightarrow> (\<exists>(cls, hs) \<in> set open_handlers. en_class e = cls \<and> en_handler e \<in> set hs)"

text \<open>What the marks of one route come to.\<close>

definition well_marked :: "endpoint \<Rightarrow> bool" where
  "well_marked e \<longleftrightarrow>
     (if override (rt_public (en_route e)) = Some True then (if en_client e then en_class e \<in> set customer_classes else is_open e)
      else \<not> en_client e \<and>
        (demand e = None \<longrightarrow> (case override (rt_roles (en_route e)) of Some rs \<Rightarrow> rs \<noteq> [] \<and> list_all is_system_admin rs
             | None \<Rightarrow> (en_class e, en_handler e) = (''AuthController'', ''me''))))"

lemma tables_marked: "list_all (list_all well_marked) api_tables"
  by code_simp

lemma super_only_marked: "list_all (list_all (\<lambda>e. (en_class e, en_handler e) \<in> set super_only \<longrightarrow>
    override (rt_public (en_route e)) \<noteq> Some True \<and> override (rt_roles (en_route e)) = Some [SUPER_ADMIN])) api_tables"
  by code_simp

definition door :: "clerk_api \<Rightarrow> people \<Rightarrow> string option \<Rightarrow> endpoint \<Rightarrow> caller \<Rightarrow> bool" where
  "door api w header e who = (case who of
     Anybody \<Rightarrow> is_open e
   | Shopper c \<Rightarrow> en_class e \<in> set customer_classes \<and> cu_active c \<and> \<not> cu_deleted c
   | Panel u \<Rightarrow> (\<exists>token acc. present_token header = Some token \<and> authenticateByBearerToken api token w = Inr acc \<and> us_active acc \<and> u = user_of acc) \<and>
       (is_system_admin (u_role u) \<or> (en_class e, en_handler e) = (''AuthController'', ''me'') \<or>
        (\<exists>mdl action. (mdl, action) \<in> set catalog_pairs \<and> demand e = Some (mdl, action) \<and> granted (pe_access w) (u_id u) mdl action)) \<and>
       ((en_class e, en_handler e) \<in> set super_only \<longrightarrow> u_role u = SUPER_ADMIN))"

lemma dispatch_member: "dispatch tables meth path = Some e \<Longrightarrow> \<exists>c \<in> set tables. e \<in> set c"
  by (auto simp: dispatch_def find_Some_iff dest!: nth_mem)

text \<open>C19: A request that gets through to a handler of the API without an account reaches one of a closed list of open
  handlers; as a customer, one of the customer's own controllers, with an active account; with an account of
  the panel, either the account is an administrator's, or the handler is the one that tells who is signed in,
  or a role of the account grants the permission of the catalogue that the route asks for. Corrections of
  orders, removal of payment attempts and restoring accounts are for super administrators alone.\<close>

theorem who_reaches_what:
  assumes "access_ok (pe_access w)" and "serve api now w api_tables rq = Inr (e, who, w')"
  shows "door api w (rq_auth rq) e who"
proof -
  from assms(2) obtain user where found: "dispatch api_tables (rq_method rq) (rq_path rq) = Some e"
    and auth: "auth_guard api w (en_route e) (rq_auth rq) = Inr user" and passed: "guards (pe_access w) (en_route e) user = Inr ()"
    and rest: "(if en_client e then bindE (client_guard api now w (rq_auth rq)) (\<lambda>(c, w1). Inr (e, Shopper c, w1))
       else Inr (e, (case user of None \<Rightarrow> Anybody | Some u \<Rightarrow> Panel u), w)) = Inr (e, who, w')"
    by (auto simp: serve_def bindE_eq_Inr split: if_splits)
  from dispatch_member [OF found] tables_marked super_only_marked demands_grantable
  have marked: "well_marked e" and super: "(en_class e, en_handler e) \<in> set super_only \<Longrightarrow>
      override (rt_public (en_route e)) \<noteq> Some True \<and> override (rt_roles (en_route e)) = Some [SUPER_ADMIN]"
    and grant: "\<And>p. demand e = Some p \<Longrightarrow> p \<in> set catalog_pairs"
    by (auto simp: list_all_iff dest!: bspec intro: grantable_pair split: option.splits)
  show ?thesis
  proof (cases "override (rt_public (en_route e)) = Some True")
    case True
    then have "user = None" using auth by (simp add: auth_guard_def)
    show ?thesis
    proof (cases "en_client e")
      case True
      with rest obtain c where c: "client_guard api now w (rq_auth rq) = Inr (c, w')" "who = Shopper c" by (auto simp: bindE_eq_Inr)
      then have "cu_active c \<and> \<not> cu_deleted c"
        by (auto simp: client_guard_def authenticate_client_def bindE_eq_Inr split: option.splits)
      with c marked \<open>override (rt_public (en_route e)) = Some True\<close> True show ?thesis by (simp add: door_def well_marked_def)
    next
      case False
      with rest \<open>user = None\<close> marked True show ?thesis by (simp add: door_def well_marked_def)
    qed
  next
    case False
    with auth obtain token acc where acc: "present_token (rq_auth rq) = Some token" "authenticateByBearerToken api token w = Inr acc"
      "user = Some (user_of acc)" by (auto simp: auth_guard_def bindE_eq_Inr)
    moreover from acc(2) have "us_active acc" by (auto simp: authenticateByBearerToken_def bindE_eq_Inr)
    moreover from False marked have "\<not> en_client e" by (simp add: well_marked_def)
    with rest acc(3) have who: "who = Panel (user_of acc)" by simp
    moreover have roles: "u_role (user_of acc) \<in> set rs" if "override (rt_roles (en_route e)) = Some rs" "rs \<noteq> []" for rs
      using passed that acc(3) by (auto simp: guards_def bindE_eq_Inr roles_guard_def)
    moreover from passed have "permission_guard (pe_access w) (en_route e) user = Inr ()" by (auto simp: guards_def bindE_eq_Inr)
    then have "is_system_admin (u_role (user_of acc)) \<or> (en_class e, en_handler e) = (''AuthController'', ''me'') \<or>
        (\<exists>mdl action. (mdl, action) \<in> set catalog_pairs \<and> demand e = Some (mdl, action) \<and> granted (pe_access w) (u_id (user_of acc)) mdl action)"
      using False marked grant roles acc(3)
      by (fastforce simp: permission_guard_def well_marked_def hasPermission_granted [OF assms(1)] list_all_iff split: if_splits option.splits)
    ultimately show ?thesis using super by (auto simp: door_def)
  qed
qed

definition panel_people :: people where
  "panel_people = \<lparr>pe_users = [\<lparr>us_id = 2, us_clerk = Some ''lia'', us_role = STAFF, us_email = None, us_first = None, us_last = None,
       us_phone = None, us_avatar = None, us_business = None, us_business_text = None, us_business_logo = None, us_org = None,
       us_active = True, us_approved = None, us_created_by = None, us_created = 0, us_deleted = False\<rparr>],
     pe_invitations = [], pe_customers = [], pe_access = sample_access, pe_calls = [], pe_next = 10\<rparr>"

definition panel_clerk :: clerk_api where
  "panel_clerk = \<lparr>ck_backoffice_key = True, ck_store_key = True, ck_notify = False, ck_redirect = False, ck_token = Some,
     ck_backoffice_user = (\<lambda>_. None), ck_store_user = (\<lambda>_. None), ck_store_has_email = (\<lambda>_ _. False),
     ck_create_customer = (\<lambda>calls e. Inr e), ck_invite = (\<lambda>calls c. Inr ''inv2''), ck_set_password = (\<lambda>_ _ _. Inr ()),
     ck_pending = (\<lambda>_. None)\<rparr>"

definition publish_request :: http_request where
  "publish_request = \<lparr>rq_method = POST, rq_path = [''cms'', ''home'', ''publish''], rq_auth = Some ''Bearer lia''\<rparr>"

lemma publish_found: "dispatch api_tables POST [''cms'', ''home'', ''publish''] = Some (cms_home_controller ! 2)"
  by code_simp

lemma who_reaches_what_witness:
  "serve panel_clerk 0 panel_people api_tables publish_request = Inr (cms_home_controller ! 2, Panel \<lparr>u_id = 2, u_role = STAFF\<rparr>, panel_people) \<and>
   granted sample_access 2 ''cms-home'' ''publish''"
proof -
  have "access_ok (pe_access panel_people)" by code_simp
  moreover have run: "serve panel_clerk 0 panel_people api_tables publish_request =
      Inr (cms_home_controller ! 2, Panel \<lparr>u_id = 2, u_role = STAFF\<rparr>, panel_people)"
  proof -
    have "auth_guard panel_clerk panel_people (en_route (cms_home_controller ! 2)) (Some ''Bearer lia'') = Inr (Some \<lparr>u_id = 2, u_role = STAFF\<rparr>)"
      "guards sample_access (en_route (cms_home_controller ! 2)) (Some \<lparr>u_id = 2, u_role = STAFF\<rparr>) = Inr ()"
      "\<not> en_client (cms_home_controller ! 2)"
      by code_simp+
    moreover have "pe_access panel_people = sample_access" by (simp add: panel_people_def)
    ultimately show ?thesis by (simp add: serve_def publish_request_def publish_found)
  qed
  ultimately have "door panel_clerk panel_people (rq_auth publish_request) (cms_home_controller ! 2) (Panel \<lparr>u_id = 2, u_role = STAFF\<rparr>)"
    by (rule who_reaches_what)
  moreover have "demand (cms_home_controller ! 2) = Some (''cms-home'', ''publish'')" "en_handler (cms_home_controller ! 2) = ''publish''"
    by code_simp+
  moreover have "pe_access panel_people = sample_access" by (simp add: panel_people_def)
  ultimately show ?thesis using run by (auto simp: door_def is_system_admin_def)
qed

end
