(* ===== verification/Gateways_Laws.thy ===== *)
theory Gateways_Laws
  imports Gateways Late_Payments
begin

section \<open>What a platform can and cannot make the shop do\<close>

text \<open>
  No notification counts without its signature, a card payment asks for exactly the order's cents, and
  what the card platform's signature leaves out.
\<close>

subsection \<open>Signatures\<close>

definition signed_notice :: "platforms \<Rightarrow> string \<Rightarrow> string \<Rightarrow> (string \<times> string) list \<Rightarrow> bool" where
  "signed_notice px code raw headers \<longleftrightarrow>
     (if code = ''tropipay'' then (\<exists>event. px_parse px raw = Some event \<and> tropipay_signed px event)
      else given_or (jm_get ''x-mibi-signature'' headers) [] = mb_hmac px (given_or (mb_secret px) []) raw)"

lemma tropipay_webhook_signed: "tropipay_webhook px raw = Inr w \<Longrightarrow> \<exists>event. px_parse px raw = Some event \<and> tropipay_signed px event"
  by (auto simp: tropipay_webhook_def bindE_eq_Inr)

lemma mibi_webhook_signed:
  assumes "mibi_webhook px raw headers = Inr w" and "mb_secret px = Some s" and "s \<noteq> []"
  shows "given_or (jm_get ''x-mibi-signature'' headers) [] = mb_hmac px s raw"
  using assms by (cases s) (auto simp: mibi_webhook_def mibi_signed_def bindE_eq_Inr given_or_def)

text \<open>C10: No notification is taken without its signature: with the wallet's secret configured, a notification that is accepted on
  any route comes from one of the platforms and carries the signature its check asks for; any other one
  is refused and changes nothing.\<close>

theorem notices_are_signed:
  assumes "mb_secret px = Some s" and "s \<noteq> []" and "handleWebhook e (platform_api px) provider raw headers d = Inr r"
  shows "gw_code (gatewayFor (e_gateways e) provider) \<in> {''tropipay'', ''mibilletera'', ''mibilletera-wallet''} \<and>
    signed_notice px (gw_code (gatewayFor (e_gateways e) provider)) raw headers"
proof -
  let ?code = "gw_code (gatewayFor (e_gateways e) provider)"
  obtain w where w: "parseWebhook_via (platform_api px) ?code raw headers = Inr w"
    using assms(3) by (auto simp: handleWebhook_def bindE_eq_Inr)
  then have code: "?code \<in> {''tropipay'', ''mibilletera'', ''mibilletera-wallet''}"
    by (auto simp: parseWebhook_via_def platform_api_def split: if_splits)
  show ?thesis
  proof (cases "?code = ''tropipay''")
    case True
    then have "tropipay_webhook px raw = Inr w" using w by (simp add: parseWebhook_via_def platform_api_def)
    from tropipay_webhook_signed [OF this] True show ?thesis by (simp add: signed_notice_def)
  next
    case False
    then have "mibi_webhook px raw headers = Inr w" using w code by (auto simp: parseWebhook_via_def platform_api_def)
    from mibi_webhook_signed [OF this assms(1,2)] code False show ?thesis by (simp add: signed_notice_def assms(1) given_or_def)
  qed
qed

subsection \<open>The amount of a card payment\<close>

text \<open>The payment link of a card asks the platform for exactly the order's total in cents, although it is computed in binary
  floating point, under the reference the shop will know it by; and the charge that is stored says the
  same amount and waits for the customer. Below the minimum there is no link.\<close>

theorem card_link_asks_the_total:
  assumes "\<bar>o_total ord\<bar> < 10 ^ 12" and "tropipay_create px ord key = Inr g"
  shows "json_field ''amount'' (link_request px ord key) = Some (JNum (of_int (o_total ord))) \<and>
    json_field ''reference'' (link_request px ord key) = Some (JStr key) \<and>
    gc_reference g = key \<and> gc_amount g = cents_str (o_total ord) \<and> gc_status g = ChRequiresAction \<and>
    (tp_min px = None \<longrightarrow> DEFAULT_MIN_AMOUNT \<le> dec_num (o_total ord))"
  using assms
  by (auto simp: tropipay_create_def bindE_eq_Inr link_request_def minor_units_def js_number_cents number_fixed_def js_fixed_cents Let_def
      split: prod.splits)

lemma succeeded_notice_pays:
  assumes parse: "parseWebhook_via api (gw_code (gatewayFor (e_gateways e) provider)) raw headers = Inr ev"
    and "wh_reference ev = ch_reference c" and "gd_status (wh_charge ev) = Some ChSucceeded" and "ch_reference c \<noteq> []"
    and "shop_inv d" and "charge_by_reference d (ch_reference c) = Some c" and "ch_status c \<noteq> ChSucceeded"
    and "find_order d (ch_order c) = Some ord" and "o_payment ord \<noteq> PayPaid"
  shows "\<exists>d'. handleWebhook e api provider raw headers d = Inr (True, d') \<and>
    (\<exists>x \<in> set (d_orders d'). o_id x = ch_order c \<and> o_payment x = PayPaid)"
proof -
  obtain b d' where run: "handleWebhook e api provider raw headers d = Inr (b, d')" and b: "b"
    unfolding handleWebhook_def parse bindE_Inr using assms(2-4,6,7) by (simp add: Let_def)
  from webhook_succeeded [OF run parse _ _ assms(3,7)] assms(2,4,6)
  obtain c2 where c2: "ch_status c2 = ChSucceeded" "ch_order c2 = ch_order c" "d' = propagateToOrder e c2 (save_charge c2 d)" by auto
  have "shop_inv (save_charge c2 d)" by (rule shop_inv_cong [OF assms(5)]) (simp_all add: save_charge_def shop_invD(3) [OF assms(5)])
  from propagate_pays [OF this, of c2 ord e] c2 assms(8,9)
  have "\<exists>x \<in> set (d_orders d'). o_id x = ch_order c \<and> o_payment x = PayPaid" by simp
  with run b show ?thesis by auto
qed

subsection \<open>What the card platform's signature leaves out\<close>

text \<open>C11: The signature of a card notification covers the bank's code and the amount, neither the order's reference nor the
  outcome: whoever holds the notification of one payment, even a failed one, can send it again with
  another reference and the outcome changed, and the unpaid order of that reference is marked paid.\<close>

theorem card_signature_leaves_out_the_order:
  assumes "tropipay_webhook px raw = Inr w" and "px_parse px raw = Some ev" and "px_parse px raw2 = Some ev2"
    and "\<And>k. k \<in> {''originalCurrencyAmount'', ''bankOrderCode'', ''signaturev2''} \<Longrightarrow> data_field ev2 k = data_field ev k"
    and "data_field ev2 ''reference'' = Some (JStr (ch_reference c))" and "ch_reference c \<noteq> []"
    and "json_field ''status'' ev2 = Some (JStr ''OK'')"
    and "gw_code (gatewayFor (e_gateways e) ''tropipay'') = ''tropipay''"
    and "shop_inv d" and "charge_by_reference d (ch_reference c) = Some c" and "ch_status c \<noteq> ChSucceeded"
    and "find_order d (ch_order c) = Some ord" and "o_payment ord \<noteq> PayPaid"
  shows "\<exists>d'. handleWebhook e (platform_api px) ''tropipay'' raw2 headers d = Inr (True, d') \<and>
    (\<exists>x \<in> set (d_orders d'). o_id x = ch_order c \<and> o_payment x = PayPaid)"
proof -
  have "ev2 \<noteq> JNull" using assms(7) by auto
  moreover have "js_truthy (data_field ev ''bankOrderCode'')" and signed: "tropipay_signed px ev"
    using assms(1,2) by (auto simp: tropipay_webhook_def bindE_eq_Inr)
  moreover have "tropipay_signed px ev2" using signed by (simp add: tropipay_signed_def assms(4))
  ultimately have w2: "tropipay_webhook px raw2 = Inr (tropipay_event px ev2)"
    by (simp add: tropipay_webhook_def assms(3-6))
  let ?w = "tropipay_event px ev2"
  have parse: "parseWebhook_via (platform_api px) (gw_code (gatewayFor (e_gateways e) ''tropipay'')) raw2 headers = Inr ?w"
    using w2 by (simp add: assms(8) parseWebhook_via_def platform_api_def)
  have ref: "wh_reference ?w = ch_reference c" by (simp add: tropipay_event_def Let_def text_of_def assms(5))
  have st: "gd_status (wh_charge ?w) = Some ChSucceeded" by (simp add: tropipay_event_def Let_def assms(7))
  from succeeded_notice_pays [OF parse ref st assms(6,9-13)] show ?thesis .
qed

subsection \<open>A worked example\<close>

text \<open>A card platform whose signature is the amount after the bank's code; the texts stand for their parsed notices.\<close>

definition card_notice :: "string \<Rightarrow> string \<Rightarrow> json" where
  "card_notice status ref = JObj [(''status'', JStr status), (''data'', JObj [(''reference'', JStr ref), (''bankOrderCode'', JStr ''B7''),
     (''originalCurrencyAmount'', JStr ''150''), (''signaturev2'', JStr ''B7150'')])]"

definition sample_platforms :: platforms where
  "sample_platforms = \<lparr>px_now = 9, px_production = True,
     px_parse = (\<lambda>s. if s = ''ko'' then Some (card_notice ''KO'' ''mine'') else if s = ''ok'' then Some (card_notice ''OK'' ''tp-1'') else None),
     px_text = (\<lambda>_. []), px_date = (\<lambda>_. None), px_public_url = None, px_store_url = None, tp_configured = True,
     tp_currency = ''USD'', tp_min = None, tp_verify = (\<lambda>amount bank s. s = bank @ amount),
     tp_create = (\<lambda>_. Inr (Some ''https://tpp.me/1'', None, JObj [])), tp_movements = Inr [], mb_secret = Some ''k'',
     mb_hmac = (\<lambda>k s. k @ s), mb_currency = ''USD'', mb_configured = True, mb_fetch = (\<lambda>_ _ _. None)\<rparr>"

lemma sample_ko: "tropipay_webhook sample_platforms ''ko'' = Inr (tropipay_event sample_platforms (card_notice ''KO'' ''mine''))"
  by (simp add: tropipay_webhook_def sample_platforms_def card_notice_def data_field_def tropipay_signed_def text_of_def)

lemma notices_are_signed_witness:
  "\<exists>r. handleWebhook card_env (platform_api sample_platforms) ''tropipay'' ''ko'' [] card_db = Inr r \<and>
     signed_notice sample_platforms ''tropipay'' ''ko'' []"
proof -
  have parse: "parseWebhook_via (platform_api sample_platforms) (gw_code (gatewayFor (e_gateways card_env) ''tropipay'')) ''ko'' [] =
      Inr (tropipay_event sample_platforms (card_notice ''KO'' ''mine''))"
    unfolding card_gateway using sample_ko by (simp add: parseWebhook_via_def platform_api_def)
  have ref: "wh_reference (tropipay_event sample_platforms (card_notice ''KO'' ''mine'')) = ''mine''"
    by (simp add: tropipay_event_def Let_def text_of_def data_field_def card_notice_def)
  have "charge_by_reference card_db ''mine'' = None" by (simp add: charge_by_reference_def card_db_def card_charge_def)
  then have run: "handleWebhook card_env (platform_api sample_platforms) ''tropipay'' ''ko'' [] card_db = Inr (False, card_db)"
    unfolding handleWebhook_def parse bindE_Inr by (simp add: ref)
  have "mb_secret sample_platforms = Some ''k''" by (simp add: sample_platforms_def)
  from notices_are_signed [OF this _ run] run card_gateway show ?thesis by auto
qed

lemma card_link_asks_the_total_witness:
  "\<exists>g. tropipay_create sample_platforms open_order ''k1'' = Inr g \<and> gc_amount g = ''39.98''"
proof -
  have total: "o_total open_order = 3998" by (simp add: open_order_def sample_order_def)
  have big: "\<not> dec_num 3998 < DEFAULT_MIN_AMOUNT" by code_simp
  obtain g where g: "tropipay_create sample_platforms open_order ''k1'' = Inr g"
    using big by (simp add: tropipay_create_def sample_platforms_def SUPPORTED_CURRENCIES_def total)
  have "cents_str 3998 = ''39.98''" by code_simp
  then show ?thesis using card_link_asks_the_total [OF _ g] g total by simp
qed

lemma card_signature_leaves_out_the_order_witness:
  "\<exists>d'. handleWebhook card_env (platform_api sample_platforms) ''tropipay'' ''ok'' [] card_db = Inr (True, d') \<and>
     (\<exists>x \<in> set (d_orders d'). o_id x = 50 \<and> o_payment x = PayPaid)"
proof -
  have parse: "px_parse sample_platforms ''ko'' = Some (card_notice ''KO'' ''mine'')" "px_parse sample_platforms ''ok'' = Some (card_notice ''OK'' ''tp-1'')"
    by (simp_all add: sample_platforms_def)
  have same: "data_field (card_notice ''OK'' ''tp-1'') k = data_field (card_notice ''KO'' ''mine'') k"
    if "k \<in> {''originalCurrencyAmount'', ''bankOrderCode'', ''signaturev2''}" for k
    using that by (auto simp: data_field_def card_notice_def)
  have charge: "charge_by_reference card_db (ch_reference card_charge) = Some card_charge" "ch_order card_charge = 50"
    using card_charge_found by (simp_all add: card_charge_def)
  have order: "find_order card_db (ch_order card_charge) = Some open_order" using card_order charge(2) by simp
  have rest: "data_field (card_notice ''OK'' ''tp-1'') ''reference'' = Some (JStr (ch_reference card_charge))" "ch_reference card_charge \<noteq> []"
    "json_field ''status'' (card_notice ''OK'' ''tp-1'') = Some (JStr ''OK'')" "ch_status card_charge \<noteq> ChSucceeded"
    "o_payment open_order \<noteq> PayPaid"
    by (simp_all add: data_field_def card_notice_def card_charge_def open_order_def)
  from card_signature_leaves_out_the_order [OF sample_ko parse same rest(1,2,3) card_gateway card_db_inv charge(1) rest(4) order rest(5)]
  show ?thesis by (simp add: charge(2))
qed

end
