(* ===== verification/Configuration_Laws.thy ===== *)
theory Configuration_Laws
  imports Configuration Gateways_Laws
begin

section \<open>What a started program has closed, and what it has not\<close>

text \<open>
  A deployed program that passes its start-up checks is locked, but one thing stays open on staging: the wallet takes notices
  without a signature wherever its secret is not set and the environment is not called production.
\<close>

subsection \<open>Locked doors\<close>

lemma positiveInt_positive:
  assumes "0 < fallback" shows "0 < positiveInt raw fallback"
proof -
  have "0 < \<lfloor>v\<rfloor>" if "v = of_int \<lfloor>v\<rfloor>" "0 < v" for v :: rat using that by (metis of_int_0_less_iff)
  with assms show ?thesis unfolding positiveInt_def by (auto split: option.splits simp del: zero_less_floor)
qed

lemma started_has:
  assumes "\<not> isLocalEnv env" and "comprobarConfiguracion env = Inr logged" and "nombre \<in> set IMPRESCINDIBLES"
  shows "\<exists>c cs. env nombre = Some (c # cs)"
proof -
  have "\<not> falta env nombre" using assms by (auto simp: comprobarConfiguracion_def bindE_eq_Inr filter_empty_conv)
  then obtain v where "env nombre = Some v" "js_trim v \<noteq> []" by (auto simp: falta_def split: option.splits)
  then show ?thesis by (cases v) (auto simp: js_trim_def)
qed

lemma verify_with_secret:
  "verifyWebhook (cfg\<lparr>wc_secret := Some (c # cs), wc_allow_unverified := u\<rparr>) raw headers = Inr ev \<longleftrightarrow>
   wc_verify cfg (c # cs) raw headers = Some ev" for cfg :: webhook_config
  by (simp add: verifyWebhook_def non_empty_def)

lemma webhooks_verified:
  assumes "env ''CLERK_WEBHOOK_SECRET'' = Some (c # cs)" and "env ''CLERK_BACKOFFICE_WEBHOOK_SECRET'' = Some (c' # cs')"
  shows "handleStoreWebhook (store_webhook_config env cfg) now raw headers w = Inr w1 \<Longrightarrow>
      \<exists>ev. wc_verify cfg (c # cs) raw headers = Some ev \<and> on_store_event now ev w = Inr w1"
    and "handleAdminWebhook (admin_webhook_config env cfg) now raw headers w = Inr w2 \<Longrightarrow>
      \<exists>ev. wc_verify cfg (c' # cs') raw headers = Some ev \<and> on_admin_event now ev w = Inr w2"
  by (auto simp: handleStoreWebhook_def handleAdminWebhook_def store_webhook_config_def admin_webhook_config_def clerkConfig_def assms
      verify_with_secret bindE_eq_Inr)

lemma assertSecret_iff: "pc_cron_secret cfg = Some (c # cs) \<Longrightarrow> assertSecret cfg provided = Inr () \<longleftrightarrow> provided = Some (c # cs)"
  by (auto simp: assertSecret_def non_empty_def given_or_def split: option.splits)

lemma assertStorefrontSecret_iff:
  "snd cfg = Some (c # cs) \<Longrightarrow> assertStorefrontSecret cfg received = Inr () \<longleftrightarrow> received = Some (c # cs)"
  by (auto simp: assertStorefrontSecret_def given_or_def Let_def split: option.splits)

text \<open>C20: A deployed program that starts is locked: it takes no made-up token, every notice of the identity provider that it acts on
  carries a signature made with the secret of its environment, the routes of the scheduler run only for who
  sends the scheduler's secret, the draft of the home page is read only with the storefront's secret, and the
  deadlines of unpaid orders are positive.\<close>

theorem deployed_app_is_locked:
  assumes "\<not> isLocalEnv env" and "comprobarConfiguracion env = Inr logged"
  shows "with_auth (authConfig env) api = api \<and>
    (handleStoreWebhook (store_webhook_config env cfg) now raw headers w = Inr w1 \<longrightarrow>
       (\<exists>s ev. env ''CLERK_WEBHOOK_SECRET'' = Some s \<and> s \<noteq> [] \<and> wc_verify cfg s raw headers = Some ev \<and> on_store_event now ev w = Inr w1)) \<and>
    (handleAdminWebhook (admin_webhook_config env cfg) now raw headers w = Inr w2 \<longrightarrow>
       (\<exists>s ev. env ''CLERK_BACKOFFICE_WEBHOOK_SECRET'' = Some s \<and> s \<noteq> [] \<and> wc_verify cfg s raw headers = Some ev \<and> on_admin_event now ev w = Inr w2)) \<and>
    (assertSecret (paymentsConfig env) provided = Inr () \<longleftrightarrow> provided \<noteq> None \<and> provided = env ''CRON_SECRET'') \<and>
    (assertStorefrontSecret (storefrontConfig env) received = Inr () \<longleftrightarrow> received \<noteq> None \<and> received = env ''STOREFRONT_REVALIDATE_SECRET'') \<and>
    0 < pc_gateway_minutes (paymentsConfig env) \<and> 0 < pc_manual_hours (paymentsConfig env)"
proof -
  note has = started_has [OF assms]
  obtain c cs c' cs' k ks r rs where s: "env ''CLERK_WEBHOOK_SECRET'' = Some (c # cs)" "env ''CLERK_BACKOFFICE_WEBHOOK_SECRET'' = Some (c' # cs')"
    "env ''CRON_SECRET'' = Some (k # ks)" "env ''STOREFRONT_REVALIDATE_SECRET'' = Some (r # rs)"
    using has [of "''CLERK_WEBHOOK_SECRET''"] has [of "''CLERK_BACKOFFICE_WEBHOOK_SECRET''"] has [of "''CRON_SECRET''"]
      has [of "''STOREFRONT_REVALIDATE_SECRET''"] by (auto simp: IMPRESCINDIBLES_def)
  have "with_auth (authConfig env) api = api" using assms(1) by (simp add: with_auth_def authConfig_def)
  moreover have "assertSecret (paymentsConfig env) provided = Inr () \<longleftrightarrow> provided = Some (k # ks)"
    by (rule assertSecret_iff) (simp add: paymentsConfig_def s(3))
  moreover have "assertStorefrontSecret (storefrontConfig env) received = Inr () \<longleftrightarrow> received = Some (r # rs)"
    by (rule assertStorefrontSecret_iff) (simp add: storefrontConfig_def s(4))
  moreover have "0 < pc_gateway_minutes (paymentsConfig env)" "0 < pc_manual_hours (paymentsConfig env)"
    by (simp_all add: paymentsConfig_def positiveInt_positive)
  ultimately show ?thesis using webhooks_verified [OF s(1,2)] s by auto
qed

subsection \<open>The wallet's notices on staging\<close>

text \<open>C21: The wallet's gateway only insists on a signature in an environment called production. In any other deployed one, such as the
  staging server, where the secret of the wallet is not set (nothing asks for it at the start), an unsigned
  text that names a charge, of whatever gateway, marks its order paid.\<close>

theorem staging_takes_unsigned_notices:
  assumes "\<not> isLocalEnv env" and "comprobarConfiguracion env = Inr logged" and "env ''NODE_ENV'' \<noteq> Some ''production''"
    and "env ''MIBI_WEBHOOK_SECRET'' = None"
    and "px_parse px raw = Some ev" and "json_field ''status'' ev = Some (JStr ''SUCCEEDED'')"
    and "json_field ''reference'' ev = Some (JStr (ch_reference c))" and "ch_reference c \<noteq> []"
    and "gw_code (gatewayFor (e_gateways e) ''mibilletera'') = ''mibilletera''"
    and "shop_inv d" and "charge_by_reference d (ch_reference c) = Some c" and "ch_status c \<noteq> ChSucceeded"
    and "find_order d (ch_order c) = Some ord" and "o_payment ord \<noteq> PayPaid"
  shows "\<exists>d'. handleWebhook e (platform_api (configured_platforms env px)) ''mibilletera'' raw [] d = Inr (True, d') \<and>
    (\<exists>x \<in> set (d_orders d'). o_id x = ch_order c \<and> o_payment x = PayPaid)"
proof -
  let ?px = "configured_platforms env px"
  have "ev \<noteq> JNull" using assms(6) by auto
  moreover have "mb_secret ?px = None" "\<not> px_production ?px" "px_parse ?px raw = Some ev"
    using assms(1,3-5) by (auto simp: configured_platforms_def Let_def paymentsConfig_def given_or_def isLocalEnv_def split: option.splits)
  ultimately obtain w where w: "mibi_webhook ?px raw [] = Inr w" "wh_reference w = ch_reference c" "gd_status (wh_charge w) = Some ChSucceeded"
    using assms(6,7) by (simp add: mibi_webhook_def mibi_signed_def mibi_status_def text_of_def)
  have "parseWebhook_via (platform_api ?px) (gw_code (gatewayFor (e_gateways e) ''mibilletera'')) raw [] = Inr w"
    using w(1) by (simp add: assms(9) parseWebhook_via_def platform_api_def)
  from succeeded_notice_pays [OF this w(2,3) assms(8,10-14)] show ?thesis .
qed

subsection \<open>A staging server\<close>

definition staging :: environ where
  "staging = map_of [(''NODE_ENV'', ''staging''), (''DATABASE_URL'', ''postgres://db''), (''CLERK_SECRET_KEY'', ''sk1''),
     (''CLERK_BACKOFFICE_SECRET_KEY'', ''sk2''), (''CLERK_WEBHOOK_SECRET'', ''wh1''), (''CLERK_BACKOFFICE_WEBHOOK_SECRET'', ''wh2''),
     (''CRON_SECRET'', ''tick''), (''STOREFRONT_REVALIDATE_SECRET'', ''fresh''), (''MOCK_AUTH_ENABLED'', ''true''),
     (''ALLOW_UNVERIFIED_WEBHOOKS'', ''true''), (''ORDER_EXPIRY_GATEWAY_MINUTES'', '' 4.5e1 ''), (''ORDER_EXPIRY_MANUAL_HOURS'', ''un dia'')]"

lemma staging_starts: "\<not> isLocalEnv staging" "\<exists>logged. comprobarConfiguracion staging = Inr logged"
proof -
  show "\<not> isLocalEnv staging" by code_simp
  have "filter (falta staging) IMPRESCINDIBLES = []" by code_simp
  then show "\<exists>logged. comprobarConfiguracion staging = Inr logged"
    using \<open>\<not> isLocalEnv staging\<close> by (simp add: comprobarConfiguracion_def Let_def)
qed

lemma deployed_app_is_locked_witness:
  "assertSecret (paymentsConfig staging) (Some ''tick'') = Inr () \<and> assertSecret (paymentsConfig staging) None \<noteq> Inr () \<and>
   with_auth (authConfig staging) panel_clerk = panel_clerk \<and>
   pc_gateway_minutes (paymentsConfig staging) = 45 \<and> pc_manual_hours (paymentsConfig staging) = 24"
proof -
  obtain logged where "comprobarConfiguracion staging = Inr logged" using staging_starts(2) by blast
  note locked = deployed_app_is_locked [OF staging_starts(1) this]
  have "staging ''CRON_SECRET'' = Some ''tick''" by code_simp
  moreover have "pc_gateway_minutes (paymentsConfig staging) = 45" "pc_manual_hours (paymentsConfig staging) = 24"
    by code_simp+
  ultimately show ?thesis
    using locked [of panel_clerk _ _ _ _ _ _ _ "Some ''tick''"] locked [of _ _ _ _ _ _ _ _ None] by auto
qed

text \<open>An unsigned text names the open charge of a card payment.\<close>

definition forged :: json where
  "forged = JObj [(''event'', JStr ''charge.succeeded''), (''reference'', JStr ''tp-1''), (''status'', JStr ''SUCCEEDED'')]"

definition wallet_env :: env where
  "wallet_env = card_env\<lparr>e_gateways := [\<lparr>gw_code = ''mibilletera'', gw_kind = KindInstructions, gw_configured = False\<rparr>]\<rparr>"

lemma staging_takes_unsigned_notices_witness:
  "\<exists>d'. handleWebhook wallet_env (platform_api (configured_platforms staging (sample_platforms\<lparr>px_parse := (\<lambda>_. Some forged)\<rparr>)))
       ''mibilletera'' ''forged'' [] card_db = Inr (True, d') \<and> (\<exists>x \<in> set (d_orders d'). o_id x = 50 \<and> o_payment x = PayPaid)"
proof -
  obtain logged where starts: "comprobarConfiguracion staging = Inr logged" using staging_starts(2) by blast
  have env: "staging ''NODE_ENV'' \<noteq> Some ''production''" "staging ''MIBI_WEBHOOK_SECRET'' = None" by code_simp+
  have notice: "px_parse (sample_platforms\<lparr>px_parse := (\<lambda>_. Some forged)\<rparr>) ''forged'' = Some forged"
    "json_field ''status'' forged = Some (JStr ''SUCCEEDED'')" "json_field ''reference'' forged = Some (JStr (ch_reference card_charge))"
    "ch_reference card_charge \<noteq> []"
    by (simp_all add: forged_def card_charge_def)
  have gateway: "gw_code (gatewayFor (e_gateways wallet_env) ''mibilletera'') = ''mibilletera''"
    by (simp add: wallet_env_def gatewayFor_def)
  have charge: "charge_by_reference card_db (ch_reference card_charge) = Some card_charge" "ch_order card_charge = 50" "ch_status card_charge \<noteq> ChSucceeded"
    using card_charge_found by (simp_all add: card_charge_def)
  have order: "find_order card_db (ch_order card_charge) = Some open_order" "o_payment open_order \<noteq> PayPaid"
    using card_order charge(2) by (simp_all add: open_order_def)
  from staging_takes_unsigned_notices [OF staging_starts(1) starts env notice gateway card_db_inv charge(1,3) order]
  show ?thesis by (simp add: charge(2))
qed

end
