(* ===== verification/Mail.thy ===== *)
theory Mail
  imports Configuration
begin

section \<open>Mails to the customers\<close>

text \<open>
  \<open>src/mail/mail.service.ts\<close>, \<open>order-mailer.service.ts\<close>, \<open>client-mailer.service.ts\<close> and \<open>pickup-reminders.service.ts\<close>: the
  log of the mails, the switches and the quota in front of the provider, the mails of an order, the welcome, and the sweep that
  reminds who has not picked up a paid order. Resend is not in the repository: its answer to a request is the parameter
  \<open>mw_post\<close>, which may depend on all it accepted before. Whether the database answers the counts and takes the log row are
  parameters too, since the code goes on without them. \<open>mb_out\<close> is what Resend accepted, which the program does not see. The
  wording of the templates is a parameter, but for the reminder, of which the numbers and texts it interpolates are kept.
\<close>

datatype email_status = MailSent | MailFailed | MailSkipped

record email_row =
  el_template :: string
  el_to :: string
  el_subject :: string
  el_order :: "id option"
  el_status :: email_status
  el_provider :: "string option"
  el_error :: "string option"
  el_at :: instant

datatype mail_body =
    Written string string
  | Reminder "string option" string int int "string option" "string option" "string option"

record outgoing =
  og_to :: string
  og_subject :: string
  og_body :: mail_body
  og_template :: string
  og_order :: "id option"
  og_files :: "(string \<times> string) list"
  og_note :: "string option"

record send_result =
  sr_status :: email_status
  sr_provider :: "string option"
  sr_error :: "string option"

record resend_request =
  rq_key :: string
  rq_from :: string
  rq_to :: "string list"
  rq_reply :: "string option"
  rq_subject :: string
  rq_body :: mail_body
  rq_files :: "(string \<times> string) list"

datatype resend_answer = Answered nat "json option" | Unreachable string

record mailbox =
  mb_log :: "email_row list"
  mb_out :: "outgoing list"

record mail_world =
  mw_now :: instant
  mw_resend :: resend_config
  mw_counts :: bool
  mw_saves :: bool
  mw_post :: "outgoing list \<Rightarrow> resend_request \<Rightarrow> resend_answer"

subsection \<open>The log and the quota\<close>

definition alreadySent :: "id \<Rightarrow> string \<Rightarrow> email_row list \<Rightarrow> bool" where
  "alreadySent orden template rows \<longleftrightarrow>
     0 < length (filter (\<lambda>r. el_order r = Some orden \<and> el_template r = template \<and> el_status r = MailSent) rows)"

definition alreadySentTo :: "string \<Rightarrow> string \<Rightarrow> email_row list \<Rightarrow> bool" where
  "alreadySentTo address template rows \<longleftrightarrow>
     0 < length (filter (\<lambda>r. el_to r = address \<and> el_template r = template \<and> el_status r = MailSent) rows)"

definition apagada :: "mail_world \<Rightarrow> string \<Rightarrow> bool" where
  "apagada w template \<longleftrightarrow> template \<in> set (re_off (mw_resend w))"

definition contarEnviadosDesde :: "instant \<Rightarrow> email_row list \<Rightarrow> int" where
  "contarEnviadosDesde desde rows = int (length (filter (\<lambda>r. el_status r = MailSent \<and> desde \<le> el_at r) rows))"

definition inicioDeMes :: "instant \<Rightarrow> instant" where
  "inicioDeMes t = (let (y, m, d) = civil_date (t div 86400000) in utc_days (y, m, 1) * 86400000)"

definition inicioDeHoy :: "instant \<Rightarrow> instant" where
  "inicioDeHoy t = utc_days (civil_date (t div 86400000)) * 86400000"

text \<open>\<open>None\<close> lets the mail pass, \<open>Some\<close> is the reason that stops it.\<close>

definition hayCupo :: "mail_world \<Rightarrow> string \<Rightarrow> email_row list \<Rightarrow> string option" where
  "hayCupo w template rows = (let c = mw_resend w in
     if template \<notin> set (re_low c) then None
     else if re_monthly c \<le> 0 \<and> re_daily c \<le> 0 then None
     else if \<not> mw_counts w then None
     else let mensual = re_monthly c - re_month_reserve c; diario = re_daily c - re_day_reserve c;
              delMes = contarEnviadosDesde (inicioDeMes (mw_now w)) rows; deHoy = contarEnviadosDesde (inicioDeHoy (mw_now w)) rows
          in if 0 < re_monthly c \<and> mensual \<le> delMes
             then Some (''reserva de cupo: '' @ int_str delMes @ '' enviados este mes, el margen para lo esencial empieza en '' @ int_str mensual)
             else if 0 < re_daily c \<and> diario \<le> deHoy
             then Some (''reserva de cupo: '' @ int_str deHoy @ '' enviados hoy, el margen para lo esencial empieza en '' @ int_str diario)
             else None)"

subsection \<open>One mail\<close>

definition record_mail :: "mail_world \<Rightarrow> outgoing \<Rightarrow> send_result \<Rightarrow> mailbox \<Rightarrow> send_result \<times> mailbox" where
  "record_mail w email res b = (res, if \<not> mw_saves w then b else b\<lparr>mb_log := mb_log b @ [
     \<lparr>el_template = og_template email, el_to = og_to email, el_subject = og_subject email, el_order = og_order email,
      el_status = sr_status res, el_provider = sr_provider res, el_error = or_old (sr_error res) (og_note email),
      el_at = mw_now w\<rparr>]\<rparr>)"

definition skipped :: "string \<Rightarrow> send_result" where
  "skipped reason = \<lparr>sr_status = MailSkipped, sr_provider = None, sr_error = Some reason\<rparr>"

definition failed :: "string \<Rightarrow> send_result" where
  "failed reason = \<lparr>sr_status = MailFailed, sr_provider = None, sr_error = Some reason\<rparr>"

definition payload_text :: "string \<Rightarrow> json option \<Rightarrow> string option" where
  "payload_text k payload = (case payload of None \<Rightarrow> None | Some p \<Rightarrow> comoTextoOAusente (json_field k p))"

text \<open>
  \<open>mb_out\<close> holds the mails whose acceptance the provider answered. A request without an answer (a time limit of ten seconds, a broken
  connection) counts as not sent, here and in the log, although the provider may have taken it.
\<close>

definition send :: "mail_world \<Rightarrow> outgoing \<Rightarrow> mailbox \<Rightarrow> send_result \<times> mailbox" where
  "send w email b = (let c = mw_resend w in
     if apagada w (og_template email) then record_mail w email (skipped ''plantilla apagada por MAIL_TEMPLATES_OFF'') b
     else case hayCupo w (og_template email) (mb_log b) of Some motivo \<Rightarrow> record_mail w email (skipped motivo) b
     | None \<Rightarrow>
       if \<not> re_configured c \<or> given_or (re_key c) [] = [] \<or> given_or (re_from c) [] = []
       then record_mail w email (skipped ''RESEND_API_KEY / RESEND_FROM sin configurar'') b
       else case mw_post w (mb_out b)
                   \<lparr>rq_key = given_or (re_key c) [], rq_from = given_or (re_from c) [], rq_to = [og_to email],
                    rq_reply = non_empty (re_reply c), rq_subject = og_subject email, rq_body = og_body email, rq_files = og_files email\<rparr>
            of Unreachable message \<Rightarrow> record_mail w email (failed message) b
             | Answered status payload \<Rightarrow>
                 if status < 200 \<or> 300 \<le> status
                 then record_mail w email (failed (given_or (payload_text ''message'' payload)
                        (''Resend respondi'' @ [CHR 0xF3] @ '' '' @ dec_str status))) b
                 else record_mail w email \<lparr>sr_status = MailSent, sr_provider = payload_text ''id'' payload, sr_error = None\<rparr>
                        (b\<lparr>mb_out := mb_out b @ [email]\<rparr>))"

subsection \<open>The mails of an order\<close>

text \<open>
  What the mails are written from: the tables, two settings, the networks of the site (\<open>None\<close> when they cannot be read) and the
  document of an order, which may fail.
\<close>

record mail_source =
  ms_orders :: "order list"
  ms_customers :: "customer list"
  ms_store :: "string option"
  ms_whatsapp :: string
  ms_social :: "(string \<times> string) list option"
  ms_pdf :: "id \<Rightarrow> string + string"

record order_mail =
  om_number :: string
  om_customer :: "string option"
  om_total :: cents
  om_pickup_address :: "string option"
  om_pickup_hours :: "string option"
  om_whatsapp :: string
  om_store :: "string option"
  om_order_url :: "string option"
  om_tracking_url :: "string option"
  om_recipient :: "(string \<times> string option) option"
  om_promised :: "instant option"
  om_social :: "(string \<times> string) list option"

text \<open>\<open>value?.trim() || null\<close> of a field of a snapshot; a value that is no text has no \<open>trim\<close>.\<close>

definition trimmed :: "string option \<Rightarrow> string option" where
  "trimmed x = non_empty (map_option js_trim x)"

definition snapshot_text :: "string \<Rightarrow> json option \<Rightarrow> error + string option" where
  "snapshot_text k snapshot = (case snapshot of None \<Rightarrow> Inr None | Some s \<Rightarrow>
     (case json_field k s of None \<Rightarrow> Inr None | Some JNull \<Rightarrow> Inr None | Some (JStr t) \<Rightarrow> Inr (trimmed (Some t))
      | Some _ \<Rightarrow> Inl (InternalError ''trim is not a function'')))"

definition enlaceDeSeguimiento :: "string option \<Rightarrow> string option \<Rightarrow> string option" where
  "enlaceDeSeguimiento store tracking = (case (trimmed store, non_empty tracking) of
     (Some url, Some t) \<Rightarrow> Some (no_end_slash url @ ''/seguimiento/'' @ t) | _ \<Rightarrow> None)"

definition client_of :: "mail_source \<Rightarrow> order \<Rightarrow> customer option" where
  "client_of s ord = List.find (\<lambda>c. cu_id c = o_client ord \<and> \<not> cu_deleted c) (ms_customers s)"

definition recipient :: "mail_source \<Rightarrow> order \<Rightarrow> error + string option" where
  "recipient s ord = (case trimmed (Option.bind (client_of s ord) cu_email) of
     Some e \<Rightarrow> Inr (Some e) | None \<Rightarrow> snapshot_text ''email'' (o_contact ord))"

definition quienRecibe :: "order \<Rightarrow> error + (string \<times> string option) option" where
  "quienRecibe ord = bindE (snapshot_text ''recipientName'' (o_contact ord)) (\<lambda>name. case name of
     None \<Rightarrow> Inr None
   | Some n \<Rightarrow> bindE (snapshot_text ''idCard'' (o_contact ord)) (\<lambda>card. Inr (Some (n, card))))"

definition joined :: "string \<Rightarrow> string list \<Rightarrow> string" where
  "joined sep parts = (case parts of [] \<Rightarrow> [] | p # ps \<Rightarrow> p @ concat (map (\<lambda>q. sep @ q) ps))"

definition personName :: "customer option \<Rightarrow> string option" where
  "personName c = (case c of None \<Rightarrow> None
   | Some p \<Rightarrow> trimmed (Some (joined '' '' (filter (\<lambda>x. x \<noteq> []) (map (\<lambda>x. given_or x []) [cu_first p, cu_last p])))))"

definition pickupAddress :: "order \<Rightarrow> error + string option" where
  "pickupAddress ord = bindE (snapshot_text ''locationName'' (o_pickup_snapshot ord)) (\<lambda>place.
     bindE (snapshot_text ''label'' (o_pickup_snapshot ord)) (\<lambda>label.
     bindE (snapshot_text ''address'' (o_pickup_snapshot ord)) (\<lambda>address.
     let parts = concat (map (\<lambda>x. case x of None \<Rightarrow> [] | Some t \<Rightarrow> [t]) [place, label, address])
     in Inr (if parts = [] then None else Some (joined [CHR '' '', CHR 0xB7, CHR '' ''] (js_set parts))))))"

definition number_of :: "order \<Rightarrow> string" where
  "number_of ord = given_or (o_number ord) (dec_str (o_id ord))"

definition toMailData :: "mail_source \<Rightarrow> order \<Rightarrow> error + order_mail" where
  "toMailData s ord =
     bindE (pickupAddress ord) (\<lambda>address.
     bindE (quienRecibe ord) (\<lambda>who.
     bindE (snapshot_text ''hours'' (o_pickup_snapshot ord)) (\<lambda>hours.
     Inr \<lparr>om_number = number_of ord, om_customer = personName (client_of s ord), om_total = o_total ord,
          om_pickup_address = address, om_pickup_hours = hours, om_whatsapp = ms_whatsapp s, om_store = ms_store s,
          om_order_url = map_option (\<lambda>t. t @ ''/pedidos/'' @ dec_str (o_id ord)) (non_empty (ms_store s)),
          om_tracking_url = enlaceDeSeguimiento (ms_store s) (o_tracking ord), om_recipient = who,
          om_promised = o_promised_at ord, om_social = ms_social s\<rparr>)))"

definition comprobante :: "mail_source \<Rightarrow> order \<Rightarrow> (string \<times> string) list \<times> string option" where
  "comprobante s ord = (case ms_pdf s (o_id ord) of
     Inr pdf \<Rightarrow> ([(''pedido-'' @ number_of ord @ ''.pdf'', pdf)], None)
   | Inl motivo \<Rightarrow> ([], Some (take 500 (''enviado sin comprobante: '' @ motivo))))"

definition dispatch_mail ::
  "mail_world \<Rightarrow> mail_source \<Rightarrow> id \<Rightarrow> string \<Rightarrow> (order_mail \<Rightarrow> string \<times> mail_body) \<Rightarrow> bool \<Rightarrow> mailbox \<Rightarrow>
   send_result option \<times> mailbox" where
  "dispatch_mail w s i template render conComprobante b =
     (case List.find (\<lambda>x. o_id x = i \<and> \<not> o_deleted x) (ms_orders s) of None \<Rightarrow> (None, b)
      | Some ord \<Rightarrow> (case recipient s ord of Inl _ \<Rightarrow> (None, b) | Inr None \<Rightarrow> (None, b)
      | Inr (Some address) \<Rightarrow> (case toMailData s ord of Inl _ \<Rightarrow> (None, b)
      | Inr mail_data \<Rightarrow>
          (let (subject, body) = render mail_data; (files, note) = (if conComprobante then comprobante s ord else ([], None));
               (res, b1) = send w \<lparr>og_to = address, og_subject = subject, og_body = body, og_template = template,
                                   og_order = Some (o_id ord), og_files = files, og_note = note\<rparr> b
           in (Some res, b1)))))"

text \<open>Which mail goes out is a parameter of these: the wording \<open>tpl\<close> by template key, filled with the data of the order.\<close>

type_synonym wording = "string \<Rightarrow> order_mail \<Rightarrow> string \<times> mail_body"

definition orderReceived :: "mail_world \<Rightarrow> mail_source \<Rightarrow> wording \<Rightarrow> id \<Rightarrow> bool \<Rightarrow> mailbox \<Rightarrow> send_result option \<times> mailbox" where
  "orderReceived w s tpl i back_office =
     (let clave = (if back_office then ''order_received_back_office'' else ''order_received'')
      in dispatch_mail w s i clave (tpl ''order_received'') False)"

definition paymentReceived :: "mail_world \<Rightarrow> mail_source \<Rightarrow> wording \<Rightarrow> id \<Rightarrow> mailbox \<Rightarrow> send_result option \<times> mailbox" where
  "paymentReceived w s tpl i = dispatch_mail w s i ''payment_received'' (tpl ''payment_received'') True"

definition shipped_mail :: "mail_world \<Rightarrow> mail_source \<Rightarrow> wording \<Rightarrow> id \<Rightarrow> mailbox \<Rightarrow> send_result option \<times> mailbox" where
  "shipped_mail w s tpl i = dispatch_mail w s i ''order_shipped'' (tpl ''order_shipped'') False"

definition delivered_mail :: "mail_world \<Rightarrow> mail_source \<Rightarrow> wording \<Rightarrow> id \<Rightarrow> mailbox \<Rightarrow> send_result option \<times> mailbox" where
  "delivered_mail w s tpl i = dispatch_mail w s i ''order_delivered'' (tpl ''order_delivered'') False"

definition cancelled_mail ::
  "mail_world \<Rightarrow> mail_source \<Rightarrow> wording \<Rightarrow> id \<Rightarrow> cancellation_reason option \<Rightarrow> mailbox \<Rightarrow> send_result option \<times> mailbox" where
  "cancelled_mail w s tpl i motivo =
     (let clave = (case motivo of None \<Rightarrow> ''order_cancelled'' | Some m \<Rightarrow> ''order_cancelled_'' @ cancellation_str m)
      in dispatch_mail w s i clave (tpl clave) False)"

definition refundRequested :: "mail_world \<Rightarrow> mail_source \<Rightarrow> wording \<Rightarrow> id \<Rightarrow> mailbox \<Rightarrow> send_result option \<times> mailbox" where
  "refundRequested w s tpl i = dispatch_mail w s i ''refund_requested'' (tpl ''refund_requested'') False"

definition refundCompleted :: "mail_world \<Rightarrow> mail_source \<Rightarrow> wording \<Rightarrow> id \<Rightarrow> mailbox \<Rightarrow> send_result option \<times> mailbox" where
  "refundCompleted w s tpl i = dispatch_mail w s i ''refund_completed'' (tpl ''refund_completed'') False"

text \<open>\<open>avisarDelCambio\<close> of \<open>orders.service.ts\<close>: three of the six states are told.\<close>

definition avisarDelCambio ::
  "mail_world \<Rightarrow> mail_source \<Rightarrow> wording \<Rightarrow> id \<Rightarrow> order_status \<Rightarrow> cancellation_reason option \<Rightarrow> mailbox \<Rightarrow> mailbox" where
  "avisarDelCambio w s tpl i status motivo b =
     (if status = SHIPPED then snd (shipped_mail w s tpl i b)
      else if status = DELIVERED then snd (delivered_mail w s tpl i b)
      else if status = CANCELLED then snd (cancelled_mail w s tpl i motivo b) else b)"

subsection \<open>The welcome\<close>

definition TIENDA_POR_DEFECTO :: string where
  "TIENDA_POR_DEFECTO = ''https://www.maxihabana.com''"

definition welcome_mail ::
  "mail_world \<Rightarrow> string option \<Rightarrow> string \<Rightarrow> (string option \<Rightarrow> string \<Rightarrow> string \<Rightarrow> string \<times> mail_body) \<Rightarrow> customer \<Rightarrow> mailbox \<Rightarrow>
   send_result option \<times> mailbox" where
  "welcome_mail w store whatsapp welcome c b = (case trimmed (cu_email c) of None \<Rightarrow> (None, b)
   | Some address \<Rightarrow>
       if alreadySentTo address ''welcome'' (mb_log b) then (None, b)
       else let (subject, body) = welcome (personName (Some c)) (given_or store TIENDA_POR_DEFECTO) whatsapp;
                (res, b1) = send w \<lparr>og_to = address, og_subject = subject, og_body = body, og_template = ''welcome'',
                                    og_order = None, og_files = [], og_note = None\<rparr> b
            in (Some res, b1))"

subsection \<open>Reminders of orders that wait at the counter\<close>

definition PICKUP_CUSTODY_DAYS :: int where
  "PICKUP_CUSTODY_DAYS = 30"

definition PICKUP_REMINDER_DAYS :: "int list" where
  "PICKUP_REMINDER_DAYS = [15, 25]"

definition reminder_key :: "int \<Rightarrow> string" where
  "reminder_key days = ''pickup_reminder_'' @ int_str days"

text \<open>
  The reminder says the days since the payment and the days that are left, both from the milestone; a pickup address comes with the
  hours of the counter when there are any.
\<close>

definition pickup_reminder_template :: "int \<Rightarrow> order_mail \<Rightarrow> string \<times> mail_body" where
  "pickup_reminder_template days m =
     (''Recordatorio: tu pedido '' @ om_number m @ '' sigue esperando'',
      Reminder (om_customer m) (om_number m) days (PICKUP_CUSTODY_DAYS - days) (om_pickup_address m)
        (if om_pickup_address m = None then None else om_pickup_hours m) (om_tracking_url m))"

definition pickupReminder :: "mail_world \<Rightarrow> mail_source \<Rightarrow> id \<Rightarrow> int \<Rightarrow> mailbox \<Rightarrow> send_result option \<times> mailbox" where
  "pickupReminder w s i days = dispatch_mail w s i (reminder_key days) (pickup_reminder_template days) False"

definition one_day :: int where
  "one_day = 86400000"

text \<open>The conditions of the query, the lookup in the log included.\<close>

definition due_reminder :: "instant \<Rightarrow> email_row list \<Rightarrow> int \<Rightarrow> order \<Rightarrow> bool" where
  "due_reminder now rows milestone ord \<longleftrightarrow>
     \<not> o_deleted ord \<and> o_payment ord = PayPaid \<and> o_fulfillment ord = PICKUP \<and> o_status ord \<notin> {DELIVERED, CANCELLED} \<and>
     o_delivered_at ord = None \<and>
     (case o_paid_at ord of None \<Rightarrow> False
      | Some paid \<Rightarrow> paid \<le> now - milestone * one_day \<and> now - PICKUP_CUSTODY_DAYS * one_day < paid) \<and>
     \<not> alreadySent (o_id ord) (reminder_key milestone) rows"

record sweep_result =
  sw_sent :: "(string \<times> nat) list"
  sw_skipped :: nat

fun remind_all :: "mail_world \<Rightarrow> mail_source \<Rightarrow> int \<Rightarrow> order list \<Rightarrow> nat \<times> nat \<Rightarrow> mailbox \<Rightarrow> (nat \<times> nat) \<times> mailbox" where
  "remind_all w s days [] counts b = (counts, b)"
| "remind_all w s days (ord # rest) (n, missed) b =
     (let (outcome, b1) = pickupReminder w s (o_id ord) days b
      in remind_all w s days rest
           (if map_option sr_status outcome = Some MailSent then (n + 1, missed) else (n, missed + 1)) b1)"

fun remind_milestones :: "mail_world \<Rightarrow> mail_source \<Rightarrow> int list \<Rightarrow> sweep_result \<Rightarrow> mailbox \<Rightarrow> sweep_result \<times> mailbox" where
  "remind_milestones w s [] res b = (res, b)"
| "remind_milestones w s (days # rest) res b =
     (let candidates = filter (due_reminder (mw_now w) (mb_log b) days) (ms_orders s);
          ((n, missed), b1) = remind_all w s days candidates (0, sw_skipped res) b
      in remind_milestones w s rest \<lparr>sw_sent = jm_set (reminder_key days) n (sw_sent res), sw_skipped = missed\<rparr> b1)"

definition sweep_reminders :: "mail_world \<Rightarrow> mail_source \<Rightarrow> mailbox \<Rightarrow> sweep_result \<times> mailbox" where
  "sweep_reminders w s b = (let start = \<lparr>sw_sent = [], sw_skipped = 0\<rparr> in
     if \<not> re_configured (mw_resend w) then (start, b) else remind_milestones w s PICKUP_REMINDER_DAYS start b)"

text \<open>The secret of the route is checked before the sweep.\<close>

definition run_reminders ::
  "payments_config \<Rightarrow> string option \<Rightarrow> mail_world \<Rightarrow> mail_source \<Rightarrow> mailbox \<Rightarrow> error + sweep_result \<times> mailbox" where
  "run_reminders cfg provided w s b = bindE (assertSecret cfg provided) (\<lambda>_. Inr (sweep_reminders w s b))"

text \<open>
  Orders that wait at the counter, oldest payment first. Unlike the sweep it does not look at the state of the order, so an order
  that was cancelled and keeps its payment is listed.
\<close>

definition pendingPickups :: "mail_source \<Rightarrow> order list" where
  "pendingPickups s = js_sort (\<lambda>x y. given_or (o_paid_at x) 0 - given_or (o_paid_at y) 0)
     (filter (\<lambda>ord. \<not> o_deleted ord \<and> o_payment ord = PayPaid \<and> o_fulfillment ord = PICKUP \<and> o_delivered_at ord = None \<and>
                o_paid_at ord \<noteq> None) (ms_orders s))"

subsection \<open>Everything that sends a mail\<close>

inductive mail_step :: "mail_world \<Rightarrow> mailbox \<Rightarrow> mailbox \<Rightarrow> bool" where
  received: "mail_step w b (snd (orderReceived w s tpl i back_office b))"
| paid: "mail_step w b (snd (paymentReceived w s tpl i b))"
| moved: "mail_step w b (avisarDelCambio w s tpl i status motivo b)"
| refund_asked: "mail_step w b (snd (refundRequested w s tpl i b))"
| refund_done: "mail_step w b (snd (refundCompleted w s tpl i b))"
| welcomed: "mail_step w b (snd (welcome_mail w store whatsapp welcome c b))"
| swept: "distinct (map o_id (ms_orders s)) \<Longrightarrow> mail_step w b (snd (sweep_reminders w s b))"

text \<open>Any number of steps, each in a world of its own whose database takes the rows of the log.\<close>

inductive mails_since :: "mailbox \<Rightarrow> mailbox \<Rightarrow> bool" where
  mails_none: "mails_since b b"
| mails_more: "mails_since a b \<Longrightarrow> mw_saves w \<Longrightarrow> mail_step w b c \<Longrightarrow> mails_since a c"

definition empty_mailbox :: mailbox where
  "empty_mailbox = \<lparr>mb_log = [], mb_out = []\<rparr>"

end
