(* ===== verification/Listings.thy ===== *)
theory Listings
  imports Mail
begin

section \<open>Listings and reports of orders\<close>

text \<open>
  The reading side of \<open>src/orders/orders.service.ts\<close>: the filters of the panel's listing, which the report shares, the pages, the
  columns each row gets from other tables, the detail of an order with where its stock sits, and the report with its totals, its
  summary and its mail (\<open>orders.controller.ts\<close>, \<open>report-recipients.service.ts\<close>, \<open>report-mailer.service.ts\<close>). The queries are written
  as the rows they select; the process and the database count days in UTC (\<open>main.ts\<close>). The PDF is a parameter.
\<close>

subsection \<open>Pages\<close>

record 'a page_of =
  pg_data :: "'a list"
  pg_total :: nat
  pg_page :: nat
  pg_limit :: nat
  pg_pages :: nat

definition getPaginationParams :: "nat option \<Rightarrow> nat option \<Rightarrow> nat \<times> nat \<times> nat" where
  "getPaginationParams page limit = (let p = given_or page 1; l = given_or limit 20 in (p, l, (p - 1) * l))"

definition buildPaginatedResponse :: "'a list \<Rightarrow> nat \<Rightarrow> nat \<Rightarrow> nat \<Rightarrow> 'a page_of" where
  "buildPaginatedResponse rows n page limit =
     \<lparr>pg_data = rows, pg_total = n, pg_page = page, pg_limit = limit, pg_pages = (n + limit - 1) div limit\<rparr>"

text \<open>\<open>LIMIT\<close> and \<open>OFFSET\<close>.\<close>

definition slice :: "nat \<Rightarrow> nat \<Rightarrow> 'a list \<Rightarrow> 'a list" where
  "slice skip limit xs = List.take limit (List.drop skip xs)"

subsection \<open>The filters\<close>

datatype order_sort = ByNumber | ByStatus | ByPayment | ByTotal | ByOrderCreated

record order_query =
  oq_ids :: "id list option"
  oq_client :: "id option"
  oq_q :: "string option"
  oq_status :: "order_status option"
  oq_payment :: "payment_status option"
  oq_method :: "string option"
  oq_from :: "instant option"
  oq_to :: "instant option"
  oq_fulfillment :: "fulfillment_type option"
  oq_pickup :: "id option"
  oq_min :: "rat option"
  oq_max :: "rat option"
  oq_transfer :: bool
  oq_sort :: "order_sort option"
  oq_ascending :: bool
  oq_page :: "nat option"
  oq_limit :: "nat option"

definition SIN_METODO_DE_PAGO :: string where
  "SIN_METODO_DE_PAGO = ''none''"

text \<open>\<open>hasta.setHours(23, 59, 59, 999)\<close> in a process whose zone is UTC.\<close>

definition end_of_day :: "instant \<Rightarrow> instant" where
  "end_of_day t = t div one_day * one_day + one_day - 1"

definition row_client :: "customer list \<Rightarrow> order \<Rightarrow> customer option" where
  "row_client customers ord = List.find (\<lambda>c. cu_id c = o_client ord \<and> \<not> cu_deleted c) customers"

text \<open>A column that is null matches nothing; \<open>concat_ws\<close> leaves out the nulls.\<close>

definition searched_columns :: "customer list \<Rightarrow> order \<Rightarrow> string option list" where
  "searched_columns customers ord =
     (let c = row_client customers ord; snap = (\<lambda>k. comoTextoOAusente (Option.bind (o_contact ord) (json_field k)))
      in [o_number ord, Option.bind c cu_email, Option.bind c cu_first, Option.bind c cu_last,
          Some (joined '' '' (map the (filter (\<lambda>x. x \<noteq> None) [Option.bind c cu_first, Option.bind c cu_last]))),
          Option.bind c cu_phone, snap ''recipientName'', snap ''idCard'', snap ''contactPhone''])"

definition newest_charges :: "db \<Rightarrow> id \<Rightarrow> charge list" where
  "newest_charges d oid = js_sort newest_first (filter (\<lambda>c. ch_order c = oid) (d_charges d))"

definition matches_method :: "db \<Rightarrow> string \<Rightarrow> order \<Rightarrow> bool" where
  "matches_method d code ord =
     (if code = SIN_METODO_DE_PAGO then \<not> list_ex (\<lambda>c. ch_order c = o_id ord) (d_charges d)
      else (case newest_charges d (o_id ord) of [] \<Rightarrow> False | c # _ \<Rightarrow> ch_provider c = code))"

text \<open>\<open>r.location_id <> order.pickup_location_id\<close> is not true of an order without a counter.\<close>

definition held_elsewhere :: "stock \<Rightarrow> order \<Rightarrow> bool" where
  "held_elsewhere st ord \<longleftrightarrow> o_fulfillment ord = PICKUP \<and>
     list_ex (\<lambda>r. r_order r = o_id ord \<and> r_status r = Reserved \<and>
        (case o_pickup_location ord of None \<Rightarrow> False | Some l \<Rightarrow> r_location r \<noteq> l)) (s_resv st)"

definition aplicarFiltros :: "(string \<Rightarrow> string) \<Rightarrow> customer list \<Rightarrow> db \<Rightarrow> order_query \<Rightarrow> order \<Rightarrow> bool" where
  "aplicarFiltros unaccent customers d q ord \<longleftrightarrow>
     when_given (oq_ids q) (\<lambda>ids. o_id ord \<in> set ids) \<and>
     when_given (oq_client q) (\<lambda>c. o_client ord = c) \<and>
     when_given (non_empty (oq_q q)) (\<lambda>t. list_ex (\<lambda>col. case col of None \<Rightarrow> False
        | Some text \<Rightarrow> sinTildes unaccent text (comoBusquedaParcial t)) (searched_columns customers ord)) \<and>
     when_given (oq_status q) (\<lambda>s. o_status ord = s) \<and>
     when_given (oq_payment q) (\<lambda>s. o_payment ord = s) \<and>
     when_given (non_empty (oq_method q)) (\<lambda>code. matches_method d code ord) \<and>
     when_given (oq_from q) (\<lambda>t. t \<le> o_created_at ord) \<and>
     when_given (oq_to q) (\<lambda>t. o_created_at ord \<le> end_of_day t) \<and>
     when_given (oq_fulfillment q) (\<lambda>f. o_fulfillment ord = f) \<and>
     when_given (oq_pickup q) (\<lambda>l. o_pickup_location ord = Some l) \<and>
     when_given (oq_min q) (\<lambda>m. m \<le> of_int (o_total ord) / 100) \<and>
     when_given (oq_max q) (\<lambda>m. of_int (o_total ord) / 100 \<le> m) \<and>
     (oq_transfer q \<longrightarrow> held_elsewhere (d_stock d) ord)"

definition filtered_orders :: "(string \<Rightarrow> string) \<Rightarrow> customer list \<Rightarrow> db \<Rightarrow> order_query \<Rightarrow> order list" where
  "filtered_orders unaccent customers d q =
     filter (\<lambda>ord. \<not> o_deleted ord \<and> aplicarFiltros unaccent customers d q ord) (d_orders d)"

subsection \<open>Rows\<close>

text \<open>An order as the panel gets it, with its method of payment (code and label) and the transfer flag.\<close>

record order_row =
  or_order :: order
  or_tracking_url :: "string option"
  or_method :: "(string \<times> string) option"
  or_transfer :: bool

definition labelsByCode :: "payment_method list \<Rightarrow> string \<Rightarrow> string option" where
  "labelsByCode ms code = map_option mt_label (List.find (\<lambda>m. mt_code m = code) (rev (live_methods ms)))"

definition latestMethodsFor :: "db \<Rightarrow> id list \<Rightarrow> (id \<times> (string \<times> string)) list" where
  "latestMethodsFor d oids = map (\<lambda>(oid, c). (oid, ch_provider c, given_or (labelsByCode (d_methods d) (ch_provider c)) (ch_provider c)))
     (latestChargesFor d oids)"

definition needsTransferIds :: "db \<Rightarrow> id list \<Rightarrow> id list" where
  "needsTransferIds d oids = js_set (map r_order (filter (\<lambda>r. r_order r \<in> set oids \<and> r_status r = Reserved \<and>
     list_ex (\<lambda>ord. o_id ord = r_order r \<and> o_fulfillment ord = PICKUP \<and>
        (case o_pickup_location ord of None \<Rightarrow> False | Some l \<Rightarrow> r_location r \<noteq> l)) (d_orders d)) (s_resv (d_stock d))))"

definition withPaymentMethods :: "string option \<Rightarrow> db \<Rightarrow> order list \<Rightarrow> order_row list" where
  "withPaymentMethods store d ords =
     (let ids = map o_id ords; methods = latestMethodsFor d ids; transfer = needsTransferIds d ids
      in map (\<lambda>ord. \<lparr>or_order = ord, or_tracking_url = enlaceDeSeguimiento store (o_tracking ord),
                     or_method = jm_get (o_id ord) methods, or_transfer = (o_id ord \<in> set transfer)\<rparr>) ords)"

subsection \<open>The listings\<close>

fun status_rank :: "order_status \<Rightarrow> int" where
  "status_rank PENDING = 0" | "status_rank CONFIRMED = 1" | "status_rank PROCESSING = 2"
| "status_rank SHIPPED = 3" | "status_rank DELIVERED = 4" | "status_rank CANCELLED = 5"

fun payment_rank :: "payment_status \<Rightarrow> int" where
  "payment_rank PayPending = 0" | "payment_rank PayPaid = 1" | "payment_rank PayFailed = 2" | "payment_rank PayRefunded = 3"

text \<open>A missing number comes after every number.\<close>

definition cmp_number :: "collation \<Rightarrow> string option \<Rightarrow> string option \<Rightarrow> int" where
  "cmp_number collate a b = (case (a, b) of
     (Some x, Some y) \<Rightarrow> collate x y | (None, Some _) \<Rightarrow> 1 | (Some _, None) \<Rightarrow> - 1 | (None, None) \<Rightarrow> 0)"

definition cmp_column :: "collation \<Rightarrow> order_sort \<Rightarrow> order \<Rightarrow> order \<Rightarrow> int" where
  "cmp_column collate s a b = (case s of
     ByNumber \<Rightarrow> cmp_number collate (o_number a) (o_number b)
   | ByStatus \<Rightarrow> status_rank (o_status a) - status_rank (o_status b)
   | ByPayment \<Rightarrow> payment_rank (o_payment a) - payment_rank (o_payment b)
   | ByTotal \<Rightarrow> o_total a - o_total b
   | ByOrderCreated \<Rightarrow> o_created_at a - o_created_at b)"

definition cmp_order :: "collation \<Rightarrow> order_query \<Rightarrow> order \<Rightarrow> order \<Rightarrow> int" where
  "cmp_order collate q a b =
     (let s = given_or (oq_sort q) ByOrderCreated;
          c = (if oq_ascending q then cmp_column collate s a b else cmp_column collate s b a)
      in if c = 0 then int (o_id b) - int (o_id a) else c)"

definition findAllAdmin ::
  "collation \<Rightarrow> (string \<Rightarrow> string) \<Rightarrow> string option \<Rightarrow> customer list \<Rightarrow> db \<Rightarrow> order_query \<Rightarrow> order_row page_of" where
  "findAllAdmin collate unaccent store customers d q =
     (let (page, limit, skip) = getPaginationParams (oq_page q) (oq_limit q);
          found = js_sort (cmp_order collate q) (filtered_orders unaccent customers d q)
      in buildPaginatedResponse (withPaymentMethods store d (slice skip limit found)) (length found) page limit)"

definition findForClient :: "string option \<Rightarrow> db \<Rightarrow> id \<Rightarrow> nat option \<Rightarrow> nat option \<Rightarrow> order_row page_of" where
  "findForClient store d cid p l =
     (let (page, limit, skip) = getPaginationParams p l;
          found = js_sort (\<lambda>a b. o_created_at b - o_created_at a) (filter (\<lambda>x. o_client x = cid \<and> \<not> o_deleted x) (d_orders d))
      in buildPaginatedResponse (withPaymentMethods store d (slice skip limit found)) (length found) page limit)"

subsection \<open>The detail of an order\<close>

record storage_row =
  sr_location :: id
  sr_name :: string
  sr_product :: id
  sr_held :: reservation_status
  sr_quantity :: int

text \<open>
  The groups of the query: what the order holds or shipped, per storage, product and status, ordered by the name of the storage (the
  collation of the database is the parameter). A reservation at a storage without a row is left out by the join.
\<close>

definition storage_rows :: "collation \<Rightarrow> db \<Rightarrow> id \<Rightarrow> storage_row list" where
  "storage_rows collate d oid =
     (let live = filter (\<lambda>r. r_order r = oid \<and> r_status r \<in> {Reserved, Confirmed} \<and>
                   r_location r \<in> loc_id ` set (l_locations (d_storage d))) (s_resv (d_stock d));
          groups = fold (\<lambda>r m. jm_add (r_location r, r_product r, r_status r) (r_quantity r) m) live []
      in js_sort (\<lambda>a b. collate (sr_name a) (sr_name b))
           (map (\<lambda>((l, p, s), n). \<lparr>sr_location = l,
              sr_name = (case List.find (\<lambda>x. loc_id x = l) (l_locations (d_storage d)) of Some x \<Rightarrow> loc_name x | None \<Rightarrow> []),
              sr_product = p, sr_held = s, sr_quantity = n\<rparr>) groups))"

record pending_transfer =
  pt_location :: id
  pt_name :: string
  pt_items :: "(id \<times> string \<times> int) list"

definition add_transfer :: "(id \<Rightarrow> string) \<Rightarrow> storage_row \<Rightarrow> (id \<times> pending_transfer) list \<Rightarrow> (id \<times> pending_transfer) list" where
  "add_transfer name_of row m =
     (let g = given_or (jm_get (sr_location row) m) \<lparr>pt_location = sr_location row, pt_name = sr_name row, pt_items = []\<rparr>
      in jm_set (sr_location row) (g\<lparr>pt_items := pt_items g @ [(sr_product row, name_of (sr_product row), sr_quantity row)]\<rparr>) m)"

definition pendingTransfers :: "collation \<Rightarrow> db \<Rightarrow> order \<Rightarrow> pending_transfer list" where
  "pendingTransfers collate d ord =
     (let names = map (\<lambda>it. (it_product it, it_name it)) (rev (filter (\<lambda>it. it_order it = o_id ord) (d_items d)));
          name_of = (\<lambda>p. given_or (jm_get p names) (dec_str p))
      in map snd (fold (add_transfer name_of)
           (filter (\<lambda>row. sr_held row = Reserved \<and> Some (sr_location row) \<noteq> o_pickup_location ord)
              (storage_rows collate d (o_id ord))) []))"

record order_detail =
  od_order :: order
  od_items :: "order_item list"
  od_charge :: "charge option"
  od_method :: "(string \<times> string) option"
  od_storages :: "(id \<times> string) list option"
  od_pending :: "pending_transfer list option"
  od_transfer :: "bool option"

definition plain_detail :: "db \<Rightarrow> order \<Rightarrow> order_detail" where
  "plain_detail d ord = \<lparr>od_order = ord, od_items = filter (\<lambda>it. it_order it = o_id ord) (d_items d),
     od_charge = latestChargeFor d (o_id ord), od_method = jm_get (o_id ord) (latestMethodsFor d [o_id ord]),
     od_storages = None, od_pending = None, od_transfer = None\<rparr>"

definition attachReservationStorages :: "collation \<Rightarrow> db \<Rightarrow> order_detail \<Rightarrow> order_detail" where
  "attachReservationStorages collate d dto =
     (let ord = od_order dto in
      if o_fulfillment ord \<noteq> PICKUP then dto
      else let pending = pendingTransfers collate d ord
           in dto\<lparr>od_storages := Some (fold (\<lambda>row m. jm_set (sr_location row) (sr_name row) m) (storage_rows collate d (o_id ord)) []),
                  od_pending := Some pending, od_transfer := Some (pending \<noteq> [])\<rparr>)"

definition findOneAdmin :: "collation \<Rightarrow> db \<Rightarrow> id \<Rightarrow> error + order_detail" where
  "findOneAdmin collate d i = (case List.find (\<lambda>x. o_id x = i) (d_orders d) of None \<Rightarrow> Inl (NotFound ''Order not found'')
   | Some ord \<Rightarrow> bindE (guardE (\<not> o_deleted ord) (NotFound ''Order not found''))
       (\<lambda>_. Inr (attachReservationStorages collate d (plain_detail d ord))))"

definition findOneForClient :: "db \<Rightarrow> id \<Rightarrow> id \<Rightarrow> error + order_detail" where
  "findOneForClient d cid i = (case List.find (\<lambda>x. o_id x = i \<and> o_client x = cid) (d_orders d) of
     None \<Rightarrow> Inl (NotFound ''Order not found'')
   | Some ord \<Rightarrow> bindE (guardE (\<not> o_deleted ord) (NotFound ''Order not found'')) (\<lambda>_. Inr (plain_detail d ord)))"

subsection \<open>The history of an order\<close>

definition full_name :: "string option \<Rightarrow> string option \<Rightarrow> string option" where
  "full_name f l = trimmed (Some (joined '' '' (filter (\<lambda>x. x \<noteq> []) (map (\<lambda>x. given_or x []) [f, l]))))"

text \<open>Who acted, deleted accounts included: the full name, the address or else the identifier; nobody for the system.\<close>

definition actor_name :: "account list \<Rightarrow> customer list \<Rightarrow> event_actor \<Rightarrow> string option" where
  "actor_name users customers a = (case a of
     ActorAdmin i \<Rightarrow> map_option (\<lambda>u. given_or (or_old (full_name (us_first u) (us_last u)) (us_email u)) (dec_str i))
                      (List.find (\<lambda>u. us_id u = i) users)
   | ActorClient i \<Rightarrow> map_option (\<lambda>c. given_or (or_old (full_name (cu_first c) (cu_last c)) (cu_email c)) (dec_str i))
                      (List.find (\<lambda>c. cu_id c = i) customers)
   | ActorSystem \<Rightarrow> None)"

definition history_of :: "account list \<Rightarrow> customer list \<Rightarrow> db \<Rightarrow> id \<Rightarrow> (order_event \<times> string option) list" where
  "history_of users customers d oid = map (\<lambda>e. (e, actor_name users customers (ev_actor e)))
     (listForOrder d oid)"

definition order_history :: "account list \<Rightarrow> customer list \<Rightarrow> db \<Rightarrow> id \<Rightarrow> error + (order_event \<times> string option) list" where
  "order_history users customers d i =
     bindE (from_option (NotFound ''Order not found'') (List.find (\<lambda>x. o_id x = i \<and> \<not> o_deleted x) (d_orders d)))
       (\<lambda>_. Inr (history_of users customers d i))"

subsection \<open>The report\<close>

record total_row =
  tr_status :: order_status
  tr_count :: nat
  tr_amount :: cents

record report_rows =
  rp_orders :: "order_row list"
  rp_total :: nat
  rp_cut :: bool

definition newest_order_first :: "order \<Rightarrow> order \<Rightarrow> int" where
  "newest_order_first a b = (if o_created_at a \<noteq> o_created_at b then o_created_at b - o_created_at a
     else int (o_id b) - int (o_id a))"

definition findAllForReport ::
  "(string \<Rightarrow> string) \<Rightarrow> string option \<Rightarrow> customer list \<Rightarrow> db \<Rightarrow> order_query \<Rightarrow> nat \<Rightarrow> report_rows" where
  "findAllForReport unaccent store customers d q tope =
     (let found = js_sort newest_order_first (filtered_orders unaccent customers d q)
      in \<lparr>rp_orders = withPaymentMethods store d (List.take tope found), rp_total = length found, rp_cut = (tope < length found)\<rparr>)"

definition totalesForReport :: "(string \<Rightarrow> string) \<Rightarrow> customer list \<Rightarrow> db \<Rightarrow> order_query \<Rightarrow> total_row list" where
  "totalesForReport unaccent customers d q =
     (let found = filtered_orders unaccent customers d q;
          of_status = (\<lambda>s. filter (\<lambda>x. o_status x = s) found)
      in map (\<lambda>s. \<lparr>tr_status = s, tr_count = length (of_status s), tr_amount = sum_list (map o_total (of_status s))\<rparr>)
           (filter (\<lambda>s. of_status s \<noteq> []) all_statuses))"

text \<open>\<open>date_trunc\<close> of a day, a week that starts on Monday (1970-01-05 was one) or a month, in UTC.\<close>

definition PERIODOS :: "string list" where
  "PERIODOS = [''day'', ''week'', ''month'']"

definition date_trunc :: "string \<Rightarrow> instant \<Rightarrow> instant" where
  "date_trunc periodo t = (let day = t div one_day in
     if periodo = ''day'' then day * one_day
     else if periodo = ''week'' then (day - (day - 4) mod 7) * one_day
     else (let (y, m, d) = civil_date day in utc_days (y, m, 1) * one_day))"

definition resumenPorPeriodo ::
  "(string \<Rightarrow> string) \<Rightarrow> customer list \<Rightarrow> db \<Rightarrow> order_query \<Rightarrow> string \<Rightarrow> error + (string \<times> nat \<times> cents) list" where
  "resumenPorPeriodo unaccent customers d q periodo =
     bindE (guardE (periodo \<in> set PERIODOS) (BadRequest ''Periodo no valido'')) (\<lambda>_.
     let found = filtered_orders unaccent customers d q; start = (\<lambda>x. date_trunc periodo (o_created_at x));
         of_period = (\<lambda>t. filter (\<lambda>x. start x = t) found)
     in Inr (map (\<lambda>t. (iso_string t, length (of_period t), sum_list (map o_total (of_period t))))
          (js_sort (\<lambda>a b. a - b) (js_set (map start found)))))"

definition TOPE_DEL_REPORTE :: nat where
  "TOPE_DEL_REPORTE = 5000"

type_synonym report = "report_rows \<times> total_row list \<times> (string \<times> nat \<times> cents) list"

definition report_of ::
  "(string \<Rightarrow> string) \<Rightarrow> string option \<Rightarrow> customer list \<Rightarrow> db \<Rightarrow> order_query \<Rightarrow> string option \<Rightarrow> error + report" where
  "report_of unaccent store customers d q groupBy =
     bindE (case groupBy of None \<Rightarrow> Inr [] | Some p \<Rightarrow> resumenPorPeriodo unaccent customers d q p) (\<lambda>filas.
     Inr (findAllForReport unaccent store customers d q TOPE_DEL_REPORTE, totalesForReport unaccent customers d q, filas))"

subsection \<open>Who gets the report\<close>

datatype left_out = Deleted | Disabled | NoAddress

record addressee =
  ad_email :: string
  ad_name :: "string option"
  ad_reason :: string

record addressees =
  ae_detail :: "addressee list"
  ae_empty_roles :: "string list"
  ae_left_out :: "(string option \<times> string \<times> left_out) list"

definition account_name :: "account \<Rightarrow> string option" where
  "account_name u = non_empty (Some (joined '' '' (filter (\<lambda>x. x \<noteq> []) (map (\<lambda>x. given_or x []) [us_first u, us_last u]))))"

definition cleaned :: "string \<Rightarrow> string" where
  "cleaned e = low (js_trim e)"

text \<open>The members of a role that have a row, deleted ones too, and the name of the role, empty when it was deleted.\<close>

definition role_members :: "people \<Rightarrow> id \<Rightarrow> string \<times> account list" where
  "role_members w rid =
     (let given = filter (\<lambda>x. ur_role x = rid) (a_user_roles (pe_access w));
          name = (if given = [] then [] else case List.find (\<lambda>r. mr_id r = rid \<and> \<not> mr_deleted r) (a_roles (pe_access w)) of
                    None \<Rightarrow> [] | Some r \<Rightarrow> mr_name r)
      in (name, concat (map (\<lambda>x. case List.find (\<lambda>u. us_id u = ur_user x) (pe_users w) of None \<Rightarrow> [] | Some u \<Rightarrow> [u]) given)))"

definition why_left_out :: "account \<Rightarrow> left_out option" where
  "why_left_out u = (if us_deleted u then Some Deleted else if \<not> us_active u then Some Disabled
     else if given_or (us_email u) [] = [] then Some NoAddress else None)"

definition add_role :: "people \<Rightarrow> id \<Rightarrow> addressees \<Rightarrow> addressees" where
  "add_role w rid acc =
     (let (name, members) = role_members w rid; shown = (if name = [] then dec_str rid else name);
          out = concat (map (\<lambda>u. case why_left_out u of None \<Rightarrow> [] | Some reason \<Rightarrow>
                  [(or_old (account_name u) (non_empty (us_email u)), shown, reason)]) members);
          good = filter (\<lambda>u. why_left_out u = None) members; acc1 = acc\<lparr>ae_left_out := ae_left_out acc @ out\<rparr>
      in if good = [] then acc1\<lparr>ae_empty_roles := ae_empty_roles acc1 @ [shown]\<rparr>
         else acc1\<lparr>ae_detail := ae_detail acc1 @ map (\<lambda>u. \<lparr>ad_email = cleaned (given_or (us_email u) []), ad_name = account_name u,
                ad_reason = (if name = [] then ''rol'' else name)\<rparr>) good\<rparr>)"

text \<open>The first with each address stays.\<close>

fun first_of_each :: "string list \<Rightarrow> addressee list \<Rightarrow> addressee list" where
  "first_of_each seen [] = []"
| "first_of_each seen (a # as) = (if ad_email a \<in> set seen then first_of_each seen as else a # first_of_each (ad_email a # seen) as)"

definition resolver :: "people \<Rightarrow> string list \<Rightarrow> id list \<Rightarrow> addressees" where
  "resolver w emails roleIds =
     (let typed = map (\<lambda>e. \<lparr>ad_email = e, ad_name = None, ad_reason = ''escrito a mano''\<rparr>) (filter (\<lambda>e. e \<noteq> []) (map cleaned emails));
          acc = fold (add_role w) (js_set roleIds) \<lparr>ae_detail = typed, ae_empty_roles = [], ae_left_out = []\<rparr>
      in acc\<lparr>ae_detail := first_of_each [] (ae_detail acc)\<rparr>)"

subsection \<open>Sending the report\<close>

record sent_report =
  sn_sent :: "string list"
  sn_failed :: "(string \<times> string) list"

definition status_text :: "email_status \<Rightarrow> string" where
  "status_text s = (case s of MailSent \<Rightarrow> ''sent'' | MailFailed \<Rightarrow> ''failed'' | MailSkipped \<Rightarrow> ''skipped'')"

fun enviar :: "mail_world \<Rightarrow> string \<times> mail_body \<Rightarrow> string \<times> string \<Rightarrow> string list \<Rightarrow> sent_report \<times> mailbox \<Rightarrow> sent_report \<times> mailbox" where
  "enviar w rendered file [] acc = acc"
| "enviar w (subject, body) file (email # rest) (rep, b) =
     (let (res, b1) = send w \<lparr>og_to = email, og_subject = subject, og_body = body, og_template = ''orders_report'', og_order = None,
                        og_files = [file], og_note = None\<rparr> b
      in enviar w (subject, body) file rest
           (if sr_status res = MailSent then rep\<lparr>sn_sent := sn_sent rep @ [email]\<rparr>
            else rep\<lparr>sn_failed := sn_failed rep @ [(email, given_or (sr_error res) (''estado '' @ status_text (sr_status res)))]\<rparr>, b1))"

text \<open>\<open>(0).toFixed(2)\<close> over the sum of the numbers, in floating point.\<close>

definition report_amount :: "total_row list \<Rightarrow> cents" where
  "report_amount totales = to_fixed2 (foldl (\<lambda>s t. js_add s (dec_num (tr_amount t))) 0 totales)"

definition enviarReporte ::
  "(string \<Rightarrow> string) \<Rightarrow> string option \<Rightarrow> customer list \<Rightarrow> db \<Rightarrow> people \<Rightarrow> mail_world \<Rightarrow>
   (report \<Rightarrow> order_query \<Rightarrow> string \<times> string) \<Rightarrow> (nat \<Rightarrow> cents \<Rightarrow> string option \<Rightarrow> string \<times> mail_body) \<Rightarrow> account \<Rightarrow>
   order_query \<Rightarrow> string option \<Rightarrow> string list \<Rightarrow> id list \<Rightarrow> mailbox \<Rightarrow> error + (sent_report \<times> addressees) \<times> mailbox" where
  "enviarReporte unaccent store customers d w mw pdf letter user q groupBy emails roleIds b =
     (let to = resolver w emails roleIds in
      bindE (guardE (ae_detail to \<noteq> []) (BadRequest ''No hay ninguna direccion a la que mandar el reporte'')) (\<lambda>_.
      bindE (report_of unaccent store customers d q groupBy) (\<lambda>rep.
      let totales = fst (snd rep);
          rendered = letter (sum_list (map tr_count totales)) (report_amount totales)
                       (or_old (account_name user) (non_empty (us_email user)));
          (sent, b1) = enviar mw rendered (pdf rep q) (map ad_email (ae_detail to)) (\<lparr>sn_sent = [], sn_failed = []\<rparr>, b)
      in Inr ((sent, to), b1))))"

end
