(* ===== verification/Mail_Laws.thy ===== *)
theory Mail_Laws
  imports Mail
begin

section \<open>The locks of the mails, the reminders and the reserve of the quota\<close>

text \<open>
  The log is the lock of the mails that must not repeat. What Resend accepted and what the log calls sent are the same list as long
  as the database takes the rows, so the lock holds for the mails themselves. The sweep reminds every order that waits, a missed day
  included; the price of that is a reminder whose days are those of the milestone and not those of the calendar.
\<close>

subsection \<open>One mail: what it leaves behind\<close>

definition mails :: "string \<Rightarrow> id \<Rightarrow> mailbox \<Rightarrow> nat" where
  "mails key i b = length (filter (\<lambda>e. og_template e = key \<and> og_order e = Some i) (mb_out b))"

definition welcomes :: "string \<Rightarrow> mailbox \<Rightarrow> nat" where
  "welcomes a b = length (filter (\<lambda>e. og_template e = ''welcome'' \<and> og_to e = a) (mb_out b))"

definition log_true :: "mailbox \<Rightarrow> bool" where
  "log_true b \<longleftrightarrow> map (\<lambda>r. (el_template r, el_order r, el_to r)) (filter (\<lambda>r. el_status r = MailSent) (mb_log b)) =
     map (\<lambda>e. (og_template e, og_order e, og_to e)) (mb_out b)"

lemma count_map:
  assumes "map f xs = map g ys"
  shows "length (filter (\<lambda>x. P (f x)) xs) = length (filter (\<lambda>y. P (g y)) ys)"
proof -
  have "length (filter P (map f xs)) = length (filter P (map g ys))"
    using assms by simp
  then show ?thesis by (simp add: filter_map o_def)
qed

lemma log_true_mails:
  assumes "log_true b"
  shows "alreadySent i key (mb_log b) \<longleftrightarrow> 0 < mails key i b"
    and "alreadySentTo a ''welcome'' (mb_log b) \<longleftrightarrow> 0 < welcomes a b"
proof -
  note m = assms [unfolded log_true_def]
  show "alreadySent i key (mb_log b) \<longleftrightarrow> 0 < mails key i b"
    using count_map [OF m, of "\<lambda>t. fst t = key \<and> fst (snd t) = Some i"]
    by (simp add: alreadySent_def mails_def conj_commute conj_left_commute)
  show "alreadySentTo a ''welcome'' (mb_log b) \<longleftrightarrow> 0 < welcomes a b"
    using count_map [OF m, of "\<lambda>t. fst t = ''welcome'' \<and> snd (snd t) = a"]
    by (simp add: alreadySentTo_def welcomes_def conj_commute conj_left_commute)
qed

lemma send_effect:
  assumes "send w e b = (res, b')"
  shows "mb_out b' = mb_out b @ (if sr_status res = MailSent then [e] else [])"
    and "mw_saves w \<Longrightarrow> \<exists>r. mb_log b' = mb_log b @ [r] \<and> el_template r = og_template e \<and> el_order r = og_order e \<and>
           el_to r = og_to e \<and> el_status r = sr_status res \<and> el_at r = mw_now w"
  using assms
  by (auto simp: send_def record_mail_def skipped_def failed_def Let_def split: if_splits option.splits resend_answer.splits)

lemma send_keeps_log:
  assumes "send w e b = (res, b')" "mw_saves w" "log_true b"
  shows "log_true b'"
  using send_effect [OF assms(1)] assms(2,3) by (auto simp: log_true_def)

lemma send_mails:
  assumes "send w e b = (res, b')"
  shows "mails key i b' = mails key i b + (if sr_status res = MailSent \<and> og_template e = key \<and> og_order e = Some i then 1 else 0)"
    and "welcomes a b' = welcomes a b + (if sr_status res = MailSent \<and> og_template e = ''welcome'' \<and> og_to e = a then 1 else 0)"
  using send_effect(1) [OF assms] by (auto simp: mails_def welcomes_def)

text \<open>A mail of an order either never leaves the mailer or is one mail under its key.\<close>

lemma dispatch_effect:
  assumes "dispatch_mail w s i t render c b = (r, b')"
  obtains "r = None" "b' = b"
  | e res where "r = Some res" "send w e b = (res, b')" "og_template e = t" "og_order e = Some i"
proof -
  show ?thesis
  proof (cases "r = None \<and> b' = b")
    case True
    then show ?thesis using that(1) by simp
  next
    case False
    with assms obtain ord address m where o: "List.find (\<lambda>x. o_id x = i \<and> \<not> o_deleted x) (ms_orders s) = Some ord"
      and a: "recipient s ord = Inr (Some address)" and m: "toMailData s ord = Inr m"
      by (auto simp: dispatch_mail_def split: option.splits sum.splits)
    have i: "o_id ord = i" using o by (auto simp: find_Some_iff)
    from assms show ?thesis
      using that(2) i by (auto simp: dispatch_mail_def o a m Let_def split: prod.splits)
  qed
qed

lemma dispatch_other:
  assumes "dispatch_mail w s i t render c b = (r, b')" "mw_saves w" "log_true b"
  shows "log_true b'"
    and "key \<noteq> t \<or> j \<noteq> i \<Longrightarrow> mails key j b' = mails key j b"
    and "t \<noteq> ''welcome'' \<Longrightarrow> welcomes a b' = welcomes a b"
    and "mails key j b' \<le> mails key j b + 1"
  using assms(1)
  by (cases rule: dispatch_effect; use assms(2,3) in \<open>auto simp: send_mails dest: send_keeps_log\<close>)+

subsection \<open>The locks\<close>

definition once :: "mailbox \<Rightarrow> bool" where
  "once b \<longleftrightarrow> log_true b \<and> (\<forall>m i. m \<in> set PICKUP_REMINDER_DAYS \<longrightarrow> mails (reminder_key m) i b \<le> 1) \<and> (\<forall>a. welcomes a b \<le> 1)"

lemma reminder_keys:
  "reminder_key 15 = ''pickup_reminder_15''" "reminder_key 25 = ''pickup_reminder_25''"
  by code_simp+

lemma dispatch_once:
  assumes "once b" "mw_saves w" "t \<notin> {''pickup_reminder_15'', ''pickup_reminder_25'', ''welcome''}"
  shows "once (snd (dispatch_mail w s i t render c b))"
proof (cases "dispatch_mail w s i t render c b")
  case (Pair r b')
  note d = dispatch_other [OF Pair assms(2)]
  show ?thesis
    using assms d by (auto simp: once_def Pair PICKUP_REMINDER_DAYS_def reminder_keys)
qed

lemma remind_all_effect:
  assumes "remind_all w s m cs counts b = (counts', b')" "mw_saves w" "log_true b" "distinct (map o_id cs)"
    and "\<And>ord. ord \<in> set cs \<Longrightarrow> mails (reminder_key m) (o_id ord) b = 0"
  shows "log_true b' \<and> (\<forall>a. welcomes a b' = welcomes a b) \<and>
     (\<forall>key i. key \<noteq> reminder_key m \<or> i \<notin> o_id ` set cs \<longrightarrow> mails key i b' = mails key i b) \<and>
     (\<forall>i \<in> o_id ` set cs. mails (reminder_key m) i b' \<le> 1)"
  using assms
proof (induction w s m cs counts b arbitrary: counts' b' rule: remind_all.induct)
  case (1 w s days counts b)
  then show ?case by simp
next
  case (2 w s m ord rest n missed b)
  obtain r b1 where d: "pickupReminder w s (o_id ord) m b = (r, b1)" by (cases "pickupReminder w s (o_id ord) m b")
  note e = dispatch_other [OF d [unfolded pickupReminder_def] "2.prems"(2,3)]
  have w: "reminder_key m \<noteq> ''welcome''" by (simp add: reminder_key_def)
  have new: "o_id ord \<notin> o_id ` set rest" "distinct (map o_id rest)" using "2.prems"(4) by auto
  have zero: "mails (reminder_key m) (o_id x) b1 = 0" if "x \<in> set rest" for x
  proof -
    have "o_id x \<noteq> o_id ord" using that new(1) by (metis image_eqI)
    then show ?thesis using that "2.prems"(5) [of x] e(2) [of "reminder_key m" "o_id x"] by simp
  qed
  have one: "mails (reminder_key m) (o_id ord) b1 \<le> 1"
    using e(4) [of "reminder_key m" "o_id ord"] "2.prems"(5) by simp
  define counts1 where "counts1 = (if map_option sr_status r = Some MailSent then (n + 1, missed) else (n, missed + 1))"
  have step: "remind_all w s m rest counts1 b1 = (counts', b')"
    using "2.prems"(1) by (simp add: d counts1_def)
  note IH = "2.IH" [OF d [symmetric] refl step [unfolded counts1_def] "2.prems"(2) e(1) new(2) zero]
  show ?case
    using IH e(2) e(3) [OF w] one new(1) by auto
qed

text \<open>One milestone of the sweep: only its own reminders, each order at most once more and only when it had none.\<close>

lemma milestone_effect:
  assumes "remind_all w s m (filter (due_reminder now (mb_log b) m) (ms_orders s)) counts b = (counts', b')"
    and "mw_saves w" "log_true b" "distinct (map o_id (ms_orders s))"
  shows "log_true b'" and "welcomes a b' = welcomes a b"
    and "key \<noteq> reminder_key m \<Longrightarrow> mails key i b' = mails key i b"
    and "mails (reminder_key m) i b \<le> 1 \<Longrightarrow> mails (reminder_key m) i b' \<le> 1"
proof -
  let ?cs = "filter (due_reminder now (mb_log b) m) (ms_orders s)"
  have zero: "mails (reminder_key m) (o_id ord) b = 0" if "ord \<in> set ?cs" for ord
    using that log_true_mails(1) [OF assms(3)] by (auto simp: due_reminder_def)
  note e = remind_all_effect [OF assms(1-3) distinct_map_filter [OF assms(4)] zero]
  show "log_true b'" "welcomes a b' = welcomes a b" "key \<noteq> reminder_key m \<Longrightarrow> mails key i b' = mails key i b"
    using e by auto
  show "mails (reminder_key m) i b \<le> 1 \<Longrightarrow> mails (reminder_key m) i b' \<le> 1"
    using e by (cases "i \<in> o_id ` set ?cs") auto
qed

lemma sweep_once:
  assumes "once b" "mw_saves w" "distinct (map o_id (ms_orders s))"
  shows "once (snd (sweep_reminders w s b))"
proof (cases "re_configured (mw_resend w)")
  case False
  then show ?thesis using assms(1) by (simp add: sweep_reminders_def Let_def)
next
  case True
  let ?due = "\<lambda>m b. filter (due_reminder (mw_now w) (mb_log b) m) (ms_orders s)"
  obtain c1 b1 where r1: "remind_all w s 15 (?due 15 b) (0, 0) b = (c1, b1)" by (cases "remind_all w s 15 (?due 15 b) (0, 0) b")
  obtain c2 b2 where r2: "remind_all w s 25 (?due 25 b1) (0, snd c1) b1 = (c2, b2)"
    by (cases "remind_all w s 25 (?due 25 b1) (0, snd c1) b1")
  have b2: "snd (sweep_reminders w s b) = b2"
    using r1 r2 True by (cases c1; cases c2) (simp add: sweep_reminders_def PICKUP_REMINDER_DAYS_def Let_def)
  have o: "log_true b" "\<And>a. welcomes a b \<le> 1" "\<And>i. mails ''pickup_reminder_15'' i b \<le> 1" "\<And>i. mails ''pickup_reminder_25'' i b \<le> 1"
    using assms(1) by (auto simp: once_def PICKUP_REMINDER_DAYS_def reminder_keys)
  note e1 = milestone_effect [OF r1 assms(2) o(1) assms(3), unfolded reminder_keys]
  note e2 = milestone_effect [OF r2 assms(2) e1(1) assms(3), unfolded reminder_keys]
  show ?thesis
    using o e1 e2 by (auto simp: b2 once_def PICKUP_REMINDER_DAYS_def reminder_keys)
qed

lemma welcome_once:
  assumes "once b" "mw_saves w"
  shows "once (snd (welcome_mail w store whatsapp welcome c b))"
proof (cases "trimmed (cu_email c)")
  case None
  then show ?thesis using assms(1) by (simp add: welcome_mail_def)
next
  case (Some address)
  show ?thesis
  proof (cases "alreadySentTo address ''welcome'' (mb_log b)")
    case True
    then show ?thesis using assms(1) Some by (simp add: welcome_mail_def)
  next
    case False
    then have zero: "welcomes address b = 0"
      using assms(1) log_true_mails(2) by (auto simp: once_def)
    obtain subject body where t: "welcome (personName (Some c)) (given_or store TIENDA_POR_DEFECTO) whatsapp = (subject, body)"
      by (cases "welcome (personName (Some c)) (given_or store TIENDA_POR_DEFECTO) whatsapp")
    define e where "e = \<lparr>og_to = address, og_subject = subject, og_body = body, og_template = ''welcome'', og_order = None,
      og_files = [], og_note = None\<rparr>"
    obtain res b' where r: "send w e b = (res, b')" by (cases "send w e b")
    have b': "snd (welcome_mail w store whatsapp welcome c b) = b'"
      using False Some r by (simp add: welcome_mail_def t e_def)
    have "mails key i b' = mails key i b" for key i
      using send_mails(1) [OF r] by (simp add: e_def)
    moreover have "welcomes a b' \<le> 1" for a
      using send_mails(2) [OF r, of a] zero assms(1) by (auto simp: e_def once_def)
    ultimately show ?thesis
      using assms send_keeps_log [OF r] by (simp add: b' once_def)
  qed
qed

lemmas order_mails = orderReceived_def paymentReceived_def shipped_mail_def delivered_mail_def cancelled_mail_def
  refundRequested_def refundCompleted_def

lemma mail_step_once:
  assumes "mail_step w b c" "once b" "mw_saves w"
  shows "once c"
  using assms
proof cases
  case (moved s tpl i status motivo)
  then show ?thesis
    using dispatch_once [OF assms(2,3)] assms(2)
    by (auto simp: avisarDelCambio_def order_mails Let_def split: option.splits)
next
  case (welcomed store whatsapp greet p)
  then show ?thesis using welcome_once [OF assms(2,3)] by simp
next
  case (swept s)
  then show ?thesis using sweep_once [OF assms(2,3)] by simp
qed (use dispatch_once [OF assms(2,3)] in \<open>auto simp: order_mails Let_def\<close>)

lemma once_since:
  assumes "mails_since a b" "once a"
  shows "once b"
  using assms by induction (auto dest: mail_step_once)

text \<open>C30: Over any run of order mails, welcomes and reminder sweeps, at whatever times, with whatever orders, configuration and answers of
  the provider, as long as the database takes the rows of the log: every order gets each reminder at most once, every address at most
  one welcome, and the rows the log calls sent are the mails the provider accepted, in order.
\<close>

theorem locked_mails_go_once:
  assumes "mails_since empty_mailbox b"
  shows "(\<forall>m \<in> set PICKUP_REMINDER_DAYS. \<forall>i. mails (reminder_key m) i b \<le> 1) \<and> (\<forall>a. welcomes a b \<le> 1) \<and>
    map (\<lambda>r. (el_template r, el_order r, el_to r)) (filter (\<lambda>r. el_status r = MailSent) (mb_log b)) =
    map (\<lambda>e. (og_template e, og_order e, og_to e)) (mb_out b)"
proof -
  have "once empty_mailbox"
    by (simp add: once_def log_true_def empty_mailbox_def mails_def welcomes_def)
  then have "once b" by (rule once_since [OF assms])
  then show ?thesis by (auto simp: once_def log_true_def)
qed

subsection \<open>The reminders of a sweep\<close>

text \<open>The provider is set up and takes every mail, and the reminders are neither switched off nor of low priority.\<close>

definition mails_work :: "mail_world \<Rightarrow> bool" where
  "mails_work w \<longleftrightarrow> (let c = mw_resend w in
     re_configured c \<and> given_or (re_key c) [] \<noteq> [] \<and> given_or (re_from c) [] \<noteq> [] \<and> mw_saves w \<and>
     (\<forall>m \<in> set PICKUP_REMINDER_DAYS. reminder_key m \<notin> set (re_off c) \<union> set (re_low c)) \<and>
     (\<forall>sent rq. case mw_post w sent rq of Answered status _ \<Rightarrow> 200 \<le> status \<and> status < 300 | Unreachable _ \<Rightarrow> False))"

text \<open>The reminder of an order, when there is someone to write to.\<close>

definition reminder_mails :: "mail_source \<Rightarrow> int \<Rightarrow> order \<Rightarrow> outgoing list" where
  "reminder_mails s m ord = (case (recipient s ord, toMailData s ord) of
     (Inr (Some a), Inr d) \<Rightarrow> (let (subject, body) = pickup_reminder_template m d in
       [\<lparr>og_to = a, og_subject = subject, og_body = body, og_template = reminder_key m, og_order = Some (o_id ord),
         og_files = [], og_note = None\<rparr>])
   | _ \<Rightarrow> [])"

lemma send_works:
  assumes "mails_work w" "m \<in> set PICKUP_REMINDER_DAYS" "og_template e = reminder_key m"
  shows "sr_status (fst (send w e b)) = MailSent"
proof -
  have off: "\<not> apagada w (og_template e)" "hayCupo w (og_template e) (mb_log b) = None"
    using assms by (auto simp: mails_work_def apagada_def hayCupo_def Let_def)
  have on: "re_configured (mw_resend w)" "given_or (re_key (mw_resend w)) [] \<noteq> []" "given_or (re_from (mw_resend w)) [] \<noteq> []"
    using assms(1) by (auto simp: mails_work_def Let_def)
  have post: "\<exists>status payload. mw_post w sent rq = Answered status payload \<and> 200 \<le> status \<and> status < 300" for sent rq
  proof -
    have "case mw_post w sent rq of Answered status _ \<Rightarrow> 200 \<le> status \<and> status < 300 | Unreachable _ \<Rightarrow> False"
      using assms(1) by (simp add: mails_work_def Let_def)
    then show ?thesis by (cases "mw_post w sent rq") auto
  qed
  define rq where "rq = \<lparr>rq_key = given_or (re_key (mw_resend w)) [], rq_from = given_or (re_from (mw_resend w)) [],
    rq_to = [og_to e], rq_reply = non_empty (re_reply (mw_resend w)), rq_subject = og_subject e, rq_body = og_body e,
    rq_files = og_files e\<rparr>"
  obtain status payload where "mw_post w (mb_out b) rq = Answered status payload" "200 \<le> status" "status < 300"
    using post by blast
  then show ?thesis
    using off on by (simp add: send_def Let_def record_mail_def rq_def [symmetric])
qed

lemma order_by_id:
  assumes "ord \<in> set rows" "distinct (map o_id rows)" "\<not> o_deleted ord"
  shows "List.find (\<lambda>x. o_id x = o_id ord \<and> \<not> o_deleted x) rows = Some ord"
  using assms by (induction rows) (auto simp: image_iff)

lemma pickupReminder_works:
  assumes "mails_work w" "m \<in> set PICKUP_REMINDER_DAYS" "ord \<in> set (ms_orders s)" "distinct (map o_id (ms_orders s))"
    "\<not> o_deleted ord" "pickupReminder w s (o_id ord) m b = (r, b')"
  shows "mb_out b' = mb_out b @ reminder_mails s m ord"
    and "map_option sr_status r = Some MailSent \<longleftrightarrow> reminder_mails s m ord \<noteq> []"
    and "key \<noteq> reminder_key m \<Longrightarrow> alreadySent j key (mb_log b') \<longleftrightarrow> alreadySent j key (mb_log b)"
proof -
  note found = order_by_id [OF assms(3-5)]
  have "mb_out b' = mb_out b @ reminder_mails s m ord \<and>
    (map_option sr_status r = Some MailSent \<longleftrightarrow> reminder_mails s m ord \<noteq> []) \<and>
    (key \<noteq> reminder_key m \<longrightarrow> alreadySent j key (mb_log b') \<longleftrightarrow> alreadySent j key (mb_log b))"
  proof (cases "reminder_mails s m ord")
    case Nil
    then have "r = None \<and> b' = b"
      using assms(6) by (auto simp: pickupReminder_def dispatch_mail_def found reminder_mails_def Let_def
          split: option.splits sum.splits prod.splits)
    then show ?thesis using Nil by simp
  next
    case (Cons e es)
    then obtain a d where ad: "recipient s ord = Inr (Some a)" "toMailData s ord = Inr d"
      by (auto simp: reminder_mails_def split: option.splits sum.splits)
    with Cons have es: "es = []" and t: "og_template e = reminder_key m"
      by (auto simp: reminder_mails_def Let_def split: prod.splits)
    obtain res b1 where "send w e b = (res, b1)" by (cases "send w e b")
    moreover have "send w e b = (the r, b') \<and> r \<noteq> None"
      using assms(6) Cons
      by (auto simp: pickupReminder_def dispatch_mail_def found ad reminder_mails_def Let_def split: prod.splits)
    ultimately have s: "send w e b = (the r, b')" and r: "r \<noteq> None" by simp_all
    have ok: "sr_status (the r) = MailSent"
      using send_works [OF assms(1,2) t, of b] s by simp
    have saves: "mw_saves w" using assms(1) by (simp add: mails_work_def Let_def)
    note eff = send_effect [OF s]
    show ?thesis
      using eff(1) eff(2) [OF saves] ok r t Cons es by (auto simp: alreadySent_def)
  qed
  then show "mb_out b' = mb_out b @ reminder_mails s m ord"
    "map_option sr_status r = Some MailSent \<longleftrightarrow> reminder_mails s m ord \<noteq> []"
    "key \<noteq> reminder_key m \<Longrightarrow> alreadySent j key (mb_log b') \<longleftrightarrow> alreadySent j key (mb_log b)"
    by blast+
qed

lemma remind_all_works:
  assumes "mails_work w" "m \<in> set PICKUP_REMINDER_DAYS" "distinct (map o_id (ms_orders s))"
    "\<forall>ord \<in> set cs. ord \<in> set (ms_orders s) \<and> \<not> o_deleted ord" "remind_all w s m cs (n, missed) b = (counts, b')"
  shows "mb_out b' = mb_out b @ concat (map (reminder_mails s m) cs) \<and>
    counts = (n + length (filter (\<lambda>ord. reminder_mails s m ord \<noteq> []) cs),
              missed + length (filter (\<lambda>ord. reminder_mails s m ord = []) cs)) \<and>
    (\<forall>key j. key \<noteq> reminder_key m \<longrightarrow> alreadySent j key (mb_log b') = alreadySent j key (mb_log b))"
  using assms(4,5)
proof (induction cs arbitrary: n missed b)
  case Nil
  then show ?case by simp
next
  case (Cons ord rest)
  obtain r b1 where d: "pickupReminder w s (o_id ord) m b = (r, b1)" by (cases "pickupReminder w s (o_id ord) m b")
  note e = pickupReminder_works [OF assms(1,2) _ assms(3) _ d]
  have o: "ord \<in> set (ms_orders s)" "\<not> o_deleted ord" using Cons.prems(1) by auto
  have rest: "\<forall>x \<in> set rest. x \<in> set (ms_orders s) \<and> \<not> o_deleted x" using Cons.prems(1) by simp
  show ?case
  proof (cases "reminder_mails s m ord = []")
    case True
    then have "map_option sr_status r \<noteq> Some MailSent" using e(2) [OF o] by blast
    then have run: "remind_all w s m rest (n, missed + 1) b1 = (counts, b')"
      using Cons.prems(2) by (simp only: remind_all.simps d Let_def prod.case if_False)
    show ?thesis using Cons.IH [OF rest run] e(1,3) [OF o] True by auto
  next
    case False
    then have "map_option sr_status r = Some MailSent" using e(2) [OF o] by blast
    then have run: "remind_all w s m rest (n + 1, missed) b1 = (counts, b')"
      using Cons.prems(2) by (simp only: remind_all.simps d Let_def prod.case simp_thms if_True)
    show ?thesis using Cons.IH [OF rest run] e(1,3) [OF o] False by auto
  qed
qed

text \<open>The whole sweep: the mails of the first milestone, then those of the second, for the orders that are due.\<close>

definition due_mails :: "mail_world \<Rightarrow> mail_source \<Rightarrow> int \<Rightarrow> mailbox \<Rightarrow> outgoing list" where
  "due_mails w s m b = concat (map (reminder_mails s m) (filter (due_reminder (mw_now w) (mb_log b) m) (ms_orders s)))"

lemma due_same_log:
  assumes "\<forall>j. alreadySent j (reminder_key m) l' = alreadySent j (reminder_key m) l"
  shows "due_reminder now l' m = due_reminder now l m"
  using assms by (auto simp: due_reminder_def fun_eq_iff)

lemma sweep_outcome:
  assumes "mails_work w" "distinct (map o_id (ms_orders s))"
  shows "mb_out (snd (sweep_reminders w s b)) = mb_out b @ due_mails w s 15 b @ due_mails w s 25 b"
proof -
  let ?due = "\<lambda>m b. filter (due_reminder (mw_now w) (mb_log b) m) (ms_orders s)"
  have on: "re_configured (mw_resend w)" using assms(1) by (simp add: mails_work_def Let_def)
  obtain c1 b1 where r1: "remind_all w s 15 (?due 15 b) (0, 0) b = (c1, b1)" by (cases "remind_all w s 15 (?due 15 b) (0, 0) b")
  obtain c2 b2 where r2: "remind_all w s 25 (?due 25 b1) (0, snd c1) b1 = (c2, b2)"
    by (cases "remind_all w s 25 (?due 25 b1) (0, snd c1) b1")
  have b2: "snd (sweep_reminders w s b) = b2"
    using r1 r2 on by (cases c1; cases c2) (simp add: sweep_reminders_def PICKUP_REMINDER_DAYS_def Let_def)
  have days: "15 \<in> set PICKUP_REMINDER_DAYS" "25 \<in> set PICKUP_REMINDER_DAYS" by (simp_all add: PICKUP_REMINDER_DAYS_def)
  have live: "\<forall>ord \<in> set (?due m c). ord \<in> set (ms_orders s) \<and> \<not> o_deleted ord" for m c
    by (simp add: due_reminder_def)
  note e1 = remind_all_works [OF assms(1) days(1) assms(2) live r1]
  note e2 = remind_all_works [OF assms(1) days(2) assms(2) live r2]
  have same: "due_reminder (mw_now w) (mb_log b1) 25 = due_reminder (mw_now w) (mb_log b) 25"
    by (rule due_same_log) (use e1 in \<open>auto simp: reminder_keys\<close>)
  show ?thesis
    using e1 e2 by (simp add: b2 due_mails_def same)
qed

text \<open>
  Who waits for a reminder, in whole days: a live order, paid, to be collected and not collected, at least as many days since its payment
  as the milestone and less than the 30 of custody, and no reminder of the milestone in the log as sent.
\<close>

definition awaits_reminder :: "instant \<Rightarrow> email_row list \<Rightarrow> int \<Rightarrow> order \<Rightarrow> bool" where
  "awaits_reminder now rows m ord \<longleftrightarrow> \<not> o_deleted ord \<and> o_payment ord = PayPaid \<and> o_fulfillment ord = PICKUP \<and>
     o_status ord \<noteq> DELIVERED \<and> o_status ord \<noteq> CANCELLED \<and> o_delivered_at ord = None \<and>
     (\<exists>paid. o_paid_at ord = Some paid \<and> m \<le> (now - paid) div one_day \<and> (now - paid) div one_day < 30) \<and>
     (\<forall>r \<in> set rows. el_order r = Some (o_id ord) \<longrightarrow> el_template r = ''pickup_reminder_'' @ int_str m \<longrightarrow> el_status r \<noteq> MailSent)"

lemma whole_days: "m \<le> x div one_day \<longleftrightarrow> m * one_day \<le> x"
proof
  assume "m \<le> x div one_day"
  then have "m * one_day \<le> (x div one_day) * one_day" by (rule mult_right_mono) (simp add: one_day_def)
  also have "\<dots> \<le> x" using pos_mod_sign [of one_day x] div_mult_mod_eq [of x one_day] by (simp add: one_day_def)
  finally show "m * one_day \<le> x" .
next
  assume "m * one_day \<le> x"
  from zdiv_mono1 [OF this, of one_day] show "m \<le> x div one_day" by (simp add: one_day_def)
qed

lemma due_reminder_awaits: "due_reminder now rows m ord \<longleftrightarrow> awaits_reminder now rows m ord"
proof -
  have days: "paid \<le> now - m * one_day \<longleftrightarrow> m \<le> (now - paid) div one_day"
    "now - PICKUP_CUSTODY_DAYS * one_day < paid \<longleftrightarrow> (now - paid) div one_day < 30" for paid :: int
    using whole_days [of m "now - paid"] whole_days [of 30 "now - paid"]
    by (auto simp: one_day_def PICKUP_CUSTODY_DAYS_def algebra_simps not_le [symmetric])
  show ?thesis
    by (auto simp: due_reminder_def awaits_reminder_def days alreadySent_def reminder_key_def filter_empty_conv split: option.splits)
qed

text \<open>C31: When the provider takes the mails, one sweep sends the reminders that are due and no other: to every order that waits at the
  counter, was paid at least as many days ago as the milestone (the day itself or any later one, so a sweep that was missed is made up by
  the next) and less than the 30 days of custody, and never got that reminder; one mail each, to the customer of the order or to the
  contact it was placed with, those of 15 days first, then those of 25. An order nobody can be written to gets none.
\<close>

theorem sweep_sends_the_reminders_due:
  assumes "mails_work w" and "distinct (map o_id (ms_orders s))"
  shows "mb_out (snd (sweep_reminders w s b)) = mb_out b @
      concat (map (reminder_mails s 15) (filter (awaits_reminder (mw_now w) (mb_log b) 15) (ms_orders s))) @
      concat (map (reminder_mails s 25) (filter (awaits_reminder (mw_now w) (mb_log b) 25) (ms_orders s)))"
proof -
  have "due_reminder (mw_now w) (mb_log b) = awaits_reminder (mw_now w) (mb_log b)"
    by (intro ext) (rule due_reminder_awaits)
  then show ?thesis using sweep_outcome [OF assms] by (simp add: due_mails_def)
qed

text \<open>The days of custody that are left, by the clock.\<close>

definition custody_left :: "instant \<Rightarrow> order \<Rightarrow> int" where
  "custody_left now ord = (given_or (o_paid_at ord) 0 + PICKUP_CUSTODY_DAYS * one_day - now) div one_day"

definition days_said :: "outgoing \<Rightarrow> (int \<times> int) option" where
  "days_said e = (case og_body e of Reminder _ _ since left _ _ _ \<Rightarrow> Some (since, left) | Written _ _ \<Rightarrow> None)"

text \<open>An order paid 25 days ago or more whose 15 day reminder never went out (the sweeps were not run, or the provider was down) gets
  both reminders in one sweep. The first says it was paid 15 days ago and 15 days are left, the second 25 and 5, whereas at most 5 are
  left. The bound on the custody, which the source says prevents this, does not.
\<close>

theorem missed_reminders_come_together:
  assumes "mails_work w" and "distinct (map o_id (ms_orders s))" and "ord \<in> set (ms_orders s)"
    and "due_reminder (mw_now w) (mb_log b) 25 ord" and "\<not> alreadySent (o_id ord) (reminder_key 15) (mb_log b)"
    and "reminder_mails s 15 ord \<noteq> []"
  shows "\<exists>before e1 between e2 after.
      mb_out (snd (sweep_reminders w s b)) = mb_out b @ before @ [e1] @ between @ [e2] @ after \<and>
      og_order e1 = Some (o_id ord) \<and> days_said e1 = Some (15, 15) \<and>
      og_order e2 = Some (o_id ord) \<and> days_said e2 = Some (25, 5) \<and> custody_left (mw_now w) ord \<le> 5"
proof -
  have due15: "due_reminder (mw_now w) (mb_log b) 15 ord"
    using assms(4,5) by (auto simp: due_reminder_def one_day_def split: option.splits)
  have said: "\<exists>e. reminder_mails s m ord = [e] \<and> og_order e = Some (o_id ord) \<and> days_said e = Some (m, 30 - m)" for m
    using assms(6) by (auto simp: reminder_mails_def days_said_def pickup_reminder_template_def PICKUP_CUSTODY_DAYS_def
        split: sum.splits option.splits)
  have placed: "\<exists>pre post. due_mails w s m b = pre @ reminder_mails s m ord @ post"
    if due: "due_reminder (mw_now w) (mb_log b) m ord" for m
  proof -
    obtain xs ys where "filter (due_reminder (mw_now w) (mb_log b) m) (ms_orders s) = xs @ ord # ys"
      using due assms(3) split_list [of ord "filter (due_reminder (mw_now w) (mb_log b) m) (ms_orders s)"] by auto
    then show ?thesis by (auto simp: due_mails_def)
  qed
  obtain e1 e2 where e: "reminder_mails s 15 ord = [e1]" "og_order e1 = Some (o_id ord)" "days_said e1 = Some (15, 15)"
      "reminder_mails s 25 ord = [e2]" "og_order e2 = Some (o_id ord)" "days_said e2 = Some (25, 5)"
    using said [of 15] said [of 25] by auto
  obtain p1 q1 p2 q2 where "due_mails w s 15 b = p1 @ [e1] @ q1" "due_mails w s 25 b = p2 @ [e2] @ q2"
    using placed [OF due15] placed [OF assms(4)] e by auto
  then have "mb_out (snd (sweep_reminders w s b)) = mb_out b @ p1 @ [e1] @ (q1 @ p2) @ [e2] @ q2"
    using sweep_outcome [OF assms(1,2)] by simp
  moreover have "custody_left (mw_now w) ord \<le> 5"
    using assms(4) by (auto simp: due_reminder_def custody_left_def PICKUP_CUSTODY_DAYS_def given_or_def one_day_def split: option.splits)
  ultimately show ?thesis using e by blast
qed

subsection \<open>The reserve of the quota\<close>

text \<open>A mail of a template of low priority that goes out leaves the reserve of the month and of the day untouched: after it, the mails
  logged as sent since the first of the month (the start of the day), in UTC, are at most the quota less its reserve. A template that is
  not of low priority is never stopped by the quota, and nothing is stopped when the mails cannot be counted.
\<close>

theorem low_priority_leaves_the_reserve:
  assumes "send w e b = (res, b')" and "mw_saves w" and "sr_status res = MailSent"
  shows "(og_template e \<in> set (re_low (mw_resend w)) \<and> mw_counts w \<longrightarrow>
      (0 < re_monthly (mw_resend w) \<longrightarrow>
         contarEnviadosDesde (inicioDeMes (mw_now w)) (mb_log b') \<le> re_monthly (mw_resend w) - re_month_reserve (mw_resend w)) \<and>
      (0 < re_daily (mw_resend w) \<longrightarrow>
         contarEnviadosDesde (inicioDeHoy (mw_now w)) (mb_log b') \<le> re_daily (mw_resend w) - re_day_reserve (mw_resend w))) \<and>
    (og_template e \<notin> set (re_low (mw_resend w)) \<or> \<not> mw_counts w \<longrightarrow> hayCupo w (og_template e) (mb_log b) = None)"
proof -
  obtain r where log: "mb_log b' = mb_log b @ [r]" using send_effect(2) [OF assms(1,2)] by blast
  have more: "contarEnviadosDesde since (mb_log b') \<le> contarEnviadosDesde since (mb_log b) + 1" for since
    by (simp add: contarEnviadosDesde_def log)
  have free: "hayCupo w (og_template e) (mb_log b) = None"
    using assms(1,3) by (auto simp: send_def record_mail_def skipped_def Let_def split: if_splits option.splits)
  show ?thesis
    using free more [of "inicioDeMes (mw_now w)"] more [of "inicioDeHoy (mw_now w)"]
    by (auto simp: hayCupo_def Let_def split: if_splits)
qed

subsection \<open>Samples\<close>

definition sample_resend :: resend_config where
  "sample_resend = \<lparr>re_key = Some ''re_1'', re_from = Some ''tienda@maxihabana.com'', re_reply = None, re_configured = True,
     re_off = [], re_monthly = 3000, re_daily = 100, re_month_reserve = 200, re_day_reserve = 20, re_low = [''welcome'']\<rparr>"

definition mail_day :: "int \<Rightarrow> mail_world" where
  "mail_day n = \<lparr>mw_now = n * one_day, mw_resend = sample_resend, mw_counts = True, mw_saves = True,
     mw_post = \<lambda>_ _. Answered 200 (Some (JObj [(''id'', JStr ''m-1'')]))\<rparr>"

definition waiting_order :: order where
  "waiting_order = sample_order\<lparr>o_status := PROCESSING, o_payment := PayPaid, o_fulfillment := PICKUP, o_paid_at := Some 0,
     o_delivered_at := None, o_contact := Some (JObj [(''email'', JStr ''ana@correo.cu'')]), o_pickup_snapshot := None, o_deleted := False\<rparr>"

definition waiting_source :: mail_source where
  "waiting_source = \<lparr>ms_orders = [waiting_order], ms_customers = [], ms_store = None, ms_whatsapp = ''+53'', ms_social = None,
     ms_pdf = \<lambda>_. Inl ''sin plantilla''\<rparr>"

definition swept_twice :: mailbox where
  "swept_twice = snd (sweep_reminders (mail_day 27) waiting_source (snd (sweep_reminders (mail_day 26) waiting_source empty_mailbox)))"

lemma mail_day_works: "mails_work (mail_day n)"
  by (simp add: mails_work_def mail_day_def sample_resend_def given_or_def PICKUP_REMINDER_DAYS_def reminder_keys)

lemma waiting_distinct: "distinct (map o_id (ms_orders waiting_source))"
  by (simp add: waiting_source_def)

lemma waiting_mail:
  "reminder_mails waiting_source m waiting_order = [\<lparr>og_to = ''ana@correo.cu'',
     og_subject = ''Recordatorio: tu pedido '' @ order_number 2026 0 @ '' sigue esperando'',
     og_body = Reminder None (order_number 2026 0) m (30 - m) None None None, og_template = reminder_key m, og_order = Some 70,
     og_files = [], og_note = None\<rparr>]"
  by (simp add: reminder_mails_def recipient_def toMailData_def quienRecibe_def pickupAddress_def snapshot_text_def trimmed_def client_of_def
      waiting_source_def waiting_order_def sample_order_def comoTextoOAusente_def non_empty_def js_trim_def is_space_def bindE_def
      pickup_reminder_template_def PICKUP_CUSTODY_DAYS_def number_of_def given_or_def personName_def enlaceDeSeguimiento_def)

lemma waiting_due:
  assumes "\<not> alreadySent 70 (reminder_key m) (mb_log b)"
  shows "due_reminder (n * one_day) (mb_log b) m waiting_order \<longleftrightarrow> m \<le> n \<and> n < 30"
  using assms
  by (simp add: due_reminder_def waiting_order_def sample_order_def one_day_def PICKUP_CUSTODY_DAYS_def)

lemma nothing_sent: "\<not> alreadySent i key (mb_log empty_mailbox)"
  by (simp add: alreadySent_def empty_mailbox_def)

lemma waiting_mails:
  "due_mails (mail_day n) waiting_source m empty_mailbox = (if m \<le> n \<and> n < 30 then reminder_mails waiting_source m waiting_order else [])"
  using waiting_due [OF nothing_sent] by (simp add: due_mails_def waiting_source_def mail_day_def)

theorem locked_mails_go_once_witness:
  "mails_since empty_mailbox swept_twice \<and> mails (reminder_key 15) 70 swept_twice = 1 \<and>
   map (\<lambda>r. (el_template r, el_order r, el_to r)) (filter (\<lambda>r. el_status r = MailSent) (mb_log swept_twice)) =
   map (\<lambda>e. (og_template e, og_order e, og_to e)) (mb_out swept_twice)"
proof -
  have saves: "mw_saves (mail_day n)" for n by (simp add: mail_day_def)
  have run: "mails_since empty_mailbox swept_twice"
    unfolding swept_twice_def
    by (rule mails_more [OF mails_more [OF mails_none saves [of 26]] saves [of 27]]; rule mail_step.swept [OF waiting_distinct])
  have "mb_out (snd (sweep_reminders (mail_day 26) waiting_source empty_mailbox)) =
    reminder_mails waiting_source 15 waiting_order @ reminder_mails waiting_source 25 waiting_order"
    using sweep_outcome [OF mail_day_works waiting_distinct] by (simp add: waiting_mails) (simp add: empty_mailbox_def)
  then have "0 < mails (reminder_key 15) 70 swept_twice"
    using sweep_outcome [OF mail_day_works waiting_distinct] by (simp add: swept_twice_def mails_def waiting_mail)
  moreover have "15 \<in> set PICKUP_REMINDER_DAYS" by (simp add: PICKUP_REMINDER_DAYS_def)
  ultimately show ?thesis
  proof -
    note once = locked_mails_go_once [OF run, THEN conjunct1]
      and same = locked_mails_go_once [OF run, THEN conjunct2, THEN conjunct2]
    have "mails (reminder_key 15) 70 swept_twice \<le> 1"
      using once \<open>15 \<in> set PICKUP_REMINDER_DAYS\<close> by blast
    then have "mails (reminder_key 15) 70 swept_twice = 1"
      using \<open>0 < mails (reminder_key 15) 70 swept_twice\<close> by linarith
    then show ?thesis using run same by blast
  qed
qed

theorem sweep_sends_the_reminders_due_witness:
  "map og_template (mb_out (snd (sweep_reminders (mail_day 16) waiting_source empty_mailbox))) = [''pickup_reminder_15''] \<and>
   map og_template (mb_out (snd (sweep_reminders (mail_day 14) waiting_source empty_mailbox))) = []"
proof -
  have "filter (awaits_reminder (mw_now (mail_day n)) (mb_log empty_mailbox) m) (ms_orders waiting_source) =
      (if m \<le> n \<and> n < 30 then [waiting_order] else [])" for n m
    using waiting_due [OF nothing_sent, of n m] by (simp add: due_reminder_awaits [symmetric] waiting_source_def mail_day_def)
  moreover have "int_str 15 = ''15''" by code_simp
  ultimately show ?thesis
    using sweep_sends_the_reminders_due [OF mail_day_works waiting_distinct, of 16 empty_mailbox]
      sweep_sends_the_reminders_due [OF mail_day_works waiting_distinct, of 14 empty_mailbox]
    by (simp add: waiting_mail reminder_key_def) (simp add: empty_mailbox_def)
qed

theorem missed_reminders_come_together_witness:
  "\<exists>e1 e2. {e1, e2} \<subseteq> set (mb_out (snd (sweep_reminders (mail_day 28) waiting_source empty_mailbox))) \<and>
     days_said e1 = Some (15, 15) \<and> days_said e2 = Some (25, 5) \<and> custody_left (mw_now (mail_day 28)) waiting_order = 2"
proof -
  have h: "waiting_order \<in> set (ms_orders waiting_source)" by (simp add: waiting_source_def)
  have left: "custody_left (mw_now (mail_day 28)) waiting_order = 2"
    by (simp add: mail_day_def custody_left_def waiting_order_def given_or_def one_day_def PICKUP_CUSTODY_DAYS_def)
  have due: "due_reminder (mw_now (mail_day 28)) (mb_log empty_mailbox) 25 waiting_order"
    using waiting_due [OF nothing_sent, where n = 28] by (simp add: mail_day_def)
  have someone: "reminder_mails waiting_source 15 waiting_order \<noteq> []" by (simp add: waiting_mail)
  show ?thesis
    using missed_reminders_come_together [OF mail_day_works waiting_distinct h due nothing_sent someone] left by fastforce
qed

theorem low_priority_leaves_the_reserve_witness:
  "\<exists>res b'. send (mail_day 16) \<lparr>og_to = ''ana@correo.cu'', og_subject = ''Bienvenida'', og_body = Written [] [],
       og_template = ''welcome'', og_order = None, og_files = [], og_note = None\<rparr> empty_mailbox = (res, b') \<and>
     sr_status res = MailSent \<and> contarEnviadosDesde (inicioDeHoy (mw_now (mail_day 16))) (mb_log b') \<le> 80"
proof -
  let ?e = "\<lparr>og_to = ''ana@correo.cu'', og_subject = ''Bienvenida'', og_body = Written [] [],
       og_template = ''welcome'', og_order = None, og_files = [], og_note = None\<rparr>"
  obtain res b' where r: "send (mail_day 16) ?e empty_mailbox = (res, b')" by (cases "send (mail_day 16) ?e empty_mailbox")
  have "sr_status (fst (send (mail_day 16) ?e empty_mailbox)) = MailSent" by code_simp
  then have s: "sr_status res = MailSent" by (simp add: r)
  have saves: "mw_saves (mail_day 16)" by (simp add: mail_day_def)
  show ?thesis
    using low_priority_leaves_the_reserve [OF r saves s] r s by (simp add: mail_day_def sample_resend_def)
qed

end
