(* ===== verification/Listings_Laws.thy ===== *)
theory Listings_Laws
  imports Listings Cart_Laws Mail_Laws Accounts_Laws
begin

section \<open>Listings and reports tell the same\<close>

text \<open>
  The pages of a listing are its rows, each once; the filter by method and the filter by transfer agree with the columns they filter
  and with the detail; the rows, the totals and the summary of a report add up to the same orders, also when the rows are cut; the
  report goes to the active members of the roles and to nobody else; and its days are those of UTC, not of the shop.
\<close>

subsection \<open>Pages and groups\<close>

lemma pages_of_rows:
  assumes "0 < l"
  shows "concat (map (\<lambda>p. slice ((p - 1) * l) l xs) [1..<Suc ((length xs + l - 1) div l)]) = xs"
proof -
  have "concat (map (\<lambda>p. slice ((p - 1) * l) l xs) [1..<Suc n]) = take (n * l) xs" for n
  proof (induction n)
    case (Suc n)
    have "take (n * l) xs @ take l (drop (n * l) xs) = take (n * l + l) xs" by (simp add: take_add)
    then show ?case using Suc by (simp add: slice_def add.commute)
  qed simp
  moreover have "length xs \<le> (length xs + l - 1) div l * l"
  proof -
    have "length xs + l - 1 < ((length xs + l - 1) div l + 1) * l"
      using assms by (metis Suc_eq_plus1 dividend_less_div_times mult.commute mult_Suc_right add.commute)
    then show ?thesis by (simp add: algebra_simps)
  qed
  ultimately show ?thesis by simp
qed

lemma sum_by_key:
  fixes g :: "'a \<Rightarrow> 'b::comm_monoid_add"
  assumes "distinct ks" "f ` set xs \<subseteq> set ks"
  shows "sum_list (map (\<lambda>k. sum_list (map g (filter (\<lambda>x. f x = k) xs))) ks) = sum_list (map g xs)"
  using assms(2)
proof (induction xs)
  case Nil
  show ?case by (induction ks) simp_all
next
  case (Cons x xs)
  have "sum_list (map (\<lambda>k. sum_list (map g (filter (\<lambda>y. f y = k) (x # xs)))) ks) =
      sum_list (map (\<lambda>k. (if f x = k then g x else 0) + sum_list (map g (filter (\<lambda>y. f y = k) xs))) ks)"
    by (intro arg_cong [where f = sum_list] map_cong) auto
  also have "\<dots> = sum_list (map (\<lambda>k. if f x = k then g x else 0) ks) +
      sum_list (map (\<lambda>k. sum_list (map g (filter (\<lambda>y. f y = k) xs))) ks)"
    by (induction ks) (simp_all add: algebra_simps)
  also have "sum_list (map (\<lambda>k. if f x = k then g x else 0) ks) = g x"
    using assms(1) Cons.prems by (simp add: sum_list_distinct_conv_sum_set)
  finally show ?case using Cons by simp
qed

lemma count_by_key:
  assumes "distinct ks" "f ` set xs \<subseteq> set ks"
  shows "sum_list (map (\<lambda>k. length (filter (\<lambda>x. f x = k) xs)) ks) = length xs"
  using sum_by_key [OF assms, of "\<lambda>_. 1 :: nat"] by (simp add: sum_list_triv)

lemma row_orders: "map or_order (withPaymentMethods store d ords) = ords"
  by (simp add: withPaymentMethods_def Let_def o_def)

text \<open>Going through the pages of the panel's listing, whatever its filters, order and page size, shows every order that matches them
  once and no other.
\<close>

theorem pages_show_every_order_once:
  fixes collate :: collation and unaccent :: "string \<Rightarrow> string" and store :: "string option" and customers :: "customer list" and d :: db
  assumes "oq_limit q = Some l" and "0 < l"
  defines "page \<equiv> \<lambda>p. findAllAdmin collate unaccent store customers d (q\<lparr>oq_page := Some p\<rparr>)"
  shows "mset (concat (map (\<lambda>p. map or_order (pg_data (page p))) [1..<Suc (pg_pages (page 1))])) =
      mset (filter (\<lambda>ord. \<not> o_deleted ord \<and> aplicarFiltros unaccent customers d q ord) (d_orders d)) \<and>
    pg_total (page n) = length (filter (\<lambda>ord. \<not> o_deleted ord \<and> aplicarFiltros unaccent customers d q ord) (d_orders d))"
proof -
  have same: "filtered_orders unaccent customers d (q\<lparr>oq_page := x\<rparr>) = filtered_orders unaccent customers d q" for x
    by (simp add: filtered_orders_def aplicarFiltros_def)
  have cmp: "cmp_order collate (q\<lparr>oq_page := x\<rparr>) = cmp_order collate q" for x
    by (simp add: cmp_order_def fun_eq_iff)
  let ?xs = "js_sort (cmp_order collate q) (filtered_orders unaccent customers d q)"
  have len: "length ?xs = length (filtered_orders unaccent customers d q)"
    by (metis mset_js_sort size_mset)
  have p: "map or_order (pg_data (page p)) = slice ((p - 1) * l) l ?xs" "pg_pages (page p) = (length ?xs + l - 1) div l"
    "pg_total (page p) = length ?xs" for p
    using assms(1) by (simp_all add: page_def findAllAdmin_def getPaginationParams_def buildPaginatedResponse_def given_or_def
        same cmp row_orders Let_def)
  have "concat (map (\<lambda>p. map or_order (pg_data (page p))) [1..<Suc (pg_pages (page 1))]) = ?xs"
    unfolding p by (rule pages_of_rows [OF assms(2)])
  then show ?thesis
    by (simp only: p len) (simp only: filtered_orders_def mset_js_sort simp_thms)
qed

subsection \<open>Rows, totals and summary\<close>

lemma totals_add_up:
  assumes "totals = totalesForReport unaccent customers d q" and "found = filtered_orders unaccent customers d q"
  shows "sum_list (map tr_count totals) = length found" and "sum_list (map tr_amount totals) = sum_list (map o_total found)"
    and "distinct (map tr_status totals)"
    and "\<And>t. t \<in> set totals \<Longrightarrow> tr_count t = length (filter (\<lambda>x. o_status x = tr_status t) found)"
proof -
  let ?ks = "filter (\<lambda>s. filter (\<lambda>x. o_status x = s) found \<noteq> []) all_statuses"
  have all: "set all_statuses = UNIV" "distinct all_statuses"
    by (auto simp: all_statuses_def intro: order_status.exhaust)
  have ks: "distinct ?ks" "o_status ` set found \<subseteq> set ?ks"
    using all by (auto simp: filter_empty_conv)
  show "sum_list (map tr_count totals) = length found" "sum_list (map tr_amount totals) = sum_list (map o_total found)"
    using count_by_key [OF ks] sum_by_key [OF ks, of o_total] assms by (simp_all add: totalesForReport_def Let_def o_def)
  show "distinct (map tr_status totals)" using ks(1) assms by (simp add: totalesForReport_def Let_def o_def)
  show "\<And>t. t \<in> set totals \<Longrightarrow> tr_count t = length (filter (\<lambda>x. o_status x = tr_status t) found)"
    using assms by (auto simp: totalesForReport_def Let_def)
qed

lemma summary_adds_up:
  assumes "resumenPorPeriodo unaccent customers d q p = Inr filas" and "found = filtered_orders unaccent customers d q"
  shows "sum_list (map (\<lambda>f. fst (snd f)) filas) = length found"
    and "sum_list (map (\<lambda>f. snd (snd f)) filas) = sum_list (map o_total found)"
proof -
  let ?start = "\<lambda>x. date_trunc p (o_created_at x)"
  let ?ks = "js_sort (\<lambda>a b. a - b) (js_set (map ?start found))"
  have ks: "distinct ?ks" "?start ` set found \<subseteq> set ?ks"
    using distinct_js_sort [where f = id and cmp = "\<lambda>a b. a - b" and xs = "js_set (map ?start found)"] by (simp_all add: set_js_set)
  have f: "filas = map (\<lambda>t. (iso_string t, length (filter (\<lambda>x. ?start x = t) found), sum_list (map o_total (filter (\<lambda>x. ?start x = t) found)))) ?ks"
    using assms by (auto simp: resumenPorPeriodo_def Let_def bindE_eq_Inr guardE_eq_Inr)
  show "sum_list (map (\<lambda>f. fst (snd f)) filas) = length found"
    "sum_list (map (\<lambda>f. snd (snd f)) filas) = sum_list (map o_total found)"
    using count_by_key [OF ks] sum_by_key [OF ks, of o_total] by (simp_all add: f o_def)
qed

lemma report_amount_exact:
  assumes "\<forall>t \<in> set totals. 0 \<le> tr_amount t" and "sum_list (map tr_amount totals) < 10 ^ 12" and "length totals \<le> 1000"
  shows "report_amount totals = sum_list (map tr_amount totals)"
proof -
  have "foldl (\<lambda>s t. js_add s (dec_num (tr_amount t))) 0 totals = foldl (\<lambda>s c. js_add s (dec_num c)) 0 (map tr_amount totals)"
    by (simp add: foldl_map)
  moreover define S where "S = foldl (\<lambda>s c. js_add s (dec_num c)) 0 (map tr_amount totals)"
  ultimately have amount: "report_amount totals = to_fixed2 S" by (simp add: report_amount_def)
  have "of_nat (length totals) * (3 * 10 ^ 10 / 2 ^ 53) \<le> 1000 * (3 * 10 ^ 10 / 2 ^ 53 :: rat)"
    using assms(3) by (intro mult_right_mono) simp_all
  then have "\<bar>S - of_int (sum_list (map tr_amount totals)) / 100\<bar> \<le> 1 / 250"
    using js_sum_near [of "map tr_amount totals"] assms by (simp add: S_def)
  then have "\<bar>S * 100 - of_int (sum_list (map tr_amount totals))\<bar> < 1 / 2" by linarith
  then show ?thesis unfolding amount by (rule to_fixed2_near)
qed

text \<open>Newest first.\<close>

lemma newest_sorted: "sorted_wrt (\<lambda>a b. o_created_at b \<le> o_created_at a) (js_sort newest_order_first xs)"
proof -
  have "sorted_wrt (\<lambda>a b. newest_order_first a b \<le> 0) (js_sort newest_order_first xs)"
    by (rule sorted_js_sort) (auto simp: newest_order_first_def split: if_splits)
  then show ?thesis by (rule sorted_wrt_mono_rel [rotated]) (auto simp: newest_order_first_def split: if_splits)
qed

text \<open>C32: The parts of a report tell the same. The totals by status, one row for each status there is, and the summary by period count
  the orders that match the filters and add up their totals to the cent, also when there are more than fit in the rows. The rows are
  the newest of those orders, newest first, up to 5000: all of them when they are no more, marked as cut when they are, and
  then no order left out is newer than one of the rows. The number told is the one the listing shows; and the amount in the mail, added
  in floating point, is exact for totals below ten thousand million.
\<close>

theorem report_agrees_with_itself:
  assumes "report_of unaccent store customers d q (Some p) = Inr (rows, totals, periods)"
    and "\<forall>ord \<in> set (d_orders d). 0 \<le> o_total ord" and "sum_list (map o_total (filtered_orders unaccent customers d q)) < 10 ^ 12"
  defines "found \<equiv> filtered_orders unaccent customers d q"
  shows "sum_list (map tr_count totals) = length found \<and> sum_list (map tr_amount totals) = sum_list (map o_total found) \<and>
    distinct (map tr_status totals) \<and>
    sum_list (map (\<lambda>f. fst (snd f)) periods) = length found \<and> sum_list (map (\<lambda>f. snd (snd f)) periods) = sum_list (map o_total found) \<and>
    rp_total rows = length found \<and> (\<forall>collate. pg_total (findAllAdmin collate unaccent store customers d q) = length found) \<and>
    (rp_cut rows \<longleftrightarrow> TOPE_DEL_REPORTE < length found) \<and>
    (\<exists>left_out. mset (map or_order (rp_orders rows) @ left_out) = mset found \<and>
       sorted_wrt (\<lambda>a b. o_created_at b \<le> o_created_at a) (map or_order (rp_orders rows) @ left_out) \<and>
       length (rp_orders rows) = min TOPE_DEL_REPORTE (length found) \<and> (\<not> rp_cut rows \<longrightarrow> left_out = [])) \<and>
    report_amount totals = sum_list (map o_total found)"
proof -
  have t: "totals = totalesForReport unaccent customers d q" and s: "resumenPorPeriodo unaccent customers d q p = Inr periods"
    and r: "rows = findAllForReport unaccent store customers d q TOPE_DEL_REPORTE"
    using assms(1) by (auto simp: report_of_def bindE_eq_Inr)
  note tot = totals_add_up [OF t found_def [THEN meta_eq_to_obj_eq]]
  have nonneg: "0 \<le> tr_amount t" if "t \<in> set totals" for t
    using that assms(2)
    by (auto simp: t totalesForReport_def Let_def filtered_orders_def intro!: sum_list_nonneg)
  have "length totals = length (filter (\<lambda>s. filter (\<lambda>x. o_status x = s) found \<noteq> []) all_statuses)"
    by (simp add: t totalesForReport_def Let_def found_def)
  also have "\<dots> \<le> 1000"
    by (rule order_trans [OF length_filter_le]) (simp add: all_statuses_def)
  finally have "report_amount totals = sum_list (map tr_amount totals)"
    using report_amount_exact [of totals] nonneg tot(2) assms(3) by (simp add: found_def)
  moreover have len: "length (js_sort cmp found) = length found" for cmp
    by (metis mset_js_sort size_mset)
  moreover have "\<exists>left_out. mset (map or_order (rp_orders rows) @ left_out) = mset found \<and>
       sorted_wrt (\<lambda>a b. o_created_at b \<le> o_created_at a) (map or_order (rp_orders rows) @ left_out) \<and>
       length (rp_orders rows) = min TOPE_DEL_REPORTE (length found) \<and> (\<not> rp_cut rows \<longrightarrow> left_out = [])"
  proof -
    let ?all = "js_sort newest_order_first found"
    have shown: "map or_order (rp_orders rows) = take TOPE_DEL_REPORTE ?all"
      by (simp add: r findAllForReport_def Let_def row_orders found_def)
    from arg_cong [OF this, of length] have "length (rp_orders rows) = min TOPE_DEL_REPORTE (length found)"
      using len by (simp add: min.commute)
    moreover have "rp_cut rows \<longleftrightarrow> TOPE_DEL_REPORTE < length found"
      using len by (simp add: r findAllForReport_def Let_def found_def)
    ultimately show ?thesis
      using newest_sorted [of found] len
      by (intro exI [of _ "drop TOPE_DEL_REPORTE ?all"]) (simp add: shown mset_js_sort del: mset_append)
  qed
  ultimately show ?thesis
    using tot summary_adds_up [OF s found_def [THEN meta_eq_to_obj_eq]]
    by (auto simp: r findAllForReport_def Let_def row_orders findAllAdmin_def getPaginationParams_def buildPaginatedResponse_def
        found_def [symmetric])
qed

subsection \<open>Filters and columns\<close>

text \<open>Sorting and picking rows commute: \<open>Array.prototype.sort\<close> and \<open>ORDER BY\<close> by a total preorder.\<close>

lemma filter_insert_cmp:
  assumes "sorted_wrt (\<lambda>a b. cmp a b \<le> 0) ys" and trans: "\<And>a b c. cmp a b \<le> 0 \<Longrightarrow> cmp b c \<le> 0 \<Longrightarrow> cmp a c \<le> 0"
  shows "filter P (insert_cmp cmp x ys) = (if P x then insert_cmp cmp x (filter P ys) else filter P ys)"
  using assms(1)
proof (induction ys)
  case (Cons y ys)
  show ?case
  proof (cases "cmp x y \<le> 0")
    case True
    have "insert_cmp cmp x zs = x # zs" if "set zs \<subseteq> set ys" for zs
      using that Cons.prems trans [OF True] by (cases zs) auto
    then show ?thesis using True by simp
  qed (use Cons in auto)
qed simp

lemma filter_js_sort:
  assumes "\<And>a b. cmp a b \<le> 0 \<or> cmp b a \<le> 0" and "\<And>a b c. cmp a b \<le> 0 \<Longrightarrow> cmp b c \<le> 0 \<Longrightarrow> cmp a c \<le> 0"
  shows "filter P (js_sort cmp xs) = js_sort cmp (filter P xs)"
proof (induction xs)
  case (Cons x xs)
  have "sorted_wrt (\<lambda>a b. cmp a b \<le> 0) (js_sort cmp xs)" using assms by (rule sorted_js_sort)
  then show ?case
    using filter_insert_cmp [OF _ assms(2), where P = P and x = x] Cons by (simp add: js_sort_def)
qed (simp add: js_sort_def)

lemma first_charges:
  "jm_get k (fold (\<lambda>c m. if jm_get (ch_order c) m = None then jm_set (ch_order c) c m else m) cs m) =
     (case jm_get k m of Some v \<Rightarrow> Some v | None \<Rightarrow> List.find (\<lambda>c. ch_order c = k) cs)"
  by (induction cs arbitrary: m) (auto simp: jm_get_set split: option.splits)

lemma find_as_filter: "List.find P xs = (case filter P xs of [] \<Rightarrow> None | x # _ \<Rightarrow> Some x)"
  by (induction xs) auto

lemma latestChargesFor_get:
  assumes "oid \<in> set oids"
  shows "jm_get oid (latestChargesFor d oids) = (case newest_charges d oid of [] \<Rightarrow> None | c # _ \<Rightarrow> Some c)"
proof -
  have "filter (\<lambda>c. ch_order c = oid) (js_sort newest_first (filter (\<lambda>c. ch_order c \<in> set oids) (d_charges d))) =
      js_sort newest_first (filter (\<lambda>c. ch_order c = oid) (filter (\<lambda>c. ch_order c \<in> set oids) (d_charges d)))"
    by (rule filter_js_sort) (auto simp: newest_first_def split: if_splits)
  also have "\<dots> = newest_charges d oid"
    using assms unfolding newest_charges_def by (intro arg_cong [where f = "js_sort newest_first"]) (auto intro: filter_cong)
  finally show ?thesis
    by (simp add: latestChargesFor_def first_charges find_as_filter)
qed

lemma jm_get_map: "jm_get k (map (\<lambda>(i, c). (i, f c)) m) = map_option f (jm_get k m)"
  by (induction m) auto

lemma latestMethodsFor_get:
  assumes "oid \<in> set oids"
  shows "jm_get oid (latestMethodsFor d oids) = (case newest_charges d oid of [] \<Rightarrow> None
     | c # _ \<Rightarrow> Some (ch_provider c, given_or (labelsByCode (d_methods d) (ch_provider c)) (ch_provider c)))"
  using latestChargesFor_get [OF assms, of d]
    jm_get_map [of oid "\<lambda>c. (ch_provider c, given_or (labelsByCode (d_methods d) (ch_provider c)) (ch_provider c))" "latestChargesFor d oids"]
  by (simp add: latestMethodsFor_def split: list.splits)

lemma needsTransferIds_iff:
  assumes "distinct (map o_id (d_orders d))" and "ord \<in> set (d_orders d)" and "o_id ord \<in> set oids"
  shows "o_id ord \<in> set (needsTransferIds d oids) \<longleftrightarrow> held_elsewhere (d_stock d) ord"
proof -
  have "x = ord" if "x \<in> set (d_orders d)" "o_id x = o_id ord" for x
    using that assms(1,2) by (metis distinct_map inj_onD)
  then show ?thesis
    using assms(2,3) by (fastforce simp: needsTransferIds_def held_elsewhere_def list_ex_iff set_js_set image_iff)
qed

lemma groups_keys:
  "fst ` set (fold (\<lambda>r m. jm_add (f r) (g r) m) rs m) = f ` set rs \<union> fst ` set m"
  by (induction rs arbitrary: m) (auto simp: jm_add_keys)

lemma storage_rows_iff:
  "(\<exists>row \<in> set (storage_rows collate d oid). sr_location row = l \<and> sr_held row = s) \<longleftrightarrow>
   (\<exists>r \<in> set (s_resv (d_stock d)). r_order r = oid \<and> r_status r = s \<and> s \<in> {Reserved, Confirmed} \<and> r_location r = l \<and>
      l \<in> loc_id ` set (l_locations (d_storage d)))"
proof -
  let ?rs = "filter (\<lambda>r. r_order r = oid \<and> r_status r \<in> {Reserved, Confirmed} \<and>
    r_location r \<in> loc_id ` set (l_locations (d_storage d))) (s_resv (d_stock d))"
  let ?gs = "fold (\<lambda>r m. jm_add (r_location r, r_product r, r_status r) (r_quantity r) m) ?rs []"
  have "(\<exists>row \<in> set (storage_rows collate d oid). sr_location row = l \<and> sr_held row = s) \<longleftrightarrow> (\<exists>p. (l, p, s) \<in> fst ` set ?gs)"
    by (force simp: storage_rows_def Let_def)
  also have "\<dots> \<longleftrightarrow> (\<exists>p. (l, p, s) \<in> (\<lambda>r. (r_location r, r_product r, r_status r)) ` set ?rs)"
    by (simp add: groups_keys)
  finally show ?thesis by auto
qed

lemma add_transfer_some: "fold (add_transfer f) rows m = [] \<longleftrightarrow> rows = [] \<and> m = []"
proof (induction rows arbitrary: m)
  case (Cons row rows)
  have "jm_set k v m \<noteq> []" for k and v :: pending_transfer
    by (cases m) (auto split: if_splits)
  then show ?case using Cons by (simp add: add_transfer_def Let_def)
qed simp

lemma pendingTransfers_some:
  assumes "o_fulfillment ord = PICKUP" and "o_pickup_location ord \<noteq> None"
    and "\<forall>r \<in> set (s_resv (d_stock d)). r_location r \<in> loc_id ` set (l_locations (d_storage d))"
  shows "pendingTransfers collate d ord \<noteq> [] \<longleftrightarrow> held_elsewhere (d_stock d) ord"
proof -
  obtain home where home: "o_pickup_location ord = Some home" using assms(2) by blast
  have "pendingTransfers collate d ord \<noteq> [] \<longleftrightarrow>
      (\<exists>l. \<exists>row \<in> set (storage_rows collate d (o_id ord)). sr_location row = l \<and> sr_held row = Reserved \<and> l \<noteq> home)"
    by (auto simp: pendingTransfers_def Let_def add_transfer_some filter_empty_conv home)
  also have "\<dots> \<longleftrightarrow> (\<exists>l. (\<exists>row \<in> set (storage_rows collate d (o_id ord)). sr_location row = l \<and> sr_held row = Reserved) \<and> l \<noteq> home)"
    by blast
  also have "\<dots> \<longleftrightarrow> held_elsewhere (d_stock d) ord"
    unfolding storage_rows_iff using assms(1,3) by (simp add: held_elsewhere_def list_ex_iff home) blast
  finally show ?thesis .
qed

text \<open>C33: What the filters of the listing select is what its columns show. An order passes the filter by method exactly when the row shows
  that method (the filter \<open>none\<close>, when it shows none), and the filter by transfer exactly when the row has the flag and when the
  detail of the order does; the detail shows the method of the row. For a pick-up the order must know its counter, and the storages
  that hold its stock must exist.
\<close>

theorem filters_match_the_columns:
  assumes "distinct (map o_id (d_orders d))" and "ord \<in> set (d_orders d)"
    and "o_fulfillment ord = PICKUP \<Longrightarrow> o_pickup_location ord \<noteq> None"
    and "\<forall>r \<in> set (s_resv (d_stock d)). r_location r \<in> loc_id ` set (l_locations (d_storage d))"
    and "row \<in> set (withPaymentMethods store d shown)" and "or_order row = ord"
    and "findOneAdmin collate d (o_id ord) = Inr detail"
  shows "(matches_method d code ord \<longleftrightarrow>
      (if code = SIN_METODO_DE_PAGO then or_method row = None else map_option fst (or_method row) = Some code)) \<and>
    od_method detail = or_method row \<and>
    (held_elsewhere (d_stock d) ord \<longleftrightarrow> or_transfer row) \<and> (held_elsewhere (d_stock d) ord \<longleftrightarrow> od_transfer detail = Some True)"
proof -
  have ids: "o_id ord \<in> set (map o_id shown)" using assms(5,6) by (auto simp: withPaymentMethods_def Let_def)
  have row: "or_method row = jm_get (o_id ord) (latestMethodsFor d (map o_id shown))"
    "or_transfer row \<longleftrightarrow> o_id ord \<in> set (needsTransferIds d (map o_id shown))"
    using assms(5,6) by (auto simp: withPaymentMethods_def Let_def)
  have "List.find (\<lambda>x. o_id x = o_id ord) (d_orders d) = Some ord"
    using assms(1,2) by (metis find_distinct_key)
  then have detail: "detail = attachReservationStorages collate d (plain_detail d ord)"
    using assms(7) by (auto simp: findOneAdmin_def bindE_eq_Inr)
  have none: "newest_charges d (o_id ord) = [] \<longleftrightarrow> \<not> list_ex (\<lambda>c. ch_order c = o_id ord) (d_charges d)"
    using mset_js_sort [of newest_first "filter (\<lambda>c. ch_order c = o_id ord) (d_charges d)"]
    by (auto simp: newest_charges_def list_ex_iff filter_empty_conv simp flip: set_empty)
  have "matches_method d code ord \<longleftrightarrow>
      (if code = SIN_METODO_DE_PAGO then or_method row = None else map_option fst (or_method row) = Some code)"
    unfolding row latestMethodsFor_get [OF ids] matches_method_def none [symmetric] by (auto split: list.splits)
  moreover have "od_method detail = or_method row"
    unfolding row latestMethodsFor_get [OF ids]
    using latestMethodsFor_get [of "o_id ord" "[o_id ord]" d]
    by (simp add: detail attachReservationStorages_def plain_detail_def Let_def)
  moreover have "held_elsewhere (d_stock d) ord \<longleftrightarrow> or_transfer row"
    unfolding row using needsTransferIds_iff [OF assms(1,2) ids] by simp
  moreover have "held_elsewhere (d_stock d) ord \<longleftrightarrow> od_transfer detail = Some True"
  proof (cases "o_fulfillment ord = PICKUP")
    case True
    then show ?thesis
      using pendingTransfers_some [OF True assms(3) [OF True] assms(4)]
      by (auto simp: detail attachReservationStorages_def plain_detail_def Let_def)
  next
    case False
    then show ?thesis by (simp add: held_elsewhere_def detail attachReservationStorages_def plain_detail_def Let_def)
  qed
  ultimately show ?thesis by blast
qed

subsection \<open>The days of a report\<close>

text \<open>The range of a listing or report counts days in UTC, although the times it prints are those of Havana. An order placed in the
  evening of the last day of the range, past midnight in UTC, is left out and the summary puts it on the next day; one placed in the
  evening before the first day is taken in. Two reports that meet at a day of the shop share no order, but the orders of that
  evening are in the wrong one.
\<close>

theorem report_days_are_of_UTC:
  assumes "hv_date hv (o_created_at ord) = day" and "(utc_days day + 1) * one_day \<le> o_created_at ord"
    and "o_created_at ord < (utc_days day + 2) * one_day"
  shows "(oq_to q = Some (utc_days day * one_day) \<longrightarrow> \<not> aplicarFiltros unaccent customers d q ord) \<and>
    (oq_from q = Some ((utc_days day + 1) * one_day) \<longrightarrow>
       aplicarFiltros unaccent customers d q ord = aplicarFiltros unaccent customers d (q\<lparr>oq_from := None\<rparr>) ord) \<and>
    date_trunc ''day'' (o_created_at ord) = (utc_days day + 1) * one_day"
proof -
  have "end_of_day (utc_days day * one_day) < o_created_at ord"
    using assms(2) by (simp add: end_of_day_def one_day_def algebra_simps)
  moreover have "o_created_at ord div one_day = utc_days day + 1"
    by (rule int_div_pos_eq [where r = "o_created_at ord - (utc_days day + 1) * one_day"])
      (use assms(2,3) in \<open>simp_all add: one_day_def algebra_simps\<close>)
  ultimately show ?thesis
    using assms(2) by (auto simp: aplicarFiltros_def when_given_def date_trunc_def Let_def)
qed

subsection \<open>Who gets the report\<close>

definition role_people :: "people \<Rightarrow> id list \<Rightarrow> account set" where
  "role_people w roleIds = (\<Union>rid \<in> set roleIds. set (snd (role_members w rid)))"

lemma add_role_effect:
  "ad_email ` set (ae_detail (add_role w rid acc)) = ad_email ` set (ae_detail acc) \<union>
     (\<lambda>u. cleaned (given_or (us_email u) [])) ` {u \<in> set (snd (role_members w rid)). why_left_out u = None}"
  "set (ae_left_out acc) \<subseteq> set (ae_left_out (add_role w rid acc))"
  "u \<in> set (snd (role_members w rid)) \<Longrightarrow> why_left_out u = Some reason \<Longrightarrow>
     \<exists>shown. (or_old (account_name u) (non_empty (us_email u)), shown, reason) \<in> set (ae_left_out (add_role w rid acc))"
  by (auto simp: add_role_def Let_def image_Un image_image split: prod.splits option.splits)
    (force simp: filter_empty_conv)+

lemma add_roles_effect:
  "ad_email ` set (ae_detail (fold (add_role w) rids acc)) = ad_email ` set (ae_detail acc) \<union>
     (\<lambda>u. cleaned (given_or (us_email u) [])) ` {u \<in> role_people w rids. why_left_out u = None}"
  "set (ae_left_out acc) \<subseteq> set (ae_left_out (fold (add_role w) rids acc))"
  "u \<in> role_people w rids \<Longrightarrow> why_left_out u = Some reason \<Longrightarrow>
     \<exists>shown. (or_old (account_name u) (non_empty (us_email u)), shown, reason) \<in> set (ae_left_out (fold (add_role w) rids acc))"
proof -
  show a: "set (ae_left_out acc) \<subseteq> set (ae_left_out (fold (add_role w) rids acc))" for acc
    by (induction rids arbitrary: acc) (use add_role_effect(2) in \<open>fastforce+\<close>)
  show "ad_email ` set (ae_detail (fold (add_role w) rids acc)) = ad_email ` set (ae_detail acc) \<union>
     (\<lambda>u. cleaned (given_or (us_email u) [])) ` {u \<in> role_people w rids. why_left_out u = None}"
    by (induction rids arbitrary: acc) (auto simp: role_people_def add_role_effect(1))
  show "\<exists>shown. (or_old (account_name u) (non_empty (us_email u)), shown, reason) \<in> set (ae_left_out (fold (add_role w) rids acc))"
    if "u \<in> role_people w rids" "why_left_out u = Some reason"
    using that
  proof (induction rids arbitrary: acc)
    case (Cons rid rids)
    show ?case
    proof (cases "u \<in> set (snd (role_members w rid))")
      case True
      then obtain shown where "(or_old (account_name u) (non_empty (us_email u)), shown, reason) \<in> set (ae_left_out (add_role w rid acc))"
        using add_role_effect(3) Cons.prems(2) by blast
      moreover have "set (ae_left_out (add_role w rid acc)) \<subseteq> set (ae_left_out (fold (add_role w) rids (add_role w rid acc)))"
        by (induction rids arbitrary: acc rid) (use add_role_effect(2) in \<open>fastforce+\<close>)
      ultimately show ?thesis by auto
    next
      case False
      then show ?thesis using Cons by (simp add: role_people_def)
    qed
  qed (simp add: role_people_def)
qed

lemma first_of_each_effect:
  "distinct (map ad_email (first_of_each seen as)) \<and> ad_email ` set (first_of_each seen as) = ad_email ` set as - set seen"
  by (induction seen as rule: first_of_each.induct) auto

lemma enviar_effect:
  assumes "enviar w rendered file tos (rep, b) = (rep', b')"
  shows "mset (sn_sent rep' @ map fst (sn_failed rep')) = mset (sn_sent rep @ map fst (sn_failed rep)) + mset tos \<and>
    (\<exists>sent. sn_sent rep' = sn_sent rep @ map og_to sent \<and> mb_out b' = mb_out b @ sent)"
  using assms
proof (induction tos arbitrary: rep b)
  case Nil
  then show ?case by (cases rendered) simp
next
  case (Cons email rest)
  obtain subject body where c: "rendered = (subject, body)" by (cases rendered)
  let ?e = "\<lparr>og_to = email, og_subject = subject, og_body = body, og_template = ''orders_report'', og_order = None,
    og_files = [file], og_note = None\<rparr>"
  obtain res b1 where s: "send w ?e b = (res, b1)" by (cases "send w ?e b")
  note out = send_effect(1) [OF s]
  show ?case
  proof (cases "sr_status res = MailSent")
    case True
    have "enviar w rendered file rest (rep\<lparr>sn_sent := sn_sent rep @ [email]\<rparr>, b1) = (rep', b')"
      using Cons.prems s True by (simp add: c)
    from Cons.IH [OF this] True out show ?thesis by auto
  next
    case False
    have "enviar w rendered file rest (rep\<lparr>sn_failed := sn_failed rep @
        [(email, given_or (sr_error res) (''estado '' @ status_text (sr_status res)))]\<rparr>, b1) = (rep', b')"
      using Cons.prems s False by (simp add: c)
    from Cons.IH [OF this] False out show ?thesis by auto
  qed
qed

lemma enviarReporte_Inr:
  assumes "enviarReporte unaccent store customers d w mw pdf letter user q groupBy emails roleIds b = Inr ((sent, to), b')"
  obtains rendered attached where "to = resolver w emails roleIds"
    "enviar mw rendered attached (map ad_email (ae_detail to)) (\<lparr>sn_sent = [], sn_failed = []\<rparr>, b) = (sent, b')"
proof -
  obtain rep where rep: "report_of unaccent store customers d q groupBy = Inr rep"
    using assms by (auto simp: enviarReporte_def Let_def bindE_eq_Inr)
  let ?to = "resolver w emails roleIds"
  let ?letter = "letter (sum_list (map tr_count (fst (snd rep)))) (report_amount (fst (snd rep))) (or_old (account_name user) (non_empty (us_email user)))"
  obtain s1 b1 where e: "enviar mw ?letter (pdf rep q) (map ad_email (ae_detail ?to)) (\<lparr>sn_sent = [], sn_failed = []\<rparr>, b) = (s1, b1)"
    by (cases "enviar mw ?letter (pdf rep q) (map ad_email (ae_detail ?to)) (\<lparr>sn_sent = [], sn_failed = []\<rparr>, b)")
  have "s1 = sent \<and> ?to = to \<and> b1 = b'"
    using assms by (auto simp: enviarReporte_def Let_def bindE_eq_Inr rep e)
  then show ?thesis using that e by auto
qed

text \<open>C34: A report sent by mail goes to the addresses that were typed and to the members of the chosen roles whose account is active, not
  deleted and has an address, each address once, and to nobody else. Every other member of those roles is named in the answer with
  the reason. Each address ends up in exactly one of the two lists of the answer, and those said to be sent are the mails the
  provider accepted.
\<close>

theorem report_reaches_its_addressees:
  assumes "enviarReporte unaccent store customers d w mw pdf letter user q groupBy emails roleIds b = Inr ((sent, to), b')"
  shows "distinct (map ad_email (ae_detail to)) \<and>
    ad_email ` set (ae_detail to) = (cleaned ` set emails - {[]}) \<union>
      {cleaned (given_or (us_email u) []) |u. u \<in> role_people w roleIds \<and> us_active u \<and> \<not> us_deleted u \<and> given_or (us_email u) [] \<noteq> []} \<and>
    (\<forall>u \<in> role_people w roleIds. \<forall>reason. why_left_out u = Some reason \<longrightarrow>
       (\<exists>shown. (or_old (account_name u) (non_empty (us_email u)), shown, reason) \<in> set (ae_left_out to))) \<and>
    mset (sn_sent sent @ map fst (sn_failed sent)) = mset (map ad_email (ae_detail to)) \<and>
    map og_to (mb_out b') = map og_to (mb_out b) @ sn_sent sent"
proof -
  let ?typed = "map (\<lambda>e. \<lparr>ad_email = e, ad_name = None, ad_reason = ''escrito a mano''\<rparr>) (filter (\<lambda>e. e \<noteq> []) (map cleaned emails))"
  let ?acc = "fold (add_role w) (js_set roleIds) \<lparr>ae_detail = ?typed, ae_empty_roles = [], ae_left_out = []\<rparr>"
  obtain rendered attached where to: "to = resolver w emails roleIds"
    and e: "enviar mw rendered attached (map ad_email (ae_detail to)) (\<lparr>sn_sent = [], sn_failed = []\<rparr>, b) = (sent, b')"
    using assms by (rule enviarReporte_Inr)
  from to have detail: "ae_detail to = first_of_each [] (ae_detail ?acc)" and out: "ae_left_out to = ae_left_out ?acc"
    by (simp_all add: resolver_def Let_def)
  have roles: "role_people w (js_set roleIds) = role_people w roleIds" by (simp add: role_people_def set_js_set)
  have good: "why_left_out u = None \<longleftrightarrow> us_active u \<and> \<not> us_deleted u \<and> given_or (us_email u) [] \<noteq> []" for u
    by (auto simp: why_left_out_def)
  have typed: "ad_email ` set ?typed = cleaned ` set emails - {[]}" by (auto simp: image_image)
  have "ad_email ` set (ae_detail to) = (cleaned ` set emails - {[]}) \<union>
      (\<lambda>u. cleaned (given_or (us_email u) [])) ` {u \<in> role_people w roleIds. why_left_out u = None}"
    using first_of_each_effect [of "[]" "ae_detail ?acc"] add_roles_effect(1) [of w "js_set roleIds"] typed by (simp add: detail roles)
  then have "ad_email ` set (ae_detail to) = (cleaned ` set emails - {[]}) \<union>
      {cleaned (given_or (us_email u) []) |u. u \<in> role_people w roleIds \<and> us_active u \<and> \<not> us_deleted u \<and> given_or (us_email u) [] \<noteq> []}"
    unfolding good by blast
  moreover have "distinct (map ad_email (ae_detail to))"
    using first_of_each_effect by (simp add: detail)
  moreover have "\<exists>shown. (or_old (account_name u) (non_empty (us_email u)), shown, reason) \<in> set (ae_left_out to)"
    if "u \<in> role_people w roleIds" "why_left_out u = Some reason" for u reason
    unfolding out using add_roles_effect(3) that by (simp add: roles)
  ultimately show ?thesis
    using enviar_effect [OF e] by auto
qed

subsection \<open>Samples\<close>

definition any_query :: order_query where
  "any_query = \<lparr>oq_ids = None, oq_client = None, oq_q = None, oq_status = None, oq_payment = None, oq_method = None, oq_from = None,
     oq_to = None, oq_fulfillment = None, oq_pickup = None, oq_min = None, oq_max = None, oq_transfer = False, oq_sort = None,
     oq_ascending = False, oq_page = None, oq_limit = None\<rparr>"

lemma sample_found: "filtered_orders unaccent customers paid_db any_query = [sample_order]"
  by (simp add: filtered_orders_def aplicarFiltros_def any_query_def when_given_def non_empty_def paid_db_def sample_order_def)

theorem pages_show_every_order_once_witness:
  "mset (concat (map (\<lambda>p. map or_order (pg_data (findAllAdmin sample_collate id None [] paid_db (any_query\<lparr>oq_limit := Some 20, oq_page := Some p\<rparr>))))
     [1..<Suc (pg_pages (findAllAdmin sample_collate id None [] paid_db (any_query\<lparr>oq_limit := Some 20, oq_page := Some 1\<rparr>)))])) = {#sample_order#}"
proof -
  have l: "oq_limit (any_query\<lparr>oq_limit := Some 20\<rparr>) = Some 20" by simp
  have "filter (\<lambda>ord. \<not> o_deleted ord \<and> aplicarFiltros id [] paid_db (any_query\<lparr>oq_limit := Some 20\<rparr>) ord) (d_orders paid_db) = [sample_order]"
    by (simp add: aplicarFiltros_def any_query_def when_given_def non_empty_def paid_db_def sample_order_def)
  then show ?thesis
    using pages_show_every_order_once [OF l, of sample_collate id None "[]" paid_db] by simp
qed

theorem report_agrees_with_itself_witness:
  "\<exists>rows totals periods. report_of id None [] paid_db any_query (Some ''month'') = Inr (rows, totals, periods) \<and>
     sum_list (map tr_amount totals) = 6000 \<and> report_amount totals = 6000 \<and> sum_list (map (\<lambda>f. snd (snd f)) periods) = 6000"
proof -
  obtain periods where "resumenPorPeriodo id [] paid_db any_query ''month'' = Inr periods"
    by (simp add: resumenPorPeriodo_def PERIODOS_def guardE_def bindE_def Let_def)
  then obtain rows totals where r: "report_of id None [] paid_db any_query (Some ''month'') = Inr (rows, totals, periods)"
    by (simp add: report_of_def bindE_def)
  have pos: "\<forall>ord \<in> set (d_orders paid_db). 0 \<le> o_total ord" by (simp add: paid_db_def sample_order_def)
  have small: "sum_list (map o_total (filtered_orders id [] paid_db any_query)) < 10 ^ 12"
    and sum: "sum_list (map o_total (filtered_orders id [] paid_db any_query)) = 6000"
    by (simp_all only: sample_found) (simp_all add: sample_order_def)
  show ?thesis using report_agrees_with_itself [OF r pos small] r sum by auto
qed

theorem filters_match_the_columns_witness:
  "\<exists>detail. findOneAdmin sample_collate paid_db 70 = Inr detail \<and> matches_method paid_db ''none'' sample_order \<and> od_method detail = None"
proof -
  define detail where "detail = attachReservationStorages sample_collate paid_db (plain_detail paid_db sample_order)"
  have d: "distinct (map o_id (d_orders paid_db))" "sample_order \<in> set (d_orders paid_db)"
    and home: "o_fulfillment sample_order = PICKUP \<Longrightarrow> o_pickup_location sample_order \<noteq> None"
    by (simp_all add: paid_db_def sample_order_def)
  have known: "\<forall>r \<in> set (s_resv (d_stock paid_db)). r_location r \<in> loc_id ` set (l_locations (d_storage paid_db))"
    by code_simp
  define row where "row = hd (withPaymentMethods None paid_db [sample_order])"
  have row: "row \<in> set (withPaymentMethods None paid_db [sample_order])" "or_order row = sample_order"
    by (simp_all add: row_def withPaymentMethods_def Let_def)
  have found: "findOneAdmin sample_collate paid_db (o_id sample_order) = Inr detail"
    by (simp add: findOneAdmin_def paid_db_def sample_order_def detail_def guardE_def bindE_def)
  have "matches_method paid_db SIN_METODO_DE_PAGO sample_order"
    by (simp add: matches_method_def paid_db_def sample_db_def)
  then show ?thesis
    using filters_match_the_columns [OF d home known row found, where code = SIN_METODO_DE_PAGO] found
    by (auto simp: SIN_METODO_DE_PAGO_def sample_order_def)
qed

text \<open>An order of ten in the evening of the 24th of September 2026 in Havana, two in the morning of the 25th in UTC.\<close>

definition havana_summer :: havana where
  "havana_summer = \<lparr>hv_date = (\<lambda>t. civil_date ((t - 14400000) div 86400000)), hv_offset = (\<lambda>_. - 14400000)\<rparr>"

definition evening_order :: order where
  "evening_order = sample_order\<lparr>o_created_at := utc_days (2026, 9, 25) * one_day + 7200000\<rparr>"

theorem report_days_are_of_UTC_witness:
  "hv_date havana_summer (o_created_at evening_order) = (2026, 9, 24) \<and>
   \<not> aplicarFiltros id [] paid_db (any_query\<lparr>oq_to := Some (utc_days (2026, 9, 24) * one_day)\<rparr>) evening_order"
proof -
  have day: "hv_date havana_summer (o_created_at evening_order) = (2026, 9, 24)" by code_simp
  have late: "(utc_days (2026, 9, 24) + 1) * one_day \<le> o_created_at evening_order"
    "o_created_at evening_order < (utc_days (2026, 9, 24) + 2) * one_day"
    by code_simp+
  show ?thesis
    using report_days_are_of_UTC [OF day late, where q = "any_query\<lparr>oq_to := Some (utc_days (2026, 9, 24) * one_day)\<rparr>"] day by simp
qed

definition nobody :: people where
  "nobody = \<lparr>pe_users = [], pe_invitations = [], pe_customers = [], pe_access = sample_access, pe_calls = [], pe_next = 1\<rparr>"

theorem report_reaches_its_addressees_witness:
  "\<exists>sent to b. enviarReporte id None [] paid_db nobody (mail_day 3) (\<lambda>_ _. (''reporte.pdf'', ''pdf'')) (\<lambda>_ _ _. (''Reporte'', Written [] []))
      (sample_account 1 ''ana'' SUPER_ADMIN True) any_query None [''Ana@Correo.cu '', ''ana@correo.cu''] [] empty_mailbox = Inr ((sent, to), b) \<and>
    ad_email ` set (ae_detail to) = {''ana@correo.cu''}"
proof -
  let ?run = "enviarReporte id None [] paid_db nobody (mail_day 3) (\<lambda>_ _. (''reporte.pdf'', ''pdf'')) (\<lambda>_ _ _. (''Reporte'', Written [] []))
      (sample_account 1 ''ana'' SUPER_ADMIN True) any_query None [''Ana@Correo.cu '', ''ana@correo.cu''] [] empty_mailbox"
  have c: "cleaned ''Ana@Correo.cu '' = ''ana@correo.cu''" "cleaned ''ana@correo.cu'' = ''ana@correo.cu''" by code_simp+
  then have "ae_detail (resolver nobody [''Ana@Correo.cu '', ''ana@correo.cu''] []) \<noteq> []"
    by (simp add: resolver_def Let_def js_set_def)
  then have "isl ?run = False"
    by (simp add: enviarReporte_def report_of_def Let_def bindE_def guardE_def case_prod_beta)
  then obtain sent to b where r: "?run = Inr ((sent, to), b)" by (cases ?run) auto
  have "cleaned ` set [''Ana@Correo.cu '', ''ana@correo.cu''] - {[]} = {''ana@correo.cu''}" by (simp add: c)
  then have "ad_email ` set (ae_detail to) = {''ana@correo.cu''}"
    using report_reaches_its_addressees [OF r] by (simp add: role_people_def)
  then show ?thesis using r by blast
qed

end
