(* ===== verification/Collections.thy ===== *)
theory Collections
  imports Listings_Laws Late_Payments
begin

section \<open>The money that came in\<close>

text \<open>
  \<open>src/payments/collections.service.ts\<close>: one row per order with payment activity, its charges beside it, and the totals of the
  period. The query is written as the rows it selects; of charges equal in outcome and time the first is taken. The database counts
  days in UTC.
\<close>

datatype collected = Cobrado | Pendiente | Reembolsado

datatype origin = FromGateway | ByHand

record collection_row =
  cr_order :: id
  cr_number :: "string option"
  cr_client :: id
  cr_client_name :: "string option"
  cr_date :: instant
  cr_amount :: cents
  cr_method :: "string option"
  cr_status :: collected
  cr_origin :: origin
  cr_unreconciled :: bool
  cr_reference :: "string option"

record collections_query =
  cq_from :: "instant option"
  cq_to :: "date option"
  cq_status :: "collected option"
  cq_origin :: "origin option"
  cq_method :: "string option"
  cq_page :: "nat option"
  cq_limit :: "nat option"

record collections_totals =
  ct_collected :: cents
  ct_pending :: cents
  ct_refunded :: cents
  ct_unreconciled :: nat
  ct_unreconciled_amount :: cents

record collections_page =
  cp_rows :: "collection_row list"
  cp_totals :: collections_totals
  cp_total :: nat
  cp_page :: nat
  cp_limit :: nat

subsection \<open>The charge of an order\<close>

definition succeeded_first :: "charge \<Rightarrow> charge \<Rightarrow> int" where
  "succeeded_first a b = (let x = ch_status a = ChSucceeded; y = ch_status b = ChSucceeded in
     if x \<noteq> y then (if x then - 1 else 1) else ch_created_at b - ch_created_at a)"

definition cobro_de :: "db \<Rightarrow> id \<Rightarrow> charge option" where
  "cobro_de d oid = (case js_sort succeeded_first (filter (\<lambda>c. ch_order c = oid) (d_charges d)) of [] \<Rightarrow> None | c # _ \<Rightarrow> Some c)"

definition con_exito :: "db \<Rightarrow> id \<Rightarrow> bool" where
  "con_exito d oid \<longleftrightarrow> list_ex (\<lambda>c. ch_order c = oid \<and> ch_status c = ChSucceeded) (d_charges d)"

text \<open>The newest event of the order that names a method of payment.\<close>

definition method_in_history :: "db \<Rightarrow> id \<Rightarrow> string option" where
  "method_in_history d oid =
     (let named = (\<lambda>e. non_empty (comoTextoOAusente (Option.bind (ev_meta e) (jm_get ''paymentMethod''))));
          found = js_sort (\<lambda>a b. ev_at b - ev_at a) (filter (\<lambda>e. ev_order e = oid \<and> named e \<noteq> None) (d_events d))
      in case found of [] \<Rightarrow> None | e # _ \<Rightarrow> named e)"

text \<open>\<open>trim\<close> of the database takes off spaces only.\<close>

definition sql_trim :: "string \<Rightarrow> string" where
  "sql_trim s = rev (dropWhile (\<lambda>c. c = CHR '' '') (rev (dropWhile (\<lambda>c. c = CHR '' '') s)))"

definition client_name :: "customer list \<Rightarrow> id \<Rightarrow> string option" where
  "client_name customers cid = (case List.find (\<lambda>c. cu_id c = cid) customers of
     None \<Rightarrow> None | Some c \<Rightarrow> non_empty (Some (sql_trim (given_or (cu_first c) [] @ '' '' @ given_or (cu_last c) []))))"

subsection \<open>Rows\<close>

definition base_row :: "customer list \<Rightarrow> db \<Rightarrow> order \<Rightarrow> collection_row" where
  "base_row customers d ord = (let c = cobro_de d (o_id ord) in
     \<lparr>cr_order = o_id ord, cr_number = o_number ord, cr_client = o_client ord, cr_client_name = client_name customers (o_client ord),
      cr_date = given_or (o_paid_at ord) (o_created_at ord), cr_amount = o_total ord,
      cr_method = or_old (map_option ch_provider c) (method_in_history d (o_id ord)),
      cr_status = (case o_payment ord of PayPaid \<Rightarrow> Cobrado | PayRefunded \<Rightarrow> Reembolsado | _ \<Rightarrow> Pendiente),
      cr_origin = (case c of None \<Rightarrow> ByHand | Some ch \<Rightarrow> if ch_provider ch = ''manual'' then ByHand else FromGateway),
      cr_unreconciled = (o_payment ord = PayPaid \<and> \<not> con_exito d (o_id ord)),
      cr_reference = map_option ch_reference c\<rparr>)"

definition base_rows :: "customer list \<Rightarrow> db \<Rightarrow> collection_row list" where
  "base_rows customers d = map (base_row customers d)
     (filter (\<lambda>x. \<not> o_deleted x \<and> (o_payment x \<in> {PayPaid, PayRefunded} \<or> cobro_de d (o_id x) \<noteq> None)) (d_orders d))"

definition wanted_row :: "collections_query \<Rightarrow> collection_row \<Rightarrow> bool" where
  "wanted_row q r \<longleftrightarrow>
     when_given (cq_from q) (\<lambda>t. t \<le> cr_date r) \<and> when_given (cq_to q) (\<lambda>day. cr_date r < (utc_days day + 1) * one_day) \<and>
     when_given (cq_status q) (\<lambda>s. cr_status r = s) \<and> when_given (cq_origin q) (\<lambda>x. cr_origin r = x) \<and>
     when_given (non_empty (cq_method q)) (\<lambda>m. cr_method r = Some m)"

definition cmp_collection :: "collation \<Rightarrow> collection_row \<Rightarrow> collection_row \<Rightarrow> int" where
  "cmp_collection collate a b = (if cr_date a \<noteq> cr_date b then cr_date b - cr_date a else cmp_number collate (cr_number b) (cr_number a))"

definition sum_amount :: "(collection_row \<Rightarrow> bool) \<Rightarrow> collection_row list \<Rightarrow> cents" where
  "sum_amount P rows = sum_list (map cr_amount (filter P rows))"

definition collections_of :: "collation \<Rightarrow> customer list \<Rightarrow> db \<Rightarrow> collections_query \<Rightarrow> collections_page" where
  "collections_of collate customers d q =
     (let page = given_or (cq_page q) 1; limit = given_or (cq_limit q) 50; rows = filter (wanted_row q) (base_rows customers d)
      in \<lparr>cp_rows = slice ((page - 1) * limit) limit (js_sort (cmp_collection collate) rows),
          cp_totals = \<lparr>ct_collected = sum_amount (\<lambda>r. cr_status r = Cobrado) rows, ct_pending = sum_amount (\<lambda>r. cr_status r = Pendiente) rows,
            ct_refunded = sum_amount (\<lambda>r. cr_status r = Reembolsado) rows,
            ct_unreconciled = length (filter cr_unreconciled rows), ct_unreconciled_amount = sum_amount cr_unreconciled rows\<rparr>,
          cp_total = length rows, cp_page = page, cp_limit = limit\<rparr>)"

subsection \<open>What the screen adds up\<close>

lemma sum_amount_mset:
  assumes "mset rows = mset rows'"
  shows "sum_amount P rows = sum_amount P rows'"
  using assms by (metis mset_filter mset_map sum_amount_def sum_mset_sum_list)

lemma sum_amount_split:
  "sum_amount (\<lambda>r. cr_status r = Cobrado) rows + sum_amount (\<lambda>r. cr_status r = Pendiente) rows +
   sum_amount (\<lambda>r. cr_status r = Reembolsado) rows = sum_list (map cr_amount rows)"
proof (induction rows)
  case (Cons r rows)
  then show ?case by (cases "cr_status r") (simp_all add: sum_amount_def)
qed (simp add: sum_amount_def)

text \<open>The screen of collections adds up. Its pages, put together, are the orders of the period, each once; the totals are those of all
  pages and not of the one on screen; collected, pending and refunded together are the money of all rows; and what is shown as not
  reconciled is exactly the paid orders without a charge that succeeded.
\<close>

theorem collections_add_up:
  fixes collate :: collation and customers :: "customer list" and d :: db
  assumes "cq_limit q = Some l" and "0 < l"
  defines "page \<equiv> \<lambda>p. collections_of collate customers d (q\<lparr>cq_page := Some p\<rparr>)"
  defines "rows \<equiv> concat (map (\<lambda>p. cp_rows (page p)) [1..<Suc ((cp_total (page 1) + l - 1) div l)])"
  shows "mset rows = mset (filter (wanted_row q) (base_rows customers d)) \<and> cp_total (page n) = length rows \<and>
    ct_collected (cp_totals (page n)) = sum_amount (\<lambda>r. cr_status r = Cobrado) rows \<and>
    ct_collected (cp_totals (page n)) + ct_pending (cp_totals (page n)) + ct_refunded (cp_totals (page n)) = sum_list (map cr_amount rows) \<and>
    ct_unreconciled (cp_totals (page n)) = length (filter cr_unreconciled rows) \<and>
    ct_unreconciled_amount (cp_totals (page n)) = sum_amount cr_unreconciled rows \<and>
    (\<forall>r \<in> set rows. \<exists>ord \<in> set (d_orders d). r = base_row customers d ord \<and> \<not> o_deleted ord \<and>
       (cr_unreconciled r \<longleftrightarrow> o_payment ord = PayPaid \<and> (\<forall>c \<in> set (d_charges d). ch_order c = o_id ord \<longrightarrow> ch_status c \<noteq> ChSucceeded)))"
proof -
  let ?found = "filter (wanted_row q) (base_rows customers d)"
  let ?xs = "js_sort (cmp_collection collate) ?found"
  have same: "wanted_row (q\<lparr>cq_page := x\<rparr>) = wanted_row q" for x by (simp add: wanted_row_def fun_eq_iff)
  have len: "length ?xs = length ?found" by (metis mset_js_sort size_mset)
  have p: "cp_rows (page p) = slice ((p - 1) * l) l ?xs" "cp_total (page p) = length ?found" for p
    using assms(1) by (simp_all add: page_def collections_of_def given_or_def same Let_def)
  have t: "cp_totals (page n) = \<lparr>ct_collected = sum_amount (\<lambda>r. cr_status r = Cobrado) ?found,
      ct_pending = sum_amount (\<lambda>r. cr_status r = Pendiente) ?found, ct_refunded = sum_amount (\<lambda>r. cr_status r = Reembolsado) ?found,
      ct_unreconciled = length (filter cr_unreconciled ?found), ct_unreconciled_amount = sum_amount cr_unreconciled ?found\<rparr>"
    by (simp add: page_def collections_of_def same Let_def)
  have rows: "rows = ?xs"
    unfolding rows_def p len [symmetric] by (rule pages_of_rows [OF assms(2)])
  then have m: "mset rows = mset ?found" by simp
  have l: "length rows = length ?found" "length (filter P rows) = length (filter P ?found)" for P
    using m by (metis size_mset mset_filter)+
  have "\<exists>ord \<in> set (d_orders d). r = base_row customers d ord \<and> \<not> o_deleted ord \<and>
       (cr_unreconciled r \<longleftrightarrow> o_payment ord = PayPaid \<and> (\<forall>c \<in> set (d_charges d). ch_order c = o_id ord \<longrightarrow> ch_status c \<noteq> ChSucceeded))"
    if "r \<in> set rows" for r
    using that by (auto simp: rows base_rows_def base_row_def con_exito_def list_ex_iff Let_def)
  moreover have "sum_list (map cr_amount rows) = sum_list (map cr_amount ?found)"
    using m by (metis mset_map sum_mset_sum_list)
  ultimately show ?thesis
    using m l sum_amount_mset [OF m] sum_amount_split [of ?found] by (simp add: t p)
qed

text \<open>A charge of a method of payment the shop made up itself (a bank, cash), which is settled by hand like the built-in manual one, is
  shown as coming from a gateway: the origin looks for the one code \<open>manual\<close> and not for the kind of the method.
\<close>

theorem own_methods_shown_as_gateway:
  assumes "cobro_de d (o_id ord) = Some c" and "List.find (\<lambda>g. gw_code g = ch_provider c) gws = None" and "ch_provider c \<noteq> ''manual''"
  shows "gw_kind (gatewayFor gws (ch_provider c)) = KindManual \<and> cr_origin (base_row customers d ord) = FromGateway"
  using assms by (simp add: gatewayFor_def customManualGateway_def base_row_def Let_def)

subsection \<open>A sample\<close>

text \<open>An order somebody marked as paid, without any charge.\<close>

theorem collections_add_up_witness:
  "ct_unreconciled (cp_totals (collections_of sample_collate [] paid_db \<lparr>cq_from = None, cq_to = None, cq_status = None, cq_origin = None,
     cq_method = None, cq_page = Some 1, cq_limit = Some 50\<rparr>)) = 1"
proof -
  define q where "q = \<lparr>cq_from = None, cq_to = None, cq_status = None, cq_origin = None, cq_method = None, cq_page = Some 1, cq_limit = Some 50\<rparr>"
  have q: "q\<lparr>cq_page := Some 1\<rparr> = q" "cq_limit q = Some 50" by (simp_all add: q_def)
  have f: "filter (wanted_row q) (base_rows [] paid_db) = [base_row [] paid_db sample_order]"
    by (simp add: base_rows_def wanted_row_def when_given_def non_empty_def q_def paid_db_def sample_order_def)
  have u: "cr_unreconciled (base_row [] paid_db sample_order)"
    by (simp add: base_row_def Let_def con_exito_def sample_order_def paid_db_def sample_db_def)
  let ?rows = "concat (map (\<lambda>p. cp_rows (collections_of sample_collate [] paid_db (q\<lparr>cq_page := Some p\<rparr>)))
    [1..<Suc ((cp_total (collections_of sample_collate [] paid_db (q\<lparr>cq_page := Some 1\<rparr>)) + 50 - 1) div 50)])"
  note sums = collections_add_up [OF q(2), where collate = sample_collate and customers = "[]" and d = paid_db and n = 1]
  have "mset ?rows = {#base_row [] paid_db sample_order#}"
    using sums by (simp only: f) simp
  then have "length (filter cr_unreconciled ?rows) = 1"
    using u by (simp flip: size_mset mset_filter)
  then show ?thesis using sums by (simp only: q flip: q_def)
qed

theorem own_methods_shown_as_gateway_witness:
  "\<exists>c. gw_kind (gatewayFor [\<lparr>gw_code = ''tropipay'', gw_kind = KindRedirect, gw_configured = True\<rparr>] (ch_provider c)) = KindManual \<and>
     cr_origin (base_row [] (card_db\<lparr>d_charges := [c]\<rparr>) sample_order) = FromGateway"
proof -
  let ?c = "card_charge\<lparr>ch_order := 70, ch_provider := ''zelle''\<rparr>"
  have "cobro_de (card_db\<lparr>d_charges := [?c]\<rparr>) (o_id sample_order) = Some ?c"
    by (simp add: cobro_de_def sample_order_def js_sort_def)
  moreover have "List.find (\<lambda>g. gw_code g = ch_provider ?c) [\<lparr>gw_code = ''tropipay'', gw_kind = KindRedirect, gw_configured = True\<rparr>] = None"
    "ch_provider ?c \<noteq> ''manual''"
    by simp_all
  ultimately show ?thesis
    using own_methods_shown_as_gateway by blast
qed

end
