(* ===== verification/Cms_Pages.thy ===== *)
theory Cms_Pages
  imports Accounts_Laws Listings
begin

section \<open>Pages and notices of the store: drafts and published copies\<close>

text \<open>
  \<open>src/cms/cms-pages.service.ts\<close> and \<open>cms-page.publication.ts\<close>. A page has a draft, edited in place, and a published copy, frozen by
  \<open>publish\<close> into the append-only history of versions. A request runs to its end here; the one cut short that is studied is a publication
  between its two writes. The unique
  column \<open>slug\<close>, of at most 120 characters, is enforced by the database: a write that repeats one, or makes it longer, fails. The clock is the argument \<open>now\<close>.
\<close>

datatype page_kind = InfoPage | HomeNotice

record cms_page =
  wp_id :: id
  wp_kind :: page_kind
  wp_slug :: string
  wp_title :: string
  wp_content :: string
  wp_sort :: int
  wp_active :: bool
  wp_starts :: "instant option"
  wp_ends :: "instant option"
  wp_draft_at :: "instant option"
  wp_draft_by :: "string option"
  wp_published :: "id option"
  wp_created :: instant
  wp_deleted :: bool

record page_version =
  wv_id :: id
  wv_page :: id
  wv_number :: nat
  wv_title :: string
  wv_content :: string
  wv_by :: id
  wv_by_name :: string
  wv_at :: instant

record site =
  si_pages :: "cms_page list"
  si_versions :: "page_version list"
  si_next :: nat
  si_store :: "string option \<times> string option"
  si_pings :: nat

record page_dto =
  pd_slug :: "string option"
  pd_title :: "string option"
  pd_content :: "string option"
  pd_sort :: "int option"
  pd_active :: "bool option"
  pd_starts :: "instant option option"
  pd_ends :: "instant option option"

subsection \<open>Reading\<close>

definition describeActor :: "account \<Rightarrow> string" where
  "describeActor u = given_or (or_old (full_name (us_first u) (us_last u)) (non_empty (us_email u))) (dec_str (us_id u))"

definition version_of :: "site \<Rightarrow> cms_page \<Rightarrow> page_version option" where
  "version_of s p = (case wp_published p of None \<Rightarrow> None | Some v \<Rightarrow> List.find (\<lambda>x. wv_id x = v) (si_versions s))"

definition isBlankText :: "string \<Rightarrow> bool" where
  "isBlankText markdown \<longleftrightarrow> js_trim markdown = []"

datatype publication_status = Unpublished | Published | PendingChanges

definition publicationStatusOf :: "site \<Rightarrow> cms_page \<Rightarrow> publication_status" where
  "publicationStatusOf s p = (case version_of s p of None \<Rightarrow> Unpublished
     | Some v \<Rightarrow> if wv_title v = wp_title p \<and> wv_content v = wp_content p then Published else PendingChanges)"

definition get_page :: "page_kind \<Rightarrow> id \<Rightarrow> site \<Rightarrow> error + cms_page" where
  "get_page k i s = from_option (NotFound ''Page not found'')
     (List.find (\<lambda>p. wp_id p = i \<and> wp_kind p = k \<and> \<not> wp_deleted p) (si_pages s))"

definition list_admin :: "collation \<Rightarrow> page_kind \<Rightarrow> site \<Rightarrow> cms_page list" where
  "list_admin collate k s = js_sort (\<lambda>a b. if wp_sort a \<noteq> wp_sort b then wp_sort a - wp_sort b else collate (wp_title a) (wp_title b))
     (filter (\<lambda>p. wp_kind p = k \<and> \<not> wp_deleted p) (si_pages s))"

definition listVersions :: "page_kind \<Rightarrow> id \<Rightarrow> site \<Rightarrow> error + page_version list" where
  "listVersions k i s = bindE (get_page k i s) (\<lambda>_.
     Inr (js_sort (\<lambda>a b. int (wv_number b) - int (wv_number a)) (filter (\<lambda>v. wv_page v = i) (si_versions s))))"

subsection \<open>Slugs\<close>

text \<open>
  \<open>RevalidationService.notify\<close> does nothing unless the address of the store and the shared secret are set; otherwise it sends a
  request whose outcome nobody waits for. \<open>si_pings\<close> counts the requests sent.
\<close>

definition store_known :: "site \<Rightarrow> bool" where
  "store_known s \<longleftrightarrow> non_empty (fst (si_store s)) \<noteq> None \<and> non_empty (snd (si_store s)) \<noteq> None"

definition notify_store :: "site \<Rightarrow> site" where
  "notify_store s = (if store_known s then s\<lparr>si_pings := Suc (si_pings s)\<rparr> else s)"

definition retired_slug :: "instant \<Rightarrow> string \<Rightarrow> string" where
  "retired_slug now slug = slug @ ''-eliminada-'' @ int_str now"

definition write_pages :: "cms_page list \<Rightarrow> site \<Rightarrow> error + site" where
  "write_pages ps s =
     bindE (guardE (distinct (map wp_slug ps)) (InternalError ''duplicate key'')) (\<lambda>_.
     bindE (guardE (list_all (\<lambda>p. length (wp_slug p) \<le> 120) ps) (InternalError ''value too long'')) (\<lambda>_. Inr (s\<lparr>si_pages := ps\<rparr>)))"

definition put_page :: "cms_page \<Rightarrow> site \<Rightarrow> error + site" where
  "put_page p s = write_pages (save_by wp_id p (si_pages s)) s"

text \<open>
  The loop of \<open>ensureUniqueSlug\<close>: a live page with the slug sends it on to the next suffix, a deleted one gives the slug up. \<open>fuel\<close>
  bounds its turns; one more than there are pages is always enough.
\<close>

fun unique_slug_loop :: "nat \<Rightarrow> instant \<Rightarrow> id option \<Rightarrow> string \<Rightarrow> nat \<Rightarrow> string \<Rightarrow> site \<Rightarrow> (error + string \<times> site) option" where
  "unique_slug_loop 0 now exclude base suffix candidate s = None"
| "unique_slug_loop (Suc fuel) now exclude base suffix candidate s =
     (case List.find (\<lambda>p. wp_slug p = candidate \<and> Some (wp_id p) \<noteq> exclude) (si_pages s) of
        None \<Rightarrow> Some (Inr (candidate, s))
      | Some clash \<Rightarrow>
          if wp_deleted clash
          then Some (bindE (put_page (clash\<lparr>wp_slug := retired_slug now (wp_slug clash)\<rparr>) s) (\<lambda>s1. Inr (candidate, s1)))
          else unique_slug_loop fuel now exclude base (Suc suffix) (base @ ''-'' @ dec_str suffix) s)"

definition ensureUniqueSlug_page :: "(string \<Rightarrow> string) \<Rightarrow> instant \<Rightarrow> string \<Rightarrow> id option \<Rightarrow> site \<Rightarrow> error + string \<times> site" where
  "ensureUniqueSlug_page unaccent now source exclude s = (let base = slugify unaccent source in
     case unique_slug_loop (Suc (length (si_pages s))) now exclude base 2 base s of
       Some r \<Rightarrow> r | None \<Rightarrow> Inl (InternalError ''the loop did not end''))"

subsection \<open>Writing\<close>

definition resolveSchedule ::
  "page_kind \<Rightarrow> page_dto \<Rightarrow> instant option \<times> instant option \<Rightarrow> error + instant option \<times> instant option" where
  "resolveSchedule k dto current =
     (if k \<noteq> HomeNotice then Inr (None, None)
      else let starts = given_or (pd_starts dto) (fst current); ends = given_or (pd_ends dto) (snd current)
           in bindE (guardE (case (starts, ends) of (Some a, Some b) \<Rightarrow> a < b | _ \<Rightarrow> True)
                (BadRequest ''El aviso debe terminar despues de empezar'')) (\<lambda>_. Inr (starts, ends)))"

text \<open>The page a creation inserts; title and content are required by the body of the request.\<close>

definition create_page ::
  "(string \<Rightarrow> string) \<Rightarrow> instant \<Rightarrow> page_kind \<Rightarrow> page_dto \<Rightarrow> account \<Rightarrow> site \<Rightarrow> error + site" where
  "create_page unaccent now k dto actor s =
     bindE (resolveSchedule k dto (None, None)) (\<lambda>(starts, ends).
     let title = given_or (pd_title dto) [] in
     bindE (ensureUniqueSlug_page unaccent now (given_or (pd_slug dto) title) None s) (\<lambda>(slug, s1).
     let p = \<lparr>wp_id = si_next s1, wp_kind = k, wp_slug = slug, wp_title = title, wp_content = given_or (pd_content dto) [],
              wp_sort = given_or (pd_sort dto) 0, wp_active = given_or (pd_active dto) True, wp_starts = starts, wp_ends = ends,
              wp_draft_at = Some now, wp_draft_by = Some (describeActor actor), wp_published = None, wp_created = now,
              wp_deleted = False\<rparr>
     in write_pages (si_pages s1 @ [p]) (s1\<lparr>si_next := Suc (si_next s1)\<rparr>)))"

definition liveSettingsOf :: "cms_page \<Rightarrow> string \<times> int \<times> bool \<times> instant option \<times> instant option" where
  "liveSettingsOf p = (wp_slug p, wp_sort p, wp_active p, wp_starts p, wp_ends p)"

definition edited_page :: "instant \<Rightarrow> page_dto \<Rightarrow> account \<Rightarrow> instant option \<times> instant option \<Rightarrow> cms_page \<Rightarrow> cms_page" where
  "edited_page now dto actor schedule p =
     (let changed = (pd_title dto \<noteq> None \<and> pd_title dto \<noteq> Some (wp_title p)) \<or> (pd_content dto \<noteq> None \<and> pd_content dto \<noteq> Some (wp_content p));
          p1 = p\<lparr>wp_starts := fst schedule, wp_ends := snd schedule, wp_title := given_or (pd_title dto) (wp_title p),
                 wp_content := given_or (pd_content dto) (wp_content p)\<rparr>
      in if changed then p1\<lparr>wp_draft_at := Some now, wp_draft_by := Some (describeActor actor)\<rparr> else p1)"

definition saved_page ::
  "instant \<Rightarrow> page_dto \<Rightarrow> account \<Rightarrow> instant option \<times> instant option \<Rightarrow> string \<Rightarrow> cms_page \<Rightarrow> cms_page" where
  "saved_page now dto actor schedule slug p = (edited_page now dto actor schedule p)
     \<lparr>wp_slug := slug, wp_sort := given_or (pd_sort dto) (wp_sort p), wp_active := given_or (pd_active dto) (wp_active p)\<rparr>"

definition update_page ::
  "(string \<Rightarrow> string) \<Rightarrow> instant \<Rightarrow> page_kind \<Rightarrow> id \<Rightarrow> page_dto \<Rightarrow> account \<Rightarrow> site \<Rightarrow> error + site" where
  "update_page unaccent now k i dto actor s =
     bindE (get_page k i s) (\<lambda>p.
     bindE (resolveSchedule k dto (wp_starts p, wp_ends p)) (\<lambda>schedule.
     bindE (case pd_slug dto of
              Some t \<Rightarrow> if slugify unaccent t \<noteq> wp_slug p then ensureUniqueSlug_page unaccent now t (Some i) s else Inr (wp_slug p, s)
            | None \<Rightarrow> Inr (wp_slug p, s)) (\<lambda>(slug, s1).
     let p2 = saved_page now dto actor schedule slug p in
     bindE (put_page p2 s1) (\<lambda>s2.
     Inr (if wp_published p2 \<noteq> None \<and> liveSettingsOf p2 \<noteq> liveSettingsOf p then notify_store s2 else s2)))))"

text \<open>The two writes of a publication are not one transaction; \<open>insert_version\<close> is the first of them.\<close>

definition insert_version :: "instant \<Rightarrow> account \<Rightarrow> cms_page \<Rightarrow> site \<Rightarrow> error + page_version \<times> site" where
  "insert_version now actor p s =
     (let number = (case version_of s p of None \<Rightarrow> 0 | Some v \<Rightarrow> wv_number v) + 1;
          v = \<lparr>wv_id = si_next s, wv_page = wp_id p, wv_number = number, wv_title = wp_title p, wv_content = wp_content p,
               wv_by = us_id actor, wv_by_name = describeActor actor, wv_at = now\<rparr>
      in bindE (guardE (\<not> list_ex (\<lambda>x. wv_page x = wp_id p \<and> wv_number x = number) (si_versions s)) (InternalError ''duplicate key'')) (\<lambda>_.
         Inr (v, s\<lparr>si_versions := si_versions s @ [v], si_next := Suc (si_next s)\<rparr>)))"

definition publish_page :: "instant \<Rightarrow> page_kind \<Rightarrow> id \<Rightarrow> account \<Rightarrow> site \<Rightarrow> error + site" where
  "publish_page now k i actor s =
     bindE (get_page k i s) (\<lambda>p.
     bindE (guardE (\<not> isBlankText (wp_content p)) (BadRequest ''No puedes publicar un texto vacio'')) (\<lambda>_.
     bindE (guardE (publicationStatusOf s p \<noteq> Published) (BadRequest ''No hay cambios que publicar'')) (\<lambda>_.
     bindE (insert_version now actor p s) (\<lambda>(v, s1).
     bindE (put_page (p\<lparr>wp_published := Some (wv_id v)\<rparr>) s1) (\<lambda>s2. Inr (notify_store s2))))))"

text \<open>The slug, the deletion and the call are separate writes of one request.\<close>

definition remove_page :: "instant \<Rightarrow> page_kind \<Rightarrow> id \<Rightarrow> site \<Rightarrow> error + site" where
  "remove_page now k i s =
     bindE (get_page k i s) (\<lambda>p.
     bindE (put_page (p\<lparr>wp_slug := retired_slug now (wp_slug p)\<rparr>) s) (\<lambda>s1.
     let s2 = s1\<lparr>si_pages := map (\<lambda>x. if wp_id x = i then x\<lparr>wp_deleted := True\<rparr> else x) (si_pages s1)\<rparr>
     in Inr (if wp_published p \<noteq> None then notify_store s2 else s2)))"

subsection \<open>What the store shows\<close>

record public_page =
  pp_id :: id
  pp_slug :: string
  pp_title :: string
  pp_content :: string
  pp_sort :: int
  pp_active :: bool
  pp_created :: instant
  pp_updated :: instant

definition public_page_of :: "site \<Rightarrow> cms_page \<Rightarrow> public_page option" where
  "public_page_of s p = map_option (\<lambda>v. \<lparr>pp_id = wp_id p, pp_slug = wp_slug p, pp_title = wv_title v, pp_content = wv_content v,
     pp_sort = wp_sort p, pp_active = wp_active p, pp_created = wp_created p, pp_updated = wv_at v\<rparr>) (version_of s p)"

definition live_page :: "page_kind \<Rightarrow> cms_page \<Rightarrow> bool" where
  "live_page k p \<longleftrightarrow> wp_kind p = k \<and> wp_active p \<and> wp_published p \<noteq> None \<and> \<not> wp_deleted p"

definition listPublishedPages :: "collation \<Rightarrow> site \<Rightarrow> public_page option list" where
  "listPublishedPages collate s = map (public_page_of s)
     (js_sort (\<lambda>a b. if wp_sort a \<noteq> wp_sort b then wp_sort a - wp_sort b else collate (wp_slug a) (wp_slug b))
        (filter (live_page InfoPage) (si_pages s)))"

definition getPublishedPage :: "string \<Rightarrow> site \<Rightarrow> error + public_page" where
  "getPublishedPage slug s = bindE (from_option (NotFound ''Page not found'')
     (List.find (\<lambda>p. wp_slug p = slug \<and> live_page InfoPage p) (si_pages s)))
     (\<lambda>p. from_option (InternalError ''no published version'') (public_page_of s p))"

record public_notice =
  pn_id :: id
  pn_title :: string
  pn_content :: string
  pn_starts :: "instant option"
  pn_ends :: "instant option"

definition public_notice_of :: "site \<Rightarrow> cms_page \<Rightarrow> public_notice option" where
  "public_notice_of s p = map_option (\<lambda>v. \<lparr>pn_id = wp_id p, pn_title = wv_title v, pn_content = wv_content v,
     pn_starts = wp_starts p, pn_ends = wp_ends p\<rparr>) (version_of s p)"

definition listVisibleHomeNotices :: "instant \<Rightarrow> site \<Rightarrow> public_notice option list" where
  "listVisibleHomeNotices now s = map (public_notice_of s)
     (js_sort (\<lambda>a b. if wp_sort a \<noteq> wp_sort b then wp_sort a - wp_sort b else wp_created a - wp_created b)
        (filter (\<lambda>p. live_page HomeNotice p \<and> (case wp_starts p of None \<Rightarrow> True | Some t \<Rightarrow> t \<le> now) \<and>
                    (case wp_ends p of None \<Rightarrow> True | Some t \<Rightarrow> now < t)) (si_pages s)))"

subsection \<open>Runs\<close>

datatype page_step =
    CreatePage page_kind page_dto
  | UpdatePage page_kind id page_dto
  | PublishPage page_kind id
  | RemovePage page_kind id

definition do_step :: "(string \<Rightarrow> string) \<Rightarrow> instant \<Rightarrow> account \<Rightarrow> page_step \<Rightarrow> site \<Rightarrow> error + site" where
  "do_step unaccent now actor st s = (case st of
     CreatePage k dto \<Rightarrow> create_page unaccent now k dto actor s
   | UpdatePage k i dto \<Rightarrow> update_page unaccent now k i dto actor s
   | PublishPage k i \<Rightarrow> publish_page now k i actor s
   | RemovePage k i \<Rightarrow> remove_page now k i s)"

inductive site_run :: "(string \<Rightarrow> string) \<Rightarrow> site \<Rightarrow> site \<Rightarrow> bool" for unaccent where
  run_none: "site_run unaccent s s"
| run_more: "site_run unaccent a b \<Longrightarrow> do_step unaccent now actor st b = Inr c \<Longrightarrow> site_run unaccent a c"

definition empty_site :: "string option \<times> string option \<Rightarrow> site" where
  "empty_site store = \<lparr>si_pages = [], si_versions = [], si_next = 1, si_store = store, si_pings = 0\<rparr>"

end
