(* ===== verification/Cms_Pages_Laws.thy ===== *)
theory Cms_Pages_Laws
  imports Cms_Pages Listings_Laws
begin

section \<open>The store shows what was published\<close>

text \<open>
  Every page of a reachable site has its versions numbered without gaps and points at the last; only publishing changes the text the
  store shows; and whenever a write changes what the store shows, the store is told.
\<close>

definition history :: "site \<Rightarrow> id \<Rightarrow> page_version list" where
  "history s i = filter (\<lambda>v. wv_page v = i) (si_versions s)"

definition page_ok :: "site \<Rightarrow> cms_page \<Rightarrow> bool" where
  "page_ok s p \<longleftrightarrow> map wv_number (history s (wp_id p)) = [1..<Suc (length (history s (wp_id p)))] \<and>
     wp_published p = (if history s (wp_id p) = [] then None else Some (wv_id (last (history s (wp_id p)))))"

definition site_ok :: "site \<Rightarrow> bool" where
  "site_ok s \<longleftrightarrow> distinct (map wp_id (si_pages s)) \<and> distinct (map wp_slug (si_pages s)) \<and> distinct (map wv_id (si_versions s)) \<and>
     (\<forall>p \<in> set (si_pages s). wp_id p < si_next s \<and> page_ok s p) \<and>
     (\<forall>v \<in> set (si_versions s). wv_id v < si_next s \<and> wv_page v \<in> set (map wp_id (si_pages s)))"

lemma version_page:
  assumes "site_ok s" "v \<in> set (si_versions s)"
  obtains p where "p \<in> set (si_pages s)" "wp_id p = wv_page v" "wv_page v < si_next s"
  using assms by (fastforce simp: site_ok_def)

lemma page_ok_same: "si_versions s' = si_versions s \<Longrightarrow> page_ok s' p = page_ok s p"
  by (simp add: page_ok_def history_def)

lemma page_ok_new: "history s (wp_id p) = [] \<Longrightarrow> wp_published p = None \<Longrightarrow> page_ok s p"
  by (simp add: page_ok_def)

lemma version_of_last:
  assumes "site_ok s" "p \<in> set (si_pages s)"
  shows "version_of s p = (if history s (wp_id p) = [] then None else Some (last (history s (wp_id p))))"
proof (cases "history s (wp_id p) = []")
  case False
  then have "last (history s (wp_id p)) \<in> set (si_versions s)"
    by (metis filter_is_subset history_def last_in_set subsetD)
  then have "List.find (\<lambda>x. wv_id x = wv_id (last (history s (wp_id p)))) (si_versions s) = Some (last (history s (wp_id p)))"
    using assms(1) by (intro find_distinct_key) (simp_all add: site_ok_def)
  then show ?thesis using assms False by (auto simp: site_ok_def page_ok_def version_of_def)
qed (use assms in \<open>auto simp: site_ok_def page_ok_def version_of_def\<close>)

lemma get_page_Inr:
  assumes "get_page k i s = Inr p"
  shows "p \<in> set (si_pages s)" "wp_id p = i" "wp_kind p = k" "\<not> wp_deleted p"
  using assms by (auto simp: get_page_def from_option_eq_Inr find_Some_iff)

subsection \<open>Writes\<close>

lemma save_by_in: "x \<in> set (save_by key r rows) \<Longrightarrow> x = r \<or> x \<in> set rows"
  by (auto simp: save_by_def)

lemma write_pages_Inr: "write_pages ps s = Inr s' \<longleftrightarrow>
    distinct (map wp_slug ps) \<and> list_all (\<lambda>p. length (wp_slug p) \<le> 120) ps \<and> s' = s\<lparr>si_pages := ps\<rparr>"
  by (auto simp: write_pages_def bindE_eq_Inr)

text \<open>Writing a row over one with the same identifier and the same published version.\<close>

lemma put_page_ok:
  assumes "put_page p' s = Inr s'" "site_ok s" "p \<in> set (si_pages s)" "wp_id p' = wp_id p" "wp_published p' = wp_published p"
  shows "site_ok s'" and "s' = s\<lparr>si_pages := save_by wp_id p' (si_pages s)\<rparr>"
proof -
  show s': "s' = s\<lparr>si_pages := save_by wp_id p' (si_pages s)\<rparr>"
    using assms(1) by (simp add: put_page_def write_pages_Inr)
  have d: "distinct (map wp_slug (save_by wp_id p' (si_pages s)))"
    using assms(1) by (simp add: put_page_def write_pages_Inr)
  have h: "history s' i = history s i" for i by (simp add: history_def s')
  have "page_ok s' x \<and> wp_id x < si_next s" if "x \<in> set (si_pages s')" for x
  proof -
    have "x = p' \<or> x \<in> set (si_pages s)" using that save_by_in [of x wp_id p' "si_pages s"] by (simp add: s')
    then show ?thesis using assms(2-5) by (auto simp: page_ok_def h site_ok_def simp del: upt_Suc)
  qed
  then show "site_ok s'"
    using assms(2) d by (simp add: site_ok_def s' save_by_keys)
qed

text \<open>What making a slug free may do: a deleted page loses its slug.\<close>

definition quiet_face :: "cms_page \<Rightarrow> cms_page" where
  "quiet_face p = (if wp_deleted p then p\<lparr>wp_slug := []\<rparr> else p)"

definition quiet :: "site \<Rightarrow> site \<Rightarrow> bool" where
  "quiet s s' \<longleftrightarrow> si_versions s' = si_versions s \<and> si_next s' = si_next s \<and> si_pings s' = si_pings s \<and> si_store s' = si_store s \<and>
     map quiet_face (si_pages s') = map quiet_face (si_pages s)"

lemma filter_quiet_face:
  assumes "\<And>p. Q p \<Longrightarrow> \<not> wp_deleted p"
  shows "filter Q (map quiet_face xs) = filter Q xs"
  by (induction xs) (auto simp: quiet_face_def dest: assms)

lemma quiet_filter:
  assumes "quiet s s'" "\<And>p. Q p \<Longrightarrow> \<not> wp_deleted p"
  shows "filter Q (si_pages s') = filter Q (si_pages s)"
  using assms filter_quiet_face [of Q "si_pages s'"] filter_quiet_face [of Q "si_pages s"] by (simp add: quiet_def)

lemma quiet_member:
  assumes "quiet s s'" "p \<in> set (si_pages s)" "\<not> wp_deleted p"
  shows "p \<in> set (si_pages s')"
  using quiet_filter [OF assms(1), of "\<lambda>x. \<not> wp_deleted x"] assms(2,3) by (metis (mono_tags, lifting) mem_Collect_eq set_filter)

lemma unique_slug_loop_quiet:
  assumes "unique_slug_loop fuel now exclude base suffix candidate s = Some (Inr (slug, s'))" "site_ok s"
  shows "site_ok s' \<and> quiet s s'"
  using assms(1)
proof (induction fuel arbitrary: suffix candidate)
  case (Suc fuel)
  show ?case
  proof (cases "List.find (\<lambda>p. wp_slug p = candidate \<and> Some (wp_id p) \<noteq> exclude) (si_pages s)")
    case None
    then show ?thesis using Suc.prems assms(2) by (simp add: quiet_def)
  next
    case (Some clash)
    show ?thesis
    proof (cases "wp_deleted clash")
      case True
      let ?c = "clash\<lparr>wp_slug := retired_slug now (wp_slug clash)\<rparr>"
      have put: "put_page ?c s = Inr s'"
        using Suc.prems Some True by (auto simp: bindE_eq_Inr)
      have c: "clash \<in> set (si_pages s)" using Some by (auto simp: find_Some_iff)
      note ok = put_page_ok [OF put assms(2) c]
      have "map quiet_face (save_by wp_id ?c (si_pages s)) = map quiet_face (si_pages s)"
      proof -
        have "quiet_face (if wp_id x = wp_id ?c then ?c else x) = quiet_face x" if "x \<in> set (si_pages s)" for x
        proof (cases "wp_id x = wp_id clash")
          case True
          then have "x = clash" using that c assms(2) by (metis distinct_map inj_onD site_ok_def)
          then show ?thesis using \<open>wp_deleted clash\<close> by (simp add: quiet_face_def)
        qed simp
        then show ?thesis by (simp add: save_by_def)
      qed
      then show ?thesis using ok by (simp add: quiet_def)
    next
      case False
      then show ?thesis using Suc.IH Suc.prems Some by simp
    qed
  qed
qed simp

lemma unique_slug_quiet:
  assumes "ensureUniqueSlug_page unaccent now source exclude s = Inr (slug, s')" "site_ok s"
  shows "site_ok s'" "quiet s s'"
proof -
  have "unique_slug_loop (Suc (length (si_pages s))) now exclude (slugify unaccent source) 2 (slugify unaccent source) s = Some (Inr (slug, s'))"
    using assms(1) by (simp add: ensureUniqueSlug_page_def Let_def del: unique_slug_loop.simps split: option.splits)
  from unique_slug_loop_quiet [OF this assms(2)] show "site_ok s'" "quiet s s'" by simp_all
qed

text \<open>The loop always ends: its candidates are all different, and only pages can take them.\<close>

lemma unique_slug_loop_ends:
  assumes "next_code fuel base suffix candidate (map wp_slug (si_pages s)) \<noteq> None"
  shows "unique_slug_loop fuel now exclude base suffix candidate s \<noteq> None"
  using assms
proof (induction fuel base suffix candidate "map wp_slug (si_pages s)" rule: next_code.induct)
  case (2 fuel base suffix code)
  show ?case
  proof (cases "code \<in> set (map wp_slug (si_pages s))")
    case True
    then show ?thesis using 2 by (auto split: option.splits)
  next
    case False
    then have "List.find (\<lambda>p. wp_slug p = code \<and> Some (wp_id p) \<noteq> exclude) (si_pages s) = None"
      by (auto simp: find_None_iff)
    then show ?thesis by simp
  qed
qed simp

lemma ensureUniqueSlug_page_ends:
  "unique_slug_loop (Suc (length (si_pages s))) now exclude base 2 base s \<noteq> None"
  using next_code_exists [of "map wp_slug (si_pages s)" base] by (intro unique_slug_loop_ends) auto

subsection \<open>What the store sees of a page\<close>

definition face :: "cms_page \<Rightarrow> cms_page" where
  "face p = p\<lparr>wp_title := [], wp_content := [], wp_draft_at := None, wp_draft_by := None\<rparr>"

definition faces :: "page_kind \<Rightarrow> site \<Rightarrow> cms_page list" where
  "faces k s = map face (filter (live_page k) (si_pages s))"

lemma js_sort_map:
  assumes "\<And>a b. cmp (f a) (f b) = cmp a b"
  shows "js_sort cmp (map f xs) = map f (js_sort cmp xs)"
proof -
  have "insert_cmp cmp (f x) (map f ys) = map f (insert_cmp cmp x ys)" for x ys
    by (induction ys) (simp_all add: assms)
  then show ?thesis by (induction xs) (simp_all add: js_sort_def)
qed

lemma sorted_faces:
  assumes "map face xs = map face ys" "\<And>a b. cmp (face a) (face b) = cmp a b" "\<And>p. g (face p) = g p" "\<And>p. g' p = g p"
  shows "map g' (js_sort cmp xs) = map g (js_sort cmp ys)"
proof -
  have "map g (js_sort cmp zs) = map g (js_sort cmp (map face zs))" for zs
    by (simp add: js_sort_map [where f = face and cmp = cmp, OF assms(2)] o_def assms(3))
  from this [of xs] this [of ys] have "map g (js_sort cmp xs) = map g (js_sort cmp ys)" using assms(1) by simp
  moreover have "g' = g" using assms(4) by auto
  ultimately show ?thesis by simp
qed

lemma faces_filter:
  assumes "map face xs = map face ys" "\<And>p. Q (face p) = Q p"
  shows "map face (filter Q xs) = map face (filter Q ys)"
proof -
  have "map face (filter Q zs) = filter Q (map face zs)" for zs
    by (simp add: filter_map o_def assms(2))
  then show ?thesis using assms(1) by simp
qed

lemma same_faces_same_view:
  assumes "faces InfoPage s' = faces InfoPage s" "faces HomeNotice s' = faces HomeNotice s" "si_versions s' = si_versions s"
  shows "listPublishedPages collate s' = listPublishedPages collate s" "listVisibleHomeNotices now s' = listVisibleHomeNotices now s"
    "getPublishedPage slug s' = getPublishedPage slug s"
proof -
  have v: "version_of s' p = version_of s p" for p using assms(3) by (simp add: version_of_def cong: option.case_cong)
  have v_face: "version_of s (face p) = version_of s p" for p by (simp add: version_of_def face_def)
  note v = v v_face
  show "listPublishedPages collate s' = listPublishedPages collate s"
    unfolding listPublishedPages_def
    by (rule sorted_faces [OF assms(1) [unfolded faces_def]]) (simp_all add: public_page_of_def v, simp_all add: face_def)
  have notices: "map face (filter Q (si_pages s')) = map face (filter Q (si_pages s))"
    if "Q = (\<lambda>p. live_page HomeNotice p \<and> D p)" "\<And>p. D (face p) = D p" for D Q
    using faces_filter [where Q = D, OF assms(2) [unfolded faces_def] that(2)] by (simp add: that(1) conj_commute)
  show "listVisibleHomeNotices now s' = listVisibleHomeNotices now s"
    unfolding listVisibleHomeNotices_def
    by (rule sorted_faces [OF notices [OF refl]]) (simp_all add: public_notice_of_def v, simp_all add: face_def)
  have views: "map face (filter (\<lambda>p. wp_slug p = slug \<and> live_page InfoPage p) (si_pages s')) =
      map face (filter (\<lambda>p. wp_slug p = slug \<and> live_page InfoPage p) (si_pages s))"
    using faces_filter [OF assms(1) [unfolded faces_def], of "\<lambda>p. wp_slug p = slug"] by (simp add: face_def conj_commute)
  have pub: "public_page_of s' p = public_page_of s (face p)" "public_page_of s p = public_page_of s (face p)" for p
    by (simp_all add: public_page_of_def v, simp_all add: face_def)
  have same: "public_page_of s' a = public_page_of s b" if "face a = face b" for a b using that pub by metis
  show "getPublishedPage slug s' = getPublishedPage slug s"
  proof (cases "filter (\<lambda>p. wp_slug p = slug \<and> live_page InfoPage p) (si_pages s')")
    case Nil
    then show ?thesis using views by (simp add: getPublishedPage_def find_as_filter)
  next
    case (Cons a as)
    then obtain b bs where b: "filter (\<lambda>p. wp_slug p = slug \<and> live_page InfoPage p) (si_pages s) = b # bs" "face a = face b"
      using views by (cases "filter (\<lambda>p. wp_slug p = slug \<and> live_page InfoPage p) (si_pages s)") auto
    then show ?thesis using Cons same [OF b(2)] by (simp add: getPublishedPage_def find_as_filter)
  qed
qed

subsection \<open>What each step does\<close>

lemma faces_of_map:
  assumes "\<And>x. x \<in> set xs \<Longrightarrow> Q (h x) = Q x \<and> (Q x \<longrightarrow> face (h x) = face x)"
  shows "map face (filter Q (map h xs)) = map face (filter Q xs)"
  using assms by (induction xs) auto

lemma page_unique: "site_ok s \<Longrightarrow> p \<in> set (si_pages s) \<Longrightarrow> x \<in> set (si_pages s) \<Longrightarrow> wp_id x = wp_id p \<Longrightarrow> x = p"
  by (metis distinct_map inj_onD site_ok_def)

lemma faces_save:
  assumes "site_ok s" "p \<in> set (si_pages s)" "wp_id p' = wp_id p" "live_page k p' = live_page k p" "live_page k p \<Longrightarrow> face p' = face p"
  shows "faces k (s\<lparr>si_pages := save_by wp_id p' (si_pages s)\<rparr>) = faces k s"
proof -
  have "live_page k (if wp_id x = wp_id p' then p' else x) = live_page k x \<and>
      (live_page k x \<longrightarrow> face (if wp_id x = wp_id p' then p' else x) = face x)" if "x \<in> set (si_pages s)" for x
  proof (cases "wp_id x = wp_id p")
    case True
    then show ?thesis using page_unique [OF assms(1,2) that] assms(3-5) by simp
  qed (use assms(3) in simp)
  then show ?thesis by (simp add: faces_def save_by_def faces_of_map)
qed

lemma quiet_faces: "quiet s s' \<Longrightarrow> faces k s' = faces k s"
  using quiet_filter [of s s' "live_page k"] by (simp add: faces_def live_page_def)

text \<open>A step that leaves the history alone, and is heard of when it changes what the store sees.\<close>

definition tame :: "site \<Rightarrow> site \<Rightarrow> bool" where
  "tame s s' \<longleftrightarrow> site_ok s' \<and> si_versions s' = si_versions s \<and> si_store s' = si_store s \<and>
     (store_known s \<longrightarrow> si_pings s' = Suc (si_pings s) \<or> si_pings s' = si_pings s \<and> (\<forall>k. faces k s' = faces k s))"

lemma notify_fields [simp]:
  "si_pages (notify_store s) = si_pages s" "si_versions (notify_store s) = si_versions s" "si_next (notify_store s) = si_next s"
  "si_store (notify_store s) = si_store s"
  by (simp_all add: notify_store_def)

lemma notify_store_ok: "site_ok (notify_store s) = site_ok s"
  by (simp add: notify_store_def site_ok_def page_ok_def history_def)

lemma tame_notify:
  assumes "site_ok s2" "si_versions s2 = si_versions s" "si_pings s2 = si_pings s" "si_store s2 = si_store s" "\<And>k. \<not> told \<Longrightarrow> faces k s2 = faces k s"
  shows "tame s (if told then notify_store s2 else s2)"
  using assms by (cases told) (simp_all add: tame_def notify_store_ok, simp add: notify_store_def store_known_def)

lemma create_page_Inr:
  assumes "create_page unaccent now k dto actor s = Inr s'"
  obtains slug s1 p where "ensureUniqueSlug_page unaccent now (given_or (pd_slug dto) (given_or (pd_title dto) [])) None s = Inr (slug, s1)"
    "wp_id p = si_next s1" "wp_published p = None" "distinct (map wp_slug (si_pages s1 @ [p]))"
    "s' = s1\<lparr>si_next := Suc (si_next s1), si_pages := si_pages s1 @ [p]\<rparr>"
    using assms by (simp add: create_page_def bindE_eq_Inr Let_def write_pages_Inr split_paired_Ex) (elim exE conjE, rule that, auto)

lemma update_page_Inr:
  assumes "update_page unaccent now k i dto actor s = Inr s'"
  obtains p schedule slug s1 s2 where "get_page k i s = Inr p"
    "(case pd_slug dto of
              Some t \<Rightarrow> if slugify unaccent t \<noteq> wp_slug p then ensureUniqueSlug_page unaccent now t (Some i) s else Inr (wp_slug p, s)
            | None \<Rightarrow> Inr (wp_slug p, s)) = Inr (slug, s1)"
    "put_page (saved_page now dto actor schedule slug p) s1 = Inr s2"
    "s' = (let p2 = saved_page now dto actor schedule slug p in
        if wp_published p2 \<noteq> None \<and> liveSettingsOf p2 \<noteq> liveSettingsOf p then notify_store s2 else s2)"
    using assms unfolding update_page_def bindE_eq_Inr Let_def by (elim exE conjE) (simp only: split_paired_all prod.case bindE_eq_Inr, elim exE conjE, rule that, auto)

lemma create_page_tame:
  assumes "create_page unaccent now k dto actor s = Inr s'" "site_ok s"
  shows "tame s s'"
proof -
  obtain slug s1 p where u: "ensureUniqueSlug_page unaccent now (given_or (pd_slug dto) (given_or (pd_title dto) [])) None s = Inr (slug, s1)"
    and p: "wp_id p = si_next s1" "wp_published p = None" and d: "distinct (map wp_slug (si_pages s1 @ [p]))"
    and s': "s' = s1\<lparr>si_next := Suc (si_next s1), si_pages := si_pages s1 @ [p]\<rparr>"
    using create_page_Inr [OF assms(1)] by metis
  note q = unique_slug_quiet [OF u assms(2)]
  have same: "page_ok s' x = page_ok s1 x" for x by (rule page_ok_same) (simp add: s')
  have "wv_page v \<noteq> si_next s1" if "v \<in> set (si_versions s1)" for v using version_page [OF q(1) that] by (metis less_irrefl)
  then have "history s1 (si_next s1) = []" by (simp add: history_def filter_empty_conv)
  then have "page_ok s1 p" using page_ok_new p by simp
  then have "site_ok s'"
    using q(1) d p(1) same [unfolded s'] by (auto simp: site_ok_def s' less_Suc_eq)
  moreover have "faces k s' = faces k s1" for k by (simp add: faces_def live_page_def s' p(2))
  ultimately show ?thesis using q(2) quiet_faces [OF q(2)] by (simp add: tame_def s' quiet_def)
qed

lemma update_page_tame:
  assumes "update_page unaccent now k i dto actor s = Inr s'" "site_ok s"
  shows "tame s s'"
proof -
  obtain p schedule slug s1 s2 where g: "get_page k i s = Inr p"
    and u: "(case pd_slug dto of
              Some t \<Rightarrow> if slugify unaccent t \<noteq> wp_slug p then ensureUniqueSlug_page unaccent now t (Some i) s else Inr (wp_slug p, s)
            | None \<Rightarrow> Inr (wp_slug p, s)) = Inr (slug, s1)"
    and put: "put_page (saved_page now dto actor schedule slug p) s1 = Inr s2"
    and s': "s' = (let p2 = saved_page now dto actor schedule slug p in
        if wp_published p2 \<noteq> None \<and> liveSettingsOf p2 \<noteq> liveSettingsOf p then notify_store s2 else s2)"
    by (rule update_page_Inr [OF assms(1)]) (rule that)
  let ?p2 = "saved_page now dto actor schedule slug p"
  have q: "site_ok s1 \<and> quiet s s1"
    using u unique_slug_quiet assms(2) by (auto simp: quiet_def split: option.splits if_splits)
  have kept: "wp_id ?p2 = wp_id p" "wp_published ?p2 = wp_published p" "wp_kind ?p2 = wp_kind p" "wp_created ?p2 = wp_created p"
      "wp_deleted ?p2 = wp_deleted p"
    by (simp_all add: saved_page_def edited_page_def Let_def)
  note got = get_page_Inr [OF g]
  have mem: "p \<in> set (si_pages s1)" using quiet_member q got by blast
  note ok = put_page_ok [OF put conjunct1 [OF q] mem kept(1,2)]
  have "faces k s2 = faces k s1" if "wp_published ?p2 = None \<or> liveSettingsOf ?p2 = liveSettingsOf p" for k
    unfolding ok(2)
  proof (rule faces_save [OF conjunct1 [OF q] mem kept(1)])
    show "live_page k ?p2 = live_page k p" using that kept by (auto simp: live_page_def liveSettingsOf_def)
    show "face ?p2 = face p" if l: "live_page k p"
    proof -
      have "liveSettingsOf ?p2 = liveSettingsOf p" using that l kept(2) \<open>wp_published ?p2 = None \<or> _\<close> by (auto simp: live_page_def)
      then show ?thesis using kept by (intro cms_page.equality) (simp_all add: face_def liveSettingsOf_def)
    qed
  qed
  then show ?thesis
    unfolding s' Let_def using ok q quiet_faces [OF conjunct2 [OF q]] by (intro tame_notify) (auto simp: quiet_def)
qed

lemma remove_page_tame:
  assumes "remove_page now k i s = Inr s'" "site_ok s"
  shows "tame s s'"
proof -
  obtain p s1 where g: "get_page k i s = Inr p" and put: "put_page (p\<lparr>wp_slug := retired_slug now (wp_slug p)\<rparr>) s = Inr s1"
    and s': "s' = (let s2 = s1\<lparr>si_pages := map (\<lambda>x. if wp_id x = i then x\<lparr>wp_deleted := True\<rparr> else x) (si_pages s1)\<rparr>
       in if wp_published p \<noteq> None then notify_store s2 else s2)"
    using assms(1) by (fastforce simp: remove_page_def bindE_eq_Inr Let_def)
  let ?p = "p\<lparr>wp_slug := retired_slug now (wp_slug p)\<rparr>" and ?d = "\<lambda>x. if wp_id x = i then x\<lparr>wp_deleted := True\<rparr> else x"
  let ?s2 = "s1\<lparr>si_pages := map ?d (si_pages s1)\<rparr>"
  note got = get_page_Inr [OF g]
  have ok: "site_ok s1" "s1 = s\<lparr>si_pages := save_by wp_id ?p (si_pages s)\<rparr>"
    using put_page_ok [OF put assms(2) got(1)] by simp_all
  have keys: "map wp_id (map ?d ps) = map wp_id ps" "map wp_slug (map ?d ps) = map wp_slug ps" for ps by (induction ps) auto
  have page_ok_deleted: "page_ok s1 (x\<lparr>wp_deleted := b\<rparr>) = page_ok s1 x" for x b by (simp_all add: page_ok_def del: upt_Suc)
  have s2: "site_ok ?s2"
    using ok(1) page_ok_same [of ?s2 s1] page_ok_deleted by (auto simp: site_ok_def keys simp del: map_map)
  have "faces k' ?s2 = faces k' s" if "wp_published p = None" for k'
  proof -
    have first: "faces k' s1 = faces k' s"
      unfolding ok(2) using that by (intro faces_save [OF assms(2) got(1)]) (simp_all add: live_page_def)
    have pages1: "si_pages s1 = save_by wp_id ?p (si_pages s)" using ok(2) by simp
    have none: "wp_published x = None" if "x \<in> set (si_pages s1)" "wp_id x = i" for x
    proof -
      have "x \<in> set (save_by wp_id ?p (si_pages s))" using that(1) unfolding pages1 .
      then have "x = ?p \<or> x \<in> set (si_pages s)" by (rule save_by_in)
      then show ?thesis
      proof
        assume "x \<in> set (si_pages s)"
        from page_unique [OF assms(2) got(1) this] that(2) got(2) have "x = p" by simp
        then show ?thesis using \<open>wp_published p = None\<close> by (rule ssubst)
      next
        assume "x = ?p"
        then show ?thesis using \<open>wp_published p = None\<close> by simp
      qed
    qed
    have "live_page k' (?d x) = live_page k' x \<and> (live_page k' x \<longrightarrow> face (?d x) = face x)" if "x \<in> set (si_pages s1)" for x
      using none [OF that] by (simp add: live_page_def)
    from faces_of_map [OF this] have "faces k' ?s2 = faces k' s1" by (simp add: faces_def)
    with first show ?thesis by simp
  qed
  then show ?thesis
    unfolding s' Let_def using s2 ok(2) by (intro tame_notify) auto
qed

text \<open>The text the store shows of a page, and what it is by the history.\<close>

definition shown_text :: "site \<Rightarrow> id \<Rightarrow> (string \<times> string) option" where
  "shown_text s i = (case List.find (\<lambda>p. wp_id p = i) (si_pages s) of
     None \<Rightarrow> None | Some p \<Rightarrow> map_option (\<lambda>v. (wv_title v, wv_content v)) (version_of s p))"

lemma shown_text_last:
  assumes "site_ok s"
  shows "shown_text s i = (if history s i = [] then None else Some (wv_title (last (history s i)), wv_content (last (history s i))))"
proof (cases "List.find (\<lambda>p. wp_id p = i) (si_pages s)")
  case None
  then have "history s i = []" using version_page [OF assms] by (auto simp: find_None_iff history_def filter_empty_conv)
  then show ?thesis using None by (simp add: shown_text_def)
next
  case (Some p)
  then have p: "p \<in> set (si_pages s)" "wp_id p = i" by (auto simp: find_Some_iff)
  show ?thesis using Some version_of_last [OF assms p(1)] p(2) by (simp add: shown_text_def)
qed

lemma publish_page_effect:
  assumes "publish_page now k i actor s = Inr s'" "site_ok s"
  obtains p v where "get_page k i s = Inr p" "site_ok s'" "si_versions s' = si_versions s @ [v]" "wv_page v = i"
    "wv_title v = wp_title p" "wv_content v = wp_content p" "wv_number v = Suc (length (history s i))" "wv_by v = us_id actor"
    "\<not> isBlankText (wv_content v)" "si_store s' = si_store s" "store_known s \<Longrightarrow> si_pings s' = Suc (si_pings s)"
proof -
  obtain p v s1 s2 where g: "get_page k i s = Inr p" and worded: "\<not> isBlankText (wp_content p)"
    and ins: "insert_version now actor p s = Inr (v, s1)"
    and put: "put_page (p\<lparr>wp_published := Some (wv_id v)\<rparr>) s1 = Inr s2" and s': "s' = notify_store s2"
    using assms(1) by (fastforce simp: publish_page_def bindE_eq_Inr)
  note got = get_page_Inr [OF g]
  have v: "wv_id v = si_next s" "wv_page v = i" "wv_title v = wp_title p" "wv_content v = wp_content p" "wv_by v = us_id actor"
      "wv_number v = (case version_of s p of None \<Rightarrow> 0 | Some v \<Rightarrow> wv_number v) + 1"
    and s1: "s1 = s\<lparr>si_versions := si_versions s @ [v], si_next := Suc (si_next s)\<rparr>"
    using ins got(2) by (auto simp: insert_version_def bindE_eq_Inr Let_def)
  have numbers: "map wv_number (history s i) = [1..<Suc (length (history s i))]" using assms(2) got(1,2) by (auto simp: site_ok_def page_ok_def)
  have number: "wv_number v = Suc (length (history s i))"
  proof (cases "history s i = []")
    case False
    then have "wv_number (last (history s i)) = length (history s i)"
      by (metis last_map last_upt length_greater_0_conv numbers diff_Suc_1 One_nat_def Suc_less_eq)
    then show ?thesis using version_of_last [OF assms(2) got(1)] got(2) v(6) False by simp
  qed (use version_of_last [OF assms(2) got(1)] got(2) v(6) in simp)
  have s2: "s2 = s1\<lparr>si_pages := save_by wp_id (p\<lparr>wp_published := Some (wv_id v)\<rparr>) (si_pages s)\<rparr>"
    and d: "distinct (map wp_slug (save_by wp_id (p\<lparr>wp_published := Some (wv_id v)\<rparr>) (si_pages s)))"
    using put by (auto simp: put_page_def write_pages_Inr s1)
  have h: "history s2 j = history s j @ (if j = i then [v] else [])" for j by (simp add: history_def s2 s1 v(2))
  have "page_ok s2 x \<and> wp_id x < Suc (si_next s)" if "x \<in> set (si_pages s2)" for x
  proof (cases "wp_id x = i")
    case True
    then have "x = p\<lparr>wp_published := Some (wv_id v)\<rparr>" using that got(2) by (auto simp: s2 save_by_def)
    then show ?thesis using numbers number got(1,2) assms(2) by (auto simp: page_ok_def h site_ok_def)
  next
    case False
    then have "x \<in> set (si_pages s)" using that got(2) by (auto simp: s2 save_by_def split: if_splits)
    then show ?thesis using False assms(2) by (auto simp: page_ok_def h site_ok_def simp del: upt_Suc)
  qed
  moreover have "i \<in> wp_id ` set (si_pages s)" using got(1,2) by auto
  ultimately have "site_ok s2"
    using assms(2) d v(1,2) by (auto simp: site_ok_def s2 s1 save_by_keys)
  then show thesis
    using that [OF g, of v] v number worded s' s2 s1 by (simp add: notify_store_ok) (simp add: notify_store_def store_known_def)
qed

lemma do_step_effect:
  assumes "do_step unaccent now actor st s = Inr s'" "site_ok s"
  shows "(\<forall>k i. st \<noteq> PublishPage k i) \<and> tame s s' \<or>
    (\<exists>k i p v. st = PublishPage k i \<and> get_page k i s = Inr p \<and> site_ok s' \<and> si_versions s' = si_versions s @ [v] \<and> wv_page v = i \<and>
       wv_title v = wp_title p \<and> wv_content v = wp_content p \<and> \<not> isBlankText (wv_content v) \<and> si_store s' = si_store s \<and>
       (store_known s \<longrightarrow> si_pings s' = Suc (si_pings s)))"
proof (cases st)
  case (PublishPage k i)
  then have "publish_page now k i actor s = Inr s'" using assms(1) by (simp add: do_step_def)
  from publish_page_effect [OF this assms(2)] show ?thesis using PublishPage by (metis (no_types))
qed (use assms create_page_tame update_page_tame remove_page_tame in \<open>auto simp: do_step_def\<close>)

lemma do_step_ok: "do_step unaccent now actor st s = Inr s' \<Longrightarrow> site_ok s \<Longrightarrow> site_ok s'"
  using do_step_effect by (metis (no_types, lifting) tame_def)

lemma site_run_ok:
  assumes "site_run unaccent a b" "site_ok a"
  shows "site_ok b \<and> (\<exists>more. si_versions b = si_versions a @ more) \<and> si_store b = si_store a \<and>
    (store_known a \<longrightarrow> si_pings a \<le> si_pings b \<and>
       (si_pings b = si_pings a \<longrightarrow> si_versions b = si_versions a \<and> (\<forall>k. faces k b = faces k a)))"
  using assms
proof (induction rule: site_run.induct)
  case (run_more a b now actor st c)
  then have b: "site_ok b" by simp
  from do_step_effect [OF run_more.hyps(2) b] show ?case
    using run_more.IH [OF run_more.prems] by (elim disjE exE conjE) (auto simp: tame_def store_known_def)
qed simp

lemma empty_site_ok: "site_ok (empty_site store)"
  by (simp add: site_ok_def empty_site_def)

subsection \<open>Half a publication\<close>

text \<open>Every page of the later site has the identifier and the published version it had, unless it is new.\<close>

definition pages_from :: "site \<Rightarrow> site \<Rightarrow> bool" where
  "pages_from s s' \<longleftrightarrow> si_next s \<le> si_next s' \<and> (\<forall>p' \<in> set (si_pages s'). si_next s \<le> wp_id p' \<or>
     (\<exists>p \<in> set (si_pages s). wp_id p = wp_id p' \<and> wp_published p = wp_published p'))"

lemma put_page_from:
  assumes "put_page p' s = Inr s'" "p \<in> set (si_pages s)" "wp_id p' = wp_id p" "wp_published p' = wp_published p"
  shows "pages_from s s' \<and> si_versions s' = si_versions s \<and> si_next s' = si_next s"
  using assms by (auto simp: pages_from_def put_page_def write_pages_Inr dest!: save_by_in)

lemma unique_slug_loop_from:
  "unique_slug_loop fuel now exclude base suffix candidate s = Some (Inr (slug, s')) \<Longrightarrow>
     pages_from s s' \<and> si_versions s' = si_versions s \<and> si_next s' = si_next s"
proof (induction fuel arbitrary: suffix candidate)
  case (Suc fuel)
  show ?case
  proof (cases "List.find (\<lambda>p. wp_slug p = candidate \<and> Some (wp_id p) \<noteq> exclude) (si_pages s)")
    case (Some clash)
    have c: "clash \<in> set (si_pages s)" using Some by (auto simp: find_Some_iff)
    show ?thesis
    proof (cases "wp_deleted clash")
      case True
      then have "put_page (clash\<lparr>wp_slug := retired_slug now (wp_slug clash)\<rparr>) s = Inr s'"
        using Suc.prems Some by (auto simp: bindE_eq_Inr)
      then show ?thesis using put_page_from c by fastforce
    qed (use Suc Some in simp)
  qed (use Suc.prems in \<open>auto simp: pages_from_def\<close>)
qed simp

lemma unique_slug_from:
  assumes "ensureUniqueSlug_page unaccent now source exclude s = Inr (slug, s')"
  shows "pages_from s s' \<and> si_versions s' = si_versions s \<and> si_next s' = si_next s"
  using assms unique_slug_loop_from [where s = s and s' = s' and slug = slug]
  by (auto simp: ensureUniqueSlug_page_def Let_def simp del: unique_slug_loop.simps split: option.splits)

text \<open>The number the next publication of the page would take, and a page whose next number is taken for good.\<close>

definition last_number :: "site \<Rightarrow> cms_page \<Rightarrow> nat" where
  "last_number s p = (case version_of s p of None \<Rightarrow> 0 | Some v \<Rightarrow> wv_number v)"

definition blocked :: "id \<Rightarrow> site \<Rightarrow> bool" where
  "blocked i s \<longleftrightarrow> i < si_next s \<and> (\<exists>n. (\<exists>x \<in> set (si_versions s). wv_page x = i \<and> wv_number x = Suc n) \<and>
     (\<forall>p \<in> set (si_pages s). wp_id p = i \<longrightarrow> last_number s p = n \<and> (\<forall>w. wp_published p = Some w \<longrightarrow> w < si_next s)))"

lemma insert_version_Inr:
  assumes "insert_version now actor p s = Inr (v, s')"
  shows "wv_id v = si_next s" "wv_page v = wp_id p" "wv_number v = Suc (last_number s p)"
    "\<not> (\<exists>x \<in> set (si_versions s). wv_page x = wp_id p \<and> wv_number x = Suc (last_number s p))"
    "s' = s\<lparr>si_versions := si_versions s @ [v], si_next := Suc (si_next s)\<rparr>"
  using assms by (auto simp: insert_version_def bindE_eq_Inr Let_def last_number_def list_ex_iff)

lemma last_number_later:
  assumes "si_versions s' = si_versions s \<or> si_versions s' = si_versions s @ [v] \<and> wv_id v = si_next s"
    "wp_published p' = wp_published p" "\<And>w. wp_published p = Some w \<Longrightarrow> w < si_next s"
  shows "last_number s' p' = last_number s p"
proof -
  have "version_of s' p' = version_of s p"
  proof (cases "wp_published p")
    case (Some w)
    have "List.find (\<lambda>x. wv_id x = w) (si_versions s') = List.find (\<lambda>x. wv_id x = w) (si_versions s)"
      using assms(1) assms(3) [OF Some] by (elim disjE conjE) (simp_all add: find_append split: option.split)
    then show ?thesis using Some by (simp add: version_of_def assms(2))
  qed (simp add: version_of_def assms(2))
  then show ?thesis by (simp add: last_number_def)
qed

lemma do_step_from:
  assumes "do_step unaccent now actor st s = Inr s'"
  shows "pages_from s s' \<and> si_versions s' = si_versions s \<or>
    (\<exists>k j p v. st = PublishPage k j \<and> get_page k j s = Inr p \<and> si_versions s' = si_versions s @ [v] \<and> wv_id v = si_next s \<and>
       \<not> (\<exists>x \<in> set (si_versions s). wv_page x = j \<and> wv_number x = Suc (last_number s p)) \<and>
       si_next s' = Suc (si_next s) \<and> (\<forall>p' \<in> set (si_pages s'). wp_id p' \<noteq> j \<longrightarrow> p' \<in> set (si_pages s)))"
proof (cases st)
  case (CreatePage k dto)
  then have "create_page unaccent now k dto actor s = Inr s'" using assms by (simp add: do_step_def)
  then obtain slug s1 p where u: "ensureUniqueSlug_page unaccent now (given_or (pd_slug dto) (given_or (pd_title dto) [])) None s = Inr (slug, s1)"
    and p: "wp_id p = si_next s1" and s': "s' = s1\<lparr>si_next := Suc (si_next s1), si_pages := si_pages s1 @ [p]\<rparr>"
    using create_page_Inr by metis
  show ?thesis using unique_slug_from [OF u] p by (auto simp: pages_from_def s')
next
  case (UpdatePage k i dto)
  then have upd: "update_page unaccent now k i dto actor s = Inr s'" using assms by (simp add: do_step_def)
  obtain p schedule slug s1 s2 where g: "get_page k i s = Inr p"
    and u: "(case pd_slug dto of
              Some t \<Rightarrow> if slugify unaccent t \<noteq> wp_slug p then ensureUniqueSlug_page unaccent now t (Some i) s else Inr (wp_slug p, s)
            | None \<Rightarrow> Inr (wp_slug p, s)) = Inr (slug, s1)"
    and put: "put_page (saved_page now dto actor schedule slug p) s1 = Inr s2"
    and s': "s' = (let p2 = saved_page now dto actor schedule slug p in
        if wp_published p2 \<noteq> None \<and> liveSettingsOf p2 \<noteq> liveSettingsOf p then notify_store s2 else s2)"
    by (rule update_page_Inr [OF upd]) (rule that)
  have s1: "pages_from s s1 \<and> si_versions s1 = si_versions s \<and> si_next s1 = si_next s"
    using u unique_slug_from by (auto simp: pages_from_def split: option.splits if_splits)
  have kept: "wp_id (saved_page now dto actor schedule slug p) = wp_id p" "wp_published (saved_page now dto actor schedule slug p) = wp_published p"
    by (simp_all add: saved_page_def edited_page_def Let_def)
  have "pages_from s s2" "si_versions s2 = si_versions s"
    using put s1 get_page_Inr(1) [OF g] kept by (fastforce simp: pages_from_def put_page_def write_pages_Inr dest!: save_by_in)+
  then show ?thesis using s' by (auto simp: Let_def notify_fields pages_from_def split: if_splits)
next
  case (PublishPage k j)
  then obtain p v s1 s2 where g: "get_page k j s = Inr p" and ins: "insert_version now actor p s = Inr (v, s1)"
    and put: "put_page (p\<lparr>wp_published := Some (wv_id v)\<rparr>) s1 = Inr s2" and s': "s' = notify_store s2"
    using assms by (fastforce simp: do_step_def publish_page_def bindE_eq_Inr)
  note i = insert_version_Inr [OF ins]
  have "p' \<in> set (si_pages s)" if "p' \<in> set (si_pages s')" "wp_id p' \<noteq> j" for p'
    using that put get_page_Inr(2) [OF g] by (auto simp: s' notify_fields put_page_def write_pages_Inr i(5) dest!: save_by_in)
  moreover have "si_versions s' = si_versions s @ [v]" "si_next s' = Suc (si_next s)"
    using put by (auto simp: s' notify_fields put_page_def write_pages_Inr i(5))
  ultimately show ?thesis using PublishPage g i(1,4) get_page_Inr(2) [OF g] by auto
next
  case (RemovePage k i)
  then obtain p s1 where g: "get_page k i s = Inr p" and put: "put_page (p\<lparr>wp_slug := retired_slug now (wp_slug p)\<rparr>) s = Inr s1"
    and s': "s' = (let s2 = s1\<lparr>si_pages := map (\<lambda>x. if wp_id x = i then x\<lparr>wp_deleted := True\<rparr> else x) (si_pages s1)\<rparr>
       in if wp_published p \<noteq> None then notify_store s2 else s2)"
    using assms by (fastforce simp: do_step_def remove_page_def bindE_eq_Inr Let_def)
  have "pages_from s s1 \<and> si_versions s1 = si_versions s" using put_page_from [OF put get_page_Inr(1) [OF g]] by simp
  then show ?thesis by (auto simp: s' Let_def notify_fields pages_from_def)
qed

lemma blocked_step:
  assumes "do_step unaccent now actor st s = Inr s'" "blocked i s"
  shows "blocked i s' \<and> (\<forall>k. st \<noteq> PublishPage k i)"
proof -
  from assms(2) obtain n x where i: "i < si_next s" and x: "x \<in> set (si_versions s)" "wv_page x = i" "wv_number x = Suc n"
    and pages: "\<And>p. p \<in> set (si_pages s) \<Longrightarrow> wp_id p = i \<Longrightarrow> last_number s p = n \<and> (\<forall>w. wp_published p = Some w \<longrightarrow> w < si_next s)"
    by (auto simp: blocked_def)
  from do_step_from [OF assms(1)] show ?thesis
  proof (elim disjE exE conjE)
    assume from_s: "pages_from s s'" and same: "si_versions s' = si_versions s"
    have "last_number s' p' = n \<and> (\<forall>w. wp_published p' = Some w \<longrightarrow> w < si_next s')" if "p' \<in> set (si_pages s')" "wp_id p' = i" for p'
    proof -
      have "\<not> si_next s \<le> wp_id p'" using that i by simp
      then obtain p where p: "p \<in> set (si_pages s)" "wp_id p = i" "wp_published p = wp_published p'" "si_next s \<le> si_next s'"
        using from_s \<open>p' \<in> _\<close> \<open>wp_id p' = i\<close> by (auto simp: pages_from_def)
      then show ?thesis using pages [OF p(1,2)] last_number_later [of s' s x p' p] same by fastforce
    qed
    moreover have "st \<noteq> PublishPage k i" for k
    proof
      assume "st = PublishPage k i"
      then have "si_versions s' \<noteq> si_versions s"
        using assms(1) insert_version_Inr(5)
        by (fastforce simp: do_step_def publish_page_def bindE_eq_Inr put_page_def write_pages_Inr notify_fields)
      then show False using same by simp
    qed
    ultimately show ?thesis using x i from_s same by (auto simp: blocked_def pages_from_def)
  next
    fix k j p v
    assume st: "st = PublishPage k j" "get_page k j s = Inr p" and new: "si_versions s' = si_versions s @ [v]" "wv_id v = si_next s"
      and free: "\<not> (\<exists>x \<in> set (si_versions s). wv_page x = j \<and> wv_number x = Suc (last_number s p))"
      and next_id: "si_next s' = Suc (si_next s)" and others: "\<forall>p' \<in> set (si_pages s'). wp_id p' \<noteq> j \<longrightarrow> p' \<in> set (si_pages s)"
    have ij: "j \<noteq> i" using free x pages get_page_Inr(1,2) [OF st(2)] by auto
    have "last_number s' p' = n \<and> (\<forall>w. wp_published p' = Some w \<longrightarrow> w < si_next s')" if "p' \<in> set (si_pages s')" "wp_id p' = i" for p'
      using others that ij pages [of p'] last_number_later [of s' s v p' p'] new next_id by fastforce
    then show ?thesis using x i st(1) ij new next_id by (auto simp: blocked_def)
  qed
qed

lemma blocked_run: "site_run unaccent a b \<Longrightarrow> blocked i a \<Longrightarrow> blocked i b"
  by (induction rule: site_run.induct) (auto dest: blocked_step)

subsection \<open>Properties\<close>

text \<open>C35: The text the store shows of a page, after any run of the panel, changes only when the page itself is published, and then to
  the draft of that moment, which is not blank; a draft can be edited, hidden, renamed or deleted without the published text moving.\<close>

theorem only_publishing_changes_the_text:
  assumes "site_run unaccent (empty_site store) s" "do_step unaccent now actor st s = Inr s'" "shown_text s' i \<noteq> shown_text s i"
  shows "\<exists>k p. st = PublishPage k i \<and> get_page k i s = Inr p \<and> shown_text s' i = Some (wp_title p, wp_content p) \<and>
    \<not> isBlankText (wp_content p)"
proof -
  have ok: "site_ok s" using site_run_ok [OF assms(1) empty_site_ok] by simp
  have ok': "site_ok s'" by (rule do_step_ok [OF assms(2) ok])
  from do_step_effect [OF assms(2) ok] show ?thesis
  proof (elim disjE exE conjE)
    assume "tame s s'"
    then have "history s' i = history s i" by (simp add: tame_def history_def)
    then have "shown_text s' i = shown_text s i" by (simp only: shown_text_last [OF ok] shown_text_last [OF ok'])
    then show ?thesis using assms(3) by simp
  next
    fix k j p v
    assume v: "st = PublishPage k j" "get_page k j s = Inr p" "si_versions s' = si_versions s @ [v]" "wv_page v = j"
      "wv_title v = wp_title p" "wv_content v = wp_content p" "\<not> isBlankText (wv_content v)"
    have h: "history s' i = history s i @ (if j = i then [v] else [])" using v by (simp add: history_def)
    show ?thesis
    proof (cases "j = i")
      case True
      then show ?thesis using v h by (simp add: shown_text_last ok')
    next
      case False
      then have "shown_text s' i = shown_text s i" using h by (simp only: shown_text_last [OF ok] shown_text_last [OF ok'] if_False append_Nil2)
      then show ?thesis using assms(3) by simp
    qed
  qed
qed

text \<open>C36: Whatever the panel does to the pages, the store is told of it, when its address and the shared secret are set: two moments of
  a run with no request to the store between them show, by one clock, the same pages, the same notices, and the same text at every
  address. A notice that starts or ends by the clock alone is no write and is not told. Each request runs to its end, and
  nothing is said of a request that the store does not answer.\<close>

theorem store_hears_of_every_change:
  assumes "site_run unaccent (empty_site store) a" "site_run unaccent a b" "store_known a" "si_pings b = si_pings a"
  shows "listPublishedPages collate b = listPublishedPages collate a \<and> listVisibleHomeNotices now b = listVisibleHomeNotices now a \<and>
    getPublishedPage slug b = getPublishedPage slug a"
proof -
  have "site_ok a" using site_run_ok [OF assms(1) empty_site_ok] by simp
  from site_run_ok [OF assms(2) this] assms(3,4) have "si_versions b = si_versions a" "faces k b = faces k a" for k by simp_all
  from same_faces_same_view [OF this(2,2,1)] show ?thesis by simp
qed

text \<open>C37: A publication that stops between its two writes, the version saved and the page not yet pointing at it, makes the page
  unpublishable for good: the next number is taken from the page, so every later attempt repeats the saved one and the database refuses it.\<close>

theorem torn_publication_blocks_the_page:
  assumes "site_run unaccent (empty_site store) s" "get_page k i s = Inr p" "insert_version now actor p s = Inr (v, s1)" "site_run unaccent s1 s2"
  shows "\<exists>e. publish_page later k' i someone s2 = Inl e"
proof -
  have ok: "site_ok s" using site_run_ok [OF assms(1) empty_site_ok] by simp
  note p = get_page_Inr [OF assms(2)] and v = insert_version_Inr [OF assms(3)]
  have "last_number s1 x = last_number s p \<and> (\<forall>w. wp_published x = Some w \<longrightarrow> w < si_next s1)"
    if "x \<in> set (si_pages s1)" "wp_id x = i" for x
  proof -
    have x: "x = p" using page_unique [OF ok p(1)] that p(2) by (simp add: v(5))
    have w: "w < si_next s" if "wp_published p = Some w" for w
    proof -
      have "last (history s i) \<in> set (si_versions s)" "w = wv_id (last (history s i))"
        using that ok p(1,2) filter_is_subset [of "\<lambda>v. wv_page v = i" "si_versions s"] last_in_set [of "history s i"]
        by (auto simp: site_ok_def page_ok_def history_def split: if_splits)
      then show ?thesis using ok by (auto simp: site_ok_def)
    qed
    then show ?thesis using last_number_later [of s1 s v x p] v(1,5) x by fastforce
  qed
  moreover have "i < si_next s1" using ok p(1,2) by (auto simp: site_ok_def v(5))
  ultimately have "blocked i s1" unfolding blocked_def using v(2,3,5) p(2) by auto
  then have "blocked i s2" by (rule blocked_run [OF assms(4)])
  show ?thesis
  proof (cases "publish_page later k' i someone s2")
    case (Inr s3)
    then have "do_step unaccent later someone (PublishPage k' i) s2 = Inr s3" by (simp add: do_step_def)
    from blocked_step [OF this \<open>blocked i s2\<close>] show ?thesis by simp
  qed blast
qed

lemma length_dec_str: "10 ^ k \<le> n \<Longrightarrow> k < length (dec_str n)"
proof (induction k arbitrary: n)
  case (Suc k)
  moreover have "1 \<le> (10::nat) ^ k" by simp
  ultimately have "10 ^ k \<le> n div 10" "\<not> n < 10" by (simp_all add: less_eq_div_iff_mult_less_eq, linarith)
  then show ?case using Suc.IH [of "n div 10"] by (simp add: dec_str.simps [of n])
qed (simp add: dec_str_nonempty)

text \<open>C38: A page whose address has more than 96 characters, which creating and renaming allow up to 120, cannot be deleted: the suffix
  with the time that frees the address makes it longer than its column, at any time since 2001.\<close>

theorem long_address_is_never_deleted:
  assumes "get_page k i s = Inr p" "96 < length (wp_slug p)" "10 ^ 12 \<le> now"
  shows "\<exists>e. remove_page now k i s = Inl e"
proof -
  let ?p = "p\<lparr>wp_slug := retired_slug now (wp_slug p)\<rparr>"
  have "10 ^ 12 \<le> nat now" using assms(3) by simp
  from length_dec_str [OF this] have "120 < length (wp_slug ?p)"
    using assms(2,3) by (simp add: retired_slug_def int_str_def)
  moreover have "?p \<in> set (save_by wp_id ?p (si_pages s))"
    using get_page_Inr(1) [OF assms(1)] by (force simp: save_by_def)
  ultimately have "put_page ?p s \<noteq> Inr s1" for s1 by (force simp: put_page_def write_pages_Inr list_all_iff)
  then obtain e where "put_page ?p s = Inl e" by (cases "put_page ?p s") auto
  then show ?thesis using assms(1) by (simp add: remove_page_def)
qed

subsection \<open>Concrete instances\<close>

definition sample_editor :: account where
  "sample_editor = sample_account 1 ''lia'' SUPER_ADMIN True"

definition sample_page_dto :: "string \<Rightarrow> page_dto" where
  "sample_page_dto t = \<lparr>pd_slug = None, pd_title = Some ''a'', pd_content = Some t, pd_sort = None, pd_active = None, pd_starts = None,
     pd_ends = None\<rparr>"

definition sample_page :: cms_page where
  "sample_page = \<lparr>wp_id = 1, wp_kind = InfoPage, wp_slug = ''a'', wp_title = ''a'', wp_content = ''x'', wp_sort = 0, wp_active = True,
     wp_starts = None, wp_ends = None, wp_draft_at = Some 5, wp_draft_by = Some (describeActor sample_editor), wp_published = None,
     wp_created = 5, wp_deleted = False\<rparr>"

definition sample_version :: page_version where
  "sample_version = \<lparr>wv_id = 2, wv_page = 1, wv_number = 1, wv_title = ''a'', wv_content = ''x'', wv_by = 1,
     wv_by_name = describeActor sample_editor, wv_at = 6\<rparr>"

definition sample_store :: "string option \<times> string option" where
  "sample_store = (Some ''https://maxi.cu'', Some ''k'')"

definition drafted :: site where
  "drafted = \<lparr>si_pages = [sample_page], si_versions = [], si_next = 2, si_store = sample_store, si_pings = 0\<rparr>"

definition published :: site where
  "published = \<lparr>si_pages = [sample_page\<lparr>wp_published := Some 2\<rparr>], si_versions = [sample_version], si_next = 3, si_store = sample_store, si_pings = 1\<rparr>"

definition edited :: site where
  "edited = published\<lparr>si_pages := [sample_page\<lparr>wp_published := Some 2, wp_content := ''y'', wp_draft_at := Some 7\<rparr>]\<rparr>"

lemma sample_slug: "slugify (\<lambda>x. x) ''a'' = ''a''"
  by code_simp

lemma sample_worded: "\<not> isBlankText ''x''"
  by code_simp

lemma drafting: "do_step (\<lambda>x. x) 5 sample_editor (CreatePage InfoPage (sample_page_dto ''x'')) (empty_site sample_store) = Inr drafted"
  by (simp add: do_step_def create_page_def resolveSchedule_def sample_page_dto_def given_or_def ensureUniqueSlug_page_def Let_def sample_slug
      empty_site_def write_pages_def drafted_def sample_page_def)

lemma publishing: "do_step (\<lambda>x. x) 6 sample_editor (PublishPage InfoPage 1) drafted = Inr published"
  by (simp add: do_step_def publish_page_def get_page_def drafted_def sample_page_def sample_worded publicationStatusOf_def version_of_def
      insert_version_def Let_def put_page_def save_by_def write_pages_def notify_store_def store_known_def non_empty_def sample_store_def published_def sample_version_def
      sample_editor_def sample_account_def)

lemma editing: "do_step (\<lambda>x. x) 7 sample_editor (UpdatePage InfoPage 1 (sample_page_dto ''y'')) published = Inr edited"
  by (simp add: do_step_def update_page_def get_page_def published_def sample_page_def resolveSchedule_def sample_page_dto_def given_or_def
      saved_page_def edited_page_def Let_def put_page_def save_by_def write_pages_def liveSettingsOf_def edited_def)

lemma sample_runs: "site_run (\<lambda>x. x) (empty_site sample_store) drafted" "site_run (\<lambda>x. x) (empty_site sample_store) published" "site_run (\<lambda>x. x) published edited"
proof -
  show d: "site_run (\<lambda>x. x) (empty_site sample_store) drafted" by (rule run_more [OF run_none drafting])
  show "site_run (\<lambda>x. x) (empty_site sample_store) published" by (rule run_more [OF d publishing])
  show "site_run (\<lambda>x. x) published edited" by (rule run_more [OF run_none editing])
qed

theorem only_publishing_changes_the_text_witness:
  "shown_text published 1 \<noteq> shown_text drafted 1 \<and> shown_text published 1 = Some (''a'', ''x'')"
proof -
  have "shown_text drafted 1 = None" "shown_text published 1 = Some (''a'', ''x'')"
    by (simp_all add: shown_text_def drafted_def published_def version_of_def sample_page_def sample_version_def)
  with only_publishing_changes_the_text [OF sample_runs(1) publishing, of 1] show ?thesis by simp
qed

theorem store_hears_of_every_change_witness:
  "edited \<noteq> published \<and> getPublishedPage ''a'' edited = getPublishedPage ''a'' published"
proof -
  have "store_known published" "si_pings edited = si_pings published"
    by (simp_all add: edited_def published_def store_known_def non_empty_def sample_store_def)
  from store_hears_of_every_change [OF sample_runs(2,3) this] have "getPublishedPage ''a'' edited = getPublishedPage ''a'' published" by simp
  moreover have "edited \<noteq> published" by (simp add: edited_def published_def sample_page_def)
  ultimately show ?thesis by simp
qed

theorem torn_publication_blocks_the_page_witness:
  "\<exists>v s1. insert_version 6 sample_editor sample_page drafted = Inr (v, s1) \<and> (\<exists>e. publish_page 7 InfoPage 1 sample_editor s1 = Inl e)"
proof -
  have got: "get_page InfoPage 1 drafted = Inr sample_page" by (simp add: get_page_def drafted_def sample_page_def)
  have "insert_version 6 sample_editor sample_page drafted = Inr (sample_version, drafted\<lparr>si_versions := [sample_version], si_next := 3\<rparr>)"
    by (simp add: insert_version_def version_of_def drafted_def Let_def sample_page_def sample_version_def sample_editor_def sample_account_def)
  with torn_publication_blocks_the_page [OF sample_runs(1) got this run_none] show ?thesis by blast
qed

theorem long_address_is_never_deleted_witness:
  "let p = sample_page\<lparr>wp_slug := replicate 100 (CHR ''a'')\<rparr>; s = drafted\<lparr>si_pages := [p]\<rparr>
   in write_pages [p] (empty_site sample_store) \<noteq> Inl (InternalError ''value too long'') \<and> (\<exists>e. remove_page 1700000000000 InfoPage 1 s = Inl e)"
proof -
  let ?p = "sample_page\<lparr>wp_slug := replicate 100 (CHR ''a'')\<rparr>"
  have "get_page InfoPage 1 (drafted\<lparr>si_pages := [?p]\<rparr>) = Inr ?p" by (simp add: get_page_def sample_page_def)
  from long_address_is_never_deleted [OF this, of 1700000000000] show ?thesis by (simp add: Let_def write_pages_def)
qed

end
