(* ===== verification/Contact.thy ===== *)
theory Contact
  imports Mail_Laws Listings
begin

section \<open>Messages of the customers and the lists of options\<close>

text \<open>
  \<open>src/contact/contact.service.ts\<close>, \<open>contact-mail.service.ts\<close> and \<open>public-contact.controller.ts\<close>: what arrives through the form,
  the inbox with its log of answers, and the drafts of answers; and \<open>src/nomenclators/nomenclators.service.ts\<close>, the lists of options
  the motives come from. An answer on the platform goes through \<open>send\<close> of \<open>Mail\<close>, whose log keeps the mails that failed too, so
  \<open>addReply\<close> returns the state also when it fails.
\<close>

record nomenclator =
  no_id :: id
  no_category :: string
  no_code :: string
  no_label :: string
  no_text :: "string option"
  no_sort :: int
  no_active :: bool
  no_deleted :: bool

datatype contact_status = Nuevo | EnProceso | Respondido | Cerrado

record contact_message =
  cm_id :: id
  cm_motive :: id
  cm_client :: "id option"
  cm_name :: "string option"
  cm_last :: "string option"
  cm_email :: "string option"
  cm_phone :: "string option"
  cm_text :: string
  cm_status :: contact_status
  cm_created :: instant
  cm_deleted :: bool

datatype reply_channel = ByEmail | ByWhatsapp | ByTelephone | ByPlatform | InternalNote

record contact_reply =
  cr_id :: id
  cr_message :: id
  cr_user :: id
  cr_channel :: reply_channel
  cr_template :: "id option"
  cr_body :: "string option"
  cr_created :: instant

record reply_template =
  rp_id :: id
  rp_title :: string
  rp_body :: string
  rp_motive :: "id option"
  rp_sort :: int
  rp_active :: bool
  rp_deleted :: bool

record desk =
  dk_options :: "nomenclator list"
  dk_messages :: "contact_message list"
  dk_replies :: "contact_reply list"
  dk_templates :: "reply_template list"
  dk_mailbox :: mailbox
  dk_next :: nat
  dk_pings :: nat

subsection \<open>Lists of options\<close>

definition by_sort :: "('r \<Rightarrow> int) \<Rightarrow> ('r \<Rightarrow> string) \<Rightarrow> collation \<Rightarrow> 'r \<Rightarrow> 'r \<Rightarrow> int" where
  "by_sort sort_of name_of collate a b = (if sort_of a \<noteq> sort_of b then sort_of a - sort_of b else collate (name_of a) (name_of b))"

definition list_options :: "collation \<Rightarrow> string \<Rightarrow> desk \<Rightarrow> nomenclator list" where
  "list_options collate category s = js_sort (by_sort no_sort no_label collate)
     (filter (\<lambda>r. no_category r = category \<and> \<not> no_deleted r) (dk_options s))"

definition listActive :: "collation \<Rightarrow> string \<Rightarrow> desk \<Rightarrow> nomenclator list" where
  "listActive collate category s = js_sort (by_sort no_sort no_label collate)
     (filter (\<lambda>r. no_category r = category \<and> no_active r \<and> \<not> no_deleted r) (dk_options s))"

definition get_option :: "id \<Rightarrow> desk \<Rightarrow> error + nomenclator" where
  "get_option i s = from_option (NotFound ''Nomenclator not found'') (List.find (\<lambda>r. no_id r = i \<and> \<not> no_deleted r) (dk_options s))"

definition findActiveOption :: "string \<Rightarrow> id \<Rightarrow> desk \<Rightarrow> nomenclator option" where
  "findActiveOption category i s = List.find (\<lambda>r. no_id r = i \<and> no_category r = category \<and> no_active r \<and> \<not> no_deleted r) (dk_options s)"

definition labelsFor :: "id list \<Rightarrow> desk \<Rightarrow> (id \<times> string) list" where
  "labelsFor ids s = map (\<lambda>r. (no_id r, no_label r)) (filter (\<lambda>r. no_id r \<in> set ids) (dk_options s))"

text \<open>The unique index on category and code, and the length of the column.\<close>

definition write_options :: "nomenclator list \<Rightarrow> desk \<Rightarrow> error + desk" where
  "write_options rows s =
     bindE (guardE (distinct (map (\<lambda>r. (no_category r, no_code r)) rows)) (InternalError ''duplicate key'')) (\<lambda>_.
     bindE (guardE (list_all (\<lambda>r. length (no_code r) \<le> 120) rows) (InternalError ''value too long'')) (\<lambda>_.
     Inr (s\<lparr>dk_options := rows\<rparr>)))"

text \<open>The turns of \<open>ensureUniqueCode\<close>, one more than there are options.\<close>

fun unique_code_loop :: "nat \<Rightarrow> instant \<Rightarrow> string \<Rightarrow> string \<Rightarrow> nat \<Rightarrow> string \<Rightarrow> desk \<Rightarrow> (error + string \<times> desk) option" where
  "unique_code_loop 0 now category base suffix candidate s = None"
| "unique_code_loop (Suc fuel) now category base suffix candidate s =
     (case List.find (\<lambda>r. no_category r = category \<and> no_code r = candidate) (dk_options s) of
        None \<Rightarrow> Some (Inr (candidate, s))
      | Some clash \<Rightarrow>
          if no_deleted clash
          then Some (bindE (write_options (save_by no_id (clash\<lparr>no_code := no_code clash @ ''-eliminado-'' @ int_str now\<rparr>) (dk_options s)) s)
                 (\<lambda>s1. Inr (candidate, s1)))
          else unique_code_loop fuel now category base (Suc suffix) (base @ ''-'' @ dec_str suffix) s)"

definition ensureUniqueCode :: "(string \<Rightarrow> string) \<Rightarrow> instant \<Rightarrow> string \<Rightarrow> string \<Rightarrow> desk \<Rightarrow> error + string \<times> desk" where
  "ensureUniqueCode unaccent now category source s = (let base = slugify unaccent source in
     case unique_code_loop (Suc (length (dk_options s))) now category base 2 base s of
       Some r \<Rightarrow> r | None \<Rightarrow> Inl (InternalError ''the loop did not end''))"

record nomenclator_dto =
  od_label :: "string option"
  od_text :: "string option option"
  od_sort :: "int option"
  od_active :: "bool option"

definition ping_options :: "desk \<Rightarrow> desk" where
  "ping_options s = s\<lparr>dk_pings := Suc (dk_pings s)\<rparr>"

definition create_option :: "(string \<Rightarrow> string) \<Rightarrow> instant \<Rightarrow> string \<Rightarrow> nomenclator_dto \<Rightarrow> desk \<Rightarrow> error + desk" where
  "create_option unaccent now category dto s = (let label = given_or (od_label dto) [] in
     bindE (ensureUniqueCode unaccent now category label s) (\<lambda>(code, s1).
     let row = \<lparr>no_id = dk_next s1, no_category = category, no_code = code, no_label = label, no_text = given_or (od_text dto) None,
                no_sort = given_or (od_sort dto) 0, no_active = given_or (od_active dto) True, no_deleted = False\<rparr>
     in bindE (write_options (dk_options s1 @ [row]) (s1\<lparr>dk_next := Suc (dk_next s1)\<rparr>)) (\<lambda>s2. Inr (ping_options s2))))"

definition update_option :: "id \<Rightarrow> nomenclator_dto \<Rightarrow> desk \<Rightarrow> error + desk" where
  "update_option i dto s =
     bindE (get_option i s) (\<lambda>row.
     let row' = row\<lparr>no_label := given_or (od_label dto) (no_label row), no_text := given_or (od_text dto) (no_text row),
                    no_sort := given_or (od_sort dto) (no_sort row), no_active := given_or (od_active dto) (no_active row)\<rparr>
     in bindE (write_options (save_by no_id row' (dk_options s)) s) (\<lambda>s1. Inr (ping_options s1)))"

definition remove_option :: "id \<Rightarrow> desk \<Rightarrow> error + desk" where
  "remove_option i s = bindE (get_option i s) (\<lambda>row.
     Inr (ping_options (s\<lparr>dk_options := save_by no_id (row\<lparr>no_deleted := True\<rparr>) (dk_options s)\<rparr>)))"

subsection \<open>What arrives through the form\<close>

definition CONTACT_MOTIVE_CATEGORY :: string where
  "CONTACT_MOTIVE_CATEGORY = ''contact-motive''"

record message_dto =
  md_motive :: id
  md_text :: string
  md_name :: "string option"
  md_last :: "string option"
  md_email :: "string option"
  md_phone :: "string option"
  md_website :: "string option"

text \<open>The sender: the customer signed in, or what an anonymous person typed.\<close>

definition identity_of :: "message_dto \<Rightarrow> customer option \<Rightarrow> id option \<times> string option \<times> string option \<times> string option \<times> string option" where
  "identity_of dto who = (case who of
     Some c \<Rightarrow> (Some (cu_id c), cu_first c, cu_last c, cu_email c, cu_phone c)
   | None \<Rightarrow> (None, trimmed (md_name dto), trimmed (md_last dto), trimmed (md_email dto), trimmed (md_phone dto)))"

definition submitMessage :: "instant \<Rightarrow> message_dto \<Rightarrow> customer option \<Rightarrow> desk \<Rightarrow> error + contact_message option \<times> desk" where
  "submitMessage now dto who s =
     (if trimmed (md_website dto) \<noteq> None then Inr (None, s)
      else case findActiveOption CONTACT_MOTIVE_CATEGORY (md_motive dto) s of
        None \<Rightarrow> Inl (BadRequest ''Unknown contact motive'')
      | Some motive \<Rightarrow>
          let (client, name, last_name, email, phone) = identity_of dto who in
          bindE (guardE (who \<noteq> None \<or> name \<noteq> None \<and> last_name \<noteq> None) (Unprocessable ''Name and last name are required'')) (\<lambda>_.
          bindE (guardE (who \<noteq> None \<or> email \<noteq> None \<or> phone \<noteq> None) (Unprocessable ''An email or a phone number is required'')) (\<lambda>_.
          let m = \<lparr>cm_id = dk_next s, cm_motive = no_id motive, cm_client = client, cm_name = name, cm_last = last_name, cm_email = email,
                   cm_phone = phone, cm_text = js_trim (md_text dto), cm_status = Nuevo, cm_created = now, cm_deleted = False\<rparr>
          in Inr (Some m, s\<lparr>dk_messages := dk_messages s @ [m], dk_next := Suc (dk_next s)\<rparr>))))"

text \<open>
  The route. \<open>who\<close> is what the verification of the token gave, or nothing without one: a token that does not verify is an anonymous
  sender. The answer is the same for a message that was thrown away.
\<close>

definition submit :: "instant \<Rightarrow> message_dto \<Rightarrow> (error + customer) option \<Rightarrow> desk \<Rightarrow> error + desk" where
  "submit now dto who s =
     bindE (submitMessage now dto (case who of Some (Inr c) \<Rightarrow> Some c | _ \<Rightarrow> None) s) (\<lambda>(_, s1). Inr s1)"

subsection \<open>The inbox\<close>

datatype message_sort = SortCreated | SortStatus | SortName | SortEmail

record message_query =
  mq_q :: "string option"
  mq_motive :: "id option"
  mq_status :: "contact_status option"
  mq_from :: "instant option"
  mq_to :: "instant option"
  mq_sort :: "message_sort option"
  mq_ascending :: bool
  mq_page :: "nat option"
  mq_limit :: "nat option"

text \<open>\<open>mq_to\<close> is the start of a day, all of which counts. An absent column matches no search.\<close>

definition matches_message :: "(string \<Rightarrow> string) \<Rightarrow> message_query \<Rightarrow> contact_message \<Rightarrow> bool" where
  "matches_message unaccent q m \<longleftrightarrow> \<not> cm_deleted m \<and>
     when_given (non_empty (mq_q q)) (\<lambda>t. list_ex (\<lambda>col. case col of None \<Rightarrow> False | Some text \<Rightarrow> sinTildes unaccent text (comoBusquedaParcial t))
        [cm_name m, cm_last m, cm_email m, cm_phone m, Some (cm_text m)]) \<and>
     when_given (mq_motive q) (\<lambda>i. cm_motive m = i) \<and>
     when_given (mq_status q) (\<lambda>x. cm_status m = x) \<and>
     when_given (mq_from q) (\<lambda>t. t \<le> cm_created m) \<and>
     when_given (mq_to q) (\<lambda>t. cm_created m < t + one_day)"

text \<open>Ascending, an absent value goes last; the order of the states is that of their declaration.\<close>

definition cmp_optional :: "collation \<Rightarrow> string option \<Rightarrow> string option \<Rightarrow> int" where
  "cmp_optional collate a b = (case (a, b) of (None, None) \<Rightarrow> 0 | (None, Some _) \<Rightarrow> 1 | (Some _, None) \<Rightarrow> -1 | (Some x, Some y) \<Rightarrow> collate x y)"

fun contact_rank :: "contact_status \<Rightarrow> int" where
  "contact_rank Nuevo = 0" | "contact_rank EnProceso = 1" | "contact_rank Respondido = 2" | "contact_rank Cerrado = 3"

definition cmp_message :: "collation \<Rightarrow> message_query \<Rightarrow> contact_message \<Rightarrow> contact_message \<Rightarrow> int" where
  "cmp_message collate q a b =
     (let c = (case given_or (mq_sort q) SortCreated of
                 SortCreated \<Rightarrow> cm_created a - cm_created b
               | SortStatus \<Rightarrow> contact_rank (cm_status a) - contact_rank (cm_status b)
               | SortName \<Rightarrow> cmp_optional collate (cm_name a) (cm_name b)
               | SortEmail \<Rightarrow> cmp_optional collate (cm_email a) (cm_email b))
      in if mq_ascending q then c else - c)"

type_synonym message_row = "contact_message \<times> string option"

definition listMessages :: "collation \<Rightarrow> (string \<Rightarrow> string) \<Rightarrow> message_query \<Rightarrow> desk \<Rightarrow> message_row page_of" where
  "listMessages collate unaccent q s =
     (let (page, limit, skip) = getPaginationParams (mq_page q) (mq_limit q);
          found = filter (matches_message unaccent q) (dk_messages s);
          rows = slice skip limit (js_sort (cmp_message collate q) found);
          labels = labelsFor (map cm_motive rows) s
      in buildPaginatedResponse (map (\<lambda>m. (m, jm_get (cm_motive m) labels)) rows) (length found) page limit)"

definition find_message :: "id \<Rightarrow> desk \<Rightarrow> error + contact_message" where
  "find_message i s = from_option (NotFound ''Contact message not found'')
     (List.find (\<lambda>m. cm_id m = i \<and> \<not> cm_deleted m) (dk_messages s))"

text \<open>The name of who answered; an account that was deleted has none any more.\<close>

definition answerer :: "account list \<Rightarrow> id \<Rightarrow> string option" where
  "answerer users i = (case List.find (\<lambda>u. us_id u = i \<and> \<not> us_deleted u) users of None \<Rightarrow> None
     | Some u \<Rightarrow> non_empty (Some (joined '' '' (filter (\<lambda>x. x \<noteq> []) (map (\<lambda>x. given_or x []) [us_first u, us_last u])))))"

record message_detail =
  mt_message :: contact_message
  mt_label :: "string option"
  mt_replies :: "(contact_reply \<times> string option) list"

definition getMessage :: "account list \<Rightarrow> id \<Rightarrow> desk \<Rightarrow> error + message_detail" where
  "getMessage users i s = bindE (find_message i s) (\<lambda>m.
     Inr \<lparr>mt_message = m, mt_label = jm_get (cm_motive m) (labelsFor [cm_motive m] s),
          mt_replies = map (\<lambda>r. (r, answerer users (cr_user r)))
            (js_sort (\<lambda>a b. cr_created a - cr_created b) (filter (\<lambda>r. cr_message r = i) (dk_replies s)))\<rparr>)"

definition save_message :: "contact_message \<Rightarrow> desk \<Rightarrow> desk" where
  "save_message m s = s\<lparr>dk_messages := save_by cm_id m (dk_messages s)\<rparr>"

definition updateStatus_message :: "id \<Rightarrow> contact_status \<Rightarrow> desk \<Rightarrow> error + desk" where
  "updateStatus_message i status s = bindE (find_message i s) (\<lambda>m. Inr (save_message (m\<lparr>cm_status := status\<rparr>) s))"

subsection \<open>Answers\<close>

record reply_dto =
  rd_channel :: reply_channel
  rd_template :: "id option"
  rd_body :: "string option"

text \<open>\<open>wording\<close> is the template of the answer, filled with its body.\<close>

definition sendReply :: "mail_world \<Rightarrow> (string \<Rightarrow> mail_body) \<Rightarrow> string \<Rightarrow> string \<Rightarrow> string \<Rightarrow> mailbox \<Rightarrow> (error + unit) \<times> mailbox" where
  "sendReply w wording to subject body b =
     (if \<not> re_configured (mw_resend w) then (Inl (ServiceUnavailable ''platform replies are disabled''), b)
      else let (res, b1) = send w \<lparr>og_to = to, og_subject = subject, og_body = wording body, og_template = ''contact_reply'',
                                  og_order = None, og_files = [], og_note = None\<rparr> b
           in (guardE (sr_status res = MailSent) (ServiceUnavailable ''No se pudo enviar la respuesta''), b1))"

definition reply_subject :: string where
  "reply_subject = ''Respuesta a tu mensaje - Maxi''"

definition log_reply :: "instant \<Rightarrow> contact_message \<Rightarrow> id \<Rightarrow> reply_dto \<Rightarrow> desk \<Rightarrow> desk" where
  "log_reply now m user dto s =
     (let s1 = s\<lparr>dk_replies := dk_replies s @ [\<lparr>cr_id = dk_next s, cr_message = cm_id m, cr_user = user, cr_channel = rd_channel dto,
                   cr_template = rd_template dto, cr_body = rd_body dto, cr_created = now\<rparr>], dk_next := Suc (dk_next s)\<rparr>
      in if rd_channel dto \<noteq> InternalNote \<and> cm_status m \<noteq> Cerrado then save_message (m\<lparr>cm_status := Respondido\<rparr>) s1 else s1)"

definition addReply :: "mail_world \<Rightarrow> (string \<Rightarrow> mail_body) \<Rightarrow> id \<Rightarrow> id \<Rightarrow> reply_dto \<Rightarrow> desk \<Rightarrow> (error + unit) \<times> desk" where
  "addReply w wording i user dto s = (case find_message i s of Inl e \<Rightarrow> (Inl e, s)
   | Inr m \<Rightarrow>
       if rd_template dto \<noteq> None \<and> \<not> list_ex (\<lambda>t. Some (rp_id t) = rd_template dto) (dk_templates s)
       then (Inl (BadRequest ''Unknown reply template''), s)
       else if rd_channel dto \<noteq> ByPlatform then (Inr (), log_reply (mw_now w) m user dto s)
       else case non_empty (cm_email m) of None \<Rightarrow> (Inl (Unprocessable ''The sender left no email address''), s)
       | Some address \<Rightarrow> (case non_empty (rd_body dto) of
           None \<Rightarrow> (Inl (Unprocessable ''A body is required to send a platform reply''), s)
         | Some body \<Rightarrow>
             let (res, b) = sendReply w wording address reply_subject body (dk_mailbox s); s1 = s\<lparr>dk_mailbox := b\<rparr>
             in (case res of Inl e \<Rightarrow> (Inl e, s1) | Inr _ \<Rightarrow> (Inr (), log_reply (mw_now w) m user dto s1))))"

subsection \<open>Drafts of answers\<close>

record template_dto =
  td_title :: "string option"
  td_body :: "string option"
  td_motive :: "id option option"
  td_sort :: "int option"
  td_active :: "bool option"

definition listTemplates :: "collation \<Rightarrow> desk \<Rightarrow> reply_template list" where
  "listTemplates collate s = js_sort (by_sort rp_sort rp_title collate) (filter (\<lambda>t. \<not> rp_deleted t) (dk_templates s))"

definition getTemplate :: "id \<Rightarrow> desk \<Rightarrow> error + reply_template" where
  "getTemplate i s = from_option (NotFound ''Reply template not found'') (List.find (\<lambda>t. rp_id t = i \<and> \<not> rp_deleted t) (dk_templates s))"

definition assertMotive :: "id option \<Rightarrow> desk \<Rightarrow> error + unit" where
  "assertMotive motive s = (case motive of None \<Rightarrow> Inr ()
     | Some i \<Rightarrow> guardE (findActiveOption CONTACT_MOTIVE_CATEGORY i s \<noteq> None) (BadRequest ''Unknown contact motive''))"

definition createTemplate :: "template_dto \<Rightarrow> desk \<Rightarrow> error + desk" where
  "createTemplate dto s = (let motive = given_or (td_motive dto) None in bindE (assertMotive motive s) (\<lambda>_.
     Inr (s\<lparr>dk_templates := dk_templates s @ [\<lparr>rp_id = dk_next s, rp_title = given_or (td_title dto) [], rp_body = given_or (td_body dto) [],
              rp_motive = motive, rp_sort = given_or (td_sort dto) 0, rp_active = given_or (td_active dto) True, rp_deleted = False\<rparr>],
            dk_next := Suc (dk_next s)\<rparr>)))"

definition updateTemplate :: "id \<Rightarrow> template_dto \<Rightarrow> desk \<Rightarrow> error + desk" where
  "updateTemplate i dto s =
     bindE (getTemplate i s) (\<lambda>t.
     bindE (assertMotive (given_or (td_motive dto) None) s) (\<lambda>_.
     Inr (s\<lparr>dk_templates := save_by rp_id (t\<lparr>rp_title := given_or (td_title dto) (rp_title t), rp_body := given_or (td_body dto) (rp_body t),
              rp_motive := given_or (td_motive dto) (rp_motive t), rp_sort := given_or (td_sort dto) (rp_sort t),
              rp_active := given_or (td_active dto) (rp_active t)\<rparr>) (dk_templates s)\<rparr>)))"

definition removeTemplate :: "id \<Rightarrow> desk \<Rightarrow> error + desk" where
  "removeTemplate i s = bindE (getTemplate i s) (\<lambda>t.
     Inr (s\<lparr>dk_templates := save_by rp_id (t\<lparr>rp_deleted := True\<rparr>) (dk_templates s)\<rparr>))"

subsection \<open>Runs\<close>

datatype desk_step =
    Submit message_dto "(error + customer) option"
  | SetStatus id contact_status
  | Reply id id reply_dto
  | CreateOption string nomenclator_dto
  | UpdateOption id nomenclator_dto
  | RemoveOption id
  | CreateTemplate template_dto
  | UpdateTemplate id template_dto
  | RemoveTemplate id

text \<open>A request that fails leaves the state, but for an answer, which may have left its mail in the log.\<close>

definition or_same :: "desk \<Rightarrow> error + desk \<Rightarrow> desk" where
  "or_same s r = (case r of Inl _ \<Rightarrow> s | Inr s1 \<Rightarrow> s1)"

definition desk_do :: "(string \<Rightarrow> string) \<Rightarrow> (string \<Rightarrow> mail_body) \<Rightarrow> mail_world \<Rightarrow> desk_step \<Rightarrow> desk \<Rightarrow> desk" where
  "desk_do unaccent wording w st s = (case st of
     Submit dto who \<Rightarrow> or_same s (submit (mw_now w) dto who s)
   | SetStatus i status \<Rightarrow> or_same s (updateStatus_message i status s)
   | Reply i user dto \<Rightarrow> snd (addReply w wording i user dto s)
   | CreateOption category dto \<Rightarrow> or_same s (create_option unaccent (mw_now w) category dto s)
   | UpdateOption i dto \<Rightarrow> or_same s (update_option i dto s)
   | RemoveOption i \<Rightarrow> or_same s (remove_option i s)
   | CreateTemplate dto \<Rightarrow> or_same s (createTemplate dto s)
   | UpdateTemplate i dto \<Rightarrow> or_same s (updateTemplate i dto s)
   | RemoveTemplate i \<Rightarrow> or_same s (removeTemplate i s))"

text \<open>Each step in a world of its own: its time, its settings and the answers of the provider.\<close>

definition desk_run :: "(string \<Rightarrow> string) \<Rightarrow> (string \<Rightarrow> mail_body) \<Rightarrow> (mail_world \<times> desk_step) list \<Rightarrow> desk \<Rightarrow> desk" where
  "desk_run unaccent wording steps s = fold (\<lambda>(w, st). desk_do unaccent wording w st) steps s"

definition empty_desk :: desk where
  "empty_desk = \<lparr>dk_options = [], dk_messages = [], dk_replies = [], dk_templates = [], dk_mailbox = empty_mailbox, dk_next = 1, dk_pings = 0\<rparr>"

end
