(* ===== verification/Contact_Laws.thy ===== *)
theory Contact_Laws
  imports Contact
begin

section \<open>Answers that were really given\<close>

text \<open>
  Over any run of the inbox: the mails that left are exactly the answers logged as sent by the platform, a message is marked as
  answered only by an answer or by hand, and an anonymous message always says who wrote and how to reach them.
\<close>

definition address_of :: "desk \<Rightarrow> id \<Rightarrow> string option" where
  "address_of s i = Option.bind (List.find (\<lambda>m. cm_id m = i) (dk_messages s)) cm_email"

definition platform_answers :: "(string \<Rightarrow> mail_body) \<Rightarrow> desk \<Rightarrow> (string option \<times> mail_body) list" where
  "platform_answers wording s = map (\<lambda>r. (address_of s (cr_message r), wording (given_or (cr_body r) [])))
     (filter (\<lambda>r. cr_channel r = ByPlatform) (dk_replies s))"

definition mails_out :: "desk \<Rightarrow> (string option \<times> mail_body) list" where
  "mails_out s = map (\<lambda>e. (Some (og_to e), og_body e)) (mb_out (dk_mailbox s))"

definition reachable_sender :: "contact_message \<Rightarrow> bool" where
  "reachable_sender m \<longleftrightarrow> (cm_client m = None \<longrightarrow>
     cm_name m \<noteq> None \<and> cm_last m \<noteq> None \<and> (cm_email m \<noteq> None \<or> cm_phone m \<noteq> None))"

definition was_answered :: "desk \<Rightarrow> id \<Rightarrow> bool" where
  "was_answered s i \<longleftrightarrow> (\<exists>r \<in> set (dk_replies s). cr_message r = i \<and> cr_channel r \<noteq> InternalNote)"

definition desk_ok :: "(string \<Rightarrow> mail_body) \<Rightarrow> desk \<Rightarrow> bool" where
  "desk_ok wording s \<longleftrightarrow> distinct (map cm_id (dk_messages s)) \<and>
     (\<forall>m \<in> set (dk_messages s). cm_id m < dk_next s \<and> reachable_sender m) \<and>
     (\<forall>r \<in> set (dk_replies s). cr_message r < dk_next s) \<and> platform_answers wording s = mails_out s"

text \<open>A message marked as answered has an answer, or is one of those marked by hand.\<close>

definition answers_true :: "id set \<Rightarrow> desk \<Rightarrow> bool" where
  "answers_true hand s \<longleftrightarrow> (\<forall>m \<in> set (dk_messages s). cm_status m = Respondido \<longrightarrow> was_answered s (cm_id m) \<or> cm_id m \<in> hand)"

text \<open>The search for a free code always ends: its candidates are all different, and only options can take them.\<close>

lemma unique_code_loop_ends:
  assumes "next_code fuel base suffix candidate (map no_code (dk_options s)) \<noteq> None"
  shows "unique_code_loop fuel now category base suffix candidate s \<noteq> None"
  using assms
proof (induction fuel base suffix candidate "map no_code (dk_options s)" rule: next_code.induct)
  case (2 fuel base suffix code)
  show ?case
  proof (cases "code \<in> set (map no_code (dk_options s))")
    case True
    then show ?thesis using 2 by (auto split: option.splits)
  next
    case False
    then have "List.find (\<lambda>r. no_category r = category \<and> no_code r = code) (dk_options s) = None"
      by (auto simp: find_None_iff)
    then show ?thesis by simp
  qed
qed simp

lemma ensureUniqueCode_ends:
  "unique_code_loop (Suc (length (dk_options s))) now category base 2 base s \<noteq> None"
  using next_code_exists [of "map no_code (dk_options s)" base] by (intro unique_code_loop_ends) auto

lemma find_message_Inr:
  assumes "find_message i s = Inr m"
  shows "m \<in> set (dk_messages s)" "cm_id m = i"
  using assms by (auto simp: find_message_def from_option_eq_Inr find_Some_iff)

subsection \<open>Steps that leave the conversation alone\<close>

definition same_talk :: "desk \<Rightarrow> desk \<Rightarrow> bool" where
  "same_talk s s' \<longleftrightarrow> dk_messages s' = dk_messages s \<and> dk_replies s' = dk_replies s \<and> dk_mailbox s' = dk_mailbox s \<and> dk_next s \<le> dk_next s'"

lemma same_talk_keeps:
  assumes "same_talk s s'"
  shows "desk_ok wording s \<Longrightarrow> desk_ok wording s'" "answers_true hand s \<Longrightarrow> answers_true hand s'"
  using assms
  by (auto simp: same_talk_def desk_ok_def answers_true_def was_answered_def platform_answers_def mails_out_def address_of_def
      intro: less_le_trans)

lemma write_options_Inr:
  "write_options rows s = Inr s' \<longleftrightarrow>
     distinct (map (\<lambda>r. (no_category r, no_code r)) rows) \<and> list_all (\<lambda>r. length (no_code r) \<le> 120) rows \<and> s' = s\<lparr>dk_options := rows\<rparr>"
  by (auto simp: write_options_def bindE_eq_Inr)

lemma unique_code_talk:
  "unique_code_loop fuel now category base suffix candidate s = Some (Inr (code, s')) \<Longrightarrow> same_talk s s'"
proof (induction fuel arbitrary: suffix candidate)
  case (Suc fuel)
  then show ?case
    by (auto simp: same_talk_def bindE_eq_Inr write_options_Inr split: option.splits if_splits)
qed simp

lemma ensureUniqueCode_talk:
  assumes "ensureUniqueCode unaccent now category label s = Inr (code, s')"
  shows "same_talk s s'"
  using assms unique_code_talk [where s = s and s' = s' and code = code]
  by (auto simp: ensureUniqueCode_def Let_def simp del: unique_code_loop.simps split: option.splits)

lemma create_option_talk:
  assumes "create_option unaccent now category dto s = Inr s'"
  shows "same_talk s s'"
proof -
  obtain code s1 where "ensureUniqueCode unaccent now category (given_or (od_label dto) []) s = Inr (code, s1)"
    and "dk_messages s' = dk_messages s1" "dk_replies s' = dk_replies s1" "dk_mailbox s' = dk_mailbox s1" "dk_next s' = Suc (dk_next s1)"
    using assms by (auto simp: create_option_def Let_def bindE_eq_Inr write_options_Inr ping_options_def)
  then show ?thesis using ensureUniqueCode_talk by (fastforce simp: same_talk_def)
qed

lemma other_steps_talk:
  "update_option i dto s = Inr s' \<Longrightarrow> same_talk s s'"
  "remove_option i s = Inr s' \<Longrightarrow> same_talk s s'"
  "createTemplate tdto s = Inr s' \<Longrightarrow> same_talk s s'"
  "updateTemplate i tdto s = Inr s' \<Longrightarrow> same_talk s s'"
  "removeTemplate i s = Inr s' \<Longrightarrow> same_talk s s'"
  by (auto simp: update_option_def remove_option_def createTemplate_def updateTemplate_def removeTemplate_def same_talk_def
      bindE_eq_Inr Let_def write_options_Inr ping_options_def)

subsection \<open>Messages and answers\<close>

lemma submit_keeps:
  assumes "submit now dto who s = Inr s'" "desk_ok wording s"
  shows "desk_ok wording s' \<and> (answers_true hand s \<longrightarrow> answers_true hand s')"
proof -
  from assms(1) consider "s' = s"
    | m where "s' = s\<lparr>dk_messages := dk_messages s @ [m], dk_next := Suc (dk_next s)\<rparr>" "cm_id m = dk_next s" "reachable_sender m"
      "cm_status m = Nuevo"
    by (fastforce simp: submit_def submitMessage_def identity_of_def bindE_eq_Inr Let_def reachable_sender_def
        split: if_splits option.splits sum.splits)
  then show ?thesis
  proof cases
    case 2
    have "address_of s' (cr_message r) = address_of s (cr_message r)" if "r \<in> set (dk_replies s)" for r
      using that assms(2) 2(2) by (auto simp: address_of_def 2(1) find_append desk_ok_def split: option.splits)
    then have "platform_answers wording s' = platform_answers wording s" by (simp add: platform_answers_def 2(1))
    then show ?thesis using assms(2) 2 by (auto simp: desk_ok_def answers_true_def was_answered_def mails_out_def less_Suc_eq)
  qed (use assms(2) in simp)
qed

lemma save_message_address:
  assumes "m \<in> set (dk_messages s)" "distinct (map cm_id (dk_messages s))" "cm_id m' = cm_id m" "cm_email m' = cm_email m"
  shows "address_of (save_message m' s) i = address_of s i"
  using assms find_distinct_key [OF assms(2,1)] by (auto simp: address_of_def save_message_def find_save_by)

lemma save_message_keeps:
  assumes "desk_ok wording s" "m \<in> set (dk_messages s)"
  shows "desk_ok wording (save_message (m\<lparr>cm_status := status\<rparr>) s)"
    and "answers_true hand s \<Longrightarrow> status = Respondido \<longrightarrow> was_answered s (cm_id m) \<or> cm_id m \<in> hand \<Longrightarrow> answers_true hand (save_message (m\<lparr>cm_status := status\<rparr>) s)"
proof -
  let ?m = "m\<lparr>cm_status := status\<rparr>"
  have d: "distinct (map cm_id (dk_messages s))" using assms(1) by (simp add: desk_ok_def)
  have "address_of (save_message ?m s) i = address_of s i" for i
    by (rule save_message_address [OF assms(2) d]) simp_all
  then have "platform_answers wording (save_message ?m s) = mails_out (save_message ?m s)"
    using assms(1) by (simp add: desk_ok_def platform_answers_def mails_out_def save_message_def)
  moreover have rows: "x = ?m \<or> x \<in> set (dk_messages s)" if "x \<in> set (dk_messages (save_message ?m s))" for x
    using that by (auto simp: save_message_def save_by_def)
  moreover have "reachable_sender ?m = reachable_sender m" by (simp add: reachable_sender_def)
  ultimately show "desk_ok wording (save_message ?m s)"
    using assms d by (fastforce simp: desk_ok_def save_message_def save_by_keys)
  show "answers_true hand (save_message ?m s)" if "answers_true hand s" "status = Respondido \<longrightarrow> was_answered s (cm_id m) \<or> cm_id m \<in> hand"
  proof -
    have "was_answered (save_message ?m s) i = was_answered s i" for i by (simp add: was_answered_def save_message_def)
    then show ?thesis using that rows assms(2) by (fastforce simp: answers_true_def)
  qed
qed

text \<open>Logging an answer: a mail that left with it keeps the two lists in step.\<close>

lemma log_reply_keeps:
  assumes "distinct (map cm_id (dk_messages s))" "\<forall>m \<in> set (dk_messages s). cm_id m < dk_next s \<and> reachable_sender m"
    "\<forall>r \<in> set (dk_replies s). cr_message r < dk_next s" "m \<in> set (dk_messages s)"
    "mails_out s = platform_answers wording s @
       (if rd_channel dto = ByPlatform then [(cm_email m, wording (given_or (rd_body dto) []))] else [])"
  shows "desk_ok wording (log_reply now m user dto s) \<and> (answers_true hand s \<longrightarrow> answers_true hand (log_reply now m user dto s))"
proof -
  define s1 where "s1 = s\<lparr>dk_replies := dk_replies s @ [\<lparr>cr_id = dk_next s, cr_message = cm_id m, cr_user = user,
    cr_channel = rd_channel dto, cr_template = rd_template dto, cr_body = rd_body dto, cr_created = now\<rparr>], dk_next := Suc (dk_next s)\<rparr>"
  have "address_of s (cm_id m) = cm_email m" using find_distinct_key [OF assms(1,4)] by (simp add: address_of_def)
  moreover have "address_of s1 = address_of s" by (rule ext) (simp add: address_of_def s1_def)
  ultimately have "platform_answers wording s1 = mails_out s1"
    using assms(5) by (simp add: platform_answers_def mails_out_def s1_def)
  then have ok: "desk_ok wording s1" using assms by (auto simp: desk_ok_def s1_def less_Suc_eq)
  have m: "m \<in> set (dk_messages s1)" using assms(4) by (simp add: s1_def)
  have answers: "answers_true hand s1" if "answers_true hand s" using that by (auto simp: answers_true_def was_answered_def s1_def)
  have said: "was_answered s1 (cm_id m)" if "rd_channel dto \<noteq> InternalNote" using that by (simp add: was_answered_def s1_def)
  have "log_reply now m user dto s =
      (if rd_channel dto \<noteq> InternalNote \<and> cm_status m \<noteq> Cerrado then save_message (m\<lparr>cm_status := Respondido\<rparr>) s1 else s1)"
    by (simp add: log_reply_def s1_def Let_def)
  then show ?thesis using ok answers said save_message_keeps [OF ok m, where status = Respondido] by simp
qed

lemma sendReply_mails:
  assumes "sendReply w wording to subject body b = (res, b')"
  shows "res = Inl e \<Longrightarrow> mb_out b' = mb_out b"
    "res = Inr () \<Longrightarrow> map (\<lambda>x. (Some (og_to x), og_body x)) (mb_out b') = map (\<lambda>x. (Some (og_to x), og_body x)) (mb_out b) @ [(Some to, wording body)]"
  using assms by (auto simp: sendReply_def guardE_def dest: send_effect(1) split: if_splits prod.splits)

lemma addReply_cases:
  assumes "addReply w wording i user dto s = (res, s')"
  obtains (same) "s' = s"
  | (logged) m where "find_message i s = Inr m" "rd_channel dto \<noteq> ByPlatform" "s' = log_reply (mw_now w) m user dto s"
  | (mailed) m address body r b where "find_message i s = Inr m" "rd_channel dto = ByPlatform" "cm_email m = Some address"
      "rd_body dto = Some body" "sendReply w wording address reply_subject body (dk_mailbox s) = (r, b)"
      "s' = (case r of Inl _ \<Rightarrow> s\<lparr>dk_mailbox := b\<rparr> | Inr _ \<Rightarrow> log_reply (mw_now w) m user dto (s\<lparr>dk_mailbox := b\<rparr>))"
proof (cases "find_message i s")
  case (Inl e)
  then show thesis using assms same by (simp add: addReply_def)
next
  case (Inr m)
  note found = Inr
  show thesis
  proof (cases "rd_template dto \<noteq> None \<and> \<not> list_ex (\<lambda>t. Some (rp_id t) = rd_template dto) (dk_templates s) \<or>
      rd_channel dto = ByPlatform \<and> (non_empty (cm_email m) = None \<or> non_empty (rd_body dto) = None)")
    case True
    then have "s' = s" using assms found by (auto simp: addReply_def split: if_splits option.splits)
    then show thesis by (rule same)
  next
    case False
    show thesis
    proof (cases "rd_channel dto = ByPlatform")
      case True
      then obtain address body where a: "cm_email m = Some address" "non_empty (cm_email m) = Some address"
          "rd_body dto = Some body" "non_empty (rd_body dto) = Some body"
        using False by (auto simp: non_empty_def split: if_splits)
      obtain r b where r: "sendReply w wording address reply_subject body (dk_mailbox s) = (r, b)" by force
      have "s' = (case r of Inl _ \<Rightarrow> s\<lparr>dk_mailbox := b\<rparr> | Inr _ \<Rightarrow> log_reply (mw_now w) m user dto (s\<lparr>dk_mailbox := b\<rparr>))"
        using assms found False True a r by (auto simp: addReply_def Let_def split: sum.splits if_splits)
      then show thesis by (rule mailed [OF found True a(1,3) r])
    next
      case other: False
      then have "s' = log_reply (mw_now w) m user dto s" using assms found False by (auto simp: addReply_def split: if_splits)
      then show thesis by (rule logged [OF found other])
    qed
  qed
qed

lemma addReply_keeps:
  assumes "addReply w wording i user dto s = (res, s')" "desk_ok wording s"
  shows "desk_ok wording s' \<and> (answers_true hand s \<longrightarrow> answers_true hand s')"
  using assms(1)
proof (cases rule: addReply_cases)
  case same
  then show ?thesis using assms by simp
next
  case (logged m)
  then show ?thesis
    using assms log_reply_keeps [of s m wording dto] find_message_Inr [of i s m] by (simp add: desk_ok_def)
next
  case (mailed m address body r b)
  let ?s = "s\<lparr>dk_mailbox := b\<rparr>"
  have same: "platform_answers wording ?s = platform_answers wording s" "answers_true hand ?s = answers_true hand s"
    by (simp_all add: platform_answers_def address_of_def answers_true_def was_answered_def)
  show ?thesis
  proof (cases r)
    case (Inl e)
    then have "mb_out b = mb_out (dk_mailbox s)" using mailed(5) sendReply_mails(1) by blast
    then show ?thesis using assms(2) same mailed(6) Inl by (auto simp: desk_ok_def mails_out_def)
  next
    case (Inr u)
    then have "mails_out ?s = mails_out s @ [(Some address, wording body)]"
      using sendReply_mails(2) mailed(5) by (simp add: mails_out_def)
    then have "mails_out ?s = platform_answers wording ?s @
        (if rd_channel dto = ByPlatform then [(cm_email m, wording (given_or (rd_body dto) []))] else [])"
      using assms(2) same mailed by (simp add: desk_ok_def given_or_def)
    then show ?thesis
      using assms(2) same mailed(1,6) Inr log_reply_keeps [of ?s m wording dto] find_message_Inr [of i s m] by (simp add: desk_ok_def)
  qed
qed

lemma desk_do_keeps:
  assumes "desk_ok wording s"
  shows "desk_ok wording (desk_do unaccent wording w st s) \<and>
    ((\<forall>i. st = SetStatus i Respondido \<longrightarrow> i \<in> hand) \<longrightarrow> answers_true hand s \<longrightarrow> answers_true hand (desk_do unaccent wording w st s))"
proof -
  have quiet: "desk_ok wording (or_same s r) \<and> (answers_true hand s \<longrightarrow> answers_true hand (or_same s r))"
    if "\<And>s'. r = Inr s' \<Longrightarrow> same_talk s s'" for r
    using that same_talk_keeps assms by (cases r) (auto simp: or_same_def)
  show ?thesis
  proof (cases st)
    case (Submit dto who)
    then show ?thesis
      using submit_keeps [OF _ assms] assms by (cases "submit (mw_now w) dto who s") (auto simp: desk_do_def or_same_def)
  next
    case (SetStatus i status)
    show ?thesis
    proof (cases "find_message i s")
      case (Inr m)
      note k = save_message_keeps [OF assms find_message_Inr(1) [OF Inr], where status = status]
      then show ?thesis using SetStatus Inr find_message_Inr(2) [OF Inr] by (auto simp: desk_do_def updateStatus_message_def or_same_def)
    qed (use SetStatus assms in \<open>simp add: desk_do_def updateStatus_message_def or_same_def\<close>)
  next
    case (Reply i user dto)
    then show ?thesis using addReply_keeps [OF _ assms] by (cases "addReply w wording i user dto s") (simp add: desk_do_def)
  qed (use quiet create_option_talk other_steps_talk in \<open>simp_all add: desk_do_def\<close>)
qed

text \<open>C39: Over any run of the inbox, whatever the mail provider answers, the mails the provider took are exactly the answers logged as
  sent by the platform, each to the address its message came with; a message is marked as answered only when somebody answered it or
  somebody marked that very message by hand, which the panel allows; and a message without an account says who wrote it and how to reach
  them.\<close>

theorem answered_means_answered:
  fixes unaccent wording steps
  defines "s \<equiv> desk_run unaccent wording steps empty_desk"
  shows "platform_answers wording s = mails_out s \<and>
    (\<forall>m \<in> set (dk_messages s). reachable_sender m \<and>
       (cm_status m = Respondido \<longrightarrow> was_answered s (cm_id m) \<or> (\<exists>w. (w, SetStatus (cm_id m) Respondido) \<in> set steps)))"
proof -
  let ?hand = "{i. \<exists>w. (w, SetStatus i Respondido) \<in> set steps}"
  have run: "desk_ok wording (desk_run unaccent wording xs s0) \<and> answers_true ?hand (desk_run unaccent wording xs s0)"
    if "desk_ok wording s0" "answers_true ?hand s0" "set xs \<subseteq> set steps" for xs s0
    using that
  proof (induction xs arbitrary: s0)
    case (Cons x rest)
    obtain w st where x: "x = (w, st)" by (cases x)
    have "\<forall>i. st = SetStatus i Respondido \<longrightarrow> i \<in> ?hand" using Cons.prems(3) by (auto simp: x)
    then show ?case
      using Cons.IH [of "desk_do unaccent wording w st s0"] Cons.prems desk_do_keeps [of wording s0 unaccent w st ?hand]
      by (simp add: desk_run_def x)
  qed (simp add: desk_run_def)
  have "desk_ok wording empty_desk" "answers_true ?hand empty_desk"
    by (simp_all add: desk_ok_def answers_true_def empty_desk_def platform_answers_def mails_out_def empty_mailbox_def)
  from run [OF this subset_refl] have "desk_ok wording s" "answers_true ?hand s" by (simp_all add: s_def)
  then show ?thesis by (auto simp: desk_ok_def answers_true_def)
qed

subsection \<open>A run\<close>

definition desk_world :: mail_world where
  "desk_world = \<lparr>mw_now = 1000, mw_resend = \<lparr>re_key = Some ''k'', re_from = Some ''m'', re_reply = None, re_configured = True, re_off = [],
     re_monthly = 0, re_daily = 0, re_month_reserve = 0, re_day_reserve = 0, re_low = []\<rparr>, mw_counts = True, mw_saves = True,
     mw_post = (\<lambda>_ _. Answered 200 None)\<rparr>"

definition sample_message :: message_dto where
  "sample_message = \<lparr>md_motive = 1, md_text = ''x'', md_name = Some ''a'', md_last = Some ''b'', md_email = Some ''c'', md_phone = None,
     md_website = None\<rparr>"

definition desk_steps :: "(mail_world \<times> desk_step) list" where
  "desk_steps = [(desk_world, CreateOption CONTACT_MOTIVE_CATEGORY \<lparr>od_label = Some ''q'', od_text = None, od_sort = None, od_active = None\<rparr>),
     (desk_world, Submit sample_message None),
     (desk_world, Reply 2 9 \<lparr>rd_channel = ByPlatform, rd_template = None, rd_body = Some ''r''\<rparr>)]"

theorem answered_means_answered_witness:
  "let s = desk_run (\<lambda>x. x) (\<lambda>t. Written t t) desk_steps empty_desk
   in mails_out s = [(Some ''c'', Written ''r'' ''r'')] \<and> map cm_status (dk_messages s) = [Respondido] \<and> was_answered s 2"
proof -
  have "mails_out (desk_run (\<lambda>x. x) (\<lambda>t. Written t t) desk_steps empty_desk) = [(Some ''c'', Written ''r'' ''r'')]"
    and m: "map (\<lambda>m. (cm_id m, cm_status m)) (dk_messages (desk_run (\<lambda>x. x) (\<lambda>t. Written t t) desk_steps empty_desk)) = [(2, Respondido)]"
    by code_simp+
  moreover have "(w, SetStatus i Respondido) \<notin> set desk_steps" for w i by (simp add: desk_steps_def)
  moreover note answered_means_answered [of "\<lambda>t. Written t t" "\<lambda>x. x" desk_steps]
  ultimately show ?thesis using m by (auto simp: Let_def)
qed

end
