(* ===== verification/Cms_Home.thy ===== *)
theory Cms_Home
  imports Cms_Pages
begin

section \<open>The home of the store: draft, preview and publication\<close>

text \<open>
  \<open>src/cms/cms-home.layout.ts\<close>, \<open>cms-home.service.ts\<close>, \<open>cms-home-changes.service.ts\<close>, \<open>cms-home-preview-token.ts\<close> and the banners
  of \<open>cms.service.ts\<close>. The home is a singleton with a draft and a frozen copy, both documents in a column of type jsonb; the banners
  of the draft are rows. What is read back goes through a normalisation, modelled on JSON values: \<open>jsonb\<close> is what the database does
  with a document, keys sorted by length and then by bytes, the last of a repeated key kept. \<open>coerce\<close> is \<open>Number\<close> on a value that
  is no number, which the validated requests never store. The identifiers of products and categories are written as texts in the
  documents.
\<close>

subsection \<open>Documents\<close>

definition jsonb_key :: "string \<Rightarrow> string \<Rightarrow> int" where
  "jsonb_key a b = (if length a \<noteq> length b then int (length a) - int (length b)
     else case List.find (\<lambda>(x, y). x \<noteq> y) (zip a b) of None \<Rightarrow> 0 | Some (x, y) \<Rightarrow> int (of_char x :: nat) - int (of_char y :: nat))"

definition jsonb_fields :: "(string \<times> json) list \<Rightarrow> (string \<times> json) list" where
  "jsonb_fields fs = js_sort (\<lambda>a b. jsonb_key (fst a) (fst b)) (fold (\<lambda>(k, v) m. jm_set k v m) fs [])"

fun jsonb :: "json \<Rightarrow> json" where
  "jsonb (JArr xs) = JArr (map jsonb xs)"
| "jsonb (JObj fs) = JObj (jsonb_fields (map (\<lambda>(k, v). (k, jsonb v)) fs))"
| "jsonb j = j"

fun isRecord :: "json \<Rightarrow> bool" where
  "isRecord (JObj _) = True"
| "isRecord _ = False"

subsection \<open>The layout\<close>

datatype section_key = Hero | Departments | FeaturedProducts | Services | OnSaleProducts | Categories | RecentProducts

fun section_str :: "section_key \<Rightarrow> string" where
  "section_str Hero = ''hero''"
| "section_str Departments = ''departments''"
| "section_str FeaturedProducts = ''featured-products''"
| "section_str Services = ''services''"
| "section_str OnSaleProducts = ''on-sale-products''"
| "section_str Categories = ''categories''"
| "section_str RecentProducts = ''recent-products''"

definition HOME_SECTION_KEYS :: "section_key list" where
  "HOME_SECTION_KEYS = [Hero, Departments, FeaturedProducts, Services, OnSaleProducts, Categories, RecentProducts]"

record home_layout =
  hl_sections :: "(section_key \<times> bool) list"
  hl_products :: "string list"
  hl_departments :: "string list"

definition DEFAULT_HOME_LAYOUT :: home_layout where
  "DEFAULT_HOME_LAYOUT = \<lparr>hl_sections = map (\<lambda>k. (k, True)) HOME_SECTION_KEYS, hl_products = [], hl_departments = []\<rparr>"

definition section_key_of :: "json option \<Rightarrow> section_key option" where
  "section_key_of v = List.find (\<lambda>k. v = Some (JStr (section_str k))) HOME_SECTION_KEYS"

definition uniqueStrings :: "json option \<Rightarrow> string list" where
  "uniqueStrings v = (case v of Some (JArr xs) \<Rightarrow> js_set (concat (map (\<lambda>x. case x of JStr s \<Rightarrow> [s] | _ \<Rightarrow> []) xs)) | _ \<Rightarrow> [])"

text \<open>The first of each known section, then those the document does not name, visible.\<close>

fun normalizeSections :: "section_key list \<Rightarrow> json list \<Rightarrow> (section_key \<times> bool) list" where
  "normalizeSections seen [] = map (\<lambda>k. (k, True)) (filter (\<lambda>k. k \<notin> set seen) HOME_SECTION_KEYS)"
| "normalizeSections seen (item # rest) =
     (case (if isRecord item then section_key_of (json_field ''key'' item) else None) of
        None \<Rightarrow> normalizeSections seen rest
      | Some k \<Rightarrow> if k \<in> set seen then normalizeSections seen rest
                 else (k, json_field ''isVisible'' item \<noteq> Some (JBool False)) # normalizeSections (k # seen) rest)"

definition normalizeHomeLayout :: "json option \<Rightarrow> home_layout" where
  "normalizeHomeLayout v = (case v of None \<Rightarrow> DEFAULT_HOME_LAYOUT
   | Some j \<Rightarrow> (case (if isRecord j then json_field ''sections'' j else None) of
       Some (JArr xs) \<Rightarrow> \<lparr>hl_sections = normalizeSections [] xs, hl_products = uniqueStrings (json_field ''featuredProductIds'' j),
                         hl_departments = uniqueStrings (json_field ''featuredDepartmentIds'' j)\<rparr>
     | _ \<Rightarrow> DEFAULT_HOME_LAYOUT))"

subsection \<open>Banners and the frozen copy\<close>

datatype target_type = TargetDepartment | TargetCategory | TargetProduct

fun target_str :: "target_type \<Rightarrow> string" where
  "target_str TargetDepartment = ''department''"
| "target_str TargetCategory = ''category''"
| "target_str TargetProduct = ''product''"

record banner_asset =
  ba_src :: string
  ba_width :: "rat option"
  ba_height :: "rat option"

record banner_copy =
  bc_id :: string
  bc_alt :: string
  bc_title :: "string option"
  bc_subtitle :: "string option"
  bc_desktop :: banner_asset
  bc_tablet :: banner_asset
  bc_mobile :: banner_asset
  bc_type :: "target_type option"
  bc_target :: "string option"

record home_snapshot =
  hs_layout :: home_layout
  hs_banners :: "banner_copy list"

definition toText :: "json option \<Rightarrow> string" where
  "toText v = (case v of Some (JStr s) \<Rightarrow> s | _ \<Rightarrow> [])"

definition toNullableString :: "json option \<Rightarrow> string option" where
  "toNullableString v = (case v of Some (JStr s) \<Rightarrow> Some s | _ \<Rightarrow> None)"

text \<open>\<open>Number(v ?? 0)\<close>; \<open>None\<close> is \<open>NaN\<close>.\<close>

definition toNumber :: "(json \<Rightarrow> rat option) \<Rightarrow> json option \<Rightarrow> rat option" where
  "toNumber coerce v = (case nullish v of None \<Rightarrow> Some 0 | Some (JNum r) \<Rightarrow> Some r | Some j \<Rightarrow> coerce j)"

definition toAsset :: "(json \<Rightarrow> rat option) \<Rightarrow> json option \<Rightarrow> banner_asset" where
  "toAsset coerce v = (let asset = (case v of Some j \<Rightarrow> if isRecord j then j else JObj [] | None \<Rightarrow> JObj [])
     in \<lparr>ba_src = toText (json_field ''src'' asset), ba_width = toNumber coerce (json_field ''width'' asset),
         ba_height = toNumber coerce (json_field ''height'' asset)\<rparr>)"

definition toTargetType :: "json option \<Rightarrow> target_type option" where
  "toTargetType v = List.find (\<lambda>t. v = Some (JStr (target_str t))) [TargetDepartment, TargetCategory, TargetProduct]"

definition toBannerSnapshot :: "(json \<Rightarrow> rat option) \<Rightarrow> json \<Rightarrow> banner_copy" where
  "toBannerSnapshot coerce b =
     \<lparr>bc_id = toText (json_field ''id'' b), bc_alt = toText (json_field ''alt'' b), bc_title = toNullableString (json_field ''title'' b),
      bc_subtitle = toNullableString (json_field ''subtitle'' b), bc_desktop = toAsset coerce (json_field ''desktop'' b),
      bc_tablet = toAsset coerce (json_field ''tablet'' b), bc_mobile = toAsset coerce (json_field ''mobile'' b),
      bc_type = toTargetType (json_field ''targetType'' b), bc_target = toNullableString (json_field ''targetId'' b)\<rparr>"

text \<open>A row of the table; its assets are documents.\<close>

record banner =
  bn_id :: id
  bn_alt :: string
  bn_title :: "string option"
  bn_subtitle :: "string option"
  bn_desktop :: json
  bn_tablet :: json
  bn_mobile :: json
  bn_type :: "target_type option"
  bn_target :: "string option"
  bn_sort :: int
  bn_active :: bool
  bn_created :: instant
  bn_deleted :: bool

definition text_or_null :: "string option \<Rightarrow> json" where
  "text_or_null x = (case x of None \<Rightarrow> JNull | Some s \<Rightarrow> JStr s)"

text \<open>The row as the value of JavaScript that \<open>toBannerSnapshot\<close> reads.\<close>

definition banner_json :: "banner \<Rightarrow> json" where
  "banner_json b = JObj [(''id'', JStr (dec_str (bn_id b))), (''alt'', JStr (bn_alt b)), (''title'', text_or_null (bn_title b)),
     (''subtitle'', text_or_null (bn_subtitle b)), (''desktop'', bn_desktop b), (''tablet'', bn_tablet b), (''mobile'', bn_mobile b),
     (''targetType'', text_or_null (map_option target_str (bn_type b))), (''targetId'', text_or_null (bn_target b))]"

text \<open>What is written: a layout and a snapshot as documents.\<close>

definition layout_fields :: "home_layout \<Rightarrow> (string \<times> json) list" where
  "layout_fields l =
     [(''sections'', JArr (map (\<lambda>(k, v). JObj [(''key'', JStr (section_str k)), (''isVisible'', JBool v)]) (hl_sections l))),
      (''featuredProductIds'', JArr (map JStr (hl_products l))), (''featuredDepartmentIds'', JArr (map JStr (hl_departments l)))]"

text \<open>\<open>JSON.stringify\<close> writes a number that is not one as null.\<close>

definition asset_json :: "banner_asset \<Rightarrow> json" where
  "asset_json a = JObj [(''src'', JStr (ba_src a)), (''width'', case ba_width a of None \<Rightarrow> JNull | Some r \<Rightarrow> JNum r),
     (''height'', case ba_height a of None \<Rightarrow> JNull | Some r \<Rightarrow> JNum r)]"

definition banner_copy_json :: "banner_copy \<Rightarrow> json" where
  "banner_copy_json b = JObj [(''id'', JStr (bc_id b)), (''alt'', JStr (bc_alt b)), (''title'', text_or_null (bc_title b)),
     (''subtitle'', text_or_null (bc_subtitle b)), (''desktop'', asset_json (bc_desktop b)), (''tablet'', asset_json (bc_tablet b)),
     (''mobile'', asset_json (bc_mobile b)), (''targetType'', text_or_null (map_option target_str (bc_type b))),
     (''targetId'', text_or_null (bc_target b))]"

definition layout_json :: "home_layout \<Rightarrow> json" where
  "layout_json l = JObj (layout_fields l)"

definition snapshot_json :: "home_snapshot \<Rightarrow> json" where
  "snapshot_json s = JObj (layout_fields (hs_layout s) @ [(''banners'', JArr (map banner_copy_json (hs_banners s)))])"

definition buildHomeSnapshot :: "(json \<Rightarrow> rat option) \<Rightarrow> home_layout \<Rightarrow> banner list \<Rightarrow> home_snapshot" where
  "buildHomeSnapshot coerce l banners =
     \<lparr>hs_layout = normalizeHomeLayout (Some (layout_json l)), hs_banners = map (toBannerSnapshot coerce \<circ> banner_json) banners\<rparr>"

definition normalizeHomeSnapshot :: "(json \<Rightarrow> rat option) \<Rightarrow> json option \<Rightarrow> home_snapshot option" where
  "normalizeHomeSnapshot coerce v = (case v of None \<Rightarrow> None
   | Some j \<Rightarrow> if \<not> isRecord j then None
     else Some \<lparr>hs_layout = normalizeHomeLayout (Some j),
                hs_banners = (case json_field ''banners'' j of
                  Some (JArr xs) \<Rightarrow> map (toBannerSnapshot coerce) (filter isRecord xs) | _ \<Rightarrow> [])\<rparr>)"

text \<open>Normalising a snapshot that is already one only touches its layout; the comparison is that of the printed texts.\<close>

definition renormalized :: "home_snapshot \<Rightarrow> home_snapshot" where
  "renormalized a = a\<lparr>hs_layout := normalizeHomeLayout (Some (layout_json (hs_layout a)))\<rparr>"

definition sameHomeSnapshot :: "home_snapshot \<Rightarrow> home_snapshot option \<Rightarrow> bool" where
  "sameHomeSnapshot a b = (case b of None \<Rightarrow> False | Some x \<Rightarrow> snapshot_json (renormalized a) = snapshot_json (renormalized x))"

subsection \<open>The state\<close>

datatype change_action = BannerCreated | BannerUpdated | BannerDeleted | LayoutUpdated | HomePublished

record home_change =
  hc_action :: change_action
  hc_subject :: "string option"
  hc_actor :: id
  hc_name :: string
  hc_at :: instant

record home_row =
  hr_draft :: json
  hr_published :: "json option"
  hr_draft_at :: "instant option"
  hr_draft_by :: "string option"
  hr_published_at :: "instant option"
  hr_published_by :: "string option"

record home_state =
  hm_row :: "home_row option"
  hm_banners :: "banner list"
  hm_changes :: "home_change list"
  hm_next :: nat
  hm_pings :: nat

definition record_change :: "change_action \<Rightarrow> string option \<Rightarrow> instant \<Rightarrow> account \<Rightarrow> home_state \<Rightarrow> home_state" where
  "record_change a subject now actor s = s\<lparr>hm_changes := hm_changes s @
     [\<lparr>hc_action = a, hc_subject = subject, hc_actor = us_id actor, hc_name = describeActor actor, hc_at = now\<rparr>]\<rparr>"

definition listRecent :: "nat \<Rightarrow> home_state \<Rightarrow> home_change list" where
  "listRecent limit s = List.take limit (js_sort (\<lambda>a b. hc_at b - hc_at a) (hm_changes s))"

subsection \<open>Banners of the draft\<close>

record banner_dto =
  bd_alt :: "string option"
  bd_title :: "string option option"
  bd_subtitle :: "string option option"
  bd_desktop :: "json option"
  bd_tablet :: "json option"
  bd_mobile :: "json option"
  bd_sort :: "int option"
  bd_active :: "bool option"
  bd_target :: "(target_type \<times> string) option option"

definition validateBannerTarget :: "db \<Rightarrow> target_type \<times> string \<Rightarrow> error + unit" where
  "validateBannerTarget d target = (case target of (t, i) \<Rightarrow>
     if t = TargetProduct
     then guardE (list_ex (\<lambda>p. dec_str (p_id p) = i \<and> \<not> p_deleted p) (d_products d)) (NotFound ''Product banner target not found'')
     else case List.find (\<lambda>c. dec_str (cat_id c) = i) (live_categories d) of
            None \<Rightarrow> Inl (NotFound ''Taxonomy banner target not found'')
          | Some c \<Rightarrow> guardE ((t = TargetDepartment) = (cat_parent c = None)) (BadRequest ''Taxonomy target of another kind''))"

definition getBannerEntity :: "id \<Rightarrow> home_state \<Rightarrow> error + banner" where
  "getBannerEntity i s = from_option (NotFound ''Banner not found'') (List.find (\<lambda>b. bn_id b = i \<and> \<not> bn_deleted b) (hm_banners s))"

definition createBanner :: "db \<Rightarrow> instant \<Rightarrow> banner_dto \<Rightarrow> account \<Rightarrow> home_state \<Rightarrow> error + home_state" where
  "createBanner d now dto actor s = (let target = given_or (bd_target dto) None in
     bindE (case target of None \<Rightarrow> Inr () | Some t \<Rightarrow> validateBannerTarget d t) (\<lambda>_.
     let b = \<lparr>bn_id = hm_next s, bn_alt = given_or (bd_alt dto) [], bn_title = given_or (bd_title dto) None,
              bn_subtitle = given_or (bd_subtitle dto) None, bn_desktop = jsonb (given_or (bd_desktop dto) JNull),
              bn_tablet = jsonb (given_or (bd_tablet dto) JNull), bn_mobile = jsonb (given_or (bd_mobile dto) JNull),
              bn_type = map_option fst target, bn_target = map_option snd target, bn_sort = given_or (bd_sort dto) 0,
              bn_active = given_or (bd_active dto) True, bn_created = now, bn_deleted = False\<rparr>
     in Inr (record_change BannerCreated (Some (bn_alt b)) now actor (s\<lparr>hm_banners := hm_banners s @ [b], hm_next := Suc (hm_next s)\<rparr>))))"

definition patched_banner :: "banner_dto \<Rightarrow> banner \<Rightarrow> banner" where
  "patched_banner dto b = b\<lparr>bn_alt := given_or (bd_alt dto) (bn_alt b), bn_title := given_or (bd_title dto) (bn_title b),
     bn_subtitle := given_or (bd_subtitle dto) (bn_subtitle b), bn_desktop := given_or (map_option jsonb (bd_desktop dto)) (bn_desktop b),
     bn_tablet := given_or (map_option jsonb (bd_tablet dto)) (bn_tablet b),
     bn_mobile := given_or (map_option jsonb (bd_mobile dto)) (bn_mobile b), bn_sort := given_or (bd_sort dto) (bn_sort b),
     bn_active := given_or (bd_active dto) (bn_active b)\<rparr>"

definition updateBanner :: "db \<Rightarrow> instant \<Rightarrow> id \<Rightarrow> banner_dto \<Rightarrow> account \<Rightarrow> home_state \<Rightarrow> error + home_state" where
  "updateBanner d now i dto actor s =
     bindE (getBannerEntity i s) (\<lambda>b.
     bindE (case bd_target dto of
              None \<Rightarrow> Inr (bn_type b, bn_target b)
            | Some None \<Rightarrow> Inr (None, None)
            | Some (Some t) \<Rightarrow> bindE (validateBannerTarget d t) (\<lambda>_. Inr (Some (fst t), Some (snd t)))) (\<lambda>(ty, target).
     let b' = (patched_banner dto b)\<lparr>bn_type := ty, bn_target := target\<rparr>
     in Inr (record_change BannerUpdated (Some (bn_alt b')) now actor (s\<lparr>hm_banners := save_by bn_id b' (hm_banners s)\<rparr>))))"

definition removeBanner :: "instant \<Rightarrow> id \<Rightarrow> account \<Rightarrow> home_state \<Rightarrow> error + home_state" where
  "removeBanner now i actor s =
     bindE (getBannerEntity i s) (\<lambda>b.
     Inr (record_change BannerDeleted (Some (bn_alt b)) now actor (s\<lparr>hm_banners := save_by bn_id (b\<lparr>bn_deleted := True\<rparr>) (hm_banners s)\<rparr>)))"

text \<open>Where a banner leads, and whether the store can show it.\<close>

record resolved_target =
  rs_type :: target_type
  rs_id :: string
  rs_name :: "string option"
  rs_slug :: "string option"
  rs_available :: bool

definition resolveBannerTarget :: "collation \<Rightarrow> db \<Rightarrow> target_type option \<Rightarrow> string option \<Rightarrow> resolved_target option" where
  "resolveBannerTarget collate d ty target = (case (ty, non_empty target) of
     (Some TargetProduct, Some i) \<Rightarrow>
       (let p = List.find (\<lambda>x. dec_str (p_id x) = i) (d_products d)
        in Some \<lparr>rs_type = TargetProduct, rs_id = i, rs_name = map_option p_name p, rs_slug = map_option p_slug p,
                 rs_available = (case p of None \<Rightarrow> False
                   | Some x \<Rightarrow> p_active x \<and> \<not> p_deleted x \<and> 0 < stockMap (d_storage d) (d_stock d) None (p_id x))\<rparr>)
   | (Some t, Some i) \<Rightarrow>
       (let c = List.find (\<lambda>x. dec_str (cat_id x) = i) (d_categories d);
            listed = (if t = TargetDepartment then listPublicDepartments collate d False None False None
                      else listPublicCategories collate d None None False None)
        in Some \<lparr>rs_type = t, rs_id = i, rs_name = map_option cat_name c, rs_slug = map_option cat_slug c,
                 rs_available = (case c of None \<Rightarrow> False
                   | Some x \<Rightarrow> (t = TargetDepartment) = (cat_parent x = None) \<and> cat_active x \<and> \<not> cat_deleted x \<and>
                             i \<in> set (map (dec_str \<circ> cat_id) listed))\<rparr>)
   | _ \<Rightarrow> None)"

definition resolveVisibleBanners :: "collation \<Rightarrow> db \<Rightarrow> banner_copy list \<Rightarrow> (banner_copy \<times> resolved_target option) list" where
  "resolveVisibleBanners collate d banners =
     filter (\<lambda>(b, target). (bc_type b = None \<and> non_empty (bc_target b) = None) \<or> (case target of None \<Rightarrow> False | Some t \<Rightarrow> rs_available t))
       (map (\<lambda>b. (b, resolveBannerTarget collate d (bc_type b) (bc_target b))) banners)"

definition draft_order :: "banner \<Rightarrow> banner \<Rightarrow> int" where
  "draft_order a b = (if bn_sort a \<noteq> bn_sort b then bn_sort a - bn_sort b else bn_created a - bn_created b)"

definition listBannersAdmin :: "collation \<Rightarrow> db \<Rightarrow> home_state \<Rightarrow> (banner \<times> resolved_target option) list" where
  "listBannersAdmin collate d s = map (\<lambda>b. (b, resolveBannerTarget collate d (bn_type b) (bn_target b)))
     (js_sort draft_order (filter (\<lambda>b. \<not> bn_deleted b) (hm_banners s)))"

definition getBanner :: "collation \<Rightarrow> db \<Rightarrow> id \<Rightarrow> home_state \<Rightarrow> error + banner \<times> resolved_target option" where
  "getBanner collate d i s = bindE (getBannerEntity i s) (\<lambda>b. Inr (b, resolveBannerTarget collate d (bn_type b) (bn_target b)))"

subsection \<open>The home\<close>

record editor_state =
  es_layout :: home_layout
  es_updated :: "instant option"
  es_updated_by :: "string option"
  es_published :: "instant option"
  es_published_by :: "string option"
  es_pending :: bool

definition buildDraftSnapshot :: "(json \<Rightarrow> rat option) \<Rightarrow> home_state \<Rightarrow> home_snapshot" where
  "buildDraftSnapshot coerce s = buildHomeSnapshot coerce (normalizeHomeLayout (map_option hr_draft (hm_row s)))
     (js_sort draft_order (filter (\<lambda>b. bn_active b \<and> \<not> bn_deleted b) (hm_banners s)))"

definition published_copy :: "(json \<Rightarrow> rat option) \<Rightarrow> home_state \<Rightarrow> home_snapshot option" where
  "published_copy coerce s = normalizeHomeSnapshot coerce (Option.bind (hm_row s) hr_published)"

definition getEditorState :: "(json \<Rightarrow> rat option) \<Rightarrow> home_state \<Rightarrow> editor_state" where
  "getEditorState coerce s = (let draft = buildDraftSnapshot coerce s in
     \<lparr>es_layout = hs_layout draft, es_updated = Option.bind (hm_row s) hr_draft_at, es_updated_by = Option.bind (hm_row s) hr_draft_by,
      es_published = Option.bind (hm_row s) hr_published_at, es_published_by = Option.bind (hm_row s) hr_published_by,
      es_pending = (\<not> sameHomeSnapshot draft (published_copy coerce s))\<rparr>)"

definition assertProductsExist_home :: "db \<Rightarrow> string list \<Rightarrow> error + unit" where
  "assertProductsExist_home d ids = guardE (list_all (\<lambda>i. list_ex (\<lambda>p. dec_str (p_id p) = i \<and> \<not> p_deleted p) (d_products d)) ids)
     (BadRequest ''Estos productos destacados no existen'')"

definition assertDepartmentsExist :: "db \<Rightarrow> string list \<Rightarrow> error + unit" where
  "assertDepartmentsExist d ids = guardE (list_all (\<lambda>i. list_ex (\<lambda>c. dec_str (cat_id c) = i \<and> cat_parent c = None) (live_categories d)) ids)
     (BadRequest ''Estos departamentos destacados no existen'')"

definition createRow :: home_row where
  "createRow = \<lparr>hr_draft = layout_json (normalizeHomeLayout None), hr_published = None, hr_draft_at = None, hr_draft_by = None,
     hr_published_at = None, hr_published_by = None\<rparr>"

definition updateLayout :: "db \<Rightarrow> instant \<Rightarrow> json \<Rightarrow> account \<Rightarrow> home_state \<Rightarrow> error + home_state" where
  "updateLayout d now layout actor s = (let normalized = normalizeHomeLayout (Some layout) in
     bindE (assertProductsExist_home d (hl_products normalized)) (\<lambda>_.
     bindE (assertDepartmentsExist d (hl_departments normalized)) (\<lambda>_.
     let row = (given_or (hm_row s) createRow)\<lparr>hr_draft := jsonb (layout_json normalized), hr_draft_at := Some now,
                 hr_draft_by := Some (describeActor actor)\<rparr>
     in Inr (record_change LayoutUpdated None now actor (s\<lparr>hm_row := Some row\<rparr>)))))"

definition publish_home :: "(json \<Rightarrow> rat option) \<Rightarrow> instant \<Rightarrow> account \<Rightarrow> home_state \<Rightarrow> home_state" where
  "publish_home coerce now actor s =
     (let row = (given_or (hm_row s) createRow)\<lparr>hr_published := Some (jsonb (snapshot_json (buildDraftSnapshot coerce s))),
                  hr_published_at := Some now, hr_published_by := Some (describeActor actor)\<rparr>;
          s1 = record_change HomePublished None now actor (s\<lparr>hm_row := Some row\<rparr>)
      in s1\<lparr>hm_pings := Suc (hm_pings s1)\<rparr>)"

type_synonym public_home = "home_layout \<times> (banner_copy \<times> resolved_target option) list"

definition toPublicView :: "collation \<Rightarrow> db \<Rightarrow> home_snapshot \<Rightarrow> public_home" where
  "toPublicView collate d snapshot = (hs_layout snapshot, resolveVisibleBanners collate d (hs_banners snapshot))"

definition getPublishedHome :: "(json \<Rightarrow> rat option) \<Rightarrow> collation \<Rightarrow> db \<Rightarrow> home_state \<Rightarrow> public_home" where
  "getPublishedHome coerce collate d s =
     toPublicView collate d (given_or (published_copy coerce s) (buildHomeSnapshot coerce DEFAULT_HOME_LAYOUT []))"

definition getDraftHome :: "(json \<Rightarrow> rat option) \<Rightarrow> collation \<Rightarrow> db \<Rightarrow> home_state \<Rightarrow> public_home" where
  "getDraftHome coerce collate d s = toPublicView collate d (buildDraftSnapshot coerce s)"

subsection \<open>The link to the preview\<close>

text \<open>\<open>hmac\<close> is the signature of \<open>node:crypto\<close> in base64url, \<open>encode\<close> the escaping of a query parameter.\<close>

definition signHomePreviewToken :: "(string \<Rightarrow> string \<Rightarrow> string) \<Rightarrow> string \<Rightarrow> instant \<Rightarrow> string" where
  "signHomePreviewToken hmac secret expiresAt = (let seconds = int_str (expiresAt div 1000)
     in seconds @ ''.'' @ hmac secret (''cms-home-preview:'' @ seconds))"

definition PREVIEW_TTL_MS :: int where
  "PREVIEW_TTL_MS = 30 * 60 * 1000"

definition createPreviewLink ::
  "(string \<Rightarrow> string \<Rightarrow> string) \<Rightarrow> (string \<Rightarrow> string) \<Rightarrow> string option \<times> string option \<Rightarrow> instant \<Rightarrow> error + string \<times> instant" where
  "createPreviewLink hmac encode storefront now = (case (non_empty (fst storefront), non_empty (snd storefront)) of
     (Some url, Some secret) \<Rightarrow> (let expiresAt = now + PREVIEW_TTL_MS
       in Inr (url @ ''/api/vista-previa?token='' @ encode (signHomePreviewToken hmac secret expiresAt), expiresAt))
   | _ \<Rightarrow> Inl (ServiceUnavailable ''La vista previa no esta disponible''))"

subsection \<open>Runs\<close>

datatype home_step =
    UpdateLayout json
  | PublishHome
  | CreateBanner banner_dto
  | UpdateBanner id banner_dto
  | RemoveBanner id

text \<open>A step at its time, by its author, over the catalogue of that moment; one that fails leaves the state.\<close>

definition home_do :: "(json \<Rightarrow> rat option) \<Rightarrow> db \<times> instant \<times> account \<times> home_step \<Rightarrow> home_state \<Rightarrow> home_state" where
  "home_do coerce x s = (case x of (d, now, actor, st) \<Rightarrow>
     (case (case st of
              UpdateLayout layout \<Rightarrow> updateLayout d now layout actor s
            | PublishHome \<Rightarrow> Inr (publish_home coerce now actor s)
            | CreateBanner dto \<Rightarrow> createBanner d now dto actor s
            | UpdateBanner i dto \<Rightarrow> updateBanner d now i dto actor s
            | RemoveBanner i \<Rightarrow> removeBanner now i actor s)
      of Inl _ \<Rightarrow> s | Inr s1 \<Rightarrow> s1))"

definition home_run :: "(json \<Rightarrow> rat option) \<Rightarrow> (db \<times> instant \<times> account \<times> home_step) list \<Rightarrow> home_state \<Rightarrow> home_state" where
  "home_run coerce steps s = fold (home_do coerce) steps s"

definition empty_home :: home_state where
  "empty_home = \<lparr>hm_row = None, hm_banners = [], hm_changes = [], hm_next = 1, hm_pings = 0\<rparr>"

end
