(* ===== verification/Cms_Home_Laws.thy ===== *)
theory Cms_Home_Laws
  imports Cms_Home
begin

section \<open>The store shows the published home, and the editor knows when it is the draft\<close>

text \<open>
  Reading back what was written gives it again, through the order in which the database keeps the keys; so the mark of unpublished changes is
  exact, and only a publication changes the home of the store.
\<close>

subsection \<open>Documents read back\<close>

lemma jm_get_member: "distinct (map fst fs) \<Longrightarrow> jm_get k fs = Some v \<longleftrightarrow> (k, v) \<in> set fs"
  by (induction fs) force+

lemma jm_get_permuted:
  assumes "distinct (map fst fs)" "distinct (map fst gs)" "set fs = set gs"
  shows "jm_get k fs = jm_get k gs"
proof (cases "jm_get k gs")
  case None
  then have "(k, v) \<notin> set fs" for v using jm_get_member [OF assms(2)] assms(3) by (metis option.distinct(1))
  then show ?thesis using None jm_get_member [OF assms(1)] by (metis not_None_eq)
next
  case (Some v)
  then have "(k, v) \<in> set fs" using jm_get_member [OF assms(2)] assms(3) by simp
  then have "jm_get k fs = Some v" using jm_get_member [OF assms(1)] by simp
  then show ?thesis using Some by simp
qed

lemma set_fold_jm_set:
  assumes "distinct (map fst (m @ fs))"
  shows "fold (\<lambda>(k, v) m. jm_set k v m) fs m = m @ fs"
  using assms
proof (induction fs arbitrary: m)
  case (Cons x fs)
  then show ?case by (cases x) (simp add: jm_set_new)
qed simp

lemma jsonb_field:
  assumes "distinct (map fst fs)"
  shows "json_field k (jsonb (JObj fs)) = map_option jsonb (jm_get k fs)"
proof -
  let ?gs = "map (\<lambda>(k, v). (k, jsonb v)) fs"
  have d: "distinct (map fst ?gs)" using assms by (simp add: case_prod_beta o_def)
  have "jsonb_fields ?gs = js_sort (\<lambda>a b. jsonb_key (fst a) (fst b)) ?gs"
    using d set_fold_jm_set [of "[]" ?gs] by (simp add: jsonb_fields_def)
  moreover have "distinct (map fst (js_sort c ?gs))" for c
    using d by (metis distinct_map distinct_js_sort set_js_sort)
  ultimately have "jm_get k (jsonb_fields ?gs) = jm_get k ?gs"
    using d by (simp add: jm_get_permuted)
  moreover have "jm_get k ?gs = map_option jsonb (jm_get k fs)" by (induction fs) auto
  ultimately show ?thesis by simp
qed

lemma jsonb_record [simp]: "isRecord (jsonb j) = isRecord j"
  by (cases j) simp_all

subsection \<open>Layouts\<close>

lemma sections_all: "set HOME_SECTION_KEYS = UNIV"
proof -
  have "k \<in> set HOME_SECTION_KEYS" for k by (cases k) (simp_all add: HOME_SECTION_KEYS_def)
  then show ?thesis by auto
qed

lemma section_key_of_str [simp]: "section_key_of (Some (JStr (section_str k))) = Some k"
  by (cases k) (simp_all add: section_key_of_def HOME_SECTION_KEYS_def)

definition whole :: "home_layout \<Rightarrow> bool" where
  "whole l \<longleftrightarrow> distinct (map fst (hl_sections l)) \<and> fst ` set (hl_sections l) = UNIV \<and> distinct (hl_products l) \<and> distinct (hl_departments l)"

lemma normalizeSections_whole:
  "distinct (map fst (normalizeSections seen xs)) \<and> fst ` set (normalizeSections seen xs) = UNIV - set seen"
proof (induction seen xs rule: normalizeSections.induct)
  case (1 seen)
  have "distinct HOME_SECTION_KEYS" by (simp add: HOME_SECTION_KEYS_def)
  then show ?case using sections_all by (auto simp: o_def image_def)
next
  case (2 seen item rest)
  then show ?case by (auto split: option.splits)
qed

lemma normalizeHomeLayout_whole: "whole (normalizeHomeLayout v)"
proof -
  have "whole DEFAULT_HOME_LAYOUT"
  proof -
    have "distinct HOME_SECTION_KEYS" by (simp add: HOME_SECTION_KEYS_def)
    moreover have "fst ` set (map (\<lambda>k. (k, True)) HOME_SECTION_KEYS) = set HOME_SECTION_KEYS" by (simp add: image_image)
    ultimately show ?thesis using sections_all by (simp add: whole_def DEFAULT_HOME_LAYOUT_def o_def)
  qed
  then show ?thesis
    using normalizeSections_whole [of "[]"]
    by (auto simp: normalizeHomeLayout_def whole_def uniqueStrings_def split: option.splits json.splits if_splits)
qed

text \<open>What a document must give back for its sections to be read as they were.\<close>

lemma sections_read_back:
  assumes "\<And>k v. isRecord (g (k, v)) \<and> json_field ''key'' (g (k, v)) = Some (JStr (section_str k)) \<and>
      json_field ''isVisible'' (g (k, v)) = Some (JBool v)"
    "distinct (map fst secs)" "fst ` set secs \<inter> set seen = {}" "fst ` set secs \<union> set seen = UNIV"
  shows "normalizeSections seen (map g secs) = secs"
  using assms(2-4)
proof (induction secs arbitrary: seen)
  case (Cons x secs)
  obtain k v where x: "x = (k, v)" by (cases x)
  have "normalizeSections (k # seen) (map g secs) = secs"
    using Cons.prems by (intro Cons.IH) (auto simp: x)
  then show ?case using assms(1) [of k v] Cons.prems by (auto simp: x)
qed (auto simp: filter_empty_conv)

lemma strings_read_back: "distinct xs \<Longrightarrow> uniqueStrings (Some (JArr (map JStr xs))) = xs"
  by (simp add: uniqueStrings_def o_def js_set_def distinct_remdups_id)

lemma layout_reads_back:
  assumes "whole (hs_layout x)"
  shows "normalizeHomeLayout (Some (layout_json (hs_layout x))) = hs_layout x"
    and "normalizeHomeLayout (Some (jsonb (layout_json (hs_layout x)))) = hs_layout x"
    and "normalizeHomeLayout (Some (jsonb (snapshot_json x))) = hs_layout x"
proof -
  let ?l = "hs_layout x"
  have w: "distinct (map fst (hl_sections ?l))" "fst ` set (hl_sections ?l) = UNIV" "distinct (hl_products ?l)" "distinct (hl_departments ?l)"
    using assms by (simp_all add: whole_def)
  have plain: "normalizeSections [] (map (\<lambda>(k, v). JObj [(''key'', JStr (section_str k)), (''isVisible'', JBool v)]) (hl_sections ?l)) = hl_sections ?l"
    by (rule sections_read_back) (simp_all add: w)
  have stored: "normalizeSections [] (map (\<lambda>y. jsonb (case y of (k, v) \<Rightarrow> JObj [(''key'', JStr (section_str k)), (''isVisible'', JBool v)])) (hl_sections ?l)) = hl_sections ?l"
    by (rule sections_read_back) (simp_all add: w jsonb_field del: jsonb.simps(2))
  have strings: "map (jsonb \<circ> JStr) ys = map JStr ys" for ys by simp
  show "normalizeHomeLayout (Some (layout_json ?l)) = ?l"
    by (simp add: normalizeHomeLayout_def layout_json_def layout_fields_def plain strings_read_back w)
  show "normalizeHomeLayout (Some (jsonb (layout_json ?l))) = ?l"
    by (simp add: normalizeHomeLayout_def layout_json_def layout_fields_def jsonb_field stored strings strings_read_back w o_def del: jsonb.simps(2))
  show "normalizeHomeLayout (Some (jsonb (snapshot_json x))) = ?l"
    by (simp add: normalizeHomeLayout_def snapshot_json_def layout_fields_def jsonb_field stored strings strings_read_back w o_def del: jsonb.simps(2))
qed

subsection \<open>Banners and snapshots\<close>

text \<open>Every size is a number, as the requests demand.\<close>

definition numeric :: "banner_copy \<Rightarrow> bool" where
  "numeric b \<longleftrightarrow> (\<forall>a \<in> {bc_desktop b, bc_tablet b, bc_mobile b}. ba_width a \<noteq> None \<and> ba_height a \<noteq> None)"

lemma text_or_null_back [simp]:
  "toNullableString (Some (text_or_null x)) = x" "jsonb (text_or_null x) = text_or_null x"
  by (simp_all add: text_or_null_def toNullableString_def split: option.splits)

lemma target_back [simp]: "toTargetType (Some (text_or_null (map_option target_str t))) = t"
proof (cases t)
  case (Some x)
  then show ?thesis by (cases x) (simp_all add: toTargetType_def text_or_null_def)
qed (simp add: toTargetType_def text_or_null_def)

lemma asset_back:
  assumes "ba_width a \<noteq> None" "ba_height a \<noteq> None"
  shows "toAsset coerce (Some (jsonb (asset_json a))) = a"
proof -
  obtain w h where "ba_width a = Some w" "ba_height a = Some h" using assms by auto
  then show ?thesis
    by (simp add: toAsset_def asset_json_def jsonb_field toText_def toNumber_def Let_def del: jsonb.simps(2))
qed

lemma banner_back:
  assumes "numeric b"
  shows "toBannerSnapshot coerce (jsonb (banner_copy_json b)) = b"
  using assms
  by (simp add: toBannerSnapshot_def banner_copy_json_def jsonb_field asset_back numeric_def toText_def del: jsonb.simps(2))

lemma snapshot_reads_back:
  assumes "whole (hs_layout x)" "\<forall>b \<in> set (hs_banners x). numeric b"
  shows "normalizeHomeSnapshot coerce (Some (jsonb (snapshot_json x))) = Some x"
proof -
  have "map (toBannerSnapshot coerce) (filter isRecord (map jsonb (map banner_copy_json bs))) = bs" if "\<forall>b \<in> set bs. numeric b" for bs
    using that by (induction bs) (simp_all add: banner_back, simp add: banner_copy_json_def)
  then have "map (toBannerSnapshot coerce) (filter isRecord (map jsonb (map banner_copy_json (hs_banners x)))) = hs_banners x"
    using assms(2) by simp
  moreover have "json_field ''banners'' (jsonb (snapshot_json x)) = Some (JArr (map jsonb (map banner_copy_json (hs_banners x))))"
    by (simp add: snapshot_json_def layout_fields_def jsonb_field del: jsonb.simps(2))
  moreover have "isRecord (jsonb (snapshot_json x))" by (simp add: snapshot_json_def)
  ultimately show ?thesis
    using layout_reads_back(3) [OF assms(1)] by (simp add: normalizeHomeSnapshot_def)
qed

text \<open>Two snapshots that print the same are the same.\<close>

lemma inj_section_str: "section_str a = section_str b \<longleftrightarrow> a = b"
  by (metis option.inject section_key_of_str)

lemma inj_text_or_null: "text_or_null a = text_or_null b \<longleftrightarrow> a = b"
  by (metis text_or_null_back(1))

lemma inj_target_str: "map_option target_str a = map_option target_str b \<longleftrightarrow> a = b"
  by (metis target_back)

lemma inj_asset: "asset_json a = asset_json b \<longleftrightarrow> a = b"
  by (cases a; cases b) (auto simp: asset_json_def split: option.splits)

lemma inj_banner: "banner_copy_json a = banner_copy_json b \<longleftrightarrow> a = b"
  by (cases a; cases b) (auto simp: banner_copy_json_def inj_text_or_null inj_target_str inj_asset)

lemma inj_layout: "layout_fields a = layout_fields b \<longleftrightarrow> a = b"
proof
  assume "layout_fields a = layout_fields b"
  then have s: "map (\<lambda>(k, v). JObj [(''key'', JStr (section_str k)), (''isVisible'', JBool v)]) (hl_sections a) =
      map (\<lambda>(k, v). JObj [(''key'', JStr (section_str k)), (''isVisible'', JBool v)]) (hl_sections b)"
    and p: "map JStr (hl_products a) = map JStr (hl_products b)" "map JStr (hl_departments a) = map JStr (hl_departments b)"
    by (simp_all add: layout_fields_def)
  have "inj (\<lambda>(k, v). JObj [(''key'', JStr (section_str k)), (''isVisible'', JBool v)])"
    by (auto simp: inj_def inj_section_str)
  moreover have "inj JStr" by (simp add: inj_def)
  ultimately show "a = b" using s p by (simp add: inj_map_eq_map)
qed simp

lemma inj_snapshot: "snapshot_json a = snapshot_json b \<longleftrightarrow> a = b"
proof
  assume "snapshot_json a = snapshot_json b"
  then have "layout_fields (hs_layout a) = layout_fields (hs_layout b)" "map banner_copy_json (hs_banners a) = map banner_copy_json (hs_banners b)"
    by (simp_all add: snapshot_json_def layout_fields_def)
  moreover have "inj banner_copy_json" by (simp add: inj_def inj_banner)
  ultimately show "a = b" by (simp add: inj_layout inj_map_eq_map)
qed simp

lemma same_snapshot:
  assumes "whole (hs_layout a)" "\<And>x. b = Some x \<Longrightarrow> whole (hs_layout x)"
  shows "sameHomeSnapshot a b \<longleftrightarrow> b = Some a"
  using assms layout_reads_back(1) by (auto simp: sameHomeSnapshot_def inj_snapshot renormalized_def split: option.splits)

lemma draft_whole: "whole (hs_layout (buildDraftSnapshot coerce s))"
  by (simp add: buildDraftSnapshot_def buildHomeSnapshot_def normalizeHomeLayout_whole)

lemma published_whole: "published_copy coerce s = Some x \<Longrightarrow> whole (hs_layout x)"
  by (auto simp: published_copy_def normalizeHomeSnapshot_def normalizeHomeLayout_whole split: option.splits if_splits)

lemma same_home:
  "sameHomeSnapshot (buildDraftSnapshot coerce s) (published_copy coerce s) \<longleftrightarrow> published_copy coerce s = Some (buildDraftSnapshot coerce s)"
  using same_snapshot [OF draft_whole published_whole] by simp

lemma publish_home_copy:
  assumes "\<forall>b \<in> set (hs_banners (buildDraftSnapshot coerce s)). numeric b"
  shows "published_copy coerce (publish_home coerce now actor s) = Some (buildDraftSnapshot coerce s)"
    and "buildDraftSnapshot coerce (publish_home coerce now actor s) = buildDraftSnapshot coerce s"
proof -
  show "published_copy coerce (publish_home coerce now actor s) = Some (buildDraftSnapshot coerce s)"
    using snapshot_reads_back [OF draft_whole assms] by (simp add: published_copy_def publish_home_def record_change_def Let_def)
  have "normalizeHomeLayout (Some (layout_json (normalizeHomeLayout None))) = normalizeHomeLayout None"
    using layout_reads_back(1) [of "\<lparr>hs_layout = normalizeHomeLayout None, hs_banners = []\<rparr>"] by (simp add: normalizeHomeLayout_whole)
  then show "buildDraftSnapshot coerce (publish_home coerce now actor s) = buildDraftSnapshot coerce s"
    by (cases "hm_row s") (simp_all add: buildDraftSnapshot_def publish_home_def record_change_def Let_def given_or_def createRow_def)
qed

text \<open>A step that is no publication.\<close>

lemma home_do_frame:
  assumes "snd (snd (snd x)) \<noteq> PublishHome"
  shows "Option.bind (hm_row (home_do coerce x s)) hr_published = Option.bind (hm_row s) hr_published"
    "hm_pings (home_do coerce x s) = hm_pings s"
proof -
  obtain d now actor st where x: "x = (d, now, actor, st)" by (cases x)
  have row: "Option.bind (Some (given_or (hm_row s) createRow)) hr_published = Option.bind (hm_row s) hr_published"
    by (cases "hm_row s") (simp_all add: given_or_def createRow_def)
  show "Option.bind (hm_row (home_do coerce x s)) hr_published = Option.bind (hm_row s) hr_published"
    using assms row
    by (cases st) (auto simp: x home_do_def updateLayout_def createBanner_def updateBanner_def removeBanner_def record_change_def
        Let_def bindE_def split: sum.splits prod.splits)
  show "hm_pings (home_do coerce x s) = hm_pings s"
    using assms
    by (cases st) (auto simp: x home_do_def updateLayout_def createBanner_def updateBanner_def removeBanner_def record_change_def
        Let_def bindE_def split: sum.splits prod.splits)
qed

subsection \<open>Properties\<close>

text \<open>C40: The mark of unpublished changes is off precisely when something was published and the published copy is the draft with its
  banners; the store and the preview then show the same over any catalogue. A home never published keeps the mark on, whatever the store
  shows. Publishing turns the mark off and shows the draft, the documents going through the storage of the database, which sorts
  their keys, as long as the sizes of the images are numbers.\<close>

theorem home_mark_is_exact:
  fixes coerce s now actor
  defines "t \<equiv> publish_home coerce now actor s"
  assumes "\<forall>b \<in> set (hs_banners (buildDraftSnapshot coerce s)). numeric b"
  shows "(\<not> es_pending (getEditorState coerce s) \<longleftrightarrow> published_copy coerce s = Some (buildDraftSnapshot coerce s)) \<and>
    (\<not> es_pending (getEditorState coerce s) \<longrightarrow> getPublishedHome coerce collate d s = getDraftHome coerce collate d s) \<and>
    \<not> es_pending (getEditorState coerce t) \<and> getPublishedHome coerce collate d t = getDraftHome coerce collate d s"
proof -
  have mark: "\<not> es_pending (getEditorState coerce u) \<longleftrightarrow> published_copy coerce u = Some (buildDraftSnapshot coerce u)" for u
    using same_home by (simp add: getEditorState_def Let_def)
  note copy = publish_home_copy [OF assms(2), of now actor]
  show ?thesis using mark [of s] mark [of t] copy by (simp add: t_def getPublishedHome_def getDraftHome_def given_or_def)
qed

text \<open>The untouched home: nothing was published, so the mark is on although the store shows the default layout, which is the draft.\<close>

lemma untouched_home_is_marked:
  "es_pending (getEditorState coerce empty_home) \<and> getPublishedHome coerce collate d empty_home = getDraftHome coerce collate d empty_home"
proof -
  have none: "published_copy coerce empty_home = None"
    by (simp add: published_copy_def empty_home_def normalizeHomeSnapshot_def)
  have "hm_banners empty_home = []" by (simp add: empty_home_def)
  then show ?thesis
    using none same_home [of coerce empty_home]
    by (simp add: getEditorState_def Let_def getPublishedHome_def getDraftHome_def given_or_def buildDraftSnapshot_def
        buildHomeSnapshot_def empty_home_def js_sort_def normalizeHomeLayout_def)
qed

text \<open>Nothing but a publication changes the home of the store or calls it: whatever is done meanwhile to the layout and the banners,
  deleting them included, over any catalogue the published home stays the same.\<close>

theorem home_changes_only_by_publishing:
  assumes "\<And>x. x \<in> set steps \<Longrightarrow> snd (snd (snd x)) \<noteq> PublishHome"
  shows "getPublishedHome coerce collate d (home_run coerce steps s) = getPublishedHome coerce collate d s \<and>
    hm_pings (home_run coerce steps s) = hm_pings s"
proof -
  have "Option.bind (hm_row (home_run coerce steps s)) hr_published = Option.bind (hm_row s) hr_published \<and>
      hm_pings (home_run coerce steps s) = hm_pings s"
    using assms
  proof (induction steps arbitrary: s)
    case (Cons x steps)
    then show ?case using home_do_frame [of x coerce s] by (simp add: home_run_def)
  qed (simp add: home_run_def)
  then show ?thesis by (simp add: getPublishedHome_def published_copy_def)
qed

subsection \<open>A home with a banner\<close>

definition sample_asset :: json where
  "sample_asset = JObj [(''width'', JNum 10), (''src'', JStr ''u''), (''height'', JNum 5)]"

definition sample_banner_dto :: banner_dto where
  "sample_banner_dto = \<lparr>bd_alt = Some ''a'', bd_title = None, bd_subtitle = None, bd_desktop = Some sample_asset, bd_tablet = Some sample_asset,
     bd_mobile = Some sample_asset, bd_sort = None, bd_active = None, bd_target = None\<rparr>"

definition sample_editor_account :: account where
  "sample_editor_account = sample_account 1 ''lia'' SUPER_ADMIN True"

definition sample_home :: home_state where
  "sample_home = home_run (\<lambda>_. None) [(sample_db, 3, sample_editor_account, CreateBanner sample_banner_dto)] empty_home"

lemma sample_home_banner:
  "hs_banners (buildDraftSnapshot (\<lambda>_. None) sample_home) =
     [\<lparr>bc_id = ''1'', bc_alt = ''a'', bc_title = None, bc_subtitle = None, bc_desktop = \<lparr>ba_src = ''u'', ba_width = Some 10, ba_height = Some 5\<rparr>,
       bc_tablet = \<lparr>ba_src = ''u'', ba_width = Some 10, ba_height = Some 5\<rparr>,
       bc_mobile = \<lparr>ba_src = ''u'', ba_width = Some 10, ba_height = Some 5\<rparr>, bc_type = None, bc_target = None\<rparr>]"
proof -
  have "toAsset (\<lambda>_. None) (Some (jsonb sample_asset)) = \<lparr>ba_src = ''u'', ba_width = Some 10, ba_height = Some 5\<rparr>"
    by (simp add: sample_asset_def toAsset_def jsonb_field toText_def toNumber_def Let_def del: jsonb.simps(2))
  moreover have "dec_str (Suc 0) = ''1''" by code_simp
  ultimately show ?thesis
    by (simp add: sample_home_def home_run_def home_do_def createBanner_def sample_banner_dto_def given_or_def record_change_def empty_home_def
        buildDraftSnapshot_def buildHomeSnapshot_def js_sort_def toBannerSnapshot_def banner_json_def toText_def text_or_null_def
        toNullableString_def toTargetType_def)
qed

theorem home_mark_is_exact_witness:
  "es_pending (getEditorState (\<lambda>_. None) sample_home) \<and>
   \<not> es_pending (getEditorState (\<lambda>_. None) (publish_home (\<lambda>_. None) 5 sample_editor_account sample_home))"
proof -
  have "\<forall>b \<in> set (hs_banners (buildDraftSnapshot (\<lambda>_. None) sample_home)). numeric b" by (simp add: sample_home_banner numeric_def)
  note m = home_mark_is_exact [OF this, where now = 5 and actor = sample_editor_account]
  have "published_copy (\<lambda>_. None) sample_home = None"
    by (simp add: published_copy_def sample_home_def home_run_def home_do_def createBanner_def sample_banner_dto_def given_or_def
        record_change_def empty_home_def normalizeHomeSnapshot_def)
  then show ?thesis using m by simp
qed

theorem home_changes_only_by_publishing_witness:
  "getPublishedHome (\<lambda>_. None) (\<lambda>_ _. 0) sample_db sample_home = getPublishedHome (\<lambda>_. None) (\<lambda>_ _. 0) sample_db empty_home \<and>
   hm_banners sample_home \<noteq> hm_banners empty_home"
proof -
  have "getPublishedHome (\<lambda>_. None) (\<lambda>_ _. 0) sample_db sample_home = getPublishedHome (\<lambda>_. None) (\<lambda>_ _. 0) sample_db empty_home"
    unfolding sample_home_def
    by (rule conjunct1 [OF home_changes_only_by_publishing]) simp
  moreover have "hm_banners sample_home \<noteq> []"
    by (simp add: sample_home_def home_run_def home_do_def createBanner_def sample_banner_dto_def given_or_def record_change_def)
  ultimately show ?thesis by (simp add: empty_home_def)
qed

end
