(* ===== verification/Cms_Editorial.thy ===== *)
theory Cms_Editorial
  imports Cms_Home
begin

section \<open>Cards, settings and frequent questions of the store\<close>

text \<open>
  The rest of \<open>src/cms/cms.service.ts\<close>, the cards of the services and of the staff and the settings of the site, and
  \<open>cms-faq.service.ts\<close> with the check of its links in \<open>dto/cms-faq.dto.ts\<close>. Each write calls the store; \<open>ed_pings\<close> counts the calls.
\<close>

record service_card =
  sv_id :: id
  sv_icon :: string
  sv_title :: string
  sv_text :: string
  sv_featured :: bool
  sv_sort :: int
  sv_active :: bool
  sv_deleted :: bool

record staff_card =
  sf_id :: id
  sf_name :: string
  sf_role :: string
  sf_photo :: "string option"
  sf_resume :: "string option"
  sf_sort :: int
  sf_active :: bool
  sf_deleted :: bool

record site_settings =
  ss_blurb :: string
  ss_copyright :: string
  ss_legal :: "(string \<times> string) list"
  ss_email :: string
  ss_phone :: string
  ss_payments :: "bool \<times> bool \<times> bool"
  ss_heading :: string
  ss_subheading :: string
  ss_social :: "(string \<times> string) list option"

record faq_category =
  fc_id :: id
  fc_title :: string
  fc_sort :: int
  fc_active :: bool
  fc_created :: instant
  fc_deleted :: bool

record faq_question =
  fq_id :: id
  fq_category :: id
  fq_question :: string
  fq_answer :: string
  fq_label :: "string option"
  fq_href :: "string option"
  fq_sort :: int
  fq_active :: bool
  fq_created :: instant
  fq_deleted :: bool

record editorial =
  ed_services :: "service_card list"
  ed_staff :: "staff_card list"
  ed_settings :: "site_settings option"
  ed_categories :: "faq_category list"
  ed_questions :: "faq_question list"
  ed_next :: nat
  ed_pings :: nat

definition ping_cms :: "editorial \<Rightarrow> editorial" where
  "ping_cms s = s\<lparr>ed_pings := Suc (ed_pings s)\<rparr>"

definition order_by :: "('r \<Rightarrow> int) \<Rightarrow> ('r \<Rightarrow> 'r \<Rightarrow> int) \<Rightarrow> 'r \<Rightarrow> 'r \<Rightarrow> int" where
  "order_by sort_of other a b = (if sort_of a \<noteq> sort_of b then sort_of a - sort_of b else other a b)"

subsection \<open>Services\<close>

record service_dto =
  sd_icon :: "string option"
  sd_title :: "string option"
  sd_text :: "string option"
  sd_featured :: "bool option"
  sd_sort :: "int option"
  sd_active :: "bool option"

definition createService :: "service_dto \<Rightarrow> editorial \<Rightarrow> editorial" where
  "createService dto s = ping_cms (s\<lparr>ed_services := ed_services s @
     [\<lparr>sv_id = ed_next s, sv_icon = given_or (sd_icon dto) [], sv_title = given_or (sd_title dto) [], sv_text = given_or (sd_text dto) [],
       sv_featured = given_or (sd_featured dto) False, sv_sort = given_or (sd_sort dto) 0, sv_active = given_or (sd_active dto) True,
       sv_deleted = False\<rparr>], ed_next := Suc (ed_next s)\<rparr>)"

definition getService :: "id \<Rightarrow> editorial \<Rightarrow> error + service_card" where
  "getService i s = from_option (NotFound ''Service not found'') (List.find (\<lambda>x. sv_id x = i \<and> \<not> sv_deleted x) (ed_services s))"

definition updateService :: "id \<Rightarrow> service_dto \<Rightarrow> editorial \<Rightarrow> error + editorial" where
  "updateService i dto s = bindE (getService i s) (\<lambda>x.
     Inr (ping_cms (s\<lparr>ed_services := save_by sv_id (x\<lparr>sv_icon := given_or (sd_icon dto) (sv_icon x), sv_title := given_or (sd_title dto) (sv_title x),
       sv_text := given_or (sd_text dto) (sv_text x), sv_featured := given_or (sd_featured dto) (sv_featured x),
       sv_sort := given_or (sd_sort dto) (sv_sort x), sv_active := given_or (sd_active dto) (sv_active x)\<rparr>) (ed_services s)\<rparr>)))"

definition removeService :: "id \<Rightarrow> editorial \<Rightarrow> error + editorial" where
  "removeService i s = bindE (getService i s) (\<lambda>x.
     Inr (ping_cms (s\<lparr>ed_services := save_by sv_id (x\<lparr>sv_deleted := True\<rparr>) (ed_services s)\<rparr>)))"

definition listServicesAdmin :: "collation \<Rightarrow> editorial \<Rightarrow> service_card list" where
  "listServicesAdmin collate s = js_sort (order_by sv_sort (\<lambda>a b. collate (sv_title a) (sv_title b))) (filter (\<lambda>x. \<not> sv_deleted x) (ed_services s))"

definition listServicesPublic :: "collation \<Rightarrow> editorial \<Rightarrow> service_card list" where
  "listServicesPublic collate s =
     js_sort (order_by sv_sort (\<lambda>a b. collate (sv_title a) (sv_title b))) (filter (\<lambda>x. sv_active x \<and> \<not> sv_deleted x) (ed_services s))"

subsection \<open>Staff\<close>

record staff_dto =
  sm_name :: "string option"
  sm_role :: "string option"
  sm_photo :: "string option option"
  sm_resume :: "string option option"
  sm_sort :: "int option"
  sm_active :: "bool option"

definition createStaffMember :: "staff_dto \<Rightarrow> editorial \<Rightarrow> editorial" where
  "createStaffMember dto s = ping_cms (s\<lparr>ed_staff := ed_staff s @
     [\<lparr>sf_id = ed_next s, sf_name = given_or (sm_name dto) [], sf_role = given_or (sm_role dto) [], sf_photo = given_or (sm_photo dto) None,
       sf_resume = given_or (sm_resume dto) None, sf_sort = given_or (sm_sort dto) 0, sf_active = given_or (sm_active dto) True,
       sf_deleted = False\<rparr>], ed_next := Suc (ed_next s)\<rparr>)"

definition getStaffMember :: "id \<Rightarrow> editorial \<Rightarrow> error + staff_card" where
  "getStaffMember i s = from_option (NotFound ''Staff member not found'') (List.find (\<lambda>x. sf_id x = i \<and> \<not> sf_deleted x) (ed_staff s))"

definition updateStaffMember :: "id \<Rightarrow> staff_dto \<Rightarrow> editorial \<Rightarrow> error + editorial" where
  "updateStaffMember i dto s = bindE (getStaffMember i s) (\<lambda>x.
     Inr (ping_cms (s\<lparr>ed_staff := save_by sf_id (x\<lparr>sf_name := given_or (sm_name dto) (sf_name x), sf_role := given_or (sm_role dto) (sf_role x),
       sf_photo := given_or (sm_photo dto) (sf_photo x), sf_resume := given_or (sm_resume dto) (sf_resume x),
       sf_sort := given_or (sm_sort dto) (sf_sort x), sf_active := given_or (sm_active dto) (sf_active x)\<rparr>) (ed_staff s)\<rparr>)))"

definition removeStaffMember :: "id \<Rightarrow> editorial \<Rightarrow> error + editorial" where
  "removeStaffMember i s = bindE (getStaffMember i s) (\<lambda>x.
     Inr (ping_cms (s\<lparr>ed_staff := save_by sf_id (x\<lparr>sf_deleted := True\<rparr>) (ed_staff s)\<rparr>)))"

definition listStaffAdmin :: "collation \<Rightarrow> editorial \<Rightarrow> staff_card list" where
  "listStaffAdmin collate s = js_sort (order_by sf_sort (\<lambda>a b. collate (sf_name a) (sf_name b))) (filter (\<lambda>x. \<not> sf_deleted x) (ed_staff s))"

definition listStaffPublic :: "collation \<Rightarrow> editorial \<Rightarrow> staff_card list" where
  "listStaffPublic collate s =
     js_sort (order_by sf_sort (\<lambda>a b. collate (sf_name a) (sf_name b))) (filter (\<lambda>x. sf_active x \<and> \<not> sf_deleted x) (ed_staff s))"

subsection \<open>Settings\<close>

text \<open>The row may be older than the list of networks; \<open>fallback\<close> is the document of the code.\<close>

definition conRedes :: "site_settings \<Rightarrow> site_settings \<Rightarrow> site_settings" where
  "conRedes fallback data = data\<lparr>ss_social := or_old (ss_social data) (ss_social fallback)\<rparr>"

definition getSettings_site :: "site_settings \<Rightarrow> editorial \<Rightarrow> site_settings" where
  "getSettings_site fallback s = conRedes fallback (given_or (ed_settings s) fallback)"

definition updateSettings_site :: "site_settings \<Rightarrow> editorial \<Rightarrow> editorial" where
  "updateSettings_site dto s = ping_cms (s\<lparr>ed_settings := Some dto\<rparr>)"

subsection \<open>Frequent questions\<close>

record faq_category_dto =
  xd_title :: "string option"
  xd_sort :: "int option"
  xd_active :: "bool option"

record faq_question_dto =
  yd_category :: "id option"
  yd_question :: "string option"
  yd_answer :: "string option"
  yd_label :: "string option option"
  yd_href :: "string option option"
  yd_sort :: "int option"
  yd_active :: "bool option"

definition optionalText :: "string option option \<Rightarrow> string option" where
  "optionalText x = trimmed (given_or x None)"

text \<open>\<open>SAFE_FAQ_HREF\<close>: a path of the store or an address with https.\<close>

definition safe_href :: "string \<Rightarrow> bool" where
  "safe_href h \<longleftrightarrow> (case h of [] \<Rightarrow> False | c # r \<Rightarrow>
     c = CHR ''/'' \<and> (case r of [] \<Rightarrow> True | x # _ \<Rightarrow> x \<noteq> CHR ''/'')) \<or> List.take 8 h = ''https://''"

definition faqLinkPair :: "faq_question_dto \<Rightarrow> bool" where
  "faqLinkPair dto = (case (optionalText (yd_label dto), optionalText (yd_href dto)) of
     (None, None) \<Rightarrow> True
   | (Some label, Some href) \<Rightarrow> length label \<le> 120 \<and> length href \<le> 500 \<and> safe_href href
   | _ \<Rightarrow> False)"

definition getCategory_faq :: "id \<Rightarrow> editorial \<Rightarrow> error + faq_category" where
  "getCategory_faq i s = from_option (NotFound ''FAQ category not found'') (List.find (\<lambda>c. fc_id c = i \<and> \<not> fc_deleted c) (ed_categories s))"

definition getQuestion :: "id \<Rightarrow> editorial \<Rightarrow> error + faq_question" where
  "getQuestion i s = from_option (NotFound ''FAQ question not found'') (List.find (\<lambda>q. fq_id q = i \<and> \<not> fq_deleted q) (ed_questions s))"

definition createCategory_faq :: "instant \<Rightarrow> faq_category_dto \<Rightarrow> editorial \<Rightarrow> editorial" where
  "createCategory_faq now dto s = ping_cms (s\<lparr>ed_categories := ed_categories s @
     [\<lparr>fc_id = ed_next s, fc_title = js_trim (given_or (xd_title dto) []), fc_sort = given_or (xd_sort dto) 0,
       fc_active = given_or (xd_active dto) True, fc_created = now, fc_deleted = False\<rparr>], ed_next := Suc (ed_next s)\<rparr>)"

definition updateCategory_faq :: "id \<Rightarrow> faq_category_dto \<Rightarrow> editorial \<Rightarrow> error + editorial" where
  "updateCategory_faq i dto s = bindE (getCategory_faq i s) (\<lambda>c.
     Inr (ping_cms (s\<lparr>ed_categories := save_by fc_id (c\<lparr>fc_title := given_or (map_option js_trim (xd_title dto)) (fc_title c),
       fc_sort := given_or (xd_sort dto) (fc_sort c), fc_active := given_or (xd_active dto) (fc_active c)\<rparr>) (ed_categories s)\<rparr>)))"

definition removeCategory_faq :: "id \<Rightarrow> editorial \<Rightarrow> error + editorial" where
  "removeCategory_faq i s = bindE (getCategory_faq i s) (\<lambda>c.
     Inr (ping_cms (s\<lparr>ed_questions := map (\<lambda>q. if fq_category q = i \<and> \<not> fq_deleted q then q\<lparr>fq_deleted := True\<rparr> else q) (ed_questions s),
       ed_categories := save_by fc_id (c\<lparr>fc_deleted := True\<rparr>) (ed_categories s)\<rparr>)))"

definition createQuestion :: "instant \<Rightarrow> faq_question_dto \<Rightarrow> editorial \<Rightarrow> error + editorial" where
  "createQuestion now dto s = (let category = given_or (yd_category dto) 0 in bindE (getCategory_faq category s) (\<lambda>_.
     Inr (ping_cms (s\<lparr>ed_questions := ed_questions s @
       [\<lparr>fq_id = ed_next s, fq_category = category, fq_question = js_trim (given_or (yd_question dto) []),
         fq_answer = js_trim (given_or (yd_answer dto) []), fq_label = optionalText (yd_label dto), fq_href = optionalText (yd_href dto),
         fq_sort = given_or (yd_sort dto) 0, fq_active = given_or (yd_active dto) True, fq_created = now, fq_deleted = False\<rparr>],
       ed_next := Suc (ed_next s)\<rparr>))))"

definition patched_question :: "faq_question_dto \<Rightarrow> faq_question \<Rightarrow> faq_question" where
  "patched_question dto q =
     (let q1 = q\<lparr>fq_category := given_or (yd_category dto) (fq_category q), fq_question := given_or (map_option js_trim (yd_question dto)) (fq_question q),
                fq_answer := given_or (map_option js_trim (yd_answer dto)) (fq_answer q), fq_sort := given_or (yd_sort dto) (fq_sort q),
                fq_active := given_or (yd_active dto) (fq_active q)\<rparr>
      in if yd_label dto \<noteq> None \<or> yd_href dto \<noteq> None
         then q1\<lparr>fq_label := optionalText (yd_label dto), fq_href := optionalText (yd_href dto)\<rparr> else q1)"

definition updateQuestion :: "id \<Rightarrow> faq_question_dto \<Rightarrow> editorial \<Rightarrow> error + editorial" where
  "updateQuestion i dto s =
     bindE (getQuestion i s) (\<lambda>q.
     bindE (case yd_category dto of None \<Rightarrow> Inr () | Some c \<Rightarrow> bindE (getCategory_faq c s) (\<lambda>_. Inr ())) (\<lambda>_.
     Inr (ping_cms (s\<lparr>ed_questions := save_by fq_id (patched_question dto q) (ed_questions s)\<rparr>))))"

definition removeQuestion :: "id \<Rightarrow> editorial \<Rightarrow> error + editorial" where
  "removeQuestion i s = bindE (getQuestion i s) (\<lambda>q.
     Inr (ping_cms (s\<lparr>ed_questions := save_by fq_id (q\<lparr>fq_deleted := True\<rparr>) (ed_questions s)\<rparr>)))"

definition category_order :: "faq_category \<Rightarrow> faq_category \<Rightarrow> int" where
  "category_order = order_by fc_sort (\<lambda>a b. fc_created a - fc_created b)"

definition byOrder :: "faq_question \<Rightarrow> faq_question \<Rightarrow> int" where
  "byOrder = order_by fq_sort (\<lambda>a b. fq_created a - fq_created b)"

definition questions_of :: "editorial \<Rightarrow> faq_category \<Rightarrow> faq_question list" where
  "questions_of s c = filter (\<lambda>q. fq_category q = fc_id c \<and> \<not> fq_deleted q) (ed_questions s)"

definition listCategoriesAdmin :: "editorial \<Rightarrow> (faq_category \<times> faq_question list) list" where
  "listCategoriesAdmin s = map (\<lambda>c. (c, questions_of s c)) (js_sort category_order (filter (\<lambda>c. \<not> fc_deleted c) (ed_categories s)))"

definition listQuestionsAdmin :: "id option \<Rightarrow> editorial \<Rightarrow> error + faq_question list" where
  "listQuestionsAdmin category s = bindE (case category of None \<Rightarrow> Inr () | Some c \<Rightarrow> bindE (getCategory_faq c s) (\<lambda>_. Inr ())) (\<lambda>_.
     Inr (js_sort byOrder (filter (\<lambda>q. \<not> fq_deleted q \<and> (case category of None \<Rightarrow> True | Some c \<Rightarrow> fq_category q = c)) (ed_questions s))))"

record public_question =
  pq_id :: id
  pq_question :: string
  pq_answer :: string
  pq_sort :: int
  pq_link :: "(string \<times> string) option"

definition public_question_of :: "faq_question \<Rightarrow> public_question" where
  "public_question_of q = \<lparr>pq_id = fq_id q, pq_question = fq_question q, pq_answer = fq_answer q, pq_sort = fq_sort q,
     pq_link = (case (non_empty (fq_label q), non_empty (fq_href q)) of (Some l, Some h) \<Rightarrow> Some (l, h) | _ \<Rightarrow> None)\<rparr>"

definition listPublic_faq :: "editorial \<Rightarrow> (id \<times> string \<times> int \<times> public_question list) list" where
  "listPublic_faq s = filter (\<lambda>(_, _, _, qs). qs \<noteq> [])
     (map (\<lambda>c. (fc_id c, fc_title c, fc_sort c, map public_question_of (js_sort byOrder (filter fq_active (questions_of s c)))))
       (js_sort category_order (filter (\<lambda>c. fc_active c \<and> \<not> fc_deleted c) (ed_categories s))))"

subsection \<open>Runs of the questions\<close>

datatype faq_step =
    CreateFaqCategory faq_category_dto
  | UpdateFaqCategory id faq_category_dto
  | RemoveFaqCategory id
  | CreateQuestion faq_question_dto
  | UpdateQuestion id faq_question_dto
  | RemoveQuestion id

text \<open>A request whose link is refused does not reach the service.\<close>

definition faq_do :: "instant \<times> faq_step \<Rightarrow> editorial \<Rightarrow> editorial" where
  "faq_do x s = (case x of (now, st) \<Rightarrow>
     (case (case st of
              CreateFaqCategory dto \<Rightarrow> Inr (createCategory_faq now dto s)
            | UpdateFaqCategory i dto \<Rightarrow> updateCategory_faq i dto s
            | RemoveFaqCategory i \<Rightarrow> removeCategory_faq i s
            | CreateQuestion dto \<Rightarrow> bindE (guardE (faqLinkPair dto) (BadRequest ''faqLinkPair'')) (\<lambda>_. createQuestion now dto s)
            | UpdateQuestion i dto \<Rightarrow> bindE (guardE (faqLinkPair dto) (BadRequest ''faqLinkPair'')) (\<lambda>_. updateQuestion i dto s)
            | RemoveQuestion i \<Rightarrow> removeQuestion i s)
      of Inl _ \<Rightarrow> s | Inr s1 \<Rightarrow> s1))"

definition empty_editorial :: editorial where
  "empty_editorial = \<lparr>ed_services = [], ed_staff = [], ed_settings = None, ed_categories = [], ed_questions = [], ed_next = 1, ed_pings = 0\<rparr>"

definition faq_run :: "(instant \<times> faq_step) list \<Rightarrow> editorial" where
  "faq_run steps = fold faq_do steps empty_editorial"

end
