(* ===== verification/Cms_Editorial_Laws.thy ===== *)
theory Cms_Editorial_Laws
  imports Cms_Editorial
begin

section \<open>The questions the store shows\<close>

text \<open>
  Over any run, every question that is not deleted has its category, the store shows each active one once, under an active category,
  and every link it shows is a path of the store or an address with https.
\<close>

definition link_ok :: "faq_question \<Rightarrow> bool" where
  "link_ok q \<longleftrightarrow> (case (fq_label q, fq_href q) of (None, None) \<Rightarrow> True | (Some l, Some h) \<Rightarrow> l \<noteq> [] \<and> h \<noteq> [] \<and> safe_href h | _ \<Rightarrow> False)"

definition live_category :: "editorial \<Rightarrow> id \<Rightarrow> bool" where
  "live_category s i \<longleftrightarrow> (\<exists>c \<in> set (ed_categories s). fc_id c = i \<and> \<not> fc_deleted c)"

definition faq_ok :: "editorial \<Rightarrow> bool" where
  "faq_ok s \<longleftrightarrow> distinct (map fc_id (ed_categories s)) \<and> (\<forall>c \<in> set (ed_categories s). fc_id c < ed_next s) \<and>
     (\<forall>q \<in> set (ed_questions s). link_ok q \<and> (fq_deleted q \<or> live_category s (fq_category q)))"

lemma optionalText_nonempty: "optionalText x = Some t \<Longrightarrow> t \<noteq> []"
  by (auto simp: optionalText_def trimmed_def non_empty_def split: if_splits)

lemma faqLinkPair_ok:
  assumes "faqLinkPair dto" "fq_label q = optionalText (yd_label dto)" "fq_href q = optionalText (yd_href dto)"
  shows "link_ok q"
  using assms optionalText_nonempty by (auto simp: faqLinkPair_def link_ok_def split: option.splits)

lemma getCategory_faq_live: "getCategory_faq i s = Inr c \<Longrightarrow> live_category s i \<and> c \<in> set (ed_categories s) \<and> fc_id c = i"
  by (auto simp: getCategory_faq_def from_option_eq_Inr live_category_def find_Some_iff)

lemma getQuestion_row: "getQuestion i s = Inr q \<Longrightarrow> q \<in> set (ed_questions s) \<and> \<not> fq_deleted q"
  by (auto simp: getQuestion_def from_option_eq_Inr find_Some_iff)

lemma save_row: "x \<in> set (save_by key r rows) \<Longrightarrow> x = r \<or> x \<in> set rows"
  by (auto simp: save_by_def)

text \<open>A step on the questions alone, whose new rows are in order.\<close>

lemma questions_ok:
  assumes "faq_ok s" "ed_categories s' = ed_categories s" "ed_next s \<le> ed_next s'"
    "\<And>q. q \<in> set (ed_questions s') \<Longrightarrow> q \<in> set (ed_questions s) \<or> link_ok q \<and> (fq_deleted q \<or> live_category s (fq_category q))"
  shows "faq_ok s'"
  using assms by (fastforce simp: faq_ok_def live_category_def)

lemma patched_question_ok:
  assumes "link_ok q" "faqLinkPair dto"
  shows "link_ok (patched_question dto q)"
proof (cases "yd_label dto \<noteq> None \<or> yd_href dto \<noteq> None")
  case True
  then show ?thesis by (intro faqLinkPair_ok [OF assms(2)]) (simp_all add: patched_question_def Let_def)
next
  case False
  then show ?thesis using assms(1) by (simp add: patched_question_def Let_def link_ok_def)
qed

lemma faq_do_ok:
  assumes "faq_ok s"
  shows "faq_ok (faq_do (now, st) s)"
proof (cases st)
  case (CreateFaqCategory dto)
  then show ?thesis using assms by (fastforce simp: faq_do_def createCategory_faq_def ping_cms_def faq_ok_def live_category_def less_Suc_eq)
next
  case (UpdateFaqCategory i dto)
  show ?thesis
  proof (cases "getCategory_faq i s")
    case (Inr c)
    let ?c = "c\<lparr>fc_title := given_or (map_option js_trim (xd_title dto)) (fc_title c), fc_sort := given_or (xd_sort dto) (fc_sort c),
      fc_active := given_or (xd_active dto) (fc_active c)\<rparr>"
    have found: "c \<in> set (ed_categories s)" "fc_id c = i" "\<not> fc_deleted c"
      using Inr by (auto simp: getCategory_faq_def from_option_eq_Inr find_Some_iff)
    let ?s = "s\<lparr>ed_categories := save_by fc_id ?c (ed_categories s), ed_pings := Suc (ed_pings s)\<rparr>"
    have "live_category ?s j" if l: "live_category s j" for j
    proof (cases "j = i")
      case True
      have "?c \<in> set (ed_categories ?s)" using found(1) by (force simp: save_by_def)
      then show ?thesis using found(2,3) True unfolding live_category_def by (intro bexI [of _ ?c]) auto
    next
      case False
      then show ?thesis using l found(2) by (force simp: live_category_def save_by_def)
    qed
    moreover have "fc_id x < ed_next s" if "x \<in> set (save_by fc_id ?c (ed_categories s))" for x
      using save_row [OF that] found(1) assms by (auto simp: faq_ok_def)
    ultimately have "faq_ok ?s"
      using assms by (auto simp: faq_ok_def save_by_keys)
    then show ?thesis using UpdateFaqCategory Inr by (simp add: faq_do_def updateCategory_faq_def ping_cms_def)
  qed (use UpdateFaqCategory assms in \<open>simp add: faq_do_def updateCategory_faq_def\<close>)
next
  case (RemoveFaqCategory i)
  show ?thesis
  proof (cases "getCategory_faq i s")
    case (Inr c)
    have found: "c \<in> set (ed_categories s)" "fc_id c = i" using getCategory_faq_live [OF Inr] by simp_all
    let ?qs = "map (\<lambda>q. if fq_category q = i \<and> \<not> fq_deleted q then q\<lparr>fq_deleted := True\<rparr> else q) (ed_questions s)"
    let ?s = "s\<lparr>ed_questions := ?qs, ed_categories := save_by fc_id (c\<lparr>fc_deleted := True\<rparr>) (ed_categories s), ed_pings := Suc (ed_pings s)\<rparr>"
    have "live_category ?s j" if "live_category s j" "j \<noteq> i" for j
      using that found(2) by (force simp: live_category_def save_by_def)
    moreover have "link_ok (q\<lparr>fq_deleted := True\<rparr>) = link_ok q" for q by (simp add: link_ok_def)
    moreover have "fc_id x < ed_next s" if "x \<in> set (save_by fc_id (c\<lparr>fc_deleted := True\<rparr>) (ed_categories s))" for x
      using save_row [OF that] found(1) assms by (auto simp: faq_ok_def)
    ultimately have "faq_ok ?s" using assms by (auto simp: faq_ok_def save_by_keys)
    then show ?thesis using RemoveFaqCategory Inr by (simp add: faq_do_def removeCategory_faq_def ping_cms_def)
  qed (use RemoveFaqCategory assms in \<open>simp add: faq_do_def removeCategory_faq_def\<close>)
next
  case (CreateQuestion dto)
  show ?thesis
  proof (cases "bindE (guardE (faqLinkPair dto) (BadRequest ''faqLinkPair'')) (\<lambda>_. createQuestion now dto s)")
    case (Inr s')
    then have "faqLinkPair dto" "live_category s (given_or (yd_category dto) 0)" and s': "\<exists>q. ed_questions s' = ed_questions s @ [q] \<and>
        fq_label q = optionalText (yd_label dto) \<and> fq_href q = optionalText (yd_href dto) \<and> fq_category q = given_or (yd_category dto) 0"
      "ed_categories s' = ed_categories s" "ed_next s \<le> ed_next s'"
      using getCategory_faq_live by (auto simp: bindE_eq_Inr createQuestion_def Let_def ping_cms_def)
    then have "faq_ok s'" using faqLinkPair_ok by (intro questions_ok [OF assms]) auto
    then show ?thesis using CreateQuestion Inr by (simp add: faq_do_def)
  qed (use CreateQuestion assms in \<open>simp add: faq_do_def\<close>)
next
  case (UpdateQuestion i dto)
  show ?thesis
  proof (cases "bindE (guardE (faqLinkPair dto) (BadRequest ''faqLinkPair'')) (\<lambda>_. updateQuestion i dto s)")
    case (Inr s')
    then obtain q where pair: "faqLinkPair dto" and q: "getQuestion i s = Inr q"
      and c: "yd_category dto = None \<or> (\<exists>c. yd_category dto = Some c \<and> live_category s c)"
      and s': "ed_questions s' = save_by fq_id (patched_question dto q) (ed_questions s)" "ed_categories s' = ed_categories s" "ed_next s' = ed_next s"
      using getCategory_faq_live by (auto simp: bindE_eq_Inr updateQuestion_def ping_cms_def split: option.splits)
    have "link_ok (patched_question dto q)" "live_category s (fq_category (patched_question dto q))"
      using patched_question_ok [OF _ pair] getQuestion_row [OF q] assms c
      by (auto simp: faq_ok_def patched_question_def Let_def given_or_def)
    then have "faq_ok s'"
      using s' save_row [of _ fq_id "patched_question dto q" "ed_questions s"] by (intro questions_ok [OF assms]) auto
    then show ?thesis using UpdateQuestion Inr by (simp add: faq_do_def)
  qed (use UpdateQuestion assms in \<open>simp add: faq_do_def\<close>)
next
  case (RemoveQuestion i)
  show ?thesis
  proof (cases "getQuestion i s")
    case (Inr q)
    have "link_ok (q\<lparr>fq_deleted := True\<rparr>)" using getQuestion_row [OF Inr] assms by (auto simp: faq_ok_def link_ok_def)
    then have "faq_ok (s\<lparr>ed_questions := save_by fq_id (q\<lparr>fq_deleted := True\<rparr>) (ed_questions s), ed_pings := Suc (ed_pings s)\<rparr>)"
      by (intro questions_ok [OF assms]) (auto dest!: save_row)
    then show ?thesis using RemoveQuestion Inr by (simp add: faq_do_def removeQuestion_def ping_cms_def)
  qed (use RemoveQuestion assms in \<open>simp add: faq_do_def removeQuestion_def\<close>)
qed

lemma faq_run_ok: "faq_ok (faq_run steps)"
proof -
  have "faq_ok (fold faq_do steps s)" if "faq_ok s" for s
    using that by (induction steps arbitrary: s) (auto simp: faq_do_ok)
  moreover have "faq_ok empty_editorial" by (simp add: faq_ok_def empty_editorial_def)
  ultimately show ?thesis by (simp add: faq_run_def)
qed

subsection \<open>What is shown\<close>

definition active_category :: "editorial \<Rightarrow> id \<Rightarrow> bool" where
  "active_category s i \<longleftrightarrow> (\<exists>c \<in> set (ed_categories s). fc_id c = i \<and> fc_active c \<and> \<not> fc_deleted c)"

lemma mset_by_key:
  assumes "distinct (map key cs)"
  shows "mset (concat (map (\<lambda>c. filter (\<lambda>q. field q = key c \<and> Q q) qs) cs)) = mset (filter (\<lambda>q. field q \<in> key ` set cs \<and> Q q) qs)"
  using assms
proof (induction cs)
  case (Cons c cs)
  have "mset (filter (\<lambda>q. field q = key c \<and> Q q) qs) + mset (filter (\<lambda>q. field q \<in> key ` set cs \<and> Q q) qs) =
      mset (filter (\<lambda>q. field q \<in> key ` set (c # cs) \<and> Q q) qs)"
    using Cons.prems by (induction qs) auto
  then show ?case using Cons by simp
qed simp

lemma shown_questions:
  "concat (map (\<lambda>(_, _, _, qs). map pq_id qs) (listPublic_faq s)) =
     concat (map (\<lambda>c. map fq_id (js_sort byOrder (filter fq_active (questions_of s c))))
       (js_sort category_order (filter (\<lambda>c. fc_active c \<and> \<not> fc_deleted c) (ed_categories s))))"
proof -
  have "concat (map (\<lambda>(_, _, _, qs). map pq_id qs) (filter (\<lambda>(_, _, _, qs). qs \<noteq> [])
      (map (\<lambda>c. (fc_id c, fc_title c, fc_sort c, map public_question_of (js_sort byOrder (filter fq_active (questions_of s c))))) cs))) =
    concat (map (\<lambda>c. map fq_id (js_sort byOrder (filter fq_active (questions_of s c)))) cs)" for cs
    by (induction cs) (auto simp: o_def public_question_of_def)
  then show ?thesis by (simp add: listPublic_faq_def)
qed

text \<open>Over any run of the frequent questions: every question that is not deleted belongs to a category that is not, the store shows
  exactly the active questions of the active categories, each once, and every link shown is a path of the store or an https address.\<close>

theorem faq_shows_the_active_questions:
  fixes steps
  defines "s \<equiv> faq_run steps"
  shows "mset (concat (map (\<lambda>(_, _, _, qs). map pq_id qs) (listPublic_faq s))) =
      mset (map fq_id (filter (\<lambda>q. active_category s (fq_category q) \<and> fq_active q \<and> \<not> fq_deleted q) (ed_questions s))) \<and>
    (\<forall>q \<in> set (ed_questions s). \<not> fq_deleted q \<longrightarrow> live_category s (fq_category q)) \<and>
    (\<forall>(_, _, _, qs) \<in> set (listPublic_faq s). \<forall>p \<in> set qs. \<forall>l h. pq_link p = Some (l, h) \<longrightarrow> safe_href h)"
proof -
  have ok: "faq_ok s" by (simp add: s_def faq_run_ok)
  let ?cs = "js_sort category_order (filter (\<lambda>c. fc_active c \<and> \<not> fc_deleted c) (ed_categories s))"
  have d: "distinct (map fc_id ?cs)"
  proof -
    have "distinct (map fc_id (filter (\<lambda>c. fc_active c \<and> \<not> fc_deleted c) (ed_categories s)))"
      using ok by (simp add: faq_ok_def distinct_map_filter)
    then show ?thesis by (metis distinct_map distinct_js_sort set_js_sort)
  qed
  have "mset (concat (map (\<lambda>(_, _, _, qs). map pq_id qs) (listPublic_faq s))) =
      image_mset fq_id (mset (concat (map (\<lambda>c. filter (\<lambda>q. fq_category q = fc_id c \<and> fq_active q \<and> \<not> fq_deleted q) (ed_questions s)) ?cs)))"
  proof -
    have "mset (concat (map (\<lambda>c. map fq_id (js_sort byOrder (filter fq_active (questions_of s c)))) cs)) =
        image_mset fq_id (mset (concat (map (\<lambda>c. filter (\<lambda>q. fq_category q = fc_id c \<and> fq_active q \<and> \<not> fq_deleted q) (ed_questions s)) cs)))" for cs
      by (induction cs) (simp_all add: questions_of_def mset_js_sort conj_commute conj_left_commute)
    then show ?thesis by (simp only: shown_questions)
  qed
  also have "\<dots> = image_mset fq_id (mset (filter (\<lambda>q. fq_category q \<in> fc_id ` set ?cs \<and> fq_active q \<and> \<not> fq_deleted q) (ed_questions s)))"
    by (simp only: mset_by_key [OF d, where field = fq_category and Q = "\<lambda>q. fq_active q \<and> \<not> fq_deleted q"])
  also have "\<dots> = mset (map fq_id (filter (\<lambda>q. active_category s (fq_category q) \<and> fq_active q \<and> \<not> fq_deleted q) (ed_questions s)))"
  proof -
    have "(\<lambda>q. fq_category q \<in> fc_id ` set ?cs \<and> fq_active q \<and> \<not> fq_deleted q) =
        (\<lambda>q. active_category s (fq_category q) \<and> fq_active q \<and> \<not> fq_deleted q)"
      by (intro ext) (force simp: active_category_def)
    from arg_cong [OF this, of "\<lambda>P. image_mset fq_id (mset (filter P (ed_questions s)))"] show ?thesis
      by (simp only: mset_map)
  qed
  finally have shown: "mset (concat (map (\<lambda>(_, _, _, qs). map pq_id qs) (listPublic_faq s))) =
      mset (map fq_id (filter (\<lambda>q. active_category s (fq_category q) \<and> fq_active q \<and> \<not> fq_deleted q) (ed_questions s)))" .
  have "safe_href h" if link: "(a, b, c, qs) \<in> set (listPublic_faq s)" "p \<in> set qs" "pq_link p = Some (l, h)" for a b c qs p l h
  proof -
    have "p \<in> public_question_of ` set (ed_questions s)"
      using link(1,2) by (auto simp: listPublic_faq_def questions_of_def)
    then obtain q where "q \<in> set (ed_questions s)" "p = public_question_of q" by blast
    then show ?thesis using ok link(3)
      by (auto simp: faq_ok_def link_ok_def public_question_of_def non_empty_def split: option.splits if_splits)
  qed
  then show ?thesis using shown ok by (fastforce simp: faq_ok_def)
qed

theorem faq_shows_the_active_questions_witness:
  "let s = faq_run [(1, CreateFaqCategory \<lparr>xd_title = Some ''t'', xd_sort = None, xd_active = None\<rparr>),
      (2, CreateQuestion \<lparr>yd_category = Some 1, yd_question = Some ''q'', yd_answer = Some ''a'', yd_label = Some (Some ''l''),
         yd_href = Some (Some ''/p''), yd_sort = None, yd_active = None\<rparr>)]
   in map (\<lambda>(i, _, _, qs). (i, map pq_link qs)) (listPublic_faq s) = [(1, [Some (''l'', ''/p'')])] \<and> live_category s 1 \<and> safe_href ''/p''"
proof -
  let ?steps = "[(1, CreateFaqCategory \<lparr>xd_title = Some ''t'', xd_sort = None, xd_active = None\<rparr>),
      (2, CreateQuestion \<lparr>yd_category = Some 1, yd_question = Some ''q'', yd_answer = Some ''a'', yd_label = Some (Some ''l''),
         yd_href = Some (Some ''/p''), yd_sort = None, yd_active = None\<rparr>)]"
  have shown: "map (\<lambda>(i, _, _, qs). (i, map pq_link qs)) (listPublic_faq (faq_run ?steps)) = [(1, [Some (''l'', ''/p'')])]"
    and row: "map (\<lambda>q. (fq_category q, fq_deleted q)) (ed_questions (faq_run ?steps)) = [(1, False)]"
    by code_simp+
  note t = faq_shows_the_active_questions [of ?steps]
  from t row have "live_category (faq_run ?steps) 1" by fastforce
  moreover obtain t k p where "(1, t, k, [p]) \<in> set (listPublic_faq (faq_run ?steps))" "pq_link p = Some (''l'', ''/p'')"
    using shown by (auto simp: map_eq_Cons_conv split: prod.splits)
  then have "safe_href ''/p''" using faq_shows_the_active_questions [of ?steps] by fastforce
  ultimately show ?thesis using shown by (simp add: Let_def)
qed

end
