(* ===== verification/Spec2Isabelle.thy ===== *)
theory Spec2Isabelle
  imports Permissions_Laws Stock_Contract Checkout_Laws Expiry_Laws Accounts_Laws Configuration_Laws Collections Cms_Pages_Laws Contact_Laws Cms_Home_Laws Cms_Editorial_Laws
begin

text \<open>
  A verification library of the Maxi API, the back end of a shop (\<open>src/src/\<close>, NestJS services over
  PostgreSQL). This theory only gathers the others; each property is stated where its component is, in a
  theorem preceded by its number (C1, C2, ...).

  \<^bold>\<open>The program and its parts.\<close> A customer fills a cart, checks out into an order that holds stock, pays
  through a gateway or by hand before a deadline, and receives or collects the goods; staff move the order
  along, correct it, refund it and manage stock, catalogue, permissions and accounts. The services share
  one database. Here the shared tables are the record \<open>db\<close> (theory \<open>Catalog\<close>; its field \<open>d_stock\<close> is the
  record \<open>stock\<close> of \<open>Inventory\<close>, \<open>d_access\<close> the record \<open>access\<close> of \<open>Permissions\<close>, \<open>d_storage\<close> and \<open>d_geo\<close>
  those of \<open>Stock_Locations\<close>), and the tables of people are the record \<open>people\<close> (theory \<open>Customers\<close>).
  A method of a service is a function from the tables to \<open>error + tables\<close>: \<open>Inl\<close> is a thrown exception (the
  transaction is undone, so the old tables stay), \<open>Inr\<close> the committed result. A method that writes outside
  a transaction and can still fail gives its answer and its tables apart (\<open>createChargeForClient_run\<close>). Functions keep the names of
  the source, with a suffix where two services use the same name. Clock, time zone, collation, random
  bytes, registered gateways and external platforms are arguments (\<open>env\<close>, \<open>gateway_api\<close>, \<open>clerk_api\<close>).

  \<^bold>\<open>Theories, bottom up.\<close>
  \<^item> \<open>Prelude\<close>: results and errors, rows saved by key, JavaScript's Map, stable sort and JSON, and the
    locale \<open>stepwise\<close> (an invariant of a step relation), which every invariant of a run interprets.
  \<^item> \<open>Js_Number\<close>: binary64 arithmetic as exact rationals with rounding; money in cents. \<open>Texts\<close>, \<open>Names\<close>:
    printed numbers, slugs and the numbering that makes a name unique. \<open>Search\<close>: the accent-insensitive
    search of \<open>common/search\<close>, the one of the database over its function \<open>unaccent\<close> (an argument) and the one in
    memory over the canonical decomposition, which is written out for the Latin letters. \<open>Business_Days\<close>: holidays, deadlines, payment
    sealing, identity cards.
  \<^item> \<open>Entities\<close>: the TypeORM entities as records, their enums as datatypes.
  \<^item> \<open>Inventory\<close> (\<open>inventory.service.ts\<close>: \<open>reserve\<close>, \<open>confirm_reservations\<close>, \<open>release_reservations\<close>,
    \<open>release_product_units\<close>, \<open>confirm_product_reservations\<close>), \<open>Inventory_Operations\<close> (\<open>createOperation\<close>);
    \<open>Inventory_Books\<close>, \<open>Inventory_Effects\<close>, \<open>Inventory_Units\<close> prove what each does to quantities, holds,
    units per order and ledger; \<open>Stock_Contract\<close> states the contract the other services rely on as the
    locale \<open>stock_service\<close>, interpreted on the model, and derives the round trips from it.
  \<^item> \<open>Permissions\<close> and \<open>Permissions_Laws\<close> (\<open>permissions.service.ts\<close> and the two guards); \<open>Stock_Locations\<close>.
  \<^item> \<open>Catalog\<close> (shop window and cart), \<open>Cart_Laws\<close>; \<open>Taxonomy\<close> (\<open>categories.service.ts\<close>) and \<open>Product_Catalog\<close>
    (editing of products) with the invariant \<open>catalogue_ok\<close>.
  \<^item> \<open>Fulfillment\<close>, \<open>Client_Addresses\<close>, \<open>Payment_Methods\<close>: the choices of a checkout.
  \<^item> \<open>Order_Model\<close>, \<open>Order_Creation\<close>, \<open>Order_Changes\<close> (\<open>orders.service.ts\<close>), \<open>Order_Expiry\<close>, \<open>Payments\<close>, \<open>Refunds\<close>;
    \<open>Order_Stock\<close> extends the stock contract with the two calls that edit a line (locale \<open>line_service\<close>) and
    states the promise of a status; \<open>Order_Laws\<close>, \<open>Creation_Laws\<close>, \<open>Line_Laws\<close>, \<open>Payment_Laws\<close> prove that each
    operation keeps the shop's invariant; \<open>Shop\<close> composes every operation into one step relation;
    \<open>Life_Cycle\<close> is the abstract specification and the refinement; \<open>Checkout_Laws\<close>, \<open>Expiry_Laws\<close> and
    \<open>Late_Payments\<close> hold the results about whole operations.
  \<^item> \<open>Gateways\<close> and \<open>Gateways_Laws\<close> (\<open>payments/gateways/\<close>): the card, deposit and wallet gateways over the record
    \<open>platforms\<close> (configuration, answers of the platforms, signature functions); \<open>platform_api\<close> is the
    \<open>gateway_api\<close> that \<open>Payments\<close> takes as an argument.
  \<^item> \<open>Customers\<close>, \<open>Accounts\<close>, \<open>Accounts_Laws\<close>: customers, staff accounts, invitations, the identity
    provider's webhooks and the sign-in (\<open>clients/\<close>, \<open>users/\<close>, \<open>webhooks/\<close>, \<open>auth/\<close>).
  \<^item> \<open>Routes\<close> (every \<open>*.controller.ts\<close> as a table of routes and marks) and \<open>Doors\<close> (the tables with the guards of
    \<open>Permissions\<close>: who reaches which handler); \<open>Configuration\<close> and \<open>Configuration_Laws\<close> (\<open>config/\<close> and the shared
    secrets): what a program that starts is known to check.
  \<^item> \<open>Mail\<close> and \<open>Mail_Laws\<close> (\<open>mail/\<close>): the log of mails as a lock, the quota, the mails of an order and the sweep
    of reminders. \<open>Listings\<close> and \<open>Listings_Laws\<close> (the reading side of \<open>orders.service.ts\<close> and the reports), and
    \<open>Collections\<close> (\<open>collections.service.ts\<close>).
  \<^item> \<open>Cms_Pages\<close> and \<open>Cms_Pages_Laws\<close> (pages and notices: draft, publication, history), \<open>Cms_Home\<close> and \<open>Cms_Home_Laws\<close>
    (the home of the store, its draft and mark of changes, the banners), \<open>Cms_Editorial\<close> and \<open>Cms_Editorial_Laws\<close>
    (cards, settings, frequent questions): \<open>cms/\<close>. \<open>Contact\<close> and \<open>Contact_Laws\<close>: \<open>contact/\<close> and its nomenclators.

  \<^bold>\<open>What the properties show.\<close> Stock: after any run of the shop, what is held and what has left the storages
  is exactly what the orders say, every row, hold and ledger entry agree, and holding is all or nothing. One call
  is left out of those runs, a new attempt of payment whose own refresh revives an expired order: it leaves that
  order cancelled with its units held (\<open>retry_cancels_a_revived_order\<close> in \<open>Late_Payments\<close>).
  Orders: every operation of every actor, that call included, leaves an order where it was or makes one single
  move of the life cycle of that actor; numbers stay unique; a checkout whose checks pass cannot fail and is exactly the cart; a sweep cancels
  exactly the due orders. Money: refunds never commit more than was charged, totals computed in binary
  floating point are exact to the cent, a payment that comes late revives the order or opens a refund.
  Catalogue: slugs and codes stay unique, every product hangs off a live category and department as long as no
  edit nests departments, the tree and the window agree. People: nobody becomes super administrator without one,
  but for the notice of a sign-up that finds a row made by hand, which is how an administrator makes one; the
  last one stays until the identity provider announces that the account is gone;
  permissions are default deny and the panel's map agrees with the guard. Edges: every route is reached by its
  own address, the permissions asked for are those a role can be given, what is open without an account is a closed
  list, a deployed program that starts takes no made-up token and no unsigned notice of the identity provider; the
  notices of the wallet are signed where its secret is set. Mail and reports: a locked
  mail leaves once, the sweep sends exactly the reminders due, the parts of a report add up to the same orders.
  Content: only publishing changes the text the store shows, the store is told of every write that changes what it
  shows, the mark of unpublished changes is exact, an answered message was answered or marked so by hand. The theorems of kind error state
  where the code does not do what it means to; the manifest lists them with the other findings.

  \<^bold>\<open>Bounds and fuel.\<close> The only loops without a structural measure are the searches for a free name
  (\<open>next_code\<close>, and the slugs of pages and the codes of nomenclators: one turn more than there are names
  taken, which \<open>next_code_total\<close> shows to be enough) and
  the count of business days (\<open>finDelPlazo\<close>, bounded in the source itself; the property shows that the
  bound is never reached). Quantities and cents are \<open>int\<close>: the columns are checked by the database and
  stay far below the 53 bits of a JavaScript number, for which the cart and fee properties prove exactness.

  \<^bold>\<open>Concurrency.\<close> A call of a service is one step of a run, and runs take the steps of all actors in
  any order. Where a service reads before its transaction, the model has the deciding part apart from the
  writing part (\<open>updateStatus_check\<close> and the like in \<open>Order_Changes\<close>), but the runs take both together: races
  between a reading and its transaction are not covered. The sweep and the refunds read again inside their
  transaction, under a lock, and are modelled so. Outside transactions each request is taken to run to its end,
  but for the publication of a page, whose two writes are apart (C37), and the new attempt of a payment.

  \<^bold>\<open>Not modelled, and why.\<close> The drawing of PDFs and the wording of mails (layout and text; the wording is an
  argument), uploads (calls to an object store), the dashboard (aggregate queries on which nothing depends), the
  fixed tables of provinces and municipalities, the outcome of the HTTP call that tells the store of a change (the code
  ignores it; the model counts the calls, none when the address or the secret is unset), migrations and seeds (run once), the copies of fields into responses and the declarations that
  validate requests (what a proof needs of them is a hypothesis or part of the type), the paginated listings of
  stock, staff and customers, filters, interceptors and limits of the framework, and the wiring of the server.
  The payment platforms, the mail provider and the identity provider are not under \<open>src/\<close>: what they answer is
  an argument of the model.
\<close>

end
